(* ===== verification/Prelude.thy ===== *)
theory Prelude
  imports Main "HOL-Library.Word"
begin

text \<open>
  Shared vocabulary of the development: the machine-integer types of the C code, the
  outcome of a helper (normal return, or a \<open>longjmp\<close>-like stop), the sequencing operator
  over outcomes, and the generic facts about bits, carries and flag masks that the
  component theories use.  The collections \<open>flag_bits\<close> and \<open>outcome_simps\<close> gather
  the rewrite rules that the component proofs hand to the simplifier.
\<close>

unbundle bit_operations_syntax

named_theorems flag_bits
named_theorems outcome_simps

section \<open>Machine integers\<close>

type_synonym u8 = "8 word"
type_synonym u16 = "16 word"
type_synonym u32 = "32 word"
type_synonym u64 = "64 word"

text \<open>
  \<open>target_ulong\<close> is 64 bits wide (\<open>config.h\<close> defines \<open>TARGET_X86_64\<close>).
  C's signed \<open>int\<close> shares the 32-bit word type with \<open>uint32_t\<close>; where the C code
  compares or divides signed values the model reads the word with \<open>sint\<close>.
  An \<open>int\<close> constant mask of the C headers is a polymorphic word: converting a C
  \<open>int\<close> to a wider unsigned type sign-extends it, which is \<open>word_of_int\<close> of its value.
\<close>

section \<open>Outcomes of helper functions\<close>

text \<open>
  A helper either returns a value and the new state, or it stops: with
  \<open>cpu_loop_exit\<close> (a \<open>longjmp\<close> back to the main loop, keeping the state reached so
  far), with \<open>cpu_abort\<close>, or because the C code runs into behaviour that the C
  standard leaves undefined (a division overflow or an over-long shift).
\<close>

datatype stop = CpuLoopExit | CpuAbort | HostUndefined

datatype ('a, 's) outcome = Done 'a 's | Stop stop 's

fun bindx :: "('a, 's) outcome \<Rightarrow> ('a \<Rightarrow> 's \<Rightarrow> ('b, 's) outcome) \<Rightarrow> ('b, 's) outcome" where
  "bindx (Done a s) f = f a s"
| "bindx (Stop e s) f = Stop e s"

declare bindx.simps [outcome_simps]

fun final_state :: "('a, 's) outcome \<Rightarrow> 's" where
  "final_state (Done a s) = s"
| "final_state (Stop e s) = s"

declare final_state.simps [outcome_simps]

lemma bindx_Done_right [simp]: "bindx m Done = m"
  by (cases m) simp_all

lemma bindx_assoc: "bindx (bindx m f) g = bindx m (\<lambda>a s. bindx (f a s) g)"
  by (cases m) simp_all

lemma bindx_eq_Done_iff [outcome_simps]:
  "bindx m f = Done b t \<longleftrightarrow> (\<exists>a s. m = Done a s \<and> f a s = Done b t)"
  by (cases m) simp_all

lemma bindx_if: "bindx (if c then m else n) f = (if c then bindx m f else bindx n f)"
  by simp

text \<open>A straight-line block of C statements, each a function on the state.\<close>

fun block :: "('s \<Rightarrow> 's) list \<Rightarrow> 's \<Rightarrow> 's" where
  "block [] s = s"
| "block (f # fs) s = block fs (f s)"

lemma block_append: "block (fs @ gs) s = block gs (block fs s)"
  by (induction fs arbitrary: s) simp_all

text \<open>A field that no statement of a block changes keeps its value.\<close>

lemma block_frame:
  assumes "\<And>f s. f \<in> set fs \<Longrightarrow> q (f s) = q s"
  shows "q (block fs s) = q s"
  using assms by (induction fs arbitrary: s) simp_all

text \<open>
  A field after a block is what its last writer, statement \<open>n\<close>, made of it; \<open>I\<close> is what the
  writer reads, which no earlier statement changes.
\<close>

lemma block_write:
  assumes "n < length fs" "list_all (\<lambda>f. \<forall>t. I (f t) = I t) (take n fs)"
    and "list_all (\<lambda>f. \<forall>t. q (f t) = q t) (drop (Suc n) fs)"
    and "\<And>t. I t = I s \<Longrightarrow> q ((fs ! n) t) = v"
  shows "q (block fs s) = v"
proof -
  have frame: "list_all (\<lambda>f. \<forall>t. r (f t) = r t) gs \<Longrightarrow> r (block gs u) = r u" for r :: "'a \<Rightarrow> 'd" and gs u
    by (rule block_frame) (auto simp: list_all_iff)
  have frame': "list_all (\<lambda>f. \<forall>t. r (f t) = r t) gs \<Longrightarrow> r (block gs u) = r u" for r :: "'a \<Rightarrow> 'e" and gs u
    by (rule block_frame) (auto simp: list_all_iff)
  have "fs = take n fs @ fs ! n # drop (Suc n) fs"
    using assms(1) by (rule id_take_nth_drop)
  then have "block fs s = block (drop (Suc n) fs) ((fs ! n) (block (take n fs) s))"
    by (metis block_append block.simps(2))
  with assms frame [of q "drop (Suc n) fs"] frame' [of I "take n fs" s] show ?thesis by simp
qed

text \<open>The same where two statements in a row make the field.\<close>

lemma block_write_two:
  assumes "Suc n < length fs" "list_all (\<lambda>f. \<forall>t. I (f t) = I t) (take n fs)"
    and "list_all (\<lambda>f. \<forall>t. q (f t) = q t) (drop (Suc (Suc n)) fs)"
    and "\<And>t. I t = I s \<Longrightarrow> q ((fs ! Suc n) ((fs ! n) t)) = v"
  shows "q (block fs s) = v"
proof -
  let ?gs = "take n fs @ (\<lambda>t. (fs ! Suc n) ((fs ! n) t)) # drop (Suc (Suc n)) fs"
  have "fs = take n fs @ fs ! n # fs ! Suc n # drop (Suc (Suc n)) fs"
    using assms(1) by (simp add: Cons_nth_drop_Suc id_take_nth_drop [of n fs, symmetric])
  then have "block fs s = block ?gs s" by (metis block_append block.simps(2))
  moreover have "q (block ?gs s) = v"
    by (rule block_write [where n = n and I = I]) (use assms in \<open>simp_all add: nth_append\<close>)
  ultimately show ?thesis by simp
qed

section \<open>Machines with an invariant\<close>

text \<open>
  Several components are state machines: a step function over events and an invariant
  that every step keeps.  The locale states that contract once; each component interprets
  it for its own step function and obtains the invariant of whole runs.
\<close>

locale machine =
  fixes step :: "'ev \<Rightarrow> 's \<Rightarrow> 's"
    and inv :: "'s \<Rightarrow> bool"
  assumes step_inv: "inv s \<Longrightarrow> inv (step ev s)"
begin

lemma run_inv: "inv s \<Longrightarrow> inv (fold step evs s)"
  by (induction evs arbitrary: s) (simp_all add: step_inv)

end

section \<open>Bits and carries\<close>

lemma and_exp_of_bool [flag_bits]:
  "(x :: 'a::len word) AND 2 ^ k = of_bool (bit x k) * 2 ^ k"
  by (rule bit_word_eqI) (auto simp: bit_simps)

lemma and_mask_bit: "(x :: 'a::len word) AND 2 ^ k \<noteq> 0 \<longleftrightarrow> bit x k \<and> k < LENGTH('a)"
  using bit_imp_le_length [of x k] by (auto simp: and_exp_of_bool)

lemma and_disjoint_mask:
  "(x :: 'a::len word) AND NOT k = 0 \<Longrightarrow> m AND k = 0 \<Longrightarrow> x AND m = 0"
  by (simp add: bit_eq_iff bit_simps) blast

lemma and_not_id: "(x :: 'a::len word) AND m = 0 \<Longrightarrow> x AND NOT m = x"
  by (auto simp: bit_eq_iff bit_simps dest: bit_imp_le_length)

lemma ucast_down_up: "ucast (ucast (m :: u32) :: u64) = m"
  by (rule bit_word_eqI) (auto simp: bit_simps)

lemma and_mask_u16: "ucast (ucast (w :: u32) :: u16) = w AND 0xffff"
proof -
  have "ucast (ucast w :: u16) = take_bit 16 w" by (rule bit_word_eqI) (auto simp: bit_simps)
  then show ?thesis by (simp add: take_bit_eq_mask mask_eq_exp_minus_1)
qed

lemma odd_div_exp_carry:
  fixes q :: int
  assumes "0 \<le> q" and "q < 2 * 2 ^ n"
  shows "odd (q div 2 ^ n) \<longleftrightarrow> 2 ^ n \<le> q"
proof (cases "2 ^ n \<le> q")
  case True
  have "q div 2 ^ n = 1"
    by (rule int_div_pos_eq [where r = "q - 2 ^ n"]) (use True assms in simp_all)
  with True show ?thesis by simp
next
  case False
  with assms show ?thesis by simp
qed

text \<open>
  The bit of a sum is the exclusive or of the operands' bits and the carry into it; a
  carry \<open>c\<close> may enter at the bottom.
\<close>

lemma bit_add_carry_int:
  fixes x y :: int
  shows "bit (x + y + of_bool c) n \<longleftrightarrow>
    (bit x n \<noteq> (bit y n \<noteq> (2 ^ n \<le> take_bit n x + take_bit n y + of_bool c)))"
proof -
  let ?q = "x mod 2 ^ n + y mod 2 ^ n + of_bool c"
  have "(x + y + of_bool c) div 2 ^ n = x div 2 ^ n + y div 2 ^ n + ?q div 2 ^ n"
  proof -
    have "x + y + of_bool c = ?q + 2 ^ n * (x div 2 ^ n + y div 2 ^ n)"
      by (simp add: algebra_simps flip: mult_div_mod_eq)
    then show ?thesis by (metis add.commute div_mult_self2 power_not_zero zero_neq_numeral)
  qed
  moreover have "odd (?q div 2 ^ n) \<longleftrightarrow> 2 ^ n \<le> ?q"
  proof (rule odd_div_exp_carry)
    have "x mod 2 ^ n < 2 ^ n" "y mod 2 ^ n < 2 ^ n" by simp_all
    moreover have "of_bool c \<le> (1 :: int)" by simp
    ultimately show "?q < 2 * 2 ^ n" by linarith
  qed simp
  ultimately show ?thesis
    by (auto simp: bit_iff_odd take_bit_eq_mod)
qed

text \<open>A sum of two residues and a carry wraps exactly when it falls below an operand.\<close>

lemma mod_add_less_iff:
  fixes p q M :: int
  assumes "0 \<le> p" "p < M" "0 \<le> q" "q < M"
  shows "(p + q) mod M < p \<longleftrightarrow> M \<le> p + q"
proof (cases "M \<le> p + q")
  case True
  have "(p + q) mod M = p + q - M"
    using True assms by (intro int_mod_pos_eq [where q = 1]) simp_all
  with True assms show ?thesis by simp
qed (use assms in simp)

lemma mod_add1_le_iff:
  fixes p q M :: int
  assumes "0 \<le> p" "p < M" "0 \<le> q" "q < M"
  shows "(p + q + 1) mod M \<le> p \<longleftrightarrow> M \<le> p + q + 1"
proof (cases "M \<le> p + q + 1")
  case True
  have "(p + q + 1) mod M = p + q + 1 - M"
    using True assms by (intro int_mod_pos_eq [where q = 1]) simp_all
  with True assms show ?thesis by simp
qed (use assms in simp)

text \<open>A signed value is its low bits, less the weight of the sign bit.\<close>

lemma signed_take_bit_low:
  fixes k :: int
  shows "signed_take_bit m k = take_bit m k - 2 ^ m * of_bool (bit k m)"
  by (simp add: signed_take_bit_eq_take_bit_minus take_bit_Suc_from_most)

lemma take_bit_int_less: "take_bit m (k :: int) < 2 ^ m"
  by (simp add: take_bit_eq_mod)

lemma bit_word_uint: "bit (w :: 'a::len word) n \<longleftrightarrow> bit (uint w) n"
  by (simp add: bit_uint_iff) (use bit_imp_le_length in blast)

text \<open>
  Signed overflow of an addition with carry, read off the sign bits: the operands agree
  in sign and the result does not.
\<close>

lemma signed_add_overflow_iff:
  fixes x y :: int and m :: nat and c :: bool
  defines "s \<equiv> signed_take_bit m x + signed_take_bit m y + of_bool c"
  shows "(bit x m = bit y m \<and> bit x m \<noteq> bit (x + y + of_bool c) m) \<longleftrightarrow>
    \<not> (- (2 ^ m) \<le> s \<and> s < 2 ^ m)"
proof -
  have key: "(a = b \<and> a \<noteq> (a \<noteq> (b \<noteq> (P \<le> p + q + of_bool c)))) \<longleftrightarrow>
      \<not> (- P \<le> (p - P * of_bool a) + (q - P * of_bool b) + of_bool c \<and>
         (p - P * of_bool a) + (q - P * of_bool b) + of_bool c < P)"
    if "0 \<le> p" "p < P" "0 \<le> q" "q < P" for p q P :: int and a b :: bool
    using that by (cases a; cases b; cases c) auto
  show ?thesis
    unfolding s_def signed_take_bit_low bit_add_carry_int
    by (rule key) (simp_all add: take_bit_int_less)
qed

end
