(* ===== verification/CpuState.thy ===== *)
theory CpuState
  imports Prelude
begin

text \<open>
  The register state of the emulated processor, after \<open>target-i386/cpu.h\<close>: the
  constants of the header, \<open>SegmentCache\<close>, the enumeration \<open>CCOp\<close>, the record
  \<open>CPUX86State\<close>, and the inline functions of the header that update it
  (\<open>cpu_x86_load_seg_cache\<close>, \<open>cpu_x86_set_cpl\<close>, \<open>cpu_load_eflags\<close>, \<open>cpu_load_efer\<close>).

  The state record is extensible: guest memory and devices live in its extension \<open>'m\<close>,
  and are reached only through the interface record \<open>bus\<close> (softmmu accesses, physical
  accesses, APIC and clock), whose functions are parameters because that code is not in
  the repository.  Calls to procedures outside the repository that return nothing
  (\<open>tlb_flush\<close>, \<open>cpu_interrupt\<close>, ...) are recorded, in order, in \<open>ext_calls\<close>.
\<close>

section \<open>Constants of cpu.h\<close>

subsection \<open>Register and segment numbers\<close>

abbreviation (input) R_EAX :: nat where "R_EAX \<equiv> 0"
abbreviation (input) R_ECX :: nat where "R_ECX \<equiv> 1"
abbreviation (input) R_EDX :: nat where "R_EDX \<equiv> 2"
abbreviation (input) R_EBX :: nat where "R_EBX \<equiv> 3"
abbreviation (input) R_ESP :: nat where "R_ESP \<equiv> 4"
abbreviation (input) R_EBP :: nat where "R_EBP \<equiv> 5"
abbreviation (input) R_ESI :: nat where "R_ESI \<equiv> 6"
abbreviation (input) R_EDI :: nat where "R_EDI \<equiv> 7"

abbreviation (input) R_ES :: nat where "R_ES \<equiv> 0"
abbreviation (input) R_CS :: nat where "R_CS \<equiv> 1"
abbreviation (input) R_SS :: nat where "R_SS \<equiv> 2"
abbreviation (input) R_DS :: nat where "R_DS \<equiv> 3"
abbreviation (input) R_FS :: nat where "R_FS \<equiv> 4"
abbreviation (input) R_GS :: nat where "R_GS \<equiv> 5"

subsection \<open>Segment descriptor fields\<close>

abbreviation (input) DESC_G_MASK :: "'a::len word" where "DESC_G_MASK \<equiv> 0x800000"
abbreviation (input) DESC_B_SHIFT :: nat where "DESC_B_SHIFT \<equiv> 22"
abbreviation (input) DESC_B_MASK :: "'a::len word" where "DESC_B_MASK \<equiv> 0x400000"
abbreviation (input) DESC_L_SHIFT :: nat where "DESC_L_SHIFT \<equiv> 21"
abbreviation (input) DESC_L_MASK :: "'a::len word" where "DESC_L_MASK \<equiv> 0x200000"
abbreviation (input) DESC_P_MASK :: "'a::len word" where "DESC_P_MASK \<equiv> 0x8000"
abbreviation (input) DESC_DPL_SHIFT :: nat where "DESC_DPL_SHIFT \<equiv> 13"
abbreviation (input) DESC_DPL_MASK :: "'a::len word" where "DESC_DPL_MASK \<equiv> 0x6000"
abbreviation (input) DESC_S_MASK :: "'a::len word" where "DESC_S_MASK \<equiv> 0x1000"
abbreviation (input) DESC_TYPE_SHIFT :: nat where "DESC_TYPE_SHIFT \<equiv> 8"
abbreviation (input) DESC_TYPE_MASK :: "'a::len word" where "DESC_TYPE_MASK \<equiv> 0xf00"
abbreviation (input) DESC_A_MASK :: "'a::len word" where "DESC_A_MASK \<equiv> 0x100"
abbreviation (input) DESC_CS_MASK :: "'a::len word" where "DESC_CS_MASK \<equiv> 0x800"
abbreviation (input) DESC_C_MASK :: "'a::len word" where "DESC_C_MASK \<equiv> 0x400"
abbreviation (input) DESC_R_MASK :: "'a::len word" where "DESC_R_MASK \<equiv> 0x200"
abbreviation (input) DESC_E_MASK :: "'a::len word" where "DESC_E_MASK \<equiv> 0x400"
abbreviation (input) DESC_W_MASK :: "'a::len word" where "DESC_W_MASK \<equiv> 0x200"
abbreviation (input) DESC_TSS_BUSY_MASK :: "'a::len word" where "DESC_TSS_BUSY_MASK \<equiv> 0x200"

subsection \<open>eflags\<close>

abbreviation (input) CC_C :: "'a::len word" where "CC_C \<equiv> 0x0001"
abbreviation (input) CC_P :: "'a::len word" where "CC_P \<equiv> 0x0004"
abbreviation (input) CC_A :: "'a::len word" where "CC_A \<equiv> 0x0010"
abbreviation (input) CC_Z :: "'a::len word" where "CC_Z \<equiv> 0x0040"
abbreviation (input) CC_S :: "'a::len word" where "CC_S \<equiv> 0x0080"
abbreviation (input) CC_O :: "'a::len word" where "CC_O \<equiv> 0x0800"

abbreviation (input) IOPL_SHIFT :: nat where "IOPL_SHIFT \<equiv> 12"

abbreviation (input) TF_MASK :: "'a::len word" where "TF_MASK \<equiv> 0x00000100"
abbreviation (input) IF_MASK :: "'a::len word" where "IF_MASK \<equiv> 0x00000200"
abbreviation (input) DF_MASK :: "'a::len word" where "DF_MASK \<equiv> 0x00000400"
abbreviation (input) IOPL_MASK :: "'a::len word" where "IOPL_MASK \<equiv> 0x00003000"
abbreviation (input) NT_MASK :: "'a::len word" where "NT_MASK \<equiv> 0x00004000"
abbreviation (input) RF_MASK :: "'a::len word" where "RF_MASK \<equiv> 0x00010000"
abbreviation (input) VM_MASK :: "'a::len word" where "VM_MASK \<equiv> 0x00020000"
abbreviation (input) AC_MASK :: "'a::len word" where "AC_MASK \<equiv> 0x00040000"
abbreviation (input) VIF_MASK :: "'a::len word" where "VIF_MASK \<equiv> 0x00080000"
abbreviation (input) VIP_MASK :: "'a::len word" where "VIP_MASK \<equiv> 0x00100000"
abbreviation (input) ID_MASK :: "'a::len word" where "ID_MASK \<equiv> 0x00200000"

subsection \<open>Hidden flags\<close>

abbreviation (input) HF_CPL_MASK :: "'a::len word" where "HF_CPL_MASK \<equiv> 0x3"
abbreviation (input) HF_SOFTMMU_MASK :: "'a::len word" where "HF_SOFTMMU_MASK \<equiv> 0x4"
abbreviation (input) HF_INHIBIT_IRQ_MASK :: "'a::len word" where "HF_INHIBIT_IRQ_MASK \<equiv> 0x8"
abbreviation (input) HF_CS32_SHIFT :: nat where "HF_CS32_SHIFT \<equiv> 4"
abbreviation (input) HF_SS32_SHIFT :: nat where "HF_SS32_SHIFT \<equiv> 5"
abbreviation (input) HF_ADDSEG_SHIFT :: nat where "HF_ADDSEG_SHIFT \<equiv> 6"
abbreviation (input) HF_PE_SHIFT :: nat where "HF_PE_SHIFT \<equiv> 7"
abbreviation (input) HF_MP_SHIFT :: nat where "HF_MP_SHIFT \<equiv> 9"
abbreviation (input) HF_CS32_MASK :: "'a::len word" where "HF_CS32_MASK \<equiv> 0x10"
abbreviation (input) HF_SS32_MASK :: "'a::len word" where "HF_SS32_MASK \<equiv> 0x20"
abbreviation (input) HF_ADDSEG_MASK :: "'a::len word" where "HF_ADDSEG_MASK \<equiv> 0x40"
abbreviation (input) HF_PE_MASK :: "'a::len word" where "HF_PE_MASK \<equiv> 0x80"
abbreviation (input) HF_TF_MASK :: "'a::len word" where "HF_TF_MASK \<equiv> 0x100"
abbreviation (input) HF_MP_MASK :: "'a::len word" where "HF_MP_MASK \<equiv> 0x200"
abbreviation (input) HF_EM_MASK :: "'a::len word" where "HF_EM_MASK \<equiv> 0x400"
abbreviation (input) HF_TS_MASK :: "'a::len word" where "HF_TS_MASK \<equiv> 0x800"
abbreviation (input) HF_LMA_MASK :: "'a::len word" where "HF_LMA_MASK \<equiv> 0x4000"
abbreviation (input) HF_CS64_MASK :: "'a::len word" where "HF_CS64_MASK \<equiv> 0x8000"
abbreviation (input) HF_SMM_MASK :: "'a::len word" where "HF_SMM_MASK \<equiv> 0x80000"
abbreviation (input) HF_SVME_MASK :: "'a::len word" where "HF_SVME_MASK \<equiv> 0x100000"
abbreviation (input) HF_SVMI_MASK :: "'a::len word" where "HF_SVMI_MASK \<equiv> 0x200000"
abbreviation (input) HF_OSFXSR_MASK :: "'a::len word" where "HF_OSFXSR_MASK \<equiv> 0x400000"

abbreviation (input) HF2_GIF_MASK :: "'a::len word" where "HF2_GIF_MASK \<equiv> 1"
abbreviation (input) HF2_HIF_MASK :: "'a::len word" where "HF2_HIF_MASK \<equiv> 2"
abbreviation (input) HF2_NMI_MASK :: "'a::len word" where "HF2_NMI_MASK \<equiv> 4"
abbreviation (input) HF2_VINTR_MASK :: "'a::len word" where "HF2_VINTR_MASK \<equiv> 8"

subsection \<open>Control registers\<close>

abbreviation (input) CR0_PE_MASK :: "'a::len word" where "CR0_PE_MASK \<equiv> 1"
abbreviation (input) CR0_MP_MASK :: "'a::len word" where "CR0_MP_MASK \<equiv> 2"
abbreviation (input) CR0_EM_MASK :: "'a::len word" where "CR0_EM_MASK \<equiv> 4"
abbreviation (input) CR0_TS_MASK :: "'a::len word" where "CR0_TS_MASK \<equiv> 8"
abbreviation (input) CR0_ET_MASK :: "'a::len word" where "CR0_ET_MASK \<equiv> 0x10"
abbreviation (input) CR0_NE_MASK :: "'a::len word" where "CR0_NE_MASK \<equiv> 0x20"
abbreviation (input) CR0_WP_MASK :: "'a::len word" where "CR0_WP_MASK \<equiv> 0x10000"
abbreviation (input) CR0_AM_MASK :: "'a::len word" where "CR0_AM_MASK \<equiv> 0x40000"

text \<open>\<open>1 << 31\<close> is the most negative \<open>int\<close>: it sign-extends in 64-bit contexts.\<close>
abbreviation (input) CR0_PG_MASK :: "'a::len word" where "CR0_PG_MASK \<equiv> - 0x80000000"

abbreviation (input) CR4_TSD_MASK :: "'a::len word" where "CR4_TSD_MASK \<equiv> 0x4"
abbreviation (input) CR4_DE_MASK :: "'a::len word" where "CR4_DE_MASK \<equiv> 0x8"
abbreviation (input) CR4_PSE_MASK :: "'a::len word" where "CR4_PSE_MASK \<equiv> 0x10"
abbreviation (input) CR4_PAE_MASK :: "'a::len word" where "CR4_PAE_MASK \<equiv> 0x20"
abbreviation (input) CR4_MCE_MASK :: "'a::len word" where "CR4_MCE_MASK \<equiv> 0x40"
abbreviation (input) CR4_PGE_MASK :: "'a::len word" where "CR4_PGE_MASK \<equiv> 0x80"
abbreviation (input) CR4_PCE_MASK :: "'a::len word" where "CR4_PCE_MASK \<equiv> 0x100"
abbreviation (input) CR4_OSFXSR_MASK :: "'a::len word" where "CR4_OSFXSR_MASK \<equiv> 0x200"

subsection \<open>Page table entries and page fault error codes\<close>

abbreviation (input) PG_PRESENT_MASK :: "'a::len word" where "PG_PRESENT_MASK \<equiv> 1"
abbreviation (input) PG_RW_MASK :: "'a::len word" where "PG_RW_MASK \<equiv> 2"
abbreviation (input) PG_USER_MASK :: "'a::len word" where "PG_USER_MASK \<equiv> 4"
abbreviation (input) PG_ACCESSED_MASK :: "'a::len word" where "PG_ACCESSED_MASK \<equiv> 0x20"
abbreviation (input) PG_DIRTY_MASK :: "'a::len word" where "PG_DIRTY_MASK \<equiv> 0x40"
abbreviation (input) PG_PSE_MASK :: "'a::len word" where "PG_PSE_MASK \<equiv> 0x80"
abbreviation (input) PG_NX_MASK :: "u64" where "PG_NX_MASK \<equiv> 0x8000000000000000"

abbreviation (input) PG_ERROR_W_BIT :: nat where "PG_ERROR_W_BIT \<equiv> 1"
abbreviation (input) PG_ERROR_P_MASK :: "'a::len word" where "PG_ERROR_P_MASK \<equiv> 1"
abbreviation (input) PG_ERROR_U_MASK :: "'a::len word" where "PG_ERROR_U_MASK \<equiv> 4"
abbreviation (input) PG_ERROR_RSVD_MASK :: "'a::len word" where "PG_ERROR_RSVD_MASK \<equiv> 8"
abbreviation (input) PG_ERROR_I_D_MASK :: "'a::len word" where "PG_ERROR_I_D_MASK \<equiv> 0x10"

subsection \<open>Model specific registers\<close>

abbreviation (input) MSR_EFER_SCE :: "'a::len word" where "MSR_EFER_SCE \<equiv> 0x1"
abbreviation (input) MSR_EFER_LME :: "'a::len word" where "MSR_EFER_LME \<equiv> 0x100"
abbreviation (input) MSR_EFER_LMA :: "'a::len word" where "MSR_EFER_LMA \<equiv> 0x400"
abbreviation (input) MSR_EFER_NXE :: "'a::len word" where "MSR_EFER_NXE \<equiv> 0x800"
abbreviation (input) MSR_EFER_SVME :: "'a::len word" where "MSR_EFER_SVME \<equiv> 0x1000"
abbreviation (input) MSR_EFER_FFXSR :: "'a::len word" where "MSR_EFER_FFXSR \<equiv> 0x4000"

subsection \<open>CPUID feature bits that the modelled helpers test\<close>

abbreviation (input) CPUID_MTRR :: "'a::len word" where "CPUID_MTRR \<equiv> 0x1000"
abbreviation (input) CPUID_SSE :: "'a::len word" where "CPUID_SSE \<equiv> 0x2000000"
abbreviation (input) CPUID_EXT2_SYSCALL :: "'a::len word" where "CPUID_EXT2_SYSCALL \<equiv> 0x800"
abbreviation (input) CPUID_EXT2_NX :: "'a::len word" where "CPUID_EXT2_NX \<equiv> 0x100000"
abbreviation (input) CPUID_EXT2_FFXSR :: "'a::len word" where "CPUID_EXT2_FFXSR \<equiv> 0x2000000"
abbreviation (input) CPUID_EXT2_LM :: "'a::len word" where "CPUID_EXT2_LM \<equiv> 0x20000000"
abbreviation (input) CPUID_EXT3_SVM :: "'a::len word" where "CPUID_EXT3_SVM \<equiv> 0x4"

subsection \<open>Exception numbers\<close>

abbreviation (input) EXCP00_DIVZ :: "u32" where "EXCP00_DIVZ \<equiv> 0"
abbreviation (input) EXCP01_DB :: "u32" where "EXCP01_DB \<equiv> 1"
abbreviation (input) EXCP02_NMI :: "u32" where "EXCP02_NMI \<equiv> 2"
abbreviation (input) EXCP03_INT3 :: "u32" where "EXCP03_INT3 \<equiv> 3"
abbreviation (input) EXCP04_INTO :: "u32" where "EXCP04_INTO \<equiv> 4"
abbreviation (input) EXCP05_BOUND :: "u32" where "EXCP05_BOUND \<equiv> 5"
abbreviation (input) EXCP06_ILLOP :: "u32" where "EXCP06_ILLOP \<equiv> 6"
abbreviation (input) EXCP08_DBLE :: "u32" where "EXCP08_DBLE \<equiv> 8"
abbreviation (input) EXCP0A_TSS :: "u32" where "EXCP0A_TSS \<equiv> 10"
abbreviation (input) EXCP0B_NOSEG :: "u32" where "EXCP0B_NOSEG \<equiv> 11"
abbreviation (input) EXCP0C_STACK :: "u32" where "EXCP0C_STACK \<equiv> 12"
abbreviation (input) EXCP0D_GPF :: "u32" where "EXCP0D_GPF \<equiv> 13"
abbreviation (input) EXCP0E_PAGE :: "u32" where "EXCP0E_PAGE \<equiv> 14"

section \<open>Data types\<close>

datatype CCOp =
    CC_OP_DYNAMIC | CC_OP_EFLAGS
  | CC_OP_MULB | CC_OP_MULW | CC_OP_MULL | CC_OP_MULQ
  | CC_OP_ADDB | CC_OP_ADDW | CC_OP_ADDL | CC_OP_ADDQ
  | CC_OP_ADCB | CC_OP_ADCW | CC_OP_ADCL | CC_OP_ADCQ
  | CC_OP_SUBB | CC_OP_SUBW | CC_OP_SUBL | CC_OP_SUBQ
  | CC_OP_SBBB | CC_OP_SBBW | CC_OP_SBBL | CC_OP_SBBQ
  | CC_OP_LOGICB | CC_OP_LOGICW | CC_OP_LOGICL | CC_OP_LOGICQ
  | CC_OP_INCB | CC_OP_INCW | CC_OP_INCL | CC_OP_INCQ
  | CC_OP_DECB | CC_OP_DECW | CC_OP_DECL | CC_OP_DECQ
  | CC_OP_SHLB | CC_OP_SHLW | CC_OP_SHLL | CC_OP_SHLQ
  | CC_OP_SARB | CC_OP_SARW | CC_OP_SARL | CC_OP_SARQ
  | CC_OP_NB

record SegmentCache =
  selector :: u32
  base :: u64
  limit :: u32
  flags :: u32

text \<open>
  The 80-bit register of softfloat, whose low part an MMX register aliases (the union
  \<open>FPReg\<close>); the unions \<open>MMXReg\<close> and \<open>XMMReg\<close> are words, their lanes are slices of them.
\<close>

record floatx80 =
  fx_low :: u64
  fx_high :: u16

definition floatx80_zero :: floatx80 where
  "floatx80_zero = \<lparr>fx_low = 0, fx_high = 0\<rparr>"

type_synonym MMXReg = "64 word"
type_synonym XMMReg = "128 word"

record MTRRVar =
  mtrr_base :: u64
  mtrr_mask :: u64

text \<open>
  The bits of \<open>CPUState.interrupt_request\<close> have their values outside the repository
  (\<open>exec/cpu-all.h\<close>); being distinct bits, they are the elements of a set here.
\<close>

datatype cpu_irq =
    CPU_INTERRUPT_HARD | CPU_INTERRUPT_EXITTB | CPU_INTERRUPT_SMI | CPU_INTERRUPT_NMI
  | CPU_INTERRUPT_MCE | CPU_INTERRUPT_VIRQ | CPU_INTERRUPT_INIT | CPU_INTERRUPT_SIPI
  | CPU_INTERRUPT_TPR | CPU_INTERRUPT_POLL

text \<open>The protection bits of a TLB entry, likewise.\<close>

datatype page_prot = PAGE_READ | PAGE_WRITE | PAGE_EXEC

text \<open>The access types of a hardware watchpoint.\<close>

datatype wp_type = BP_MEM_WRITE | BP_MEM_ACCESS

text \<open>Calls to external procedures whose only effect is outside the modelled state.\<close>

datatype ext_call =
    TlbFlush u32                \<comment> \<open>\<open>tlb_flush(env, flush_global)\<close>\<close>
  | TlbFlushPage u64            \<comment> \<open>\<open>tlb_flush_page(env, addr)\<close>\<close>
  | TlbSetPage u64 u64 "page_prot set" u32 u32
      \<comment> \<open>\<open>tlb_set_page(env, vaddr, paddr, prot, mmu_idx, page_size)\<close>\<close>
  | CpuInterrupt cpu_irq        \<comment> \<open>\<open>cpu_interrupt(cpu, mask)\<close>\<close>
  | BreakpointRemoveAll         \<comment> \<open>\<open>cpu_breakpoint_remove_all(env, BP_CPU)\<close>\<close>
  | WatchpointRemoveAll         \<comment> \<open>\<open>cpu_watchpoint_remove_all(env, BP_CPU)\<close>\<close>
  | SystemResetRequest          \<comment> \<open>\<open>qemu_system_reset_request()\<close>\<close>
  | SpinLock | SpinUnlock       \<comment> \<open>\<open>spin_lock\<close>, \<open>spin_unlock\<close> on \<open>global_cpu_lock\<close>\<close>

record CPUX86State =
  regs :: "nat \<Rightarrow> u64"
  eip :: u64
  eflags :: u64
  cc_src :: u64
  cc_dst :: u64
  cc_op :: CCOp
  df :: u32
  hflags :: u32
  hflags2 :: u32
  segs :: "nat \<Rightarrow> SegmentCache"
  ldt :: SegmentCache
  tr :: SegmentCache
  gdt :: SegmentCache
  idt :: SegmentCache
  cr :: "nat \<Rightarrow> u64"
  a20_mask :: u64
  fpstt :: u32
  fpus :: u32
  fpuc :: u32
  fptags :: "nat \<Rightarrow> u8"
  fpregs :: "nat \<Rightarrow> floatx80"
  ft0 :: floatx80
  mxcsr :: u32
  xmm_regs :: "nat \<Rightarrow> XMMReg"
  xmm_t0 :: XMMReg
  mmx_t0 :: MMXReg
  sysenter_cs :: u32
  sysenter_esp :: u64
  sysenter_eip :: u64
  efer :: u64
  star :: u64
  vm_hsave :: u64
  vm_vmcb :: u64
  tsc_offset :: u64
  intercept :: u64
  intercept_cr_read :: u16
  intercept_cr_write :: u16
  intercept_dr_read :: u16
  intercept_dr_write :: u16
  intercept_exceptions :: u32
  v_tpr :: u8
  lstar :: u64
  cstar :: u64
  fmask :: u64
  kernelgsbase :: u64
  pat :: u64
  error_code :: u32
  exception_is_int :: u32
  exception_next_eip :: u64
  dr :: "nat \<Rightarrow> u64"
  cpu_breakpoint :: "nat \<Rightarrow> nat option"
  smbase :: u32
  old_exception :: u32
  exception_index :: u32
  interrupt_request :: "cpu_irq set"
  halted :: u32
  cpuid_level :: u32
  cpuid_vendor1 :: u32
  cpuid_vendor2 :: u32
  cpuid_vendor3 :: u32
  cpuid_version :: u32
  cpuid_features :: u32
  cpuid_ext_features :: u32
  cpuid_xlevel :: u32
  cpuid_model :: "nat \<Rightarrow> u32"
  cpuid_ext2_features :: u32
  cpuid_ext3_features :: u32
  cpuid_apic_id :: u32
  mtrr_fixed :: "nat \<Rightarrow> u64"
  mtrr_deftype :: u64
  mtrr_var :: "nat \<Rightarrow> MTRRVar"
  mcg_cap :: u64
  mcg_status :: u64
  mcg_ctl :: u64
  mce_banks :: "nat \<Rightarrow> u64"
  ext_calls :: "ext_call list"

text \<open>The all-zero state: what the allocation of a CPU (and the \<open>memset\<close> of a reset) leaves.\<close>

definition seg_zero :: SegmentCache where
  "seg_zero = \<lparr>selector = 0, base = 0, limit = 0, flags = 0\<rparr>"

definition cpu_zero :: CPUX86State where
  "cpu_zero = \<lparr>
    regs = \<lambda>_. 0, eip = 0, eflags = 0, cc_src = 0, cc_dst = 0,
    cc_op = CC_OP_DYNAMIC, df = 0, hflags = 0, hflags2 = 0, segs = \<lambda>_. seg_zero,
    ldt = seg_zero, tr = seg_zero, gdt = seg_zero, idt = seg_zero, cr = \<lambda>_. 0,
    a20_mask = 0, fpstt = 0, fpus = 0, fpuc = 0, fptags = \<lambda>_. 0, fpregs = \<lambda>_. floatx80_zero, ft0 = floatx80_zero, mxcsr = 0, xmm_regs = \<lambda>_. 0, xmm_t0 = 0, mmx_t0 = 0, sysenter_cs = 0, sysenter_esp = 0, sysenter_eip = 0, efer = 0, star = 0,
    vm_hsave = 0, vm_vmcb = 0, tsc_offset = 0, intercept = 0, intercept_cr_read = 0,
    intercept_cr_write = 0, intercept_dr_read = 0, intercept_dr_write = 0,
    intercept_exceptions = 0, v_tpr = 0, lstar = 0, cstar = 0, fmask = 0, kernelgsbase = 0,
    pat = 0, error_code = 0, exception_is_int = 0, exception_next_eip = 0,
    dr = \<lambda>_. 0, cpu_breakpoint = \<lambda>_. None, smbase = 0, old_exception = 0, exception_index = 0,
    interrupt_request = {}, halted = 0, cpuid_level = 0, cpuid_vendor1 = 0, cpuid_vendor2 = 0, cpuid_vendor3 = 0, cpuid_version = 0, cpuid_features = 0, cpuid_ext_features = 0, cpuid_xlevel = 0, cpuid_model = \<lambda>_. 0,
    cpuid_ext2_features = 0, cpuid_ext3_features = 0, cpuid_apic_id = 0, mtrr_fixed = \<lambda>_. 0,
    mtrr_deftype = 0, mtrr_var = \<lambda>_. \<lparr>mtrr_base = 0, mtrr_mask = 0\<rparr>,
    mcg_cap = 0, mcg_status = 0, mcg_ctl = 0, mce_banks = \<lambda>_. 0, ext_calls = []\<rparr>"

lemma cpu_zero_sel [simp]:
  "regs cpu_zero = (\<lambda>_. 0)"
  "eip cpu_zero = 0"
  "eflags cpu_zero = 0"
  "cc_src cpu_zero = 0"
  "cc_dst cpu_zero = 0"
  "cc_op cpu_zero = CC_OP_DYNAMIC"
  "df cpu_zero = 0"
  "hflags cpu_zero = 0"
  "hflags2 cpu_zero = 0"
  "segs cpu_zero = (\<lambda>_. seg_zero)"
  "ldt cpu_zero = seg_zero"
  "tr cpu_zero = seg_zero"
  "gdt cpu_zero = seg_zero"
  "idt cpu_zero = seg_zero"
  "cr cpu_zero = (\<lambda>_. 0)"
  "a20_mask cpu_zero = 0"
  "fpstt cpu_zero = 0"
  "fpus cpu_zero = 0"
  "fpuc cpu_zero = 0"
  "fptags cpu_zero = (\<lambda>_. 0)"
  "fpregs cpu_zero = (\<lambda>_. floatx80_zero)"
  "ft0 cpu_zero = floatx80_zero"
  "mxcsr cpu_zero = 0"
  "xmm_regs cpu_zero = (\<lambda>_. 0)"
  "xmm_t0 cpu_zero = 0"
  "mmx_t0 cpu_zero = 0"
  "sysenter_cs cpu_zero = 0"
  "sysenter_esp cpu_zero = 0"
  "sysenter_eip cpu_zero = 0"
  "efer cpu_zero = 0"
  "star cpu_zero = 0"
  "vm_hsave cpu_zero = 0"
  "vm_vmcb cpu_zero = 0"
  "tsc_offset cpu_zero = 0"
  "intercept cpu_zero = 0"
  "intercept_cr_read cpu_zero = 0"
  "intercept_cr_write cpu_zero = 0"
  "intercept_dr_read cpu_zero = 0"
  "intercept_dr_write cpu_zero = 0"
  "intercept_exceptions cpu_zero = 0"
  "v_tpr cpu_zero = 0"
  "lstar cpu_zero = 0"
  "cstar cpu_zero = 0"
  "fmask cpu_zero = 0"
  "kernelgsbase cpu_zero = 0"
  "pat cpu_zero = 0"
  "error_code cpu_zero = 0"
  "exception_is_int cpu_zero = 0"
  "exception_next_eip cpu_zero = 0"
  "dr cpu_zero = (\<lambda>_. 0)"
  "cpu_breakpoint cpu_zero = (\<lambda>_. None)"
  "smbase cpu_zero = 0"
  "old_exception cpu_zero = 0"
  "exception_index cpu_zero = 0"
  "interrupt_request cpu_zero = {}"
  "halted cpu_zero = 0"
  "cpuid_level cpu_zero = 0"
  "cpuid_vendor1 cpu_zero = 0"
  "cpuid_vendor2 cpu_zero = 0"
  "cpuid_vendor3 cpu_zero = 0"
  "cpuid_version cpu_zero = 0"
  "cpuid_features cpu_zero = 0"
  "cpuid_ext_features cpu_zero = 0"
  "cpuid_xlevel cpu_zero = 0"
  "cpuid_model cpu_zero = (\<lambda>_. 0)"
  "cpuid_ext2_features cpu_zero = 0"
  "cpuid_ext3_features cpu_zero = 0"
  "cpuid_apic_id cpu_zero = 0"
  "mtrr_fixed cpu_zero = (\<lambda>_. 0)"
  "mtrr_deftype cpu_zero = 0"
  "mtrr_var cpu_zero = (\<lambda>_. \<lparr>mtrr_base = 0, mtrr_mask = 0\<rparr>)"
  "mcg_cap cpu_zero = 0"
  "mcg_status cpu_zero = 0"
  "mcg_ctl cpu_zero = 0"
  "mce_banks cpu_zero = (\<lambda>_. 0)"
  "ext_calls cpu_zero = []"
  by (simp_all add: cpu_zero_def)

type_synonym ('a, 'm) helper = "'m CPUX86State_scheme \<Rightarrow> ('a, 'm CPUX86State_scheme) outcome"

definition ext_call :: "ext_call \<Rightarrow> 'm CPUX86State_scheme \<Rightarrow> 'm CPUX86State_scheme" where
  "ext_call c env = env\<lparr>ext_calls := ext_calls env @ [c]\<rparr>"

abbreviation (input) set_reg :: "nat \<Rightarrow> u64 \<Rightarrow> 'm CPUX86State_scheme \<Rightarrow> 'm CPUX86State_scheme" where
  "set_reg r v env \<equiv> env\<lparr>regs := (regs env)(r := v)\<rparr>"

abbreviation (input) set_cr :: "nat \<Rightarrow> u64 \<Rightarrow> 'm CPUX86State_scheme \<Rightarrow> 'm CPUX86State_scheme" where
  "set_cr r v env \<equiv> env\<lparr>cr := (cr env)(r := v)\<rparr>"

abbreviation (input) set_dr :: "nat \<Rightarrow> u64 \<Rightarrow> 'm CPUX86State_scheme \<Rightarrow> 'm CPUX86State_scheme" where
  "set_dr r v env \<equiv> env\<lparr>dr := (dr env)(r := v)\<rparr>"

abbreviation (input) EAX :: "'m CPUX86State_scheme \<Rightarrow> u64" where "EAX env \<equiv> regs env R_EAX"
abbreviation (input) ECX :: "'m CPUX86State_scheme \<Rightarrow> u64" where "ECX env \<equiv> regs env R_ECX"
abbreviation (input) EDX :: "'m CPUX86State_scheme \<Rightarrow> u64" where "EDX env \<equiv> regs env R_EDX"
abbreviation (input) EBX :: "'m CPUX86State_scheme \<Rightarrow> u64" where "EBX env \<equiv> regs env R_EBX"
abbreviation (input) ESP :: "'m CPUX86State_scheme \<Rightarrow> u64" where "ESP env \<equiv> regs env R_ESP"

section \<open>The interface to memory and devices\<close>

text \<open>
  Functions of the emulator that the helpers call and that are not in the repository.
  Accesses through the softmmu (\<open>_data\<close>, \<open>_kernel\<close>) are helpers: they may raise a page
  fault and so leave by \<open>cpu_loop_exit\<close>.  Physical accesses never fault, and physical
  reads leave the state as it is.  Port accesses may change device state.  A breakpoint or
  watchpoint of the debug facility is known by its address, here a number, which
  \<open>cpu_breakpoint_insert\<close> and \<open>cpu_watchpoint_insert\<close> store in the given element of the array
  \<open>cpu_breakpoint\<close> (one union with \<open>cpu_watchpoint\<close>); they return an error code.
\<close>

record 's bus =
  cpu_ldub_data :: "u64 \<Rightarrow> 's \<Rightarrow> (u8, 's) outcome"
  cpu_lduw_data :: "u64 \<Rightarrow> 's \<Rightarrow> (u16, 's) outcome"
  cpu_ldl_data :: "u64 \<Rightarrow> 's \<Rightarrow> (u32, 's) outcome"
  cpu_ldq_data :: "u64 \<Rightarrow> 's \<Rightarrow> (u64, 's) outcome"
  cpu_stb_data :: "u64 \<Rightarrow> u8 \<Rightarrow> 's \<Rightarrow> (unit, 's) outcome"
  cpu_stw_data :: "u64 \<Rightarrow> u16 \<Rightarrow> 's \<Rightarrow> (unit, 's) outcome"
  cpu_stl_data :: "u64 \<Rightarrow> u32 \<Rightarrow> 's \<Rightarrow> (unit, 's) outcome"
  cpu_stq_data :: "u64 \<Rightarrow> u64 \<Rightarrow> 's \<Rightarrow> (unit, 's) outcome"
  cpu_ldub_kernel :: "u64 \<Rightarrow> 's \<Rightarrow> (u8, 's) outcome"
  cpu_lduw_kernel :: "u64 \<Rightarrow> 's \<Rightarrow> (u16, 's) outcome"
  cpu_ldl_kernel :: "u64 \<Rightarrow> 's \<Rightarrow> (u32, 's) outcome"
  cpu_ldq_kernel :: "u64 \<Rightarrow> 's \<Rightarrow> (u64, 's) outcome"
  cpu_stb_kernel :: "u64 \<Rightarrow> u8 \<Rightarrow> 's \<Rightarrow> (unit, 's) outcome"
  cpu_stw_kernel :: "u64 \<Rightarrow> u16 \<Rightarrow> 's \<Rightarrow> (unit, 's) outcome"
  cpu_stl_kernel :: "u64 \<Rightarrow> u32 \<Rightarrow> 's \<Rightarrow> (unit, 's) outcome"
  cpu_stq_kernel :: "u64 \<Rightarrow> u64 \<Rightarrow> 's \<Rightarrow> (unit, 's) outcome"
  ldub_phys :: "u64 \<Rightarrow> 's \<Rightarrow> u8"
  lduw_phys :: "u64 \<Rightarrow> 's \<Rightarrow> u16"
  ldl_phys :: "u64 \<Rightarrow> 's \<Rightarrow> u32"
  ldq_phys :: "u64 \<Rightarrow> 's \<Rightarrow> u64"
  stb_phys :: "u64 \<Rightarrow> u8 \<Rightarrow> 's \<Rightarrow> 's"
  stw_phys :: "u64 \<Rightarrow> u16 \<Rightarrow> 's \<Rightarrow> 's"
  stl_phys :: "u64 \<Rightarrow> u32 \<Rightarrow> 's \<Rightarrow> 's"
  stl_phys_notdirty :: "u64 \<Rightarrow> u32 \<Rightarrow> 's \<Rightarrow> 's"
  stq_phys :: "u64 \<Rightarrow> u64 \<Rightarrow> 's \<Rightarrow> 's"
  cpu_get_apic_tpr :: "'s \<Rightarrow> u8"
  cpu_set_apic_tpr :: "u8 \<Rightarrow> 's \<Rightarrow> 's"
  cpu_get_apic_base :: "'s \<Rightarrow> u64"
  cpu_set_apic_base :: "u64 \<Rightarrow> 's \<Rightarrow> 's"
  cpu_get_tsc :: "'s \<Rightarrow> u64"
  cpu_inb :: "u32 \<Rightarrow> 's \<Rightarrow> u8 \<times> 's"
  cpu_inw :: "u32 \<Rightarrow> 's \<Rightarrow> u16 \<times> 's"
  cpu_inl :: "u32 \<Rightarrow> 's \<Rightarrow> u32 \<times> 's"
  cpu_outb :: "u32 \<Rightarrow> u8 \<Rightarrow> 's \<Rightarrow> 's"
  cpu_outw :: "u32 \<Rightarrow> u16 \<Rightarrow> 's \<Rightarrow> 's"
  cpu_outl :: "u32 \<Rightarrow> u32 \<Rightarrow> 's \<Rightarrow> 's"
  cpu_smm_update :: "'s \<Rightarrow> 's"
  cpu_breakpoint_insert :: "u64 \<Rightarrow> nat \<Rightarrow> 's \<Rightarrow> u32 \<times> 's"
  cpu_watchpoint_insert :: "u64 \<Rightarrow> u64 \<Rightarrow> wp_type \<Rightarrow> nat \<Rightarrow> 's \<Rightarrow> u32 \<times> 's"
  cpu_breakpoint_remove_by_ref :: "nat \<Rightarrow> 's \<Rightarrow> 's"
  cpu_watchpoint_remove_by_ref :: "nat \<Rightarrow> 's \<Rightarrow> 's"
  watchpoint_was_hit :: "nat \<Rightarrow> 's \<Rightarrow> bool"
  other_cpus :: "'s \<Rightarrow> bool"

type_synonym 'm cpu_bus = "'m CPUX86State_scheme bus"

section \<open>Inline functions of cpu.h\<close>

text \<open>
  \<open>cpu_x86_load_seg_cache\<close>: load a segment cache and resynchronise the hidden flags.  The
  two blocks of its body are definitions of their own: the code segment's flags, and the
  SS32 and ADDSEG flags.
\<close>

definition load_seg_cs_hflags :: "'m CPUX86State_scheme \<Rightarrow> u32 \<Rightarrow> 'm CPUX86State_scheme" where
  "load_seg_cs_hflags env fl =
    (if hflags env AND HF_LMA_MASK \<noteq> 0 \<and> fl AND DESC_L_MASK \<noteq> 0 then
       env\<lparr>hflags := (hflags env OR (HF_CS32_MASK OR HF_SS32_MASK OR HF_CS64_MASK))
                      AND NOT HF_ADDSEG_MASK\<rparr>
     else
       (let new_hflags = drop_bit (DESC_B_SHIFT - HF_CS32_SHIFT)
                           (flags (segs env R_CS) AND DESC_B_MASK)
        in env\<lparr>hflags := (hflags env AND NOT (HF_CS32_MASK OR HF_CS64_MASK)) OR new_hflags\<rparr>))"

definition load_seg_new_hflags :: "'m CPUX86State_scheme \<Rightarrow> u32" where
  "load_seg_new_hflags env =
    (let new_hflags = drop_bit (DESC_B_SHIFT - HF_SS32_SHIFT)
                        (flags (segs env R_SS) AND DESC_B_MASK)
     in if hflags env AND HF_CS64_MASK \<noteq> 0 then new_hflags
        else if cr env 0 AND CR0_PE_MASK = 0 \<or> eflags env AND VM_MASK \<noteq> 0
                \<or> hflags env AND HF_CS32_MASK = 0
        then new_hflags OR HF_ADDSEG_MASK
        else new_hflags OR push_bit HF_ADDSEG_SHIFT
               (of_bool (base (segs env R_DS) OR base (segs env R_ES)
                           OR base (segs env R_SS) \<noteq> 0)))"

definition cpu_x86_load_seg_cache ::
  "'m CPUX86State_scheme \<Rightarrow> nat \<Rightarrow> u32 \<Rightarrow> u64 \<Rightarrow> u32 \<Rightarrow> u32 \<Rightarrow> 'm CPUX86State_scheme" where
  "cpu_x86_load_seg_cache env seg_reg sel bas lim fl =
    (let env = env\<lparr>segs := (segs env)(seg_reg :=
           \<lparr>selector = sel, base = bas, limit = lim, flags = fl\<rparr>)\<rparr>;
         env = (if seg_reg = R_CS then load_seg_cs_hflags env fl else env);
         new_hflags = load_seg_new_hflags env
     in env\<lparr>hflags := (hflags env AND NOT (HF_SS32_MASK OR HF_ADDSEG_MASK)) OR new_hflags\<rparr>)"

definition cpu_x86_set_cpl :: "'m CPUX86State_scheme \<Rightarrow> u32 \<Rightarrow> 'm CPUX86State_scheme" where
  "cpu_x86_set_cpl s cpl = s\<lparr>hflags := (hflags s AND NOT HF_CPL_MASK) OR cpl\<rparr>"

definition hw_breakpoint_enabled :: "u64 \<Rightarrow> nat \<Rightarrow> u64" where
  "hw_breakpoint_enabled dr7 index = drop_bit (index * 2) dr7 AND 3"

definition hw_breakpoint_type :: "u64 \<Rightarrow> nat \<Rightarrow> u64" where
  "hw_breakpoint_type dr7 index = drop_bit (16 + index * 2) dr7 AND 3"

definition hw_breakpoint_len :: "u64 \<Rightarrow> nat \<Rightarrow> u64" where
  "hw_breakpoint_len dr7 index =
    (let len = drop_bit (18 + index * 2) dr7 AND 3
     in if len = 2 then 8 else len + 1)"

definition cpu_mmu_index :: "'m CPUX86State_scheme \<Rightarrow> u32" where
  "cpu_mmu_index env = (if hflags env AND HF_CPL_MASK = 3 then 1 else 0)"

text \<open>\<open>lshift\<close>: shift left by \<open>n\<close>, or arithmetically right by \<open>-n\<close>.\<close>

definition lshift :: "u64 \<Rightarrow> int \<Rightarrow> u64" where
  "lshift x n = (if n \<ge> 0 then push_bit (nat n) x else signed_drop_bit (nat (- n)) x)"

text \<open>\<open>cpu_load_eflags\<close> takes \<open>int\<close> arguments, which sign-extend where they meet the
  64-bit \<open>env->eflags\<close>.\<close>

definition cpu_load_eflags ::
  "'m CPUX86State_scheme \<Rightarrow> u32 \<Rightarrow> u32 \<Rightarrow> 'm CPUX86State_scheme" where
  "cpu_load_eflags env efl update_mask = env\<lparr>
     cc_src := scast (efl AND (CC_O OR CC_S OR CC_Z OR CC_A OR CC_P OR CC_C)),
     df := 1 - (2 * (signed_drop_bit 10 efl AND 1)),
     eflags := (eflags env AND scast (NOT update_mask)) OR scast (efl AND update_mask) OR 0x2\<rparr>"

definition cpu_load_efer :: "'m CPUX86State_scheme \<Rightarrow> u64 \<Rightarrow> 'm CPUX86State_scheme" where
  "cpu_load_efer env val =
    (let env = env\<lparr>efer := val\<rparr>;
         env = env\<lparr>hflags := hflags env AND NOT (HF_LMA_MASK OR HF_SVME_MASK)\<rparr>;
         env = (if efer env AND MSR_EFER_LMA \<noteq> 0
                then env\<lparr>hflags := hflags env OR HF_LMA_MASK\<rparr> else env)
     in if efer env AND MSR_EFER_SVME \<noteq> 0
        then env\<lparr>hflags := hflags env OR HF_SVME_MASK\<rparr> else env)"

end
