(* ===== verification/CondCodes.thy ===== *)
theory CondCodes
  imports CpuState
begin

text \<open>
  Lazy condition codes: \<open>cc_helper.c\<close> and \<open>cc_helper_template.h\<close>.  An arithmetic
  instruction leaves its operand, its result and the kind of operation in \<open>cc_src\<close>,
  \<open>cc_dst\<close> and \<open>cc_op\<close>; \<open>helper_cc_compute_all\<close> recomputes the six status flags from
  them when they are needed.  The template is instantiated by the C code for the four
  operand sizes; here the size is an argument (type \<open>osize\<close>), and \<open>DATA_BITS\<close> is the
  number of bits it stands for.

  The specification side (\<open>flags_word\<close>, \<open>uval\<close>, \<open>sval\<close>) describes each flag by the
  arithmetic of the operation on unsigned and signed integers of that size.
\<close>

section \<open>The template parameters\<close>

datatype osize = SzB | SzW | SzL | SzQ

fun DATA_BITS :: "osize \<Rightarrow> nat" where
  "DATA_BITS SzB = 8"
| "DATA_BITS SzW = 16"
| "DATA_BITS SzL = 32"
| "DATA_BITS SzQ = 64"

definition SIGN_MASK :: "osize \<Rightarrow> u64" where
  "SIGN_MASK sz = push_bit (DATA_BITS sz - 1) 1"

fun DATA_MASK :: "osize \<Rightarrow> u64" where
  "DATA_MASK SzB = 0xff"
| "DATA_MASK SzW = 0xffff"
| "DATA_MASK SzL = 0xffffffff"
| "DATA_MASK SzQ = 0xffffffffffffffff"

text \<open>The cast \<open>(DATA_TYPE)x\<close>, read back in a 64-bit word.\<close>

abbreviation data_type :: "osize \<Rightarrow> u64 \<Rightarrow> u64" where
  "data_type sz x \<equiv> take_bit (DATA_BITS sz) x"

definition parity_table :: "u8 list" where
  "parity_table = [
     CC_P, 0, 0, CC_P, 0, CC_P, CC_P, 0,
     0, CC_P, CC_P, 0, CC_P, 0, 0, CC_P,
     0, CC_P, CC_P, 0, CC_P, 0, 0, CC_P,
     CC_P, 0, 0, CC_P, 0, CC_P, CC_P, 0,
     0, CC_P, CC_P, 0, CC_P, 0, 0, CC_P,
     CC_P, 0, 0, CC_P, 0, CC_P, CC_P, 0,
     CC_P, 0, 0, CC_P, 0, CC_P, CC_P, 0,
     0, CC_P, CC_P, 0, CC_P, 0, 0, CC_P,
     0, CC_P, CC_P, 0, CC_P, 0, 0, CC_P,
     CC_P, 0, 0, CC_P, 0, CC_P, CC_P, 0,
     CC_P, 0, 0, CC_P, 0, CC_P, CC_P, 0,
     0, CC_P, CC_P, 0, CC_P, 0, 0, CC_P,
     CC_P, 0, 0, CC_P, 0, CC_P, CC_P, 0,
     0, CC_P, CC_P, 0, CC_P, 0, 0, CC_P,
     0, CC_P, CC_P, 0, CC_P, 0, 0, CC_P,
     CC_P, 0, 0, CC_P, 0, CC_P, CC_P, 0,
     0, CC_P, CC_P, 0, CC_P, 0, 0, CC_P,
     CC_P, 0, 0, CC_P, 0, CC_P, CC_P, 0,
     CC_P, 0, 0, CC_P, 0, CC_P, CC_P, 0,
     0, CC_P, CC_P, 0, CC_P, 0, 0, CC_P,
     CC_P, 0, 0, CC_P, 0, CC_P, CC_P, 0,
     0, CC_P, CC_P, 0, CC_P, 0, 0, CC_P,
     0, CC_P, CC_P, 0, CC_P, 0, 0, CC_P,
     CC_P, 0, 0, CC_P, 0, CC_P, CC_P, 0,
     CC_P, 0, 0, CC_P, 0, CC_P, CC_P, 0,
     0, CC_P, CC_P, 0, CC_P, 0, 0, CC_P,
     0, CC_P, CC_P, 0, CC_P, 0, 0, CC_P,
     CC_P, 0, 0, CC_P, 0, CC_P, CC_P, 0,
     0, CC_P, CC_P, 0, CC_P, 0, 0, CC_P,
     CC_P, 0, 0, CC_P, 0, CC_P, CC_P, 0,
     CC_P, 0, 0, CC_P, 0, CC_P, CC_P, 0,
     0, CC_P, CC_P, 0, CC_P, 0, 0, CC_P]"

abbreviation parity_of :: "u64 \<Rightarrow> u32" where
  "parity_of x \<equiv> ucast (parity_table ! unat (ucast x :: u8))"

section \<open>The flag computations of the template\<close>

text \<open>Flags that all computations share: \<open>zf\<close> and \<open>sf\<close> of the result in \<open>CC_DST\<close>.\<close>

abbreviation zf_of :: "osize \<Rightarrow> u64 \<Rightarrow> u32" where
  "zf_of sz dst \<equiv> push_bit 6 (of_bool (data_type sz dst = 0))"

abbreviation sf_of :: "osize \<Rightarrow> u64 \<Rightarrow> u32" where
  "sf_of sz dst \<equiv> ucast (lshift dst (8 - int (DATA_BITS sz)) AND 0x80)"

definition compute_all_add :: "osize \<Rightarrow> 'm CPUX86State_scheme \<Rightarrow> u32" where
  "compute_all_add sz env =
    (let src1 = cc_src env;
         src2 = cc_dst env - cc_src env;
         cf = of_bool (data_type sz (cc_dst env) < data_type sz src1);
         pf = parity_of (cc_dst env);
         af = ucast ((cc_dst env XOR src1 XOR src2) AND 0x10);
         zf = zf_of sz (cc_dst env);
         sf = sf_of sz (cc_dst env);
         ovf = ucast (lshift ((src1 XOR src2 XOR -1) AND (src1 XOR cc_dst env))
                        (12 - int (DATA_BITS sz)) AND CC_O)
     in cf OR pf OR af OR zf OR sf OR ovf)"

definition compute_c_add :: "osize \<Rightarrow> 'm CPUX86State_scheme \<Rightarrow> u32" where
  "compute_c_add sz env =
    (let src1 = cc_src env in of_bool (data_type sz (cc_dst env) < data_type sz src1))"

definition compute_all_adc :: "osize \<Rightarrow> 'm CPUX86State_scheme \<Rightarrow> u32" where
  "compute_all_adc sz env =
    (let src1 = cc_src env;
         src2 = cc_dst env - cc_src env - 1;
         cf = of_bool (data_type sz (cc_dst env) \<le> data_type sz src1);
         pf = parity_of (cc_dst env);
         af = ucast ((cc_dst env XOR src1 XOR src2) AND 0x10);
         zf = zf_of sz (cc_dst env);
         sf = sf_of sz (cc_dst env);
         ovf = ucast (lshift ((src1 XOR src2 XOR -1) AND (src1 XOR cc_dst env))
                        (12 - int (DATA_BITS sz)) AND CC_O)
     in cf OR pf OR af OR zf OR sf OR ovf)"

definition compute_c_adc :: "osize \<Rightarrow> 'm CPUX86State_scheme \<Rightarrow> u32" where
  "compute_c_adc sz env =
    (let src1 = cc_src env in of_bool (data_type sz (cc_dst env) \<le> data_type sz src1))"

definition compute_all_sub :: "osize \<Rightarrow> 'm CPUX86State_scheme \<Rightarrow> u32" where
  "compute_all_sub sz env =
    (let src1 = cc_dst env + cc_src env;
         src2 = cc_src env;
         cf = of_bool (data_type sz src1 < data_type sz src2);
         pf = parity_of (cc_dst env);
         af = ucast ((cc_dst env XOR src1 XOR src2) AND 0x10);
         zf = zf_of sz (cc_dst env);
         sf = sf_of sz (cc_dst env);
         ovf = ucast (lshift ((src1 XOR src2) AND (src1 XOR cc_dst env))
                        (12 - int (DATA_BITS sz)) AND CC_O)
     in cf OR pf OR af OR zf OR sf OR ovf)"

definition compute_c_sub :: "osize \<Rightarrow> 'm CPUX86State_scheme \<Rightarrow> u32" where
  "compute_c_sub sz env =
    (let src1 = cc_dst env + cc_src env;
         src2 = cc_src env
     in of_bool (data_type sz src1 < data_type sz src2))"

definition compute_all_sbb :: "osize \<Rightarrow> 'm CPUX86State_scheme \<Rightarrow> u32" where
  "compute_all_sbb sz env =
    (let src1 = cc_dst env + cc_src env + 1;
         src2 = cc_src env;
         cf = of_bool (data_type sz src1 \<le> data_type sz src2);
         pf = parity_of (cc_dst env);
         af = ucast ((cc_dst env XOR src1 XOR src2) AND 0x10);
         zf = zf_of sz (cc_dst env);
         sf = sf_of sz (cc_dst env);
         ovf = ucast (lshift ((src1 XOR src2) AND (src1 XOR cc_dst env))
                        (12 - int (DATA_BITS sz)) AND CC_O)
     in cf OR pf OR af OR zf OR sf OR ovf)"

definition compute_c_sbb :: "osize \<Rightarrow> 'm CPUX86State_scheme \<Rightarrow> u32" where
  "compute_c_sbb sz env =
    (let src1 = cc_dst env + cc_src env + 1;
         src2 = cc_src env
     in of_bool (data_type sz src1 \<le> data_type sz src2))"

definition compute_all_logic :: "osize \<Rightarrow> 'm CPUX86State_scheme \<Rightarrow> u32" where
  "compute_all_logic sz env =
    (let cf = 0;
         pf = parity_of (cc_dst env);
         af = 0;
         zf = zf_of sz (cc_dst env);
         sf = sf_of sz (cc_dst env);
         ovf = 0
     in cf OR pf OR af OR zf OR sf OR ovf)"

definition compute_c_logic :: "osize \<Rightarrow> 'm CPUX86State_scheme \<Rightarrow> u32" where
  "compute_c_logic sz env = 0"

definition compute_all_inc :: "osize \<Rightarrow> 'm CPUX86State_scheme \<Rightarrow> u32" where
  "compute_all_inc sz env =
    (let src1 = cc_dst env - 1;
         src2 = 1;
         cf = ucast (cc_src env);
         pf = parity_of (cc_dst env);
         af = ucast ((cc_dst env XOR src1 XOR src2) AND 0x10);
         zf = zf_of sz (cc_dst env);
         sf = sf_of sz (cc_dst env);
         ovf = push_bit 11 (of_bool (cc_dst env AND DATA_MASK sz = SIGN_MASK sz))
     in cf OR pf OR af OR zf OR sf OR ovf)"

definition compute_c_inc :: "'m CPUX86State_scheme \<Rightarrow> u32" where
  "compute_c_inc env = ucast (cc_src env)"

definition compute_all_dec :: "osize \<Rightarrow> 'm CPUX86State_scheme \<Rightarrow> u32" where
  "compute_all_dec sz env =
    (let src1 = cc_dst env + 1;
         src2 = 1;
         cf = ucast (cc_src env);
         pf = parity_of (cc_dst env);
         af = ucast ((cc_dst env XOR src1 XOR src2) AND 0x10);
         zf = zf_of sz (cc_dst env);
         sf = sf_of sz (cc_dst env);
         ovf = push_bit 11 (of_bool (cc_dst env AND DATA_MASK sz = SIGN_MASK sz - 1))
     in cf OR pf OR af OR zf OR sf OR ovf)"

definition compute_all_shl :: "osize \<Rightarrow> 'm CPUX86State_scheme \<Rightarrow> u32" where
  "compute_all_shl sz env =
    (let cf = ucast (drop_bit (DATA_BITS sz - 1) (cc_src env) AND CC_C);
         pf = parity_of (cc_dst env);
         af = 0;
         zf = zf_of sz (cc_dst env);
         sf = sf_of sz (cc_dst env);
         ovf = ucast (lshift (cc_src env XOR cc_dst env) (12 - int (DATA_BITS sz)) AND CC_O)
     in cf OR pf OR af OR zf OR sf OR ovf)"

definition compute_c_shl :: "osize \<Rightarrow> 'm CPUX86State_scheme \<Rightarrow> u32" where
  "compute_c_shl sz env = ucast (drop_bit (DATA_BITS sz - 1) (cc_src env) AND CC_C)"

definition compute_c_sar :: "'m CPUX86State_scheme \<Rightarrow> u32" where
  "compute_c_sar env = ucast (cc_src env AND 1)"

definition compute_all_sar :: "osize \<Rightarrow> 'm CPUX86State_scheme \<Rightarrow> u32" where
  "compute_all_sar sz env =
    (let cf = ucast (cc_src env AND 1);
         pf = parity_of (cc_dst env);
         af = 0;
         zf = zf_of sz (cc_dst env);
         sf = sf_of sz (cc_dst env);
         ovf = ucast (lshift (cc_src env XOR cc_dst env) (12 - int (DATA_BITS sz)) AND CC_O)
     in cf OR pf OR af OR zf OR sf OR ovf)"

definition compute_c_mul :: "'m CPUX86State_scheme \<Rightarrow> u32" where
  "compute_c_mul env = of_bool (cc_src env \<noteq> 0)"

definition compute_all_mul :: "osize \<Rightarrow> 'm CPUX86State_scheme \<Rightarrow> u32" where
  "compute_all_mul sz env =
    (let cf = of_bool (cc_src env \<noteq> 0);
         pf = parity_of (cc_dst env);
         af = 0;
         zf = zf_of sz (cc_dst env);
         sf = sf_of sz (cc_dst env);
         ovf = push_bit 11 cf
     in cf OR pf OR af OR zf OR sf OR ovf)"

section \<open>Dispatch on the operation\<close>

definition compute_all_eflags :: "'m CPUX86State_scheme \<Rightarrow> u32" where
  "compute_all_eflags env = ucast (cc_src env)"

definition compute_c_eflags :: "'m CPUX86State_scheme \<Rightarrow> u32" where
  "compute_c_eflags env = ucast (cc_src env AND CC_C)"

fun helper_cc_compute_all :: "'m CPUX86State_scheme \<Rightarrow> CCOp \<Rightarrow> u32" where
  "helper_cc_compute_all env CC_OP_EFLAGS = compute_all_eflags env"
|  "helper_cc_compute_all env CC_OP_MULB = compute_all_mul SzB env"
|  "helper_cc_compute_all env CC_OP_MULW = compute_all_mul SzW env"
|  "helper_cc_compute_all env CC_OP_MULL = compute_all_mul SzL env"
|  "helper_cc_compute_all env CC_OP_MULQ = compute_all_mul SzQ env"
|  "helper_cc_compute_all env CC_OP_ADDB = compute_all_add SzB env"
|  "helper_cc_compute_all env CC_OP_ADDW = compute_all_add SzW env"
|  "helper_cc_compute_all env CC_OP_ADDL = compute_all_add SzL env"
|  "helper_cc_compute_all env CC_OP_ADDQ = compute_all_add SzQ env"
|  "helper_cc_compute_all env CC_OP_ADCB = compute_all_adc SzB env"
|  "helper_cc_compute_all env CC_OP_ADCW = compute_all_adc SzW env"
|  "helper_cc_compute_all env CC_OP_ADCL = compute_all_adc SzL env"
|  "helper_cc_compute_all env CC_OP_ADCQ = compute_all_adc SzQ env"
|  "helper_cc_compute_all env CC_OP_SUBB = compute_all_sub SzB env"
|  "helper_cc_compute_all env CC_OP_SUBW = compute_all_sub SzW env"
|  "helper_cc_compute_all env CC_OP_SUBL = compute_all_sub SzL env"
|  "helper_cc_compute_all env CC_OP_SUBQ = compute_all_sub SzQ env"
|  "helper_cc_compute_all env CC_OP_SBBB = compute_all_sbb SzB env"
|  "helper_cc_compute_all env CC_OP_SBBW = compute_all_sbb SzW env"
|  "helper_cc_compute_all env CC_OP_SBBL = compute_all_sbb SzL env"
|  "helper_cc_compute_all env CC_OP_SBBQ = compute_all_sbb SzQ env"
|  "helper_cc_compute_all env CC_OP_LOGICB = compute_all_logic SzB env"
|  "helper_cc_compute_all env CC_OP_LOGICW = compute_all_logic SzW env"
|  "helper_cc_compute_all env CC_OP_LOGICL = compute_all_logic SzL env"
|  "helper_cc_compute_all env CC_OP_LOGICQ = compute_all_logic SzQ env"
|  "helper_cc_compute_all env CC_OP_INCB = compute_all_inc SzB env"
|  "helper_cc_compute_all env CC_OP_INCW = compute_all_inc SzW env"
|  "helper_cc_compute_all env CC_OP_INCL = compute_all_inc SzL env"
|  "helper_cc_compute_all env CC_OP_INCQ = compute_all_inc SzQ env"
|  "helper_cc_compute_all env CC_OP_DECB = compute_all_dec SzB env"
|  "helper_cc_compute_all env CC_OP_DECW = compute_all_dec SzW env"
|  "helper_cc_compute_all env CC_OP_DECL = compute_all_dec SzL env"
|  "helper_cc_compute_all env CC_OP_DECQ = compute_all_dec SzQ env"
|  "helper_cc_compute_all env CC_OP_SHLB = compute_all_shl SzB env"
|  "helper_cc_compute_all env CC_OP_SHLW = compute_all_shl SzW env"
|  "helper_cc_compute_all env CC_OP_SHLL = compute_all_shl SzL env"
|  "helper_cc_compute_all env CC_OP_SHLQ = compute_all_shl SzQ env"
|  "helper_cc_compute_all env CC_OP_SARB = compute_all_sar SzB env"
|  "helper_cc_compute_all env CC_OP_SARW = compute_all_sar SzW env"
|  "helper_cc_compute_all env CC_OP_SARL = compute_all_sar SzL env"
|  "helper_cc_compute_all env CC_OP_SARQ = compute_all_sar SzQ env"
|  "helper_cc_compute_all env CC_OP_DYNAMIC = 0"
|  "helper_cc_compute_all env CC_OP_NB = 0"

definition cpu_cc_compute_all :: "'m CPUX86State_scheme \<Rightarrow> CCOp \<Rightarrow> u32" where
  "cpu_cc_compute_all env1 op = helper_cc_compute_all env1 op"

fun helper_cc_compute_c :: "'m CPUX86State_scheme \<Rightarrow> CCOp \<Rightarrow> u32" where
  "helper_cc_compute_c env CC_OP_EFLAGS = compute_c_eflags env"
|  "helper_cc_compute_c env CC_OP_MULB = compute_c_mul env"
|  "helper_cc_compute_c env CC_OP_MULW = compute_c_mul env"
|  "helper_cc_compute_c env CC_OP_MULL = compute_c_mul env"
|  "helper_cc_compute_c env CC_OP_MULQ = compute_c_mul env"
|  "helper_cc_compute_c env CC_OP_ADDB = compute_c_add SzB env"
|  "helper_cc_compute_c env CC_OP_ADDW = compute_c_add SzW env"
|  "helper_cc_compute_c env CC_OP_ADDL = compute_c_add SzL env"
|  "helper_cc_compute_c env CC_OP_ADDQ = compute_c_add SzQ env"
|  "helper_cc_compute_c env CC_OP_ADCB = compute_c_adc SzB env"
|  "helper_cc_compute_c env CC_OP_ADCW = compute_c_adc SzW env"
|  "helper_cc_compute_c env CC_OP_ADCL = compute_c_adc SzL env"
|  "helper_cc_compute_c env CC_OP_ADCQ = compute_c_adc SzQ env"
|  "helper_cc_compute_c env CC_OP_SUBB = compute_c_sub SzB env"
|  "helper_cc_compute_c env CC_OP_SUBW = compute_c_sub SzW env"
|  "helper_cc_compute_c env CC_OP_SUBL = compute_c_sub SzL env"
|  "helper_cc_compute_c env CC_OP_SUBQ = compute_c_sub SzQ env"
|  "helper_cc_compute_c env CC_OP_SBBB = compute_c_sbb SzB env"
|  "helper_cc_compute_c env CC_OP_SBBW = compute_c_sbb SzW env"
|  "helper_cc_compute_c env CC_OP_SBBL = compute_c_sbb SzL env"
|  "helper_cc_compute_c env CC_OP_SBBQ = compute_c_sbb SzQ env"
|  "helper_cc_compute_c env CC_OP_LOGICB = compute_c_logic SzB env"
|  "helper_cc_compute_c env CC_OP_LOGICW = compute_c_logic SzW env"
|  "helper_cc_compute_c env CC_OP_LOGICL = compute_c_logic SzL env"
|  "helper_cc_compute_c env CC_OP_LOGICQ = compute_c_logic SzQ env"
|  "helper_cc_compute_c env CC_OP_INCB = compute_c_inc env"
|  "helper_cc_compute_c env CC_OP_INCW = compute_c_inc env"
|  "helper_cc_compute_c env CC_OP_INCL = compute_c_inc env"
|  "helper_cc_compute_c env CC_OP_INCQ = compute_c_inc env"
|  "helper_cc_compute_c env CC_OP_DECB = compute_c_inc env"
|  "helper_cc_compute_c env CC_OP_DECW = compute_c_inc env"
|  "helper_cc_compute_c env CC_OP_DECL = compute_c_inc env"
|  "helper_cc_compute_c env CC_OP_DECQ = compute_c_inc env"
|  "helper_cc_compute_c env CC_OP_SHLB = compute_c_shl SzB env"
|  "helper_cc_compute_c env CC_OP_SHLW = compute_c_shl SzW env"
|  "helper_cc_compute_c env CC_OP_SHLL = compute_c_shl SzL env"
|  "helper_cc_compute_c env CC_OP_SHLQ = compute_c_shl SzQ env"
|  "helper_cc_compute_c env CC_OP_SARB = compute_c_sar env"
|  "helper_cc_compute_c env CC_OP_SARW = compute_c_sar env"
|  "helper_cc_compute_c env CC_OP_SARL = compute_c_sar env"
|  "helper_cc_compute_c env CC_OP_SARQ = compute_c_sar env"
|  "helper_cc_compute_c env CC_OP_DYNAMIC = 0"
|  "helper_cc_compute_c env CC_OP_NB = 0"

section \<open>Helpers on eflags\<close>

definition cpu_compute_eflags :: "'m CPUX86State_scheme \<Rightarrow> u32" where
  "cpu_compute_eflags env =
     ucast (eflags env) OR cpu_cc_compute_all env (cc_op env) OR (df env AND DF_MASK)"

definition helper_write_eflags :: "'m CPUX86State_scheme \<Rightarrow> u64 \<Rightarrow> u32 \<Rightarrow> 'm CPUX86State_scheme" where
  "helper_write_eflags env t0 update_mask = cpu_load_eflags env (ucast t0) update_mask"

definition helper_read_eflags :: "'m CPUX86State_scheme \<Rightarrow> u64" where
  "helper_read_eflags env =
    (let efl = helper_cc_compute_all env (cc_op env);
         efl = efl OR (df env AND DF_MASK);
         efl = efl OR ucast (eflags env AND NOT (VM_MASK OR RF_MASK))
     in ucast efl)"

definition helper_clts :: "'m CPUX86State_scheme \<Rightarrow> 'm CPUX86State_scheme" where
  "helper_clts env =
    (let env = set_cr 0 (cr env 0 AND NOT CR0_TS_MASK) env
     in env\<lparr>hflags := hflags env AND NOT HF_TS_MASK\<rparr>)"

definition helper_reset_rf :: "'m CPUX86State_scheme \<Rightarrow> 'm CPUX86State_scheme" where
  "helper_reset_rf env = env\<lparr>eflags := eflags env AND NOT RF_MASK\<rparr>"

definition helper_cli :: "'m CPUX86State_scheme \<Rightarrow> 'm CPUX86State_scheme" where
  "helper_cli env = env\<lparr>eflags := eflags env AND NOT IF_MASK\<rparr>"

definition helper_sti :: "'m CPUX86State_scheme \<Rightarrow> 'm CPUX86State_scheme" where
  "helper_sti env = env\<lparr>eflags := eflags env OR IF_MASK\<rparr>"

definition helper_set_inhibit_irq :: "'m CPUX86State_scheme \<Rightarrow> 'm CPUX86State_scheme" where
  "helper_set_inhibit_irq env = env\<lparr>hflags := hflags env OR HF_INHIBIT_IRQ_MASK\<rparr>"

definition helper_reset_inhibit_irq :: "'m CPUX86State_scheme \<Rightarrow> 'm CPUX86State_scheme" where
  "helper_reset_inhibit_irq env = env\<lparr>hflags := hflags env AND NOT HF_INHIBIT_IRQ_MASK\<rparr>"

section \<open>The arithmetic meaning of the flags\<close>

text \<open>\<open>uval\<close> and \<open>sval\<close>: an operand read as an unsigned and as a signed integer.\<close>

definition uval :: "osize \<Rightarrow> u64 \<Rightarrow> int" where
  "uval sz x = take_bit (DATA_BITS sz) (uint x)"

definition sval :: "osize \<Rightarrow> u64 \<Rightarrow> int" where
  "sval sz x = signed_take_bit (DATA_BITS sz - 1) (uint x)"

definition fits_signed :: "osize \<Rightarrow> int \<Rightarrow> bool" where
  "fits_signed sz k \<longleftrightarrow> - (2 ^ (DATA_BITS sz - 1)) \<le> k \<and> k < 2 ^ (DATA_BITS sz - 1)"

definition even_parity :: "u64 \<Rightarrow> bool" where
  "even_parity x \<longleftrightarrow> even (length (filter (bit x) [0..<8]))"

definition flags_word :: "bool \<Rightarrow> bool \<Rightarrow> bool \<Rightarrow> bool \<Rightarrow> bool \<Rightarrow> bool \<Rightarrow> u32" where
  "flags_word c p a z s v =
     of_bool c * CC_C OR of_bool p * CC_P OR of_bool a * CC_A OR
     of_bool z * CC_Z OR of_bool s * CC_S OR of_bool v * CC_O"

text \<open>The flags of \<open>a + b + c\<close> and of \<open>a - b - c\<close>, where \<open>c\<close> is the carry or borrow in.\<close>

definition add_flags :: "osize \<Rightarrow> u64 \<Rightarrow> u64 \<Rightarrow> bool \<Rightarrow> u32" where
  "add_flags sz a b c = flags_word
     (2 ^ DATA_BITS sz \<le> uval sz a + uval sz b + of_bool c)
     (even_parity (a + b + of_bool c))
     (16 \<le> uint a mod 16 + uint b mod 16 + of_bool c)
     (uval sz (a + b + of_bool c) = 0)
     (sval sz (a + b + of_bool c) < 0)
     (\<not> fits_signed sz (sval sz a + sval sz b + of_bool c))"

definition sub_flags :: "osize \<Rightarrow> u64 \<Rightarrow> u64 \<Rightarrow> bool \<Rightarrow> u32" where
  "sub_flags sz a b c = flags_word
     (uval sz a < uval sz b + of_bool c)
     (even_parity (a - b - of_bool c))
     (uint a mod 16 < uint b mod 16 + of_bool c)
     (uval sz (a - b - of_bool c) = 0)
     (sval sz (a - b - of_bool c) < 0)
     (\<not> fits_signed sz (sval sz a - sval sz b - of_bool c))"

section \<open>Bit-level lemmas\<close>

lemma DATA_BITS_bounds: "8 \<le> DATA_BITS sz" "DATA_BITS sz \<le> 64" "0 < DATA_BITS sz"
  by (cases sz; simp)+

lemma DATA_MASK_eq: "x AND DATA_MASK sz = data_type sz x"
  by (cases sz; simp add: take_bit_eq_mask mask_numeral)

lemma upt_0_8: "[0..<8] = [0, Suc 0, 2, 3, 4, 5, 6, 7]"
  by code_simp

lemma parity_table_eq:
  "parity_table = map (\<lambda>i. if even (length (filter (bit i) [0, 1, 2, 3, 4, 5, 6, 7]))
     then CC_P else 0) [0::int..255]"
  by (simp add: parity_table_def upto_rec1)

lemma parity_table_uint:
  fixes w :: u8
  shows "parity_table ! unat w =
    (if even (length (filter (bit (uint w)) [0, 1, 2, 3, 4, 5, 6, 7])) then CC_P else 0)"
proof -
  have "unat w < 256" using unsigned_less [of w, where ?'a = nat] by (simp del: unsigned_less)
  then show ?thesis
    unfolding parity_table_eq by (subst nth_map) (simp_all only: length_upto nth_upto, simp_all)
qed

lemma parity_table_correct:
  fixes w :: u8
  shows "parity_table ! unat w = (if even (length (filter (bit w) [0..<8])) then CC_P else 0)"
proof -
  have "filter (bit w) [0..<8] = filter (bit (uint w)) [0..<8]"
    by (rule filter_cong) (simp_all add: bit_word_uint)
  then show ?thesis
    unfolding parity_table_uint by (simp only: upt_0_8 One_nat_def)
qed

lemma parity_of_correct: "parity_of x = of_bool (even_parity x) * CC_P"
proof -
  have "filter (bit (ucast x :: u8)) [0..<8] = filter (bit x) [0..<8]"
    by (rule filter_cong) (auto simp: bit_simps)
  then show ?thesis
    by (simp add: parity_table_correct even_parity_def)
qed

lemma lshift_sign: "lshift x (8 - int (DATA_BITS sz)) AND 0x80
    = of_bool (bit x (DATA_BITS sz - 1)) * 0x80"
  using and_exp_of_bool [of "lshift x (8 - int (DATA_BITS sz))" 7]
  by (cases sz) (simp_all add: lshift_def bit_simps)

lemma lshift_overflow: "lshift x (12 - int (DATA_BITS sz)) AND 0x800
    = of_bool (bit x (DATA_BITS sz - 1)) * 0x800"
  using and_exp_of_bool [of "lshift x (12 - int (DATA_BITS sz))" 11]
  by (cases sz) (simp_all add: lshift_def bit_simps)

lemma and_16_bit: "(x :: u64) AND 0x10 = of_bool (bit x 4) * 0x10"
  using and_exp_of_bool [of x 4] by simp

lemma ucast_of_bool_times: "ucast (of_bool b * (numeral k :: u64)) = (of_bool b * ucast (numeral k :: u64) :: u32)"
  by (cases b) simp_all

lemma sval_sign: "sval sz x < 0 \<longleftrightarrow> bit x (DATA_BITS sz - 1)"
  by (simp add: sval_def bit_word_uint)

lemma sf_of_correct: "sf_of sz x = of_bool (sval sz x < 0) * CC_S"
  by (simp add: lshift_sign sval_sign ucast_of_bool_times)

lemma uint_data_type: "uint (data_type sz x) = uval sz x"
  by (simp add: uval_def unsigned_take_bit_eq)

lemma zf_of_correct: "zf_of sz x = of_bool (uval sz x = 0) * CC_Z"
  by (simp add: uint_data_type [symmetric] unsigned_eq_0_iff)

lemma uval_bounds: "0 \<le> uval sz x" "uval sz x < 2 ^ DATA_BITS sz"
  by (simp_all add: uval_def take_bit_int_less)

lemma data_type_less_iff: "data_type sz x < data_type sz y \<longleftrightarrow> uval sz x < uval sz y"
  by (simp add: word_less_def uint_data_type)

lemma data_type_le_iff: "data_type sz x \<le> data_type sz y \<longleftrightarrow> uval sz x \<le> uval sz y"
  by (simp add: word_le_def uint_data_type)

lemma uint_sum: "uint (a + b + of_bool c :: u64) = take_bit 64 (uint a + uint b + of_bool c)"
proof -
  have "a + b + of_bool c = word_of_int (uint a + uint b + of_bool c)" by simp
  then show ?thesis by (simp only: uint_word_of_int_eq) simp
qed

lemma bit_sum: "k < 64 \<Longrightarrow> bit (a + b + of_bool c :: u64) k = bit (uint a + uint b + of_bool c) k"
  by (simp only: bit_word_uint uint_sum) (simp add: bit_take_bit_iff)

lemma uval_sum: "uval sz (a + b + of_bool c) = (uval sz a + uval sz b + of_bool c) mod 2 ^ DATA_BITS sz"
proof -
  have "uval sz (a + b + of_bool c) = take_bit (DATA_BITS sz) (uint a + uint b + of_bool c)"
    using DATA_BITS_bounds(2) [of sz] unfolding uval_def uint_sum by (simp add: min_def)
  also have "\<dots> = (uval sz a + uval sz b + of_bool c) mod 2 ^ DATA_BITS sz"
    unfolding uval_def take_bit_eq_mod by (metis mod_add_eq mod_add_left_eq)
  finally show ?thesis .
qed

text \<open>The three flags that depend on carries, for an addition with carry in.\<close>

lemma carry_out_iff:
  "uval sz (a + b + of_bool c) < uval sz a + of_bool c \<longleftrightarrow>
     2 ^ DATA_BITS sz \<le> uval sz a + uval sz b + of_bool c"
  unfolding uval_sum using uval_bounds [of sz a] uval_bounds [of sz b]
  by (cases c) (auto simp: mod_add_less_iff mod_add1_le_iff)

lemma aux_carry_iff:
  "bit ((a + b + of_bool c) XOR a XOR b :: u64) 4 \<longleftrightarrow>
     16 \<le> uint a mod 16 + uint b mod 16 + of_bool c"
  using bit_add_carry_int [of "uint a" "uint b" c 4]
  by (auto simp: bit_xor_iff bit_sum take_bit_eq_mod bit_word_uint [of a] bit_word_uint [of b])

lemma signed_overflow_iff:
  "(bit a (DATA_BITS sz - 1) = bit b (DATA_BITS sz - 1) \<and>
    bit a (DATA_BITS sz - 1) \<noteq> bit (a + b + of_bool c) (DATA_BITS sz - 1)) \<longleftrightarrow>
   \<not> fits_signed sz (sval sz a + sval sz b + of_bool c)"
  using signed_add_overflow_iff [of "uint a" "DATA_BITS sz - 1" "uint b" c] DATA_BITS_bounds [of sz]
  by (simp add: bit_sum fits_signed_def sval_def bit_word_uint [of a] bit_word_uint [of b])

text \<open>Subtraction is addition of the complement.\<close>

lemma diff_as_sum: "(a - b - of_bool c :: u64) = a + NOT b + of_bool (\<not> c)"
  by (cases c) (simp_all add: not_eq_complement)

lemma uval_not: "uval sz (NOT b) = 2 ^ DATA_BITS sz - 1 - uval sz b"
proof -
  have "uval sz (NOT b) = take_bit (DATA_BITS sz) (NOT (uint b))"
    using DATA_BITS_bounds(2) [of sz]
    by (simp add: uval_def unsigned_not_eq min_def)
  then show ?thesis by (simp add: take_bit_not_eq_mask_diff mask_eq_exp_minus_1 uval_def)
qed

lemma sval_not: "sval sz (NOT b) = - sval sz b - 1"
proof -
  have "DATA_BITS sz - 1 < 64" using DATA_BITS_bounds [of sz] by simp
  then have "sval sz (NOT b) = signed_take_bit (DATA_BITS sz - 1) (NOT (uint b))"
    unfolding sval_def signed_take_bit_low
    by (simp add: unsigned_not_eq min_def bit_take_bit_iff)
  then show ?thesis
    unfolding sval_def signed_take_bit_low
    by (simp add: take_bit_not_eq_mask_diff mask_eq_exp_minus_1 bit_not_iff_eq)
qed

lemma uint_not_mod16: "uint (NOT b :: u64) mod 16 = 15 - uint b mod 16"
proof -
  have "take_bit 4 (uint (NOT b :: u64)) = take_bit 4 (NOT (uint b))"
    by (simp add: unsigned_not_eq)
  then show ?thesis
    by (simp add: take_bit_not_eq_mask_diff mask_eq_exp_minus_1) (simp add: take_bit_eq_mod)
qed

section \<open>The flag computations are correct\<close>

lemma add_parts:
  fixes a b :: u64 and c :: bool
  defines "d \<equiv> a + b + of_bool c"
  shows "add_flags sz a b c = of_bool (uval sz d < uval sz a + of_bool c) OR parity_of d OR
     ucast ((d XOR a XOR b) AND 0x10) OR zf_of sz d OR sf_of sz d OR
     ucast (lshift ((a XOR b XOR -1) AND (a XOR d)) (12 - int (DATA_BITS sz)) AND CC_O)"
proof -
  have v: "bit ((a XOR b XOR -1) AND (a XOR d)) (DATA_BITS sz - 1) \<longleftrightarrow>
      \<not> fits_signed sz (sval sz a + sval sz b + of_bool c)"
    unfolding d_def signed_overflow_iff [symmetric] using DATA_BITS_bounds [of sz]
    by (auto simp: bit_simps)
  show ?thesis
    unfolding add_flags_def flags_word_def d_def [symmetric] carry_out_iff [symmetric]
      aux_carry_iff [symmetric] zf_of_correct sf_of_correct parity_of_correct lshift_overflow v
      and_16_bit ucast_of_bool_times
    by (simp add: d_def)
qed

lemma sub_parts:
  fixes a b :: u64 and c :: bool
  defines "d \<equiv> a - b - of_bool c"
  shows "sub_flags sz a b c = of_bool (uval sz a < uval sz b + of_bool c) OR parity_of d OR
     ucast ((d XOR a XOR b) AND 0x10) OR zf_of sz d OR sf_of sz d OR
     ucast (lshift ((a XOR b) AND (a XOR d)) (12 - int (DATA_BITS sz)) AND CC_O)"
proof -
  have v: "bit ((a XOR b) AND (a XOR d)) (DATA_BITS sz - 1) \<longleftrightarrow>
      \<not> fits_signed sz (sval sz a - sval sz b - of_bool c)"
    using signed_overflow_iff [of a sz "NOT b" "\<not> c"] DATA_BITS_bounds [of sz]
    unfolding d_def diff_as_sum sval_not by (cases c) (auto simp: bit_simps algebra_simps)
  have x: "bit (d XOR a XOR b) 4 \<longleftrightarrow> uint a mod 16 < uint b mod 16 + of_bool c"
  proof -
    have "bit (d XOR a XOR NOT b) 4 \<longleftrightarrow> \<not> (uint a mod 16 < uint b mod 16 + of_bool c)"
      unfolding d_def diff_as_sum aux_carry_iff uint_not_mod16 by (cases c) auto
    then show ?thesis by (simp add: bit_simps)
  qed
  show ?thesis
    unfolding sub_flags_def flags_word_def d_def [symmetric] zf_of_correct sf_of_correct
      parity_of_correct lshift_overflow v x and_16_bit ucast_of_bool_times
    by simp
qed

lemma data_type_carry:
  "data_type sz x < data_type sz y \<longleftrightarrow> uval sz x < uval sz y + of_bool False"
  "data_type sz x \<le> data_type sz y \<longleftrightarrow> uval sz x < uval sz y + of_bool True"
  by (simp_all add: data_type_less_iff data_type_le_iff)

lemma compute_all_add_flags:
  "compute_all_add sz (env\<lparr>cc_src := a, cc_dst := a + b\<rparr>) = add_flags sz a b False"
  unfolding add_parts compute_all_add_def Let_def data_type_carry by simp

lemma compute_all_adc_flags:
  "compute_all_adc sz (env\<lparr>cc_src := a, cc_dst := a + b + 1\<rparr>) = add_flags sz a b True"
  unfolding add_parts compute_all_adc_def Let_def data_type_carry by simp

lemma compute_all_sub_flags:
  "compute_all_sub sz (env\<lparr>cc_src := b, cc_dst := a - b\<rparr>) = sub_flags sz a b False"
  unfolding sub_parts compute_all_sub_def Let_def data_type_carry by simp

lemma compute_all_sbb_flags:
  "compute_all_sbb sz (env\<lparr>cc_src := b, cc_dst := a - b - 1\<rparr>) = sub_flags sz a b True"
  unfolding sub_parts compute_all_sbb_def Let_def data_type_carry by simp

text \<open>\<open>INC\<close> and \<open>DEC\<close> set the flags of \<open>a + 1\<close> and \<open>a - 1\<close> but keep the carry flag.\<close>

definition with_carry :: "u32 \<Rightarrow> bool \<Rightarrow> u32" where
  "with_carry f c = (f AND NOT CC_C) OR of_bool c"

lemma with_carry_flags_word: "with_carry (flags_word c p a z s v) c' = flags_word c' p a z s v"
  unfolding with_carry_def flags_word_def
  by (cases c; cases c'; cases p; cases a; cases z; cases s; cases v) simp_all

lemma sval_uval:
  "sval sz x = (if uval sz x < 2 ^ (DATA_BITS sz - 1) then uval sz x else uval sz x - 2 ^ DATA_BITS sz)"
proof -
  let ?m = "DATA_BITS sz - 1"
  have m: "DATA_BITS sz = Suc ?m" using DATA_BITS_bounds(3) [of sz] by simp
  have u: "uval sz x = 2 ^ ?m * of_bool (bit (uint x) ?m) + take_bit ?m (uint x)"
    unfolding uval_def by (subst m) (rule take_bit_Suc_from_most)
  have p: "(2 :: int) ^ DATA_BITS sz = 2 * 2 ^ ?m" by (subst m) simp
  show ?thesis
    unfolding sval_def signed_take_bit_low u p
    using take_bit_int_less [of ?m "uint x"] take_bit_nonnegative [of ?m "uint x"]
    by (cases "bit (uint x) ?m") simp_all
qed

lemma uval_SIGN_MASK: "x AND DATA_MASK sz = SIGN_MASK sz \<longleftrightarrow> uval sz x = 2 ^ (DATA_BITS sz - 1)"
proof -
  have "x AND DATA_MASK sz = SIGN_MASK sz \<longleftrightarrow> uint (data_type sz x) = uint (SIGN_MASK sz)"
    by (simp only: DATA_MASK_eq word_uint_eq_iff)
  also have "uint (SIGN_MASK sz) = 2 ^ (DATA_BITS sz - 1)"
    by (cases sz) (simp_all add: SIGN_MASK_def)
  finally show ?thesis by (simp only: uint_data_type)
qed

lemma uval_SIGN_MASK_pred:
  "x AND DATA_MASK sz = SIGN_MASK sz - 1 \<longleftrightarrow> uval sz x = 2 ^ (DATA_BITS sz - 1) - 1"
proof -
  have "x AND DATA_MASK sz = SIGN_MASK sz - 1 \<longleftrightarrow> uint (data_type sz x) = uint (SIGN_MASK sz - 1)"
    by (simp only: DATA_MASK_eq word_uint_eq_iff)
  also have "uint (SIGN_MASK sz - 1) = 2 ^ (DATA_BITS sz - 1) - 1"
    by (cases sz) (simp_all add: SIGN_MASK_def)
  finally show ?thesis by (simp only: uint_data_type)
qed

lemma uval_1: "uval sz 1 = 1" and sval_1: "sval sz 1 = 1"
  by (cases sz; simp add: uval_def sval_def)+

lemma uval_inc: "uval sz (a + 1) = (if uval sz a = 2 ^ DATA_BITS sz - 1 then 0 else uval sz a + 1)"
  using uval_sum [of sz a 1 False] uval_bounds [of sz a] by (auto simp: uval_1)

lemma inc_overflow:
  "(a + 1) AND DATA_MASK sz = SIGN_MASK sz \<longleftrightarrow> \<not> fits_signed sz (sval sz a + 1)"
  unfolding uval_SIGN_MASK uval_inc fits_signed_def sval_uval
  using uval_bounds [of sz a] by (cases sz) auto

lemma dec_overflow:
  "(a - 1) AND DATA_MASK sz = SIGN_MASK sz - 1 \<longleftrightarrow> \<not> fits_signed sz (sval sz a - 1)"
  using uval_inc [of sz "a - 1"] uval_bounds [of sz "a - 1"]
  unfolding uval_SIGN_MASK_pred fits_signed_def sval_uval
  by (cases sz) (auto split: if_splits)

lemma push_bit_11: "push_bit 11 (of_bool b :: u32) = of_bool b * CC_O"
  by (cases b) simp_all

lemma ucast_of_bool: "ucast (of_bool b :: u64) = (of_bool b :: u32)"
  by (cases b) simp_all

lemma compute_all_inc_flags:
  "compute_all_inc sz (env\<lparr>cc_src := of_bool c, cc_dst := a + 1\<rparr>) =
     with_carry (add_flags sz a 1 False) c"
proof -
  have x: "bit ((a + 1) XOR a XOR 1) 4 \<longleftrightarrow> 15 \<le> uint a mod 16"
    using aux_carry_iff [of a 1 False] by simp
  show ?thesis
    unfolding add_flags_def with_carry_flags_word unfolding flags_word_def compute_all_inc_def
    by (simp add: Let_def x and_16_bit ucast_of_bool_times zf_of_correct
        sf_of_correct parity_of_correct inc_overflow sval_1 ucast_of_bool push_bit_11)
qed

lemma compute_all_dec_flags:
  "compute_all_dec sz (env\<lparr>cc_src := of_bool c, cc_dst := a - 1\<rparr>) =
     with_carry (sub_flags sz a 1 False) c"
proof -
  have x: "bit ((a - 1) XOR a XOR 1) 4 \<longleftrightarrow> uint a mod 16 < 1"
  proof -
    have "bit ((a - 1) XOR a XOR NOT 1) 4 \<longleftrightarrow> \<not> (uint a mod 16 < 1)"
      using aux_carry_iff [of a "NOT 1" True] diff_as_sum [of a 1 False]
      by (auto simp: uint_not_mod16)
    then show ?thesis by (simp add: bit_simps)
  qed
  show ?thesis
    unfolding sub_flags_def with_carry_flags_word unfolding flags_word_def compute_all_dec_def
    by (simp add: Let_def x and_16_bit ucast_of_bool_times zf_of_correct
        sf_of_correct parity_of_correct dec_overflow sval_1 ucast_of_bool push_bit_11)
qed

text \<open>
  Logical operations and multiplications; shifts, where \<open>cc_src\<close> holds the value before
  the last single-bit shift.
\<close>

lemma compute_all_logic_flags:
  "compute_all_logic sz env = flags_word False (even_parity (cc_dst env)) False
     (uval sz (cc_dst env) = 0) (sval sz (cc_dst env) < 0) False"
  unfolding compute_all_logic_def flags_word_def
  by (simp add: Let_def zf_of_correct sf_of_correct parity_of_correct)

lemma compute_all_mul_flags:
  "compute_all_mul sz env = flags_word (cc_src env \<noteq> 0) (even_parity (cc_dst env)) False
     (uval sz (cc_dst env) = 0) (sval sz (cc_dst env) < 0) (cc_src env \<noteq> 0)"
  unfolding compute_all_mul_def flags_word_def
  by (simp add: Let_def zf_of_correct sf_of_correct parity_of_correct push_bit_11)

lemma and_1_bit: "(x :: u64) AND 1 = of_bool (bit x 0)"
  using and_exp_of_bool [of x 0] by simp

lemma compute_all_shl_flags:
  "compute_all_shl sz (env\<lparr>cc_src := a, cc_dst := push_bit 1 a\<rparr>) = flags_word (sval sz a < 0)
     (even_parity (push_bit 1 a)) False (uval sz (push_bit 1 a) = 0) (sval sz (push_bit 1 a) < 0)
     ((sval sz a < 0) \<noteq> (sval sz (push_bit 1 a) < 0))"
  unfolding compute_all_shl_def flags_word_def
  by (simp add: Let_def zf_of_correct sf_of_correct parity_of_correct and_1_bit bit_drop_bit_eq
      sval_sign ucast_of_bool lshift_overflow ucast_of_bool_times bit_xor_iff)

lemma compute_all_sar_flags:
  "compute_all_sar sz (env\<lparr>cc_src := a, cc_dst := d\<rparr>) = flags_word (odd (uint a))
     (even_parity d) False (uval sz d = 0) (sval sz d < 0) ((sval sz a < 0) \<noteq> (sval sz d < 0))"
  unfolding compute_all_sar_def flags_word_def
  by (simp add: Let_def zf_of_correct sf_of_correct parity_of_correct and_1_bit bit_word_uint [of _ 0]
      bit_0 sval_sign ucast_of_bool lshift_overflow ucast_of_bool_times bit_xor_iff)

section \<open>Properties of the condition codes\<close>

fun cc_op_add :: "osize \<Rightarrow> bool \<Rightarrow> CCOp" where
  "cc_op_add SzB c = (if c then CC_OP_ADCB else CC_OP_ADDB)"
| "cc_op_add SzW c = (if c then CC_OP_ADCW else CC_OP_ADDW)"
| "cc_op_add SzL c = (if c then CC_OP_ADCL else CC_OP_ADDL)"
| "cc_op_add SzQ c = (if c then CC_OP_ADCQ else CC_OP_ADDQ)"

fun cc_op_sub :: "osize \<Rightarrow> bool \<Rightarrow> CCOp" where
  "cc_op_sub SzB c = (if c then CC_OP_SBBB else CC_OP_SUBB)"
| "cc_op_sub SzW c = (if c then CC_OP_SBBW else CC_OP_SUBW)"
| "cc_op_sub SzL c = (if c then CC_OP_SBBL else CC_OP_SUBL)"
| "cc_op_sub SzQ c = (if c then CC_OP_SBBQ else CC_OP_SUBQ)"

fun cc_op_inc :: "osize \<Rightarrow> CCOp" where
  "cc_op_inc SzB = CC_OP_INCB" | "cc_op_inc SzW = CC_OP_INCW"
| "cc_op_inc SzL = CC_OP_INCL" | "cc_op_inc SzQ = CC_OP_INCQ"

fun cc_op_dec :: "osize \<Rightarrow> CCOp" where
  "cc_op_dec SzB = CC_OP_DECB" | "cc_op_dec SzW = CC_OP_DECW"
| "cc_op_dec SzL = CC_OP_DECL" | "cc_op_dec SzQ = CC_OP_DECQ"

text \<open>
  C10: the flags recomputed after an addition (\<open>ADD\<close>, and \<open>ADC\<close> with the carry set) are
  the arithmetic ones, at every operand size: CF is the unsigned overflow, OF the signed
  overflow, AF the carry out of the low nibble, PF the parity of the low byte, ZF and SF
  the zero test and sign of the result.
\<close>
theorem cc_add_correct:
  "helper_cc_compute_all (env\<lparr>cc_src := a, cc_dst := a + b + of_bool c\<rparr>) (cc_op_add sz c) =
     add_flags sz a b c"
  using compute_all_add_flags [where sz = sz and env = env and a = a and b = b] compute_all_adc_flags [where sz = sz and env = env and a = a and b = b]
  by (cases sz; cases c) simp_all

text \<open>
  C11: the flags recomputed after a subtraction or comparison (\<open>SUB\<close>, \<open>CMP\<close>, and \<open>SBB\<close>
  with the borrow set) are the arithmetic ones of \<open>a - b - c\<close>, at every operand size.
\<close>
theorem cc_sub_correct:
  "helper_cc_compute_all (env\<lparr>cc_src := b, cc_dst := a - b - of_bool c\<rparr>) (cc_op_sub sz c) =
     sub_flags sz a b c"
  using compute_all_sub_flags [where sz = sz and env = env and a = a and b = b] compute_all_sbb_flags [where sz = sz and env = env and a = a and b = b]
  by (cases sz; cases c) simp_all

text \<open>
  \<open>INC\<close> and \<open>DEC\<close> set every flag as the addition or subtraction of one does, except
  the carry flag, which keeps the value saved in \<open>cc_src\<close>.
\<close>
lemma cc_inc_dec_correct:
  "helper_cc_compute_all (env\<lparr>cc_src := of_bool c, cc_dst := a + 1\<rparr>) (cc_op_inc sz) =
     with_carry (add_flags sz a 1 False) c \<and>
   helper_cc_compute_all (env\<lparr>cc_src := of_bool c, cc_dst := a - 1\<rparr>) (cc_op_dec sz) =
     with_carry (sub_flags sz a 1 False) c"
  using compute_all_inc_flags [where sz = sz and env = env and c = c and a = a] compute_all_dec_flags [where sz = sz and env = env and c = c and a = a]
  by (cases sz) simp_all

subsection \<open>The carry flag alone\<close>

lemma ucast_scast_32 [simp]: "(ucast (scast (x :: u32) :: u64) :: u32) = x"
  by (rule bit_word_eqI) (simp add: bit_simps)

lemma ucast_and_or [simp]:
  "(ucast (x AND y :: u64) :: u32) = ucast x AND ucast y"
  "(ucast (x OR y :: u64) :: u32) = ucast x OR ucast y"
  by (rule bit_word_eqI; simp add: bit_simps)+

lemma of_bool_mask_and_1:
  "of_bool b * 4 AND (1 :: u32) = 0" "of_bool b * 0x10 AND (1 :: u32) = 0"
  "of_bool b * 0x40 AND (1 :: u32) = 0" "of_bool b * 0x80 AND (1 :: u32) = 0"
  "of_bool b * 0x800 AND (1 :: u32) = 0" "of_bool b AND (1 :: u32) = of_bool b"
  by (cases b; simp)+

lemma ucast_and_1: "(ucast (x AND 1 :: u64) :: u32) AND 1 = ucast (x AND 1)"
  by (simp add: and_1_bit ucast_of_bool of_bool_mask_and_1)

lemma ucast_flag_masks: "ucast (0x10 :: u64) = (0x10 :: u32)" "ucast (0x800 :: u64) = (0x800 :: u32)"
  by simp_all

lemmas carry_only = ucast_flag_masks bit.conj_disj_distrib2 zf_of_correct sf_of_correct parity_of_correct
  and_16_bit lshift_overflow ucast_of_bool_times push_bit_11 of_bool_mask_and_1 ucast_and_1

lemma ucast_le_1: "cc_src env \<le> 1 \<Longrightarrow> (ucast (cc_src env) :: u32) AND 1 = ucast (cc_src env)"
proof -
  assume "cc_src env \<le> 1"
  then have "cc_src env = 0 \<or> cc_src env = 1" by unat_arith
  then show ?thesis by auto
qed

lemma carry_of_eflags: "compute_all_eflags env AND 1 = compute_c_eflags env"
  unfolding compute_all_eflags_def compute_c_eflags_def by simp

lemma carry_of_compute_all:
  "compute_all_add sz env AND 1 = compute_c_add sz env"
  "compute_all_adc sz env AND 1 = compute_c_adc sz env"
  "compute_all_sub sz env AND 1 = compute_c_sub sz env"
  "compute_all_sbb sz env AND 1 = compute_c_sbb sz env"
  "compute_all_logic sz env AND 1 = compute_c_logic sz env"
  "compute_all_shl sz env AND 1 = compute_c_shl sz env"
  "compute_all_sar sz env AND 1 = compute_c_sar env"
  "compute_all_mul sz env AND 1 = compute_c_mul env"
  "cc_src env \<le> 1 \<Longrightarrow> compute_all_inc sz env AND 1 = compute_c_inc env"
  "cc_src env \<le> 1 \<Longrightarrow> compute_all_dec sz env AND 1 = compute_c_inc env"
  unfolding compute_all_add_def compute_c_add_def compute_all_adc_def compute_c_adc_def
    compute_all_sub_def compute_c_sub_def compute_all_sbb_def compute_c_sbb_def
    compute_all_logic_def compute_c_logic_def compute_all_shl_def compute_c_shl_def
    compute_all_sar_def compute_c_sar_def compute_all_mul_def compute_c_mul_def
    compute_all_inc_def compute_all_dec_def compute_c_inc_def
    Let_def carry_only
  by (simp_all only: ucast_le_1 or.right_neutral and_zero_eq zero_and_eq)

lemma carry_of_inc_dec:
  assumes "cc_src env \<le> 1"
  shows "helper_cc_compute_c env (cc_op_inc sz) = helper_cc_compute_all env (cc_op_inc sz) AND CC_C"
    and "helper_cc_compute_c env (cc_op_dec sz) = helper_cc_compute_all env (cc_op_dec sz) AND CC_C"
  using assms by (cases sz; simp add: carry_of_compute_all)+

text \<open>
  the fast computation of the carry flag agrees with the full one for every operation;
  for \<open>INC\<close> and \<open>DEC\<close>, which hand \<open>cc_src\<close> through, when it holds a single bit.
\<close>
lemma compute_c_agrees:
  assumes "op \<in> range cc_op_inc \<union> range cc_op_dec \<Longrightarrow> cc_src env \<le> 1"
  shows "helper_cc_compute_c env op = helper_cc_compute_all env op AND CC_C"
proof (cases "op \<in> range cc_op_inc \<union> range cc_op_dec")
  case True
  with assms have "cc_src env \<le> 1" by blast
  with True show ?thesis
    using carry_of_inc_dec [of env] by blast
next
  case False
  then have "op \<noteq> cc_op_inc sz" "op \<noteq> cc_op_dec sz" for sz by blast+
  from this [of SzB] this [of SzW] this [of SzL] this [of SzQ] show ?thesis
    by (cases op) (simp_all add: carry_of_compute_all carry_of_eflags)
qed

subsection \<open>Writing and reading eflags\<close>

lemma compute_eflags_cong:
  assumes cc: "cc_src s = cc_src t" "cc_dst s = cc_dst t" "cc_op s = cc_op t" "df s = df t" "eflags s = eflags t"
  shows "cpu_compute_eflags s = cpu_compute_eflags t"
proof -
  have "helper_cc_compute_all s op = helper_cc_compute_all t op" for op
    by (cases op) (simp_all add: compute_all_eflags_def compute_all_mul_def compute_all_add_def compute_all_adc_def
        compute_all_sub_def compute_all_sbb_def compute_all_logic_def compute_all_inc_def compute_all_dec_def
        compute_all_shl_def compute_all_sar_def cc Let_def)
  then show ?thesis by (simp add: cpu_compute_eflags_def cpu_cc_compute_all_def cc)
qed

lemma df_of_eflags: "(1 - 2 * (signed_drop_bit 10 x AND 1)) AND 0x400 = x AND (0x400 :: u32)"
proof -
  have "signed_drop_bit 10 x AND 1 = of_bool (bit x 10)"
    using and_exp_of_bool [of "signed_drop_bit 10 x" 0] by (simp add: bit_simps)
  moreover have "x AND 0x400 = of_bool (bit x 10) * 0x400"
    using and_exp_of_bool [of x 10] by simp
  ultimately show ?thesis by (cases "bit x 10") simp_all
qed

text \<open>
  writing eflags under a mask and reading it back gives the status flags and DF of the
  written value, and elsewhere the written bits under the mask and the old bits outside it
  (VM and RF always read as zero, bit 1 as one).
\<close>
lemma eflags_write_read:
  "helper_read_eflags ((helper_write_eflags env t0 m)\<lparr>cc_op := CC_OP_EFLAGS\<rparr>) =
     ucast ((ucast t0 AND (CC_O OR CC_S OR CC_Z OR CC_A OR CC_P OR CC_C)) OR
            (ucast t0 AND DF_MASK) OR
            ((((ucast (eflags env) :: u32) AND NOT m) OR (ucast t0 AND m) OR 2)
              AND NOT (VM_MASK OR RF_MASK)))"
proof -
  have mask: "(18446744073709355007 :: u32) = - 196609" by simp
  show ?thesis
    unfolding helper_read_eflags_def helper_write_eflags_def cpu_load_eflags_def
    by (simp add: Let_def compute_all_eflags_def df_of_eflags or.assoc mask)
qed

end
