(* ===== verification/ControlRegs.thy ===== *)
theory ControlRegs
  imports CondCodes
begin

text \<open>
  Control registers, reset and the A20 gate: \<open>cpu_reset\<close>, \<open>cpu_x86_set_a20\<close>,
  \<open>cpu_x86_update_cr0\<close>, \<open>cpu_x86_update_cr3\<close> and \<open>cpu_x86_update_cr4\<close> of \<open>helper.c\<close>,
  with \<open>cpu_get_tb_cpu_state\<close> and \<open>cpu_pc_from_tb\<close> of \<open>cpu.h\<close>.

  The hidden flags cache bits of CR0, CR4 and EFER for the translator.  The invariant
  \<open>hflags_sync\<close> says that the copies agree with the originals; every operation that
  writes a control register, EFER or a segment cache keeps it, so it holds along every run
  of such operations (locale \<open>machine\<close>).
\<close>

section \<open>The operations\<close>

definition cpu_x86_set_a20 :: "'m CPUX86State_scheme \<Rightarrow> u32 \<Rightarrow> 'm CPUX86State_scheme" where
  "cpu_x86_set_a20 env a20_state =
    (let a20_state = of_bool (a20_state \<noteq> 0)
     in if a20_state \<noteq> drop_bit 20 (a20_mask env) AND 1 then
          (let env = ext_call (CpuInterrupt CPU_INTERRUPT_EXITTB) env;
               env = ext_call (TlbFlush 1) env
           in env\<lparr>a20_mask := NOT 0x100000 OR push_bit 20 a20_state\<rparr>)
        else env)"

text \<open>\<open>cpu_x86_update_cr0\<close>: the first \<open>let\<close> is the TLB flush, the second the transition
  into or out of long mode; entering long mode without PAE returns early.\<close>

definition cpu_x86_update_cr0 :: "'m CPUX86State_scheme \<Rightarrow> u32 \<Rightarrow> 'm CPUX86State_scheme" where
  "cpu_x86_update_cr0 env new_cr0 =
    (let env = (if ucast (new_cr0 AND (CR0_PG_MASK OR CR0_WP_MASK OR CR0_PE_MASK)) \<noteq>
                   cr env 0 AND (CR0_PG_MASK OR CR0_WP_MASK OR CR0_PE_MASK)
                then ext_call (TlbFlush 1) env else env);
         entering = (cr env 0 AND CR0_PG_MASK = 0 \<and> new_cr0 AND CR0_PG_MASK \<noteq> 0
                     \<and> efer env AND MSR_EFER_LME \<noteq> 0);
         leaving = (cr env 0 AND CR0_PG_MASK \<noteq> 0 \<and> new_cr0 AND CR0_PG_MASK = 0
                    \<and> efer env AND MSR_EFER_LMA \<noteq> 0)
     in if entering \<and> cr env 4 AND CR4_PAE_MASK = 0 then env
        else
          (let env = (if entering then
                        env\<lparr>efer := efer env OR MSR_EFER_LMA, hflags := hflags env OR HF_LMA_MASK\<rparr>
                      else if leaving then
                        env\<lparr>efer := efer env AND NOT MSR_EFER_LMA,
                            hflags := hflags env AND NOT (HF_LMA_MASK OR HF_CS64_MASK),
                            eip := eip env AND 0xffffffff\<rparr>
                      else env);
               env = set_cr 0 (ucast (new_cr0 OR CR0_ET_MASK)) env;
               pe_state = ucast (cr env 0 AND CR0_PE_MASK) :: u32;
               env = env\<lparr>hflags := (hflags env AND NOT HF_PE_MASK) OR push_bit HF_PE_SHIFT pe_state\<rparr>;
               env = env\<lparr>hflags := hflags env OR push_bit HF_ADDSEG_SHIFT (pe_state XOR 1)\<rparr>
           in env\<lparr>hflags := (hflags env AND NOT (HF_MP_MASK OR HF_EM_MASK OR HF_TS_MASK)) OR
                 (push_bit (HF_MP_SHIFT - 1) new_cr0 AND (HF_MP_MASK OR HF_EM_MASK OR HF_TS_MASK))\<rparr>))"

definition cpu_x86_update_cr3 :: "'m CPUX86State_scheme \<Rightarrow> u64 \<Rightarrow> 'm CPUX86State_scheme" where
  "cpu_x86_update_cr3 env new_cr3 =
    (let env = set_cr 3 new_cr3 env
     in if cr env 0 AND CR0_PG_MASK \<noteq> 0 then ext_call (TlbFlush 0) env else env)"

definition cpu_x86_update_cr4 :: "'m CPUX86State_scheme \<Rightarrow> u32 \<Rightarrow> 'm CPUX86State_scheme" where
  "cpu_x86_update_cr4 env new_cr4 =
    (let env = (if ucast (new_cr4 AND (CR4_PGE_MASK OR CR4_PAE_MASK OR CR4_PSE_MASK)) \<noteq>
                   cr env 4 AND (CR4_PGE_MASK OR CR4_PAE_MASK OR CR4_PSE_MASK)
                then ext_call (TlbFlush 1) env else env);
         new_cr4 = (if cpuid_features env AND CPUID_SSE = 0
                    then new_cr4 AND NOT CR4_OSFXSR_MASK else new_cr4);
         env = (if new_cr4 AND CR4_OSFXSR_MASK \<noteq> 0
                then env\<lparr>hflags := hflags env OR HF_OSFXSR_MASK\<rparr>
                else env\<lparr>hflags := hflags env AND NOT HF_OSFXSR_MASK\<rparr>)
     in set_cr 4 (ucast new_cr4) env)"

text \<open>
  \<open>cpu_reset\<close>.  The \<open>memset\<close> clears the fields that \<open>CPUX86State\<close> declares before
  \<open>breakpoints\<close>; \<open>breakpoints\<close> and \<open>exception_index\<close> are declared by \<open>CPU_COMMON\<close>,
  outside the repository, and the model leaves \<open>exception_index\<close> as it was.
  \<open>CONFIG_SOFTMMU\<close> is not defined by \<open>config.h\<close>.
\<close>

definition clear_state :: "'m CPUX86State_scheme \<Rightarrow> 'm CPUX86State_scheme" where
  "clear_state env = env\<lparr>
     regs := (\<lambda>_. 0), eip := 0, eflags := 0, cc_src := 0, cc_dst := 0, cc_op := CC_OP_DYNAMIC,
     df := 0, hflags := 0, hflags2 := 0, segs := (\<lambda>_. seg_zero), ldt := seg_zero,
     tr := seg_zero, gdt := seg_zero, idt := seg_zero, cr := (\<lambda>_. 0), a20_mask := 0,
     fpstt := 0, fpus := 0, fpuc := 0, fptags := (\<lambda>_. 0), fpregs := (\<lambda>_. floatx80_zero), ft0 := floatx80_zero, mxcsr := 0, xmm_regs := (\<lambda>_. 0), xmm_t0 := 0, mmx_t0 := 0,
     sysenter_cs := 0, sysenter_esp := 0, sysenter_eip := 0, efer := 0, star := 0,
     vm_hsave := 0, vm_vmcb := 0, tsc_offset := 0, intercept := 0, intercept_cr_read := 0,
     intercept_cr_write := 0, intercept_dr_read := 0, intercept_dr_write := 0,
     intercept_exceptions := 0, v_tpr := 0, lstar := 0, cstar := 0, fmask := 0,
     kernelgsbase := 0, pat := 0, error_code := 0, exception_is_int := 0,
     exception_next_eip := 0, dr := (\<lambda>_. 0), cpu_breakpoint := (\<lambda>_. None), smbase := 0, old_exception := 0\<rparr>"

definition cpu_reset :: "'m CPUX86State_scheme \<Rightarrow> 'm CPUX86State_scheme" where
  "cpu_reset env =
    (let env = clear_state env;
         env = ext_call (TlbFlush 1) env;
         env = env\<lparr>old_exception := -1\<rparr>;
         env = env\<lparr>hflags2 := hflags2 env OR HF2_GIF_MASK\<rparr>;
         env = cpu_x86_update_cr0 env 0x60000010;
         env = env\<lparr>a20_mask := NOT 0, smbase := 0x30000\<rparr>;
         env = env\<lparr>idt := (idt env)\<lparr>limit := 0xffff\<rparr>, gdt := (gdt env)\<lparr>limit := 0xffff\<rparr>\<rparr>;
         env = env\<lparr>ldt := (ldt env)\<lparr>limit := 0xffff,
                     flags := DESC_P_MASK OR push_bit DESC_TYPE_SHIFT 2\<rparr>\<rparr>;
         env = env\<lparr>tr := (tr env)\<lparr>limit := 0xffff,
                     flags := DESC_P_MASK OR push_bit DESC_TYPE_SHIFT 11\<rparr>\<rparr>;
         env = cpu_x86_load_seg_cache env R_CS 0xf000 0xffff0000 0xffff
                 (DESC_P_MASK OR DESC_S_MASK OR DESC_CS_MASK OR DESC_R_MASK OR DESC_A_MASK);
         env = cpu_x86_load_seg_cache env R_DS 0 0 0xffff
                 (DESC_P_MASK OR DESC_S_MASK OR DESC_W_MASK OR DESC_A_MASK);
         env = cpu_x86_load_seg_cache env R_ES 0 0 0xffff
                 (DESC_P_MASK OR DESC_S_MASK OR DESC_W_MASK OR DESC_A_MASK);
         env = cpu_x86_load_seg_cache env R_SS 0 0 0xffff
                 (DESC_P_MASK OR DESC_S_MASK OR DESC_W_MASK OR DESC_A_MASK);
         env = cpu_x86_load_seg_cache env R_FS 0 0 0xffff
                 (DESC_P_MASK OR DESC_S_MASK OR DESC_W_MASK OR DESC_A_MASK);
         env = cpu_x86_load_seg_cache env R_GS 0 0 0xffff
                 (DESC_P_MASK OR DESC_S_MASK OR DESC_W_MASK OR DESC_A_MASK);
         env = env\<lparr>eip := 0xfff0\<rparr>;
         env = set_reg R_EDX (ucast (cpuid_version env)) env;
         env = env\<lparr>eflags := 0x2\<rparr>;
         env = env\<lparr>fptags := (\<lambda>i. if i < 8 then 1 else fptags env i)\<rparr>;
         env = env\<lparr>fpuc := 0x37f, mxcsr := 0x1f80\<rparr>;
         env = env\<lparr>dr := (\<lambda>_. 0)\<rparr>;
         env = set_dr 6 0xffff0ff0 env;
         env = set_dr 7 0x00000400 env;
         env = ext_call BreakpointRemoveAll env
     in ext_call WatchpointRemoveAll env)"

text \<open>The translator's view of the state: linear pc, CS base and flags.\<close>

definition cpu_get_tb_cpu_state :: "'m CPUX86State_scheme \<Rightarrow> u64 \<times> u64 \<times> u32" where
  "cpu_get_tb_cpu_state env =
    (let cs_base = base (segs env R_CS);
         pc = cs_base + eip env;
         fl = ucast (ucast (hflags env) OR
                (eflags env AND (IOPL_MASK OR TF_MASK OR RF_MASK OR VM_MASK)))
     in (pc, cs_base, fl))"

definition cpu_pc_from_tb :: "'m CPUX86State_scheme \<Rightarrow> u64 \<Rightarrow> u64 \<Rightarrow> 'm CPUX86State_scheme" where
  "cpu_pc_from_tb env tb_pc tb_cs_base = env\<lparr>eip := tb_pc - tb_cs_base\<rparr>"

section \<open>Frame of a segment load\<close>

lemma load_seg_cache_sel [simp]:
  "segs (cpu_x86_load_seg_cache env r sel b l f) =
     (segs env)(r := \<lparr>selector = sel, base = b, limit = l, flags = f\<rparr>)"
  "cr (cpu_x86_load_seg_cache env r sel b l f) = cr env"
  "eip (cpu_x86_load_seg_cache env r sel b l f) = eip env"
  "eflags (cpu_x86_load_seg_cache env r sel b l f) = eflags env"
  "efer (cpu_x86_load_seg_cache env r sel b l f) = efer env"
  "regs (cpu_x86_load_seg_cache env r sel b l f) = regs env"
  "ext_calls (cpu_x86_load_seg_cache env r sel b l f) = ext_calls env"
  "a20_mask (cpu_x86_load_seg_cache env r sel b l f) = a20_mask env"
  by (simp_all add: cpu_x86_load_seg_cache_def load_seg_cs_hflags_def Let_def)

text \<open>In real mode, with 16-bit segments, only the ADDSEG flag is set.\<close>

lemma load_seg_cache_real_mode:
  assumes "hflags env = HF_ADDSEG_MASK" "cr env 0 AND CR0_PE_MASK = 0"
    and "\<not> bit (flags (segs env R_SS)) DESC_B_SHIFT" "\<not> bit f DESC_B_SHIFT"
  shows "hflags (cpu_x86_load_seg_cache env r sel b l f) = HF_ADDSEG_MASK"
proof -
  have "flags (segs env R_SS) AND DESC_B_MASK = 0" "f AND DESC_B_MASK = 0"
    using assms(3,4) and_exp_of_bool [of "flags (segs env R_SS)" 22] and_exp_of_bool [of f 22]
    by simp_all
  with assms(1,2) show ?thesis
    by (simp add: cpu_x86_load_seg_cache_def load_seg_cs_hflags_def load_seg_new_hflags_def
        Let_def del: drop_bit_and)
qed

section \<open>The hidden flags agree with the registers they copy\<close>

definition hflags_sync :: "'m CPUX86State_scheme \<Rightarrow> bool" where
  "hflags_sync env \<longleftrightarrow>
     bit (hflags env) 7 = bit (cr env 0) 0 \<and>
     bit (hflags env) 9 = bit (cr env 0) 1 \<and>
     bit (hflags env) 10 = bit (cr env 0) 2 \<and>
     bit (hflags env) 11 = bit (cr env 0) 3 \<and>
     bit (hflags env) 14 = bit (efer env) 10 \<and>
     bit (hflags env) 20 = bit (efer env) 12 \<and>
     bit (hflags env) 22 = bit (cr env 4) 9"

lemma ext_call_sel [simp]:
  "hflags (ext_call c env) = hflags env" "cr (ext_call c env) = cr env"
  "efer (ext_call c env) = efer env" "cpuid_features (ext_call c env) = cpuid_features env"
  "segs (ext_call c env) = segs env" "eflags (ext_call c env) = eflags env"
  "eip (ext_call c env) = eip env" "a20_mask (ext_call c env) = a20_mask env"
  "ext_calls (ext_call c env) = ext_calls env @ [c]"
  by (simp_all add: ext_call_def)

lemma sync_ext_call [simp]: "hflags_sync (ext_call c env) = hflags_sync env"
  by (simp add: hflags_sync_def)

lemma sync_update_cr0: "hflags_sync env \<Longrightarrow> hflags_sync (cpu_x86_update_cr0 env v)"
  unfolding cpu_x86_update_cr0_def Let_def
  by (simp add: hflags_sync_def bit_simps)

lemma sync_update_cr3: "hflags_sync env \<Longrightarrow> hflags_sync (cpu_x86_update_cr3 env v)"
  unfolding cpu_x86_update_cr3_def Let_def
  by (simp add: hflags_sync_def)

lemma and_0x200: "(x :: u32) AND 0x200 \<noteq> 0 \<longleftrightarrow> bit x 9"
  using and_mask_bit [of x 9] by simp

lemma sync_update_cr4: "hflags_sync env \<Longrightarrow> hflags_sync (cpu_x86_update_cr4 env v)"
  unfolding cpu_x86_update_cr4_def Let_def
  by (simp add: hflags_sync_def bit_simps and_0x200)

lemma sync_load_efer: "hflags_sync env \<Longrightarrow> hflags_sync (cpu_load_efer env v)"
proof -
  have "v AND 0x400 = 0 \<longleftrightarrow> \<not> bit v 10" "v AND 0x1000 = 0 \<longleftrightarrow> \<not> bit v 12"
    using and_mask_bit [of v 10] and_mask_bit [of v 12] by auto
  note masks = this
  show "hflags_sync env \<Longrightarrow> hflags_sync (cpu_load_efer env v)"
    by (simp add: cpu_load_efer_def Let_def masks) (auto simp: hflags_sync_def bit_simps)
qed

lemma load_seg_new_hflags_bits:
  "\<not> bit (load_seg_new_hflags env) 7" "\<not> bit (load_seg_new_hflags env) 9"
  "\<not> bit (load_seg_new_hflags env) 10" "\<not> bit (load_seg_new_hflags env) 11"
  "\<not> bit (load_seg_new_hflags env) 14" "\<not> bit (load_seg_new_hflags env) 20"
  "\<not> bit (load_seg_new_hflags env) 22"
  by (simp_all add: load_seg_new_hflags_def Let_def bit_or_iff bit_and_iff bit_push_bit_iff)

lemma sync_load_seg_cs_hflags: "hflags_sync (load_seg_cs_hflags env f) = hflags_sync env"
  by (simp add: load_seg_cs_hflags_def Let_def hflags_sync_def bit_simps)

lemma sync_load_seg_cache:
  "hflags_sync env \<Longrightarrow> hflags_sync (cpu_x86_load_seg_cache env r sel b l f)"
proof -
  assume "hflags_sync env"
  then have *: "hflags_sync (let env = env\<lparr>segs := (segs env)(r :=
         \<lparr>selector = sel, base = b, limit = l, flags = f\<rparr>)\<rparr>
       in if r = R_CS then load_seg_cs_hflags env f else env)"
    by (simp add: Let_def sync_load_seg_cs_hflags) (simp add: hflags_sync_def)
  have "hflags_sync (e\<lparr>hflags := (hflags e AND NOT (HF_SS32_MASK OR HF_ADDSEG_MASK)) OR
      load_seg_new_hflags e\<rparr>)" if "hflags_sync e" for e :: "'a CPUX86State_scheme"
    using that by (simp add: hflags_sync_def bit_or_iff bit_and_iff bit_not_iff load_seg_new_hflags_bits)
  from this [OF *] show ?thesis
    by (simp only: cpu_x86_load_seg_cache_def Let_def)
qed

lemma sync_set_cpl: "hflags_sync env \<Longrightarrow> hflags_sync (cpu_x86_set_cpl env (ucast (c :: 2 word)))"
proof -
  have "\<not> bit c n" if "2 \<le> n" for n
    using that by (auto dest: bit_imp_le_length)
  then show "hflags_sync env \<Longrightarrow> hflags_sync (cpu_x86_set_cpl env (ucast c))"
    unfolding cpu_x86_set_cpl_def by (simp add: hflags_sync_def bit_simps)
qed

lemma sync_clts: "hflags_sync env \<Longrightarrow> hflags_sync (helper_clts env)"
  unfolding helper_clts_def Let_def
  by (simp add: hflags_sync_def bit_simps)

lemma sync_set_a20: "hflags_sync env \<Longrightarrow> hflags_sync (cpu_x86_set_a20 env v)"
  unfolding cpu_x86_set_a20_def Let_def
  by (simp add: hflags_sync_def)

text \<open>Fields that no hidden flag depends on.\<close>

lemma sync_frame [simp]:
  "hflags_sync (env\<lparr>regs := a\<rparr>) = hflags_sync env"
  "hflags_sync (env\<lparr>eip := v\<rparr>) = hflags_sync env"
  "hflags_sync (env\<lparr>eflags := v\<rparr>) = hflags_sync env"
  "hflags_sync (env\<lparr>idt := sc\<rparr>) = hflags_sync env"
  "hflags_sync (env\<lparr>gdt := sc\<rparr>) = hflags_sync env"
  "hflags_sync (env\<lparr>ldt := sc\<rparr>) = hflags_sync env"
  "hflags_sync (env\<lparr>tr := sc\<rparr>) = hflags_sync env"
  "hflags_sync (env\<lparr>a20_mask := v\<rparr>) = hflags_sync env"
  "hflags_sync (env\<lparr>smbase := w\<rparr>) = hflags_sync env"
  "hflags_sync (env\<lparr>hflags2 := w\<rparr>) = hflags_sync env"
  "hflags_sync (env\<lparr>old_exception := w\<rparr>) = hflags_sync env"
  "hflags_sync (env\<lparr>fptags := t\<rparr>) = hflags_sync env"
  "hflags_sync (env\<lparr>fpuc := w\<rparr>) = hflags_sync env"
  "hflags_sync (env\<lparr>mxcsr := w\<rparr>) = hflags_sync env"
  "hflags_sync (env\<lparr>dr := a\<rparr>) = hflags_sync env"
  by (simp_all add: hflags_sync_def)

lemma sync_clear: "hflags_sync (clear_state env)"
  by (simp add: clear_state_def hflags_sync_def)

lemma sync_reset: "hflags_sync (cpu_reset env)"
  unfolding cpu_reset_def Let_def
  by (simp add: sync_clear sync_update_cr0 sync_load_seg_cache)

section \<open>The flags that segment loads cache\<close>

text \<open>
  SS32 is the B bit of the stack segment.  CS64 says that a 64-bit code segment is loaded; without
  one, CS32 is the D bit of the code segment.  ADDSEG may be off only where the translator may leave
  segment bases out: with a 64-bit code segment, or when DS, ES and SS have base 0; it is on in real
  mode.
\<close>

definition seg_sync :: "'m CPUX86State_scheme \<Rightarrow> bool" where
  "seg_sync env \<longleftrightarrow>
     bit (hflags env) 5 = bit (flags (segs env R_SS)) 22 \<and>
     (bit (hflags env) 15 \<longrightarrow> bit (hflags env) 4 \<and> bit (flags (segs env R_CS)) 21) \<and>
     (bit (flags (segs env R_CS)) 21 \<or> bit (hflags env) 4 = bit (flags (segs env R_CS)) 22) \<and>
     (bit (hflags env) 6 \<or> bit (flags (segs env R_CS)) 21 \<or>
        base (segs env R_DS) = 0 \<and> base (segs env R_ES) = 0 \<and> base (segs env R_SS) = 0) \<and>
     (bit (hflags env) 6 \<or> bit (cr env 0) 0 \<or> bit (hflags env) 15)"

lemma seg_sync_cong:
  assumes "hflags s = hflags t" "segs s = segs t" "cr s 0 = cr t 0"
  shows "seg_sync s = seg_sync t"
  using assms by (simp add: seg_sync_def)

lemma seg_sync_same_flags:
  assumes "seg_sync s" "segs t = segs s" "cr t 0 = cr s 0"
    and "\<And>n. n \<in> {4, 5, 6, 15} \<Longrightarrow> bit (hflags t) n = bit (hflags s) n"
  shows "seg_sync t"
  using assms by (simp add: seg_sync_def)

lemma hflag_masks:
  "(w :: u32) AND 0x10 = 0 \<longleftrightarrow> \<not> bit w 4" "(w :: u32) AND 0x4000 = 0 \<longleftrightarrow> \<not> bit w 14"
  "(w :: u32) AND 0x8000 = 0 \<longleftrightarrow> \<not> bit w 15" "(w :: u32) AND 0x200000 = 0 \<longleftrightarrow> \<not> bit w 21"
  "(v :: u64) AND 1 = 0 \<longleftrightarrow> \<not> bit v 0" "(v :: u64) AND 0x20000 = 0 \<longleftrightarrow> \<not> bit v 17"
  using and_mask_bit [of w 4] and_mask_bit [of w 14] and_mask_bit [of w 15] and_mask_bit [of w 21]
    and_mask_bit [of v 0] and_mask_bit [of v 17] by auto

text \<open>What a segment load makes of the flags, exactly.\<close>

lemma load_seg_cs_flags:
  "bit (hflags (load_seg_cs_hflags e f)) 15 \<longleftrightarrow> bit (hflags e) 14 \<and> bit f 21"
  "bit (hflags (load_seg_cs_hflags e f)) 4 \<longleftrightarrow> bit (hflags e) 14 \<and> bit f 21 \<or> bit (flags (segs e R_CS)) 22"
  "segs (load_seg_cs_hflags e f) = segs e" "cr (load_seg_cs_hflags e f) = cr e" "eflags (load_seg_cs_hflags e f) = eflags e"
  by (auto simp: load_seg_cs_hflags_def Let_def hflag_masks bit_simps)

lemma load_seg_new_flags:
  "bit (load_seg_new_hflags e) 5 \<longleftrightarrow> bit (flags (segs e R_SS)) 22"
  "\<not> bit (load_seg_new_hflags e) 4" "\<not> bit (load_seg_new_hflags e) 15"
  "bit (load_seg_new_hflags e) 6 \<longleftrightarrow> \<not> bit (hflags e) 15 \<and>
    (\<not> bit (cr e 0) 0 \<or> bit (eflags e) 17 \<or> \<not> bit (hflags e) 4 \<or>
       base (segs e R_DS) \<noteq> 0 \<or> base (segs e R_ES) \<noteq> 0 \<or> base (segs e R_SS) \<noteq> 0)"
  by (auto simp: load_seg_new_hflags_def Let_def hflag_masks bit_simps or_eq_0_iff)

lemma load_seg_flags:
  fixes env :: "'m CPUX86State_scheme" and r :: nat and sel :: u32 and b :: u64 and l f :: u32
  defines "t \<equiv> cpu_x86_load_seg_cache env r sel b l f"
  shows "bit (hflags t) 5 \<longleftrightarrow> bit (flags (segs t R_SS)) 22"
    and "bit (hflags t) 15 \<longleftrightarrow> (if r = R_CS then bit (hflags env) 14 \<and> bit f 21 else bit (hflags env) 15)"
    and "bit (hflags t) 4 \<longleftrightarrow> (if r = R_CS then bit (hflags env) 14 \<and> bit f 21 \<or> bit f 22 else bit (hflags env) 4)"
    and "bit (hflags t) 6 \<longleftrightarrow> \<not> bit (hflags t) 15 \<and>
      (\<not> bit (cr env 0) 0 \<or> bit (eflags env) 17 \<or> \<not> bit (hflags t) 4 \<or>
       base (segs t R_DS) \<noteq> 0 \<or> base (segs t R_ES) \<noteq> 0 \<or> base (segs t R_SS) \<noteq> 0)"
proof -
  define e where "e = env\<lparr>segs := (segs env)(r := \<lparr>selector = sel, base = b, limit = l, flags = f\<rparr>)\<rparr>"
  define c where "c = (if r = R_CS then load_seg_cs_hflags e f else e)"
  have t: "hflags t = (hflags c AND NOT (HF_SS32_MASK OR HF_ADDSEG_MASK)) OR load_seg_new_hflags c" "segs t = segs e"
    by (simp_all add: t_def c_def e_def cpu_x86_load_seg_cache_def Let_def load_seg_cs_flags)
  have c: "segs c = segs e" "cr c = cr env" "eflags c = eflags env"
    "bit (hflags c) 15 \<longleftrightarrow> (if r = R_CS then bit (hflags env) 14 \<and> bit f 21 else bit (hflags env) 15)"
    "bit (hflags c) 4 \<longleftrightarrow> (if r = R_CS then bit (hflags env) 14 \<and> bit f 21 \<or> bit f 22 else bit (hflags env) 4)"
    by (cases "r = R_CS", simp_all only: c_def load_seg_cs_flags if_True if_False, simp_all add: e_def)+
  show "bit (hflags t) 5 \<longleftrightarrow> bit (flags (segs t R_SS)) 22"
    by (simp add: t c load_seg_new_flags bit_simps)
  show c64: "bit (hflags t) 15 \<longleftrightarrow> (if r = R_CS then bit (hflags env) 14 \<and> bit f 21 else bit (hflags env) 15)"
    by (simp add: t(1) load_seg_new_flags bit_simps c(4))
  show c32: "bit (hflags t) 4 \<longleftrightarrow> (if r = R_CS then bit (hflags env) 14 \<and> bit f 21 \<or> bit f 22 else bit (hflags env) 4)"
    by (simp add: t(1) load_seg_new_flags bit_simps c(5))
  have "bit (hflags t) 6 \<longleftrightarrow> bit (load_seg_new_hflags c) 6" by (simp add: t(1) bit_simps)
  then show "bit (hflags t) 6 \<longleftrightarrow> \<not> bit (hflags t) 15 \<and>
      (\<not> bit (cr env 0) 0 \<or> bit (eflags env) 17 \<or> \<not> bit (hflags t) 4 \<or>
       base (segs t R_DS) \<noteq> 0 \<or> base (segs t R_ES) \<noteq> 0 \<or> base (segs t R_SS) \<noteq> 0)"
    unfolding load_seg_new_flags c64 c32 c(4,5) unfolding c t(2) .
qed

lemma seg_sync_frame:
  "seg_sync (env\<lparr>regs := a\<rparr>) = seg_sync env" "seg_sync (env\<lparr>eip := v\<rparr>) = seg_sync env"
  "seg_sync (env\<lparr>eflags := v\<rparr>) = seg_sync env" "seg_sync (env\<lparr>idt := sc\<rparr>) = seg_sync env"
  "seg_sync (env\<lparr>gdt := sc\<rparr>) = seg_sync env" "seg_sync (env\<lparr>ldt := sc\<rparr>) = seg_sync env"
  "seg_sync (env\<lparr>tr := sc\<rparr>) = seg_sync env" "seg_sync (env\<lparr>a20_mask := v\<rparr>) = seg_sync env"
  "seg_sync (env\<lparr>smbase := w\<rparr>) = seg_sync env" "seg_sync (env\<lparr>hflags2 := w\<rparr>) = seg_sync env"
  "seg_sync (env\<lparr>old_exception := w\<rparr>) = seg_sync env" "seg_sync (env\<lparr>fptags := t\<rparr>) = seg_sync env"
  "seg_sync (env\<lparr>fpuc := w\<rparr>) = seg_sync env" "seg_sync (env\<lparr>mxcsr := w\<rparr>) = seg_sync env"
  "seg_sync (env\<lparr>dr := d\<rparr>) = seg_sync env" "seg_sync (ext_call c env) = seg_sync env"
  by (simp_all add: seg_sync_def)

section \<open>Runs of state-changing operations\<close>

datatype cr_event =
    UpdateCR0 u32 | UpdateCR3 u64 | UpdateCR4 u32 | LoadEfer u64
  | LoadSeg nat u32 u64 u32 u32 | SetCpl "2 word" | Clts | LoadEflags u32 u32 | SetA20 u32 | Reset

fun cr_step :: "cr_event \<Rightarrow> 'm CPUX86State_scheme \<Rightarrow> 'm CPUX86State_scheme" where
  "cr_step (UpdateCR0 v) env = cpu_x86_update_cr0 env v"
| "cr_step (UpdateCR3 v) env = cpu_x86_update_cr3 env v"
| "cr_step (UpdateCR4 v) env = cpu_x86_update_cr4 env v"
| "cr_step (LoadEfer v) env = cpu_load_efer env v"
| "cr_step (LoadSeg r sel b l f) env = cpu_x86_load_seg_cache env r sel b l f"
| "cr_step (SetCpl c) env = cpu_x86_set_cpl env (ucast c)"
| "cr_step Clts env = helper_clts env"
| "cr_step (LoadEflags w m) env = cpu_load_eflags env w m"
| "cr_step (SetA20 v) env = cpu_x86_set_a20 env v"
| "cr_step Reset env = cpu_reset env"

lemma update_cr0_reset:
  assumes "hflags env = 0" "cr env = (\<lambda>_. 0)" "efer env = 0"
  shows "hflags (cpu_x86_update_cr0 env 0x60000010) = HF_ADDSEG_MASK"
    and "cr (cpu_x86_update_cr0 env 0x60000010) = (\<lambda>_. 0)(0 := 0x60000010)"
    and "segs (cpu_x86_update_cr0 env 0x60000010) = segs env"
  using assms by (simp_all add: cpu_x86_update_cr0_def Let_def)

lemma clear_state_sel [simp]:
  "hflags (clear_state env) = 0" "cr (clear_state env) = (\<lambda>_. 0)" "efer (clear_state env) = 0"
  "segs (clear_state env) = (\<lambda>_. seg_zero)"
  by (simp_all add: clear_state_def)

lemma sync_load_eflags: "hflags_sync env \<Longrightarrow> hflags_sync (cpu_load_eflags env w m)"
  by (simp add: cpu_load_eflags_def hflags_sync_def)

lemmas sync_intros = sync_update_cr0 sync_update_cr3 sync_update_cr4 sync_load_efer
  sync_load_seg_cache sync_set_cpl sync_clts sync_load_eflags sync_set_a20 sync_reset

lemma seg_sync_step:
  assumes "seg_sync env"
  shows "seg_sync (cpu_x86_update_cr0 env v)" "seg_sync (cpu_x86_update_cr3 env v')"
    "seg_sync (cpu_x86_update_cr4 env w)" "seg_sync (cpu_load_efer env v')"
    "seg_sync (cpu_x86_load_seg_cache env r sel b l f)" "seg_sync (cpu_x86_set_cpl env (ucast (c :: 2 word)))"
    "seg_sync (helper_clts env)" "seg_sync (cpu_load_eflags env w m)" "seg_sync (cpu_x86_set_a20 env a)"
proof -
  note env = assms [unfolded seg_sync_def]
  show "seg_sync (cpu_x86_update_cr0 env v)"
    using env by (auto simp: cpu_x86_update_cr0_def Let_def seg_sync_def bit_simps)
  show "seg_sync (cpu_x86_update_cr3 env v')"
    using env by (auto simp: cpu_x86_update_cr3_def Let_def seg_sync_def bit_simps)
  show "seg_sync (cpu_x86_update_cr4 env w)"
    using env by (auto simp: cpu_x86_update_cr4_def Let_def seg_sync_def bit_simps)
  show "seg_sync (cpu_load_efer env v')"
    using env by (auto simp: cpu_load_efer_def Let_def seg_sync_def bit_simps)
  show "seg_sync (cpu_x86_load_seg_cache env r sel b l f)"
    using env load_seg_flags [of env r sel b l f] by (auto simp: seg_sync_def)
  have "\<not> bit c n" if "2 \<le> n" for n using that by (auto dest: bit_imp_le_length)
  then show "seg_sync (cpu_x86_set_cpl env (ucast c))"
    using env by (simp add: cpu_x86_set_cpl_def seg_sync_def bit_simps)
  show "seg_sync (helper_clts env)"
    using env by (auto simp: helper_clts_def Let_def seg_sync_def bit_simps)
  show "seg_sync (cpu_load_eflags env w m)"
    using env by (simp add: cpu_load_eflags_def seg_sync_def)
  show "seg_sync (cpu_x86_set_a20 env a)"
    using env by (simp add: cpu_x86_set_a20_def Let_def seg_sync_def)
qed

lemma seg_sync_reset: "seg_sync (cpu_reset env)"
proof -
  have "seg_sync (cpu_x86_update_cr0 e 0x60000010)"
    if "hflags e = 0" "cr e = (\<lambda>_. 0)" "efer e = 0" "segs e = (\<lambda>_. seg_zero)" for e :: "'a CPUX86State_scheme"
    using that by (simp add: seg_sync_def update_cr0_reset seg_zero_def)
  then show ?thesis
    unfolding cpu_reset_def Let_def by (simp add: seg_sync_step seg_sync_frame)
qed

interpretation crm: machine cr_step "\<lambda>env. hflags_sync env \<and> seg_sync env"
proof unfold_locales
  fix env :: "'a CPUX86State_scheme" and ev
  assume "hflags_sync env \<and> seg_sync env"
  then show "hflags_sync (cr_step ev env) \<and> seg_sync (cr_step ev env)"
    by (cases ev) (simp_all add: sync_intros seg_sync_step seg_sync_reset)
qed


text \<open>
  the processor comes out of reset in real mode, with interrupts off, the first
  instruction fetched from the reset vector at 0xfffffff0, and 16-bit code and stack.
\<close>
lemma reset_vector:
  "fst (cpu_get_tb_cpu_state (cpu_reset env)) = 0xfffffff0 \<and>
   cr (cpu_reset env) 0 = 0x60000010 \<and> eflags (cpu_reset env) = 2 \<and>
   hflags (cpu_reset env) = HF_ADDSEG_MASK \<and> cpu_mmu_index (cpu_reset env) = 0"
proof -
  have h: "hflags (cpu_reset env) = HF_ADDSEG_MASK"
    by (simp add: cpu_reset_def Let_def load_seg_cache_real_mode update_cr0_reset seg_zero_def)
  have "cr (cpu_reset env) 0 = 0x60000010 \<and> eflags (cpu_reset env) = 2 \<and>
      eip (cpu_reset env) = 0xfff0 \<and> base (segs (cpu_reset env) R_CS) = 0xffff0000"
    by (simp add: cpu_reset_def Let_def update_cr0_reset)
  with h show ?thesis
    by (simp add: cpu_get_tb_cpu_state_def cpu_mmu_index_def Let_def)
qed

text \<open>Translating and returning to the same block restores the instruction pointer.\<close>
lemma tb_pc_roundtrip:
  "cpu_pc_from_tb env (fst (cpu_get_tb_cpu_state env)) (fst (snd (cpu_get_tb_cpu_state env))) = env"
  by (simp add: cpu_pc_from_tb_def cpu_get_tb_cpu_state_def Let_def)

section \<open>TLB flushes\<close>

text \<open>What address translation depends on, and the calls an operation has added.\<close>

definition paging_ctx :: "'m CPUX86State_scheme \<Rightarrow> u64 \<times> u64 \<times> u64" where
  "paging_ctx env = (cr env 0 AND (CR0_PG_MASK OR CR0_WP_MASK OR CR0_PE_MASK),
     cr env 4 AND (CR4_PGE_MASK OR CR4_PAE_MASK OR CR4_PSE_MASK), a20_mask env)"

definition new_calls :: "'m CPUX86State_scheme \<Rightarrow> 'm CPUX86State_scheme \<Rightarrow> ext_call list" where
  "new_calls env env' = drop (length (ext_calls env)) (ext_calls env')"

lemma ucast_and_pg: "(ucast (v :: u32) :: u64) AND (CR0_PG_MASK OR CR0_WP_MASK OR CR0_PE_MASK) =
    ucast (v AND (CR0_PG_MASK OR CR0_WP_MASK OR CR0_PE_MASK))"
  by (rule bit_word_eqI) (auto simp: bit_simps dest: bit_imp_le_length)

lemma new_calls_simps [simp]:
  "ext_calls env' = ext_calls env \<Longrightarrow> new_calls env env' = []"
  "ext_calls env' = ext_calls env @ cs \<Longrightarrow> new_calls env env' = cs"
  by (simp_all add: new_calls_def)

lemma update_cr0_calls:
  "new_calls env (cpu_x86_update_cr0 env v) =
    (if ucast (v AND (CR0_PG_MASK OR CR0_WP_MASK OR CR0_PE_MASK)) \<noteq> fst (paging_ctx env)
     then [TlbFlush 1] else [])"
  by (simp add: cpu_x86_update_cr0_def Let_def paging_ctx_def ext_call_def new_calls_def)

lemma update_cr0_paging_ctx:
  "paging_ctx (cpu_x86_update_cr0 env v) = paging_ctx env \<or>
   paging_ctx (cpu_x86_update_cr0 env v) =
     (ucast (v AND (CR0_PG_MASK OR CR0_WP_MASK OR CR0_PE_MASK)), snd (paging_ctx env))"
  by (auto simp: cpu_x86_update_cr0_def Let_def paging_ctx_def ucast_and_pg [simplified]
      bit.conj_disj_distrib2)

lemma ucast_and_cr4: "(ucast (v :: u32) :: u64) AND (CR4_PGE_MASK OR CR4_PAE_MASK OR CR4_PSE_MASK) =
    ucast (v AND (CR4_PGE_MASK OR CR4_PAE_MASK OR CR4_PSE_MASK))"
  by (rule bit_word_eqI) (auto simp: bit_simps dest: bit_imp_le_length)

lemma update_cr4_calls:
  "new_calls env (cpu_x86_update_cr4 env v) =
    (if ucast (v AND (CR4_PGE_MASK OR CR4_PAE_MASK OR CR4_PSE_MASK)) \<noteq> fst (snd (paging_ctx env))
     then [TlbFlush 1] else [])"
  by (simp add: cpu_x86_update_cr4_def Let_def paging_ctx_def ext_call_def new_calls_def)

lemma update_cr4_paging_ctx:
  "paging_ctx (cpu_x86_update_cr4 env v) = (fst (paging_ctx env),
     ucast (v AND (CR4_PGE_MASK OR CR4_PAE_MASK OR CR4_PSE_MASK)), snd (snd (paging_ctx env)))"
  by (simp add: cpu_x86_update_cr4_def Let_def paging_ctx_def ucast_and_cr4 [simplified]
      and.assoc)

definition cr3_ctx :: "'m CPUX86State_scheme \<Rightarrow> u64" where
  "cr3_ctx env = (if cr env 0 AND CR0_PG_MASK \<noteq> 0 then cr env 3 else 0)"

lemma cr3_ctx_pg:
  "fst (paging_ctx env) = fst (paging_ctx env') \<Longrightarrow> cr env 3 = cr env' 3 \<Longrightarrow> cr3_ctx env = cr3_ctx env'"
proof -
  have pg: "x AND CR0_PG_MASK = (x AND (CR0_PG_MASK OR CR0_WP_MASK OR CR0_PE_MASK)) AND CR0_PG_MASK"
    for x :: u64 by (simp add: and.assoc)
  assume "fst (paging_ctx env) = fst (paging_ctx env')" "cr env 3 = cr env' 3"
  then show ?thesis
    unfolding cr3_ctx_def paging_ctx_def by (subst (1 2) pg) simp
qed

lemma cr3_frame:
  "cr (cpu_x86_update_cr0 env v) 3 = cr env 3" "cr (cpu_x86_update_cr4 env v) 3 = cr env 3"
  by (simp_all add: cpu_x86_update_cr0_def cpu_x86_update_cr4_def Let_def)

lemma same_cr_ctx:
  assumes "cr env' = cr env" "a20_mask env' = a20_mask env"
  shows "paging_ctx env' = paging_ctx env" "cr3_ctx env' = cr3_ctx env"
  using assms by (simp_all add: paging_ctx_def cr3_ctx_def)

lemma reset_calls:
  "new_calls env (cpu_reset env) = TlbFlush 1 # new_calls (ext_call (TlbFlush 1) env) (cpu_reset env)"
  by (simp add: cpu_reset_def Let_def new_calls_def clear_state_def ext_call_def cpu_x86_update_cr0_def)

text \<open>
  C23: no operation changes the paging mode (CR0.PG, WP, PE; CR4.PAE, PSE, PGE), the A20
  mask, or the page table base while paging is on, without asking for a TLB flush.
\<close>
theorem paging_change_flushes:
  assumes "(paging_ctx (cr_step ev env), cr3_ctx (cr_step ev env)) \<noteq> (paging_ctx env, cr3_ctx env)"
  shows "\<exists>g. TlbFlush g \<in> set (new_calls env (cr_step ev env))"
proof (cases ev)
  case (UpdateCR0 v)
  have "fst (paging_ctx (cr_step ev env)) \<noteq> fst (paging_ctx env)"
    using assms UpdateCR0 update_cr0_paging_ctx [of env v]
      cr3_ctx_pg [of "cpu_x86_update_cr0 env v" env] by (auto simp: cr3_frame prod_eq_iff)
  then show ?thesis
    using UpdateCR0 update_cr0_paging_ctx [of env v] by (auto simp: update_cr0_calls)
next
  case (UpdateCR4 v)
  then show ?thesis
    using assms cr3_ctx_pg [of "cpu_x86_update_cr4 env v" env]
    by (auto simp: update_cr4_calls update_cr4_paging_ctx cr3_frame prod_eq_iff split: if_splits)
next
  case (SetA20 v)
  with assms show ?thesis
    by (auto simp: cpu_x86_set_a20_def Let_def paging_ctx_def cr3_ctx_def ext_call_def new_calls_def
        split: if_splits)
next
  case Clts
  then show ?thesis
    using assms
    by (auto simp: helper_clts_def Let_def paging_ctx_def cr3_ctx_def and.assoc split: if_splits)
next
  case Reset
  then show ?thesis by (auto simp: reset_calls)
qed (use assms in \<open>auto simp: cpu_x86_update_cr3_def Let_def paging_ctx_def cr3_ctx_def ext_call_def
       new_calls_def cpu_load_efer_def cpu_x86_set_cpl_def cpu_load_eflags_def split: if_splits\<close>)

theorem paging_change_flushes_witness:
  "\<exists>g. TlbFlush g \<in> set (new_calls cpu_zero (cr_step (UpdateCR0 0x80000001) cpu_zero))"
  by (rule paging_change_flushes)
    (simp add: cpu_x86_update_cr0_def Let_def paging_ctx_def ext_call_def)

end
