(* ===== verification/Bus.thy ===== *)
theory Bus
  imports CpuState
begin

text \<open>
  What the helpers rely on in the code behind the \<open>bus\<close> interface, stated once as named
  hypotheses, and a flat memory that meets them.

  \<^item> \<open>regs_frame B\<close>: a physical store changes no field of \<open>CPUX86State\<close>;
  \<^item> \<open>phys_ram B mem\<close>: physical memory is little-endian bytes, which the extension of
    the state holds and \<open>mem\<close> views;
  \<^item> \<open>virt_ram B mem\<close>: where no access faults, so is virtual memory.

  The flat memory \<open>flat_bus\<close> (a byte map as the extension of the state, no paging) is the
  instance that the witnesses use.
\<close>

section \<open>Physical stores leave the registers alone\<close>

definition regs_frame :: "'m cpu_bus \<Rightarrow> bool" where
  "regs_frame B \<longleftrightarrow>
    (\<forall>a v s. CPUX86State.truncate (stb_phys B a v s) = CPUX86State.truncate s) \<and>
    (\<forall>a v s. CPUX86State.truncate (stw_phys B a v s) = CPUX86State.truncate s) \<and>
    (\<forall>a v s. CPUX86State.truncate (stl_phys B a v s) = CPUX86State.truncate s) \<and>
    (\<forall>a v s. CPUX86State.truncate (stl_phys_notdirty B a v s) = CPUX86State.truncate s) \<and>
    (\<forall>a v s. CPUX86State.truncate (stq_phys B a v s) = CPUX86State.truncate s)"

lemma truncate_sel:
  "regs (CPUX86State.truncate s) = regs s"
  "eip (CPUX86State.truncate s) = eip s"
  "eflags (CPUX86State.truncate s) = eflags s"
  "cc_src (CPUX86State.truncate s) = cc_src s"
  "cc_dst (CPUX86State.truncate s) = cc_dst s"
  "cc_op (CPUX86State.truncate s) = cc_op s"
  "df (CPUX86State.truncate s) = df s"
  "hflags (CPUX86State.truncate s) = hflags s"
  "hflags2 (CPUX86State.truncate s) = hflags2 s"
  "segs (CPUX86State.truncate s) = segs s"
  "ldt (CPUX86State.truncate s) = ldt s"
  "tr (CPUX86State.truncate s) = tr s"
  "gdt (CPUX86State.truncate s) = gdt s"
  "idt (CPUX86State.truncate s) = idt s"
  "cr (CPUX86State.truncate s) = cr s"
  "a20_mask (CPUX86State.truncate s) = a20_mask s"
  "fpstt (CPUX86State.truncate s) = fpstt s"
  "fpus (CPUX86State.truncate s) = fpus s"
  "fpuc (CPUX86State.truncate s) = fpuc s"
  "fptags (CPUX86State.truncate s) = fptags s"
  "fpregs (CPUX86State.truncate s) = fpregs s"
  "ft0 (CPUX86State.truncate s) = ft0 s"
  "mxcsr (CPUX86State.truncate s) = mxcsr s"
  "xmm_regs (CPUX86State.truncate s) = xmm_regs s"
  "xmm_t0 (CPUX86State.truncate s) = xmm_t0 s"
  "mmx_t0 (CPUX86State.truncate s) = mmx_t0 s"
  "sysenter_cs (CPUX86State.truncate s) = sysenter_cs s"
  "sysenter_esp (CPUX86State.truncate s) = sysenter_esp s"
  "sysenter_eip (CPUX86State.truncate s) = sysenter_eip s"
  "efer (CPUX86State.truncate s) = efer s"
  "star (CPUX86State.truncate s) = star s"
  "vm_hsave (CPUX86State.truncate s) = vm_hsave s"
  "vm_vmcb (CPUX86State.truncate s) = vm_vmcb s"
  "tsc_offset (CPUX86State.truncate s) = tsc_offset s"
  "intercept (CPUX86State.truncate s) = intercept s"
  "intercept_cr_read (CPUX86State.truncate s) = intercept_cr_read s"
  "intercept_cr_write (CPUX86State.truncate s) = intercept_cr_write s"
  "intercept_dr_read (CPUX86State.truncate s) = intercept_dr_read s"
  "intercept_dr_write (CPUX86State.truncate s) = intercept_dr_write s"
  "intercept_exceptions (CPUX86State.truncate s) = intercept_exceptions s"
  "v_tpr (CPUX86State.truncate s) = v_tpr s"
  "lstar (CPUX86State.truncate s) = lstar s"
  "cstar (CPUX86State.truncate s) = cstar s"
  "fmask (CPUX86State.truncate s) = fmask s"
  "kernelgsbase (CPUX86State.truncate s) = kernelgsbase s"
  "pat (CPUX86State.truncate s) = pat s"
  "error_code (CPUX86State.truncate s) = error_code s"
  "exception_is_int (CPUX86State.truncate s) = exception_is_int s"
  "exception_next_eip (CPUX86State.truncate s) = exception_next_eip s"
  "dr (CPUX86State.truncate s) = dr s"
  "cpu_breakpoint (CPUX86State.truncate s) = cpu_breakpoint s"
  "smbase (CPUX86State.truncate s) = smbase s"
  "old_exception (CPUX86State.truncate s) = old_exception s"
  "exception_index (CPUX86State.truncate s) = exception_index s"
  "interrupt_request (CPUX86State.truncate s) = interrupt_request s"
  "halted (CPUX86State.truncate s) = halted s"
  "cpuid_level (CPUX86State.truncate s) = cpuid_level s"
  "cpuid_vendor1 (CPUX86State.truncate s) = cpuid_vendor1 s"
  "cpuid_vendor2 (CPUX86State.truncate s) = cpuid_vendor2 s"
  "cpuid_vendor3 (CPUX86State.truncate s) = cpuid_vendor3 s"
  "cpuid_version (CPUX86State.truncate s) = cpuid_version s"
  "cpuid_features (CPUX86State.truncate s) = cpuid_features s"
  "cpuid_ext_features (CPUX86State.truncate s) = cpuid_ext_features s"
  "cpuid_xlevel (CPUX86State.truncate s) = cpuid_xlevel s"
  "cpuid_model (CPUX86State.truncate s) = cpuid_model s"
  "cpuid_ext2_features (CPUX86State.truncate s) = cpuid_ext2_features s"
  "cpuid_ext3_features (CPUX86State.truncate s) = cpuid_ext3_features s"
  "cpuid_apic_id (CPUX86State.truncate s) = cpuid_apic_id s"
  "mtrr_fixed (CPUX86State.truncate s) = mtrr_fixed s"
  "mtrr_deftype (CPUX86State.truncate s) = mtrr_deftype s"
  "mtrr_var (CPUX86State.truncate s) = mtrr_var s"
  "mcg_cap (CPUX86State.truncate s) = mcg_cap s"
  "mcg_status (CPUX86State.truncate s) = mcg_status s"
  "mcg_ctl (CPUX86State.truncate s) = mcg_ctl s"
  "mce_banks (CPUX86State.truncate s) = mce_banks s"
  "ext_calls (CPUX86State.truncate s) = ext_calls s"
  by (simp_all add: CPUX86State.truncate_def)

text \<open>Two states with the same registers agree on every field.\<close>

lemma same_regs:
  assumes "CPUX86State.truncate s = CPUX86State.truncate t"
  shows
    "regs s = regs t"
    "eip s = eip t"
    "eflags s = eflags t"
    "cc_src s = cc_src t"
    "cc_dst s = cc_dst t"
    "cc_op s = cc_op t"
    "df s = df t"
    "hflags s = hflags t"
    "hflags2 s = hflags2 t"
    "segs s = segs t"
    "ldt s = ldt t"
    "tr s = tr t"
    "gdt s = gdt t"
    "idt s = idt t"
    "cr s = cr t"
    "a20_mask s = a20_mask t"
    "fpstt s = fpstt t"
    "fpus s = fpus t"
    "fpuc s = fpuc t"
    "fptags s = fptags t"
    "fpregs s = fpregs t"
    "ft0 s = ft0 t"
    "mxcsr s = mxcsr t"
    "xmm_regs s = xmm_regs t"
    "xmm_t0 s = xmm_t0 t"
    "mmx_t0 s = mmx_t0 t"
    "sysenter_cs s = sysenter_cs t"
    "sysenter_esp s = sysenter_esp t"
    "sysenter_eip s = sysenter_eip t"
    "efer s = efer t"
    "star s = star t"
    "vm_hsave s = vm_hsave t"
    "vm_vmcb s = vm_vmcb t"
    "tsc_offset s = tsc_offset t"
    "intercept s = intercept t"
    "intercept_cr_read s = intercept_cr_read t"
    "intercept_cr_write s = intercept_cr_write t"
    "intercept_dr_read s = intercept_dr_read t"
    "intercept_dr_write s = intercept_dr_write t"
    "intercept_exceptions s = intercept_exceptions t"
    "v_tpr s = v_tpr t"
    "lstar s = lstar t"
    "cstar s = cstar t"
    "fmask s = fmask t"
    "kernelgsbase s = kernelgsbase t"
    "pat s = pat t"
    "error_code s = error_code t"
    "exception_is_int s = exception_is_int t"
    "exception_next_eip s = exception_next_eip t"
    "dr s = dr t"
    "cpu_breakpoint s = cpu_breakpoint t"
    "smbase s = smbase t"
    "old_exception s = old_exception t"
    "exception_index s = exception_index t"
    "interrupt_request s = interrupt_request t"
    "halted s = halted t"
    "cpuid_level s = cpuid_level t"
    "cpuid_vendor1 s = cpuid_vendor1 t"
    "cpuid_vendor2 s = cpuid_vendor2 t"
    "cpuid_vendor3 s = cpuid_vendor3 t"
    "cpuid_version s = cpuid_version t"
    "cpuid_features s = cpuid_features t"
    "cpuid_ext_features s = cpuid_ext_features t"
    "cpuid_xlevel s = cpuid_xlevel t"
    "cpuid_model s = cpuid_model t"
    "cpuid_ext2_features s = cpuid_ext2_features t"
    "cpuid_ext3_features s = cpuid_ext3_features t"
    "cpuid_apic_id s = cpuid_apic_id t"
    "mtrr_fixed s = mtrr_fixed t"
    "mtrr_deftype s = mtrr_deftype t"
    "mtrr_var s = mtrr_var t"
    "mcg_cap s = mcg_cap t"
    "mcg_status s = mcg_status t"
    "mcg_ctl s = mcg_ctl t"
    "mce_banks s = mce_banks t"
    "ext_calls s = ext_calls t"
  using assms by (simp_all add: CPUX86State.truncate_def)

lemma regs_frameD:
  assumes "regs_frame B"
  shows "CPUX86State.truncate (stb_phys B a v1 s) = CPUX86State.truncate s"
    and "CPUX86State.truncate (stw_phys B a v2 s) = CPUX86State.truncate s"
    and "CPUX86State.truncate (stl_phys B a v4 s) = CPUX86State.truncate s"
    and "CPUX86State.truncate (stl_phys_notdirty B a v4 s) = CPUX86State.truncate s"
    and "CPUX86State.truncate (stq_phys B a v8 s) = CPUX86State.truncate s"
  using assms by (simp_all add: regs_frame_def)

lemmas stb_frame = same_regs [OF regs_frameD(1)]
lemmas stw_frame = same_regs [OF regs_frameD(2)]
lemmas stl_frame = same_regs [OF regs_frameD(3)]
lemmas stl_notdirty_frame = same_regs [OF regs_frameD(4)]
lemmas stq_frame = same_regs [OF regs_frameD(5)]
lemmas phys_frame = stb_frame stw_frame stl_frame stl_notdirty_frame stq_frame

section \<open>Physical memory is bytes\<close>

definition word_bytes :: "'a::len word \<Rightarrow> nat \<Rightarrow> u8" where
  "word_bytes v i = ucast (drop_bit (8 * i) v)"

text \<open>Memory \<open>m\<close> with the \<open>n\<close> bytes of \<open>v\<close> stored at \<open>a\<close>, lowest byte first.\<close>

definition store_bytes :: "(u64 \<Rightarrow> u8) \<Rightarrow> u64 \<Rightarrow> nat \<Rightarrow> 'a::len word \<Rightarrow> u64 \<Rightarrow> u8" where
  "store_bytes m a n v = (\<lambda>x. if unat (x - a) < n then word_bytes v (unat (x - a)) else m x)"

definition load16 :: "(u64 \<Rightarrow> u8) \<Rightarrow> u64 \<Rightarrow> u16" where
  "load16 m a = ucast (m a) OR push_bit 8 (ucast (m (a + 1)))"

definition load32 :: "(u64 \<Rightarrow> u8) \<Rightarrow> u64 \<Rightarrow> u32" where
  "load32 m a = ucast (load16 m a) OR push_bit 16 (ucast (load16 m (a + 2)))"

definition load64 :: "(u64 \<Rightarrow> u8) \<Rightarrow> u64 \<Rightarrow> u64" where
  "load64 m a = ucast (load32 m a) OR push_bit 32 (ucast (load32 m (a + 4)))"

definition phys_ram :: "'m cpu_bus \<Rightarrow> ('m \<Rightarrow> u64 \<Rightarrow> u8) \<Rightarrow> bool" where
  "phys_ram B mem \<longleftrightarrow> regs_frame B \<and>
    (\<forall>a s. ldub_phys B a s = mem (CPUX86State.more s) a) \<and>
    (\<forall>a s. lduw_phys B a s = load16 (mem (CPUX86State.more s)) a) \<and>
    (\<forall>a s. ldl_phys B a s = load32 (mem (CPUX86State.more s)) a) \<and>
    (\<forall>a s. ldq_phys B a s = load64 (mem (CPUX86State.more s)) a) \<and>
    (\<forall>a v s. mem (CPUX86State.more (stb_phys B a v s)) = store_bytes (mem (CPUX86State.more s)) a 1 v) \<and>
    (\<forall>a v s. mem (CPUX86State.more (stw_phys B a v s)) = store_bytes (mem (CPUX86State.more s)) a 2 v) \<and>
    (\<forall>a v s. mem (CPUX86State.more (stl_phys B a v s)) = store_bytes (mem (CPUX86State.more s)) a 4 v) \<and>
    (\<forall>a v s. mem (CPUX86State.more (stl_phys_notdirty B a v s)) = store_bytes (mem (CPUX86State.more s)) a 4 v) \<and>
    (\<forall>a v s. mem (CPUX86State.more (stq_phys B a v s)) = store_bytes (mem (CPUX86State.more s)) a 8 v)"

lemma phys_ramD:
  assumes "phys_ram B mem"
  shows "regs_frame B" "ldub_phys B a s = mem (CPUX86State.more s) a" "lduw_phys B a s = load16 (mem (CPUX86State.more s)) a"
    "ldl_phys B a s = load32 (mem (CPUX86State.more s)) a" "ldq_phys B a s = load64 (mem (CPUX86State.more s)) a"
    "mem (CPUX86State.more (stb_phys B a v1 s)) = store_bytes (mem (CPUX86State.more s)) a 1 v1"
    "mem (CPUX86State.more (stw_phys B a v2 s)) = store_bytes (mem (CPUX86State.more s)) a 2 v2"
    "mem (CPUX86State.more (stl_phys B a v4 s)) = store_bytes (mem (CPUX86State.more s)) a 4 v4"
    "mem (CPUX86State.more (stl_phys_notdirty B a v4 s)) = store_bytes (mem (CPUX86State.more s)) a 4 v4"
    "mem (CPUX86State.more (stq_phys B a v8 s)) = store_bytes (mem (CPUX86State.more s)) a 8 v8"
  using assms by (simp_all add: phys_ram_def)

section \<open>Loads after stores\<close>

text \<open>\<open>k\<close> bytes at \<open>x\<close> do not meet \<open>n\<close> bytes at \<open>a\<close>, addresses counted around \<open>2 ^ 64\<close>.\<close>

definition apart :: "u64 \<Rightarrow> nat \<Rightarrow> u64 \<Rightarrow> nat \<Rightarrow> bool" where
  "apart x k a n \<longleftrightarrow> n \<le> unat (x - a) \<and> unat (x - a) + k \<le> 2 ^ 64"

lemma store_bytes_other:
  assumes "apart x k a n" "i < k"
  shows "store_bytes m a n v (x + of_nat i) = m (x + of_nat i)"
proof -
  have "unat (x + of_nat i - a) = unat (x - a) + i"
  proof -
    have "x + of_nat i - a = word_of_nat (unat (x - a) + i)" by simp
    also have "unat \<dots> = unat (x - a) + i"
      using assms unfolding unat_of_nat by (simp add: apart_def)
    finally show ?thesis .
  qed
  with assms show ?thesis by (simp add: store_bytes_def apart_def)
qed

lemma load_store_other [simp]:
  "apart x 1 a n \<Longrightarrow> store_bytes m a n v x = m x"
  "apart x 2 a n \<Longrightarrow> load16 (store_bytes m a n v) x = load16 m x"
  "apart x 4 a n \<Longrightarrow> load32 (store_bytes m a n v) x = load32 m x"
  "apart x 8 a n \<Longrightarrow> load64 (store_bytes m a n v) x = load64 m x"
proof -
  have *: "apart x k a n \<Longrightarrow> (\<And>i. i < k \<Longrightarrow> store_bytes m a n v (x + of_nat i) = m (x + of_nat i))" for k
    using store_bytes_other by blast
  show "apart x 1 a n \<Longrightarrow> store_bytes m a n v x = m x" using * [of 1 0] by simp
  show "apart x 2 a n \<Longrightarrow> load16 (store_bytes m a n v) x = load16 m x"
    using * [of 2 0] * [of 2 1] by (simp add: load16_def)
  show "apart x 4 a n \<Longrightarrow> load32 (store_bytes m a n v) x = load32 m x"
    using * [of 4 0] * [of 4 1] * [of 4 2] * [of 4 3] by (simp add: load32_def load16_def add.assoc)
  show "apart x 8 a n \<Longrightarrow> load64 (store_bytes m a n v) x = load64 m x"
    using * [of 8 0] * [of 8 1] * [of 8 2] * [of 8 3] * [of 8 4] * [of 8 5] * [of 8 6] * [of 8 7]
    by (simp add: load64_def load32_def load16_def add.assoc)
qed

lemma store_bytes_at:
  "i < n \<Longrightarrow> n \<le> 8 \<Longrightarrow> store_bytes m a n v (a + of_nat i) = word_bytes v i"
  by (simp add: store_bytes_def unat_of_nat)

text \<open>Two halves make a word.\<close>

lemma join_halves:
  "ucast (ucast (v2 :: u16) :: u8) OR push_bit 8 (ucast (ucast (drop_bit 8 v2) :: u8)) = v2"
  "ucast (ucast (v4 :: u32) :: u16) OR push_bit 16 (ucast (ucast (drop_bit 16 v4) :: u16)) = v4"
  "ucast (ucast (v8 :: u64) :: u32) OR push_bit 32 (ucast (ucast (drop_bit 32 v8) :: u32)) = v8"
  by (rule bit_word_eqI, auto simp: bit_simps)+

lemma load16_store_part:
  assumes "Suc i < n" "n \<le> 8"
  shows "load16 (store_bytes m a n v) (a + of_nat i) = ucast (drop_bit (8 * i) v)"
proof -
  have "a + of_nat i + 1 = a + of_nat (Suc i)" by simp
  with store_bytes_at [of i n m a v] store_bytes_at [of "Suc i" n m a v] assms show ?thesis
    by (simp only: load16_def) (simp add: word_bytes_def,
      rule bit_word_eqI, auto simp: bit_simps algebra_simps)
qed

lemma load32_store_part:
  assumes "i + 3 < n" "n \<le> 8"
  shows "load32 (store_bytes m a n v) (a + of_nat i) = ucast (drop_bit (8 * i) v)"
proof -
  have "a + of_nat i + 2 = a + of_nat (i + 2)" by simp
  with load16_store_part [of i n m a v] load16_store_part [of "i + 2" n m a v] assms show ?thesis
    by (simp only: load32_def) (simp, rule bit_word_eqI, auto simp: bit_simps algebra_simps)
qed

lemma load_store_same [simp]:
  "store_bytes m a 1 (v1 :: u8) a = v1"
  "load16 (store_bytes m a 2 (v2 :: u16)) a = v2"
  "load32 (store_bytes m a 4 (v4 :: u32)) a = v4"
  "load64 (store_bytes m a 8 (v8 :: u64)) a = v8"
  using store_bytes_at [of 0 1 m a v1] load16_store_part [of 0 2 m a v2]
    load32_store_part [of 0 4 m a v4] load32_store_part [of 0 8 m a v8]
    load32_store_part [of 4 8 m a v8]
  by (simp_all add: word_bytes_def load64_def join_halves)

lemma apart_offsets [simp]:
  "apart (b + numeral x) k (b + numeral a) n \<longleftrightarrow> apart (numeral x - numeral a) k 0 n"
  "apart b k (b + numeral a) n \<longleftrightarrow> apart (- numeral a) k 0 n"
  "apart (b + numeral x) k b n \<longleftrightarrow> apart (numeral x) k 0 n"
  by (simp_all add: apart_def)

lemma load_zero [simp]:
  "load16 (\<lambda>_. 0) a = 0" "load32 (\<lambda>_. 0) a = 0" "load64 (\<lambda>_. 0) a = 0"
  by (simp_all add: load16_def load32_def load64_def)

section \<open>Virtual memory without faults\<close>

text \<open>
  Where no access faults, the accesses through the soft MMU are loads and stores of a memory
  too: \<open>mem\<close> views the guest's virtual memory in the extension of the state.
\<close>

definition stores_to ::
  "('m \<Rightarrow> u64 \<Rightarrow> u8) \<Rightarrow> nat \<Rightarrow> (u64 \<Rightarrow> 'a::len word \<Rightarrow> (unit, 'm) helper) \<Rightarrow> bool" where
  "stores_to mem n st \<longleftrightarrow> (\<forall>a v s. \<exists>t. st a v s = Done () t \<and>
     CPUX86State.truncate t = CPUX86State.truncate s \<and>
     mem (CPUX86State.more t) = store_bytes (mem (CPUX86State.more s)) a n v)"

definition virt_ram :: "'m cpu_bus \<Rightarrow> ('m \<Rightarrow> u64 \<Rightarrow> u8) \<Rightarrow> bool" where
  "virt_ram B mem \<longleftrightarrow>
    (\<forall>a s. cpu_ldub_data B a s = Done (mem (CPUX86State.more s) a) s) \<and>
    (\<forall>a s. cpu_lduw_data B a s = Done (load16 (mem (CPUX86State.more s)) a) s) \<and>
    (\<forall>a s. cpu_ldl_data B a s = Done (load32 (mem (CPUX86State.more s)) a) s) \<and>
    (\<forall>a s. cpu_ldq_data B a s = Done (load64 (mem (CPUX86State.more s)) a) s) \<and>
    (\<forall>a s. cpu_ldub_kernel B a s = Done (mem (CPUX86State.more s) a) s) \<and>
    (\<forall>a s. cpu_lduw_kernel B a s = Done (load16 (mem (CPUX86State.more s)) a) s) \<and>
    (\<forall>a s. cpu_ldl_kernel B a s = Done (load32 (mem (CPUX86State.more s)) a) s) \<and>
    (\<forall>a s. cpu_ldq_kernel B a s = Done (load64 (mem (CPUX86State.more s)) a) s) \<and>
    stores_to mem 1 (cpu_stb_data B) \<and> stores_to mem 2 (cpu_stw_data B) \<and>
    stores_to mem 4 (cpu_stl_data B) \<and> stores_to mem 8 (cpu_stq_data B) \<and>
    stores_to mem 1 (cpu_stb_kernel B) \<and> stores_to mem 2 (cpu_stw_kernel B) \<and>
    stores_to mem 4 (cpu_stl_kernel B) \<and> stores_to mem 8 (cpu_stq_kernel B)"

lemma virt_ram_load:
  assumes "virt_ram B mem"
  shows "cpu_ldub_data B a s = Done (mem (CPUX86State.more s) a) s"
    "cpu_lduw_data B a s = Done (load16 (mem (CPUX86State.more s)) a) s"
    "cpu_ldl_data B a s = Done (load32 (mem (CPUX86State.more s)) a) s"
    "cpu_ldq_data B a s = Done (load64 (mem (CPUX86State.more s)) a) s"
    "cpu_ldub_kernel B a s = Done (mem (CPUX86State.more s) a) s"
    "cpu_lduw_kernel B a s = Done (load16 (mem (CPUX86State.more s)) a) s"
    "cpu_ldl_kernel B a s = Done (load32 (mem (CPUX86State.more s)) a) s"
    "cpu_ldq_kernel B a s = Done (load64 (mem (CPUX86State.more s)) a) s"
  using assms by (simp_all add: virt_ram_def)

lemma virt_ram_store:
  assumes "virt_ram B mem"
  shows "stores_to mem 1 (cpu_stb_data B)" "stores_to mem 2 (cpu_stw_data B)"
    "stores_to mem 4 (cpu_stl_data B)" "stores_to mem 8 (cpu_stq_data B)"
    "stores_to mem 1 (cpu_stb_kernel B)" "stores_to mem 2 (cpu_stw_kernel B)"
    "stores_to mem 4 (cpu_stl_kernel B)" "stores_to mem 8 (cpu_stq_kernel B)"
  using assms by (simp_all add: virt_ram_def)

lemma stores_toE:
  assumes "stores_to mem n st"
  obtains t where "st a v s = Done () t" "CPUX86State.truncate t = CPUX86State.truncate s"
    "mem (CPUX86State.more t) = store_bytes (mem (CPUX86State.more s)) a n v"
  using assms unfolding stores_to_def by blast

text \<open>Two memories that agree on an area.\<close>

definition same_bytes :: "u64 \<Rightarrow> nat \<Rightarrow> (u64 \<Rightarrow> u8) \<Rightarrow> (u64 \<Rightarrow> u8) \<Rightarrow> bool" where
  "same_bytes a n M M' \<longleftrightarrow> (\<forall>i<n. M (a + of_nat i) = M' (a + of_nat i))"

lemma same_bytes_at:
  assumes "same_bytes a n M M'" "unat x < n"
  shows "M (a + x) = M' (a + x)"
proof -
  have "M (a + of_nat (unat x)) = M' (a + of_nat (unat x))" using assms unfolding same_bytes_def by blast
  then show ?thesis by simp
qed

lemma same_bytes_load:
  assumes "same_bytes a n M M'" "unat x + 8 \<le> n"
  shows "load64 M (a + x) = load64 M' (a + x)" "load32 M (a + x) = load32 M' (a + x)"
    "load16 M (a + x) = load16 M' (a + x)" "M (a + x) = M' (a + x)"
proof -
  have "M (a + x + of_nat k) = M' (a + x + of_nat k)" if "k < 8" for k
  proof -
    have "unat (x + of_nat k) \<le> unat x + unat (of_nat k :: u64)" by (simp add: unat_word_ariths)
    also have "unat (of_nat k :: u64) = k" using that by (simp add: unat_of_nat)
    finally have "unat (x + of_nat k) < n" using assms(2) that by simp
    from same_bytes_at [OF assms(1) this] show ?thesis by (simp add: add.assoc)
  qed
  from this [of 0] this [of 1] this [of 2] this [of 3] this [of 4] this [of 5] this [of 6] this [of 7]
  show "load64 M (a + x) = load64 M' (a + x)" "load32 M (a + x) = load32 M' (a + x)"
    "load16 M (a + x) = load16 M' (a + x)" "M (a + x) = M' (a + x)"
    by (simp_all add: load64_def load32_def load16_def add.assoc)
qed

lemma same_bytes_store:
  assumes "n \<le> unat (a - b)" "unat (a - b) + k \<le> 2 ^ 64"
  shows "same_bytes a k (store_bytes M b n v) M"
  unfolding same_bytes_def
proof (intro allI impI)
  fix i assume "i < k"
  then show "store_bytes M b n v (a + of_nat i) = M (a + of_nat i)"
    using assms by (intro store_bytes_other) (simp_all add: apart_def)
qed

lemma same_bytes_trans: "same_bytes a n M M' \<Longrightarrow> same_bytes a n M' M'' \<Longrightarrow> same_bytes a n M M''"
  by (simp add: same_bytes_def)

section \<open>A flat memory\<close>

type_synonym cpu_ram = "(u64 \<Rightarrow> u8) CPUX86State_scheme"

abbreviation (input) ram :: "cpu_ram \<Rightarrow> u64 \<Rightarrow> u8" where
  "ram s \<equiv> CPUX86State.more s"

abbreviation (input) set_ram :: "(u64 \<Rightarrow> u8) \<Rightarrow> cpu_ram \<Rightarrow> cpu_ram" where
  "set_ram m s \<equiv> CPUX86State.more_update (\<lambda>_. m) s"

definition flat_bus :: "cpu_ram bus" where
  "flat_bus = \<lparr>
     cpu_ldub_data = (\<lambda>a s. Done (ram s a) s),
     cpu_lduw_data = (\<lambda>a s. Done (load16 (ram s) a) s),
     cpu_ldl_data = (\<lambda>a s. Done (load32 (ram s) a) s),
     cpu_ldq_data = (\<lambda>a s. Done (load64 (ram s) a) s),
     cpu_stb_data = (\<lambda>a v s. Done () (set_ram (store_bytes (ram s) a 1 v) s)),
     cpu_stw_data = (\<lambda>a v s. Done () (set_ram (store_bytes (ram s) a 2 v) s)),
     cpu_stl_data = (\<lambda>a v s. Done () (set_ram (store_bytes (ram s) a 4 v) s)),
     cpu_stq_data = (\<lambda>a v s. Done () (set_ram (store_bytes (ram s) a 8 v) s)),
     cpu_ldub_kernel = (\<lambda>a s. Done (ram s a) s),
     cpu_lduw_kernel = (\<lambda>a s. Done (load16 (ram s) a) s),
     cpu_ldl_kernel = (\<lambda>a s. Done (load32 (ram s) a) s),
     cpu_ldq_kernel = (\<lambda>a s. Done (load64 (ram s) a) s),
     cpu_stb_kernel = (\<lambda>a v s. Done () (set_ram (store_bytes (ram s) a 1 v) s)),
     cpu_stw_kernel = (\<lambda>a v s. Done () (set_ram (store_bytes (ram s) a 2 v) s)),
     cpu_stl_kernel = (\<lambda>a v s. Done () (set_ram (store_bytes (ram s) a 4 v) s)),
     cpu_stq_kernel = (\<lambda>a v s. Done () (set_ram (store_bytes (ram s) a 8 v) s)),
     ldub_phys = (\<lambda>a s. ram s a),
     lduw_phys = (\<lambda>a s. load16 (ram s) a),
     ldl_phys = (\<lambda>a s. load32 (ram s) a),
     ldq_phys = (\<lambda>a s. load64 (ram s) a),
     stb_phys = (\<lambda>a v s. set_ram (store_bytes (ram s) a 1 v) s),
     stw_phys = (\<lambda>a v s. set_ram (store_bytes (ram s) a 2 v) s),
     stl_phys = (\<lambda>a v s. set_ram (store_bytes (ram s) a 4 v) s),
     stl_phys_notdirty = (\<lambda>a v s. set_ram (store_bytes (ram s) a 4 v) s),
     stq_phys = (\<lambda>a v s. set_ram (store_bytes (ram s) a 8 v) s),
     cpu_get_apic_tpr = (\<lambda>s. 0),
     cpu_set_apic_tpr = (\<lambda>v s. s),
     cpu_get_apic_base = (\<lambda>s. 0),
     cpu_set_apic_base = (\<lambda>v s. s),
     cpu_get_tsc = (\<lambda>s. 0),
     cpu_inb = (\<lambda>p s. (0, s)), cpu_inw = (\<lambda>p s. (0, s)), cpu_inl = (\<lambda>p s. (0, s)),
     cpu_outb = (\<lambda>p v s. s), cpu_outw = (\<lambda>p v s. s), cpu_outl = (\<lambda>p v s. s),
     cpu_smm_update = (\<lambda>s. s),
     cpu_breakpoint_insert = (\<lambda>pc i s. (0, s\<lparr>cpu_breakpoint := (cpu_breakpoint s)(i := Some i)\<rparr>)),
     cpu_watchpoint_insert = (\<lambda>a n t i s. (0, s\<lparr>cpu_breakpoint := (cpu_breakpoint s)(i := Some i)\<rparr>)),
     cpu_breakpoint_remove_by_ref = (\<lambda>p s. s), cpu_watchpoint_remove_by_ref = (\<lambda>p s. s),
     watchpoint_was_hit = (\<lambda>p s. False), other_cpus = (\<lambda>s. False)\<rparr>"

lemma flat_regs_frame: "regs_frame flat_bus"
  by (simp add: regs_frame_def flat_bus_def CPUX86State.truncate_def)

lemma flat_phys_ram: "phys_ram flat_bus (\<lambda>m. m)"
  by (simp add: phys_ram_def flat_regs_frame) (simp add: flat_bus_def)

lemma flat_virt_ram: "virt_ram flat_bus (\<lambda>m. m)"
  by (simp add: virt_ram_def stores_to_def flat_bus_def CPUX86State.truncate_def)

definition ram_zero :: cpu_ram where
  "ram_zero = CPUX86State.extend cpu_zero (\<lambda>_. 0)"

lemma ram_zero_sel [simp]:
  "CPUX86State.truncate ram_zero = CPUX86State.truncate cpu_zero" "CPUX86State.more ram_zero = (\<lambda>_. 0)"
  by (simp_all add: ram_zero_def CPUX86State.defs cpu_zero_def)

lemmas ram_zero_regs [simp] = same_regs [OF ram_zero_sel(1), unfolded cpu_zero_sel]

end
