(* ===== verification/SvmExit.thy ===== *)
theory SvmExit
  imports ControlRegs Bus
begin

text \<open>
  Secure virtual machine exits, after \<open>svm.h\<close> and \<open>svm_helper.c\<close>: saving and loading
  segment caches in a VMCB, \<open>helper_vmexit\<close>, and the intercept checks
  \<open>helper_svm_check_intercept_param\<close> and \<open>helper_svm_check_io\<close>, which leave the helper
  that calls them by way of \<open>helper_vmexit\<close> when the intercept is on.

  The VMCB is guest-physical memory: its fields are reached by their byte offsets in
  \<open>struct vmcb\<close> (packed, control area first, save area at 0x400).
\<close>

section \<open>Layout of the VMCB\<close>

abbreviation (input) vmcb_intercept_cr_read :: u64 where "vmcb_intercept_cr_read \<equiv> 0x0"
abbreviation (input) vmcb_intercept_cr_write :: u64 where "vmcb_intercept_cr_write \<equiv> 0x2"
abbreviation (input) vmcb_intercept_dr_read :: u64 where "vmcb_intercept_dr_read \<equiv> 0x4"
abbreviation (input) vmcb_intercept_dr_write :: u64 where "vmcb_intercept_dr_write \<equiv> 0x6"
abbreviation (input) vmcb_intercept_exceptions :: u64 where "vmcb_intercept_exceptions \<equiv> 0x8"
abbreviation (input) vmcb_intercept :: u64 where "vmcb_intercept \<equiv> 0xc"
abbreviation (input) vmcb_iopm_base_pa :: u64 where "vmcb_iopm_base_pa \<equiv> 0x40"
abbreviation (input) vmcb_msrpm_base_pa :: u64 where "vmcb_msrpm_base_pa \<equiv> 0x48"
abbreviation (input) vmcb_tsc_offset :: u64 where "vmcb_tsc_offset \<equiv> 0x50"
abbreviation (input) vmcb_tlb_ctl :: u64 where "vmcb_tlb_ctl \<equiv> 0x5c"
abbreviation (input) vmcb_int_ctl :: u64 where "vmcb_int_ctl \<equiv> 0x60"
abbreviation (input) vmcb_int_state :: u64 where "vmcb_int_state \<equiv> 0x68"
abbreviation (input) vmcb_exit_code :: u64 where "vmcb_exit_code \<equiv> 0x70"
abbreviation (input) vmcb_exit_info_1 :: u64 where "vmcb_exit_info_1 \<equiv> 0x78"
abbreviation (input) vmcb_exit_info_2 :: u64 where "vmcb_exit_info_2 \<equiv> 0x80"
abbreviation (input) vmcb_exit_int_info :: u64 where "vmcb_exit_int_info \<equiv> 0x88"
abbreviation (input) vmcb_exit_int_info_err :: u64 where "vmcb_exit_int_info_err \<equiv> 0x8c"
abbreviation (input) vmcb_event_inj :: u64 where "vmcb_event_inj \<equiv> 0xa8"
abbreviation (input) vmcb_event_inj_err :: u64 where "vmcb_event_inj_err \<equiv> 0xac"
abbreviation (input) save_es :: u64 where "save_es \<equiv> 0x400"
abbreviation (input) save_cs :: u64 where "save_cs \<equiv> 0x410"
abbreviation (input) save_ss :: u64 where "save_ss \<equiv> 0x420"
abbreviation (input) save_ds :: u64 where "save_ds \<equiv> 0x430"
abbreviation (input) save_fs :: u64 where "save_fs \<equiv> 0x440"
abbreviation (input) save_gs :: u64 where "save_gs \<equiv> 0x450"
abbreviation (input) save_gdtr :: u64 where "save_gdtr \<equiv> 0x460"
abbreviation (input) save_ldtr :: u64 where "save_ldtr \<equiv> 0x470"
abbreviation (input) save_idtr :: u64 where "save_idtr \<equiv> 0x480"
abbreviation (input) save_tr :: u64 where "save_tr \<equiv> 0x490"
abbreviation (input) save_cpl :: u64 where "save_cpl \<equiv> 0x4cb"
abbreviation (input) save_efer :: u64 where "save_efer \<equiv> 0x4d0"
abbreviation (input) save_cr4 :: u64 where "save_cr4 \<equiv> 0x548"
abbreviation (input) save_cr3 :: u64 where "save_cr3 \<equiv> 0x550"
abbreviation (input) save_cr0 :: u64 where "save_cr0 \<equiv> 0x558"
abbreviation (input) save_dr7 :: u64 where "save_dr7 \<equiv> 0x560"
abbreviation (input) save_dr6 :: u64 where "save_dr6 \<equiv> 0x568"
abbreviation (input) save_rflags :: u64 where "save_rflags \<equiv> 0x570"
abbreviation (input) save_rip :: u64 where "save_rip \<equiv> 0x578"
abbreviation (input) save_rsp :: u64 where "save_rsp \<equiv> 0x5d8"
abbreviation (input) save_rax :: u64 where "save_rax \<equiv> 0x5f8"
abbreviation (input) save_star :: u64 where "save_star \<equiv> 0x600"
abbreviation (input) save_lstar :: u64 where "save_lstar \<equiv> 0x608"
abbreviation (input) save_cstar :: u64 where "save_cstar \<equiv> 0x610"
abbreviation (input) save_sfmask :: u64 where "save_sfmask \<equiv> 0x618"
abbreviation (input) save_kernel_gs_base :: u64 where "save_kernel_gs_base \<equiv> 0x620"
abbreviation (input) save_sysenter_cs :: u64 where "save_sysenter_cs \<equiv> 0x628"
abbreviation (input) save_sysenter_esp :: u64 where "save_sysenter_esp \<equiv> 0x630"
abbreviation (input) save_sysenter_eip :: u64 where "save_sysenter_eip \<equiv> 0x638"
abbreviation (input) save_cr2 :: u64 where "save_cr2 \<equiv> 0x640"

text \<open>Offsets in \<open>struct vmcb_seg\<close>; for the descriptor tables only limit and base are used.\<close>
abbreviation (input) seg_selector_off :: u64 where "seg_selector_off \<equiv> 0"
abbreviation (input) seg_attrib_off :: u64 where "seg_attrib_off \<equiv> 2"
abbreviation (input) seg_limit_off :: u64 where "seg_limit_off \<equiv> 4"
abbreviation (input) seg_base_off :: u64 where "seg_base_off \<equiv> 8"

abbreviation (input) SVM_EXIT_READ_CR0 :: u32 where "SVM_EXIT_READ_CR0 \<equiv> 0x000"
abbreviation (input) SVM_EXIT_WRITE_CR0 :: u32 where "SVM_EXIT_WRITE_CR0 \<equiv> 0x010"
abbreviation (input) SVM_EXIT_READ_DR0 :: u32 where "SVM_EXIT_READ_DR0 \<equiv> 0x020"
abbreviation (input) SVM_EXIT_WRITE_DR0 :: u32 where "SVM_EXIT_WRITE_DR0 \<equiv> 0x030"
abbreviation (input) SVM_EXIT_EXCP_BASE :: u32 where "SVM_EXIT_EXCP_BASE \<equiv> 0x040"
abbreviation (input) SVM_EXIT_INTR :: u32 where "SVM_EXIT_INTR \<equiv> 0x060"
abbreviation (input) SVM_EXIT_RDTSC :: u32 where "SVM_EXIT_RDTSC \<equiv> 0x06e"
abbreviation (input) SVM_EXIT_RDPMC :: u32 where "SVM_EXIT_RDPMC \<equiv> 0x06f"
abbreviation (input) SVM_EXIT_CPUID :: u32 where "SVM_EXIT_CPUID \<equiv> 0x072"
abbreviation (input) SVM_EXIT_RSM :: u32 where "SVM_EXIT_RSM \<equiv> 0x073"
abbreviation (input) SVM_EXIT_IRET :: u32 where "SVM_EXIT_IRET \<equiv> 0x074"
abbreviation (input) SVM_EXIT_SWINT :: u32 where "SVM_EXIT_SWINT \<equiv> 0x075"
abbreviation (input) SVM_EXIT_HLT :: u32 where "SVM_EXIT_HLT \<equiv> 0x078"
abbreviation (input) SVM_EXIT_INVLPG :: u32 where "SVM_EXIT_INVLPG \<equiv> 0x079"
abbreviation (input) SVM_EXIT_INVLPGA :: u32 where "SVM_EXIT_INVLPGA \<equiv> 0x07a"
abbreviation (input) SVM_EXIT_IOIO :: u32 where "SVM_EXIT_IOIO \<equiv> 0x07b"
abbreviation (input) SVM_EXIT_MSR :: u32 where "SVM_EXIT_MSR \<equiv> 0x07c"
abbreviation (input) SVM_EXIT_SHUTDOWN :: u32 where "SVM_EXIT_SHUTDOWN \<equiv> 0x07f"
abbreviation (input) SVM_EXIT_VMRUN :: u32 where "SVM_EXIT_VMRUN \<equiv> 0x080"
abbreviation (input) SVM_EXIT_VMMCALL :: u32 where "SVM_EXIT_VMMCALL \<equiv> 0x081"
abbreviation (input) SVM_EXIT_VMLOAD :: u32 where "SVM_EXIT_VMLOAD \<equiv> 0x082"
abbreviation (input) SVM_EXIT_VMSAVE :: u32 where "SVM_EXIT_VMSAVE \<equiv> 0x083"
abbreviation (input) SVM_EXIT_STGI :: u32 where "SVM_EXIT_STGI \<equiv> 0x084"
abbreviation (input) SVM_EXIT_CLGI :: u32 where "SVM_EXIT_CLGI \<equiv> 0x085"
abbreviation (input) SVM_EXIT_SKINIT :: u32 where "SVM_EXIT_SKINIT \<equiv> 0x086"
abbreviation (input) SVM_EXIT_MONITOR :: u32 where "SVM_EXIT_MONITOR \<equiv> 0x08a"
abbreviation (input) SVM_EXIT_MWAIT :: u32 where "SVM_EXIT_MWAIT \<equiv> 0x08b"

abbreviation (input) V_TPR_MASK :: "'a::len word" where "V_TPR_MASK \<equiv> 0x0f"
abbreviation (input) V_IRQ_MASK :: "'a::len word" where "V_IRQ_MASK \<equiv> 0x100"
abbreviation (input) V_INTR_MASKING_MASK :: "'a::len word" where "V_INTR_MASKING_MASK \<equiv> 0x1000000"
abbreviation (input) SVM_INTERRUPT_SHADOW_MASK :: "'a::len word" where "SVM_INTERRUPT_SHADOW_MASK \<equiv> 1"

text \<open>The status flags and DF, which \<open>cpu_load_eflags\<close> keeps outside \<open>eflags\<close> in exits.\<close>
abbreviation (input) LAZY_MASK :: "'a::len word" where
  "LAZY_MASK \<equiv> CC_O OR CC_S OR CC_Z OR CC_A OR CC_P OR CC_C OR DF_MASK"

section \<open>Segment caches in the VMCB\<close>

definition svm_attrib :: "u32 \<Rightarrow> u32" where
  "svm_attrib fl = (drop_bit 8 fl AND 0xff) OR (drop_bit 12 fl AND 0x0f00)"

definition svm_save_seg ::
  "'m cpu_bus \<Rightarrow> u64 \<Rightarrow> SegmentCache \<Rightarrow> 'm CPUX86State_scheme \<Rightarrow> 'm CPUX86State_scheme" where
  "svm_save_seg B addr sc = block [
     stw_phys B (addr + seg_selector_off) (ucast (selector sc)),
     stq_phys B (addr + seg_base_off) (base sc),
     stl_phys B (addr + seg_limit_off) (limit sc),
     stw_phys B (addr + seg_attrib_off) (ucast (svm_attrib (flags sc)))]"

definition svm_load_seg :: "'m cpu_bus \<Rightarrow> u64 \<Rightarrow> 'm CPUX86State_scheme \<Rightarrow> SegmentCache" where
  "svm_load_seg B addr env =
    (let fl = ucast (lduw_phys B (addr + seg_attrib_off) env) :: u32
     in \<lparr>selector = ucast (lduw_phys B (addr + seg_selector_off) env),
         base = ldq_phys B (addr + seg_base_off) env,
         limit = ldl_phys B (addr + seg_limit_off) env,
         flags = push_bit 8 (fl AND 0xff) OR push_bit 12 (fl AND 0x0f00)\<rparr>)"

definition svm_load_seg_cache ::
  "'m cpu_bus \<Rightarrow> u64 \<Rightarrow> 'm CPUX86State_scheme \<Rightarrow> nat \<Rightarrow> 'm CPUX86State_scheme" where
  "svm_load_seg_cache B addr env seg_reg =
    (let sc = svm_load_seg B addr env
     in cpu_x86_load_seg_cache env seg_reg (selector sc) (base sc) (limit sc) (flags sc))"

section \<open>helper_vmexit\<close>

text \<open>The first part saves the guest state in the VMCB.\<close>

definition vmexit_save_guest ::
  "'m cpu_bus \<Rightarrow> 'm CPUX86State_scheme \<Rightarrow> 'm CPUX86State_scheme" where
  "vmexit_save_guest B = block [
     \<lambda>env. if hflags env AND HF_INHIBIT_IRQ_MASK \<noteq> 0 then
             (let env = stl_phys B (vm_vmcb env + vmcb_int_state) SVM_INTERRUPT_SHADOW_MASK env
              in env\<lparr>hflags := hflags env AND NOT HF_INHIBIT_IRQ_MASK\<rparr>)
           else stl_phys B (vm_vmcb env + vmcb_int_state) 0 env,
     \<lambda>env. svm_save_seg B (vm_vmcb env + save_es) (segs env R_ES) env,
     \<lambda>env. svm_save_seg B (vm_vmcb env + save_cs) (segs env R_CS) env,
     \<lambda>env. svm_save_seg B (vm_vmcb env + save_ss) (segs env R_SS) env,
     \<lambda>env. svm_save_seg B (vm_vmcb env + save_ds) (segs env R_DS) env,
     \<lambda>env. stq_phys B (vm_vmcb env + save_gdtr + seg_base_off) (base (gdt env)) env,
     \<lambda>env. stl_phys B (vm_vmcb env + save_gdtr + seg_limit_off) (limit (gdt env)) env,
     \<lambda>env. stq_phys B (vm_vmcb env + save_idtr + seg_base_off) (base (idt env)) env,
     \<lambda>env. stl_phys B (vm_vmcb env + save_idtr + seg_limit_off) (limit (idt env)) env,
     \<lambda>env. stq_phys B (vm_vmcb env + save_efer) (efer env) env,
     \<lambda>env. stq_phys B (vm_vmcb env + save_cr0) (cr env 0) env,
     \<lambda>env. stq_phys B (vm_vmcb env + save_cr2) (cr env 2) env,
     \<lambda>env. stq_phys B (vm_vmcb env + save_cr3) (cr env 3) env,
     \<lambda>env. stq_phys B (vm_vmcb env + save_cr4) (cr env 4) env,
     \<lambda>env. let int_ctl = ldl_phys B (vm_vmcb env + vmcb_int_ctl) env;
               int_ctl = int_ctl AND NOT (V_TPR_MASK OR V_IRQ_MASK);
               int_ctl = int_ctl OR (ucast (v_tpr env) AND V_TPR_MASK);
               int_ctl = (if CPU_INTERRUPT_VIRQ \<in> interrupt_request env
                          then int_ctl OR V_IRQ_MASK else int_ctl)
           in stl_phys B (vm_vmcb env + vmcb_int_ctl) int_ctl env,
     \<lambda>env. stq_phys B (vm_vmcb env + save_rflags) (ucast (cpu_compute_eflags env)) env,
     \<lambda>env. stq_phys B (vm_vmcb env + save_rip) (eip env) env,
     \<lambda>env. stq_phys B (vm_vmcb env + save_rsp) (ESP env) env,
     \<lambda>env. stq_phys B (vm_vmcb env + save_rax) (EAX env) env,
     \<lambda>env. stq_phys B (vm_vmcb env + save_dr7) (dr env 7) env,
     \<lambda>env. stq_phys B (vm_vmcb env + save_dr6) (dr env 6) env,
     \<lambda>env. stb_phys B (vm_vmcb env + save_cpl) (ucast (hflags env AND HF_CPL_MASK)) env]"

text \<open>The second part reloads the host state from the host save area.\<close>

definition vmexit_load_host ::
  "'m cpu_bus \<Rightarrow> 'm CPUX86State_scheme \<Rightarrow> 'm CPUX86State_scheme" where
  "vmexit_load_host B = block [
     \<lambda>env. env\<lparr>hflags2 := hflags2 env AND NOT (HF2_HIF_MASK OR HF2_VINTR_MASK)\<rparr>,
     \<lambda>env. env\<lparr>hflags := hflags env AND NOT HF_SVMI_MASK\<rparr>,
     \<lambda>env. env\<lparr>intercept := 0\<rparr>,
     \<lambda>env. env\<lparr>intercept_exceptions := 0\<rparr>,
     \<lambda>env. env\<lparr>interrupt_request := interrupt_request env - {CPU_INTERRUPT_VIRQ}\<rparr>,
     \<lambda>env. env\<lparr>tsc_offset := 0\<rparr>,
     \<lambda>env. env\<lparr>gdt := (gdt env)\<lparr>base := ldq_phys B (vm_hsave env + save_gdtr + seg_base_off) env\<rparr>\<rparr>,
     \<lambda>env. env\<lparr>gdt := (gdt env)\<lparr>limit := ldl_phys B (vm_hsave env + save_gdtr + seg_limit_off) env\<rparr>\<rparr>,
     \<lambda>env. env\<lparr>idt := (idt env)\<lparr>base := ldq_phys B (vm_hsave env + save_idtr + seg_base_off) env\<rparr>\<rparr>,
     \<lambda>env. env\<lparr>idt := (idt env)\<lparr>limit := ldl_phys B (vm_hsave env + save_idtr + seg_limit_off) env\<rparr>\<rparr>,
     \<lambda>env. cpu_x86_update_cr0 env (ucast (ldq_phys B (vm_hsave env + save_cr0) env OR CR0_PE_MASK)),
     \<lambda>env. cpu_x86_update_cr4 env (ucast (ldq_phys B (vm_hsave env + save_cr4) env)),
     \<lambda>env. cpu_x86_update_cr3 env (ldq_phys B (vm_hsave env + save_cr3) env),
     \<lambda>env. cpu_load_efer env (ldq_phys B (vm_hsave env + save_efer) env),
     \<lambda>env. env\<lparr>eflags := 0\<rparr>,
     \<lambda>env. cpu_load_eflags env (ucast (ldq_phys B (vm_hsave env + save_rflags) env)) (NOT LAZY_MASK),
     \<lambda>env. env\<lparr>cc_op := CC_OP_EFLAGS\<rparr>,
     \<lambda>env. svm_load_seg_cache B (vm_hsave env + save_es) env R_ES,
     \<lambda>env. svm_load_seg_cache B (vm_hsave env + save_cs) env R_CS,
     \<lambda>env. svm_load_seg_cache B (vm_hsave env + save_ss) env R_SS,
     \<lambda>env. svm_load_seg_cache B (vm_hsave env + save_ds) env R_DS,
     \<lambda>env. env\<lparr>eip := ldq_phys B (vm_hsave env + save_rip) env\<rparr>,
     \<lambda>env. set_reg R_ESP (ldq_phys B (vm_hsave env + save_rsp) env) env,
     \<lambda>env. set_reg R_EAX (ldq_phys B (vm_hsave env + save_rax) env) env,
     \<lambda>env. set_dr 6 (ldq_phys B (vm_hsave env + save_dr6) env) env,
     \<lambda>env. set_dr 7 (ldq_phys B (vm_hsave env + save_dr7) env) env,
     \<lambda>env. cpu_x86_set_cpl env 0]"

text \<open>The last part reports the exit, and drops the pending exception.\<close>

definition vmexit_report ::
  "'m cpu_bus \<Rightarrow> u32 \<Rightarrow> u64 \<Rightarrow> 'm CPUX86State_scheme \<Rightarrow> 'm CPUX86State_scheme" where
  "vmexit_report B exit_code exit_info_1 = block [
     \<lambda>env. stq_phys B (vm_vmcb env + vmcb_exit_code) (ucast exit_code) env,
     \<lambda>env. stq_phys B (vm_vmcb env + vmcb_exit_info_1) exit_info_1 env,
     \<lambda>env. stl_phys B (vm_vmcb env + vmcb_exit_int_info)
             (ldl_phys B (vm_vmcb env + vmcb_event_inj) env) env,
     \<lambda>env. stl_phys B (vm_vmcb env + vmcb_exit_int_info_err)
             (ldl_phys B (vm_vmcb env + vmcb_event_inj_err) env) env,
     \<lambda>env. env\<lparr>hflags2 := hflags2 env AND NOT HF2_GIF_MASK\<rparr>,
     \<lambda>env. set_cr 0 (cr env 0 OR CR0_PE_MASK) env,
     \<lambda>env. env\<lparr>eflags := eflags env AND NOT VM_MASK\<rparr>,
     \<lambda>env. env\<lparr>exception_index := -1, error_code := 0, old_exception := -1\<rparr>]"

definition helper_vmexit :: "'m cpu_bus \<Rightarrow> u32 \<Rightarrow> u64 \<Rightarrow> ('a, 'm) helper" where
  "helper_vmexit B exit_code exit_info_1 env =
     Stop CpuLoopExit
       (vmexit_report B exit_code exit_info_1 (vmexit_load_host B (vmexit_save_guest B env)))"

section \<open>Intercept checks\<close>

text \<open>Where the permission bits of an MSR lie in the MSR permission map: bit \<open>t0\<close> of byte
  \<open>t1\<close>; \<open>None\<close> for an MSR outside the three ranges of the map.\<close>

definition msrpm_position :: "u64 \<Rightarrow> (u32 \<times> u32) option" where
  "msrpm_position ecx =
    (let msr = ucast ecx :: u32
     in if msr \<le> 0x1fff then Some (ucast ((ecx * 2) mod 8), ucast (ecx div 8))
        else if 0xc0000000 \<le> msr \<and> msr \<le> 0xc0001fff then
          (let t0 = ucast ((8192 + ecx - 0xc0000000) * 2) :: u32 in Some (t0 mod 8, t0 div 8))
        else if 0xc0010000 \<le> msr \<and> msr \<le> 0xc0011fff then
          (let t0 = ucast ((16384 + ecx - 0xc0010000) * 2) :: u32 in Some (t0 mod 8, t0 div 8))
        else None)"

definition helper_svm_check_intercept_param ::
  "'m cpu_bus \<Rightarrow> u32 \<Rightarrow> u64 \<Rightarrow> (unit, 'm) helper" where
  "helper_svm_check_intercept_param B type param env =
    (if hflags env AND HF_SVMI_MASK = 0 then Done () env
     else if type \<le> SVM_EXIT_READ_CR0 + 8 then
       (if ucast (intercept_cr_read env) AND push_bit (unat (type - SVM_EXIT_READ_CR0)) (1 :: u32) \<noteq> 0
        then helper_vmexit B type param env else Done () env)
     else if SVM_EXIT_WRITE_CR0 \<le> type \<and> type \<le> SVM_EXIT_WRITE_CR0 + 8 then
       (if ucast (intercept_cr_write env) AND push_bit (unat (type - SVM_EXIT_WRITE_CR0)) (1 :: u32) \<noteq> 0
        then helper_vmexit B type param env else Done () env)
     else if SVM_EXIT_READ_DR0 \<le> type \<and> type \<le> SVM_EXIT_READ_DR0 + 7 then
       (if ucast (intercept_dr_read env) AND push_bit (unat (type - SVM_EXIT_READ_DR0)) (1 :: u32) \<noteq> 0
        then helper_vmexit B type param env else Done () env)
     else if SVM_EXIT_WRITE_DR0 \<le> type \<and> type \<le> SVM_EXIT_WRITE_DR0 + 7 then
       (if ucast (intercept_dr_write env) AND push_bit (unat (type - SVM_EXIT_WRITE_DR0)) (1 :: u32) \<noteq> 0
        then helper_vmexit B type param env else Done () env)
     else if SVM_EXIT_EXCP_BASE \<le> type \<and> type \<le> SVM_EXIT_EXCP_BASE + 31 then
       (if intercept_exceptions env AND push_bit (unat (type - SVM_EXIT_EXCP_BASE)) 1 \<noteq> 0
        then helper_vmexit B type param env else Done () env)
     else if type = SVM_EXIT_MSR then
       (if intercept env AND push_bit (unat (SVM_EXIT_MSR - SVM_EXIT_INTR)) 1 \<noteq> 0 then
          (let addr = ldq_phys B (vm_vmcb env + vmcb_msrpm_base_pa) env
           in case msrpm_position (ECX env) of
                None \<Rightarrow> helper_vmexit B type param env
              | Some (t0, t1) \<Rightarrow>
                  (if 32 \<le> param then Stop HostUndefined env
                   else if ucast (ldub_phys B (addr + ucast t1) env) AND
                           push_bit (unat t0) (push_bit (unat param) (1 :: u32)) \<noteq> 0
                   then helper_vmexit B type param env else Done () env))
        else Done () env)
     else
       (if 64 \<le> type - SVM_EXIT_INTR then Stop HostUndefined env
        else if intercept env AND push_bit (unat (type - SVM_EXIT_INTR)) 1 \<noteq> 0
        then helper_vmexit B type param env else Done () env))"

definition svm_check_intercept :: "'m cpu_bus \<Rightarrow> u32 \<Rightarrow> (unit, 'm) helper" where
  "svm_check_intercept B type env = helper_svm_check_intercept_param B type 0 env"

definition helper_svm_check_io :: "'m cpu_bus \<Rightarrow> u32 \<Rightarrow> u32 \<Rightarrow> u32 \<Rightarrow> (unit, 'm) helper" where
  "helper_svm_check_io B port param next_eip_addend env =
    (if intercept env AND push_bit (unat (SVM_EXIT_IOIO - SVM_EXIT_INTR)) 1 \<noteq> 0 then
       (let addr = ldq_phys B (vm_vmcb env + vmcb_iopm_base_pa) env;
            mask = ucast (push_bit (unat (drop_bit 4 param AND 7)) (1 :: u32) - 1) :: u16
        in if ucast (lduw_phys B (addr + ucast (port div 8)) env) AND
              push_bit (unat (port AND 7)) (ucast mask :: u32) \<noteq> 0 then
             (let env = stq_phys B (vm_vmcb env + vmcb_exit_info_2)
                          (eip env + ucast next_eip_addend) env
              in helper_vmexit B SVM_EXIT_IOIO (ucast (param OR push_bit 16 port)) env)
           else Done () env)
     else Done () env)"

section \<open>The MSR permission map\<close>

text \<open>
  The map has two bits for each MSR, in three blocks of 0x2000 MSRs: the number of the
  first bit of an MSR.
\<close>

definition msrpm_bit :: "u32 \<Rightarrow> nat option" where
  "msrpm_bit m =
    (if m \<le> 0x1fff then Some (2 * unat m)
     else if 0xc0000000 \<le> m \<and> m \<le> 0xc0001fff then Some (2 * (8192 + unat (m - 0xc0000000)))
     else if 0xc0010000 \<le> m \<and> m \<le> 0xc0011fff then Some (2 * (16384 + unat (m - 0xc0010000)))
     else None)"

definition byte_and_bit :: "nat \<Rightarrow> u32 \<times> u32" where
  "byte_and_bit n = (of_nat (n mod 8), of_nat (n div 8))"

lemma msrpm_low:
  fixes m :: u32
  assumes "m \<le> 0x1fff"
  shows "(ucast ((ucast m * 2 :: u64) mod 8) :: u32) = of_nat (2 * unat m mod 8)"
    and "(ucast (ucast m div 8 :: u64) :: u32) = of_nat (unat m div 8)"
proof -
  have m: "unat m \<le> 0x1fff" using assms by (simp add: word_le_nat_alt)
  then have u: "unat (ucast m :: u64) = unat m" by (simp add: unsigned_ucast_eq take_bit_eq_mod)
  show "(ucast ((ucast m * 2 :: u64) mod 8) :: u32) = of_nat (2 * unat m mod 8)"
    using m by (simp add: word_unat_eq_iff u unsigned_ucast_eq unat_mod unat_word_ariths unat_of_nat take_bit_eq_mod mult.commute)
  show "(ucast (ucast m div 8 :: u64) :: u32) = of_nat (unat m div 8)"
    using m by (simp add: word_unat_eq_iff u unsigned_ucast_eq unat_div unat_of_nat take_bit_eq_mod)
qed

lemma msrpm_high:
  fixes m d b :: u32
  assumes "b \<le> m" "m \<le> b + 0x1fff" "b < b + 0x1fff" "k \<le> 16384"
  defines "t \<equiv> ucast ((of_nat k + ucast m - ucast b) * 2 :: u64) :: u32"
  shows "(t mod 8, t div 8) = byte_and_bit (2 * (k + unat (m - b)))"
proof -
  have d: "unat (m - b) \<le> 0x1fff" "unat m = unat b + unat (m - b)"
    using assms by unat_arith+
  have "(ucast m :: u64) = of_nat (unat b + unat (m - b))"
    using d(2) of_nat_unat [of m] by metis
  then have "(of_nat k + ucast m - ucast b) * 2 = (of_nat (2 * (k + unat (m - b))) :: u64)"
    by (simp add: algebra_simps)
  then have t: "unat t = 2 * (k + unat (m - b))"
    using d(1) assms(4)
    by (simp add: t_def unsigned_ucast_eq unat_of_nat take_bit_eq_mod del: of_nat_mult of_nat_add)
  have "unat t div 8 < 4294967296"
    using unsigned_less [of t, where ?'a = nat] by (intro le_less_trans [OF div_le_dividend]) simp
  then have "t mod 8 = of_nat (unat t mod 8)" "t div 8 = of_nat (unat t div 8)"
    by (simp_all add: word_unat_eq_iff unat_mod unat_div unat_of_nat)
  then show ?thesis by (simp only: byte_and_bit_def t)
qed

lemma div8_low: "n div 8 = 2 * n div 8 \<longleftrightarrow> n < (4 :: nat)"
proof -
  have "2 * n div 8 = n div 4" "n div 8 = n div 4 div 2" by (simp_all add: div_mult2_eq [symmetric])
  moreover have "n div 4 = n div 4 div 2 \<longleftrightarrow> n div 4 = 0" by (cases "n div 4") auto
  ultimately show ?thesis by auto
qed

text \<open>
  C36: the permission bits of an MSR are looked up at their place in the map for every MSR
  of the two high ranges, and refused outside the three ranges; in the low range the code
  divides by 8 instead of 4 and so finds only MSRs 0 to 3.
\<close>
theorem msrpm_position_correct_iff:
  "msrpm_position (ucast m) = map_option byte_and_bit (msrpm_bit m) \<longleftrightarrow> m < 4 \<or> 0x1fff < m"
proof (cases "m \<le> 0x1fff")
  case True
  have *: "unat m \<le> 0x1fff" using True by (simp add: word_le_nat_alt)
  have lt: "unat m div 8 < 2 ^ 32" "2 * unat m div 8 < 2 ^ 32" using * by simp_all
  have inj: "of_nat a = (of_nat b :: u32) \<longleftrightarrow> a = b" if "a < 2 ^ 32" "b < 2 ^ 32" for a b
    using that by (simp add: word_unat_eq_iff unat_of_nat)
  have "unat m div 8 = 2 * unat m div 8 \<longleftrightarrow> unat m < 4" by (rule div8_low)
  also have "\<dots> \<longleftrightarrow> m < 4" unfolding word_less_nat_alt by simp
  finally show ?thesis
    using True * msrpm_low [OF True] inj [OF lt]
    by (simp add: msrpm_position_def msrpm_bit_def byte_and_bit_def leD Let_def ucast_down_up)
next
  case False
  then have m: "(0x1fff < m) = True" "(m \<le> 0x1fff) = False" by simp_all
  show ?thesis
    using msrpm_high [of "0xc0000000" m 8192] msrpm_high [of "0xc0010000" m 16384]
    by (simp add: msrpm_position_def msrpm_bit_def Let_def ucast_down_up m cong: if_cong)
qed

section \<open>Segment caches survive a save and a load\<close>

lemma svm_attrib_roundtrip:
  fixes fl :: u32
  defines "a \<equiv> ucast (ucast (svm_attrib fl) :: u16) :: u32"
  shows "push_bit 8 (a AND 0xff) OR push_bit 12 (a AND 0x0f00) = fl AND 0x00f0ff00"
proof -
  have "(x AND 0xff) = take_bit 8 x" "(x AND 0xf00) = take_bit 12 x AND NOT (mask 8)"
    "(x AND 0xf0ff00) = (take_bit 24 x AND NOT (mask 20)) OR (take_bit 16 x AND NOT (mask 8))" for x :: u32
    by (simp_all add: take_bit_eq_mask mask_eq_exp_minus_1 and.assoc bit.conj_disj_distrib flip: bit.conj_disj_distrib)
  then show ?thesis
    unfolding a_def svm_attrib_def by - (rule bit_word_eqI, auto simp: bit_simps)
qed

text \<open>
  A segment cache saved in a VMCB and loaded back is the one saved, up to the selector's
  16 bits and the attribute bits that the VMCB format has.
\<close>
lemma svm_seg_roundtrip:
  assumes "phys_ram B mem"
  shows "svm_load_seg B addr (svm_save_seg B addr sc env) =
    sc\<lparr>selector := selector sc AND 0xffff, flags := flags sc AND 0x00f0ff00\<rparr>"
proof -
  have "ucast (ucast (selector sc) :: u16) = selector sc AND 0xffff"
    using and_mask_u16 [of "selector sc"] by simp
  then show ?thesis
    using svm_attrib_roundtrip [of "flags sc"]
    by (simp add: svm_load_seg_def svm_save_seg_def phys_ramD [OF assms] apart_def Let_def)
qed

section \<open>A world switch\<close>

lemma save_seg_frame:
  "regs_frame B \<Longrightarrow> CPUX86State.truncate (svm_save_seg B a sc env) = CPUX86State.truncate env"
  by (simp add: svm_save_seg_def regs_frameD)

text \<open>Saving the guest touches no register, but for the interrupt shadow.\<close>

lemma save_guest_frame:
  assumes "regs_frame B"
  shows "CPUX86State.truncate (vmexit_save_guest B env) =
    CPUX86State.truncate (env\<lparr>hflags := hflags env AND NOT HF_INHIBIT_IRQ_MASK\<rparr>)"
proof -
  define shadow where "shadow = (\<lambda>env :: 'a CPUX86State_scheme.
    if hflags env AND HF_INHIBIT_IRQ_MASK \<noteq> 0 then
      (let env = stl_phys B (vm_vmcb env + vmcb_int_state) SVM_INTERRUPT_SHADOW_MASK env
       in env\<lparr>hflags := hflags env AND NOT HF_INHIBIT_IRQ_MASK\<rparr>)
    else stl_phys B (vm_vmcb env + vmcb_int_state) 0 env)"
  have "\<exists>fs. vmexit_save_guest B = block (shadow # fs) \<and>
      list_all (\<lambda>f. \<forall>s. CPUX86State.truncate (f s) = CPUX86State.truncate s) fs"
    unfolding vmexit_save_guest_def shadow_def [symmetric]
    by (rule exI, rule conjI, rule refl) (simp add: save_seg_frame regs_frameD assms Let_def)
  then obtain fs where fs: "vmexit_save_guest B = block (shadow # fs)"
    and frame: "list_all (\<lambda>f. \<forall>s. CPUX86State.truncate (f s) = CPUX86State.truncate s) fs" by blast
  have "CPUX86State.truncate (vmexit_save_guest B env) = CPUX86State.truncate (shadow env)"
    unfolding fs block.simps
    by (rule block_frame) (use frame in \<open>auto simp: list_all_iff\<close>)
  also have "\<dots> = CPUX86State.truncate (env\<lparr>hflags := hflags env AND NOT HF_INHIBIT_IRQ_MASK\<rparr>)"
  proof -
    have *: "CPUX86State.truncate (s\<lparr>hflags := v\<rparr>) = (CPUX86State.truncate s)\<lparr>hflags := v\<rparr>"
      for s :: "'a CPUX86State_scheme" and v
      by (simp add: CPUX86State.truncate_def)
    have "hflags env AND NOT HF_INHIBIT_IRQ_MASK = hflags env" if "hflags env AND HF_INHIBIT_IRQ_MASK = 0"
      using that by (rule and_not_id)
    then show ?thesis
      by (simp add: shadow_def Let_def * regs_frameD [OF assms] stl_frame [OF assms]
          CPUX86State.truncate_def)
  qed
  finally show ?thesis .
qed
text \<open>What the operations of a switch leave alone.\<close>

lemma ext_call_frame [simp]:
  "vm_hsave (ext_call c env) = vm_hsave env"
  "vm_vmcb (ext_call c env) = vm_vmcb env"
  "CPUX86State.more (ext_call c env) = CPUX86State.more env"
  "regs (ext_call c env) = regs env"
  "dr (ext_call c env) = dr env"
  "gdt (ext_call c env) = gdt env"
  "idt (ext_call c env) = idt env"
  "hflags2 (ext_call c env) = hflags2 env"
  "intercept (ext_call c env) = intercept env"
  "intercept_exceptions (ext_call c env) = intercept_exceptions env"
  "interrupt_request (ext_call c env) = interrupt_request env"
  "tsc_offset (ext_call c env) = tsc_offset env"
  "cc_op (ext_call c env) = cc_op env"
  by (simp_all add: ext_call_def)

lemma update_cr0_frame [simp]:
  "vm_hsave (cpu_x86_update_cr0 env w) = vm_hsave env"
  "vm_vmcb (cpu_x86_update_cr0 env w) = vm_vmcb env"
  "CPUX86State.more (cpu_x86_update_cr0 env w) = CPUX86State.more env"
  "regs (cpu_x86_update_cr0 env w) = regs env"
  "dr (cpu_x86_update_cr0 env w) = dr env"
  "gdt (cpu_x86_update_cr0 env w) = gdt env"
  "idt (cpu_x86_update_cr0 env w) = idt env"
  "segs (cpu_x86_update_cr0 env w) = segs env"
  "hflags2 (cpu_x86_update_cr0 env w) = hflags2 env"
  "intercept (cpu_x86_update_cr0 env w) = intercept env"
  "intercept_exceptions (cpu_x86_update_cr0 env w) = intercept_exceptions env"
  "interrupt_request (cpu_x86_update_cr0 env w) = interrupt_request env"
  "tsc_offset (cpu_x86_update_cr0 env w) = tsc_offset env"
  "eflags (cpu_x86_update_cr0 env w) = eflags env"
  "cc_op (cpu_x86_update_cr0 env w) = cc_op env"
  by (simp_all add: cpu_x86_update_cr0_def Let_def)

lemma update_cr3_frame [simp]:
  "vm_hsave (cpu_x86_update_cr3 env v) = vm_hsave env"
  "vm_vmcb (cpu_x86_update_cr3 env v) = vm_vmcb env"
  "CPUX86State.more (cpu_x86_update_cr3 env v) = CPUX86State.more env"
  "regs (cpu_x86_update_cr3 env v) = regs env"
  "eip (cpu_x86_update_cr3 env v) = eip env"
  "dr (cpu_x86_update_cr3 env v) = dr env"
  "gdt (cpu_x86_update_cr3 env v) = gdt env"
  "idt (cpu_x86_update_cr3 env v) = idt env"
  "segs (cpu_x86_update_cr3 env v) = segs env"
  "efer (cpu_x86_update_cr3 env v) = efer env"
  "hflags2 (cpu_x86_update_cr3 env v) = hflags2 env"
  "intercept (cpu_x86_update_cr3 env v) = intercept env"
  "intercept_exceptions (cpu_x86_update_cr3 env v) = intercept_exceptions env"
  "interrupt_request (cpu_x86_update_cr3 env v) = interrupt_request env"
  "tsc_offset (cpu_x86_update_cr3 env v) = tsc_offset env"
  "eflags (cpu_x86_update_cr3 env v) = eflags env"
  "cc_op (cpu_x86_update_cr3 env v) = cc_op env"
  by (simp_all add: cpu_x86_update_cr3_def Let_def)

lemma update_cr4_frame [simp]:
  "vm_hsave (cpu_x86_update_cr4 env w) = vm_hsave env"
  "vm_vmcb (cpu_x86_update_cr4 env w) = vm_vmcb env"
  "CPUX86State.more (cpu_x86_update_cr4 env w) = CPUX86State.more env"
  "regs (cpu_x86_update_cr4 env w) = regs env"
  "eip (cpu_x86_update_cr4 env w) = eip env"
  "dr (cpu_x86_update_cr4 env w) = dr env"
  "gdt (cpu_x86_update_cr4 env w) = gdt env"
  "idt (cpu_x86_update_cr4 env w) = idt env"
  "segs (cpu_x86_update_cr4 env w) = segs env"
  "efer (cpu_x86_update_cr4 env w) = efer env"
  "hflags2 (cpu_x86_update_cr4 env w) = hflags2 env"
  "intercept (cpu_x86_update_cr4 env w) = intercept env"
  "intercept_exceptions (cpu_x86_update_cr4 env w) = intercept_exceptions env"
  "interrupt_request (cpu_x86_update_cr4 env w) = interrupt_request env"
  "tsc_offset (cpu_x86_update_cr4 env w) = tsc_offset env"
  "eflags (cpu_x86_update_cr4 env w) = eflags env"
  "cc_op (cpu_x86_update_cr4 env w) = cc_op env"
  by (simp_all add: cpu_x86_update_cr4_def Let_def)

lemma load_efer_frame [simp]:
  "vm_hsave (cpu_load_efer env v) = vm_hsave env"
  "vm_vmcb (cpu_load_efer env v) = vm_vmcb env"
  "CPUX86State.more (cpu_load_efer env v) = CPUX86State.more env"
  "regs (cpu_load_efer env v) = regs env"
  "eip (cpu_load_efer env v) = eip env"
  "dr (cpu_load_efer env v) = dr env"
  "gdt (cpu_load_efer env v) = gdt env"
  "idt (cpu_load_efer env v) = idt env"
  "segs (cpu_load_efer env v) = segs env"
  "hflags2 (cpu_load_efer env v) = hflags2 env"
  "intercept (cpu_load_efer env v) = intercept env"
  "intercept_exceptions (cpu_load_efer env v) = intercept_exceptions env"
  "interrupt_request (cpu_load_efer env v) = interrupt_request env"
  "tsc_offset (cpu_load_efer env v) = tsc_offset env"
  "eflags (cpu_load_efer env v) = eflags env"
  "cr (cpu_load_efer env v) = cr env"
  "cc_op (cpu_load_efer env v) = cc_op env"
  by (simp_all add: cpu_load_efer_def Let_def)

lemma load_eflags_frame [simp]:
  "vm_hsave (cpu_load_eflags env w m) = vm_hsave env"
  "vm_vmcb (cpu_load_eflags env w m) = vm_vmcb env"
  "CPUX86State.more (cpu_load_eflags env w m) = CPUX86State.more env"
  "regs (cpu_load_eflags env w m) = regs env"
  "eip (cpu_load_eflags env w m) = eip env"
  "dr (cpu_load_eflags env w m) = dr env"
  "gdt (cpu_load_eflags env w m) = gdt env"
  "idt (cpu_load_eflags env w m) = idt env"
  "segs (cpu_load_eflags env w m) = segs env"
  "efer (cpu_load_eflags env w m) = efer env"
  "hflags2 (cpu_load_eflags env w m) = hflags2 env"
  "intercept (cpu_load_eflags env w m) = intercept env"
  "intercept_exceptions (cpu_load_eflags env w m) = intercept_exceptions env"
  "interrupt_request (cpu_load_eflags env w m) = interrupt_request env"
  "tsc_offset (cpu_load_eflags env w m) = tsc_offset env"
  "cr (cpu_load_eflags env w m) = cr env"
  "cc_op (cpu_load_eflags env w m) = cc_op env"
  by (simp_all add: cpu_load_eflags_def Let_def)

lemma load_seg_cache_frame [simp]:
  "vm_hsave (cpu_x86_load_seg_cache env r sel b l f) = vm_hsave env"
  "vm_vmcb (cpu_x86_load_seg_cache env r sel b l f) = vm_vmcb env"
  "CPUX86State.more (cpu_x86_load_seg_cache env r sel b l f) = CPUX86State.more env"
  "dr (cpu_x86_load_seg_cache env r sel b l f) = dr env"
  "gdt (cpu_x86_load_seg_cache env r sel b l f) = gdt env"
  "idt (cpu_x86_load_seg_cache env r sel b l f) = idt env"
  "hflags2 (cpu_x86_load_seg_cache env r sel b l f) = hflags2 env"
  "intercept (cpu_x86_load_seg_cache env r sel b l f) = intercept env"
  "intercept_exceptions (cpu_x86_load_seg_cache env r sel b l f) = intercept_exceptions env"
  "interrupt_request (cpu_x86_load_seg_cache env r sel b l f) = interrupt_request env"
  "tsc_offset (cpu_x86_load_seg_cache env r sel b l f) = tsc_offset env"
  "cc_op (cpu_x86_load_seg_cache env r sel b l f) = cc_op env"
  by (simp_all add: cpu_x86_load_seg_cache_def load_seg_cs_hflags_def Let_def)

lemma set_cpl_frame [simp]:
  "vm_hsave (cpu_x86_set_cpl env w) = vm_hsave env"
  "vm_vmcb (cpu_x86_set_cpl env w) = vm_vmcb env"
  "CPUX86State.more (cpu_x86_set_cpl env w) = CPUX86State.more env"
  "regs (cpu_x86_set_cpl env w) = regs env"
  "eip (cpu_x86_set_cpl env w) = eip env"
  "dr (cpu_x86_set_cpl env w) = dr env"
  "gdt (cpu_x86_set_cpl env w) = gdt env"
  "idt (cpu_x86_set_cpl env w) = idt env"
  "segs (cpu_x86_set_cpl env w) = segs env"
  "efer (cpu_x86_set_cpl env w) = efer env"
  "hflags2 (cpu_x86_set_cpl env w) = hflags2 env"
  "intercept (cpu_x86_set_cpl env w) = intercept env"
  "intercept_exceptions (cpu_x86_set_cpl env w) = intercept_exceptions env"
  "interrupt_request (cpu_x86_set_cpl env w) = interrupt_request env"
  "tsc_offset (cpu_x86_set_cpl env w) = tsc_offset env"
  "eflags (cpu_x86_set_cpl env w) = eflags env"
  "cr (cpu_x86_set_cpl env w) = cr env"
  "cc_op (cpu_x86_set_cpl env w) = cc_op env"
  by (simp_all add: cpu_x86_set_cpl_def Let_def)

lemma efer_load_efer [simp]: "efer (cpu_load_efer env v) = v"
  by (simp add: cpu_load_efer_def Let_def)

lemma cr_updates [simp]:
  "cr (cpu_x86_update_cr3 env v) = (cr env)(3 := v)"
  "cr (cpu_x86_update_cr4 env w) n = (if n = 4 then
     ucast (if cpuid_features env AND CPUID_SSE = 0 then w AND NOT CR4_OSFXSR_MASK else w) else cr env n)"
  by (simp_all add: cpu_x86_update_cr3_def cpu_x86_update_cr4_def Let_def)

text \<open>
  \<open>cpu_x86_update_cr0\<close> gives up when it would enter long mode (EFER.LME) by turning paging
  on while CR4.PAE is off.
\<close>

definition cr0_refused :: "'m CPUX86State_scheme \<Rightarrow> u32 \<Rightarrow> bool" where
  "cr0_refused env v \<longleftrightarrow> cr env 0 AND CR0_PG_MASK = 0 \<and> v AND CR0_PG_MASK \<noteq> 0 \<and>
     efer env AND MSR_EFER_LME \<noteq> 0 \<and> cr env 4 AND CR4_PAE_MASK = 0"

lemma cr_update_cr0:
  "cr (cpu_x86_update_cr0 env v) n =
    (if n = 0 \<and> \<not> cr0_refused env v then ucast (v OR CR0_ET_MASK) else cr env n)"
  by (auto simp: cpu_x86_update_cr0_def cr0_refused_def Let_def)

lemma svmi_bit [simp]:
  "bit (hflags (cpu_x86_update_cr0 env w)) 21 = bit (hflags env) 21"
  "bit (hflags (cpu_x86_update_cr3 env v)) 21 = bit (hflags env) 21"
  "bit (hflags (cpu_x86_update_cr4 env w)) 21 = bit (hflags env) 21"
  "bit (hflags (cpu_load_efer env v)) 21 = bit (hflags env) 21"
  "hflags (cpu_load_eflags env w m) = hflags env"
  "bit (hflags (cpu_x86_load_seg_cache env r sel b l f)) 21 = bit (hflags env) 21"
  "bit (hflags (cpu_x86_set_cpl env 0)) 21 = bit (hflags env) 21"
  by (simp_all add: cpu_x86_update_cr0_def cpu_x86_update_cr3_def cpu_x86_update_cr4_def
      cpu_load_efer_def cpu_load_eflags_def cpu_x86_load_seg_cache_def load_seg_cs_hflags_def
      load_seg_new_hflags_def cpu_x86_set_cpl_def Let_def bit_simps)

text \<open>What the writers of the second part read: the host save area.\<close>

abbreviation (input) hsave_view :: "'m CPUX86State_scheme \<Rightarrow> u64 \<times> 'm" where
  "hsave_view env \<equiv> (vm_hsave env, CPUX86State.more env)"

lemma svm_load_cache_frame [simp]:
  "vm_hsave (svm_load_seg_cache B a env r) = vm_hsave env"
  "vm_vmcb (svm_load_seg_cache B a env r) = vm_vmcb env"
  "CPUX86State.more (svm_load_seg_cache B a env r) = CPUX86State.more env"
  "regs (svm_load_seg_cache B a env r) = regs env" "dr (svm_load_seg_cache B a env r) = dr env"
  "gdt (svm_load_seg_cache B a env r) = gdt env" "idt (svm_load_seg_cache B a env r) = idt env"
  "efer (svm_load_seg_cache B a env r) = efer env" "cr (svm_load_seg_cache B a env r) = cr env"
  "hflags2 (svm_load_seg_cache B a env r) = hflags2 env"
  "intercept (svm_load_seg_cache B a env r) = intercept env"
  "intercept_exceptions (svm_load_seg_cache B a env r) = intercept_exceptions env"
  "interrupt_request (svm_load_seg_cache B a env r) = interrupt_request env"
  "tsc_offset (svm_load_seg_cache B a env r) = tsc_offset env"
  "bit (hflags (svm_load_seg_cache B a env r)) 21 = bit (hflags env) 21"
  by (simp_all add: svm_load_seg_cache_def Let_def)

lemma set_cpl_bits [simp]:
  "bit (hflags (cpu_x86_set_cpl env 0)) n \<longleftrightarrow> bit (hflags env) n \<and> 2 \<le> n"
proof -
  have "(3 :: u32) = mask 2" by (simp add: mask_eq_exp_minus_1)
  then have "hflags (cpu_x86_set_cpl env 0) = hflags env AND NOT (mask 2)"
    by (simp only: cpu_x86_set_cpl_def) simp
  then show ?thesis
    by (auto simp: bit_and_iff bit_not_iff bit_mask_iff dest: bit_imp_le_length)
qed

text \<open>What the second part of the exit makes of each register.\<close>

lemma load_host_written:
  fixes B :: "'m cpu_bus" and g :: "'m CPUX86State_scheme"
  assumes ram: "phys_ram B mem"
  defines "H \<equiv> vmexit_load_host B g" and "M \<equiv> mem (CPUX86State.more g)" and "h \<equiv> vm_hsave g"
  shows "eip H = load64 M (h + save_rip)"
    and "regs H R_ESP = load64 M (h + save_rsp)" "regs H R_EAX = load64 M (h + save_rax)"
    and "dr H 6 = load64 M (h + save_dr6)" "dr H 7 = load64 M (h + save_dr7)"
    and "efer H = load64 M (h + save_efer)" "cr H 3 = load64 M (h + save_cr3)"
proof -
  note sim = phys_ramD [OF ram]
  show "eip H = load64 M (h + save_rip)" unfolding H_def M_def h_def vmexit_load_host_def
    by (rule block_write [where n = 21 and I = hsave_view]) (simp_all add: sim)
  show "regs H R_ESP = load64 M (h + save_rsp)" unfolding H_def M_def h_def vmexit_load_host_def
    by (rule block_write [where n = 22 and I = hsave_view and q = "\<lambda>t. regs t R_ESP"]) (simp_all add: sim)
  show "regs H R_EAX = load64 M (h + save_rax)" unfolding H_def M_def h_def vmexit_load_host_def
    by (rule block_write [where n = 23 and I = hsave_view and q = "\<lambda>t. regs t R_EAX"]) (simp_all add: sim)
  show "dr H 6 = load64 M (h + save_dr6)" unfolding H_def M_def h_def vmexit_load_host_def
    by (rule block_write [where n = 24 and I = hsave_view and q = "\<lambda>t. dr t 6"]) (simp_all add: sim)
  show "dr H 7 = load64 M (h + save_dr7)" unfolding H_def M_def h_def vmexit_load_host_def
    by (rule block_write [where n = 25 and I = hsave_view and q = "\<lambda>t. dr t 7"]) (simp_all add: sim)
  show "efer H = load64 M (h + save_efer)" unfolding H_def M_def h_def vmexit_load_host_def
    by (rule block_write [where n = 13 and I = hsave_view]) (simp_all add: sim)
  show "cr H 3 = load64 M (h + save_cr3)" unfolding H_def M_def h_def vmexit_load_host_def
    by (rule block_write [where n = 12 and I = hsave_view and q = "\<lambda>t. cr t 3"]) (simp_all add: sim)
qed

lemma load_host_modes:
  "\<not> bit (hflags (vmexit_load_host B g)) 21"
  "m < 2 \<Longrightarrow> \<not> bit (hflags (vmexit_load_host B g)) m"
  "intercept (vmexit_load_host B g) = 0"
  "intercept_exceptions (vmexit_load_host B g) = 0"
proof -
  have "bit (hflags (vmexit_load_host B g)) 21 = False" unfolding vmexit_load_host_def
    by (rule block_write [where n = 1 and I = "\<lambda>_. ()" and q = "\<lambda>t. bit (hflags t) 21"])
      (simp_all add: bit_simps)
  then show "\<not> bit (hflags (vmexit_load_host B g)) 21" by simp
  have "bit (hflags (vmexit_load_host B g)) m = False" if "m < 2" for m unfolding vmexit_load_host_def
    by (rule block_write [where n = 26 and I = "\<lambda>_. ()" and q = "\<lambda>t. bit (hflags t) m"])
      (use that in simp_all)
  then show "m < 2 \<Longrightarrow> \<not> bit (hflags (vmexit_load_host B g)) m" by simp
  show "intercept (vmexit_load_host B g) = 0" unfolding vmexit_load_host_def
    by (rule block_write [where n = 2 and I = "\<lambda>_. ()"]) simp_all
  show "intercept_exceptions (vmexit_load_host B g) = 0" unfolding vmexit_load_host_def
    by (rule block_write [where n = 3 and I = "\<lambda>_. ()"]) simp_all
qed

lemma load_host_vmcb: "vm_vmcb (vmexit_load_host B g) = vm_vmcb g"
  unfolding vmexit_load_host_def by (rule block_frame) auto

definition vmexit_host_cr0 :: "(u64 \<Rightarrow> u8) \<Rightarrow> u64 \<Rightarrow> u32" where
  "vmexit_host_cr0 M h = ucast (load64 M (h + save_cr0) OR CR0_PE_MASK)"

lemma load_host_cr0:
  fixes B :: "'m cpu_bus" and g :: "'m CPUX86State_scheme"
  assumes ram: "phys_ram B mem"
  defines "v \<equiv> vmexit_host_cr0 (mem (CPUX86State.more g)) (vm_hsave g)"
  shows "cr (vmexit_load_host B g) 0 = (if cr0_refused g v then cr g 0 else ucast (v OR CR0_ET_MASK))"
  unfolding v_def vmexit_load_host_def
  by (rule block_write [where n = 10 and I = "\<lambda>t. (hsave_view t, cr t, efer t)" and q = "\<lambda>t. cr t 0"])
    (simp_all add: phys_ramD [OF ram] cr_update_cr0 cr0_refused_def vmexit_host_cr0_def)

text \<open>The fields of the host save area.\<close>

definition hsave_field :: "('m \<Rightarrow> u64 \<Rightarrow> u8) \<Rightarrow> u64 \<Rightarrow> 'm CPUX86State_scheme \<Rightarrow> u64" where
  "hsave_field mem off env = load64 (mem (CPUX86State.more env)) (vm_hsave env + off)"

definition hsave_field32 :: "('m \<Rightarrow> u64 \<Rightarrow> u8) \<Rightarrow> u64 \<Rightarrow> 'm CPUX86State_scheme \<Rightarrow> u32" where
  "hsave_field32 mem off env = load32 (mem (CPUX86State.more env)) (vm_hsave env + off)"

text \<open>The segments in the save area, as an exit will load them.\<close>

definition hsave_seg :: "'m cpu_bus \<Rightarrow> u64 \<Rightarrow> 'm CPUX86State_scheme \<Rightarrow> SegmentCache" where
  "hsave_seg B off env = svm_load_seg B (vm_hsave env + off) env"

text \<open>What an exit makes of the tables and the segments.\<close>

lemma segs_svm_load_seg_cache [simp]:
  "segs (svm_load_seg_cache B a env r) = (segs env)(r := svm_load_seg B a env)"
  by (simp add: svm_load_seg_cache_def cpu_x86_load_seg_cache_def Let_def load_seg_cs_hflags_def svm_load_seg_def)

lemma load_host_tables:
  fixes B :: "'m cpu_bus" and g :: "'m CPUX86State_scheme"
  assumes ram: "phys_ram B mem"
  shows "base (gdt (vmexit_load_host B g)) = hsave_field mem (save_gdtr + 8) g"
    and "limit (gdt (vmexit_load_host B g)) = hsave_field32 mem (save_gdtr + 4) g"
    and "base (idt (vmexit_load_host B g)) = hsave_field mem (save_idtr + 8) g"
    and "limit (idt (vmexit_load_host B g)) = hsave_field32 mem (save_idtr + 4) g"
proof -
  note sim = phys_ramD [OF ram] hsave_field_def hsave_field32_def add.commute [of "vm_hsave g"]
  show "base (gdt (vmexit_load_host B g)) = hsave_field mem (save_gdtr + 8) g" unfolding vmexit_load_host_def
    by (rule block_write [where n = 6 and I = hsave_view and q = "\<lambda>t. base (gdt t)"]) (simp_all add: sim)
  show "limit (gdt (vmexit_load_host B g)) = hsave_field32 mem (save_gdtr + 4) g" unfolding vmexit_load_host_def
    by (rule block_write [where n = 7 and I = hsave_view and q = "\<lambda>t. limit (gdt t)"]) (simp_all add: sim)
  show "base (idt (vmexit_load_host B g)) = hsave_field mem (save_idtr + 8) g" unfolding vmexit_load_host_def
    by (rule block_write [where n = 8 and I = hsave_view and q = "\<lambda>t. base (idt t)"]) (simp_all add: sim)
  show "limit (idt (vmexit_load_host B g)) = hsave_field32 mem (save_idtr + 4) g" unfolding vmexit_load_host_def
    by (rule block_write [where n = 9 and I = hsave_view and q = "\<lambda>t. limit (idt t)"]) (simp_all add: sim)
qed

lemma load_host_segs:
  fixes B :: "'m cpu_bus" and g :: "'m CPUX86State_scheme"
  assumes ram: "phys_ram B mem"
  shows "segs (vmexit_load_host B g) R_ES = hsave_seg B save_es g"
    and "segs (vmexit_load_host B g) R_CS = hsave_seg B save_cs g"
    and "segs (vmexit_load_host B g) R_SS = hsave_seg B save_ss g"
    and "segs (vmexit_load_host B g) R_DS = hsave_seg B save_ds g"
proof -
  note sim = phys_ramD [OF ram] hsave_seg_def svm_load_seg_def
  show "segs (vmexit_load_host B g) R_ES = hsave_seg B save_es g" unfolding vmexit_load_host_def
    by (rule block_write [where n = 17 and I = hsave_view and q = "\<lambda>t. segs t R_ES"]) (simp_all add: sim)
  show "segs (vmexit_load_host B g) R_CS = hsave_seg B save_cs g" unfolding vmexit_load_host_def
    by (rule block_write [where n = 18 and I = hsave_view and q = "\<lambda>t. segs t R_CS"]) (simp_all add: sim)
  show "segs (vmexit_load_host B g) R_SS = hsave_seg B save_ss g" unfolding vmexit_load_host_def
    by (rule block_write [where n = 19 and I = hsave_view and q = "\<lambda>t. segs t R_SS"]) (simp_all add: sim)
  show "segs (vmexit_load_host B g) R_DS = hsave_seg B save_ds g" unfolding vmexit_load_host_def
    by (rule block_write [where n = 20 and I = hsave_view and q = "\<lambda>t. segs t R_DS"]) (simp_all add: sim)
qed

text \<open>CR4 without the bit that needs SSE, where there is no SSE.\<close>

definition cr4_accepted :: "'m CPUX86State_scheme \<Rightarrow> u32 \<Rightarrow> u64" where
  "cr4_accepted env w = ucast (if cpuid_features env AND CPUID_SSE = 0 then w AND NOT CR4_OSFXSR_MASK else w)"

lemma cpuid_update_cr0 [simp]: "cpuid_features (cpu_x86_update_cr0 env w) = cpuid_features env"
  by (simp add: cpu_x86_update_cr0_def Let_def)

lemma load_host_cr4:
  fixes B :: "'m cpu_bus" and g :: "'m CPUX86State_scheme"
  assumes ram: "phys_ram B mem"
  shows "cr (vmexit_load_host B g) 4 = cr4_accepted g (ucast (hsave_field mem save_cr4 g))"
    and "cr (vmexit_load_host B g) 2 = cr g 2"
proof -
  show "cr (vmexit_load_host B g) 4 = cr4_accepted g (ucast (hsave_field mem save_cr4 g))" unfolding vmexit_load_host_def
    by (rule block_write [where n = 11 and I = "\<lambda>t. (hsave_view t, cpuid_features t)" and q = "\<lambda>t. cr t 4"])
      (simp_all add: phys_ramD [OF ram] cr4_accepted_def hsave_field_def)
  show "cr (vmexit_load_host B g) 2 = cr g 2" unfolding vmexit_load_host_def
    by (rule block_frame [where q = "\<lambda>t. cr t 2"]) (auto simp: cr_update_cr0)
qed

text \<open>The flags: the lazy ones are put into \<open>cc_src\<close> and \<open>df\<close>, the others into \<open>eflags\<close>.\<close>

lemma lazy_frame [simp]:
  "cc_src (svm_load_seg_cache B a env r) = cc_src env" "df (svm_load_seg_cache B a env r) = df env"
  "eflags (svm_load_seg_cache B a env r) = eflags env" "cc_op (svm_load_seg_cache B a env r) = cc_op env"
  "cc_src (cpu_x86_set_cpl env w) = cc_src env" "df (cpu_x86_set_cpl env w) = df env"
  by (simp_all add: svm_load_seg_cache_def cpu_x86_load_seg_cache_def load_seg_cs_hflags_def cpu_x86_set_cpl_def Let_def)

lemma load_host_flags:
  fixes B :: "'m cpu_bus" and g :: "'m CPUX86State_scheme"
  assumes ram: "phys_ram B mem"
  defines "w \<equiv> ucast (hsave_field mem save_rflags g) :: u32" and "H \<equiv> vmexit_load_host B g"
  shows "(cc_src H, df H, eflags H) =
      (scast (w AND (CC_O OR CC_S OR CC_Z OR CC_A OR CC_P OR CC_C)), 1 - 2 * (signed_drop_bit 10 w AND 1),
       scast (w AND NOT LAZY_MASK) OR 2)"
    and "cc_op H = CC_OP_EFLAGS"
proof -
  show "(cc_src H, df H, eflags H) =
      (scast (w AND (CC_O OR CC_S OR CC_Z OR CC_A OR CC_P OR CC_C)), 1 - 2 * (signed_drop_bit 10 w AND 1),
       scast (w AND NOT LAZY_MASK) OR 2)"
    unfolding H_def vmexit_load_host_def
    by (rule block_write_two [where n = 14 and I = hsave_view and q = "\<lambda>t. (cc_src t, df t, eflags t)"])
      (simp_all add: phys_ramD [OF ram] cpu_load_eflags_def hsave_field_def w_def)
  show "cc_op H = CC_OP_EFLAGS" unfolding H_def vmexit_load_host_def
    by (rule block_write [where n = 16 and I = "\<lambda>_. ()"]) simp_all
qed

text \<open>The hidden flag of long mode follows EFER.LMA.\<close>

lemma lma_bit [simp]:
  "bit (hflags (svm_load_seg_cache B a env r)) 14 = bit (hflags env) 14"
  "bit (hflags (cpu_load_efer env v)) 14 \<longleftrightarrow> bit v 10"
proof -
  show "bit (hflags (svm_load_seg_cache B a env r)) 14 = bit (hflags env) 14"
    by (simp add: svm_load_seg_cache_def cpu_x86_load_seg_cache_def load_seg_cs_hflags_def
      load_seg_new_hflags_def Let_def bit_simps)
  have "v AND MSR_EFER_LMA \<noteq> 0 \<longleftrightarrow> bit v 10" using and_mask_bit [of v 10] by simp
  then show "bit (hflags (cpu_load_efer env v)) 14 \<longleftrightarrow> bit v 10"
    by (simp add: cpu_load_efer_def Let_def bit_simps)
qed

lemma load_host_lma:
  fixes B :: "'m cpu_bus" and g :: "'m CPUX86State_scheme"
  assumes ram: "phys_ram B mem"
  shows "bit (hflags (vmexit_load_host B g)) 14 \<longleftrightarrow> bit (hsave_field mem save_efer g) 10"
  unfolding vmexit_load_host_def
  by (rule block_write [where n = 13 and I = hsave_view and q = "\<lambda>t. bit (hflags t) 14"])
    (simp_all add: phys_ramD [OF ram] hsave_field_def)

text \<open>The report writes to the VMCB and forces the mode of the host.\<close>

lemma report_frame:
  assumes "regs_frame B"
  shows "eip (vmexit_report B c i s) = eip s" "regs (vmexit_report B c i s) = regs s"
    "dr (vmexit_report B c i s) = dr s" "efer (vmexit_report B c i s) = efer s"
    "hflags (vmexit_report B c i s) = hflags s" "intercept (vmexit_report B c i s) = intercept s"
    "intercept_exceptions (vmexit_report B c i s) = intercept_exceptions s"
    "n \<noteq> 0 \<Longrightarrow> cr (vmexit_report B c i s) n = cr s n"
    "gdt (vmexit_report B c i s) = gdt s" "idt (vmexit_report B c i s) = idt s" "segs (vmexit_report B c i s) = segs s"
    "cc_src (vmexit_report B c i s) = cc_src s" "cc_op (vmexit_report B c i s) = cc_op s" "df (vmexit_report B c i s) = df s"
  unfolding vmexit_report_def
  by (rule block_frame, auto simp: phys_frame [OF assms])+

lemma report_written:
  assumes "regs_frame B"
  shows "cr (vmexit_report B c i s) 0 = cr s 0 OR CR0_PE_MASK"
    "\<not> bit (hflags2 (vmexit_report B c i s)) 0"
    "exception_index (vmexit_report B c i s) = - 1" "old_exception (vmexit_report B c i s) = - 1"
    "eflags (vmexit_report B c i s) = eflags s AND NOT VM_MASK"
proof -
  note sim = phys_frame [OF assms]
  show "eflags (vmexit_report B c i s) = eflags s AND NOT VM_MASK" unfolding vmexit_report_def
    by (rule block_write [where n = 6 and I = eflags]) (simp_all add: sim)
  show "cr (vmexit_report B c i s) 0 = cr s 0 OR CR0_PE_MASK" unfolding vmexit_report_def
    by (rule block_write [where n = 5 and I = "\<lambda>t. cr t 0" and q = "\<lambda>t. cr t 0"]) (simp_all add: sim)
  have "bit (hflags2 (vmexit_report B c i s)) 0 = False" unfolding vmexit_report_def
    by (rule block_write [where n = 4 and I = "\<lambda>_. ()" and q = "\<lambda>t. bit (hflags2 t) 0"])
      (simp_all add: sim bit_simps)
  then show "\<not> bit (hflags2 (vmexit_report B c i s)) 0" by simp
  show "exception_index (vmexit_report B c i s) = - 1" unfolding vmexit_report_def
    by (rule block_write [where n = 7 and I = "\<lambda>_. ()"]) (simp_all add: sim)
  show "old_exception (vmexit_report B c i s) = - 1" unfolding vmexit_report_def
    by (rule block_write [where n = 7 and I = "\<lambda>_. ()"]) (simp_all add: sim)
qed

lemma save_guest_hsave: "regs_frame B \<Longrightarrow> vm_hsave (vmexit_save_guest B env) = vm_hsave env"
  using same_regs [OF save_guest_frame] by simp

text \<open>CR0 of the host, with PE and ET forced, unless \<open>cpu_x86_update_cr0\<close> refuses it.\<close>

definition host_cr0 :: "'m CPUX86State_scheme \<Rightarrow> u64 \<Rightarrow> u64" where
  "host_cr0 env v =
    (if cr0_refused env (ucast (v OR CR0_PE_MASK)) then cr env 0 OR CR0_PE_MASK
     else ucast (ucast v OR CR0_PE_MASK OR CR0_ET_MASK :: u32))"

lemma split_flags:
  fixes w :: "'a::len word"
  assumes "L = C OR D" "C AND V = 0" "D AND V = 0"
  shows "(((w AND NOT L) OR k) AND NOT V) OR (w AND C) OR (w AND D) = (w OR k) AND NOT V"
proof (rule bit_word_eqI)
  fix n assume n: "n < LENGTH('a)"
  have "\<not> (bit C n \<and> bit V n)" "\<not> (bit D n \<and> bit V n)"
    using arg_cong [OF assms(2), of "\<lambda>x. bit x n"] arg_cong [OF assms(3), of "\<lambda>x. bit x n"] by (simp_all add: bit_and_iff)
  then show "bit ((((w AND NOT L) OR k) AND NOT V) OR (w AND C) OR (w AND D)) n = bit ((w OR k) AND NOT V) n"
    unfolding assms(1) using n by (auto simp: bit_and_iff bit_or_iff bit_not_iff)
qed

lemma low_part: "ucast ((scast (x :: u32) OR 2 :: u64) AND NOT 0x20000) = (x OR 2) AND NOT 0x20000"
proof -
  have m: "ucast (NOT 0x20000 :: u64) = (NOT 0x20000 :: u32)" by simp
  have "ucast ((scast x OR 2 :: u64) AND NOT 0x20000) = (ucast (scast x :: u64) OR ucast (2 :: u64)) AND (ucast (NOT 0x20000 :: u64) :: u32)"
    by (simp only: ucast_and_or)
  then show ?thesis unfolding m by simp
qed

text \<open>The flags after an exit, computed from where they were put.\<close>

lemma exit_flags:
  fixes w :: u32
  assumes "(cc_src t, df t, eflags t) = (scast (w AND (CC_O OR CC_S OR CC_Z OR CC_A OR CC_P OR CC_C)),
      1 - 2 * (signed_drop_bit 10 w AND 1), (scast (w AND NOT LAZY_MASK) OR 2) AND NOT VM_MASK)"
    and "cc_op t = CC_OP_EFLAGS"
  shows "cpu_compute_eflags t = (w OR 2) AND NOT VM_MASK"
proof -
  have df: "(1 - 2 * (signed_drop_bit 10 w AND 1)) AND DF_MASK = w AND DF_MASK"
  proof -
    have "signed_drop_bit 10 w AND 1 = of_bool (bit w 10)"
      by (rule bit_word_eqI) (auto simp: bit_simps)
    moreover have "w AND DF_MASK = (if bit w 10 then DF_MASK else 0)"
      using and_exp_of_bool [of w 10] by simp
    ultimately show ?thesis by simp
  qed
  have "cpu_compute_eflags t = ucast ((scast (w AND NOT LAZY_MASK) OR 2 :: u64) AND NOT VM_MASK) OR
      ucast (scast (w AND (CC_O OR CC_S OR CC_Z OR CC_A OR CC_P OR CC_C)) :: u64) OR (w AND DF_MASK)"
    using assms by (simp add: cpu_compute_eflags_def cpu_cc_compute_all_def compute_all_eflags_def df)
  also have "\<dots> = (((w AND NOT LAZY_MASK) OR 2) AND NOT VM_MASK) OR
      (w AND (CC_O OR CC_S OR CC_Z OR CC_A OR CC_P OR CC_C)) OR (w AND DF_MASK)"
    unfolding low_part by (simp only: ucast_scast_32)
  also have "\<dots> = (w OR 2) AND NOT VM_MASK" by (rule split_flags) (simp_all add: or.assoc)
  finally show ?thesis .
qed

lemma exit_host_flags:
  fixes B :: "'m cpu_bus" and g :: "'m CPUX86State_scheme"
  assumes ram: "phys_ram B mem"
  shows "cpu_compute_eflags (vmexit_report B code info (vmexit_load_host B g)) =
    (ucast (hsave_field mem save_rflags g) OR 2) AND NOT VM_MASK"
  by (rule exit_flags)
    (use load_host_flags [OF ram, of g] in \<open>simp_all add: report_frame [OF phys_ramD(1) [OF ram]]
      report_written [OF phys_ramD(1) [OF ram]]\<close>)

lemma exit_host_cr0:
  fixes B :: "'m cpu_bus" and g :: "'m CPUX86State_scheme"
  assumes ram: "phys_ram B mem"
  shows "cr (vmexit_report B code info (vmexit_load_host B g)) 0 = host_cr0 g (hsave_field mem save_cr0 g)"
proof -
  have or17: "(x OR 1) OR 16 = x OR (17 :: 'a::len word)" for x by (simp add: or.assoc)
  have or1: "(x OR 17) OR 1 = x OR (17 :: 'a::len word)" for x by (simp add: or.assoc)
  show ?thesis
    by (simp add: report_written [OF phys_ramD(1) [OF ram]] load_host_cr0 [OF ram] host_cr0_def
        vmexit_host_cr0_def hsave_field_def unsigned_or_eq or17 or1)
qed

text \<open>What an exit makes of the processor, field by field.\<close>

lemma exit_restored:
  fixes B :: "'m cpu_bus" and env :: "'m CPUX86State_scheme" and code :: u32 and info :: u64
  assumes "phys_ram B mem"
  defines "g \<equiv> vmexit_save_guest B env"
  defines "t \<equiv> vmexit_report B code info (vmexit_load_host B g)"
  shows "eip t = hsave_field mem save_rip g \<and> ESP t = hsave_field mem save_rsp g \<and> EAX t = hsave_field mem save_rax g \<and>
    cpu_compute_eflags t = (ucast (hsave_field mem save_rflags g) OR 2) AND NOT VM_MASK \<and>
    dr t 6 = hsave_field mem save_dr6 g \<and> dr t 7 = hsave_field mem save_dr7 g \<and>
    cr t 0 = host_cr0 env (hsave_field mem save_cr0 g) \<and> cr t 2 = cr env 2 \<and> cr t 3 = hsave_field mem save_cr3 g \<and>
    cr t 4 = cr4_accepted env (ucast (hsave_field mem save_cr4 g)) \<and>
    efer t = hsave_field mem save_efer g \<and> (bit (hflags t) 14 \<longleftrightarrow> bit (hsave_field mem save_efer g) 10) \<and>
    base (gdt t) = hsave_field mem (save_gdtr + 8) g \<and> limit (gdt t) = hsave_field32 mem (save_gdtr + 4) g \<and>
    base (idt t) = hsave_field mem (save_idtr + 8) g \<and> limit (idt t) = hsave_field32 mem (save_idtr + 4) g \<and>
    segs t R_ES = hsave_seg B save_es g \<and> segs t R_CS = hsave_seg B save_cs g \<and>
    segs t R_SS = hsave_seg B save_ss g \<and> segs t R_DS = hsave_seg B save_ds g \<and>
    \<not> bit (hflags t) 21 \<and> hflags t AND HF_CPL_MASK = 0 \<and>
    intercept t = 0 \<and> intercept_exceptions t = 0 \<and>
    \<not> bit (hflags2 t) 0 \<and> exception_index t = - 1"
proof -
  note frame = phys_ramD(1) [OF assms(1)]
  have cpl: "w AND 3 = 0" if "\<And>m. m < 2 \<Longrightarrow> \<not> bit w m" for w :: u32
  proof -
    have "w AND 3 = take_bit 2 w" by (simp add: take_bit_eq_mask mask_eq_exp_minus_1)
    also have "\<dots> = 0" by (rule bit_word_eqI) (use that in \<open>auto simp: bit_take_bit_iff\<close>)
    finally show ?thesis .
  qed
  note g = same_regs [OF save_guest_frame [OF frame, of env]]
  have e: "host_cr0 g = host_cr0 env" "cr4_accepted g = cr4_accepted env" "cr g = cr env"
    using g by (simp_all add: g_def fun_eq_iff host_cr0_def cr0_refused_def cr4_accepted_def)
  show ?thesis
    unfolding t_def e(1) [symmetric] e(2) [symmetric] e(3) [symmetric]
    by (intro conjI refl exit_host_flags [OF assms(1)])
      (simp_all only: report_frame [OF frame] report_written(2-) [OF frame] load_host_written [OF assms(1)] load_host_modes
        load_host_tables [OF assms(1)] load_host_segs [OF assms(1)] load_host_cr4 [OF assms(1)] exit_host_cr0 [OF assms(1)]
        load_host_lma [OF assms(1)] cpl hsave_field_def not_False_eq_True one_neq_zero zero_neq_numeral numeral_eq_iff
        simp_thms num.distinct numeral_neq_zero)
qed

text \<open>
  C9: an exit leaves guest mode and resumes the host from its save area: the instruction and stack
  pointers, RAX, the flags (with bit 1 set and VM clear), DR6, DR7, CR3, EFER with the hidden
  long-mode flag, the GDT and IDT, and ES, CS, SS and DS are those of the save area; so are CR4
  (without OSFXSR on a processor without SSE) and CR0, with PE and ET forced, except that CR0 stays
  that of the guest where \<open>cpu_x86_update_cr0\<close> refuses to turn paging on (EFER.LME is set
  and CR4.PAE clear at that point).  CR2 stays that of the guest.  The privilege level is 0,
  interception and the global interrupt flag are off, and no exception is pending.
\<close>
theorem vmexit_resumes_host:
  assumes "phys_ram B mem"
  shows "let g = vmexit_save_guest B env; saved = (\<lambda>off. hsave_field mem off g) in
    \<exists>t. helper_vmexit B code info env = Stop CpuLoopExit t \<and>
    eip t = saved save_rip \<and> ESP t = saved save_rsp \<and> EAX t = saved save_rax \<and>
    cpu_compute_eflags t = (ucast (saved save_rflags) OR 2) AND NOT VM_MASK \<and>
    dr t 6 = saved save_dr6 \<and> dr t 7 = saved save_dr7 \<and>
    cr t 0 = host_cr0 env (saved save_cr0) \<and> cr t 2 = cr env 2 \<and> cr t 3 = saved save_cr3 \<and>
    cr t 4 = cr4_accepted env (ucast (saved save_cr4)) \<and>
    efer t = saved save_efer \<and> (bit (hflags t) 14 \<longleftrightarrow> bit (saved save_efer) 10) \<and>
    base (gdt t) = saved (save_gdtr + 8) \<and> limit (gdt t) = hsave_field32 mem (save_gdtr + 4) g \<and>
    base (idt t) = saved (save_idtr + 8) \<and> limit (idt t) = hsave_field32 mem (save_idtr + 4) g \<and>
    segs t R_ES = hsave_seg B save_es g \<and> segs t R_CS = hsave_seg B save_cs g \<and>
    segs t R_SS = hsave_seg B save_ss g \<and> segs t R_DS = hsave_seg B save_ds g \<and>
    \<not> bit (hflags t) 21 \<and> hflags t AND HF_CPL_MASK = 0 \<and>
    intercept t = 0 \<and> intercept_exceptions t = 0 \<and>
    \<not> bit (hflags2 t) 0 \<and> exception_index t = - 1"
  using exit_restored [OF assms, of code info env] unfolding Let_def helper_vmexit_def by blast

lemma save_seg_mem:
  assumes "phys_ram B mem"
  shows "mem (CPUX86State.more (svm_save_seg B a sc env)) =
    store_bytes (store_bytes (store_bytes (store_bytes (mem (CPUX86State.more env))
      a 2 (ucast (selector sc) :: u16)) (a + 8) 8 (base sc)) (a + 4) 4 (limit sc))
      (a + 2) 2 (ucast (svm_attrib (flags sc)) :: u16)"
  by (simp add: svm_save_seg_def phys_ramD [OF assms])

definition vmcb_field :: "('m \<Rightarrow> u64 \<Rightarrow> u8) \<Rightarrow> u64 \<Rightarrow> 'm CPUX86State_scheme \<Rightarrow> u64" where
  "vmcb_field mem off env = load64 (mem (CPUX86State.more env)) (vm_vmcb env + off)"

lemma save_guest_written:
  assumes ram: "phys_ram B mem"
  shows "vmcb_field mem save_rip (vmexit_save_guest B env) = eip env"
    and "vmcb_field mem save_rsp (vmexit_save_guest B env) = ESP env"
    and "vmcb_field mem save_rax (vmexit_save_guest B env) = EAX env"
    and "vmcb_field mem save_cr0 (vmexit_save_guest B env) = cr env 0"
    and "vmcb_field mem save_cr3 (vmexit_save_guest B env) = cr env 3"
    and "vmcb_field mem save_cr4 (vmexit_save_guest B env) = cr env 4"
    and "vmcb_field mem save_efer (vmexit_save_guest B env) = efer env"
    and "vmcb_field mem save_dr7 (vmexit_save_guest B env) = dr env 7"
proof -
  note sim = vmcb_field_def phys_ramD [OF ram] phys_frame [OF phys_ramD(1) [OF ram]] Let_def
    save_seg_mem [OF ram] same_regs [OF save_seg_frame [OF phys_ramD(1) [OF ram]]] apart_def
  show "vmcb_field mem save_rip (vmexit_save_guest B env) = eip env"
    unfolding vmexit_save_guest_def
    by (rule block_write [where n = 16 and I = "\<lambda>t. (vm_vmcb t, eip t)" and q = "vmcb_field mem save_rip"])
      (simp_all add: sim)
  show "vmcb_field mem save_rsp (vmexit_save_guest B env) = ESP env"
    unfolding vmexit_save_guest_def
    by (rule block_write [where n = 17 and I = "\<lambda>t. (vm_vmcb t, regs t R_ESP)" and q = "vmcb_field mem save_rsp"])
      (simp_all add: sim)
  show "vmcb_field mem save_rax (vmexit_save_guest B env) = EAX env"
    unfolding vmexit_save_guest_def
    by (rule block_write [where n = 18 and I = "\<lambda>t. (vm_vmcb t, regs t R_EAX)" and q = "vmcb_field mem save_rax"])
      (simp_all add: sim)
  show "vmcb_field mem save_cr0 (vmexit_save_guest B env) = cr env 0"
    unfolding vmexit_save_guest_def
    by (rule block_write [where n = 10 and I = "\<lambda>t. (vm_vmcb t, cr t 0)" and q = "vmcb_field mem save_cr0"])
      (simp_all add: sim)
  show "vmcb_field mem save_cr3 (vmexit_save_guest B env) = cr env 3"
    unfolding vmexit_save_guest_def
    by (rule block_write [where n = 12 and I = "\<lambda>t. (vm_vmcb t, cr t 3)" and q = "vmcb_field mem save_cr3"])
      (simp_all add: sim)
  show "vmcb_field mem save_cr4 (vmexit_save_guest B env) = cr env 4"
    unfolding vmexit_save_guest_def
    by (rule block_write [where n = 13 and I = "\<lambda>t. (vm_vmcb t, cr t 4)" and q = "vmcb_field mem save_cr4"])
      (simp_all add: sim)
  show "vmcb_field mem save_efer (vmexit_save_guest B env) = efer env"
    unfolding vmexit_save_guest_def
    by (rule block_write [where n = 9 and I = "\<lambda>t. (vm_vmcb t, efer t)" and q = "vmcb_field mem save_efer"])
      (simp_all add: sim)
  show "vmcb_field mem save_dr7 (vmexit_save_guest B env) = dr env 7"
    unfolding vmexit_save_guest_def
    by (rule block_write [where n = 19 and I = "\<lambda>t. (vm_vmcb t, dr t 7)" and q = "vmcb_field mem save_dr7"])
      (simp_all add: sim)
qed

lemma load_host_more: "CPUX86State.more (vmexit_load_host B g) = CPUX86State.more g"
  unfolding vmexit_load_host_def by (rule block_frame) auto

lemma report_vmcb_field:
  assumes ram: "phys_ram B mem" and off: "0x400 \<le> off" "off \<le> 0x1000"
  shows "vmcb_field mem off (vmexit_report B c i s) = vmcb_field mem off s"
proof -
  have apart: "apart (b + off) 8 (b + a) n" if "unat a + n \<le> 0x400" "n \<le> 8" for a b :: u64 and n
  proof -
    have u: "0x400 \<le> unat off" "unat off \<le> 0x1000"
      using off by (simp_all add: word_le_nat_alt)
    then have "a \<le> off" using that by (simp add: word_le_nat_alt)
    then have "unat (off - a) = unat off - unat a" by (rule unat_sub)
    with u that show ?thesis unfolding apart_def by simp arith
  qed
  show ?thesis unfolding vmexit_report_def
    by (rule block_frame) (auto simp: vmcb_field_def phys_ramD [OF ram]
      phys_frame [OF phys_ramD(1) [OF ram]] apart)
qed

text \<open>
  after an exit the VMCB holds the guest's instruction and stack pointers, RAX, control
  registers, EFER and DR7, as they were when the exit was taken.
\<close>
lemma vmexit_saves_guest:
  assumes "phys_ram B mem"
  shows "let field = (\<lambda>off. vmcb_field mem off (final_state (helper_vmexit B code info env))) in
     field save_rip = eip env \<and> field save_rsp = ESP env \<and> field save_rax = EAX env \<and>
     field save_cr0 = cr env 0 \<and> field save_cr3 = cr env 3 \<and> field save_cr4 = cr env 4 \<and>
     field save_efer = efer env \<and> field save_dr7 = dr env 7"
proof -
  have "vmcb_field mem off (vmexit_load_host B g) = vmcb_field mem off g" for off g
    by (simp add: vmcb_field_def load_host_vmcb load_host_more)
  then show ?thesis
    by (simp add: helper_vmexit_def Let_def report_vmcb_field [OF assms] save_guest_written [OF assms])
qed

text \<open>Witnesses: the flat memory, with the VMCB at 0 and the host save area at 0x1000.\<close>

definition svm_demo :: cpu_ram where
  "svm_demo = ram_zero\<lparr>vm_hsave := 0x1000, eip := 0x1234, hflags := HF_SVMI_MASK\<rparr>"

theorem vmexit_resumes_host_witness:
  "\<exists>t. helper_vmexit flat_bus 0x78 0 svm_demo = Stop CpuLoopExit t \<and> \<not> bit (hflags t) 21"
  using vmexit_resumes_host [OF flat_phys_ram, of svm_demo "0x78" 0] by (auto simp: Let_def)

end
