(* ===== verification/ExcpHelper.thy ===== *)
theory ExcpHelper
  imports SvmExit
begin

text \<open>
  Raising exceptions and software interrupts, after \<open>excp_helper.c\<close>: the escalation of
  nested faults to double and triple faults (\<open>check_exception\<close>), \<open>raise_interrupt\<close> and its
  shortcuts, none of which returns to its caller.
\<close>

section \<open>The helpers\<close>

abbreviation (input) EXCP_INTERRUPT :: u32 where "EXCP_INTERRUPT \<equiv> 0x10000"
abbreviation (input) EXCP_HLT :: u32 where "EXCP_HLT \<equiv> 0x10001"
abbreviation (input) EXCP_DEBUG :: u32 where "EXCP_DEBUG \<equiv> 0x10002"

text \<open>The new exception number and error code.  Both are \<open>int\<close>s; the comparisons with 10 and
  13 read the same signed and unsigned.\<close>

definition check_exception :: "'m cpu_bus \<Rightarrow> u32 \<Rightarrow> u32 \<Rightarrow> (u32 \<times> u32, 'm) helper" where
  "check_exception B intno err env =
    (let first_contributory = (old_exception env = 0 \<or>
           10 \<le> old_exception env \<and> old_exception env \<le> 13);
         second_contributory = (intno = 0 \<or> 10 \<le> intno \<and> intno \<le> 13)
     in if old_exception env = EXCP08_DBLE then
          (if hflags env AND HF_SVMI_MASK \<noteq> 0 then helper_vmexit B SVM_EXIT_SHUTDOWN 0 env
           else Done (EXCP_HLT, err) (ext_call SystemResetRequest env))
        else
          (let (intno, err) =
                 (if first_contributory \<and> second_contributory
                     \<or> old_exception env = EXCP0E_PAGE \<and> (second_contributory \<or> intno = EXCP0E_PAGE)
                  then (EXCP08_DBLE, 0) else (intno, err));
               env = (if second_contributory \<or> intno = EXCP0E_PAGE \<or> intno = EXCP08_DBLE
                      then env\<lparr>old_exception := intno\<rparr> else env)
           in Done (intno, err) env))"

definition raise_interrupt ::
  "'m cpu_bus \<Rightarrow> u32 \<Rightarrow> u32 \<Rightarrow> u32 \<Rightarrow> u32 \<Rightarrow> ('a, 'm) helper" where
  "raise_interrupt B intno is_int err next_eip_addend env =
    bindx (if is_int = 0 then
             bindx (helper_svm_check_intercept_param B (SVM_EXIT_EXCP_BASE + intno) (scast err) env)
               (\<lambda>_. check_exception B intno err)
           else
             bindx (helper_svm_check_intercept_param B SVM_EXIT_SWINT 0 env)
               (\<lambda>_. Done (intno, err)))
      (\<lambda>(intno, err) env. Stop CpuLoopExit
         (env\<lparr>exception_index := intno, error_code := err, exception_is_int := is_int,
              exception_next_eip := eip env + scast next_eip_addend\<rparr>))"

definition raise_exception_err :: "'m cpu_bus \<Rightarrow> u32 \<Rightarrow> u32 \<Rightarrow> ('a, 'm) helper" where
  "raise_exception_err B exception err env = raise_interrupt B exception 0 err 0 env"

definition raise_exception :: "'m cpu_bus \<Rightarrow> u32 \<Rightarrow> ('a, 'm) helper" where
  "raise_exception B exception env = raise_interrupt B exception 0 0 0 env"

definition helper_raise_interrupt :: "'m cpu_bus \<Rightarrow> u32 \<Rightarrow> u32 \<Rightarrow> ('a, 'm) helper" where
  "helper_raise_interrupt B intno next_eip_addend env =
     raise_interrupt B intno 1 0 next_eip_addend env"

definition helper_raise_exception :: "'m cpu_bus \<Rightarrow> u32 \<Rightarrow> ('a, 'm) helper" where
  "helper_raise_exception B exception env = raise_exception B exception env"

section \<open>The classes of exceptions\<close>

text \<open>
  The architecture sorts exceptions into three classes; a second fault escalates to a
  double fault by a table on the classes.
\<close>

datatype exc_class = Benign | Contributory | PageFault

definition exc_class :: "u32 \<Rightarrow> exc_class" where
  "exc_class n = (if n \<in> {0, 10, 11, 12, 13} then Contributory else if n = 14 then PageFault else Benign)"

fun escalates :: "exc_class \<Rightarrow> exc_class \<Rightarrow> bool" where
  "escalates Contributory Contributory = True"
| "escalates PageFault Contributory = True"
| "escalates PageFault PageFault = True"
| "escalates _ _ = False"

definition in_guest :: "'m CPUX86State_scheme \<Rightarrow> bool" where
  "in_guest env \<longleftrightarrow> hflags env AND HF_SVMI_MASK \<noteq> 0"

text \<open>The exception delivered, and the exception then in flight.\<close>

definition delivered :: "u32 \<Rightarrow> u32 \<Rightarrow> u32" where
  "delivered old n = (if escalates (exc_class old) (exc_class n) then EXCP08_DBLE else n)"

definition in_flight :: "u32 \<Rightarrow> u32 \<Rightarrow> u32" where
  "in_flight old n = (if delivered old n = EXCP08_DBLE then EXCP08_DBLE
     else if exc_class n = Benign then old else n)"

lemma u32_range_10_13: "10 \<le> n \<and> n \<le> 13 \<longleftrightarrow> n = 10 \<or> n = 11 \<or> n = 12 \<or> n = (13 :: u32)"
proof
  assume *: "10 \<le> n \<and> n \<le> 13"
  then have "unat n \<in> {10..13}" by (simp add: word_le_nat_alt)
  moreover have "{10..13} = {10, 11, 12, 13 :: nat}" by auto
  ultimately have "unat n = 10 \<or> unat n = 11 \<or> unat n = 12 \<or> unat n = 13" by simp
  then show "n = 10 \<or> n = 11 \<or> n = 12 \<or> n = 13" by (simp add: word_unat_eq_iff)
qed auto

lemma exc_class_contributory:
  "exc_class n = Contributory \<longleftrightarrow> n = 0 \<or> 10 \<le> n \<and> n \<le> 13"
  "exc_class n = PageFault \<longleftrightarrow> n = EXCP0E_PAGE"
  by (auto simp: exc_class_def u32_range_10_13)

lemma escalates_iff:
  "escalates c d \<longleftrightarrow> c = Contributory \<and> d = Contributory \<or> c = PageFault \<and> d \<noteq> Benign"
  by (cases c; cases d) simp_all

lemma check_exception_flight:
  assumes "old_exception env \<noteq> EXCP08_DBLE"
  shows "check_exception B n err env =
    Done (delivered (old_exception env) n,
          if escalates (exc_class (old_exception env)) (exc_class n) then 0 else err)
      (env\<lparr>old_exception := in_flight (old_exception env) n\<rparr>)"
proof -
  have benign: "exc_class m \<noteq> Benign \<longleftrightarrow> exc_class m = Contributory \<or> exc_class m = PageFault" for m
    by (cases "exc_class m") simp_all
  have "exc_class 8 = Benign" by (simp add: exc_class_def)
  then show ?thesis
    using assms
    by (auto simp: check_exception_def Let_def delivered_def in_flight_def escalates_iff benign
        simp flip: exc_class_contributory)
qed

section \<open>Raising an exception\<close>

lemma intercept_outside_guest:
  "\<not> in_guest env \<Longrightarrow> helper_svm_check_intercept_param B type param env = Done () env"
  by (simp add: helper_svm_check_intercept_param_def in_guest_def)

lemma raise_exception_err_outside:
  assumes "\<not> in_guest env" "old_exception env \<noteq> EXCP08_DBLE"
  shows "raise_exception_err B n err env = Stop CpuLoopExit (env\<lparr>
    old_exception := in_flight (old_exception env) n,
    exception_index := delivered (old_exception env) n,
    error_code := (if escalates (exc_class (old_exception env)) (exc_class n) then 0 else err),
    exception_is_int := 0, exception_next_eip := eip env\<rparr>)"
  using assms
  by (simp add: raise_exception_err_def raise_interrupt_def intercept_outside_guest
      check_exception_flight)

lemma raise_exception_err_reset:
  assumes "\<not> in_guest env" "old_exception env = EXCP08_DBLE"
  shows "raise_exception_err B n err env = Stop CpuLoopExit ((ext_call SystemResetRequest env)\<lparr>
    exception_index := EXCP_HLT, error_code := err, exception_is_int := 0,
    exception_next_eip := eip env\<rparr>)"
  using assms
  by (simp add: raise_exception_err_def raise_interrupt_def intercept_outside_guest
      check_exception_def in_guest_def)

text \<open>An intercepted event leaves by \<open>helper_vmexit\<close>; otherwise nothing happened.\<close>

lemma intercept_exception_cases:
  assumes "n \<le> 31"
  shows "helper_svm_check_intercept_param B (SVM_EXIT_EXCP_BASE + n) param env = Done () env \<or>
    (\<exists>t. helper_svm_check_intercept_param B (SVM_EXIT_EXCP_BASE + n) param env = Stop CpuLoopExit t)"
proof -
  have "0x40 \<le> 0x40 + n \<and> 0x40 + n \<le> 0x5f" using assms by unat_arith simp
  then show ?thesis
    by (simp add: helper_svm_check_intercept_param_def helper_vmexit_def)
qed

lemma intercept_swint_cases:
  "helper_svm_check_intercept_param B SVM_EXIT_SWINT param env = Done () env \<or>
   (\<exists>t. helper_svm_check_intercept_param B SVM_EXIT_SWINT param env = Stop CpuLoopExit t)"
  by (simp add: helper_svm_check_intercept_param_def helper_vmexit_def)

lemma check_exception_cases:
  "(\<exists>r t. check_exception B n err env = Done r t) \<or> (\<exists>t. check_exception B n err env = Stop CpuLoopExit t)"
  by (simp add: check_exception_def helper_vmexit_def Let_def split_beta)

section \<open>Properties\<close>

text \<open>
  C27: an exception outside a virtual machine is delivered by the architecture's table of
  fault classes: a contributory fault or page fault on top of one that is not yet delivered
  becomes a double fault with error code 0, anything else is delivered as it is; the helper
  leaves by \<open>cpu_loop_exit\<close> with the instruction pointer of the faulting instruction.
\<close>
theorem fault_delivery:
  assumes "\<not> in_guest env" "old_exception env \<noteq> EXCP08_DBLE"
  shows "\<exists>t. raise_exception_err B n err env = Stop CpuLoopExit t \<and>
    (if escalates (exc_class (old_exception env)) (exc_class n)
     then exception_index t = EXCP08_DBLE \<and> error_code t = 0 \<and> old_exception t = EXCP08_DBLE
     else exception_index t = n \<and> error_code t = err) \<and>
    exception_next_eip t = eip env \<and> exception_is_int t = 0 \<and> ext_calls t = ext_calls env"
  by (simp add: raise_exception_err_outside [OF assms] delivered_def in_flight_def)

theorem fault_delivery_witness:
  "\<exists>t. raise_exception_err flat_bus 14 4 (ram_zero\<lparr>old_exception := 14\<rparr>) = Stop CpuLoopExit t \<and>
    exception_index t = EXCP08_DBLE \<and> error_code t = 0"
  using fault_delivery [of "ram_zero\<lparr>old_exception := 14\<rparr>" flat_bus 14 4]
  by (auto simp: in_guest_def exc_class_def)

definition raised :: "'m cpu_bus \<Rightarrow> u32 \<Rightarrow> 'm CPUX86State_scheme \<Rightarrow> 'm CPUX86State_scheme" where
  "raised B n env = final_state (raise_exception_err B n 0 env :: (unit, 'm CPUX86State_scheme) outcome)"

text \<open>
  C28: two faults of which the second escalates put a double fault in flight, and then any
  further exception, whatever it is, resets the system and halts the processor.
\<close>
theorem triple_fault:
  assumes "\<not> in_guest env" "old_exception env = - 1"
    and "escalates (exc_class a) (exc_class b)"
  shows "let dbl = raised B b (raised B a env)
         in exception_index dbl = EXCP08_DBLE \<and>
            exception_index (raised B c dbl) = EXCP_HLT \<and>
            ext_calls (raised B c dbl) = ext_calls env @ [SystemResetRequest]"
proof -
  have a: "in_flight (- 1) a = a" "old_exception env \<noteq> EXCP08_DBLE" "a \<noteq> EXCP08_DBLE"
    using assms(2,3) by (auto simp: in_flight_def delivered_def exc_class_def split: if_splits)
  have b: "delivered a b = EXCP08_DBLE" "in_flight a b = EXCP08_DBLE"
    using assms(3) by (simp_all add: in_flight_def delivered_def)
  define e1 where "e1 = raised B a env"
  have e1: "old_exception e1 = a" "\<not> in_guest e1" "ext_calls e1 = ext_calls env"
    using assms(1,2) a by (simp_all add: e1_def raised_def raise_exception_err_outside) (simp_all add: in_guest_def)
  define e2 where "e2 = raised B b e1"
  have e2: "old_exception e2 = EXCP08_DBLE" "exception_index e2 = EXCP08_DBLE" "\<not> in_guest e2"
    "ext_calls e2 = ext_calls env"
    using e1 a(3) b by (simp_all add: e2_def raised_def raise_exception_err_outside) (simp_all add: in_guest_def)
  then show ?thesis
    by (simp add: Let_def e1_def [symmetric] e2_def [symmetric])
      (simp add: raised_def raise_exception_err_reset)
qed

theorem triple_fault_witness:
  "exception_index (raised flat_bus 6 (raised flat_bus 14 (raised flat_bus 14 (ram_zero\<lparr>old_exception := - 1\<rparr>)))) = EXCP_HLT"
  using triple_fault [of "ram_zero\<lparr>old_exception := - 1\<rparr>" 14 14 flat_bus 6]
  by (simp add: in_guest_def exc_class_def Let_def)

text \<open>
  Raising an exception (0 to 31) or a software interrupt never returns to the helper
  that raised it: control leaves for the main loop, be it through an intercept, a
  shutdown of the virtual machine, a reset request or the delivery itself.
\<close>
lemma raise_never_returns:
  assumes "is_int \<noteq> 0 \<or> n \<le> 31"
  shows "\<exists>t. raise_interrupt B n is_int err addend env = Stop CpuLoopExit t"
proof (cases "is_int = 0")
  case True
  then have "n \<le> 31" using assms by simp
  from intercept_exception_cases [OF this, of B "scast err" env]
    check_exception_cases [of B n err env] True
  show ?thesis by (auto simp: raise_interrupt_def)
next
  case False
  with intercept_swint_cases [of B 0 env] show ?thesis by (auto simp: raise_interrupt_def)
qed

text \<open>The shape in which the helpers of other components use it.\<close>

lemma raise_exception_stops:
  "n \<le> 31 \<Longrightarrow> \<exists>t. raise_exception B n env = Stop CpuLoopExit t"
proof -
  assume "n \<le> 31"
  from intercept_exception_cases [OF this, of B 0 env] check_exception_cases [of B n 0 env]
  show ?thesis by (auto simp: raise_exception_def raise_interrupt_def)
qed

end
