(* ===== verification/DebugRegs.thy ===== *)
theory DebugRegs
  imports ExcpHelper
begin

text \<open>
  Hardware breakpoints and machine checks, after \<open>helper.c\<close>: \<open>hw_breakpoint_insert\<close>,
  \<open>hw_breakpoint_remove\<close>, \<open>check_hw_breakpoints\<close>; \<open>mce_init\<close> and \<open>cpu_inject_x86_mce\<close>; and the
  write of a debug register, \<open>helper_movl_drN_T0\<close> of \<open>misc_helper.c\<close>.

  The array \<open>cpu_breakpoint\<close> is one union with \<open>cpu_watchpoint\<close>.  The list of breakpoints behind
  the pointers is outside the repository and reached through \<open>bus\<close>.
\<close>

section \<open>Breakpoints\<close>

definition hw_breakpoint_insert ::
  "'m cpu_bus \<Rightarrow> nat \<Rightarrow> 'm CPUX86State_scheme \<Rightarrow> 'm CPUX86State_scheme" where
  "hw_breakpoint_insert B index env =
    (let type = hw_breakpoint_type (dr env 7) index;
         insert_wp = (\<lambda>wp. cpu_watchpoint_insert B (dr env index) (hw_breakpoint_len (dr env 7) index) wp index env);
         (err, env) =
           (if type = 0 then
              (if hw_breakpoint_enabled (dr env 7) index \<noteq> 0
               then cpu_breakpoint_insert B (dr env index) index env else (0, env))
            else if type = 1 then insert_wp BP_MEM_WRITE
            else if type = 3 then insert_wp BP_MEM_ACCESS
            else (0, env))
     in if err \<noteq> 0 then env\<lparr>cpu_breakpoint := (cpu_breakpoint env)(index := None)\<rparr> else env)"

definition hw_breakpoint_remove ::
  "'m cpu_bus \<Rightarrow> nat \<Rightarrow> 'm CPUX86State_scheme \<Rightarrow> 'm CPUX86State_scheme" where
  "hw_breakpoint_remove B index env =
    (case cpu_breakpoint env index of
       None \<Rightarrow> env
     | Some p \<Rightarrow>
         (let type = hw_breakpoint_type (dr env 7) index
          in if type = 0 then
               (if hw_breakpoint_enabled (dr env 7) index \<noteq> 0 then cpu_breakpoint_remove_by_ref B p env else env)
             else if type = 1 \<or> type = 3 then cpu_watchpoint_remove_by_ref B p env
             else env))"

text \<open>One round of the loop of \<open>check_hw_breakpoints\<close>, on \<open>dr6\<close> and \<open>hit_enabled\<close>.\<close>

definition breakpoint_hit :: "'m cpu_bus \<Rightarrow> 'm CPUX86State_scheme \<Rightarrow> nat \<Rightarrow> bool" where
  "breakpoint_hit B env reg =
    (let type = hw_breakpoint_type (dr env 7) reg
     in type = 0 \<and> dr env reg = eip env \<or>
        type AND 1 \<noteq> 0 \<and> (case cpu_breakpoint env reg of None \<Rightarrow> False | Some p \<Rightarrow> watchpoint_was_hit B p env))"

definition check_hw_breakpoints ::
  "'m cpu_bus \<Rightarrow> u32 \<Rightarrow> 'm CPUX86State_scheme \<Rightarrow> u32 \<times> 'm CPUX86State_scheme" where
  "check_hw_breakpoints B force_dr6_update env =
    (let (dr6, hit_enabled) =
       fold (\<lambda>reg (dr6, hit_enabled).
           if breakpoint_hit B env reg then
             (dr6 OR push_bit reg 1, if hw_breakpoint_enabled (dr env 7) reg \<noteq> 0 then 1 else hit_enabled)
           else (dr6, hit_enabled))
         [0..<4] (dr env 6 AND NOT 0xf, 0 :: u32)
     in (hit_enabled,
         if hit_enabled \<noteq> 0 \<or> force_dr6_update \<noteq> 0 then set_dr 6 dr6 env else env))"

definition helper_movl_drN_T0 ::
  "'m cpu_bus \<Rightarrow> nat \<Rightarrow> u64 \<Rightarrow> 'm CPUX86State_scheme \<Rightarrow> 'm CPUX86State_scheme" where
  "helper_movl_drN_T0 B reg t0 env =
    (if reg < 4 then
       (let env = hw_breakpoint_remove B reg env;
            env = set_dr reg t0 env
        in hw_breakpoint_insert B reg env)
     else if reg = 7 then
       (let env = fold (hw_breakpoint_remove B) [0..<4] env;
            env = set_dr 7 t0 env
        in fold (hw_breakpoint_insert B) [0..<4] env)
     else set_dr reg t0 env)"

section \<open>Machine checks\<close>

abbreviation (input) CPUID_MCE :: u32 where "CPUID_MCE \<equiv> 0x80"
abbreviation (input) CPUID_MCA :: u32 where "CPUID_MCA \<equiv> 0x4000"
abbreviation (input) MCG_CTL_P :: u64 where "MCG_CTL_P \<equiv> 0x100"
abbreviation (input) MCE_CAP_DEF :: u64 where "MCE_CAP_DEF \<equiv> MCG_CTL_P"
abbreviation (input) MCE_BANKS_DEF :: u64 where "MCE_BANKS_DEF \<equiv> 10"
abbreviation (input) MCG_STATUS_MCIP :: u64 where "MCG_STATUS_MCIP \<equiv> 4"
abbreviation (input) MCI_STATUS_VAL :: u64 where "MCI_STATUS_VAL \<equiv> 0x8000000000000000"
abbreviation (input) MCI_STATUS_OVER :: u64 where "MCI_STATUS_OVER \<equiv> 0x4000000000000000"
abbreviation (input) MCI_STATUS_UC :: u64 where "MCI_STATUS_UC \<equiv> 0x2000000000000000"

definition mce_init :: "'m CPUX86State_scheme \<Rightarrow> 'm CPUX86State_scheme" where
  "mce_init cenv =
    (if drop_bit 8 (cpuid_version cenv) AND 0xf \<ge> 6 \<and>
        cpuid_features cenv AND (CPUID_MCE OR CPUID_MCA) = CPUID_MCE OR CPUID_MCA then
       (let cenv = cenv\<lparr>mcg_cap := MCE_CAP_DEF OR MCE_BANKS_DEF, mcg_ctl := NOT 0\<rparr>;
            bank_num = unat (mcg_cap cenv AND 0xff);
            cenv = cenv\<lparr>mce_banks := (\<lambda>_. 0)\<rparr>
        in cenv\<lparr>mce_banks := fold (\<lambda>bank b. b(bank * 4 := NOT 0)) [0..<bank_num] (mce_banks cenv)\<rparr>)
     else cenv)"

text \<open>\<open>bank\<close> is an \<open>int\<close> and is compared with an \<open>unsigned\<close>: a negative one is too large.\<close>

definition cpu_inject_x86_mce ::
  "u32 \<Rightarrow> u64 \<Rightarrow> u64 \<Rightarrow> u64 \<Rightarrow> u64 \<Rightarrow> 'm CPUX86State_scheme \<Rightarrow> 'm CPUX86State_scheme" where
  "cpu_inject_x86_mce bank status mcg_stat addr misc cenv =
    (let cap = mcg_cap cenv;
         bank_num = ucast (cap AND 0xff) :: u32;
         b = 4 * unat bank;
         banks = mce_banks cenv
     in if bank \<ge> bank_num \<or> status AND MCI_STATUS_VAL = 0 then cenv
        else if status AND MCI_STATUS_UC \<noteq> 0 \<and> cap AND MCG_CTL_P \<noteq> 0 \<and> mcg_ctl cenv \<noteq> NOT 0 then cenv
        else if status AND MCI_STATUS_UC \<noteq> 0 \<and> banks b \<noteq> NOT 0 then cenv
        else if status AND MCI_STATUS_UC \<noteq> 0 then
          (if mcg_status cenv AND MCG_STATUS_MCIP \<noteq> 0 \<or> cr cenv 4 AND CR4_MCE_MASK = 0
           then ext_call SystemResetRequest cenv
           else
             (let status = (if banks (b + 1) AND MCI_STATUS_VAL \<noteq> 0 then status OR MCI_STATUS_OVER else status);
                  cenv = cenv\<lparr>mce_banks := banks(b + 2 := addr, b + 3 := misc, b + 1 := status),
                              mcg_status := mcg_stat\<rparr>
              in ext_call (CpuInterrupt CPU_INTERRUPT_MCE) cenv))
        else if banks (b + 1) AND MCI_STATUS_VAL = 0 \<or> banks (b + 1) AND MCI_STATUS_UC = 0 then
          (let status = (if banks (b + 1) AND MCI_STATUS_VAL \<noteq> 0 then status OR MCI_STATUS_OVER else status)
           in cenv\<lparr>mce_banks := banks(b + 2 := addr, b + 3 := misc, b + 1 := status)\<rparr>)
        else cenv\<lparr>mce_banks := banks(b + 1 := banks (b + 1) OR MCI_STATUS_OVER)\<rparr>)"

section \<open>What they guarantee\<close>

lemma fold_hits:
  assumes "fold (\<lambda>reg (dr6, hit_enabled). if H reg then (dr6 OR push_bit reg 1, if E reg then 1 else hit_enabled)
      else (dr6, hit_enabled)) xs (d, h) = (d', h' :: u32)"
  shows "bit (d' :: u64) n \<longleftrightarrow> bit d n \<or> n \<in> set xs \<and> n < 64 \<and> H n"
    and "h' \<noteq> 0 \<longleftrightarrow> h \<noteq> 0 \<or> (\<exists>reg \<in> set xs. H reg \<and> E reg)"
  using assms
proof (induction xs arbitrary: d h)
  case (Cons x xs)
  {
    case 1
    with Cons.IH(1) show ?case by (auto simp: bit_simps bit_1_iff split: if_splits)
  next
    case 2
    with Cons.IH(2) show ?case by (auto split: if_splits)
  }
qed auto

text \<open>
  the breakpoint check reports every debug register that matches, and only those, in the
  low bits of DR6 and keeps its other bits; it answers yes exactly when a match is enabled in
  DR7, and leaves DR6 alone when nothing enabled matches and no update is forced.
\<close>
lemma check_hw_breakpoints_report:
  "let (hit, t) = check_hw_breakpoints B force env in
     (hit \<noteq> 0 \<longleftrightarrow> (\<exists>reg<4. breakpoint_hit B env reg \<and> hw_breakpoint_enabled (dr env 7) reg \<noteq> 0)) \<and>
     (if hit \<noteq> 0 \<or> force \<noteq> 0
      then t = set_dr 6 (dr t 6) env \<and>
        (\<forall>n. bit (dr t 6) n = (if n < 4 then breakpoint_hit B env n else bit (dr env 6) n))
      else t = env)"
proof -
  define K :: u64 where "K = 0xf"
  have "K = mask 4" by (simp add: K_def mask_eq_exp_minus_1)
  then have low: "bit K n \<longleftrightarrow> n < 4" for n by (simp only: bit_mask_iff) auto
  obtain d h where dh: "fold (\<lambda>reg (dr6, hit_enabled).
      if breakpoint_hit B env reg
      then (dr6 OR push_bit reg 1, if hw_breakpoint_enabled (dr env 7) reg \<noteq> 0 then 1 else hit_enabled)
      else (dr6, hit_enabled)) [0..<4] (dr env 6 AND NOT K, 0 :: u32) = (d, h)" by fastforce
  note hits = fold_hits [where H = "breakpoint_hit B env" and E = "\<lambda>reg. hw_breakpoint_enabled (dr env 7) reg \<noteq> 0", OF dh]
  have "h \<noteq> 0 \<longleftrightarrow> (\<exists>reg<4. breakpoint_hit B env reg \<and> hw_breakpoint_enabled (dr env 7) reg \<noteq> 0)"
    using hits(2) by auto
  moreover have "bit d n = (if n < 4 then breakpoint_hit B env n else bit (dr env 6) n)" for n
    using hits(1) [of n] bit_imp_le_length [of "dr env 6" n] by (auto simp: bit_simps low)
  ultimately show ?thesis
    unfolding check_hw_breakpoints_def K_def [symmetric] dh by simp
qed

text \<open>
  C32: injecting a machine check never loses an earlier error silently: if the bank holds a
  valid error, then either the bank is left as it was or its overflow bit is set; an
  uncorrected error stays marked as one, a corrected error never replaces its address and
  information; and no other bank is touched.
\<close>
theorem mce_no_silent_loss:
  "let t = cpu_inject_x86_mce bank status mcg_stat addr misc cenv; b = 4 * unat bank;
       old = mce_banks cenv; new = mce_banks t in
     (old (b + 1) AND MCI_STATUS_VAL \<noteq> 0 \<longrightarrow> new = old \<or> new (b + 1) AND MCI_STATUS_OVER \<noteq> 0) \<and>
     (old (b + 1) AND MCI_STATUS_VAL \<noteq> 0 \<and> old (b + 1) AND MCI_STATUS_UC \<noteq> 0 \<longrightarrow>
        new (b + 1) AND MCI_STATUS_UC \<noteq> 0 \<and>
        (status AND MCI_STATUS_UC = 0 \<longrightarrow> new (b + 2) = old (b + 2) \<and> new (b + 3) = old (b + 3))) \<and>
     (\<forall>i. i \<notin> {b + 1, b + 2, b + 3} \<longrightarrow> new i = old i)"
proof -
  have bits: "(x AND MCI_STATUS_OVER = 0) = (\<not> bit x 62)" "(x AND MCI_STATUS_UC = 0) = (\<not> bit x 61)" for x :: u64
    using and_mask_bit [of x 62] and_mask_bit [of x 61] by auto
  show ?thesis
    unfolding cpu_inject_x86_mce_def Let_def
    by (auto simp: bits ext_call_def bit_or_iff)
qed

theorem mce_no_silent_loss_witness:
  "let cenv = cpu_zero\<lparr>mcg_cap := 2, mce_banks := (\<lambda>_. 0)(5 := 0xA000000000000000, 6 := 7)\<rparr>;
       t = cpu_inject_x86_mce 1 0x8000000000000000 0 9 0 cenv
   in mce_banks t 6 = 7 \<and> mce_banks t 5 AND MCI_STATUS_UC \<noteq> 0"
  using mce_no_silent_loss [of 1 "0x8000000000000000" 0 9 0
      "cpu_zero\<lparr>mcg_cap := 2, mce_banks := (\<lambda>_. 0)(5 := 0xA000000000000000, 6 := 7)\<rparr>"]
  by (simp add: Let_def)

end
