(* ===== verification/SegDesc.thy ===== *)
theory SegDesc
  imports DebugRegs
begin

text \<open>
  Descriptors, segment registers and task switches, after \<open>seg_helper.c\<close>: reading descriptors,
  loading a segment register, the local descriptor table and the task register, the switch of
  tasks (\<open>switch_tss\<close>), and the instructions that inspect a descriptor (LSL, LAR, VERR, VERW).

  Selectors are \<open>int\<close>s in the code and words of that width here.
\<close>

section \<open>Reading descriptors\<close>

abbreviation (input) DPL :: "u32 \<Rightarrow> u32" where "DPL e2 \<equiv> drop_bit DESC_DPL_SHIFT e2 AND 3"
abbreviation (input) CPL :: "'m CPUX86State_scheme \<Rightarrow> u32" where "CPL env \<equiv> hflags env AND HF_CPL_MASK"
abbreviation (input) sys_type :: "u32 \<Rightarrow> u32" where "sys_type e2 \<equiv> drop_bit DESC_TYPE_SHIFT e2 AND 0xf"

text \<open>A fault whose error code is a selector.\<close>

abbreviation (input) sel_fault :: "'m cpu_bus \<Rightarrow> u32 \<Rightarrow> u32 \<Rightarrow> ('a, 'm) helper" where
  "sel_fault B exc sel \<equiv> raise_exception_err B exc (sel AND 0xfffc)"

definition load_segment :: "'m cpu_bus \<Rightarrow> u32 \<Rightarrow> ((u32 \<times> u32) option, 'm) helper" where
  "load_segment B sel env =
    (let dt = (if sel AND 4 \<noteq> 0 then ldt env else gdt env);
         index = sel AND NOT 7
     in if index + 7 > limit dt then Done None env
        else
          (let ptr = base dt + scast index
           in bindx (cpu_ldl_kernel B ptr env) (\<lambda>e1 env.
              bindx (cpu_ldl_kernel B (ptr + 4) env) (\<lambda>e2 env. Done (Some (e1, e2)) env))))"

definition get_seg_limit :: "u32 \<Rightarrow> u32 \<Rightarrow> u32" where
  "get_seg_limit e1 e2 =
    (let lim = (e1 AND 0xffff) OR (e2 AND 0x000f0000)
     in if e2 AND DESC_G_MASK \<noteq> 0 then push_bit 12 lim OR 0xfff else lim)"

definition get_seg_base :: "u32 \<Rightarrow> u32 \<Rightarrow> u32" where
  "get_seg_base e1 e2 = drop_bit 16 e1 OR push_bit 16 (e2 AND 0xff) OR (e2 AND 0xff000000)"

definition load_seg_cache_raw_dt :: "SegmentCache \<Rightarrow> u32 \<Rightarrow> u32 \<Rightarrow> SegmentCache" where
  "load_seg_cache_raw_dt sc e1 e2 =
    sc\<lparr>base := ucast (get_seg_base e1 e2), limit := get_seg_limit e1 e2, flags := e2\<rparr>"

text \<open>A descriptor in a segment register.\<close>

definition load_desc_cache :: "nat \<Rightarrow> u32 \<Rightarrow> u32 \<Rightarrow> u32 \<Rightarrow> 'm CPUX86State_scheme \<Rightarrow> 'm CPUX86State_scheme" where
  "load_desc_cache seg_reg sel e1 e2 env =
    cpu_x86_load_seg_cache env seg_reg sel (ucast (get_seg_base e1 e2)) (get_seg_limit e1 e2) e2"

definition load_seg_vm :: "nat \<Rightarrow> u32 \<Rightarrow> 'm CPUX86State_scheme \<Rightarrow> 'm CPUX86State_scheme" where
  "load_seg_vm seg sel env =
    (let sel = sel AND 0xffff in cpu_x86_load_seg_cache env seg sel (scast (push_bit 4 sel)) 0xffff 0)"

section \<open>Segment registers\<close>

text \<open>What \<open>helper_load_seg\<close> tests of a descriptor: the fault, if any.\<close>

definition load_seg_check :: "nat \<Rightarrow> u32 \<Rightarrow> u32 \<Rightarrow> u32 \<Rightarrow> u32 option" where
  "load_seg_check seg_reg cpl rpl e2 =
    (let dpl = DPL e2
     in if e2 AND DESC_S_MASK = 0 then Some EXCP0D_GPF
        else if seg_reg = R_SS \<and> (e2 AND DESC_CS_MASK \<noteq> 0 \<or> e2 AND DESC_W_MASK = 0) then Some EXCP0D_GPF
        else if seg_reg = R_SS \<and> (rpl \<noteq> cpl \<or> dpl \<noteq> cpl) then Some EXCP0D_GPF
        else if seg_reg \<noteq> R_SS \<and> e2 AND (DESC_CS_MASK OR DESC_R_MASK) = DESC_CS_MASK then Some EXCP0D_GPF
        else if seg_reg \<noteq> R_SS \<and> (e2 AND DESC_CS_MASK = 0 \<or> e2 AND DESC_C_MASK = 0) \<and> (dpl < cpl \<or> dpl < rpl)
        then Some EXCP0D_GPF
        else if e2 AND DESC_P_MASK = 0 then Some (if seg_reg = R_SS then EXCP0C_STACK else EXCP0B_NOSEG)
        else None)"

definition helper_load_seg :: "'m cpu_bus \<Rightarrow> nat \<Rightarrow> u32 \<Rightarrow> (unit, 'm) helper" where
  "helper_load_seg B seg_reg sel env =
    (let sel = sel AND 0xffff;
         cpl = CPL env
     in if sel AND 0xfffc = 0 then
          (if seg_reg = R_SS \<and> (hflags env AND HF_CS64_MASK = 0 \<or> cpl = 3) then raise_exception_err B EXCP0D_GPF 0 env
           else Done () (cpu_x86_load_seg_cache env seg_reg sel 0 0 0))
        else
          (let dt = (if sel AND 4 \<noteq> 0 then ldt env else gdt env);
               index = sel AND NOT 7;
               ptr = base dt + scast index
           in if index + 7 > limit dt then sel_fault B EXCP0D_GPF sel env
              else
                bindx (cpu_ldl_kernel B ptr env) (\<lambda>e1 env.
                bindx (cpu_ldl_kernel B (ptr + 4) env) (\<lambda>e2 env.
                  case load_seg_check seg_reg cpl (sel AND 3) e2 of
                    Some exc \<Rightarrow> sel_fault B exc sel env
                  | None \<Rightarrow>
                      (if e2 AND DESC_A_MASK = 0 then
                         (let e2 = e2 OR DESC_A_MASK
                          in bindx (cpu_stl_kernel B (ptr + 4) e2 env) (\<lambda>_ env.
                               Done () (load_desc_cache seg_reg sel e1 e2 env)))
                       else Done () (load_desc_cache seg_reg sel e1 e2 env))))))"

section \<open>LLDT and LTR\<close>

definition helper_lldt :: "'m cpu_bus \<Rightarrow> u32 \<Rightarrow> (unit, 'm) helper" where
  "helper_lldt B sel env =
    (let sel = sel AND 0xffff;
         finish = (\<lambda>env. Done () (env\<lparr>ldt := (ldt env)\<lparr>selector := sel\<rparr>\<rparr>))
     in if sel AND 0xfffc = 0 then finish (env\<lparr>ldt := (ldt env)\<lparr>base := 0, limit := 0\<rparr>\<rparr>)
        else if sel AND 4 \<noteq> 0 then sel_fault B EXCP0D_GPF sel env
        else
          (let dt = gdt env;
               index = sel AND NOT 7;
               entry_limit = (if hflags env AND HF_LMA_MASK \<noteq> 0 then 15 else 7);
               ptr = base dt + scast index
           in if index + entry_limit > limit dt then sel_fault B EXCP0D_GPF sel env
              else
                bindx (cpu_ldl_kernel B ptr env) (\<lambda>e1 env.
                bindx (cpu_ldl_kernel B (ptr + 4) env) (\<lambda>e2 env.
                  if e2 AND DESC_S_MASK \<noteq> 0 \<or> sys_type e2 \<noteq> 2 then sel_fault B EXCP0D_GPF sel env
                  else if e2 AND DESC_P_MASK = 0 then sel_fault B EXCP0B_NOSEG sel env
                  else if hflags env AND HF_LMA_MASK \<noteq> 0 then
                    bindx (cpu_ldl_kernel B (ptr + 8) env) (\<lambda>e3 env.
                      let env = env\<lparr>ldt := load_seg_cache_raw_dt (ldt env) e1 e2\<rparr>;
                          env = env\<lparr>ldt := (ldt env)\<lparr>base := base (ldt env) OR push_bit 32 (ucast e3)\<rparr>\<rparr>
                      in finish env)
                  else finish (env\<lparr>ldt := load_seg_cache_raw_dt (ldt env) e1 e2\<rparr>)))))"

definition helper_ltr :: "'m cpu_bus \<Rightarrow> u32 \<Rightarrow> (unit, 'm) helper" where
  "helper_ltr B sel env =
    (let sel = sel AND 0xffff;
         finish = (\<lambda>env. Done () (env\<lparr>tr := (tr env)\<lparr>selector := sel\<rparr>\<rparr>))
     in if sel AND 0xfffc = 0 then finish (env\<lparr>tr := (tr env)\<lparr>base := 0, limit := 0, flags := 0\<rparr>\<rparr>)
        else if sel AND 4 \<noteq> 0 then sel_fault B EXCP0D_GPF sel env
        else
          (let dt = gdt env;
               index = sel AND NOT 7;
               entry_limit = (if hflags env AND HF_LMA_MASK \<noteq> 0 then 15 else 7);
               ptr = base dt + scast index;
               set_busy = (\<lambda>e2 env. bindx (cpu_stl_kernel B (ptr + 4) (e2 OR DESC_TSS_BUSY_MASK) env) (\<lambda>_. finish))
           in if index + entry_limit > limit dt then sel_fault B EXCP0D_GPF sel env
              else
                bindx (cpu_ldl_kernel B ptr env) (\<lambda>e1 env.
                bindx (cpu_ldl_kernel B (ptr + 4) env) (\<lambda>e2 env.
                  if e2 AND DESC_S_MASK \<noteq> 0 \<or> sys_type e2 \<noteq> 1 \<and> sys_type e2 \<noteq> 9 then sel_fault B EXCP0D_GPF sel env
                  else if e2 AND DESC_P_MASK = 0 then sel_fault B EXCP0B_NOSEG sel env
                  else if hflags env AND HF_LMA_MASK \<noteq> 0 then
                    bindx (cpu_ldl_kernel B (ptr + 8) env) (\<lambda>e3 env.
                    bindx (cpu_ldl_kernel B (ptr + 12) env) (\<lambda>e4 env.
                      if sys_type e4 \<noteq> 0 then sel_fault B EXCP0D_GPF sel env
                      else
                        (let env = env\<lparr>tr := load_seg_cache_raw_dt (tr env) e1 e2\<rparr>;
                             env = env\<lparr>tr := (tr env)\<lparr>base := base (tr env) OR push_bit 32 (ucast e3)\<rparr>\<rparr>
                         in set_busy e2 env)))
                  else set_busy e2 (env\<lparr>tr := load_seg_cache_raw_dt (tr env) e1 e2\<rparr>)))))"

section \<open>Task switches\<close>

datatype tss_source = SWITCH_TSS_JMP | SWITCH_TSS_IRET | SWITCH_TSS_CALL

text \<open>A stack for level \<open>dpl\<close> from the task state segment: SS and ESP.\<close>

definition get_ss_esp_from_tss :: "'m cpu_bus \<Rightarrow> u32 \<Rightarrow> (u32 \<times> u32, 'm) helper" where
  "get_ss_esp_from_tss B dpl env =
    (let type = sys_type (flags (tr env));
         shift = unat (drop_bit 3 type);
         index = push_bit shift (dpl * 4 + 2)
     in if flags (tr env) AND DESC_P_MASK = 0 then Stop CpuAbort env
        else if type AND 7 \<noteq> 1 then Stop CpuAbort env
        else if index + push_bit shift 4 - 1 > limit (tr env) then sel_fault B EXCP0A_TSS (selector (tr env)) env
        else if shift = 0 then
          bindx (cpu_lduw_kernel B (base (tr env) + scast index) env) (\<lambda>esp env.
          bindx (cpu_lduw_kernel B (base (tr env) + scast index + 2) env) (\<lambda>ss env. Done (ucast ss, ucast esp) env))
        else
          bindx (cpu_ldl_kernel B (base (tr env) + scast index) env) (\<lambda>esp env.
          bindx (cpu_lduw_kernel B (base (tr env) + scast index + 4) env) (\<lambda>ss env. Done (ucast ss, esp) env)))"

definition tss_seg_check :: "nat \<Rightarrow> u32 \<Rightarrow> u32 \<Rightarrow> u32 \<Rightarrow> u32 option" where
  "tss_seg_check seg_reg cpl rpl e2 =
    (let dpl = DPL e2
     in if e2 AND DESC_S_MASK = 0 then Some EXCP0A_TSS
        else if seg_reg = R_CS \<and> e2 AND DESC_CS_MASK = 0 then Some EXCP0A_TSS
        else if seg_reg = R_CS \<and> dpl \<noteq> rpl then Some EXCP0A_TSS
        else if seg_reg = R_CS \<and> e2 AND DESC_C_MASK \<noteq> 0 \<and> dpl > rpl then Some EXCP0A_TSS
        else if seg_reg = R_SS \<and> (e2 AND DESC_CS_MASK \<noteq> 0 \<or> e2 AND DESC_W_MASK = 0) then Some EXCP0A_TSS
        else if seg_reg = R_SS \<and> (dpl \<noteq> cpl \<or> dpl \<noteq> rpl) then Some EXCP0A_TSS
        else if seg_reg \<noteq> R_CS \<and> seg_reg \<noteq> R_SS \<and> e2 AND DESC_CS_MASK \<noteq> 0 \<and> e2 AND DESC_R_MASK = 0 then Some EXCP0A_TSS
        else if seg_reg \<noteq> R_CS \<and> seg_reg \<noteq> R_SS \<and> sys_type e2 < 12 \<and> (dpl < cpl \<or> dpl < rpl) then Some EXCP0A_TSS
        else if e2 AND DESC_P_MASK = 0 then Some EXCP0B_NOSEG
        else None)"

definition tss_load_seg :: "'m cpu_bus \<Rightarrow> nat \<Rightarrow> u32 \<Rightarrow> (unit, 'm) helper" where
  "tss_load_seg B seg_reg sel env =
    (if sel AND 0xfffc \<noteq> 0 then
       bindx (load_segment B sel env) (\<lambda>d env.
         case d of
           None \<Rightarrow> sel_fault B EXCP0A_TSS sel env
         | Some (e1, e2) \<Rightarrow>
             (case tss_seg_check seg_reg (CPL env) (sel AND 3) e2 of
                Some exc \<Rightarrow> sel_fault B exc sel env
              | None \<Rightarrow> Done () (load_desc_cache seg_reg sel e1 e2 env)))
     else if seg_reg = R_SS \<or> seg_reg = R_CS then sel_fault B EXCP0A_TSS sel env
     else Done () env)"

text \<open>Reads and writes in a row.\<close>

fun load_all :: "(nat \<Rightarrow> ('a, 'm) helper) \<Rightarrow> nat list \<Rightarrow> ('a list, 'm) helper" where
  "load_all f [] env = Done [] env"
| "load_all f (i # is) env = bindx (f i env) (\<lambda>v env. bindx (load_all f is env) (\<lambda>vs. Done (v # vs)))"

fun run_all :: "(unit, 'm) helper list \<Rightarrow> (unit, 'm) helper" where
  "run_all [] env = Done () env"
| "run_all (m # ms) env = bindx (m env) (\<lambda>_. run_all ms)"

text \<open>What a task state segment holds of a task.\<close>

record tss_image =
  tss_cr3 :: u32
  tss_eip :: u32
  tss_eflags :: u32
  tss_regs :: "u32 list"
  tss_segs :: "u32 list"
  tss_ldt :: u32

definition tss_read32 :: "'m cpu_bus \<Rightarrow> u64 \<Rightarrow> (tss_image, 'm) helper" where
  "tss_read32 B tss_base env =
    bindx (cpu_ldl_kernel B (tss_base + 0x1c) env) (\<lambda>cr3 env.
    bindx (cpu_ldl_kernel B (tss_base + 0x20) env) (\<lambda>ip env.
    bindx (cpu_ldl_kernel B (tss_base + 0x24) env) (\<lambda>efl env.
    bindx (load_all (\<lambda>i. cpu_ldl_kernel B (tss_base + (0x28 + of_nat i * 4))) [0..<8] env) (\<lambda>rs env.
    bindx (load_all (\<lambda>i. cpu_lduw_kernel B (tss_base + (0x48 + of_nat i * 4))) [0..<6] env) (\<lambda>ss env.
    bindx (cpu_lduw_kernel B (tss_base + 0x60) env) (\<lambda>l env.
    bindx (cpu_ldl_kernel B (tss_base + 0x64) env) (\<lambda>_ env.
      Done \<lparr>tss_cr3 = cr3, tss_eip = ip, tss_eflags = efl, tss_regs = rs, tss_segs = map ucast ss,
            tss_ldt = ucast l\<rparr> env)))))))"

definition tss_read16 :: "'m cpu_bus \<Rightarrow> u64 \<Rightarrow> (tss_image, 'm) helper" where
  "tss_read16 B tss_base env =
    bindx (cpu_lduw_kernel B (tss_base + 0x0e) env) (\<lambda>ip env.
    bindx (cpu_lduw_kernel B (tss_base + 0x10) env) (\<lambda>efl env.
    bindx (load_all (\<lambda>i. cpu_lduw_kernel B (tss_base + (0x12 + of_nat i * 2))) [0..<8] env) (\<lambda>rs env.
    bindx (load_all (\<lambda>i. cpu_lduw_kernel B (tss_base + (0x22 + of_nat i * 4))) [0..<4] env) (\<lambda>ss env.
    bindx (cpu_lduw_kernel B (tss_base + 0x2a) env) (\<lambda>l env.
      Done \<lparr>tss_cr3 = 0, tss_eip = ucast ip, tss_eflags = ucast efl,
            tss_regs = map (\<lambda>r. ucast r OR 0xffff0000) rs, tss_segs = map ucast ss @ [0, 0],
            tss_ldt = ucast l\<rparr> env)))))"

definition tss_save32 :: "'m cpu_bus \<Rightarrow> u32 \<Rightarrow> u32 \<Rightarrow> (unit, 'm) helper" where
  "tss_save32 B next_eip old_eflags = run_all (
     [\<lambda>env. cpu_stl_kernel B (base (tr env) + 0x20) next_eip env,
      \<lambda>env. cpu_stl_kernel B (base (tr env) + 0x24) old_eflags env] @
     map (\<lambda>i env. cpu_stl_kernel B (base (tr env) + (0x28 + of_nat i * 4)) (ucast (regs env i)) env)
       [R_EAX, R_ECX, R_EDX, R_EBX, R_ESP, R_EBP, R_ESI, R_EDI] @
     map (\<lambda>i env. cpu_stw_kernel B (base (tr env) + (0x48 + of_nat i * 4)) (ucast (selector (segs env i))) env)
       [0..<6])"

definition tss_save16 :: "'m cpu_bus \<Rightarrow> u32 \<Rightarrow> u32 \<Rightarrow> (unit, 'm) helper" where
  "tss_save16 B next_eip old_eflags = run_all (
     [\<lambda>env. cpu_stw_kernel B (base (tr env) + 0x0e) (ucast next_eip) env,
      \<lambda>env. cpu_stw_kernel B (base (tr env) + 0x10) (ucast old_eflags) env] @
     map (\<lambda>i env. cpu_stw_kernel B (base (tr env) + (0x12 + of_nat i * 2)) (ucast (regs env i)) env)
       [R_EAX, R_ECX, R_EDX, R_EBX, R_ESP, R_EBP, R_ESI, R_EDI] @
     map (\<lambda>i env. cpu_stw_kernel B (base (tr env) + (0x22 + of_nat i * 4)) (ucast (selector (segs env i))) env)
       [0..<4])"

text \<open>Changing the busy bit of the descriptor of a task.\<close>

definition tss_change_busy :: "'m cpu_bus \<Rightarrow> u32 \<Rightarrow> (u32 \<Rightarrow> u32) \<Rightarrow> (unit, 'm) helper" where
  "tss_change_busy B sel change env =
    (let ptr = base (gdt env) + scast (sel AND NOT 7)
     in bindx (cpu_ldl_kernel B (ptr + 4) env) (\<lambda>e2. cpu_stl_kernel B (ptr + 4) (change e2)))"

text \<open>
  The target of a switch: a task gate leads to a task state segment.  The result has the
  selector, the descriptor and its type.
\<close>

definition tss_resolve :: "'m cpu_bus \<Rightarrow> u32 \<Rightarrow> u32 \<Rightarrow> u32 \<Rightarrow> (u32 \<times> u32 \<times> u32 \<times> u32, 'm) helper" where
  "tss_resolve B tss_selector e1 e2 env =
    (if sys_type e2 = 5 then
       (if e2 AND DESC_P_MASK = 0 then sel_fault B EXCP0B_NOSEG tss_selector env
        else
          (let tss_selector = drop_bit 16 e1
           in if tss_selector AND 4 \<noteq> 0 then sel_fault B EXCP0A_TSS tss_selector env
              else
                bindx (load_segment B tss_selector env) (\<lambda>d env.
                  case d of
                    None \<Rightarrow> sel_fault B EXCP0D_GPF tss_selector env
                  | Some (e1, e2) \<Rightarrow>
                      (if e2 AND DESC_S_MASK \<noteq> 0 then sel_fault B EXCP0D_GPF tss_selector env
                       else if sys_type e2 AND 7 \<noteq> 1 then sel_fault B EXCP0D_GPF tss_selector env
                       else Done (tss_selector, e1, e2, sys_type e2) env))))
     else Done (tss_selector, e1, e2, sys_type e2) env)"

text \<open>The new state of the processor, before the descriptors of the new task are read.\<close>

definition tss_enter ::
  "u32 \<Rightarrow> u32 \<Rightarrow> u64 \<Rightarrow> u32 \<Rightarrow> u32 \<Rightarrow> tss_image \<Rightarrow> 'm CPUX86State_scheme \<Rightarrow> 'm CPUX86State_scheme" where
  "tss_enter tss_selector e2 tss_base tss_limit type t env =
    (let env = set_cr 0 (cr env 0 OR CR0_TS_MASK) env;
         env = env\<lparr>hflags := hflags env OR HF_TS_MASK\<rparr>;
         env = env\<lparr>tr := \<lparr>selector = tss_selector, base = tss_base, limit = tss_limit,
                          flags = e2 AND NOT DESC_TSS_BUSY_MASK\<rparr>\<rparr>;
         env = (if type AND 8 \<noteq> 0 \<and> cr env 0 AND CR0_PG_MASK \<noteq> 0 then cpu_x86_update_cr3 env (ucast (tss_cr3 t)) else env);
         env = env\<lparr>eip := ucast (tss_eip t)\<rparr>;
         eflags_mask = TF_MASK OR AC_MASK OR ID_MASK OR IF_MASK OR IOPL_MASK OR VM_MASK OR RF_MASK OR NT_MASK;
         eflags_mask = (if type AND 8 = 0 then eflags_mask AND 0xffff else eflags_mask);
         env = cpu_load_eflags env (tss_eflags t) eflags_mask;
         env = fold (\<lambda>i env. set_reg i (ucast (tss_regs t ! i)) env)
           [R_EAX, R_ECX, R_EDX, R_EBX, R_ESP, R_EBP, R_ESI, R_EDI] env;
         env = (if tss_eflags t AND VM_MASK \<noteq> 0 then
             (let env = fold (\<lambda>i. load_seg_vm i (tss_segs t ! i)) [0..<6] env in cpu_x86_set_cpl env 3)
           else
             (let env = cpu_x86_set_cpl env (tss_segs t ! R_CS AND 3)
              in fold (\<lambda>i env. cpu_x86_load_seg_cache env i (tss_segs t ! i) 0 0 0) [0..<6] env))
     in env\<lparr>ldt := \<lparr>selector = tss_ldt t AND NOT 4, base = 0, limit = 0, flags = 0\<rparr>\<rparr>)"

definition tss_load_ldt :: "'m cpu_bus \<Rightarrow> u32 \<Rightarrow> (unit, 'm) helper" where
  "tss_load_ldt B sel env =
    (if sel AND 4 \<noteq> 0 then sel_fault B EXCP0A_TSS sel env
     else if sel AND 0xfffc \<noteq> 0 then
       (let dt = gdt env; index = sel AND NOT 7; ptr = base dt + scast index
        in if index + 7 > limit dt then sel_fault B EXCP0A_TSS sel env
           else
             bindx (cpu_ldl_kernel B ptr env) (\<lambda>e1 env.
             bindx (cpu_ldl_kernel B (ptr + 4) env) (\<lambda>e2 env.
               if e2 AND DESC_S_MASK \<noteq> 0 \<or> sys_type e2 \<noteq> 2 then sel_fault B EXCP0A_TSS sel env
               else if e2 AND DESC_P_MASK = 0 then sel_fault B EXCP0A_TSS sel env
               else Done () (env\<lparr>ldt := load_seg_cache_raw_dt (ldt env) e1 e2\<rparr>))))
     else Done () env)"

text \<open>Local breakpoints do not survive a task switch.\<close>

definition tss_reset_breakpoints :: "'m cpu_bus \<Rightarrow> 'm CPUX86State_scheme \<Rightarrow> 'm CPUX86State_scheme" where
  "tss_reset_breakpoints B env =
    (if dr env 7 AND 0x55 \<noteq> 0 then
       (let env = fold (\<lambda>i env. if hw_breakpoint_enabled (dr env 7) i = 1 then hw_breakpoint_remove B i env else env)
                    [0..<4] env
        in set_dr 7 (dr env 7 AND NOT 0x55) env)
     else env)"

definition switch_tss ::
  "'m cpu_bus \<Rightarrow> u32 \<Rightarrow> u32 \<Rightarrow> u32 \<Rightarrow> tss_source \<Rightarrow> u32 \<Rightarrow> (unit, 'm) helper" where
  "switch_tss B tss_selector e1 e2 source next_eip env =
    bindx (tss_resolve B tss_selector e1 e2 env) (\<lambda>(tss_selector, e1, e2, type) env.
      if e2 AND DESC_P_MASK = 0 then sel_fault B EXCP0B_NOSEG tss_selector env
      else
        (let tss_limit_max = (if type AND 8 \<noteq> 0 then 103 else 43);
             tss_limit = get_seg_limit e1 e2;
             tss_base = ucast (get_seg_base e1 e2)
         in if tss_selector AND 4 \<noteq> 0 \<or> sint tss_limit < tss_limit_max then sel_fault B EXCP0A_TSS tss_selector env
            else
              (let old_type = sys_type (flags (tr env));
                   old_tss_limit_max = (if old_type AND 8 \<noteq> 0 then 103 else 43)
               in bindx (if type AND 8 \<noteq> 0 then tss_read32 B tss_base env else tss_read16 B tss_base env) (\<lambda>t env.
                  bindx (cpu_ldub_kernel B (base (tr env)) env) (\<lambda>v1 env.
                  bindx (cpu_ldub_kernel B (base (tr env) + old_tss_limit_max) env) (\<lambda>v2 env.
                  bindx (cpu_stb_kernel B (base (tr env)) v1 env) (\<lambda>_ env.
                  bindx (cpu_stb_kernel B (base (tr env) + old_tss_limit_max) v2 env) (\<lambda>_ env.
                  bindx (if source = SWITCH_TSS_JMP \<or> source = SWITCH_TSS_IRET
                         then tss_change_busy B (selector (tr env)) (\<lambda>e2. e2 AND NOT DESC_TSS_BUSY_MASK) env
                         else Done () env) (\<lambda>_ env.
                  let old_eflags = cpu_compute_eflags env;
                      old_eflags = (if source = SWITCH_TSS_IRET then old_eflags AND NOT NT_MASK else old_eflags)
                  in bindx (if type AND 8 \<noteq> 0 then tss_save32 B next_eip old_eflags env
                            else tss_save16 B next_eip old_eflags env) (\<lambda>_ env.
                     bindx (if source = SWITCH_TSS_CALL then cpu_stw_kernel B tss_base (ucast (selector (tr env))) env
                            else Done () env) (\<lambda>_ env.
                     let t = (if source = SWITCH_TSS_CALL then t\<lparr>tss_eflags := tss_eflags t OR NT_MASK\<rparr> else t)
                     in bindx (if source = SWITCH_TSS_JMP \<or> source = SWITCH_TSS_CALL
                               then tss_change_busy B tss_selector (\<lambda>e2. e2 OR DESC_TSS_BUSY_MASK) env
                               else Done () env) (\<lambda>_ env.
                        let env = tss_enter tss_selector e2 tss_base tss_limit type t env
                        in bindx (tss_load_ldt B (tss_ldt t) env) (\<lambda>_ env.
                           bindx (if tss_eflags t AND VM_MASK = 0
                                  then run_all (map (\<lambda>r. tss_load_seg B r (tss_segs t ! r)) [R_CS, R_SS, R_ES, R_DS, R_FS, R_GS]) env
                                  else Done () env) (\<lambda>_ env.
                           if tss_eip t > limit (segs env R_CS) then raise_exception_err B EXCP0D_GPF 0 env
                           else Done () (tss_reset_breakpoints B env)))))))))))))))"

section \<open>Looking at descriptors\<close>

text \<open>What LSL and LAR test, with the types of system descriptors they accept.\<close>

definition desc_visible :: "u32 set \<Rightarrow> u32 \<Rightarrow> u32 \<Rightarrow> u32 \<Rightarrow> bool" where
  "desc_visible types cpl rpl e2 \<longleftrightarrow>
    (if e2 AND DESC_S_MASK \<noteq> 0 then
       (if e2 AND DESC_CS_MASK \<noteq> 0 \<and> e2 AND DESC_C_MASK \<noteq> 0 then True
        else \<not> (DPL e2 < cpl \<or> DPL e2 < rpl))
     else sys_type e2 \<in> types \<and> \<not> (DPL e2 < cpl \<or> DPL e2 < rpl))"

text \<open>The common frame of the four instructions: ZF tells whether \<open>check\<close> accepts.\<close>

definition inspect_desc ::
  "'m cpu_bus \<Rightarrow> u64 \<Rightarrow> (u32 \<Rightarrow> u32 \<Rightarrow> u32 \<Rightarrow> bool) \<Rightarrow> (u32 \<Rightarrow> u32 \<Rightarrow> u64) \<Rightarrow> (u64, 'm) helper" where
  "inspect_desc B selector1 check result env =
    (let sel = ucast selector1 AND 0xffff;
         eflags = helper_cc_compute_all env (cc_op env);
         fail = (\<lambda>env. Done 0 (env\<lparr>cc_src := ucast (eflags AND NOT CC_Z)\<rparr>))
     in if sel AND 0xfffc = 0 then fail env
        else
          bindx (load_segment B sel env) (\<lambda>d env.
            case d of
              None \<Rightarrow> fail env
            | Some (e1, e2) \<Rightarrow>
                (if check (CPL env) (sel AND 3) e2
                 then Done (result e1 e2) (env\<lparr>cc_src := ucast (eflags OR CC_Z)\<rparr>)
                 else fail env)))"

definition helper_lsl :: "'m cpu_bus \<Rightarrow> u64 \<Rightarrow> (u64, 'm) helper" where
  "helper_lsl B selector1 = inspect_desc B selector1 (desc_visible {1, 2, 3, 9, 11}) (\<lambda>e1 e2. ucast (get_seg_limit e1 e2))"

definition helper_lar :: "'m cpu_bus \<Rightarrow> u64 \<Rightarrow> (u64, 'm) helper" where
  "helper_lar B selector1 =
    inspect_desc B selector1 (desc_visible {1, 2, 3, 4, 5, 9, 11, 12}) (\<lambda>e1 e2. ucast (e2 AND 0x00f0ff00))"

definition verr_check :: "u32 \<Rightarrow> u32 \<Rightarrow> u32 \<Rightarrow> bool" where
  "verr_check cpl rpl e2 \<longleftrightarrow>
    (if e2 AND DESC_S_MASK = 0 then False
     else if e2 AND DESC_CS_MASK \<noteq> 0 then
       (if e2 AND DESC_R_MASK = 0 then False
        else if e2 AND DESC_C_MASK = 0 then \<not> (DPL e2 < cpl \<or> DPL e2 < rpl) else True)
     else \<not> (DPL e2 < cpl \<or> DPL e2 < rpl))"

definition verw_check :: "u32 \<Rightarrow> u32 \<Rightarrow> u32 \<Rightarrow> bool" where
  "verw_check cpl rpl e2 \<longleftrightarrow>
    (if e2 AND DESC_S_MASK = 0 then False
     else if e2 AND DESC_CS_MASK \<noteq> 0 then False
     else if DPL e2 < cpl \<or> DPL e2 < rpl then False
     else e2 AND DESC_W_MASK \<noteq> 0)"

definition helper_verr :: "'m cpu_bus \<Rightarrow> u64 \<Rightarrow> (unit, 'm) helper" where
  "helper_verr B selector1 env = bindx (inspect_desc B selector1 verr_check (\<lambda>_ _. 0) env) (\<lambda>_. Done ())"

definition helper_verw :: "'m cpu_bus \<Rightarrow> u64 \<Rightarrow> (unit, 'm) helper" where
  "helper_verw B selector1 env = bindx (inspect_desc B selector1 verw_check (\<lambda>_ _. 0) env) (\<lambda>_. Done ())"

end
