(* ===== verification/Interrupts.thy ===== *)
theory Interrupts
  imports SegDesc
begin

text \<open>
  Delivery of interrupts and exceptions, after \<open>seg_helper.c\<close>: in real mode, in protected mode
  through gates of the interrupt descriptor table, and in long mode; the record of the event for
  a hypervisor (\<open>handle_even_inj\<close>), and \<open>do_interrupt\<close> itself.
\<close>

section \<open>The stack\<close>

definition get_sp_mask :: "u32 \<Rightarrow> u32" where
  "get_sp_mask e2 = (if e2 AND DESC_B_MASK \<noteq> 0 then 0xffffffff else 0xffff)"

definition exeption_has_error_code :: "u32 \<Rightarrow> bool" where
  "exeption_has_error_code intno \<longleftrightarrow> intno \<in> {8, 10, 11, 12, 13, 14, 17}"

definition SET_ESP :: "u64 \<Rightarrow> u64 \<Rightarrow> 'm CPUX86State_scheme \<Rightarrow> 'm CPUX86State_scheme" where
  "SET_ESP val sp_mask env =
    (if sp_mask = 0xffff then set_reg R_ESP ((ESP env AND NOT 0xffff) OR (val AND 0xffff)) env
     else if sp_mask = 0xffffffff then set_reg R_ESP (ucast (ucast val :: u32)) env
     else set_reg R_ESP val env)"

text \<open>
  The stack macros.  The stack pointer and its mask are \<open>uint32_t\<close> or \<open>target_ulong\<close>, by the
  function that uses the macro; the new stack pointer is returned.
\<close>

definition SEG_ADDL :: "u64 \<Rightarrow> 'a::len word \<Rightarrow> 'a word \<Rightarrow> u64" where
  "SEG_ADDL ssp sp sp_mask = ucast (ucast (ssp + ucast (sp AND sp_mask)) :: u32)"

definition PUSHW :: "'m cpu_bus \<Rightarrow> u64 \<Rightarrow> 'a::len word \<Rightarrow> u32 \<Rightarrow> 'a word \<Rightarrow> ('a word, 'm) helper" where
  "PUSHW B ssp sp_mask val sp env =
    (let sp = sp - 2
     in bindx (cpu_stw_kernel B (ssp + ucast (sp AND sp_mask)) (ucast val) env) (\<lambda>_ env. Done sp env))"

definition PUSHL :: "'m cpu_bus \<Rightarrow> u64 \<Rightarrow> 'a::len word \<Rightarrow> u32 \<Rightarrow> 'a word \<Rightarrow> ('a word, 'm) helper" where
  "PUSHL B ssp sp_mask val sp env =
    (let sp = sp - 4
     in bindx (cpu_stl_kernel B (SEG_ADDL ssp sp sp_mask) val env) (\<lambda>_ env. Done sp env))"

definition PUSHQ :: "'m cpu_bus \<Rightarrow> u64 \<Rightarrow> u64 \<Rightarrow> (u64, 'm) helper" where
  "PUSHQ B val sp env =
    (let sp = sp - 8 in bindx (cpu_stq_kernel B sp val env) (\<lambda>_ env. Done sp env))"

definition POPW :: "'m cpu_bus \<Rightarrow> u64 \<Rightarrow> 'a::len word \<Rightarrow> 'a word \<Rightarrow> (u32 \<times> 'a word, 'm) helper" where
  "POPW B ssp sp_mask sp env =
    bindx (cpu_lduw_kernel B (ssp + ucast (sp AND sp_mask)) env) (\<lambda>v env. Done (ucast v, sp + 2) env)"

definition POPL :: "'m cpu_bus \<Rightarrow> u64 \<Rightarrow> 'a::len word \<Rightarrow> 'a word \<Rightarrow> (u32 \<times> 'a word, 'm) helper" where
  "POPL B ssp sp_mask sp env =
    bindx (cpu_ldl_kernel B (SEG_ADDL ssp sp sp_mask) env) (\<lambda>v env. Done (v, sp + 4) env)"

definition POPQ :: "'m cpu_bus \<Rightarrow> u64 \<Rightarrow> (u64 \<times> u64, 'm) helper" where
  "POPQ B sp env = bindx (cpu_ldq_kernel B sp env) (\<lambda>v env. Done (v, sp + 8) env)"

text \<open>A row of pushes; each value is read off the state when its turn comes.\<close>

fun push_all :: "('v \<Rightarrow> 'sp \<Rightarrow> ('sp, 'm) helper) \<Rightarrow> ('m CPUX86State_scheme \<Rightarrow> 'v) list \<Rightarrow> 'sp \<Rightarrow> ('sp, 'm) helper" where
  "push_all push [] sp env = Done sp env"
| "push_all push (v # vs) sp env = bindx (push (v env) sp env) (push_all push vs)"

section \<open>Protected mode\<close>

definition inner_ss_check :: "u32 \<Rightarrow> u32 \<Rightarrow> bool" where
  "inner_ss_check dpl ss_e2 \<longleftrightarrow>
    DPL ss_e2 = dpl \<and>
    \<not> (ss_e2 AND DESC_S_MASK = 0 \<or> ss_e2 AND DESC_CS_MASK \<noteq> 0 \<or> ss_e2 AND DESC_W_MASK = 0) \<and>
    ss_e2 AND DESC_P_MASK \<noteq> 0"

text \<open>
  The stack of an inner level: SS, ESP and the descriptor of SS.  (\<open>do_interrupt_protected\<close> and
  \<open>helper_lcall_protected\<close> have the same code.)
\<close>

definition inner_stack :: "'m cpu_bus \<Rightarrow> u32 \<Rightarrow> (u32 \<times> u32 \<times> u32 \<times> u32, 'm) helper" where
  "inner_stack B dpl env =
    bindx (get_ss_esp_from_tss B dpl env) (\<lambda>(ss, esp) env.
      if ss AND 0xfffc = 0 then sel_fault B EXCP0A_TSS ss env
      else if ss AND 3 \<noteq> dpl then sel_fault B EXCP0A_TSS ss env
      else
        bindx (load_segment B ss env) (\<lambda>d env.
          case d of
            None \<Rightarrow> sel_fault B EXCP0A_TSS ss env
          | Some (ss_e1, ss_e2) \<Rightarrow>
              (if \<not> inner_ss_check dpl ss_e2 then sel_fault B EXCP0A_TSS ss env
               else Done (ss, esp, ss_e1, ss_e2) env)))"

text \<open>The task gate.\<close>

definition interrupt_task_gate ::
  "'m cpu_bus \<Rightarrow> u32 \<Rightarrow> u32 \<Rightarrow> u32 \<Rightarrow> u32 \<Rightarrow> bool \<Rightarrow> u32 \<Rightarrow> (unit, 'm) helper" where
  "interrupt_task_gate B intno e1 e2 old_eip has_error_code err env =
    (if e2 AND DESC_P_MASK = 0 then raise_exception_err B EXCP0B_NOSEG (intno * 8 + 2) env
     else
       bindx (switch_tss B (intno * 8) e1 e2 SWITCH_TSS_CALL old_eip env) (\<lambda>_ env.
         if has_error_code then
           (let type = sys_type (flags (tr env));
                shift = unat (drop_bit 3 type);
                mask = (if flags (segs env R_SS) AND DESC_B_MASK \<noteq> 0 then 0xffffffff else 0xffff :: u32);
                esp = ucast (ESP env - push_bit shift 2) AND mask;
                ssp = base (segs env R_SS) + ucast esp
            in bindx (if shift \<noteq> 0 then cpu_stl_kernel B ssp err env else cpu_stw_kernel B ssp (ucast err) env) (\<lambda>_ env.
                 Done () (SET_ESP (ucast esp) (ucast mask) env)))
         else Done () env))"

text \<open>What is tested of the code segment a gate leads to, at privilege \<open>cpl\<close>.\<close>

definition gate_cs_check :: "u32 \<Rightarrow> u32 \<Rightarrow> u32 option" where
  "gate_cs_check cpl e2 =
    (if e2 AND DESC_S_MASK = 0 \<or> e2 AND DESC_CS_MASK = 0 then Some EXCP0D_GPF
     else if DPL e2 > cpl then Some EXCP0D_GPF
     else if e2 AND DESC_P_MASK = 0 then Some EXCP0B_NOSEG
     else None)"

text \<open>
  The stack that the handler runs on: whether it is new, SS and its descriptor, the stack
  pointer, base and mask, and the level.
\<close>

definition interrupt_stack ::
  "'m cpu_bus \<Rightarrow> u32 \<Rightarrow> u32 \<Rightarrow> (bool \<times> u32 \<times> u32 \<times> u32 \<times> u32 \<times> u64 \<times> u32 \<times> u32, 'm) helper" where
  "interrupt_stack B sel e2 env =
    (let dpl = DPL e2; cpl = CPL env
     in if e2 AND DESC_C_MASK = 0 \<and> dpl < cpl then
          bindx (inner_stack B dpl env) (\<lambda>(ss, esp, ss_e1, ss_e2) env.
            Done (True, ss, ss_e1, ss_e2, esp, ucast (get_seg_base ss_e1 ss_e2), get_sp_mask ss_e2, dpl) env)
        else if e2 AND DESC_C_MASK \<noteq> 0 \<or> dpl = cpl then
          (if eflags env AND VM_MASK \<noteq> 0 then sel_fault B EXCP0D_GPF sel env
           else Done (False, 0, 0, 0, ucast (ESP env), base (segs env R_SS), get_sp_mask (flags (segs env R_SS)), cpl) env)
        else sel_fault B EXCP0D_GPF sel env)"

text \<open>The frame, outermost first.\<close>

definition interrupt_frame ::
  "bool \<Rightarrow> u32 \<Rightarrow> bool \<Rightarrow> u32 \<Rightarrow> 'm CPUX86State_scheme \<Rightarrow> ('m CPUX86State_scheme \<Rightarrow> u32) list" where
  "interrupt_frame new_stack old_eip has_error_code err env =
    (if new_stack then
       (if eflags env AND VM_MASK \<noteq> 0
        then [\<lambda>env. selector (segs env R_GS), \<lambda>env. selector (segs env R_FS),
              \<lambda>env. selector (segs env R_DS), \<lambda>env. selector (segs env R_ES)] else []) @
       [\<lambda>env. selector (segs env R_SS), \<lambda>env. ucast (ESP env)]
     else []) @
    [\<lambda>env. cpu_compute_eflags env, \<lambda>env. selector (segs env R_CS), \<lambda>_. old_eip] @
    (if has_error_code then [\<lambda>_. err] else [])"

definition clear_data_segs :: "'m CPUX86State_scheme \<Rightarrow> 'm CPUX86State_scheme" where
  "clear_data_segs env = fold (\<lambda>r env. cpu_x86_load_seg_cache env r 0 0 0 0) [R_ES, R_DS, R_FS, R_GS] env"

text \<open>The last part of a delivery: flags of a handler that a gate of type \<open>type\<close> leads to.\<close>

definition interrupt_eflags :: "u32 \<Rightarrow> 'm CPUX86State_scheme \<Rightarrow> 'm CPUX86State_scheme" where
  "interrupt_eflags type env =
    (let env = (if type AND 1 = 0 then env\<lparr>eflags := eflags env AND NOT IF_MASK\<rparr> else env)
     in env\<lparr>eflags := eflags env AND NOT (TF_MASK OR VM_MASK OR RF_MASK OR NT_MASK)\<rparr>)"

definition do_interrupt_protected ::
  "'m cpu_bus \<Rightarrow> u32 \<Rightarrow> u32 \<Rightarrow> u32 \<Rightarrow> u32 \<Rightarrow> u32 \<Rightarrow> (unit, 'm) helper" where
  "do_interrupt_protected B intno is_int err next_eip is_hw env =
    (let has_error_code = (is_int = 0 \<and> is_hw = 0 \<and> exeption_has_error_code intno);
         old_eip = (if is_int \<noteq> 0 then next_eip else ucast (eip env));
         dt = idt env;
         ptr = base dt + scast (intno * 8)
     in if intno * 8 + 7 > limit dt then raise_exception_err B EXCP0D_GPF (intno * 8 + 2) env
        else
          bindx (cpu_ldl_kernel B ptr env) (\<lambda>e1 env.
          bindx (cpu_ldl_kernel B (ptr + 4) env) (\<lambda>e2 env.
          let type = drop_bit DESC_TYPE_SHIFT e2 AND 0x1f; cpl = CPL env
          in if type = 5 then interrupt_task_gate B intno e1 e2 old_eip has_error_code err env
             else if type \<notin> {6, 7, 14, 15} then raise_exception_err B EXCP0D_GPF (intno * 8 + 2) env
             else if is_int \<noteq> 0 \<and> DPL e2 < cpl then raise_exception_err B EXCP0D_GPF (intno * 8 + 2) env
             else if e2 AND DESC_P_MASK = 0 then raise_exception_err B EXCP0B_NOSEG (intno * 8 + 2) env
             else
               (let sel = drop_bit 16 e1;
                    offset = (e2 AND 0xffff0000) OR (e1 AND 0x0000ffff);
                    shift = drop_bit 3 type
                in if sel AND 0xfffc = 0 then raise_exception_err B EXCP0D_GPF 0 env
                   else
                     bindx (load_segment B sel env) (\<lambda>d env.
                       case d of
                         None \<Rightarrow> sel_fault B EXCP0D_GPF sel env
                       | Some (e1, e2) \<Rightarrow>
                           (case gate_cs_check cpl e2 of
                              Some exc \<Rightarrow> sel_fault B exc sel env
                            | None \<Rightarrow>
                                bindx (interrupt_stack B sel e2 env) (\<lambda>(new_stack, ss, ss_e1, ss_e2, esp, ssp, sp_mask, dpl) env.
                                bindx (push_all (if shift = 1 then PUSHL B ssp sp_mask else PUSHW B ssp sp_mask)
                                         (interrupt_frame new_stack old_eip has_error_code err env) esp env) (\<lambda>esp env.
                                let env = (if new_stack then
                                      (let env = (if eflags env AND VM_MASK \<noteq> 0 then clear_data_segs env else env)
                                       in cpu_x86_load_seg_cache env R_SS ((ss AND NOT 3) OR dpl) ssp (get_seg_limit ss_e1 ss_e2) ss_e2)
                                      else env);
                                    env = SET_ESP (ucast esp) (ucast sp_mask) env;
                                    env = load_desc_cache R_CS ((sel AND NOT 3) OR dpl) e1 e2 env;
                                    env = cpu_x86_set_cpl env dpl;
                                    env = env\<lparr>eip := ucast offset\<rparr>
                                in Done () (interrupt_eflags type env)))))))))"

section \<open>Long mode\<close>

definition get_rsp_from_tss :: "'m cpu_bus \<Rightarrow> u32 \<Rightarrow> (u64, 'm) helper" where
  "get_rsp_from_tss B level env =
    (let index = 8 * level + 4
     in if flags (tr env) AND DESC_P_MASK = 0 then Stop CpuAbort env
        else if index + 7 > limit (tr env) then sel_fault B EXCP0A_TSS (selector (tr env)) env
        else cpu_ldq_kernel B (base (tr env) + scast index) env)"

text \<open>The stack pointer, whether the stack is new, and the level.\<close>

definition interrupt64_stack :: "'m cpu_bus \<Rightarrow> u32 \<Rightarrow> u32 \<Rightarrow> u32 \<Rightarrow> (u64 \<times> bool \<times> u32, 'm) helper" where
  "interrupt64_stack B sel ist e2 env =
    (let dpl = DPL e2; cpl = CPL env
     in if e2 AND DESC_C_MASK = 0 \<and> dpl < cpl \<or> ist \<noteq> 0 then
          bindx (get_rsp_from_tss B (if ist \<noteq> 0 then ist + 3 else dpl) env) (\<lambda>esp env.
            Done (esp AND NOT 0xf, True, dpl) env)
        else if e2 AND DESC_C_MASK \<noteq> 0 \<or> dpl = cpl then
          (if eflags env AND VM_MASK \<noteq> 0 then sel_fault B EXCP0D_GPF sel env
           else
             bindx (if ist \<noteq> 0 then get_rsp_from_tss B (ist + 3) env else Done (ESP env) env) (\<lambda>esp env.
               Done (esp AND NOT 0xf, False, cpl) env))
        else sel_fault B EXCP0D_GPF sel env)"

definition interrupt64_frame ::
  "u64 \<Rightarrow> bool \<Rightarrow> u32 \<Rightarrow> ('m CPUX86State_scheme \<Rightarrow> u64) list" where
  "interrupt64_frame old_eip has_error_code err =
    [\<lambda>env. ucast (selector (segs env R_SS)), \<lambda>env. ESP env, \<lambda>env. ucast (cpu_compute_eflags env),
     \<lambda>env. ucast (selector (segs env R_CS)), \<lambda>_. old_eip] @
    (if has_error_code then [\<lambda>_. scast err] else [])"

definition do_interrupt64 ::
  "'m cpu_bus \<Rightarrow> u32 \<Rightarrow> u32 \<Rightarrow> u32 \<Rightarrow> u64 \<Rightarrow> u32 \<Rightarrow> (unit, 'm) helper" where
  "do_interrupt64 B intno is_int err next_eip is_hw env =
    (let has_error_code = (is_int = 0 \<and> is_hw = 0 \<and> exeption_has_error_code intno);
         old_eip = (if is_int \<noteq> 0 then next_eip else eip env);
         dt = idt env;
         ptr = base dt + scast (intno * 16)
     in if intno * 16 + 15 > limit dt then raise_exception_err B EXCP0D_GPF (intno * 16 + 2) env
        else
          bindx (cpu_ldl_kernel B ptr env) (\<lambda>e1 env.
          bindx (cpu_ldl_kernel B (ptr + 4) env) (\<lambda>e2 env.
          bindx (cpu_ldl_kernel B (ptr + 8) env) (\<lambda>e3 env.
          let type = drop_bit DESC_TYPE_SHIFT e2 AND 0x1f; cpl = CPL env
          in if type \<notin> {14, 15} then raise_exception_err B EXCP0D_GPF (intno * 16 + 2) env
             else if is_int \<noteq> 0 \<and> DPL e2 < cpl then raise_exception_err B EXCP0D_GPF (intno * 16 + 2) env
             else if e2 AND DESC_P_MASK = 0 then raise_exception_err B EXCP0B_NOSEG (intno * 16 + 2) env
             else
               (let sel = drop_bit 16 e1;
                    offset = push_bit 32 (ucast e3) OR ucast (e2 AND 0xffff0000) OR ucast (e1 AND 0x0000ffff) :: u64;
                    ist = e2 AND 7
                in if sel AND 0xfffc = 0 then raise_exception_err B EXCP0D_GPF 0 env
                   else
                     bindx (load_segment B sel env) (\<lambda>d env.
                       case d of
                         None \<Rightarrow> sel_fault B EXCP0D_GPF sel env
                       | Some (e1, e2) \<Rightarrow>
                           (case gate_cs_check cpl e2 of
                              Some exc \<Rightarrow> sel_fault B exc sel env
                            | None \<Rightarrow>
                                (if e2 AND DESC_L_MASK = 0 \<or> e2 AND DESC_B_MASK \<noteq> 0 then sel_fault B EXCP0D_GPF sel env
                                 else
                                   bindx (interrupt64_stack B sel ist e2 env) (\<lambda>(esp, new_stack, dpl) env.
                                   bindx (push_all (PUSHQ B) (interrupt64_frame old_eip has_error_code err) esp env) (\<lambda>esp env.
                                   let env = (if new_stack then cpu_x86_load_seg_cache env R_SS (0 OR dpl) 0 0 0 else env);
                                       env = set_reg R_ESP esp env;
                                       env = load_desc_cache R_CS ((sel AND NOT 3) OR dpl) e1 e2 env;
                                       env = cpu_x86_set_cpl env dpl;
                                       env = env\<lparr>eip := offset\<rparr>
                                   in Done () (interrupt_eflags type env)))))))))))"

section \<open>Real mode\<close>

definition do_interrupt_real :: "'m cpu_bus \<Rightarrow> u32 \<Rightarrow> u32 \<Rightarrow> u32 \<Rightarrow> (unit, 'm) helper" where
  "do_interrupt_real B intno is_int next_eip env =
    (let dt = idt env;
         ptr = base dt + scast (intno * 4)
     in if intno * 4 + 3 > limit dt then raise_exception_err B EXCP0D_GPF (intno * 8 + 2) env
        else
          bindx (cpu_lduw_kernel B ptr env) (\<lambda>offset env.
          bindx (cpu_lduw_kernel B (ptr + 2) env) (\<lambda>sel env.
          let esp = ucast (ESP env) :: u32;
              ssp = base (segs env R_SS);
              old_eip = (if is_int \<noteq> 0 then next_eip else ucast (eip env));
              old_cs = selector (segs env R_CS)
          in bindx (push_all (PUSHW B ssp 0xffff) [\<lambda>env. cpu_compute_eflags env, \<lambda>_. old_cs, \<lambda>_. old_eip] esp env) (\<lambda>esp env.
             let env = set_reg R_ESP ((ESP env AND NOT 0xffff) OR ucast (esp AND 0xffff)) env;
                 env = env\<lparr>eip := ucast offset\<rparr>;
                 env = env\<lparr>segs := (segs env)(R_CS := (segs env R_CS)\<lparr>selector := ucast sel, base := push_bit 4 (ucast sel)\<rparr>)\<rparr>
             in Done () (env\<lparr>eflags := eflags env AND NOT (IF_MASK OR TF_MASK OR AC_MASK OR RF_MASK)\<rparr>)))))"

section \<open>Delivery\<close>

abbreviation (input) SVM_EVTINJ_VEC_MASK :: u32 where "SVM_EVTINJ_VEC_MASK \<equiv> 0xff"
abbreviation (input) SVM_EVTINJ_TYPE_MASK :: u32 where "SVM_EVTINJ_TYPE_MASK \<equiv> 0x700"
abbreviation (input) SVM_EVTINJ_TYPE_INTR :: u32 where "SVM_EVTINJ_TYPE_INTR \<equiv> 0"
abbreviation (input) SVM_EVTINJ_TYPE_NMI :: u32 where "SVM_EVTINJ_TYPE_NMI \<equiv> 0x200"
abbreviation (input) SVM_EVTINJ_TYPE_EXEPT :: u32 where "SVM_EVTINJ_TYPE_EXEPT \<equiv> 0x300"
abbreviation (input) SVM_EVTINJ_TYPE_SOFT :: u32 where "SVM_EVTINJ_TYPE_SOFT \<equiv> 0x400"
abbreviation (input) SVM_EVTINJ_VALID :: u32 where "SVM_EVTINJ_VALID \<equiv> 0x80000000"
abbreviation (input) SVM_EVTINJ_VALID_ERR :: u32 where "SVM_EVTINJ_VALID_ERR \<equiv> 0x800"

definition handle_even_inj ::
  "'m cpu_bus \<Rightarrow> u32 \<Rightarrow> u32 \<Rightarrow> u32 \<Rightarrow> bool \<Rightarrow> 'm CPUX86State_scheme \<Rightarrow> 'm CPUX86State_scheme" where
  "handle_even_inj B intno is_int err rm env =
    (let event_inj = ldl_phys B (vm_vmcb env + vmcb_event_inj) env
     in if event_inj AND SVM_EVTINJ_VALID = 0 then
          (let type = (if is_int \<noteq> 0 then SVM_EVTINJ_TYPE_SOFT else SVM_EVTINJ_TYPE_EXEPT);
               event_inj = intno OR type OR SVM_EVTINJ_VALID;
               (event_inj, env) =
                 (if \<not> rm \<and> exeption_has_error_code intno
                  then (event_inj OR SVM_EVTINJ_VALID_ERR, stl_phys B (vm_vmcb env + vmcb_event_inj_err) err env)
                  else (event_inj, env))
           in stl_phys B (vm_vmcb env + vmcb_event_inj) event_inj env)
        else env)"

definition do_interrupt_all ::
  "'m cpu_bus \<Rightarrow> u32 \<Rightarrow> u32 \<Rightarrow> u32 \<Rightarrow> u64 \<Rightarrow> u32 \<Rightarrow> (unit, 'm) helper" where
  "do_interrupt_all B intno is_int err next_eip is_hw env =
    bindx
      (if cr env 0 AND CR0_PE_MASK \<noteq> 0 then
         (let env = (if hflags env AND HF_SVMI_MASK \<noteq> 0 then handle_even_inj B intno is_int err False env else env)
          in if hflags env AND HF_LMA_MASK \<noteq> 0 then do_interrupt64 B intno is_int err next_eip is_hw env
             else do_interrupt_protected B intno is_int err (ucast next_eip) is_hw env)
       else
         (let env = (if hflags env AND HF_SVMI_MASK \<noteq> 0 then handle_even_inj B intno is_int err True env else env)
          in do_interrupt_real B intno is_int (ucast next_eip) env))
      (\<lambda>_ env.
         if hflags env AND HF_SVMI_MASK \<noteq> 0 then
           (let event_inj = ldl_phys B (vm_vmcb env + vmcb_event_inj) env
            in Done () (stl_phys B (vm_vmcb env + vmcb_event_inj) (event_inj AND NOT SVM_EVTINJ_VALID) env))
         else Done () env)"

definition do_interrupt :: "'m cpu_bus \<Rightarrow> (unit, 'm) helper" where
  "do_interrupt B env =
    bindx (do_interrupt_all B (exception_index env) (exception_is_int env) (error_code env) (exception_next_eip env) 0 env)
      (\<lambda>_ env. Done () (env\<lparr>old_exception := - 1\<rparr>))"

definition do_interrupt_x86_hardirq :: "'m cpu_bus \<Rightarrow> u32 \<Rightarrow> u32 \<Rightarrow> (unit, 'm) helper" where
  "do_interrupt_x86_hardirq B intno is_hw = do_interrupt_all B intno 0 0 0 is_hw"

end
