(* ===== verification/SvmRun.thy ===== *)
theory SvmRun
  imports SvmExit Interrupts
begin

text \<open>
  The instructions of the secure virtual machine extension, after \<open>svm_helper.c\<close>: VMRUN enters
  the guest (the exits are in \<open>SvmExit\<close>), VMLOAD and VMSAVE move the rest of the state, STGI and
  CLGI the global interrupt flag.
\<close>

abbreviation (input) TLB_CONTROL_FLUSH_ALL_ASID :: u8 where "TLB_CONTROL_FLUSH_ALL_ASID \<equiv> 1"

section \<open>VMRUN\<close>

text \<open>The first part saves the host state in the host save area.\<close>

definition vmrun_save_host ::
  "'m cpu_bus \<Rightarrow> u32 \<Rightarrow> 'm CPUX86State_scheme \<Rightarrow> 'm CPUX86State_scheme" where
  "vmrun_save_host B next_eip_addend = block [
     \<lambda>env. stq_phys B (vm_hsave env + save_gdtr + seg_base_off) (base (gdt env)) env,
     \<lambda>env. stl_phys B (vm_hsave env + save_gdtr + seg_limit_off) (limit (gdt env)) env,
     \<lambda>env. stq_phys B (vm_hsave env + save_idtr + seg_base_off) (base (idt env)) env,
     \<lambda>env. stl_phys B (vm_hsave env + save_idtr + seg_limit_off) (limit (idt env)) env,
     \<lambda>env. stq_phys B (vm_hsave env + save_cr0) (cr env 0) env,
     \<lambda>env. stq_phys B (vm_hsave env + save_cr2) (cr env 2) env,
     \<lambda>env. stq_phys B (vm_hsave env + save_cr3) (cr env 3) env,
     \<lambda>env. stq_phys B (vm_hsave env + save_cr4) (cr env 4) env,
     \<lambda>env. stq_phys B (vm_hsave env + save_dr6) (dr env 6) env,
     \<lambda>env. stq_phys B (vm_hsave env + save_dr7) (dr env 7) env,
     \<lambda>env. stq_phys B (vm_hsave env + save_efer) (efer env) env,
     \<lambda>env. stq_phys B (vm_hsave env + save_rflags) (ucast (cpu_compute_eflags env)) env,
     \<lambda>env. svm_save_seg B (vm_hsave env + save_es) (segs env R_ES) env,
     \<lambda>env. svm_save_seg B (vm_hsave env + save_cs) (segs env R_CS) env,
     \<lambda>env. svm_save_seg B (vm_hsave env + save_ss) (segs env R_SS) env,
     \<lambda>env. svm_save_seg B (vm_hsave env + save_ds) (segs env R_DS) env,
     \<lambda>env. stq_phys B (vm_hsave env + save_rip) (eip env + scast next_eip_addend) env,
     \<lambda>env. stq_phys B (vm_hsave env + save_rsp) (ESP env) env,
     \<lambda>env. stq_phys B (vm_hsave env + save_rax) (EAX env) env]"

text \<open>The second part loads the intercepts, the tables and the control registers of the guest.\<close>

definition vmrun_load_control ::
  "'m cpu_bus \<Rightarrow> 'm CPUX86State_scheme \<Rightarrow> 'm CPUX86State_scheme" where
  "vmrun_load_control B = block [
     \<lambda>env. env\<lparr>intercept := ldq_phys B (vm_vmcb env + vmcb_intercept) env\<rparr>,
     \<lambda>env. env\<lparr>intercept_cr_read := lduw_phys B (vm_vmcb env + vmcb_intercept_cr_read) env\<rparr>,
     \<lambda>env. env\<lparr>intercept_cr_write := lduw_phys B (vm_vmcb env + vmcb_intercept_cr_write) env\<rparr>,
     \<lambda>env. env\<lparr>intercept_dr_read := lduw_phys B (vm_vmcb env + vmcb_intercept_dr_read) env\<rparr>,
     \<lambda>env. env\<lparr>intercept_dr_write := lduw_phys B (vm_vmcb env + vmcb_intercept_dr_write) env\<rparr>,
     \<lambda>env. env\<lparr>intercept_exceptions := ldl_phys B (vm_vmcb env + vmcb_intercept_exceptions) env\<rparr>,
     \<lambda>env. env\<lparr>hflags := hflags env OR HF_SVMI_MASK\<rparr>,
     \<lambda>env. env\<lparr>tsc_offset := ldq_phys B (vm_vmcb env + vmcb_tsc_offset) env\<rparr>,
     \<lambda>env. env\<lparr>gdt := (gdt env)\<lparr>base := ldq_phys B (vm_vmcb env + save_gdtr + seg_base_off) env\<rparr>\<rparr>,
     \<lambda>env. env\<lparr>gdt := (gdt env)\<lparr>limit := ldl_phys B (vm_vmcb env + save_gdtr + seg_limit_off) env\<rparr>\<rparr>,
     \<lambda>env. env\<lparr>idt := (idt env)\<lparr>base := ldq_phys B (vm_vmcb env + save_idtr + seg_base_off) env\<rparr>\<rparr>,
     \<lambda>env. env\<lparr>idt := (idt env)\<lparr>limit := ldl_phys B (vm_vmcb env + save_idtr + seg_limit_off) env\<rparr>\<rparr>,
     \<lambda>env. stq_phys B (vm_vmcb env + vmcb_exit_info_2) 0 env,
     \<lambda>env. cpu_x86_update_cr0 env (ucast (ldq_phys B (vm_vmcb env + save_cr0) env)),
     \<lambda>env. cpu_x86_update_cr4 env (ucast (ldq_phys B (vm_vmcb env + save_cr4) env)),
     \<lambda>env. cpu_x86_update_cr3 env (ldq_phys B (vm_vmcb env + save_cr3) env),
     \<lambda>env. set_cr 2 (ldq_phys B (vm_vmcb env + save_cr2) env) env]"

text \<open>The third part takes the virtual interrupt control, and loads flags, segments and registers.\<close>

definition vmrun_load_guest ::
  "'m cpu_bus \<Rightarrow> u32 \<Rightarrow> 'm CPUX86State_scheme \<Rightarrow> 'm CPUX86State_scheme" where
  "vmrun_load_guest B int_ctl = block [
     \<lambda>env. env\<lparr>hflags2 := hflags2 env AND NOT (HF2_HIF_MASK OR HF2_VINTR_MASK)\<rparr>,
     \<lambda>env. if int_ctl AND V_INTR_MASKING_MASK \<noteq> 0 then
             (let env = env\<lparr>v_tpr := ucast (int_ctl AND V_TPR_MASK)\<rparr>;
                  env = env\<lparr>hflags2 := hflags2 env OR HF2_VINTR_MASK\<rparr>
              in if eflags env AND IF_MASK \<noteq> 0 then env\<lparr>hflags2 := hflags2 env OR HF2_HIF_MASK\<rparr> else env)
           else env,
     \<lambda>env. cpu_load_efer env (ldq_phys B (vm_vmcb env + save_efer) env),
     \<lambda>env. env\<lparr>eflags := 0\<rparr>,
     \<lambda>env. cpu_load_eflags env (ucast (ldq_phys B (vm_vmcb env + save_rflags) env)) (NOT LAZY_MASK),
     \<lambda>env. env\<lparr>cc_op := CC_OP_EFLAGS\<rparr>,
     \<lambda>env. svm_load_seg_cache B (vm_vmcb env + save_es) env R_ES,
     \<lambda>env. svm_load_seg_cache B (vm_vmcb env + save_cs) env R_CS,
     \<lambda>env. svm_load_seg_cache B (vm_vmcb env + save_ss) env R_SS,
     \<lambda>env. svm_load_seg_cache B (vm_vmcb env + save_ds) env R_DS,
     \<lambda>env. env\<lparr>eip := ldq_phys B (vm_vmcb env + save_rip) env\<rparr>,
     \<lambda>env. set_reg R_ESP (ldq_phys B (vm_vmcb env + save_rsp) env) env,
     \<lambda>env. set_reg R_EAX (ldq_phys B (vm_vmcb env + save_rax) env) env,
     \<lambda>env. set_dr 7 (ldq_phys B (vm_vmcb env + save_dr7) env) env,
     \<lambda>env. set_dr 6 (ldq_phys B (vm_vmcb env + save_dr6) env) env,
     \<lambda>env. cpu_x86_set_cpl env (ucast (ldub_phys B (vm_vmcb env + save_cpl) env)),
     \<lambda>env. if ldub_phys B (vm_vmcb env + vmcb_tlb_ctl) env = TLB_CONTROL_FLUSH_ALL_ASID
           then ext_call (TlbFlush 1) env else env,
     \<lambda>env. env\<lparr>hflags2 := hflags2 env OR HF2_GIF_MASK\<rparr>,
     \<lambda>env. if int_ctl AND V_IRQ_MASK \<noteq> 0
           then env\<lparr>interrupt_request := insert CPU_INTERRUPT_VIRQ (interrupt_request env)\<rparr> else env]"

text \<open>
  The last part injects the event that the VMCB asks for; a type that the switch does not list
  is ignored.  \<open>exception_next_eip = -1\<close> marks an exception that is not an instruction.
\<close>

definition vmrun_inject :: "'m cpu_bus \<Rightarrow> (unit, 'm) helper" where
  "vmrun_inject B env =
    (let event_inj = ldl_phys B (vm_vmcb env + vmcb_event_inj) env
     in if event_inj AND SVM_EVTINJ_VALID = 0 then Done () env
        else
          (let vector = event_inj AND SVM_EVTINJ_VEC_MASK;
               event_inj_err = ldl_phys B (vm_vmcb env + vmcb_event_inj_err) env;
               type = event_inj AND SVM_EVTINJ_TYPE_MASK;
               pending = (\<lambda>index is_int next_eip. env\<lparr>exception_index := index, error_code := event_inj_err,
                  exception_is_int := is_int, exception_next_eip := next_eip\<rparr>)
           in if type = SVM_EVTINJ_TYPE_INTR then do_interrupt_x86_hardirq B vector 1 (pending vector 0 (- 1))
              else if type = SVM_EVTINJ_TYPE_NMI then Stop CpuLoopExit (pending EXCP02_NMI 0 (eip env))
              else if type = SVM_EVTINJ_TYPE_EXEPT then Stop CpuLoopExit (pending vector 0 (- 1))
              else if type = SVM_EVTINJ_TYPE_SOFT then Stop CpuLoopExit (pending vector 1 (eip env))
              else Done () env))"

text \<open>The address of the VMCB, in RAX or EAX by the address size of the instruction.\<close>

definition svm_address :: "u32 \<Rightarrow> 'm CPUX86State_scheme \<Rightarrow> u64" where
  "svm_address aflag env = (if aflag = 2 then EAX env else ucast (ucast (EAX env) :: u32))"

text \<open>The state in which the guest starts, before an event is injected.\<close>

definition vmrun_enter ::
  "'m cpu_bus \<Rightarrow> u32 \<Rightarrow> u32 \<Rightarrow> 'm CPUX86State_scheme \<Rightarrow> 'm CPUX86State_scheme" where
  "vmrun_enter B aflag next_eip_addend env =
    (let env = env\<lparr>vm_vmcb := svm_address aflag env\<rparr>;
         env = vmrun_load_control B (vmrun_save_host B next_eip_addend env);
         int_ctl = ldl_phys B (vm_vmcb env + vmcb_int_ctl) env
     in vmrun_load_guest B int_ctl env)"

definition helper_vmrun :: "'m cpu_bus \<Rightarrow> u32 \<Rightarrow> u32 \<Rightarrow> (unit, 'm) helper" where
  "helper_vmrun B aflag next_eip_addend env =
    bindx (helper_svm_check_intercept_param B SVM_EXIT_VMRUN 0 env)
      (\<lambda>_ env. vmrun_inject B (vmrun_enter B aflag next_eip_addend env))"

section \<open>The other instructions\<close>

definition helper_vmmcall :: "'m cpu_bus \<Rightarrow> (unit, 'm) helper" where
  "helper_vmmcall B env =
    bindx (helper_svm_check_intercept_param B SVM_EXIT_VMMCALL 0 env) (\<lambda>_. raise_exception B EXCP06_ILLOP)"

definition vmload_state :: "'m cpu_bus \<Rightarrow> u64 \<Rightarrow> 'm CPUX86State_scheme \<Rightarrow> 'm CPUX86State_scheme" where
  "vmload_state B addr = block [
     \<lambda>env. svm_load_seg_cache B (addr + save_fs) env R_FS,
     \<lambda>env. svm_load_seg_cache B (addr + save_gs) env R_GS,
     \<lambda>env. env\<lparr>tr := svm_load_seg B (addr + save_tr) env\<rparr>,
     \<lambda>env. env\<lparr>ldt := svm_load_seg B (addr + save_ldtr) env\<rparr>,
     \<lambda>env. env\<lparr>kernelgsbase := ldq_phys B (addr + save_kernel_gs_base) env\<rparr>,
     \<lambda>env. env\<lparr>lstar := ldq_phys B (addr + save_lstar) env\<rparr>,
     \<lambda>env. env\<lparr>cstar := ldq_phys B (addr + save_cstar) env\<rparr>,
     \<lambda>env. env\<lparr>fmask := ldq_phys B (addr + save_sfmask) env\<rparr>,
     \<lambda>env. env\<lparr>star := ldq_phys B (addr + save_star) env\<rparr>,
     \<lambda>env. env\<lparr>sysenter_cs := ucast (ldq_phys B (addr + save_sysenter_cs) env)\<rparr>,
     \<lambda>env. env\<lparr>sysenter_esp := ldq_phys B (addr + save_sysenter_esp) env\<rparr>,
     \<lambda>env. env\<lparr>sysenter_eip := ldq_phys B (addr + save_sysenter_eip) env\<rparr>]"

definition vmsave_state :: "'m cpu_bus \<Rightarrow> u64 \<Rightarrow> 'm CPUX86State_scheme \<Rightarrow> 'm CPUX86State_scheme" where
  "vmsave_state B addr = block [
     \<lambda>env. svm_save_seg B (addr + save_fs) (segs env R_FS) env,
     \<lambda>env. svm_save_seg B (addr + save_gs) (segs env R_GS) env,
     \<lambda>env. svm_save_seg B (addr + save_tr) (tr env) env,
     \<lambda>env. svm_save_seg B (addr + save_ldtr) (ldt env) env,
     \<lambda>env. stq_phys B (addr + save_kernel_gs_base) (kernelgsbase env) env,
     \<lambda>env. stq_phys B (addr + save_lstar) (lstar env) env,
     \<lambda>env. stq_phys B (addr + save_cstar) (cstar env) env,
     \<lambda>env. stq_phys B (addr + save_sfmask) (fmask env) env,
     \<lambda>env. stq_phys B (addr + save_star) (star env) env,
     \<lambda>env. stq_phys B (addr + save_sysenter_cs) (ucast (sysenter_cs env)) env,
     \<lambda>env. stq_phys B (addr + save_sysenter_esp) (sysenter_esp env) env,
     \<lambda>env. stq_phys B (addr + save_sysenter_eip) (sysenter_eip env) env]"

definition helper_vmload :: "'m cpu_bus \<Rightarrow> u32 \<Rightarrow> (unit, 'm) helper" where
  "helper_vmload B aflag env =
    bindx (helper_svm_check_intercept_param B SVM_EXIT_VMLOAD 0 env)
      (\<lambda>_ env. Done () (vmload_state B (svm_address aflag env) env))"

definition helper_vmsave :: "'m cpu_bus \<Rightarrow> u32 \<Rightarrow> (unit, 'm) helper" where
  "helper_vmsave B aflag env =
    bindx (helper_svm_check_intercept_param B SVM_EXIT_VMSAVE 0 env)
      (\<lambda>_ env. Done () (vmsave_state B (svm_address aflag env) env))"

definition helper_stgi :: "'m cpu_bus \<Rightarrow> (unit, 'm) helper" where
  "helper_stgi B env =
    bindx (helper_svm_check_intercept_param B SVM_EXIT_STGI 0 env)
      (\<lambda>_ env. Done () (env\<lparr>hflags2 := hflags2 env OR HF2_GIF_MASK\<rparr>))"

definition helper_clgi :: "'m cpu_bus \<Rightarrow> (unit, 'm) helper" where
  "helper_clgi B env =
    bindx (helper_svm_check_intercept_param B SVM_EXIT_CLGI 0 env)
      (\<lambda>_ env. Done () (env\<lparr>hflags2 := hflags2 env AND NOT HF2_GIF_MASK\<rparr>))"

definition helper_skinit :: "'m cpu_bus \<Rightarrow> (unit, 'm) helper" where
  "helper_skinit B env =
    bindx (helper_svm_check_intercept_param B SVM_EXIT_SKINIT 0 env) (\<lambda>_. raise_exception B EXCP06_ILLOP)"

definition helper_invlpga :: "'m cpu_bus \<Rightarrow> u32 \<Rightarrow> (unit, 'm) helper" where
  "helper_invlpga B aflag env =
    bindx (helper_svm_check_intercept_param B SVM_EXIT_INVLPGA 0 env)
      (\<lambda>_ env. Done () (ext_call (TlbFlushPage (svm_address aflag env)) env))"

section \<open>The host survives its guest\<close>

text \<open>What VMRUN puts in the host save area.\<close>

lemma save_host_frame:
  assumes "regs_frame B"
  shows "CPUX86State.truncate (vmrun_save_host B n env) = CPUX86State.truncate env"
  unfolding vmrun_save_host_def
  by (rule block_frame) (auto simp: regs_frameD [OF assms] save_seg_frame [OF assms])

lemma save_host_written:
  assumes ram: "phys_ram B mem"
  shows "hsave_field mem (save_gdtr + 8) (vmrun_save_host B n env) = base (gdt env)"
    and "hsave_field32 mem (save_gdtr + 4) (vmrun_save_host B n env) = limit (gdt env)"
    and "hsave_field mem (save_idtr + 8) (vmrun_save_host B n env) = base (idt env)"
    and "hsave_field32 mem (save_idtr + 4) (vmrun_save_host B n env) = limit (idt env)"
    and "hsave_field mem save_cr3 (vmrun_save_host B n env) = cr env 3"
    and "hsave_field mem save_dr6 (vmrun_save_host B n env) = dr env 6"
    and "hsave_field mem save_dr7 (vmrun_save_host B n env) = dr env 7"
    and "hsave_field mem save_efer (vmrun_save_host B n env) = efer env"
    and "hsave_field mem save_rip (vmrun_save_host B n env) = eip env + scast n"
    and "hsave_field mem save_rsp (vmrun_save_host B n env) = ESP env"
    and "hsave_field mem save_rax (vmrun_save_host B n env) = EAX env"
    and "hsave_field mem save_cr0 (vmrun_save_host B n env) = cr env 0"
    and "hsave_field mem save_cr4 (vmrun_save_host B n env) = cr env 4"
    and "hsave_field mem save_rflags (vmrun_save_host B n env) = ucast (cpu_compute_eflags env)"
proof -
  note sim = hsave_field_def hsave_field32_def phys_ramD [OF ram] phys_frame [OF phys_ramD(1) [OF ram]] Let_def
    save_seg_mem [OF ram] same_regs [OF save_seg_frame [OF phys_ramD(1) [OF ram]]] apart_def
  have flags: "cpu_compute_eflags (stq_phys B a v t) = cpu_compute_eflags t"
    "cpu_compute_eflags (stl_phys B a w t) = cpu_compute_eflags t" for a v w t
    by (rule compute_eflags_cong; simp add: phys_frame [OF phys_ramD(1) [OF ram]])+
  show "hsave_field mem (save_gdtr + 8) (vmrun_save_host B n env) = base (gdt env)"
    unfolding vmrun_save_host_def
    by (rule block_write [where n = 0 and I = "\<lambda>t. (vm_hsave t, gdt t)" and q = "hsave_field mem (save_gdtr + 8)"])
      (simp_all add: sim add.commute [of 1128])
  show "hsave_field32 mem (save_gdtr + 4) (vmrun_save_host B n env) = limit (gdt env)"
    unfolding vmrun_save_host_def
    by (rule block_write [where n = 1 and I = "\<lambda>t. (vm_hsave t, gdt t)" and q = "hsave_field32 mem (save_gdtr + 4)"])
      (simp_all add: sim add.commute [of 1124])
  show "hsave_field mem (save_idtr + 8) (vmrun_save_host B n env) = base (idt env)"
    unfolding vmrun_save_host_def
    by (rule block_write [where n = 2 and I = "\<lambda>t. (vm_hsave t, idt t)" and q = "hsave_field mem (save_idtr + 8)"])
      (simp_all add: sim add.commute [of 1160])
  show "hsave_field32 mem (save_idtr + 4) (vmrun_save_host B n env) = limit (idt env)"
    unfolding vmrun_save_host_def
    by (rule block_write [where n = 3 and I = "\<lambda>t. (vm_hsave t, idt t)" and q = "hsave_field32 mem (save_idtr + 4)"])
      (simp_all add: sim add.commute [of 1156])
  show "hsave_field mem save_cr3 (vmrun_save_host B n env) = cr env 3"
    unfolding vmrun_save_host_def
    by (rule block_write [where n = 6 and I = "\<lambda>t. (vm_hsave t, cr t 3)" and q = "hsave_field mem save_cr3"])
      (simp_all add: sim)
  show "hsave_field mem save_dr6 (vmrun_save_host B n env) = dr env 6"
    unfolding vmrun_save_host_def
    by (rule block_write [where n = 8 and I = "\<lambda>t. (vm_hsave t, dr t 6)" and q = "hsave_field mem save_dr6"])
      (simp_all add: sim)
  show "hsave_field mem save_dr7 (vmrun_save_host B n env) = dr env 7"
    unfolding vmrun_save_host_def
    by (rule block_write [where n = 9 and I = "\<lambda>t. (vm_hsave t, dr t 7)" and q = "hsave_field mem save_dr7"])
      (simp_all add: sim)
  show "hsave_field mem save_efer (vmrun_save_host B n env) = efer env"
    unfolding vmrun_save_host_def
    by (rule block_write [where n = 10 and I = "\<lambda>t. (vm_hsave t, efer t)" and q = "hsave_field mem save_efer"])
      (simp_all add: sim)
  show "hsave_field mem save_cr0 (vmrun_save_host B n env) = cr env 0"
    unfolding vmrun_save_host_def
    by (rule block_write [where n = 4 and I = "\<lambda>t. (vm_hsave t, cr t 0)" and q = "hsave_field mem save_cr0"])
      (simp_all add: sim)
  show "hsave_field mem save_cr4 (vmrun_save_host B n env) = cr env 4"
    unfolding vmrun_save_host_def
    by (rule block_write [where n = 7 and I = "\<lambda>t. (vm_hsave t, cr t 4)" and q = "hsave_field mem save_cr4"])
      (simp_all add: sim)
  show "hsave_field mem save_rflags (vmrun_save_host B n env) = ucast (cpu_compute_eflags env)"
    unfolding vmrun_save_host_def
    by (rule block_write [where n = 11 and I = "\<lambda>t. (vm_hsave t, cpu_compute_eflags t)" and q = "hsave_field mem save_rflags"])
      (simp_all add: sim flags)
  show "hsave_field mem save_rip (vmrun_save_host B n env) = eip env + scast n"
    unfolding vmrun_save_host_def
    by (rule block_write [where n = 16 and I = "\<lambda>t. (vm_hsave t, eip t)" and q = "hsave_field mem save_rip"])
      (simp_all add: sim)
  show "hsave_field mem save_rsp (vmrun_save_host B n env) = ESP env"
    unfolding vmrun_save_host_def
    by (rule block_write [where n = 17 and I = "\<lambda>t. (vm_hsave t, regs t R_ESP)" and q = "hsave_field mem save_rsp"])
      (simp_all add: sim)
  show "hsave_field mem save_rax (vmrun_save_host B n env) = EAX env"
    unfolding vmrun_save_host_def
    by (rule block_write [where n = 18 and I = "\<lambda>t. (vm_hsave t, regs t R_EAX)" and q = "hsave_field mem save_rax"])
      (simp_all add: sim)
qed

abbreviation (input) vmcb_seg :: "SegmentCache \<Rightarrow> SegmentCache" where
  "vmcb_seg sc \<equiv> sc\<lparr>selector := selector sc AND 0xffff, flags := flags sc AND 0x00f0ff00\<rparr>"

lemma save_host_segs:
  assumes ram: "phys_ram B mem"
  shows "hsave_seg B save_es (vmrun_save_host B n env) = vmcb_seg (segs env R_ES)"
    and "hsave_seg B save_cs (vmrun_save_host B n env) = vmcb_seg (segs env R_CS)"
    and "hsave_seg B save_ss (vmrun_save_host B n env) = vmcb_seg (segs env R_SS)"
    and "hsave_seg B save_ds (vmrun_save_host B n env) = vmcb_seg (segs env R_DS)"
proof -
  note frame = phys_ramD(1) [OF ram]
  note keep = hsave_seg_def svm_load_seg_def phys_ramD [OF ram] phys_frame [OF frame] Let_def
    save_seg_mem [OF ram] same_regs [OF save_seg_frame [OF frame]] apart_def
  note put = hsave_seg_def svm_seg_roundtrip [OF ram] same_regs [OF save_seg_frame [OF frame]]
  show "hsave_seg B save_es (vmrun_save_host B n env) = vmcb_seg (segs env R_ES)"
    unfolding vmrun_save_host_def
    by (rule block_write [where n = 12 and I = "\<lambda>t. (vm_hsave t, segs t)" and q = "hsave_seg B save_es"])
      (simp_all add: put, simp_all add: keep)
  show "hsave_seg B save_cs (vmrun_save_host B n env) = vmcb_seg (segs env R_CS)"
    unfolding vmrun_save_host_def
    by (rule block_write [where n = 13 and I = "\<lambda>t. (vm_hsave t, segs t)" and q = "hsave_seg B save_cs"])
      (simp_all add: put, simp_all add: keep)
  show "hsave_seg B save_ss (vmrun_save_host B n env) = vmcb_seg (segs env R_SS)"
    unfolding vmrun_save_host_def
    by (rule block_write [where n = 14 and I = "\<lambda>t. (vm_hsave t, segs t)" and q = "hsave_seg B save_ss"])
      (simp_all add: put, simp_all add: keep)
  show "hsave_seg B save_ds (vmrun_save_host B n env) = vmcb_seg (segs env R_DS)"
    unfolding vmrun_save_host_def
    by (rule block_write [where n = 15 and I = "\<lambda>t. (vm_hsave t, segs t)" and q = "hsave_seg B save_ds"])
      (simp_all add: put, simp_all add: keep)
qed

text \<open>Entering the guest writes one field of the VMCB.\<close>

lemma load_control_mem:
  assumes ram: "phys_ram B mem"
  shows "mem (CPUX86State.more (vmrun_load_control B env)) =
    store_bytes (mem (CPUX86State.more env)) (vm_vmcb env + vmcb_exit_info_2) 8 (0 :: u64)"
  unfolding vmrun_load_control_def
  by (rule block_write [where n = 12 and I = "\<lambda>t. (vm_vmcb t, mem (CPUX86State.more t))" and q = "\<lambda>t. mem (CPUX86State.more t)"])
    (simp_all add: phys_ramD [OF ram] phys_frame [OF phys_ramD(1) [OF ram]])

lemma load_control_frame:
  assumes "regs_frame B"
  shows "vm_hsave (vmrun_load_control B env) = vm_hsave env"
  unfolding vmrun_load_control_def by (rule block_frame) (auto simp: phys_frame [OF assms])

lemma load_guest_frame:
  "vm_hsave (vmrun_load_guest B c env) = vm_hsave env"
  "CPUX86State.more (vmrun_load_guest B c env) = CPUX86State.more env"
  unfolding vmrun_load_guest_def by (rule block_frame, auto simp: Let_def)+

lemma vmrun_enter_mem:
  assumes ram: "phys_ram B mem"
  shows "mem (CPUX86State.more (vmrun_enter B aflag n env)) =
      store_bytes (mem (CPUX86State.more (vmrun_save_host B n (env\<lparr>vm_vmcb := svm_address aflag env\<rparr>))))
        (svm_address aflag env + vmcb_exit_info_2) 8 (0 :: u64)"
    and "vm_hsave (vmrun_enter B aflag n env) = vm_hsave env"
proof -
  note frame = phys_ramD(1) [OF ram]
  note st = same_regs [OF save_host_frame [OF frame, of n "env\<lparr>vm_vmcb := svm_address aflag env\<rparr>"]]
  show "mem (CPUX86State.more (vmrun_enter B aflag n env)) =
      store_bytes (mem (CPUX86State.more (vmrun_save_host B n (env\<lparr>vm_vmcb := svm_address aflag env\<rparr>))))
        (svm_address aflag env + vmcb_exit_info_2) 8 (0 :: u64)"
    unfolding vmrun_enter_def Let_def load_guest_frame load_control_mem [OF ram] by (simp add: st)
  show "vm_hsave (vmrun_enter B aflag n env) = vm_hsave env"
    unfolding vmrun_enter_def Let_def load_guest_frame load_control_frame [OF frame] by (simp add: st)
qed

lemma hsave_same:
  assumes "same_bytes (vm_hsave s) 0x700 (mem (CPUX86State.more t)) (mem (CPUX86State.more s))"
    and "vm_hsave t = vm_hsave s" "unat off \<le> 0x600"
  shows "hsave_field mem off t = hsave_field mem off s" "hsave_field32 mem off t = hsave_field32 mem off s"
  using same_bytes_load [OF assms(1), of off] assms(2,3) by (simp_all add: hsave_field_def hsave_field32_def)

lemma hsave_seg_same:
  assumes "phys_ram B mem" "same_bytes (vm_hsave s) 0x700 (mem (CPUX86State.more t)) (mem (CPUX86State.more s))"
    and "vm_hsave t = vm_hsave s" "unat off \<le> 0x600"
  shows "hsave_seg B off t = hsave_seg B off s"
proof -
  have u: "unat (off + x) + 8 \<le> 0x700" if "unat x \<le> 8" for x
  proof -
    have "unat (off + x) \<le> unat off + unat x" by (simp add: unat_word_ariths)
    then show ?thesis using assms(4) that by simp
  qed
  show ?thesis
    using same_bytes_load [OF assms(2) u [of seg_selector_off]] same_bytes_load [OF assms(2) u [of seg_attrib_off]]
      same_bytes_load [OF assms(2) u [of seg_limit_off]] same_bytes_load [OF assms(2) u [of seg_base_off]]
    by (simp add: hsave_seg_def svm_load_seg_def phys_ramD [OF assms(1)] assms(3) add.assoc)
qed

text \<open>
  C5: VMRUN and the exit that ends the guest are inverse for the host.  Whatever the guest did, if it
  has not written to the host save area, the host goes on behind the VMRUN instruction, at privilege
  level 0, with the stack pointer, RAX, the flags (bit 1 set, VM clear), the debug registers, CR3,
  EFER with the hidden long-mode flag, the tables and ES, CS, SS and DS (up to the attribute bits
  that a VMCB holds) it had, and with its CR4.  Two registers are not always the host's: CR2 stays
  that of the guest, and so does CR0 (up to PE) when \<open>cpu_x86_update_cr0\<close> refuses the host's
  (\<open>host_cr0\<close>); otherwise CR0 is the host's with PE and ET set.
\<close>
theorem vmrun_exit_roundtrip:
  fixes B :: "'m cpu_bus" and env g :: "'m CPUX86State_scheme" and aflag n code :: u32 and info :: u64
  defines "host \<equiv> vmrun_enter B aflag n env"
  defines "after \<equiv> final_state (helper_vmexit B code info g)"
  assumes "phys_ram B mem" "apart (vm_hsave env) 0x700 (svm_address aflag env + vmcb_exit_info_2) 8"
    and "vm_hsave g = vm_hsave env"
    and "same_bytes (vm_hsave env) 0x700 (mem (CPUX86State.more (vmexit_save_guest B g))) (mem (CPUX86State.more host))"
  shows "eip after = eip env + scast n \<and> ESP after = ESP env \<and> EAX after = EAX env \<and>
    cpu_compute_eflags after = (cpu_compute_eflags env OR 2) AND NOT VM_MASK \<and>
    dr after 6 = dr env 6 \<and> dr after 7 = dr env 7 \<and>
    cr after 0 = host_cr0 g (cr env 0) \<and> cr after 2 = cr g 2 \<and> cr after 3 = cr env 3 \<and>
    cr after 4 = cr4_accepted g (ucast (cr env 4)) \<and>
    efer after = efer env \<and> (bit (hflags after) 14 \<longleftrightarrow> bit (efer env) 10) \<and>
    hflags after AND HF_CPL_MASK = 0 \<and> \<not> bit (hflags after) 21 \<and>
    base (gdt after) = base (gdt env) \<and> limit (gdt after) = limit (gdt env) \<and>
    base (idt after) = base (idt env) \<and> limit (idt after) = limit (idt env) \<and>
    segs after R_ES = vmcb_seg (segs env R_ES) \<and> segs after R_CS = vmcb_seg (segs env R_CS) \<and>
    segs after R_SS = vmcb_seg (segs env R_SS) \<and> segs after R_DS = vmcb_seg (segs env R_DS)"
proof -
  note frame = phys_ramD(1) [OF assms(3)]
  define env' where "env' = env\<lparr>vm_vmcb := svm_address aflag env\<rparr>"
  define saved where "saved = vmrun_save_host B n env'"
  define g' where "g' = vmexit_save_guest B g"
  have h: "vm_hsave saved = vm_hsave env" "vm_hsave g' = vm_hsave saved"
    using same_regs [OF save_host_frame [OF frame, of n env']] save_guest_hsave [OF frame, of g] assms(5)
    by (simp_all add: saved_def g'_def env'_def)
  have "same_bytes (vm_hsave env) 0x700 (mem (CPUX86State.more host)) (mem (CPUX86State.more saved))"
    unfolding host_def vmrun_enter_mem(1) [OF assms(3)] saved_def env'_def
    using assms(4) by (intro same_bytes_store) (simp_all add: apart_def)
  then have same: "same_bytes (vm_hsave saved) 0x700 (mem (CPUX86State.more g')) (mem (CPUX86State.more saved))"
    using assms(6) unfolding g'_def [symmetric] h(1) by (blast intro: same_bytes_trans)
  note fields = hsave_same [OF same h(2)] hsave_seg_same [OF assms(3) same h(2)]
  have env': "eip env' = eip env" "regs env' = regs env" "dr env' = dr env" "cr env' = cr env" "efer env' = efer env"
    "gdt env' = gdt env" "idt env' = idt env" "segs env' = segs env"
    by (simp_all add: env'_def)
  have flags: "cpu_compute_eflags env' = cpu_compute_eflags env"
    by (rule compute_eflags_cong) (simp_all add: env'_def)
  have wide: "(ucast (ucast (x :: u32) :: u64) :: u32) = x" for x
    by (rule bit_word_eqI) (simp add: bit_simps)
  show ?thesis
    using exit_restored [OF assms(3), of code info g] save_host_written [OF assms(3), of n env', folded saved_def]
      save_host_segs [OF assms(3), of n env', folded saved_def]
    unfolding after_def helper_vmexit_def final_state.simps g'_def [symmetric]
    by (simp add: fields env' flags wide)
qed

text \<open>An exit writes nothing but the VMCB, before it loads the host.\<close>

lemma apart_outside:
  assumes "0x700 \<le> unat (x - v)" "unat off + n \<le> 0x700"
  shows "apart x 1 (v + off) n"
proof -
  have "off \<le> x - v" using assms by (simp add: word_le_nat_alt)
  then have "unat (x - v - off) = unat (x - v) - unat off" by (rule unat_sub)
  moreover have "unat (x - v - off) < 2 ^ 64" using unsigned_less [of "x - v - off", where ?'a = nat] by simp
  ultimately show ?thesis using assms unfolding apart_def diff_diff_eq [symmetric] by linarith
qed

lemma save_guest_other:
  assumes ram: "phys_ram B mem" and x: "0x700 \<le> unat (x - vm_vmcb env)"
  shows "mem (CPUX86State.more (vmexit_save_guest B env)) x = mem (CPUX86State.more env) x"
proof -
  define q where "q = (\<lambda>t :: 'a CPUX86State_scheme. (vm_vmcb t, if vm_vmcb t = vm_vmcb env then mem (CPUX86State.more t) x else 0))"
  have other: "store_bytes M (vm_vmcb env + off) n v x = M x" if "unat off + n \<le> 0x700" for M off n and v :: "'w::len word"
    using store_bytes_other [OF apart_outside [OF x that], of 0] by simp
  have other': "store_bytes M (off + vm_vmcb env) n v x = M x" if "unat off + n \<le> 0x700" for M off n and v :: "'w::len word"
    using other [OF that] by (simp add: add.commute)
  have "q (vmexit_save_guest B env) = q env"
    unfolding vmexit_save_guest_def
    by (rule block_frame) (auto simp: q_def phys_ramD [OF ram] phys_frame [OF phys_ramD(1) [OF ram]] Let_def
        save_seg_mem [OF ram] same_regs [OF save_seg_frame [OF phys_ramD(1) [OF ram]]] other other' split: if_splits)
  moreover have "vm_vmcb (vmexit_save_guest B env) = vm_vmcb env"
    using same_regs [OF save_guest_frame [OF phys_ramD(1) [OF ram]]] by simp
  ultimately show ?thesis by (simp add: q_def)
qed

theorem vmrun_exit_roundtrip_witness:
  "eip (final_state (helper_vmexit flat_bus 0x78 0 (vmrun_enter flat_bus 2 3 svm_demo))) = 0x1237"
proof -
  let ?g = "vmrun_enter flat_bus 2 3 svm_demo"
  have st: "svm_address 2 svm_demo = 0" "vm_hsave svm_demo = 0x1000" "eip svm_demo = 0x1234"
    by (simp_all add: svm_address_def svm_demo_def)
  have vmcb: "vm_vmcb ?g = 0"
  proof -
    have "vm_vmcb (vmrun_load_guest flat_bus c t) = vm_vmcb t" for c t
      unfolding vmrun_load_guest_def by (rule block_frame) (auto simp: Let_def)
    moreover have "vm_vmcb (vmrun_load_control flat_bus t) = vm_vmcb t" for t
      unfolding vmrun_load_control_def by (rule block_frame) (auto simp: phys_frame [OF flat_regs_frame])
    moreover have "vm_vmcb (vmrun_save_host flat_bus 3 t) = vm_vmcb t" for t
      using same_regs [OF save_host_frame [OF flat_regs_frame]] by simp
    ultimately show ?thesis by (simp add: vmrun_enter_def Let_def st)
  qed
  have "same_bytes 0x1000 0x700 (ram (vmexit_save_guest flat_bus ?g)) (ram ?g)"
    unfolding same_bytes_def
  proof (intro allI impI)
    fix i :: nat assume "i < 0x700"
    then have "unat (0x1000 + of_nat i :: u64) = 0x1000 + i" by (simp add: unat_word_ariths unat_of_nat)
    then have "0x700 \<le> unat (0x1000 + of_nat i - vm_vmcb ?g)" unfolding vmcb by simp
    from save_guest_other [OF flat_phys_ram this]
    show "ram (vmexit_save_guest flat_bus ?g) (0x1000 + of_nat i) = ram ?g (0x1000 + of_nat i)" .
  qed
  moreover have "apart 0x1000 0x700 (0 + vmcb_exit_info_2) 8" by (simp add: apart_def)
  moreover have "vm_hsave ?g = 0x1000" using vmrun_enter_mem(2) [OF flat_phys_ram] st(2) by simp
  ultimately have "eip (final_state (helper_vmexit flat_bus 0x78 0 ?g)) = eip svm_demo + scast (3 :: u32)"
    by (intro vmrun_exit_roundtrip [OF flat_phys_ram, THEN conjunct1]) (simp_all add: st)
  then show ?thesis by (simp add: st)
qed

end
