(* ===== verification/StoreBlocks.thy ===== *)
theory StoreBlocks
  imports Bus
begin

text \<open>
  Records that a helper writes to memory with a run of stores, field by field: the fields are a
  list of offset, size and value, and a field that no other overlaps reads back.
\<close>

section \<open>Fields in memory\<close>

type_synonym field = "nat \<times> nat \<times> u64"

fun puts :: "u64 \<Rightarrow> field list \<Rightarrow> (u64 \<Rightarrow> u8) \<Rightarrow> (u64 \<Rightarrow> u8)" where
  "puts a [] M = M"
| "puts a ((off, n, v) # es) M = puts a es (store_bytes M (a + of_nat off) n v)"

fun separate_fields :: "(nat \<times> nat) list \<Rightarrow> bool" where
  "separate_fields [] \<longleftrightarrow> True"
| "separate_fields ((off, n) # fs) \<longleftrightarrow>
    off + n \<le> 2 ^ 16 \<and> list_all (\<lambda>(off', n'). off + n \<le> off' \<or> off' + n' \<le> off) fs \<and> separate_fields fs"

abbreviation (input) layout :: "field list \<Rightarrow> (nat \<times> nat) list" where
  "layout \<equiv> map (\<lambda>(off, n, _). (off, n))"

lemma store_bytes_byte:
  assumes "x < 2 ^ 32" "off + n \<le> 2 ^ 32"
  shows "store_bytes M (a + of_nat off) n v (a + of_nat x) =
    (if off \<le> x \<and> x < off + n then word_bytes v (x - off) else M (a + of_nat x))"
proof (cases "off \<le> x")
  case True
  then have "a + of_nat x - (a + of_nat off) = (of_nat (x - off) :: u64)" by (simp add: of_nat_diff)
  moreover have "unat (of_nat (x - off) :: u64) = x - off" using assms(1) by (simp add: unat_of_nat)
  ultimately show ?thesis using True by (simp add: store_bytes_def) linarith
next
  case False
  have "a + of_nat x - (a + of_nat off) = (of_nat (2 ^ 64 - (off - x)) :: u64)"
    using False assms(2) by (simp add: of_nat_diff)
  moreover have "unat (of_nat (2 ^ 64 - (off - x)) :: u64) = 2 ^ 64 - (off - x)"
    using False by (simp add: unat_of_nat del: of_nat_diff)
  ultimately have "\<not> unat (a + of_nat x - (a + of_nat off)) < n" using assms by simp
  then show ?thesis using False by (simp add: store_bytes_def)
qed

lemma puts_other:
  assumes "separate_fields (layout es)" "x < 2 ^ 32" "list_all (\<lambda>(off, n). \<not> (off \<le> x \<and> x < off + n)) (layout es)"
  shows "puts a es M (a + of_nat x) = M (a + of_nat x)"
  using assms
proof (induction a es M rule: puts.induct)
  case (2 a off n v es M)
  then show ?case using store_bytes_byte [OF 2(3), of off n M a v] by auto
qed simp

lemma puts_byte:
  assumes "separate_fields (layout es)" "(off, n, v) \<in> set es" "i < n"
  shows "puts a es M (a + of_nat (off + i)) = word_bytes v i"
  using assms
proof (induction a es M rule: puts.induct)
  case (2 a off' n' v' es M)
  show ?case
  proof (cases "(off, n, v) \<in> set es")
    case True
    then show ?thesis using 2 by simp
  next
    case False
    then have e: "off' = off" "n' = n" "v' = v" using 2(3) by auto
    have "x + k \<le> off \<or> off + n \<le> x" if "(x, k) \<in> set (layout es)" for x k
      using 2(2) that e unfolding list.simps prod.case separate_fields.simps list_all_iff by fastforce
    then have "list_all (\<lambda>(x, k). \<not> (x \<le> off + i \<and> off + i < x + k)) (layout es)"
      using 2(4) unfolding list_all_iff by fastforce
    moreover have "off + n \<le> 2 ^ 16" "separate_fields (layout es)" using 2(2) e by simp_all
    ultimately have "puts a es (store_bytes M (a + of_nat off) n v) (a + of_nat (off + i)) =
        store_bytes M (a + of_nat off) n v (a + of_nat (off + i))"
      using 2(4) by (intro puts_other) simp_all
    also have "\<dots> = word_bytes v i"
      using store_bytes_byte [of "off + i" off n M a v] 2(4) \<open>off + n \<le> 2 ^ 16\<close> by simp
    finally show ?thesis using e by simp
  qed
qed simp

lemma load_bytes_cong:
  "(\<And>i. i < 2 \<Longrightarrow> M (a + of_nat i) = M' (a + of_nat i)) \<Longrightarrow> load16 M a = load16 M' a"
  "(\<And>i. i < 4 \<Longrightarrow> M (a + of_nat i) = M' (a + of_nat i)) \<Longrightarrow> load32 M a = load32 M' a"
  "(\<And>i. i < 8 \<Longrightarrow> M (a + of_nat i) = M' (a + of_nat i)) \<Longrightarrow> load64 M a = load64 M' a"
proof -
  show "load16 M a = load16 M' a" if "\<And>i. i < 2 \<Longrightarrow> M (a + of_nat i) = M' (a + of_nat i)"
    using that [of 0] that [of 1] by (simp add: load16_def)
  show "load32 M a = load32 M' a" if "\<And>i. i < 4 \<Longrightarrow> M (a + of_nat i) = M' (a + of_nat i)"
    using that [of 0] that [of 1] that [of 2] that [of 3] by (simp add: load32_def load16_def add.assoc)
  show "load64 M a = load64 M' a" if "\<And>i. i < 8 \<Longrightarrow> M (a + of_nat i) = M' (a + of_nat i)"
    using that [of 0] that [of 1] that [of 2] that [of 3] that [of 4] that [of 5] that [of 6] that [of 7]
    by (simp add: load64_def load32_def load16_def add.assoc)
qed

lemma load16_word_bytes: "load16 (store_bytes M a 2 (v :: u64)) a = ucast v"
  using load16_store_part [of 0 2 M a v] by simp

lemma load32_word_bytes: "load32 (store_bytes M a 4 (v :: u64)) a = ucast v"
  using load32_store_part [of 0 4 M a v] by simp

lemma puts_load:
  assumes "separate_fields (layout es)"
  shows "(off, 2, v) \<in> set es \<Longrightarrow> load16 (puts a es M) (a + of_nat off) = ucast v"
    and "(off, 4, v) \<in> set es \<Longrightarrow> load32 (puts a es M) (a + of_nat off) = ucast v"
    and "(off, 8, v) \<in> set es \<Longrightarrow> load64 (puts a es M) (a + of_nat off) = v"
proof -
  have byte: "puts a es M (a + of_nat off + of_nat i) = store_bytes M (a + of_nat off) n v (a + of_nat off + of_nat i)"
    if "(off, n, v) \<in> set es" "i < n" "n \<le> 8" for n i
    using puts_byte [OF assms that(1,2), of a M] store_bytes_at [OF that(2,3), of M "a + of_nat off" v]
    by (simp add: add.assoc)
  show "load16 (puts a es M) (a + of_nat off) = ucast v" if "(off, 2, v) \<in> set es"
    using load_bytes_cong(1) [of "puts a es M" "a + of_nat off" "store_bytes M (a + of_nat off) 2 v"] byte [OF that] load16_word_bytes by simp
  show "load32 (puts a es M) (a + of_nat off) = ucast v" if "(off, 4, v) \<in> set es"
    using load_bytes_cong(2) [of "puts a es M" "a + of_nat off" "store_bytes M (a + of_nat off) 4 v"] byte [OF that] load32_word_bytes by simp
  show "load64 (puts a es M) (a + of_nat off) = v" if "(off, 8, v) \<in> set es"
    using load_bytes_cong(3) [of "puts a es M" "a + of_nat off" "store_bytes M (a + of_nat off) 8 v"] byte [OF that] by simp
qed

section \<open>Statements that write fields\<close>

text \<open>
  Run in a state with the registers of \<open>env\<close>, the statement \<open>f\<close> keeps the registers and writes the
  fields \<open>es\<close> at \<open>a\<close>.
\<close>

definition writes ::
  "('m \<Rightarrow> u64 \<Rightarrow> u8) \<Rightarrow> 'm CPUX86State_scheme \<Rightarrow> u64 \<Rightarrow> ('m CPUX86State_scheme \<Rightarrow> 'm CPUX86State_scheme) \<Rightarrow> field list \<Rightarrow> bool" where
  "writes mem env a f es \<longleftrightarrow>
    (\<forall>s. CPUX86State.truncate s = CPUX86State.truncate env \<longrightarrow>
      CPUX86State.truncate (f s) = CPUX86State.truncate env \<and> mem (CPUX86State.more (f s)) = puts a es (mem (CPUX86State.more s)))"

lemma puts_append: "puts a (es @ fs) M = puts a fs (puts a es M)"
  by (induction a es M rule: puts.induct) simp_all

lemma writes_block:
  assumes "list_all2 (writes mem env a) fs ess"
  shows "writes mem env a (block fs) (concat ess)"
  using assms by (induction rule: list_all2_induct) (simp_all add: writes_def puts_append)

lemma writes_fold:
  assumes "list_all2 (\<lambda>x. writes mem env a (f x)) xs ess"
  shows "writes mem env a (fold f xs) (concat ess)"
  using assms by (induction rule: list_all2_induct) (simp_all add: writes_def puts_append)

lemma store_bytes_up:
  "store_bytes M x 2 (v2 :: u16) = store_bytes M x 2 (ucast v2 :: u64)"
  "store_bytes M x 4 (v4 :: u32) = store_bytes M x 4 (ucast v4 :: u64)"
proof -
  have "word_bytes v2 i = word_bytes (ucast v2 :: u64) i" if "i < 2" for i
    unfolding word_bytes_def by (rule bit_word_eqI) (use that in \<open>auto simp: bit_simps\<close>)
  then show "store_bytes M x 2 (v2 :: u16) = store_bytes M x 2 (ucast v2 :: u64)"
    by (simp add: store_bytes_def fun_eq_iff)
  have "word_bytes v4 i = word_bytes (ucast v4 :: u64) i" if "i < 4" for i
    unfolding word_bytes_def by (rule bit_word_eqI) (use that in \<open>auto simp: bit_simps\<close>)
  then show "store_bytes M x 4 (v4 :: u32) = store_bytes M x 4 (ucast v4 :: u64)"
    by (simp add: store_bytes_def fun_eq_iff)
qed

lemma writes_store:
  assumes "phys_ram B mem"
  shows "(\<And>s. CPUX86State.truncate s = CPUX86State.truncate env \<Longrightarrow> p s = a + of_nat off \<and> v2 s = w2) \<Longrightarrow>
      writes mem env a (\<lambda>s. stw_phys B (p s) (v2 s) s) [(off, 2, ucast w2)]"
    and "(\<And>s. CPUX86State.truncate s = CPUX86State.truncate env \<Longrightarrow> p s = a + of_nat off \<and> v4 s = w4) \<Longrightarrow>
      writes mem env a (\<lambda>s. stl_phys B (p s) (v4 s) s) [(off, 4, ucast w4)]"
    and "(\<And>s. CPUX86State.truncate s = CPUX86State.truncate env \<Longrightarrow> p s = a + of_nat off \<and> v8 s = w8) \<Longrightarrow>
      writes mem env a (\<lambda>s. stq_phys B (p s) (v8 s) s) [(off, 8, w8)]"
  by (simp_all add: writes_def phys_ramD [OF assms] regs_frameD [OF phys_ramD(1) [OF assms]] store_bytes_up)

end
