(* ===== verification/SmmHelper.thy ===== *)
theory SmmHelper
  imports SvmExit StoreBlocks
begin

text \<open>
  System management mode, after \<open>smm_helper.c\<close> (the \<open>TARGET_X86_64\<close> branches):
  \<open>do_smm_enter\<close> saves the state in the state save area above \<open>smbase\<close> and starts the
  handler in real mode, \<open>helper_rsm\<close> reloads the state.
\<close>

section \<open>The state save area\<close>

abbreviation (input) SMM_REVISION_ID :: u32 where "SMM_REVISION_ID \<equiv> 0x00020064"

definition sm_state :: "'m CPUX86State_scheme \<Rightarrow> u64" where
  "sm_state env = ucast (smbase env + 0x8000)"

text \<open>The attribute bits of a segment are saved as the upper descriptor word has them.\<close>

definition smm_attrib :: "u32 \<Rightarrow> u16" where
  "smm_attrib fl = ucast (drop_bit 8 fl AND 0xf0ff)"

definition smm_flags :: "u16 \<Rightarrow> u32" where
  "smm_flags w = push_bit 8 (ucast w AND 0xf0ff)"

definition smm_save_seg :: "'m cpu_bus \<Rightarrow> nat \<Rightarrow> 'm CPUX86State_scheme \<Rightarrow> 'm CPUX86State_scheme" where
  "smm_save_seg B i env =
    (let dt = segs env i; offset = 0x7e00 + of_nat i * 16
     in block [
       stw_phys B (sm_state env + offset) (ucast (selector dt)),
       stw_phys B (sm_state env + offset + 2) (smm_attrib (flags dt)),
       stl_phys B (sm_state env + offset + 4) (limit dt),
       stq_phys B (sm_state env + offset + 8) (base dt)] env)"

definition smm_save_state :: "'m cpu_bus \<Rightarrow> 'm CPUX86State_scheme \<Rightarrow> 'm CPUX86State_scheme" where
  "smm_save_state B = block [
     fold (smm_save_seg B) [0..<6],
     \<lambda>env. stq_phys B (sm_state env + 0x7e68) (base (gdt env)) env,
     \<lambda>env. stl_phys B (sm_state env + 0x7e64) (limit (gdt env)) env,
     \<lambda>env. stw_phys B (sm_state env + 0x7e70) (ucast (selector (ldt env))) env,
     \<lambda>env. stq_phys B (sm_state env + 0x7e78) (base (ldt env)) env,
     \<lambda>env. stl_phys B (sm_state env + 0x7e74) (limit (ldt env)) env,
     \<lambda>env. stw_phys B (sm_state env + 0x7e72) (smm_attrib (flags (ldt env))) env,
     \<lambda>env. stq_phys B (sm_state env + 0x7e88) (base (idt env)) env,
     \<lambda>env. stl_phys B (sm_state env + 0x7e84) (limit (idt env)) env,
     \<lambda>env. stw_phys B (sm_state env + 0x7e90) (ucast (selector (tr env))) env,
     \<lambda>env. stq_phys B (sm_state env + 0x7e98) (base (tr env)) env,
     \<lambda>env. stl_phys B (sm_state env + 0x7e94) (limit (tr env)) env,
     \<lambda>env. stw_phys B (sm_state env + 0x7e92) (smm_attrib (flags (tr env))) env,
     \<lambda>env. stq_phys B (sm_state env + 0x7ed0) (efer env) env,
     \<lambda>env. stq_phys B (sm_state env + 0x7ff8) (regs env R_EAX) env,
     \<lambda>env. stq_phys B (sm_state env + 0x7ff0) (regs env R_ECX) env,
     \<lambda>env. stq_phys B (sm_state env + 0x7fe8) (regs env R_EDX) env,
     \<lambda>env. stq_phys B (sm_state env + 0x7fe0) (regs env R_EBX) env,
     \<lambda>env. stq_phys B (sm_state env + 0x7fd8) (regs env R_ESP) env,
     \<lambda>env. stq_phys B (sm_state env + 0x7fd0) (regs env R_EBP) env,
     \<lambda>env. stq_phys B (sm_state env + 0x7fc8) (regs env R_ESI) env,
     \<lambda>env. stq_phys B (sm_state env + 0x7fc0) (regs env R_EDI) env,
     fold (\<lambda>i env. stq_phys B (sm_state env + 0x7ff8 - of_nat i * 8) (regs env i) env) [8..<16],
     \<lambda>env. stq_phys B (sm_state env + 0x7f78) (eip env) env,
     \<lambda>env. stl_phys B (sm_state env + 0x7f70) (cpu_compute_eflags env) env,
     \<lambda>env. stl_phys B (sm_state env + 0x7f68) (ucast (dr env 6)) env,
     \<lambda>env. stl_phys B (sm_state env + 0x7f60) (ucast (dr env 7)) env,
     \<lambda>env. stl_phys B (sm_state env + 0x7f48) (ucast (cr env 4)) env,
     \<lambda>env. stl_phys B (sm_state env + 0x7f50) (ucast (cr env 3)) env,
     \<lambda>env. stl_phys B (sm_state env + 0x7f58) (ucast (cr env 0)) env,
     \<lambda>env. stl_phys B (sm_state env + 0x7efc) SMM_REVISION_ID env,
     \<lambda>env. stl_phys B (sm_state env + 0x7f00) (smbase env) env]"

section \<open>Entering and leaving\<close>

definition smm_init_state :: "'m CPUX86State_scheme \<Rightarrow> 'm CPUX86State_scheme" where
  "smm_init_state = block [
     \<lambda>env. cpu_load_efer env 0,
     \<lambda>env. cpu_load_eflags env 0 (NOT LAZY_MASK),
     \<lambda>env. env\<lparr>eip := 0x8000\<rparr>,
     \<lambda>env. cpu_x86_load_seg_cache env R_CS (drop_bit 4 (smbase env) AND 0xffff) (ucast (smbase env)) 0xffffffff 0,
     \<lambda>env. cpu_x86_load_seg_cache env R_DS 0 0 0xffffffff 0,
     \<lambda>env. cpu_x86_load_seg_cache env R_ES 0 0 0xffffffff 0,
     \<lambda>env. cpu_x86_load_seg_cache env R_SS 0 0 0xffffffff 0,
     \<lambda>env. cpu_x86_load_seg_cache env R_FS 0 0 0xffffffff 0,
     \<lambda>env. cpu_x86_load_seg_cache env R_GS 0 0 0xffffffff 0,
     \<lambda>env. cpu_x86_update_cr0 env
             (ucast (cr env 0 AND NOT (CR0_PE_MASK OR CR0_EM_MASK OR CR0_TS_MASK OR CR0_PG_MASK))),
     \<lambda>env. cpu_x86_update_cr4 env 0,
     \<lambda>env. set_dr 7 0x400 env,
     \<lambda>env. env\<lparr>cc_op := CC_OP_EFLAGS\<rparr>]"

definition do_smm_enter :: "'m cpu_bus \<Rightarrow> 'm CPUX86State_scheme \<Rightarrow> 'm CPUX86State_scheme" where
  "do_smm_enter B env =
    (let env = env\<lparr>hflags := hflags env OR HF_SMM_MASK\<rparr>;
         env = cpu_smm_update B env
     in smm_init_state (smm_save_state B env))"

definition smm_load_seg :: "'m cpu_bus \<Rightarrow> nat \<Rightarrow> 'm CPUX86State_scheme \<Rightarrow> 'm CPUX86State_scheme" where
  "smm_load_seg B i env =
    (let offset = 0x7e00 + of_nat i * 16
     in cpu_x86_load_seg_cache env i
          (ucast (lduw_phys B (sm_state env + offset) env))
          (ldq_phys B (sm_state env + offset + 8) env)
          (ldl_phys B (sm_state env + offset + 4) env)
          (smm_flags (lduw_phys B (sm_state env + offset + 2) env)))"

text \<open>A system segment, whose selector word lies at \<open>a\<close>.\<close>

definition smm_load_sys :: "'m cpu_bus \<Rightarrow> u64 \<Rightarrow> 'm CPUX86State_scheme \<Rightarrow> SegmentCache" where
  "smm_load_sys B a env =
    \<lparr>selector = ucast (lduw_phys B (sm_state env + a) env),
     base = ldq_phys B (sm_state env + a + 8) env,
     limit = ldl_phys B (sm_state env + a + 4) env,
     flags = smm_flags (lduw_phys B (sm_state env + a + 2) env)\<rparr>"

definition smm_load_state :: "'m cpu_bus \<Rightarrow> 'm CPUX86State_scheme \<Rightarrow> 'm CPUX86State_scheme" where
  "smm_load_state B = block [
     \<lambda>env. cpu_load_efer env (ldq_phys B (sm_state env + 0x7ed0) env),
     fold (smm_load_seg B) [0..<6],
     \<lambda>env. env\<lparr>gdt := (gdt env)\<lparr>base := ldq_phys B (sm_state env + 0x7e68) env\<rparr>\<rparr>,
     \<lambda>env. env\<lparr>gdt := (gdt env)\<lparr>limit := ldl_phys B (sm_state env + 0x7e64) env\<rparr>\<rparr>,
     \<lambda>env. env\<lparr>ldt := smm_load_sys B 0x7e70 env\<rparr>,
     \<lambda>env. env\<lparr>idt := (idt env)\<lparr>base := ldq_phys B (sm_state env + 0x7e88) env\<rparr>\<rparr>,
     \<lambda>env. env\<lparr>idt := (idt env)\<lparr>limit := ldl_phys B (sm_state env + 0x7e84) env\<rparr>\<rparr>,
     \<lambda>env. env\<lparr>tr := smm_load_sys B 0x7e90 env\<rparr>,
     \<lambda>env. set_reg R_EAX (ldq_phys B (sm_state env + 0x7ff8) env) env,
     \<lambda>env. set_reg R_ECX (ldq_phys B (sm_state env + 0x7ff0) env) env,
     \<lambda>env. set_reg R_EDX (ldq_phys B (sm_state env + 0x7fe8) env) env,
     \<lambda>env. set_reg R_EBX (ldq_phys B (sm_state env + 0x7fe0) env) env,
     \<lambda>env. set_reg R_ESP (ldq_phys B (sm_state env + 0x7fd8) env) env,
     \<lambda>env. set_reg R_EBP (ldq_phys B (sm_state env + 0x7fd0) env) env,
     \<lambda>env. set_reg R_ESI (ldq_phys B (sm_state env + 0x7fc8) env) env,
     \<lambda>env. set_reg R_EDI (ldq_phys B (sm_state env + 0x7fc0) env) env,
     fold (\<lambda>i env. set_reg i (ldq_phys B (sm_state env + 0x7ff8 - of_nat i * 8) env) env) [8..<16],
     \<lambda>env. env\<lparr>eip := ldq_phys B (sm_state env + 0x7f78) env\<rparr>,
     \<lambda>env. cpu_load_eflags env (ldl_phys B (sm_state env + 0x7f70) env) (NOT LAZY_MASK),
     \<lambda>env. set_dr 6 (ucast (ldl_phys B (sm_state env + 0x7f68) env)) env,
     \<lambda>env. set_dr 7 (ucast (ldl_phys B (sm_state env + 0x7f60) env)) env,
     \<lambda>env. cpu_x86_update_cr4 env (ldl_phys B (sm_state env + 0x7f48) env),
     \<lambda>env. cpu_x86_update_cr3 env (ucast (ldl_phys B (sm_state env + 0x7f50) env)),
     \<lambda>env. cpu_x86_update_cr0 env (ldl_phys B (sm_state env + 0x7f58) env)]"

text \<open>
  The new \<open>smbase\<close> is \<open>val & ~0x7fff\<close>.  The area is at the old one throughout:
  \<open>sm_state\<close> is computed once.
\<close>

definition helper_rsm :: "'m cpu_bus \<Rightarrow> 'm CPUX86State_scheme \<Rightarrow> 'm CPUX86State_scheme" where
  "helper_rsm B env =
    (let env = smm_load_state B env;
         val = ldl_phys B (sm_state env + 0x7efc) env;
         env = (if val AND 0x20000 \<noteq> 0
                then env\<lparr>smbase := ldl_phys B (sm_state env + 0x7f00) env AND NOT 0x7fff\<rparr> else env);
         env = env\<lparr>cc_op := CC_OP_EFLAGS\<rparr>;
         env = env\<lparr>hflags := hflags env AND NOT HF_SMM_MASK\<rparr>
     in cpu_smm_update B env)"

section \<open>What a handler returns to\<close>

text \<open>The fields of the state save area, statement by statement.\<close>

definition smm_seg_fields :: "SegmentCache \<Rightarrow> nat \<Rightarrow> field list" where
  "smm_seg_fields dt off =
    [(off, 2, ucast (ucast (selector dt) :: u16)), (off + 2, 2, ucast (smm_attrib (flags dt))),
     (off + 4, 4, ucast (limit dt)), (off + 8, 8, base dt)]"

definition smm_fields :: "'m CPUX86State_scheme \<Rightarrow> field list list" where
  "smm_fields env =
    [concat (map (\<lambda>i. smm_seg_fields (segs env i) (0x7e00 + i * 16)) [0..<6]),
     [(0x7e68, 8, base (gdt env))], [(0x7e64, 4, ucast (limit (gdt env)))],
     [(0x7e70, 2, ucast (ucast (selector (ldt env)) :: u16))], [(0x7e78, 8, base (ldt env))],
     [(0x7e74, 4, ucast (limit (ldt env)))], [(0x7e72, 2, ucast (smm_attrib (flags (ldt env))))],
     [(0x7e88, 8, base (idt env))], [(0x7e84, 4, ucast (limit (idt env)))],
     [(0x7e90, 2, ucast (ucast (selector (tr env)) :: u16))], [(0x7e98, 8, base (tr env))],
     [(0x7e94, 4, ucast (limit (tr env)))], [(0x7e92, 2, ucast (smm_attrib (flags (tr env))))],
     [(0x7ed0, 8, efer env)],
     [(0x7ff8, 8, regs env R_EAX)], [(0x7ff0, 8, regs env R_ECX)], [(0x7fe8, 8, regs env R_EDX)],
     [(0x7fe0, 8, regs env R_EBX)], [(0x7fd8, 8, regs env R_ESP)], [(0x7fd0, 8, regs env R_EBP)],
     [(0x7fc8, 8, regs env R_ESI)], [(0x7fc0, 8, regs env R_EDI)],
     concat (map (\<lambda>i. [(0x7ff8 - i * 8, 8, regs env i)]) [8..<16]),
     [(0x7f78, 8, eip env)], [(0x7f70, 4, ucast (cpu_compute_eflags env))],
     [(0x7f68, 4, ucast (ucast (dr env 6) :: u32))], [(0x7f60, 4, ucast (ucast (dr env 7) :: u32))],
     [(0x7f48, 4, ucast (ucast (cr env 4) :: u32))], [(0x7f50, 4, ucast (ucast (cr env 3) :: u32))],
     [(0x7f58, 4, ucast (ucast (cr env 0) :: u32))],
     [(0x7efc, 4, ucast SMM_REVISION_ID)], [(0x7f00, 4, ucast (smbase env))]]"

lemma smm_fields_separate: "separate_fields (layout (concat (smm_fields env)))"
  by (simp add: smm_fields_def smm_seg_fields_def upt_conv_Cons)

lemma save_seg_writes:
  assumes "phys_ram B mem" "i < 6"
  shows "writes mem env (sm_state env) (smm_save_seg B i) (smm_seg_fields (segs env i) (0x7e00 + i * 16))"
  unfolding writes_def
proof (intro allI impI)
  fix s :: "'a CPUX86State_scheme"
  assume s: "CPUX86State.truncate s = CPUX86State.truncate env"
  have off: "sm_state s = sm_state env" "segs s = segs env" using same_regs [OF s] by (simp_all add: sm_state_def)
  show "CPUX86State.truncate (smm_save_seg B i s) = CPUX86State.truncate env \<and>
      mem (CPUX86State.more (smm_save_seg B i s)) =
      puts (sm_state env) (smm_seg_fields (segs env i) (0x7e00 + i * 16)) (mem (CPUX86State.more s))"
    by (simp add: smm_save_seg_def smm_seg_fields_def Let_def off phys_ramD [OF assms(1)]
        regs_frameD [OF phys_ramD(1) [OF assms(1)]] s store_bytes_up add.assoc)
qed

lemma save_state_writes:
  assumes "phys_ram B mem"
  shows "writes mem env (sm_state env) (smm_save_state B) (concat (smm_fields env))"
proof -
  have sel: "sm_state s = sm_state env" if "CPUX86State.truncate s = CPUX86State.truncate env" for s :: "'a CPUX86State_scheme"
    using same_regs [OF that] by (simp add: sm_state_def)
  have segs: "writes mem env (sm_state env) (fold (smm_save_seg B) [0..<6])
      (concat (map (\<lambda>i. smm_seg_fields (segs env i) (0x7e00 + i * 16)) [0..<6]))"
    by (rule writes_fold) (simp add: list_all2_map2 list_all2_same save_seg_writes [OF assms])
  have rest: "writes mem env (sm_state env) (fold (\<lambda>i env. stq_phys B (sm_state env + 0x7ff8 - of_nat i * 8) (regs env i) env) [8..<16])
      (concat (map (\<lambda>i. [(0x7ff8 - i * 8, 8, regs env i)]) [8..<16]))"
  proof (rule writes_fold, simp only: list_all2_map2 list_all2_same, intro ballI writes_store(3) [OF assms] conjI)
    fix i and s :: "'a CPUX86State_scheme"
    assume i: "i \<in> set [8..<16]" and s: "CPUX86State.truncate s = CPUX86State.truncate env"
    show "sm_state s + 0x7ff8 - of_nat i * 8 = sm_state env + of_nat (0x7ff8 - i * 8)"
      using i by (auto simp: sel [OF s])
    show "regs s i = regs env i" using same_regs [OF s] by simp
  qed
  have eqs: "sm_state s = sm_state env \<and> smbase s = smbase env \<and> gdt s = gdt env \<and> ldt s = ldt env \<and> idt s = idt env \<and>
      tr s = tr env \<and> efer s = efer env \<and> regs s = regs env \<and> eip s = eip env \<and> dr s = dr env \<and> cr s = cr env \<and>
      cpu_compute_eflags s = cpu_compute_eflags env"
    if "CPUX86State.truncate s = CPUX86State.truncate env" for s :: "'a CPUX86State_scheme"
    using same_regs [OF that] by (simp add: sm_state_def compute_eflags_cong [of s env])
  show ?thesis
    unfolding smm_save_state_def smm_fields_def
    by (rule writes_block, simp only: list_all2_Cons list_all2_Nil simp_thms segs rest, intro conjI;
        rule writes_store [OF assms]; auto dest!: eqs)
qed

text \<open>What the operations of a return leave alone.\<close>

lemma smbase_frame [simp]:
  "smbase (ext_call c env) = smbase env"
  "smbase (cpu_load_efer env v) = smbase env"
  "smbase (cpu_load_eflags env w m) = smbase env"
  "smbase (cpu_x86_load_seg_cache env r sel b l f) = smbase env"
  "smbase (cpu_x86_update_cr0 env w) = smbase env"
  "smbase (cpu_x86_update_cr3 env v) = smbase env"
  "smbase (cpu_x86_update_cr4 env w) = smbase env"
  by (simp_all add: cpu_load_efer_def cpu_load_eflags_def cpu_x86_load_seg_cache_def load_seg_cs_hflags_def
      cpu_x86_update_cr0_def cpu_x86_update_cr3_def cpu_x86_update_cr4_def Let_def ext_call_def)

lemma sys_segs_frame [simp]:
  "ldt (cpu_load_efer env v) = ldt env" "tr (cpu_load_efer env v) = tr env"
  "ldt (cpu_load_eflags env w m) = ldt env" "tr (cpu_load_eflags env w m) = tr env"
  "ldt (cpu_x86_update_cr0 env w) = ldt env" "tr (cpu_x86_update_cr0 env w) = tr env"
  "ldt (cpu_x86_update_cr3 env v) = ldt env" "tr (cpu_x86_update_cr3 env v) = tr env"
  "ldt (cpu_x86_update_cr4 env w) = ldt env" "tr (cpu_x86_update_cr4 env w) = tr env"
  "cr env 0 AND CR0_PG_MASK = 0 \<Longrightarrow> eip (cpu_x86_update_cr0 env w) = eip env"
  "efer (cpu_x86_load_seg_cache env r sel b l f) = efer env" "cr (cpu_x86_load_seg_cache env r sel b l f) = cr env"
  "regs (cpu_x86_load_seg_cache env r sel b l f) = regs env"
  "segs (cpu_x86_load_seg_cache env r sel b l f) = (segs env)(r := \<lparr>selector = sel, base = b, limit = l, flags = f\<rparr>)"
  by (simp_all add: cpu_load_efer_def cpu_load_eflags_def cpu_x86_load_seg_cache_def load_seg_cs_hflags_def
      cpu_x86_update_cr0_def cpu_x86_update_cr3_def cpu_x86_update_cr4_def Let_def ext_call_def)

abbreviation (input) smram_view :: "'m CPUX86State_scheme \<Rightarrow> u32 \<times> 'm" where
  "smram_view env \<equiv> (smbase env, CPUX86State.more env)"

lemma smm_load_seg_frame [simp]:
  "smbase (smm_load_seg B i env) = smbase env" "CPUX86State.more (smm_load_seg B i env) = CPUX86State.more env"
  "regs (smm_load_seg B i env) = regs env" "efer (smm_load_seg B i env) = efer env" "cr (smm_load_seg B i env) = cr env"
  "segs (smm_load_seg B i env) = (segs env)(i := smm_load_sys B (0x7e00 + of_nat i * 16) env)"
  by (simp_all add: smm_load_seg_def smm_load_sys_def Let_def add.assoc)

text \<open>What RSM makes of each register.\<close>

lemma efer_update_cr0:
  "efer (cpu_x86_update_cr0 env v) =
    (if cr env 0 AND CR0_PG_MASK = 0 \<and> v AND CR0_PG_MASK \<noteq> 0 \<and> efer env AND MSR_EFER_LME \<noteq> 0
     then if cr env 4 AND CR4_PAE_MASK = 0 then efer env else efer env OR MSR_EFER_LMA
     else if cr env 0 AND CR0_PG_MASK \<noteq> 0 \<and> v AND CR0_PG_MASK = 0 \<and> efer env AND MSR_EFER_LMA \<noteq> 0
     then efer env AND NOT MSR_EFER_LMA else efer env)"
  by (simp add: cpu_x86_update_cr0_def Let_def ext_call_def)

lemma smm_load_written:
  fixes B :: "'m cpu_bus" and r :: "'m CPUX86State_scheme"
  assumes ram: "phys_ram B mem"
  defines "t \<equiv> smm_load_state B r" and "M \<equiv> mem (CPUX86State.more r)" and "a \<equiv> sm_state r"
  shows "i < 16 \<Longrightarrow> regs t i = load64 M (a + of_nat (0x7ff8 - i * 8))"
    and "cr r 0 AND CR0_PG_MASK = 0 \<Longrightarrow> eip t = load64 M (a + 0x7f78)"
    and "cr r 0 AND CR0_PG_MASK = 0 \<Longrightarrow> efer t = load64 M (a + 0x7ed0) \<or>
      efer t = load64 M (a + 0x7ed0) OR MSR_EFER_LMA \<and> load32 M (a + 0x7f58) AND CR0_PG_MASK \<noteq> 0 \<and>
        load64 M (a + 0x7ed0) AND MSR_EFER_LME \<noteq> 0"
    and "i < 6 \<Longrightarrow> segs t i = smm_load_sys B (0x7e00 + of_nat i * 16) r"
    and "ldt t = smm_load_sys B 0x7e70 r" "tr t = smm_load_sys B 0x7e90 r"
    and "base (gdt t) = load64 M (a + 0x7e68)" "limit (gdt t) = load32 M (a + 0x7e64)"
    and "base (idt t) = load64 M (a + 0x7e88)" "limit (idt t) = load32 M (a + 0x7e84)"
    and "dr t 6 = ucast (load32 M (a + 0x7f68))" "dr t 7 = ucast (load32 M (a + 0x7f60))"
    and "cr t 3 = ucast (load32 M (a + 0x7f50))"
    and "smbase t = smbase r" "CPUX86State.more t = CPUX86State.more r"
proof -
  note sim = upt_conv_Cons t_def M_def a_def smm_load_state_def sm_state_def phys_ramD [OF ram] smm_load_sys_def add.commute [of _ "ucast (smbase r + 0x8000)"]
  show "i < 16 \<Longrightarrow> regs t i = load64 M (a + of_nat (0x7ff8 - i * 8))"
    by (simp add: sim) (auto simp: numeral_eq_Suc less_Suc_eq add.commute)
  show "cr r 0 AND CR0_PG_MASK = 0 \<Longrightarrow> eip t = load64 M (a + 0x7f78)" by (simp add: sim)
  show "efer t = load64 M (a + 0x7ed0) \<or>
      efer t = load64 M (a + 0x7ed0) OR MSR_EFER_LMA \<and> load32 M (a + 0x7f58) AND CR0_PG_MASK \<noteq> 0 \<and>
        load64 M (a + 0x7ed0) AND MSR_EFER_LME \<noteq> 0" if pg: "cr r 0 AND CR0_PG_MASK = 0"
    using pg by (simp add: sim efer_update_cr0)
  show "i < 6 \<Longrightarrow> segs t i = smm_load_sys B (0x7e00 + of_nat i * 16) r"
    by (simp add: sim) (auto simp: numeral_eq_Suc less_Suc_eq add.commute)
  show "ldt t = smm_load_sys B 0x7e70 r" "tr t = smm_load_sys B 0x7e90 r" by (simp_all add: sim)
  show "base (gdt t) = load64 M (a + 0x7e68)" "limit (gdt t) = load32 M (a + 0x7e64)"
    "base (idt t) = load64 M (a + 0x7e88)" "limit (idt t) = load32 M (a + 0x7e84)" by (simp_all add: sim)
  show "dr t 6 = ucast (load32 M (a + 0x7f68))" "dr t 7 = ucast (load32 M (a + 0x7f60))" by (simp_all add: sim)
  show "cr t 3 = ucast (load32 M (a + 0x7f50))" by (simp add: sim cr_update_cr0)
  show "smbase t = smbase r" "CPUX86State.more t = CPUX86State.more r" by (simp_all add: sim)
qed

text \<open>What the save area holds when the handler starts.\<close>

lemma smm_enter_mem:
  assumes "phys_ram B mem" "\<And>s. CPUX86State.truncate (cpu_smm_update B s) = CPUX86State.truncate s"
  shows "\<exists>M. mem (CPUX86State.more (do_smm_enter B env)) = puts (sm_state env) (concat (smm_fields env)) M"
proof -
  define s where "s = cpu_smm_update B (env\<lparr>hflags := hflags env OR HF_SMM_MASK\<rparr>)"
  have s: "CPUX86State.truncate s = CPUX86State.truncate (env\<lparr>hflags := hflags env OR HF_SMM_MASK\<rparr>)"
    unfolding s_def by (rule assms(2))
  have "sm_state s = sm_state env" "smm_fields s = smm_fields env"
    using same_regs [OF s] compute_eflags_cong [of s env] by (simp_all add: sm_state_def smm_fields_def)
  moreover have "mem (CPUX86State.more (smm_save_state B s)) = puts (sm_state s) (concat (smm_fields s)) (mem (CPUX86State.more s))"
    using save_state_writes [OF assms(1), of s] by (simp add: writes_def)
  moreover have "CPUX86State.more (smm_init_state t) = CPUX86State.more t" for t :: "'a CPUX86State_scheme"
    unfolding smm_init_state_def by (rule block_frame) auto
  ultimately show ?thesis by (auto simp: do_smm_enter_def Let_def simp flip: s_def)
qed

lemma smm_same:
  assumes "same_bytes (a + 0x7e00) 0x200 M M'" "off \<le> 0x1f8"
  shows "load64 M (a + of_nat (0x7e00 + off)) = load64 M' (a + of_nat (0x7e00 + off))"
    "load32 M (a + of_nat (0x7e00 + off)) = load32 M' (a + of_nat (0x7e00 + off))"
    "load16 M (a + of_nat (0x7e00 + off)) = load16 M' (a + of_nat (0x7e00 + off))"
proof -
  have "unat (of_nat off :: u64) + 8 \<le> 0x200" using assms(2) by (simp add: unat_of_nat)
  note eq = same_bytes_load [OF assms(1) this]
  show "load64 M (a + of_nat (0x7e00 + off)) = load64 M' (a + of_nat (0x7e00 + off))"
    "load32 M (a + of_nat (0x7e00 + off)) = load32 M' (a + of_nat (0x7e00 + off))"
    "load16 M (a + of_nat (0x7e00 + off)) = load16 M' (a + of_nat (0x7e00 + off))"
    using eq by (simp_all add: add.assoc)
qed

text \<open>A segment up to what the save area holds of it: a 16-bit selector and the attribute bits.\<close>

abbreviation (input) smm_seg :: "SegmentCache \<Rightarrow> SegmentCache" where
  "smm_seg sc \<equiv> sc\<lparr>selector := selector sc AND 0xffff, flags := flags sc AND 0x00f0ff00\<rparr>"

lemma smm_attrib_roundtrip: "smm_flags (smm_attrib fl) = fl AND 0x00f0ff00"
proof -
  have m: "(0xf0ff :: u32) = mask 8 OR push_bit 12 (mask 4)" "(0x00f0ff00 :: u32) = push_bit 8 (mask 8) OR push_bit 20 (mask 4)"
    by (simp_all add: mask_eq_exp_minus_1 push_bit_eq_mult)
  show ?thesis unfolding smm_flags_def smm_attrib_def m by (rule bit_word_eqI) (auto simp: bit_simps)
qed

lemma smm_sys_loaded:
  assumes ram: "phys_ram B mem" and fs: "separate_fields (layout es)"
    and "set (smm_seg_fields sc off) \<subseteq> set es" "0x7e00 \<le> off" "off \<le> 0x7fe0"
    and "same_bytes (sm_state r + 0x7e00) 0x200 (mem (CPUX86State.more r)) (puts (sm_state r) es M)"
  shows "smm_load_sys B (of_nat off) r = smm_seg sc"
proof -
  obtain k where k: "off = 0x7e00 + k" "k \<le> 0x1e0" using assms(4,5) by (metis le_add_diff_inverse nat_add_left_cancel_le numeral_plus_numeral semiring_norm(2-7))
  have at: "sm_state r + of_nat off + of_nat d = sm_state r + of_nat (0x7e00 + (k + d))" for d
    by (simp add: k(1) add.assoc)
  have "load16 (mem (CPUX86State.more r)) (sm_state r + of_nat off) = ucast (ucast (ucast (selector sc) :: u16) :: u64)"
    "load16 (mem (CPUX86State.more r)) (sm_state r + of_nat off + 2) = ucast (ucast (smm_attrib (flags sc)) :: u64)"
    "load32 (mem (CPUX86State.more r)) (sm_state r + of_nat off + 4) = ucast (ucast (limit sc) :: u64)"
    "load64 (mem (CPUX86State.more r)) (sm_state r + of_nat off + 8) = base sc"
    using smm_same(3) [OF assms(6), of k] smm_same(3) [OF assms(6), of "k + 2"] smm_same(2) [OF assms(6), of "k + 4"]
      smm_same(1) [OF assms(6), of "k + 8"] k
      puts_load(1) [OF fs, of off _ "sm_state r" M] puts_load(1) [OF fs, of "off + 2" _ "sm_state r" M]
      puts_load(2) [OF fs, of "off + 4" _ "sm_state r" M] puts_load(3) [OF fs, of "off + 8" _ "sm_state r" M]
      assms(3) at [of 2] at [of 4] at [of 8]
    by (simp_all add: smm_seg_fields_def add.assoc)
  moreover have "ucast (ucast (selector sc) :: u16) = selector sc AND 0xffff" by (rule and_mask_u16)
  moreover have "ucast (ucast (w :: u16) :: u64) = w" for w
    by (rule bit_word_eqI) (auto simp: bit_simps dest: bit_imp_le_length)
  ultimately show ?thesis
    by (cases sc) (simp add: smm_load_sys_def phys_ramD [OF ram] smm_attrib_roundtrip ucast_down_up)
qed

lemma rsm_fields:
  fixes B :: "'m cpu_bus" and r :: "'m CPUX86State_scheme"
  assumes "\<And>s. CPUX86State.truncate (cpu_smm_update B s) = CPUX86State.truncate s"
  defines "t \<equiv> helper_rsm B r" and "u \<equiv> smm_load_state B r"
  shows "regs t = regs u" "eip t = eip u" "efer t = efer u" "segs t = segs u" "ldt t = ldt u" "tr t = tr u"
    "gdt t = gdt u" "idt t = idt u" "dr t = dr u" "cr t = cr u" "\<not> bit (hflags t) 19"
proof -
  note eq = same_regs [OF assms(1)]
  have "(HF_SMM_MASK :: u32) = 2 ^ 19" by simp
  then have "\<not> bit (w AND NOT HF_SMM_MASK) 19" for w :: u32
    by (simp only: bit_and_iff bit_not_iff bit_exp_iff) simp
  then show "\<not> bit (hflags t) 19" by (simp add: t_def helper_rsm_def Let_def eq)
qed (simp_all add: t_def u_def helper_rsm_def Let_def same_regs [OF assms(1)])

lemma smm_reg_field:
  assumes "i < 16"
  shows "(0x7ff8 - i * 8, 8, regs env i) \<in> set (concat (smm_fields env))"
proof (cases "i < 8")
  case True
  have "i \<in> {0, 1, 2, 3, 4, 5, 6, 7}" using True by auto
  then have "[(0x7ff8 - i * 8, 8, regs env i)] \<in> {[(0x7ff8, 8, regs env R_EAX)], [(0x7ff0, 8, regs env R_ECX)],
      [(0x7fe8, 8, regs env R_EDX)], [(0x7fe0, 8, regs env R_EBX)], [(0x7fd8, 8, regs env R_ESP)],
      [(0x7fd0, 8, regs env R_EBP)], [(0x7fc8, 8, regs env R_ESI)], [(0x7fc0, 8, regs env R_EDI)]}"
    by (elim insertE emptyE) (simp_all del: One_nat_def)
  also have "\<dots> \<subseteq> set (smm_fields env)"
    by (simp only: smm_fields_def list.set insert_subset empty_subsetI insert_iff simp_thms)
  finally have "[(0x7ff8 - i * 8, 8, regs env i)] \<in> set (smm_fields env)" .
  then show ?thesis unfolding set_concat by (rule UN_I) simp
next
  case False
  have "concat (map (\<lambda>i. [(0x7ff8 - i * 8, 8, regs env i)]) [8..<16]) \<in> set (smm_fields env)"
    unfolding smm_fields_def list.set by blast
  moreover have "[(0x7ff8 - i * 8, 8, regs env i)] \<in> (\<lambda>i. [(0x7ff8 - i * 8, 8, regs env i)]) ` set [8..<16]"
    using False assms unfolding set_upt by (intro imageI) (simp only: atLeastLessThan_iff not_less simp_thms)
  then have "(0x7ff8 - i * 8, 8, regs env i) \<in> set (concat (map (\<lambda>i. [(0x7ff8 - i * 8, 8, regs env i)]) [8..<16]))"
    unfolding set_concat set_map by (rule UN_I) simp
  ultimately show ?thesis unfolding set_concat [of "smm_fields env"] by (rule UN_I)
qed

lemma smm_segs_fields:
  assumes "i < 6"
  shows "set (smm_seg_fields (segs env i) (0x7e00 + i * 16)) \<subseteq> set (concat (smm_fields env))"
proof -
  have "set (smm_seg_fields (segs env i) (0x7e00 + i * 16)) \<subseteq>
      set (concat (map (\<lambda>i. smm_seg_fields (segs env i) (0x7e00 + i * 16)) [0..<6]))"
    unfolding set_concat set_map using assms by (intro UN_upper) simp
  also have "\<dots> \<subseteq> set (concat (smm_fields env))"
    unfolding smm_fields_def concat.simps(2) set_append by (rule Un_upper1)
  finally show ?thesis .
qed

text \<open>
  C6: RSM undoes the entry into system management mode.  Whatever the handler did, if it has left
  paging off, \<open>smbase\<close> alone and the state save area unwritten, the interrupted program goes on with
  all general registers, the instruction pointer, EFER, the descriptor tables and the segments
  (up to the attribute bits the save area holds) it had.  Of CR3 and the debug registers only the
  lower halves survive: the code saves them with 32-bit stores.
\<close>
theorem smm_roundtrip:
  fixes B :: "'m cpu_bus" and env r :: "'m CPUX86State_scheme"
  defines "e \<equiv> do_smm_enter B env" and "t \<equiv> helper_rsm B r"
  assumes "phys_ram B mem" "\<And>s. CPUX86State.truncate (cpu_smm_update B s) = CPUX86State.truncate s"
    and "smbase r = smbase env" "cr r 0 AND CR0_PG_MASK = 0"
    and "same_bytes (sm_state env + 0x7e00) 0x200 (mem (CPUX86State.more r)) (mem (CPUX86State.more e))"
    and "ucast (cr env 0) AND (CR0_PG_MASK :: u32) \<noteq> 0 \<Longrightarrow> efer env AND MSR_EFER_LME \<noteq> 0 \<Longrightarrow> bit (efer env) 10"
  shows "(\<forall>i\<in>{0..<16}. regs t i = regs env i) \<and> eip t = eip env \<and> efer t = efer env \<and>
    (\<forall>i\<in>{0..<6}. segs t i = smm_seg (segs env i)) \<and> ldt t = smm_seg (ldt env) \<and> tr t = smm_seg (tr env) \<and>
    base (gdt t) = base (gdt env) \<and> limit (gdt t) = limit (gdt env) \<and>
    base (idt t) = base (idt env) \<and> limit (idt t) = limit (idt env) \<and>
    cr t 3 = ucast (ucast (cr env 3) :: u32) \<and> dr t 6 = ucast (ucast (dr env 6) :: u32) \<and>
    dr t 7 = ucast (ucast (dr env 7) :: u32) \<and> \<not> bit (hflags t) 19"
proof -
  let ?es = "concat (smm_fields env)"
  obtain M where M: "mem (CPUX86State.more e) = puts (sm_state env) ?es M"
    using smm_enter_mem [OF assms(3,4)] unfolding e_def by blast
  have a: "sm_state r = sm_state env" using assms(5) by (simp add: sm_state_def)
  note same = assms(7) [unfolded M a [symmetric]]
  note sep = smm_fields_separate [of env]
  have q: "load64 (mem (CPUX86State.more r)) (sm_state r + of_nat (0x7e00 + k)) = v" if "(0x7e00 + k, 8, v) \<in> set ?es" "k \<le> 0x1f8" for k v
    using smm_same(1) [OF same that(2)] puts_load(3) [OF sep that(1), of "sm_state r" M] by simp
  have l: "load32 (mem (CPUX86State.more r)) (sm_state r + of_nat (0x7e00 + k)) = v" if "(0x7e00 + k, 4, ucast v) \<in> set ?es" "k \<le> 0x1f8" for k v
    using smm_same(2) [OF same that(2)] puts_load(2) [OF sep that(1), of "sm_state r" M] by (simp add: ucast_down_up)
  have s: "smm_load_sys B (of_nat (0x7e00 + k)) r = smm_seg sc"
    if "set (smm_seg_fields sc (0x7e00 + k)) \<subseteq> set ?es" "k \<le> 0x1e0" for k sc
    using smm_sys_loaded [OF assms(3) sep that(1) _ _ same] that(2) by simp
  note w = smm_load_written [OF assms(3), where r = r] and f = rsm_fields [OF assms(4), of r, folded t_def]
  have regs: "regs t i = regs env i" if "i < 16" for i
  proof -
    have "(0x7ff8 - i * 8, 8, regs env i) \<in> set ?es" using that by (rule smm_reg_field)
    moreover obtain k where k: "0x7ff8 - i * 8 = 0x7e00 + k" "k \<le> 0x1f8"
      by (rule that [of "0x1f8 - i * 8"]) (use \<open>i < 16\<close> in arith)+
    ultimately have "load64 (mem (CPUX86State.more r)) (sm_state r + of_nat (0x7ff8 - i * 8)) = regs env i"
      unfolding k(1) by (intro q k(2))
    then show ?thesis using w(1) [OF that] f(1) by simp
  qed
  have segs: "segs t i = smm_seg (segs env i)" if "i < 6" for i
  proof -
    have "set (smm_seg_fields (segs env i) (0x7e00 + i * 16)) \<subseteq> set ?es"
      using that by (rule smm_segs_fields)
    from s [OF this] show ?thesis using w(4) [OF that] that f(4) by simp
  qed
  have "eip t = eip env" using q [of "0x178" "eip env"] w(2) [OF assms(6)] f(2) by (simp add: smm_fields_def)
  moreover have "efer t = efer env"
  proof -
    have "efer env OR MSR_EFER_LMA = efer env" if "bit (efer env) 10"
    proof -
      have "efer env OR 2 ^ 10 = efer env"
        by (rule bit_word_eqI) (use that in \<open>simp only: bit_or_iff bit_exp_iff, blast\<close>)
      then show ?thesis by simp
    qed
    then show ?thesis
      using q [of "0xd0" "efer env"] l [of "0x158" "ucast (cr env 0)"] w(3) [OF assms(6)] f(3) assms(8)
      by (auto simp: smm_fields_def)
  qed
  moreover have "ldt t = smm_seg (ldt env)"
    using s [of "ldt env" "0x70"] w(5) f(5) by (simp add: smm_fields_def smm_seg_fields_def)
  moreover have "tr t = smm_seg (tr env)"
    using s [of "tr env" "0x90"] w(6) f(6) by (simp add: smm_fields_def smm_seg_fields_def)
  moreover have "base (gdt t) = base (gdt env)" "limit (gdt t) = limit (gdt env)"
    using q [of "0x68" "base (gdt env)"] l [of "0x64" "limit (gdt env)"] w(7,8) f(7) by (simp_all add: smm_fields_def)
  moreover have "base (idt t) = base (idt env)" "limit (idt t) = limit (idt env)"
    using q [of "0x88" "base (idt env)"] l [of "0x84" "limit (idt env)"] w(9,10) f(8) by (simp_all add: smm_fields_def)
  moreover have "cr t 3 = ucast (ucast (cr env 3) :: u32)" "dr t 6 = ucast (ucast (dr env 6) :: u32)"
    "dr t 7 = ucast (ucast (dr env 7) :: u32)"
    using l [of "0x150" "ucast (cr env 3)"] l [of "0x168" "ucast (dr env 6)"] l [of "0x160" "ucast (dr env 7)"] w(11-13) f(9,10)
    by (simp_all add: smm_fields_def)
  ultimately show ?thesis using regs segs f(11) by simp
qed

theorem smm_roundtrip_witness:
  "let env = ram_zero\<lparr>eip := 0x1234, regs := (\<lambda>_. 0)(4 := 0x7c00)\<rparr>;
       r = set_ram (ram (do_smm_enter flat_bus env)) ram_zero
   in regs (helper_rsm flat_bus r) 4 = 0x7c00 \<and> eip (helper_rsm flat_bus r) = 0x1234"
proof -
  let ?env = "ram_zero\<lparr>eip := 0x1234, regs := (\<lambda>_. 0)(4 := 0x7c00)\<rparr>"
  let ?r = "set_ram (ram (do_smm_enter flat_bus ?env)) ram_zero"
  have "CPUX86State.truncate (cpu_smm_update flat_bus s) = CPUX86State.truncate s" for s
    by (simp add: flat_bus_def)
  from smm_roundtrip [OF flat_phys_ram this, of ?r ?env] show ?thesis
    by (simp add: same_bytes_def Let_def)
qed

end
