(* ===== verification/IntHelper.thy ===== *)
theory IntHelper
  imports ExcpHelper "HOL-Library.Signed_Division"
begin

text \<open>
  Division, BCD adjustment, 128-bit multiplication and division and bit scans, after
  \<open>int_helper.c\<close>.  The helpers update EAX and EDX and report a divide error through
  \<open>raise_exception\<close>; a signed division that overflows in C, or divides by zero, stops with
  \<open>HostUndefined\<close>.  The 64-by-64 multiplications \<open>mulu64\<close> and \<open>muls64\<close>
  (\<open>qemu/host-utils.h\<close>, outside the repository) are parameters that return the low and the
  high half of the product.
\<close>

section \<open>Signed division in C\<close>

definition c_overflows :: "'a::len word \<Rightarrow> 'a word \<Rightarrow> bool" where
  "c_overflows a b \<longleftrightarrow> b = 0 \<or> sint a = - (2 ^ (LENGTH('a) - 1)) \<and> sint b = - 1"

definition c_div :: "'a::len word \<Rightarrow> 'a word \<Rightarrow> 'a word" where
  "c_div a b = word_of_int (sint a sdiv sint b)"

definition c_mod :: "'a::len word \<Rightarrow> 'a word \<Rightarrow> 'a word" where
  "c_mod a b = word_of_int (sint a smod sint b)"

section \<open>Division helpers\<close>

definition set_ax :: "u32 \<Rightarrow> 'm CPUX86State_scheme \<Rightarrow> 'm CPUX86State_scheme" where
  "set_ax v env = set_reg R_EAX ((EAX env AND NOT 0xffff) OR ucast v) env"

definition set_dx :: "u32 \<Rightarrow> 'm CPUX86State_scheme \<Rightarrow> 'm CPUX86State_scheme" where
  "set_dx v env = set_reg R_EDX ((EDX env AND NOT 0xffff) OR ucast v) env"

definition helper_divb_AL :: "'m cpu_bus \<Rightarrow> u64 \<Rightarrow> (unit, 'm) helper" where
  "helper_divb_AL B t0 env =
    (let num = ucast (EAX env AND 0xffff) :: u32; den = ucast (t0 AND 0xff) :: u32
     in if den = 0 then raise_exception B EXCP00_DIVZ env
        else (let q = num div den
              in if q > 0xff then raise_exception B EXCP00_DIVZ env
                 else (let q = q AND 0xff; r = (num mod den) AND 0xff
                       in Done () (set_ax (push_bit 8 r OR q) env))))"

definition helper_idivb_AL :: "'m cpu_bus \<Rightarrow> u64 \<Rightarrow> (unit, 'm) helper" where
  "helper_idivb_AL B t0 env =
    (let num = scast (ucast (EAX env) :: u16) :: u32; den = scast (ucast t0 :: u8) :: u32
     in if den = 0 then raise_exception B EXCP00_DIVZ env
        else if c_overflows num den then Stop HostUndefined env
        else (let q = c_div num den
              in if q \<noteq> scast (ucast q :: u8) then raise_exception B EXCP00_DIVZ env
                 else (let q = q AND 0xff; r = c_mod num den AND 0xff
                       in Done () (set_ax (push_bit 8 r OR q) env))))"

definition dx_ax :: "'m CPUX86State_scheme \<Rightarrow> u32" where
  "dx_ax env = ucast ((EAX env AND 0xffff) OR push_bit 16 (EDX env AND 0xffff))"

definition helper_divw_AX :: "'m cpu_bus \<Rightarrow> u64 \<Rightarrow> (unit, 'm) helper" where
  "helper_divw_AX B t0 env =
    (let num = dx_ax env; den = ucast (t0 AND 0xffff) :: u32
     in if den = 0 then raise_exception B EXCP00_DIVZ env
        else (let q = num div den
              in if q > 0xffff then raise_exception B EXCP00_DIVZ env
                 else (let q = q AND 0xffff; r = (num mod den) AND 0xffff
                       in Done () (set_dx r (set_ax q env)))))"

definition helper_idivw_AX :: "'m cpu_bus \<Rightarrow> u64 \<Rightarrow> (unit, 'm) helper" where
  "helper_idivw_AX B t0 env =
    (let num = dx_ax env; den = scast (ucast t0 :: u16) :: u32
     in if den = 0 then raise_exception B EXCP00_DIVZ env
        else if c_overflows num den then Stop HostUndefined env
        else (let q = c_div num den
              in if q \<noteq> scast (ucast q :: u16) then raise_exception B EXCP00_DIVZ env
                 else (let q = q AND 0xffff; r = c_mod num den AND 0xffff
                       in Done () (set_dx r (set_ax q env)))))"

definition edx_eax :: "'m CPUX86State_scheme \<Rightarrow> u64" where
  "edx_eax env = ucast (ucast (EAX env) :: u32) OR push_bit 32 (ucast (ucast (EDX env) :: u32))"

definition helper_divl_EAX :: "'m cpu_bus \<Rightarrow> u64 \<Rightarrow> (unit, 'm) helper" where
  "helper_divl_EAX B t0 env =
    (let num = edx_eax env; den = ucast t0 :: u32
     in if den = 0 then raise_exception B EXCP00_DIVZ env
        else (let q = num div ucast den; r = ucast (num mod ucast den) :: u32
              in if q > 0xffffffff then raise_exception B EXCP00_DIVZ env
                 else Done () (set_reg R_EDX (ucast r)
                        (set_reg R_EAX (ucast (ucast q :: u32)) env))))"

definition helper_idivl_EAX :: "'m cpu_bus \<Rightarrow> u64 \<Rightarrow> (unit, 'm) helper" where
  "helper_idivl_EAX B t0 env =
    (let num = edx_eax env; den = ucast t0 :: u32
     in if den = 0 then raise_exception B EXCP00_DIVZ env
        else if c_overflows num (scast den) then Stop HostUndefined env
        else (let q = c_div num (scast den); r = ucast (c_mod num (scast den)) :: u32
              in if q \<noteq> scast (ucast q :: u32) then raise_exception B EXCP00_DIVZ env
                 else Done () (set_reg R_EDX (ucast r)
                        (set_reg R_EAX (ucast (ucast q :: u32)) env))))"

section \<open>BCD adjustment\<close>

text \<open>\<open>base\<close> is an \<open>int\<close>; the translator passes the immediate byte of the instruction.\<close>

definition helper_aam :: "u32 \<Rightarrow> (unit, 'm) helper" where
  "helper_aam bas env =
    (let al = ucast (EAX env AND 0xff) :: u32
     in if c_overflows al bas then Stop HostUndefined env
        else (let ah = c_div al bas; al = c_mod al bas
              in Done () (env\<lparr>
                   regs := (regs env)(R_EAX := (EAX env AND NOT 0xffff) OR scast al
                             OR scast (push_bit 8 ah)),
                   cc_dst := scast al\<rparr>)))"

definition helper_aad :: "u32 \<Rightarrow> 'm CPUX86State_scheme \<Rightarrow> 'm CPUX86State_scheme" where
  "helper_aad bas env =
    (let al = ucast (EAX env AND 0xff) :: u32;
         ah = ucast (drop_bit 8 (EAX env) AND 0xff) :: u32;
         al = ((ah * bas) + al) AND 0xff
     in env\<lparr>regs := (regs env)(R_EAX := (EAX env AND NOT 0xffff) OR scast al), cc_dst := scast al\<rparr>)"

definition helper_aaa :: "'m CPUX86State_scheme \<Rightarrow> 'm CPUX86State_scheme" where
  "helper_aaa env =
    (let efl = helper_cc_compute_all env (cc_op env);
         af = efl AND CC_A;
         al = ucast (EAX env AND 0xff) :: u32;
         ah = ucast (drop_bit 8 (EAX env) AND 0xff) :: u32;
         icarry = of_bool (al > 0xf9);
         (al, ah, efl) =
           (if al AND 0x0f > 9 \<or> af \<noteq> 0
            then ((al + 6) AND 0x0f, (ah + 1 + icarry) AND 0xff, efl OR (CC_C OR CC_A))
            else (al AND 0x0f, ah, efl AND NOT (CC_C OR CC_A)))
     in env\<lparr>regs := (regs env)(R_EAX := (EAX env AND NOT 0xffff) OR scast al OR scast (push_bit 8 ah)),
            cc_src := scast efl\<rparr>)"

definition helper_aas :: "'m CPUX86State_scheme \<Rightarrow> 'm CPUX86State_scheme" where
  "helper_aas env =
    (let efl = helper_cc_compute_all env (cc_op env);
         af = efl AND CC_A;
         al = ucast (EAX env AND 0xff) :: u32;
         ah = ucast (drop_bit 8 (EAX env) AND 0xff) :: u32;
         icarry = of_bool (al < 6);
         (al, ah, efl) =
           (if al AND 0x0f > 9 \<or> af \<noteq> 0
            then ((al - 6) AND 0x0f, (ah - 1 - icarry) AND 0xff, efl OR (CC_C OR CC_A))
            else (al AND 0x0f, ah, efl AND NOT (CC_C OR CC_A)))
     in env\<lparr>regs := (regs env)(R_EAX := (EAX env AND NOT 0xffff) OR scast al OR scast (push_bit 8 ah)),
            cc_src := scast efl\<rparr>)"

text \<open>The flags that \<open>helper_daa\<close> and \<open>helper_das\<close> compute by hand, and the adjustment of
  AL with the AF and CF they start from.\<close>

definition bcd_flags :: "u32 \<Rightarrow> u32 \<Rightarrow> u32" where
  "bcd_flags efl al =
    (let efl = efl OR push_bit 6 (of_bool (al = 0));
         efl = efl OR ucast (parity_table ! unat al)
     in efl OR (al AND 0x80))"

definition daa_adjust :: "u32 \<Rightarrow> u32 \<Rightarrow> u32 \<Rightarrow> u32 \<times> u32" where
  "daa_adjust al af cf =
    (let efl = 0;
         (al, efl) = (if al AND 0x0f > 9 \<or> af \<noteq> 0
                      then ((al + 6) AND 0xff, efl OR CC_A) else (al, efl))
     in if al > 0x9f \<or> cf \<noteq> 0 then ((al + 0x60) AND 0xff, efl OR CC_C) else (al, efl))"

definition das_adjust :: "u32 \<Rightarrow> u32 \<Rightarrow> u32 \<Rightarrow> u32 \<times> u32" where
  "das_adjust al af cf =
    (let efl = 0; al1 = al;
         (al, efl) = (if al AND 0x0f > 9 \<or> af \<noteq> 0
                      then ((al - 6) AND 0xff,
                            if al < 6 \<or> cf \<noteq> 0 then efl OR CC_A OR CC_C else efl OR CC_A)
                      else (al, efl))
     in if al1 > 0x99 \<or> cf \<noteq> 0 then ((al - 0x60) AND 0xff, efl OR CC_C) else (al, efl))"

definition helper_daa :: "'m CPUX86State_scheme \<Rightarrow> 'm CPUX86State_scheme" where
  "helper_daa env =
    (let efl = helper_cc_compute_all env (cc_op env);
         (al, efl) = daa_adjust (ucast (EAX env AND 0xff)) (efl AND CC_A) (efl AND CC_C)
     in env\<lparr>regs := (regs env)(R_EAX := (EAX env AND NOT 0xff) OR scast al),
            cc_src := scast (bcd_flags efl al)\<rparr>)"

definition helper_das :: "'m CPUX86State_scheme \<Rightarrow> 'm CPUX86State_scheme" where
  "helper_das env =
    (let efl = helper_cc_compute_all env (cc_op env);
         (al, efl) = das_adjust (ucast (EAX env AND 0xff)) (efl AND CC_A) (efl AND CC_C)
     in env\<lparr>regs := (regs env)(R_EAX := (EAX env AND NOT 0xff) OR scast al),
            cc_src := scast (bcd_flags efl al)\<rparr>)"

section \<open>128-bit arithmetic\<close>

text \<open>A 128-bit number is the pair of its low and its high half.\<close>

definition add128 :: "u64 \<times> u64 \<Rightarrow> u64 \<Rightarrow> u64 \<Rightarrow> u64 \<times> u64" where
  "add128 = (\<lambda>(plow, phigh) a b.
     let plow = plow + a; phigh = (if plow < a then phigh + 1 else phigh)
     in (plow, phigh + b))"

definition neg128 :: "u64 \<times> u64 \<Rightarrow> u64 \<times> u64" where
  "neg128 = (\<lambda>(plow, phigh). add128 (NOT plow, NOT phigh) 1 0)"

text \<open>One iteration of the loop of \<open>div64\<close> on \<open>(a0, a1)\<close>.\<close>

definition div64_step :: "u64 \<Rightarrow> u64 \<times> u64 \<Rightarrow> u64 \<times> u64" where
  "div64_step b = (\<lambda>(a0, a1).
     let ab = drop_bit 63 a1;
         a1 = push_bit 1 a1 OR drop_bit 63 a0;
         (a1, qb) = (if ab \<noteq> 0 \<or> a1 \<ge> b then (a1 - b, 1) else (a1, 0))
     in (push_bit 1 a0 OR qb, a1))"

text \<open>\<open>None\<close> is the overflow return; \<open>b\<close> is not zero where it is called.\<close>

definition div64 :: "u64 \<times> u64 \<Rightarrow> u64 \<Rightarrow> (u64 \<times> u64) option" where
  "div64 = (\<lambda>(plow, phigh) b.
     if phigh = 0 then Some (plow div b, plow mod b)
     else if phigh \<ge> b then None
     else Some ((div64_step b ^^ 64) (plow, phigh)))"

text \<open>
  \<open>b = -b\<close> of the most negative divisor is an overflow that C leaves undefined; it is modelled as
  the negation of the hosts, which wraps (a division that overflows, by contrast, traps there: it is
  \<open>HostUndefined\<close> in the 16 and 32-bit helpers).
\<close>

definition idiv64 :: "u64 \<times> u64 \<Rightarrow> u64 \<Rightarrow> (u64 \<times> u64) option" where
  "idiv64 = (\<lambda>(plow, phigh) b.
     let sa = sint phigh < 0;
         sb = sint b < 0
     in case div64 (if sa then neg128 (plow, phigh) else (plow, phigh)) (if sb then - b else b) of
          None \<Rightarrow> None
        | Some (plow, phigh) \<Rightarrow>
            if sa \<noteq> sb then
              (if plow > push_bit 63 1 then None
               else Some (- plow, if sa then - phigh else phigh))
            else
              (if plow \<ge> push_bit 63 1 then None
               else Some (plow, if sa then - phigh else phigh)))"

type_synonym mul128 = "u64 \<Rightarrow> u64 \<Rightarrow> u64 \<times> u64"

definition helper_mulq_EAX_T0 :: "mul128 \<Rightarrow> u64 \<Rightarrow> 'm CPUX86State_scheme \<Rightarrow> 'm CPUX86State_scheme" where
  "helper_mulq_EAX_T0 mulu64 t0 env =
    (let (r0, r1) = mulu64 (EAX env) t0
     in env\<lparr>regs := (regs env)(R_EAX := r0, R_EDX := r1), cc_dst := r0, cc_src := r1\<rparr>)"

definition helper_imulq_EAX_T0 :: "mul128 \<Rightarrow> u64 \<Rightarrow> 'm CPUX86State_scheme \<Rightarrow> 'm CPUX86State_scheme" where
  "helper_imulq_EAX_T0 muls64 t0 env =
    (let (r0, r1) = muls64 (EAX env) t0
     in env\<lparr>regs := (regs env)(R_EAX := r0, R_EDX := r1), cc_dst := r0,
            cc_src := of_bool (r1 \<noteq> signed_drop_bit 63 r0)\<rparr>)"

definition helper_imulq_T0_T1 ::
  "mul128 \<Rightarrow> u64 \<Rightarrow> u64 \<Rightarrow> 'm CPUX86State_scheme \<Rightarrow> u64 \<times> 'm CPUX86State_scheme" where
  "helper_imulq_T0_T1 muls64 t0 t1 env =
    (let (r0, r1) = muls64 t0 t1
     in (r0, env\<lparr>cc_dst := r0, cc_src := of_bool (r1 \<noteq> signed_drop_bit 63 r0)\<rparr>))"

definition helper_divq_EAX :: "'m cpu_bus \<Rightarrow> u64 \<Rightarrow> (unit, 'm) helper" where
  "helper_divq_EAX B t0 env =
    (if t0 = 0 then raise_exception B EXCP00_DIVZ env
     else case div64 (EAX env, EDX env) t0 of
            None \<Rightarrow> raise_exception B EXCP00_DIVZ env
          | Some (r0, r1) \<Rightarrow> Done () (env\<lparr>regs := (regs env)(R_EAX := r0, R_EDX := r1)\<rparr>))"

definition helper_idivq_EAX :: "'m cpu_bus \<Rightarrow> u64 \<Rightarrow> (unit, 'm) helper" where
  "helper_idivq_EAX B t0 env =
    (if t0 = 0 then raise_exception B EXCP00_DIVZ env
     else case idiv64 (EAX env, EDX env) t0 of
            None \<Rightarrow> raise_exception B EXCP00_DIVZ env
          | Some (r0, r1) \<Rightarrow> Done () (env\<lparr>regs := (regs env)(R_EAX := r0, R_EDX := r1)\<rparr>))"

section \<open>Bit scans\<close>

text \<open>The scan loops do not end on zero: they are partial functions.\<close>

partial_function (option) bsf_loop :: "u64 \<Rightarrow> u32 \<Rightarrow> u32 option" where
  "bsf_loop res count =
    (if res AND 1 = 0 then bsf_loop (drop_bit 1 res) (count + 1) else Some count)"

definition helper_bsf :: "u64 \<Rightarrow> u64 option" where
  "helper_bsf t0 = map_option scast (bsf_loop t0 0)"

partial_function (option) bsr_loop :: "u64 \<Rightarrow> u32 \<Rightarrow> u32 option" where
  "bsr_loop res count =
    (if res AND push_bit 63 1 = 0 then bsr_loop (push_bit 1 res) (count - 1) else Some count)"

definition helper_bsr :: "u64 \<Rightarrow> u64 option" where
  "helper_bsr t0 = map_option scast (bsr_loop t0 63)"

section \<open>Division of 128 bits by 64 bits\<close>

text \<open>The number that a pair of halves stands for.\<close>

definition val128 :: "u64 \<times> u64 \<Rightarrow> int" where
  "val128 = (\<lambda>(lo, hi). uint hi * 2 ^ 64 + uint lo)"

lemma u64_bounds: "0 \<le> uint (x :: u64)" "uint (x :: u64) < 2 ^ 64"
  using unsigned_less [of x, where ?'a = int] by simp_all

lemma low_bit_disjoint: "push_bit 1 (x :: u64) AND y = 0" if "\<And>n. bit y n \<Longrightarrow> n = 0" for y
  by (rule bit_word_eqI) (use that in \<open>force simp only: bit_and_iff bit_push_bit_iff bit_0_eq\<close>)

lemma uint_shift_in:
  fixes hi lo :: u64
  shows "uint (push_bit 1 hi OR drop_bit 63 lo) = (2 * uint hi) mod 2 ^ 64 + uint lo div 2 ^ 63"
proof -
  have "push_bit 1 hi OR drop_bit 63 lo = push_bit 1 hi + drop_bit 63 lo"
    by (rule disjunctive_add_eq_or [symmetric], rule low_bit_disjoint)
      (auto simp only: bit_drop_bit_eq comp_def dest!: bit_imp_le_length, simp)
  moreover have "uint (push_bit 1 hi) = (2 * uint hi) mod 2 ^ 64"
    by (simp add: uint_word_ariths mult.commute)
  moreover have "uint (drop_bit 63 lo) = uint lo div 2 ^ 63"
    by (simp add: drop_bit_eq_div uint_div_distrib)
  moreover have "uint lo div 2 ^ 63 < 2" "0 \<le> uint lo div 2 ^ 63"
    using u64_bounds [of lo] by (simp_all add: pos_imp_zdiv_nonneg_iff)
  moreover have "(2 * uint hi) mod 2 ^ 64 \<le> 2 ^ 64 - 2"
  proof -
    have "(2 * uint hi) mod 2 ^ 64 = 2 * (uint hi mod 2 ^ 63)" by (simp add: mult_mod_right)
    moreover have "uint hi mod 2 ^ 63 < 2 ^ 63" by simp
    ultimately show ?thesis by simp
  qed
  ultimately show ?thesis by (simp add: uint_word_ariths)
qed

lemma div64_step_val:
  fixes hi lo b :: u64
  assumes "uint hi < uint b"
  defines "T \<equiv> 2 * val128 (lo, hi)"
  defines "qb \<equiv> uint b \<le> T div 2 ^ 64"
  obtains lo' hi' where "div64_step b (lo, hi) = (lo', hi')" "uint hi' < uint b"
    and "val128 (lo', hi') = T - of_bool qb * (uint b * 2 ^ 64) + of_bool qb"
proof -
  define h l where "h = uint hi" and "l = uint lo"
  define c where "c = l div 2 ^ 63"
  have hl: "0 \<le> h" "h < 2 ^ 64" "0 \<le> l" "l < 2 ^ 64" "h < uint b" "uint b < 2 ^ 64"
    using u64_bounds assms(1) by (simp_all add: h_def l_def)
  have c: "0 \<le> c" "c < 2" "l = c * 2 ^ 63 + l mod 2 ^ 63"
    using hl by (simp_all add: c_def)
  have T: "T = (2 * h + c) * 2 ^ 64 + 2 * (l mod 2 ^ 63)"
    using c(3) by (simp add: T_def val128_def h_def l_def)
  moreover have "0 \<le> 2 * (l mod 2 ^ 63)" "2 * (l mod 2 ^ 63) < 2 ^ 64" by simp_all
  ultimately have Tdiv: "T div 2 ^ 64 = 2 * h + c"
    by (simp add: div_add1_eq)
  then have qb: "qb \<longleftrightarrow> uint b \<le> 2 * h + c" by (simp only: qb_def)
  define a where "a = push_bit 1 hi OR drop_bit 63 lo"
  have a: "uint a = (2 * h) mod 2 ^ 64 + c"
    by (simp only: a_def uint_shift_in h_def c_def l_def)
  have ab: "drop_bit 63 hi \<noteq> 0 \<longleftrightarrow> 2 ^ 63 \<le> h"
  proof -
    have "uint (drop_bit 63 hi) = h div 2 ^ 63" by (simp add: drop_bit_eq_div uint_div_distrib h_def)
    then have "drop_bit 63 hi \<noteq> 0 \<longleftrightarrow> h div 2 ^ 63 \<noteq> 0" by (simp add: word_uint_eq_iff)
    with hl show ?thesis by (auto simp: div_eq_0_iff)
  qed
  have test: "drop_bit 63 hi \<noteq> 0 \<or> a \<ge> b \<longleftrightarrow> qb"
    using hl c a ab by (cases "2 ^ 63 \<le> h") (auto simp: qb word_le_def)
  define hi' where "hi' = (if qb then a - b else a)"
  define lo' where "lo' = push_bit 1 lo OR of_bool qb"
  have "2 * h + c - of_bool qb * uint b < uint b" "0 \<le> 2 * h + c - of_bool qb * uint b"
    using hl c by (auto simp: qb)
  moreover have "uint hi' = (2 * h + c - of_bool qb * uint b) mod 2 ^ 64"
  proof (cases "2 ^ 63 \<le> h")
    case True
    then have "qb" "2 * h mod 2 ^ 64 = 2 * h - 2 ^ 64"
      using hl c by (auto simp: qb intro: int_mod_pos_eq [where q = 1])
    moreover have "2 * h - 2 ^ 64 + c - uint b = 2 * h + c - uint b - 2 ^ 64" by simp
    moreover have "uint (a - b) = (uint a - uint b) mod 2 ^ 64" by (simp add: uint_word_ariths)
    ultimately show ?thesis by (simp only: hi'_def a minus_mod_self2) simp
  next
    case False
    then have "2 * h mod 2 ^ 64 = 2 * h" using hl by simp
    then show ?thesis using hl False c a by (auto simp: hi'_def uint_word_ariths qb)
  qed
  ultimately have hi': "uint hi' = 2 * h + c - of_bool qb * uint b"
    using hl by simp
  have lo': "uint lo' = 2 * (l mod 2 ^ 63) + of_bool qb"
  proof -
    have "lo' = push_bit 1 lo + of_bool qb" unfolding lo'_def
      by (rule disjunctive_add_eq_or [symmetric], rule low_bit_disjoint)
        (simp add: of_bool_def bit_1_iff split: if_splits)
    moreover have "uint (push_bit 1 lo) = 2 * (l mod 2 ^ 63)"
      by (simp add: uint_word_ariths mult.commute l_def mult_mod_right)
    moreover have "l mod 2 ^ 63 < 2 ^ 63" by simp
    ultimately show ?thesis by (simp add: uint_word_ariths)
  qed
  show ?thesis
  proof (rule that)
    show "div64_step b (lo, hi) = (lo', hi')"
      using test by (simp add: div64_step_def Let_def a_def hi'_def lo'_def)
    show "uint hi' < uint b" using hi' hl c by (auto simp: qb)
    show "val128 (lo', hi') = T - of_bool qb * (uint b * 2 ^ 64) + of_bool qb"
      by (simp add: val128_def hi' lo' T algebra_simps)
  qed
qed

text \<open>After \<open>n\<close> steps: the dividend shifted up, with \<open>n\<close> quotient bits moved in at the bottom.\<close>

lemma div64_steps:
  assumes "uint (hi :: u64) < uint b"
  shows "\<exists>lo' hi' Q. (div64_step b ^^ n) (lo, hi) = (lo', hi') \<and> uint hi' < uint b \<and>
    0 \<le> Q \<and> Q < 2 ^ n \<and>
    val128 (lo', hi') = 2 ^ n * val128 (lo, hi) - Q * (uint b * 2 ^ 64) + Q"
proof (induction n)
  case 0
  with assms show ?case by (auto intro: exI [of _ 0])
next
  case (Suc n)
  then obtain lo' hi' Q where IH: "(div64_step b ^^ n) (lo, hi) = (lo', hi')" "uint hi' < uint b"
    "0 \<le> Q" "Q < 2 ^ n" "val128 (lo', hi') = 2 ^ n * val128 (lo, hi) - Q * (uint b * 2 ^ 64) + Q"
    by blast
  define qb where "qb = (of_bool (uint b \<le> 2 * val128 (lo', hi') div 2 ^ 64) :: int)"
  obtain lo2 hi2 where step: "div64_step b (lo', hi') = (lo2, hi2)" "uint hi2 < uint b"
    "val128 (lo2, hi2) = 2 * val128 (lo', hi') - qb * (uint b * 2 ^ 64) + qb"
    unfolding qb_def by (rule div64_step_val [OF IH(2)])
  have "val128 (lo2, hi2) = 2 ^ Suc n * val128 (lo, hi) - (2 * Q + qb) * (uint b * 2 ^ 64) + (2 * Q + qb)"
    unfolding step(3) IH(5) by (simp add: algebra_simps)
  moreover have "0 \<le> 2 * Q + qb" "2 * Q + qb < 2 ^ Suc n"
    using IH(3,4) by (simp_all add: qb_def)
  ultimately show ?case using step(1,2) IH(1) by (auto intro!: exI [of _ "2 * Q + qb"])
qed

lemma val128_parts:
  assumes "val128 (lo, hi) = 2 ^ 64 * r + q" "0 \<le> q" "q < 2 ^ 64"
  shows "uint lo = q" "uint hi = r"
proof -
  have "uint hi = val128 (lo, hi) div 2 ^ 64" "uint lo = val128 (lo, hi) mod 2 ^ 64"
    using u64_bounds [of lo] by (simp_all add: val128_def div_add1_eq mod_add_eq [symmetric])
  with assms show "uint lo = q" "uint hi = r" by (simp_all add: div_add1_eq)
qed

lemma le_div_iff_int:
  fixes n b k :: int
  assumes "0 < b"
  shows "k \<le> n div b \<longleftrightarrow> k * b \<le> n"
proof
  assume "k \<le> n div b"
  then have "k * b \<le> n div b * b" using assms by simp
  also have "\<dots> \<le> n" using assms by (simp add: minus_mod_eq_div_mult [symmetric])
  finally show "k * b \<le> n" .
next
  assume "k * b \<le> n"
  from zdiv_mono1 [OF this assms] show "k \<le> n div b" using assms by simp
qed

lemma scale64:
  fixes l x h :: int
  assumes "0 \<le> l" "l < 18446744073709551616"
  shows "18446744073709551616 * x \<le> h * 18446744073709551616 + l \<longleftrightarrow> x \<le> h"
  using assms by (intro iffI) linarith+

lemma scale64_sign:
  fixes l h :: int
  assumes "0 \<le> l" "l < 18446744073709551616"
  shows "h * 18446744073709551616 + l < 0 \<longleftrightarrow> h < 0"
  using assms by (intro iffI) linarith+

text \<open>The quotient and the remainder, or overflow exactly when the quotient needs a 65th bit.\<close>

lemma div64_correct:
  fixes lo hi b :: u64
  assumes "b \<noteq> 0"
  defines "n \<equiv> val128 (lo, hi)"
  shows "if 2 ^ 64 \<le> n div uint b then div64 (lo, hi) b = None
    else \<exists>q r. div64 (lo, hi) b = Some (q, r) \<and> uint q = n div uint b \<and> uint r = n mod uint b"
proof -
  have b: "0 < uint b" using assms(1) by (simp add: word_neq_0_conv word_less_def)
  note bounds = u64_bounds [of lo] u64_bounds [of hi]
  have over: "2 ^ 64 \<le> n div uint b \<longleftrightarrow> uint b \<le> uint hi"
  proof -
    have "2 ^ 64 \<le> n div uint b \<longleftrightarrow> 2 ^ 64 * uint b \<le> n"
      using b by (rule le_div_iff_int)
    also have "\<dots> \<longleftrightarrow> uint b \<le> uint hi"
      using scale64 [of "uint lo" "uint b" "uint hi"] bounds by (simp add: n_def val128_def)
    finally show ?thesis .
  qed
  show ?thesis
  proof (cases "hi = 0")
    case True
    then show ?thesis using over b
      by (simp add: div64_def n_def val128_def uint_div_distrib uint_mod_distrib)
  next
    case False
    show ?thesis
    proof (cases "uint b \<le> uint hi")
      case True
      with False over show ?thesis by (simp add: div64_def word_le_def)
    next
      case less: False
      then obtain lo' hi' Q where res: "(div64_step b ^^ 64) (lo, hi) = (lo', hi')" "uint hi' < uint b"
        "0 \<le> Q" "Q < 2 ^ 64" "val128 (lo', hi') = 2 ^ 64 * n - Q * (uint b * 2 ^ 64) + Q"
        using div64_steps [of hi b 64 lo] by (auto simp: n_def)
      then have "val128 (lo', hi') = 2 ^ 64 * (n - Q * uint b) + Q" by (simp add: algebra_simps)
      from val128_parts [OF this res(3,4)] have p: "uint lo' = Q" "uint hi' = n - Q * uint b" .
      then have n: "n = Q * uint b + uint hi'" by simp
      have "n div uint b = Q" "n mod uint b = uint hi'"
        unfolding n using res(2) b by (simp_all add: div_pos_pos_trivial)
      with p less over False res(1) show ?thesis by (simp add: div64_def word_le_def)
    qed
  qed
qed

section \<open>Signed division of 128 bits\<close>

definition sval128 :: "u64 \<times> u64 \<Rightarrow> int" where
  "sval128 = (\<lambda>(lo, hi). sint hi * 2 ^ 64 + uint lo)"

lemma sint64: "sint (w :: u64) = (if uint w < 2 ^ 63 then uint w else uint w - 2 ^ 64)"
proof -
  have "sint w = take_bit 63 (uint w) - 2 ^ 63 * of_bool (bit (uint w) 63)"
    by (simp add: sint_uint signed_take_bit_low)
  moreover have "bit (uint w) 63 \<longleftrightarrow> odd (uint w div 2 ^ 63)" by (simp add: bit_iff_odd)
  moreover have "odd (uint w div 2 ^ 63) \<longleftrightarrow> 2 ^ 63 \<le> uint w"
    using u64_bounds [of w] by (intro odd_div_exp_carry) simp_all
  moreover have "2 ^ 63 \<le> uint w \<Longrightarrow> take_bit 63 (uint w) = uint w - 2 ^ 63"
    using u64_bounds [of w] by (simp add: take_bit_eq_mod) (rule int_mod_pos_eq [where q = 1], simp_all)
  moreover have "uint w < 2 ^ 63 \<Longrightarrow> take_bit 63 (uint w) = uint w"
    by (simp add: take_bit_int_eq_self)
  ultimately show ?thesis by auto
qed

lemma uint_minus64: "uint (- w :: u64) = (if w = 0 then 0 else 2 ^ 64 - uint w)"
proof (cases "w = 0")
  case False
  then have "uint w \<noteq> 0" by (simp add: word_uint_eq_iff)
  then have "0 < uint w" using u64_bounds [of w] by linarith
  moreover have "uint (- w) = (- uint w) mod 2 ^ 64" by (simp add: uint_word_ariths)
  moreover have "(- uint w) mod 2 ^ 64 = - uint w + 2 ^ 64"
    using \<open>0 < uint w\<close> u64_bounds [of w] by (intro int_mod_pos_eq [where q = "- 1"]) simp_all
  ultimately show ?thesis using False by simp
qed simp

lemma uint_not64: "uint (NOT w :: u64) = 2 ^ 64 - 1 - uint w"
proof -
  have "NOT w = - w - 1" by (rule not_eq_complement)
  also have "\<dots> = - (w + 1)" by simp
  finally have "uint (NOT w) = uint (- (w + 1))" by simp
  moreover have "uint (w + 1) = (uint w + 1) mod 2 ^ 64" by (simp add: uint_word_ariths)
  moreover have "w + 1 = 0 \<longleftrightarrow> uint w = 2 ^ 64 - 1"
  proof
    assume "w + 1 = 0"
    then have "w = - 1" by (simp add: eq_neg_iff_add_eq_0)
    then show "uint w = 2 ^ 64 - 1" by (simp add: unsigned_minus_1_eq_mask mask_eq_exp_minus_1)
  next
    assume "uint w = 2 ^ 64 - 1"
    then have "w = - 1" by (simp add: word_uint_eq_iff unsigned_minus_1_eq_mask mask_eq_exp_minus_1)
    then show "w + 1 = 0" by simp
  qed
  ultimately show ?thesis
    using u64_bounds [of w] unfolding uint_minus64 by (cases "w + 1 = 0") simp_all
qed

lemma neg128_val:
  assumes "sint hi < 0"
  shows "val128 (neg128 (lo, hi)) = - sval128 (lo, hi)"
proof -
  have hi: "2 ^ 63 \<le> uint hi" "sint hi = uint hi - 2 ^ 64" "hi \<noteq> 0"
    using assms by (auto simp: sint64 split: if_splits)
  have lo: "NOT lo + 1 = - lo" "- lo < 1 \<longleftrightarrow> lo = 0"
    by (simp_all add: not_eq_complement)
  have "neg128 (lo, hi) = (- lo, if lo = 0 then - hi else NOT hi)"
    by (simp add: neg128_def add128_def Let_def lo) (simp add: not_eq_complement)
  then show ?thesis
    using hi u64_bounds [of lo] u64_bounds [of hi]
    by (simp add: val128_def sval128_def uint_minus64 uint_not64 algebra_simps)
qed

lemma abs64: "uint (if sint b < 0 then - b else b) = \<bar>sint (b :: u64)\<bar>"
  using u64_bounds [of b] by (auto simp: sint64 uint_minus64)

lemma sdiv_smod_int:
  fixes n d :: int
  assumes "d \<noteq> 0"
  shows "n sdiv d = (if (n < 0) \<noteq> (d < 0) then - (\<bar>n\<bar> div \<bar>d\<bar>) else \<bar>n\<bar> div \<bar>d\<bar>)"
    and "n smod d = (if n < 0 then - (\<bar>n\<bar> mod \<bar>d\<bar>) else \<bar>n\<bar> mod \<bar>d\<bar>)"
  using assms by (auto simp: signed_divide_int_def signed_modulo_int_def sgn_if)

lemma idiv64_correct:
  fixes lo hi b :: u64
  assumes "b \<noteq> 0"
  defines "n \<equiv> sval128 (lo, hi)" and "d \<equiv> sint b"
  shows "if - (2 ^ 63) \<le> n sdiv d \<and> n sdiv d < 2 ^ 63
    then \<exists>q r. idiv64 (lo, hi) b = Some (q, r) \<and> sint q = n sdiv d \<and> sint r = n smod d
    else idiv64 (lo, hi) b = None"
proof -
  define p where "p = (if sint hi < 0 then neg128 (lo, hi) else (lo, hi))"
  define c where "c = (if sint b < 0 then - b else b)"
  have d: "d \<noteq> 0"
    using assms(1) u64_bounds [of b] by (auto simp: d_def sint64 word_uint_eq_iff)
  have sa: "n < 0 \<longleftrightarrow> sint hi < 0"
    using scale64_sign [of "uint lo" "sint hi"] u64_bounds [of lo] by (simp add: n_def sval128_def)
  have p: "val128 p = \<bar>n\<bar>"
  proof (cases "sint hi < 0")
    case True
    then show ?thesis using neg128_val [of hi lo] sa by (simp add: p_def n_def)
  next
    case False
    then have "sint hi = uint hi" using u64_bounds [of hi] by (auto simp: sint64 split: if_splits)
    with False sa show ?thesis by (simp add: p_def n_def val128_def sval128_def)
  qed
  have c: "uint c = \<bar>d\<bar>" unfolding c_def d_def by (rule abs64)
  with d have c0: "c \<noteq> 0" by (auto simp: word_uint_eq_iff)
  obtain plo phi where pp: "p = (plo, phi)" by (cases p)
  define Q R where "Q = \<bar>n\<bar> div \<bar>d\<bar>" and "R = \<bar>n\<bar> mod \<bar>d\<bar>"
  have Q: "0 \<le> Q" and R: "0 \<le> R" "R < \<bar>d\<bar>"
    using d by (simp_all add: Q_def R_def pos_imp_zdiv_nonneg_iff)
  have d63: "\<bar>d\<bar> \<le> 2 ^ 63"
    using u64_bounds [of b] by (simp add: d_def sint64)
  note sm = sdiv_smod_int [OF d, of n, folded Q_def R_def]
  note div = div64_correct [OF c0, of plo phi, folded pp, unfolded p c, folded Q_def R_def]
  show ?thesis
  proof (cases "2 ^ 64 \<le> Q")
    case True
    then have "idiv64 (lo, hi) b = None"
      using div by (simp add: idiv64_def Let_def p_def [symmetric] c_def [symmetric])
    with True show ?thesis
      by (auto simp: sm)
  next
    case False
    then obtain q r where qr: "div64 p c = Some (q, r)" "uint q = Q" "uint r = R"
      using div by auto
    have zero: "q = 0 \<longleftrightarrow> Q = 0" "r = 0 \<longleftrightarrow> R = 0" by (simp_all add: word_uint_eq_iff qr)
    have q63: "q > push_bit 63 1 \<longleftrightarrow> 2 ^ 63 < Q" "q \<ge> push_bit 63 1 \<longleftrightarrow> 2 ^ 63 \<le> Q"
      by (simp_all add: word_less_def word_le_def qr(2))
    have "idiv64 (lo, hi) b =
      (if (n < 0) \<noteq> (d < 0) then
         (if 2 ^ 63 < Q then None else Some (- q, if n < 0 then - r else r))
       else (if 2 ^ 63 \<le> Q then None else Some (q, if n < 0 then - r else r)))"
      unfolding idiv64_def Let_def prod.case p_def [symmetric] c_def [symmetric] qr(1) option.case
        q63 sa d_def ..
    moreover have "sint (if n < 0 then - r else r) = n smod d"
      using R d63 zero by (auto simp: sm sint64 uint_minus64 qr)
    moreover have "Q \<le> 2 ^ 63 \<Longrightarrow> sint (- q) = - Q" "Q < 2 ^ 63 \<Longrightarrow> sint q = Q"
      using Q zero by (auto simp: sint64 uint_minus64 qr)
    moreover have "n sdiv d = (if (n < 0) \<noteq> (d < 0) then - Q else Q)"
      by (rule sm(1))
    ultimately show ?thesis using Q by auto
  qed
qed

section \<open>The division instructions\<close>

text \<open>
  The instructions by operand size, and what they read and write: the dividend is twice
  as wide as the operand and lies in AX, DX:AX, EDX:EAX or RDX:RAX.
\<close>

fun helper_div :: "osize \<Rightarrow> 'm cpu_bus \<Rightarrow> u64 \<Rightarrow> (unit, 'm) helper" where
  "helper_div SzB = helper_divb_AL"
| "helper_div SzW = helper_divw_AX"
| "helper_div SzL = helper_divl_EAX"
| "helper_div SzQ = helper_divq_EAX"

fun helper_idiv :: "osize \<Rightarrow> 'm cpu_bus \<Rightarrow> u64 \<Rightarrow> (unit, 'm) helper" where
  "helper_idiv SzB = helper_idivb_AL"
| "helper_idiv SzW = helper_idivw_AX"
| "helper_idiv SzL = helper_idivl_EAX"
| "helper_idiv SzQ = helper_idivq_EAX"

fun udividend :: "osize \<Rightarrow> 'm CPUX86State_scheme \<Rightarrow> int" where
  "udividend SzB env = uval SzW (EAX env)"
| "udividend sz env = uval sz (EDX env) * 2 ^ DATA_BITS sz + uval sz (EAX env)"

fun sdividend :: "osize \<Rightarrow> 'm CPUX86State_scheme \<Rightarrow> int" where
  "sdividend SzB env = sval SzW (EAX env)"
| "sdividend sz env = sval sz (EDX env) * 2 ^ DATA_BITS sz + uval sz (EAX env)"

fun rem_reg :: "osize \<Rightarrow> 'm CPUX86State_scheme \<Rightarrow> u64" where
  "rem_reg SzB env = drop_bit 8 (EAX env)"
| "rem_reg sz env = EDX env"

text \<open>Only EAX and EDX change.\<close>

definition only_ax_dx :: "'m CPUX86State_scheme \<Rightarrow> 'm CPUX86State_scheme \<Rightarrow> bool" where
  "only_ax_dx env env' \<longleftrightarrow> env' = env\<lparr>regs := regs env'\<rparr> \<and>
     (\<forall>r. r \<noteq> R_EAX \<and> r \<noteq> R_EDX \<longrightarrow> regs env' r = regs env r)"

lemma low_masks:
  "(x :: 'a::len word) AND 0xff = take_bit 8 x" "x AND 0xffff = take_bit 16 x"
  "x AND NOT 0xffff = x AND NOT (mask 16)"
  by (simp_all add: take_bit_eq_mask mask_eq_exp_minus_1)

lemma uval_word: "uval sz x = uint (take_bit (DATA_BITS sz) x)"
  by (simp add: uval_def unsigned_take_bit_eq)

lemma uval_Q: "uval SzQ x = uint x"
  using u64_bounds [of x] by (simp add: uval_def take_bit_int_eq_self)

lemma uint_narrow: "uint (ucast (x :: u64) :: u32) = take_bit 32 (uint x)"
  by (simp add: unsigned_ucast_eq)

lemma ax_parts:
  fixes q r :: u32 and e :: u64
  assumes "uint q < 2 ^ 8" "uint r < 2 ^ 8"
  defines "x \<equiv> (e AND NOT 0xffff) OR ucast (push_bit 8 (r AND 0xff) OR (q AND 0xff)) :: u64"
  shows "uval SzB x = uint q" "uval SzB (drop_bit 8 x) = uint r"
proof -
  have "take_bit 8 x = ucast (take_bit 8 q)" "take_bit 8 (drop_bit 8 x) = ucast (take_bit 8 r)"
    unfolding x_def low_masks by (rule bit_word_eqI, auto simp: bit_simps)+
  moreover have "uint (ucast (take_bit 8 w :: u32) :: u64) = uint w" if "uint w < 2 ^ 8" for w :: u32
    using that by (simp add: unsigned_ucast_eq unsigned_take_bit_eq take_bit_int_eq_self)
  ultimately show "uval SzB x = uint q" "uval SzB (drop_bit 8 x) = uint r"
    using assms(1,2) by (simp_all add: uval_word)
qed

lemma word_part:
  fixes q :: u32
  assumes "uint q < 2 ^ 16"
  shows "uval SzW ((e AND NOT 0xffff) OR ucast (q AND 0xffff)) = uint q"
proof -
  have "take_bit 16 ((e AND NOT 0xffff) OR ucast (q AND 0xffff) :: u64) = ucast (take_bit 16 q)"
    unfolding low_masks by (rule bit_word_eqI, auto simp: bit_simps)
  with assms show ?thesis
    by (simp add: uval_word unsigned_ucast_eq unsigned_take_bit_eq take_bit_int_eq_self)
qed

lemma long_part:
  assumes "0 \<le> uint q" "uint (q :: u64) < 2 ^ 32"
  shows "uval SzL (ucast (ucast q :: u32)) = uint q"
  using assms by (simp add: uval_word unsigned_ucast_eq unsigned_take_bit_eq take_bit_int_eq_self)

lemma dx_ax_val: "uint (dx_ax env) = uval SzW (EDX env) * 2 ^ 16 + uval SzW (EAX env)"
proof -
  have "dx_ax env = ucast (take_bit 16 (EAX env)) + push_bit 16 (ucast (take_bit 16 (EDX env)))"
    unfolding dx_ax_def low_masks
    by (subst disjunctive_add_eq_or, rule bit_word_eqI, auto simp: bit_simps, rule bit_word_eqI,
        auto simp: bit_simps)
  then show ?thesis
    using take_bit_int_less [of 16 "uint (EAX env)"] take_bit_int_less [of 16 "uint (EDX env)"]
    by (simp add: uint_word_ariths unsigned_push_bit_eq unsigned_ucast_eq unsigned_take_bit_eq
        push_bit_eq_mult take_bit_int_eq_self uval_def)
qed

lemma edx_eax_val: "uint (edx_eax env) = uval SzL (EDX env) * 2 ^ 32 + uval SzL (EAX env)"
proof -
  have "edx_eax env = ucast (ucast (EAX env) :: u32) + push_bit 32 (ucast (ucast (EDX env) :: u32))"
    unfolding edx_eax_def
    by (subst disjunctive_add_eq_or, rule bit_word_eqI, auto simp: bit_simps dest: bit_imp_le_length)
  then show ?thesis
    using take_bit_int_less [of 32 "uint (EAX env)"] take_bit_int_less [of 32 "uint (EDX env)"]
    by (simp add: uint_word_ariths unsigned_ucast_eq unsigned_take_bit_eq
        push_bit_eq_mult take_bit_int_eq_self uval_def)
qed

lemma only_ax_dx_set [simp]:
  "only_ax_dx env (set_ax v env)" "only_ax_dx env (set_dx w (set_ax v env))"
  "only_ax_dx env (env\<lparr>regs := (regs env)(R_EAX := a, R_EDX := b)\<rparr>)"
  by (simp_all add: only_ax_dx_def set_ax_def set_dx_def)

text \<open>The helper has returned quotient \<open>q\<close> and remainder \<open>r\<close>, as \<open>val\<close> (signed or unsigned) reads them.\<close>

definition divides_into ::
  "(osize \<Rightarrow> u64 \<Rightarrow> int) \<Rightarrow> osize \<Rightarrow> int \<Rightarrow> int \<Rightarrow> 'm CPUX86State_scheme \<Rightarrow>
   (unit, 'm CPUX86State_scheme) outcome \<Rightarrow> bool" where
  "divides_into val sz q r env m \<longleftrightarrow> (\<exists>env'. m = Done () env' \<and> val sz (EAX env') = q \<and>
     val sz (rem_reg sz env') = r \<and> only_ax_dx env env')"

lemma divb_correct:
  fixes n d :: int
  assumes "n = udividend SzB env" "d = uval SzB t0"
  shows "if d = 0 \<or> 2 ^ 8 \<le> n div d then helper_divb_AL B t0 env = raise_exception B EXCP00_DIVZ env
    else divides_into uval SzB (n div d) (n mod d) env (helper_divb_AL B t0 env)"
proof -
  define num den where "num = (ucast (EAX env AND 0xffff) :: u32)" and "den = (ucast (t0 AND 0xff) :: u32)"
  have nd: "uint num = n" "uint den = d"
    by (simp_all add: num_def den_def assms uval_word low_masks unsigned_ucast_eq unsigned_take_bit_eq)
  have q: "uint (num div den) = n div d" "uint (num mod den) = n mod d"
    by (simp_all add: uint_div_distrib uint_mod_distrib nd)
  have c: "den = 0 \<longleftrightarrow> d = 0" "num div den > 0xff \<longleftrightarrow> 2 ^ 8 \<le> n div d"
    by (auto simp add: word_uint_eq_iff nd word_less_def q)
  have bound: "d < 2 ^ 8" "0 \<le> d" using uval_bounds [of SzB t0] by (simp_all add: assms)
  have "helper_divb_AL B t0 env =
    (if d = 0 \<or> 2 ^ 8 \<le> n div d then raise_exception B EXCP00_DIVZ env
     else Done () (set_ax (push_bit 8 ((num mod den) AND 0xff) OR ((num div den) AND 0xff)) env))"
    unfolding c [symmetric] helper_divb_AL_def Let_def num_def [symmetric] den_def [symmetric] by simp
  moreover have "uint (num mod den) < 2 ^ 8" if "d \<noteq> 0"
    unfolding q by (rule less_trans [OF pos_mod_bound]) (use that bound in auto)
  ultimately show ?thesis
    using ax_parts [of "num div den" "num mod den" "EAX env"]
    by (simp add: divides_into_def q set_ax_def only_ax_dx_def)
qed

lemma divw_correct:
  fixes n d :: int
  assumes "n = udividend SzW env" "d = uval SzW t0"
  shows "if d = 0 \<or> 2 ^ 16 \<le> n div d then helper_divw_AX B t0 env = raise_exception B EXCP00_DIVZ env
    else divides_into uval SzW (n div d) (n mod d) env (helper_divw_AX B t0 env)"
proof -
  define num den where "num = dx_ax env" and "den = (ucast (t0 AND 0xffff) :: u32)"
  have nd: "uint num = n" "uint den = d"
    by (simp_all add: num_def dx_ax_val den_def assms uval_word low_masks unsigned_ucast_eq unsigned_take_bit_eq)
  have q: "uint (num div den) = n div d" "uint (num mod den) = n mod d"
    by (simp_all add: uint_div_distrib uint_mod_distrib nd)
  have c: "den = 0 \<longleftrightarrow> d = 0" "num div den > 0xffff \<longleftrightarrow> 2 ^ 16 \<le> n div d"
    by (auto simp add: word_uint_eq_iff nd word_less_def q)
  have bound: "d < 2 ^ 16" "0 \<le> d" using uval_bounds [of SzW t0] by (simp_all add: assms)
  have "helper_divw_AX B t0 env =
    (if d = 0 \<or> 2 ^ 16 \<le> n div d then raise_exception B EXCP00_DIVZ env
     else Done () (set_dx ((num mod den) AND 0xffff) (set_ax ((num div den) AND 0xffff) env)))"
    unfolding c [symmetric] helper_divw_AX_def Let_def num_def [symmetric] den_def [symmetric] by simp
  moreover have "uint (num mod den) < 2 ^ 16" if "d \<noteq> 0"
    unfolding q by (rule less_trans [OF pos_mod_bound]) (use that bound in auto)
  ultimately show ?thesis
    using word_part [of "num div den" "EAX env"] word_part [of "num mod den" "EDX env"]
    by (simp add: divides_into_def q set_ax_def set_dx_def only_ax_dx_def)
qed

lemma divl_correct:
  fixes n d :: int
  assumes "n = udividend SzL env" "d = uval SzL t0"
  shows "if d = 0 \<or> 2 ^ 32 \<le> n div d then helper_divl_EAX B t0 env = raise_exception B EXCP00_DIVZ env
    else divides_into uval SzL (n div d) (n mod d) env (helper_divl_EAX B t0 env)"
proof -
  define num den where "num = edx_eax env" and "den = (ucast t0 :: u32)"
  have nd: "uint num = n" "uint den = d"
    by (simp_all add: num_def edx_eax_val den_def assms uval_word unsigned_ucast_eq unsigned_take_bit_eq)
  have den: "uint (ucast den :: u64) = d" using nd(2) uval_bounds [of SzL t0]
    by (simp add: unsigned_ucast_eq assms(2) take_bit_int_eq_self)
  have q: "uint (num div ucast den) = n div d" "uint (num mod ucast den) = n mod d"
    by (simp_all add: uint_div_distrib uint_mod_distrib nd den)
  have c: "den = 0 \<longleftrightarrow> d = 0" "num div ucast den > 0xffffffff \<longleftrightarrow> 2 ^ 32 \<le> n div d"
    by (auto simp add: word_uint_eq_iff nd word_less_def q)
  have bound: "d < 2 ^ 32" "0 \<le> d" using uval_bounds [of SzL t0] by (simp_all add: assms)
  have "helper_divl_EAX B t0 env =
    (if d = 0 \<or> 2 ^ 32 \<le> n div d then raise_exception B EXCP00_DIVZ env
     else Done () (set_reg R_EDX (ucast (ucast (num mod ucast den) :: u32))
            (set_reg R_EAX (ucast (ucast (num div ucast den) :: u32)) env)))"
    unfolding c [symmetric] helper_divl_EAX_def Let_def num_def [symmetric] den_def [symmetric] by simp
  moreover have "n mod d < 2 ^ 32" if "d \<noteq> 0"
    by (rule less_trans [OF pos_mod_bound]) (use that bound in auto)
  moreover have "0 \<le> n mod d" "0 \<le> n div d"
    using q unsigned_greater_eq [of "num mod ucast den", where ?'a = int]
      unsigned_greater_eq [of "num div ucast den", where ?'a = int] by simp_all
  ultimately show ?thesis
    by (simp add: divides_into_def only_ax_dx_def long_part q)
qed

lemma divq_correct:
  fixes n d :: int
  assumes "n = udividend SzQ env" "d = uval SzQ t0"
  shows "if d = 0 \<or> 2 ^ 64 \<le> n div d then helper_divq_EAX B t0 env = raise_exception B EXCP00_DIVZ env
    else divides_into uval SzQ (n div d) (n mod d) env (helper_divq_EAX B t0 env)"
proof -
  have nd: "val128 (EAX env, EDX env) = n" "uint t0 = d"
    by (simp_all add: assms uval_Q val128_def)
  have z: "t0 = 0 \<longleftrightarrow> d = 0" by (simp add: word_uint_eq_iff nd)
  show ?thesis
  proof (cases "d = 0")
    case False
    with div64_correct [of t0 "EAX env" "EDX env", unfolded nd] z show ?thesis
      by (auto simp: helper_divq_EAX_def divides_into_def only_ax_dx_def uval_Q split: if_splits)
  qed (simp add: helper_divq_EAX_def z)
qed

text \<open>
  C13: the unsigned division instructions of every operand size divide: they raise a divide
  error exactly when the divisor is zero or the quotient does not fit, and otherwise leave
  quotient and remainder in their registers and change nothing else.
\<close>
theorem div_correct:
  "let n = udividend sz env; d = uval sz t0 in
     if d = 0 \<or> 2 ^ DATA_BITS sz \<le> n div d
     then helper_div sz B t0 env = raise_exception B EXCP00_DIVZ env
     else divides_into uval sz (n div d) (n mod d) env (helper_div sz B t0 env)"
proof (cases sz)
  case SzB
  then show ?thesis using divb_correct [OF refl refl, of t0 env B] by (simp only: helper_div.simps DATA_BITS.simps Let_def)
next
  case SzW
  then show ?thesis using divw_correct [OF refl refl, of t0 env B]
    by (simp only: helper_div.simps DATA_BITS.simps Let_def)
next
  case SzL
  then show ?thesis using divl_correct [OF refl refl, of t0 env B]
    by (simp only: helper_div.simps DATA_BITS.simps Let_def)
next
  case SzQ
  then show ?thesis using divq_correct [OF refl refl, of t0 env B]
    by (simp only: helper_div.simps DATA_BITS.simps Let_def)
qed

section \<open>The signed division instructions\<close>

lemma sdiv_range:
  fixes a b P :: int
  assumes "b \<noteq> 0" "- P \<le> a" "a < P" "\<not> (a = - P \<and> b = - 1)"
  shows "- P \<le> a sdiv b" "a sdiv b < P" "- P \<le> a smod b" "a smod b < P" "\<bar>a smod b\<bar> < \<bar>b\<bar>"
proof -
  define q r where "q = \<bar>a\<bar> div \<bar>b\<bar>" and "r = \<bar>a\<bar> mod \<bar>b\<bar>"
  have sm: "a sdiv b = (if (a < 0) \<noteq> (b < 0) then - q else q)" "a smod b = (if a < 0 then - r else r)"
    using sdiv_smod_int [OF assms(1)] by (simp_all add: q_def r_def)
  have q: "0 \<le> q" "q \<le> \<bar>a\<bar>" and r: "0 \<le> r" "r < \<bar>b\<bar>" "r \<le> \<bar>a\<bar>"
    using assms(1) zdiv_mono2 [of "\<bar>a\<bar>" 1 "\<bar>b\<bar>"]
    by (simp_all add: q_def r_def pos_imp_zdiv_nonneg_iff zmod_le_nonneg_dividend)
  have "q < P" if "a < 0" "b < 0"
  proof (cases "b = - 1")
    case True
    with assms that show ?thesis by (simp add: q_def)
  next
    case False
    have "q \<le> \<bar>a\<bar> div 2"
      unfolding q_def by (rule zdiv_mono2) (use False that in auto)
    with assms that show ?thesis by linarith
  qed
  with q r assms show "- P \<le> a sdiv b" "a sdiv b < P" "- P \<le> a smod b" "a smod b < P"
    "\<bar>a smod b\<bar> < \<bar>b\<bar>"
    unfolding sm by (auto split: if_splits)
qed

lemma sint_range: "- (2 ^ (LENGTH('a) - 1)) \<le> sint w" "sint w < 2 ^ (LENGTH('a) - 1)"
  for w :: "'a::len word"
  by (rule sint_ge, rule sint_lt)

lemma c_div_mod_val:
  fixes a b :: "'a::len word"
  assumes "\<not> c_overflows a b"
  shows "sint (c_div a b) = sint a sdiv sint b" "sint (c_mod a b) = sint a smod sint b"
    and "\<bar>sint a smod sint b\<bar> < \<bar>sint b\<bar>"
proof -
  have "sint b \<noteq> 0"
    using assms by (metis c_overflows_def of_int_sint of_int_0 scast_id)
  note range = sdiv_range [OF this sint_range [of a]] 
  have *: "sint (word_of_int k :: 'a word) = k"
    if "- (2 ^ (LENGTH('a) - 1)) \<le> k" "k < 2 ^ (LENGTH('a) - 1)" for k
    using that by (simp add: signed_of_int signed_take_bit_int_eq_self)
  show "sint (c_div a b) = sint a sdiv sint b" "sint (c_mod a b) = sint a smod sint b"
    "\<bar>sint a smod sint b\<bar> < \<bar>sint b\<bar>"
    using range assms by (auto simp: c_div_def c_mod_def c_overflows_def intro!: *)
qed

text \<open>The low bits of a narrow result, read signed.\<close>

lemma sval_of_low:
  fixes q :: "'a::len word"
  assumes "take_bit (DATA_BITS sz) x = ucast (take_bit (DATA_BITS sz) q)"
    and "DATA_BITS sz \<le> LENGTH('a)" and "fits_signed sz (sint q)"
  shows "sval sz x = sint q"
proof -
  have n: "0 < DATA_BITS sz" "DATA_BITS sz \<le> 64" using DATA_BITS_bounds by simp_all
  define k where "k = DATA_BITS sz"
  have "take_bit k (uint x) = take_bit 64 (take_bit k (uint q))"
    using arg_cong [OF assms(1), of uint] by (simp add: unsigned_take_bit_eq unsigned_ucast_eq k_def min.commute)
  also have "\<dots> = take_bit k (sint q)"
    using n assms(2) by (simp add: k_def sint_uint take_bit_signed_take_bit min_absorb1 min_absorb2)
  finally have "take_bit (Suc (k - 1)) (uint x) = take_bit (Suc (k - 1)) (sint q)"
    using n by (simp add: k_def)
  then have "signed_take_bit (k - 1) (uint x) = signed_take_bit (k - 1) (sint q)"
    by (simp only: signed_take_bit_eq_iff_take_bit_eq)
  also have "\<dots> = sint q"
    using assms(3) by (simp add: fits_signed_def k_def signed_take_bit_int_eq_self)
  finally show ?thesis by (simp add: sval_def k_def)
qed

lemma sint_operand:
  "sint (ucast (x :: u64) :: u8) = sval SzB x" "sint (ucast x :: u16) = sval SzW x"
  "sint (ucast x :: u32) = sval SzL x" "sint x = sval SzQ x"
  "sint (scast (ucast x :: u8) :: u32) = sval SzB x"
  "sint (scast (ucast x :: u16) :: u32) = sval SzW x"
  "sint (scast (ucast x :: u32) :: u64) = sval SzL x"
  by (simp_all add: signed_scast_eq)
    (simp_all add: sval_def sint_uint unsigned_ucast_eq signed_take_bit_take_bit)

lemma narrow_fits:
  "q = scast (ucast (q :: u32) :: u8) \<longleftrightarrow> fits_signed SzB (sint q)"
  "q = scast (ucast q :: u16) \<longleftrightarrow> fits_signed SzW (sint q)"
  "q' = scast (ucast (q' :: u64) :: u32) \<longleftrightarrow> fits_signed SzL (sint q')"
proof -
  have r: "signed_take_bit n k = k \<longleftrightarrow> - (2 ^ n) \<le> k \<and> k < 2 ^ n" for n and k :: int
    by (rule signed_take_bit_int_eq_self_iff)
  show "q = scast (ucast q :: u8) \<longleftrightarrow> fits_signed SzB (sint q)"
    "q = scast (ucast q :: u16) \<longleftrightarrow> fits_signed SzW (sint q)"
    "q' = scast (ucast q' :: u32) \<longleftrightarrow> fits_signed SzL (sint q')"
    unfolding word_eq_iff_signed [where ?'a = int] fits_signed_def DATA_BITS.simps r [symmetric]
    unfolding signed_scast_eq
    by (auto simp: sint_uint unsigned_ucast_eq signed_take_bit_take_bit)
qed

lemma c_overflows_narrow:
  assumes "- (2 ^ (LENGTH('a) - 1)) < sint (a :: 'a::len word)" "b \<noteq> 0"
  shows "\<not> c_overflows a b"
  using assms by (simp add: c_overflows_def)

text \<open>What \<open>fits_signed\<close> asks of the quotient, when the remainder is smaller than the divisor.\<close>

lemma sval_bounds: "fits_signed sz (sval sz x)"
proof -
  define k where "k = DATA_BITS sz - 1"
  have "- (2 ^ k) \<le> signed_take_bit k (uint x)" "signed_take_bit k (uint x) < 2 ^ k"
    by (simp_all add: signed_take_bit_int_greater_eq_minus_exp signed_take_bit_int_less_exp)
  then show ?thesis by (simp add: fits_signed_def sval_def k_def)
qed

lemma rem_fits: "\<bar>r\<bar> < \<bar>sval sz x\<bar> \<Longrightarrow> fits_signed sz r"
  using sval_bounds [of sz x] by (auto simp: fits_signed_def)

lemma ax_parts_signed:
  fixes q r :: u32 and e :: u64
  assumes "fits_signed SzB (sint q)" "fits_signed SzB (sint r)"
  defines "x \<equiv> (e AND NOT 0xffff) OR ucast (push_bit 8 (r AND 0xff) OR (q AND 0xff)) :: u64"
  shows "sval SzB x = sint q" "sval SzB (drop_bit 8 x) = sint r"
proof -
  have "take_bit (DATA_BITS SzB) x = ucast (take_bit (DATA_BITS SzB) q)"
    "take_bit (DATA_BITS SzB) (drop_bit 8 x) = ucast (take_bit (DATA_BITS SzB) r)"
    unfolding x_def low_masks DATA_BITS.simps by (rule bit_word_eqI, auto simp: bit_simps)+
  then show "sval SzB x = sint q" "sval SzB (drop_bit 8 x) = sint r"
    using assms(1,2) by (auto intro: sval_of_low)
qed

lemma word_part_signed:
  fixes q :: u32
  assumes "fits_signed SzW (sint q)"
  shows "sval SzW ((e AND NOT 0xffff) OR ucast (q AND 0xffff)) = sint q"
proof -
  have "take_bit (DATA_BITS SzW) ((e AND NOT 0xffff) OR ucast (q AND 0xffff) :: u64) =
      ucast (take_bit (DATA_BITS SzW) q)"
    unfolding low_masks DATA_BITS.simps by (rule bit_word_eqI, auto simp: bit_simps)
  with assms show ?thesis by (auto intro: sval_of_low)
qed

lemma long_part_signed:
  fixes q :: u64
  assumes "fits_signed SzL (sint q)"
  shows "sval SzL (ucast (ucast q :: u32)) = sint q"
proof -
  have "take_bit (DATA_BITS SzL) (ucast (ucast q :: u32) :: u64) = ucast (take_bit (DATA_BITS SzL) q)"
    unfolding DATA_BITS.simps by (rule bit_word_eqI, auto simp: bit_simps)
  with assms show ?thesis by (auto intro: sval_of_low)
qed

lemma idivb_correct:
  fixes n d :: int
  assumes "n = sdividend SzB env" "d = sval SzB t0"
  shows "if d = 0 \<or> \<not> fits_signed SzB (n sdiv d)
    then helper_idivb_AL B t0 env = raise_exception B EXCP00_DIVZ env
    else divides_into sval SzB (n sdiv d) (n smod d) env (helper_idivb_AL B t0 env)"
proof -
  define num den where "num = (scast (ucast (EAX env) :: u16) :: u32)"
    and "den = (scast (ucast t0 :: u8) :: u32)"
  have nd: "sint num = n" "sint den = d" and "fits_signed SzW n"
    by (simp_all only: num_def den_def assms sint_operand sdividend.simps sval_bounds)
  have z: "den = 0 \<longleftrightarrow> d = 0" using signed_eq_0_iff [of den, where ?'a = int] nd by simp
  have no: "\<not> c_overflows num den" if "d \<noteq> 0"
    using that \<open>fits_signed SzW n\<close> z by (intro c_overflows_narrow) (simp_all add: nd fits_signed_def)
  note val = c_div_mod_val [OF no, unfolded nd]
  have c: "c_div num den \<noteq> scast (ucast (c_div num den) :: u8) \<longleftrightarrow> \<not> fits_signed SzB (n sdiv d)"
    if "d \<noteq> 0" unfolding narrow_fits val(1) [OF that] ..
  have "helper_idivb_AL B t0 env =
    (if d = 0 \<or> \<not> fits_signed SzB (n sdiv d) then raise_exception B EXCP00_DIVZ env
     else Done () (set_ax (push_bit 8 (c_mod num den AND 0xff) OR (c_div num den AND 0xff)) env))"
    unfolding helper_idivb_AL_def Let_def num_def [symmetric] den_def [symmetric] z
    using c no by simp
  moreover have "fits_signed SzB (n smod d)" if "d \<noteq> 0"
    using val(3) [OF that] assms(2) rem_fits by simp
  ultimately show ?thesis
    using ax_parts_signed [of "c_div num den" "c_mod num den" "EAX env"] val
    by (simp add: divides_into_def set_ax_def only_ax_dx_def)
qed

lemma dx_ax_sval: "sint (dx_ax env) = sdividend SzW env"
proof -
  define x :: u64 where "x = ucast (dx_ax env)"
  have "dx_ax env = ucast x" by (simp add: x_def ucast_down_up)
  then have "sint (dx_ax env) = sval SzL x" by (simp add: sint_operand)
  moreover have "uval SzL x = uint (dx_ax env)"
    using uint_bounded [of "dx_ax env"]
    by (simp add: x_def uval_def unsigned_ucast_eq take_bit_int_eq_self)
  ultimately show ?thesis
    using uval_bounds [of SzW "EAX env"] uval_bounds [of SzW "EDX env"]
    by (simp add: sval_uval [of SzL] sval_uval [of SzW] dx_ax_val)
qed

lemma edx_eax_sval: "sint (edx_eax env) = sdividend SzL env"
  using uval_bounds [of SzL "EAX env"] uval_bounds [of SzL "EDX env"]
  by (simp add: sval_uval [of SzL] sint64 edx_eax_val)

text \<open>
  In C, the most negative dividend over \<open>-1\<close> is an overflow of the division itself.
\<close>

definition host_overflow :: "osize \<Rightarrow> int \<Rightarrow> int \<Rightarrow> bool" where
  "host_overflow sz n d \<longleftrightarrow> (sz = SzW \<or> sz = SzL) \<and> n = - (2 ^ (2 * DATA_BITS sz - 1)) \<and> d = - 1"

lemma idivw_correct:
  fixes n d :: int
  assumes "n = sdividend SzW env" "d = sval SzW t0"
  shows "if d = 0 then helper_idivw_AX B t0 env = raise_exception B EXCP00_DIVZ env
    else if host_overflow SzW n d then helper_idivw_AX B t0 env = Stop HostUndefined env
    else if \<not> fits_signed SzW (n sdiv d) then helper_idivw_AX B t0 env = raise_exception B EXCP00_DIVZ env
    else divides_into sval SzW (n sdiv d) (n smod d) env (helper_idivw_AX B t0 env)"
proof -
  define num den where "num = dx_ax env" and "den = (scast (ucast t0 :: u16) :: u32)"
  have nd: "sint num = n" "sint den = d"
    by (simp_all only: num_def den_def assms sint_operand dx_ax_sval)
  have z: "den = 0 \<longleftrightarrow> d = 0" using signed_eq_0_iff [of den, where ?'a = int] nd by simp
  have o: "c_overflows num den \<longleftrightarrow> host_overflow SzW n d" if "d \<noteq> 0"
    using that z by (simp add: c_overflows_def host_overflow_def nd)
  note val = c_div_mod_val [of num den, unfolded nd]
  have c: "c_div num den \<noteq> scast (ucast (c_div num den) :: u16) \<longleftrightarrow> \<not> fits_signed SzW (n sdiv d)"
    if "\<not> c_overflows num den" unfolding narrow_fits val(1) [OF that] ..
  have "helper_idivw_AX B t0 env =
    (if d = 0 then raise_exception B EXCP00_DIVZ env
     else if host_overflow SzW n d then Stop HostUndefined env
     else if \<not> fits_signed SzW (n sdiv d) then raise_exception B EXCP00_DIVZ env
     else Done () (set_dx (c_mod num den AND 0xffff) (set_ax (c_div num den AND 0xffff) env)))"
    unfolding helper_idivw_AX_def Let_def num_def [symmetric] den_def [symmetric] z
    using c o by simp
  moreover have "fits_signed SzW (n smod d)" if "\<not> c_overflows num den"
    using val(3) [OF that] assms(2) rem_fits by simp
  ultimately show ?thesis
    using word_part_signed [of "c_div num den" "EAX env"] word_part_signed [of "c_mod num den" "EDX env"]
      val o
    by (simp add: divides_into_def set_ax_def set_dx_def only_ax_dx_def)
qed

lemma idivl_correct:
  fixes n d :: int
  assumes "n = sdividend SzL env" "d = sval SzL t0"
  shows "if d = 0 then helper_idivl_EAX B t0 env = raise_exception B EXCP00_DIVZ env
    else if host_overflow SzL n d then helper_idivl_EAX B t0 env = Stop HostUndefined env
    else if \<not> fits_signed SzL (n sdiv d) then helper_idivl_EAX B t0 env = raise_exception B EXCP00_DIVZ env
    else divides_into sval SzL (n sdiv d) (n smod d) env (helper_idivl_EAX B t0 env)"
proof -
  define num den where "num = edx_eax env" and "den = (scast (ucast t0 :: u32) :: u64)"
  have nd: "sint num = n" "sint den = d"
    by (simp_all only: num_def den_def assms sint_operand(7) edx_eax_sval)
  have z: "den = 0 \<longleftrightarrow> d = 0" using signed_eq_0_iff [of den, where ?'a = int] nd by simp
  have z': "ucast t0 = (0 :: u32) \<longleftrightarrow> d = 0"
    using signed_eq_0_iff [of "ucast t0 :: u32", where ?'a = int] by (simp only: sint_operand assms(2))
  have o: "c_overflows num den \<longleftrightarrow> host_overflow SzL n d" if "d \<noteq> 0"
    using that z by (simp add: c_overflows_def host_overflow_def nd)
  note val = c_div_mod_val [of num den, unfolded nd]
  have c: "c_div num den \<noteq> scast (ucast (c_div num den) :: u32) \<longleftrightarrow> \<not> fits_signed SzL (n sdiv d)"
    if "\<not> c_overflows num den" unfolding narrow_fits val(1) [OF that] ..
  have "helper_idivl_EAX B t0 env =
    (if d = 0 then raise_exception B EXCP00_DIVZ env
     else if host_overflow SzL n d then Stop HostUndefined env
     else if \<not> fits_signed SzL (n sdiv d) then raise_exception B EXCP00_DIVZ env
     else Done () (set_reg R_EDX (ucast (ucast (c_mod num den) :: u32))
            (set_reg R_EAX (ucast (ucast (c_div num den) :: u32)) env)))"
    unfolding helper_idivl_EAX_def Let_def num_def [symmetric] den_def [symmetric] z'
    using c o by simp
  moreover have "fits_signed SzL (n smod d)" if "\<not> c_overflows num den"
    using val(3) [OF that] assms(2) rem_fits by simp
  ultimately show ?thesis
    using long_part_signed [of "c_div num den"] long_part_signed [of "c_mod num den"] val o
    by (simp add: divides_into_def only_ax_dx_def)
qed

lemma idivq_correct:
  fixes n d :: int
  assumes "n = sdividend SzQ env" "d = sval SzQ t0"
  shows "if d = 0 \<or> \<not> fits_signed SzQ (n sdiv d)
    then helper_idivq_EAX B t0 env = raise_exception B EXCP00_DIVZ env
    else divides_into sval SzQ (n sdiv d) (n smod d) env (helper_idivq_EAX B t0 env)"
proof -
  have nd: "sval128 (EAX env, EDX env) = n" "sint t0 = d"
    by (simp_all add: assms uval_Q sval128_def sint_operand(4))
  have z: "t0 = 0 \<longleftrightarrow> d = 0" using signed_eq_0_iff [of t0, where ?'a = int] nd by simp
  show ?thesis
  proof (cases "d = 0")
    case False
    with idiv64_correct [of t0 "EAX env" "EDX env", unfolded nd] z show ?thesis
      by (auto simp: helper_idivq_EAX_def divides_into_def only_ax_dx_def fits_signed_def
          sint_operand(4) [symmetric] split: if_splits)
  qed (simp add: helper_idivq_EAX_def z)
qed

text \<open>
  C26: the signed division instructions of every operand size divide with truncation: they
  raise a divide error when the divisor is zero or the quotient does not fit, and otherwise
  leave quotient and remainder in their registers and change nothing else; but at 16 and 32
  bits the most negative dividend over -1 overflows the division of the host program
  (undefined in C, a trap on x86 hosts) in place of raising the guest's divide error.
\<close>
theorem idiv_correct:
  "let n = sdividend sz env; d = sval sz t0 in
     if d = 0 then helper_idiv sz B t0 env = raise_exception B EXCP00_DIVZ env
     else if host_overflow sz n d then helper_idiv sz B t0 env = Stop HostUndefined env
     else if \<not> fits_signed sz (n sdiv d)
     then helper_idiv sz B t0 env = raise_exception B EXCP00_DIVZ env
     else divides_into sval sz (n sdiv d) (n smod d) env (helper_idiv sz B t0 env)"
proof (cases sz)
  case SzB
  with idivb_correct [OF refl refl, of t0 env B] show ?thesis
    by (simp add: Let_def host_overflow_def split: if_splits del: sdividend.simps)
next
  case SzW
  then show ?thesis using idivw_correct [OF refl refl, of t0 B env]
    by (simp only: helper_idiv.simps Let_def)
next
  case SzL
  then show ?thesis using idivl_correct [OF refl refl, of t0 B env]
    by (simp only: helper_idiv.simps Let_def)
next
  case SzQ
  with idivq_correct [OF refl refl, of t0 env B] show ?thesis
    by (simp add: Let_def host_overflow_def split: if_splits del: sdividend.simps)
qed

section \<open>Decimal adjustment\<close>

text \<open>Packed BCD: two decimal digits in a byte.\<close>

definition bcd :: "nat \<Rightarrow> nat" where
  "bcd x = 16 * (x div 10) + x mod 10"

text \<open>
  \<open>daa_adjust\<close> on the sum of two packed numbers, whose digits sum to \<open>s1\<close> and \<open>s0\<close>.
\<close>

definition daa_digits :: "nat \<Rightarrow> nat \<Rightarrow> u32 \<times> u32" where
  "daa_digits s1 s0 = daa_adjust (of_nat ((16 * s1 + s0) mod 256))
     (of_bool (16 \<le> s0) * CC_A) (of_bool (256 \<le> 16 * s1 + s0) * CC_C)"

definition daa_decimal_at :: "nat \<Rightarrow> nat \<Rightarrow> bool" where
  "daa_decimal_at s1 s0 \<longleftrightarrow> fst (daa_digits s1 s0) = of_nat (bcd ((10 * s1 + s0) mod 100)) \<and>
     (snd (daa_digits s1 s0) AND CC_C \<noteq> 0 \<longleftrightarrow> 100 \<le> 10 * s1 + s0)"

lemma upto_18: "n \<le> 18 \<Longrightarrow> n \<in> {0, 1, 2, 3, 4, 5, 6, 7, 8, 9, 10, 11, 12, 13, 14, 15, 16, 17, 18 :: nat}"
  by simp arith

lemma daa_check:
  assumes "s1 \<le> 18" "s0 \<le> 18"
  shows "daa_decimal_at s1 s0 = (\<not> (250 \<le> 16 * s1 + s0 \<and> 16 * s1 + s0 \<le> 255))"
  using assms [THEN upto_18]
  by (elim insertE emptyE; hypsubst)
    (simp_all add: daa_decimal_at_def daa_digits_def daa_adjust_def bcd_def Let_def)

text \<open>The state after the translated \<open>ADD AL, b\<close>.\<close>

definition add_al :: "u64 \<Rightarrow> 'm CPUX86State_scheme \<Rightarrow> 'm CPUX86State_scheme" where
  "add_al b env = env\<lparr>regs := (regs env)(R_EAX := (EAX env AND NOT 0xff) OR ((EAX env + b) AND 0xff)),
     cc_src := b, cc_dst := b + EAX env, cc_op := CC_OP_ADDB\<rparr>"

lemma bcd_parts:
  assumes "a < 100"
  shows "bcd a mod 16 = a mod 10" "bcd a < 256" "a div 10 \<le> 9"
  using assms by (auto simp: bcd_def)

lemma flag_bits_of:
  "flags_word c p a z sg v AND CC_C = of_bool c * CC_C"
  "flags_word c p a z sg v AND CC_A = of_bool a * CC_A"
  unfolding flags_word_def by (cases c; cases p; cases a; cases z; cases sg; cases v; simp)+

lemma not_0xff: "bit (NOT 0xff :: u64) n \<longleftrightarrow> 8 \<le> n \<and> n < 64"
proof -
  have "(0xff :: u64) = mask 8" by (simp add: mask_eq_exp_minus_1)
  then show ?thesis by (simp only: bit_not_iff bit_mask_iff) auto
qed

lemma daa_digits_small: "fst (daa_digits s1 s0) < 256"
proof -
  have "w AND 0xff < (256 :: u32)" for w
    by (simp add: word_less_def low_masks unsigned_take_bit_eq take_bit_eq_mod uint_mod_distrib)
  then have "al < 256 \<Longrightarrow> fst (daa_adjust al af cf) < 256" for al af cf
    by (auto simp: daa_adjust_def Let_def)
  moreover have "(of_nat (n mod 256) :: u32) < 256" for n
    unfolding word_less_nat_alt unat_of_nat by simp
  ultimately show ?thesis by (simp add: daa_digits_def del: of_nat_mod)
qed

lemma helper_daa_after_add:
  fixes a b :: nat
  assumes "a < 100" "b < 100" "uval SzB (EAX env) = int (bcd a)"
  defines "s1 \<equiv> a div 10 + b div 10" and "s0 \<equiv> a mod 10 + b mod 10"
  defines "env' \<equiv> helper_daa (add_al (of_nat (bcd b)) env)"
  shows "uval SzB (EAX env') = uint (fst (daa_digits s1 s0)) mod 256"
    and "bit (cc_src env') 0 \<longleftrightarrow> snd (daa_digits s1 s0) AND CC_C \<noteq> 0"
proof -
  define B :: u64 where "B = of_nat (bcd b)"
  define e where "e = add_al B env"
  have B: "uval SzB B = int (bcd b)" "uint B = int (bcd b)"
    using bcd_parts [OF assms(2)]
    by (simp_all add: B_def uval_def unsigned_of_nat take_bit_nat_eq_self take_bit_int_eq_self
        take_bit_eq_mod zmod_int)
  have low: "uint (EAX env) mod 256 = int (bcd a)"
    using assms(3) by (simp add: uval_def take_bit_eq_mod)
  have nib: "uint (EAX env) mod 16 = int (a mod 10)"
  proof -
    have "uint (EAX env) mod 16 = uint (EAX env) mod 256 mod 16" by (simp add: mod_mod_cancel)
    also have "\<dots> = int (bcd a mod 16)" by (simp add: low zmod_int)
    finally show ?thesis by (simp add: bcd_parts [OF assms(1)])
  qed
  have nibB: "uint B mod 16 = int (b mod 10)"
    unfolding B(2) using bcd_parts(1) [OF assms(2)] zmod_int [of "bcd b" 16] by simp
  have sum: "bcd a + bcd b = 16 * s1 + s0" by (simp add: bcd_def s1_def s0_def)
  have flags: "helper_cc_compute_all e (cc_op e) = add_flags SzB B (EAX env) False"
  proof -
    have "e\<lparr>cc_src := B, cc_dst := B + EAX env\<rparr> = e" "cc_op e = CC_OP_ADDB"
      by (simp_all add: e_def add_al_def)
    with compute_all_add_flags [where sz = SzB and env = e and a = B and b = "EAX env"]
    show ?thesis by simp
  qed
  have cf: "helper_cc_compute_all e (cc_op e) AND CC_C = of_bool (256 \<le> 16 * s1 + s0) * CC_C"
    unfolding flags add_flags_def flag_bits_of B assms(3) by (simp add: sum [symmetric])
  have af: "helper_cc_compute_all e (cc_op e) AND CC_A = of_bool (16 \<le> s0) * CC_A"
    unfolding flags add_flags_def flag_bits_of nib nibB by (simp add: s0_def add.commute)
  have al: "(ucast (EAX e AND 0xff) :: u32) = of_nat ((16 * s1 + s0) mod 256)"
  proof -
    have eq: "EAX e AND 0xff = take_bit 8 (EAX env + B)"
      unfolding e_def add_al_def by (simp add: low_masks)
    have u: "uint (take_bit 8 (EAX env + B)) = int ((16 * s1 + s0) mod 256)"
    proof -
      have "uint (take_bit 8 (EAX env + B)) = (uint (EAX env) + uint B) mod 256"
        by (simp only: unsigned_take_bit_eq) (simp add: uint_word_ariths take_bit_eq_mod mod_mod_cancel)
      also have "\<dots> = (uint (EAX env) mod 256 + int (bcd b)) mod 256" by (simp add: B mod_simps)
      finally show ?thesis by (simp add: low sum [symmetric] zmod_int)
    qed
    show ?thesis
      unfolding word_uint_eq_iff unsigned_ucast_eq eq u
      by (simp add: unsigned_of_nat take_bit_eq_mod)
  qed
  define al efl where "al = fst (daa_digits s1 s0)" and "efl = snd (daa_digits s1 s0)"
  have env': "EAX env' = (EAX e AND NOT 0xff) OR scast al" "cc_src env' = scast (bcd_flags efl al)"
    unfolding env'_def helper_daa_def Let_def B_def [symmetric] e_def [symmetric] al cf af
      daa_digits_def [symmetric] split_beta al_def efl_def by simp_all
  have "take_bit 8 (EAX env') = ucast (take_bit 8 al)"
    unfolding env' by (rule bit_word_eqI) (auto simp: bit_simps not_0xff)
  then have "uint (take_bit 8 (EAX env')) = uint (ucast (take_bit 8 al) :: u64)" by simp
  then show "uval SzB (EAX env') = uint (fst (daa_digits s1 s0)) mod 256"
    unfolding uval_word DATA_BITS.simps unsigned_ucast_eq unsigned_take_bit_eq al_def [symmetric]
    by (simp add: take_bit_eq_mod mod_mod_cancel)
  have "al < 256" unfolding al_def by (rule daa_digits_small)
  then have "\<not> bit (parity_table ! unat al) 0" 
    using parity_table_correct [of "ucast al"]
    by (simp add: unsigned_ucast_eq take_bit_eq_mod word_less_nat_alt)
  then have "bit (cc_src env') 0 \<longleftrightarrow> bit efl 0"
    unfolding env' bcd_flags_def Let_def by (simp add: bit_simps)
  then show "bit (cc_src env') 0 \<longleftrightarrow> snd (daa_digits s1 s0) AND CC_C \<noteq> 0"
    using and_mask_bit [of efl 0] by (simp add: efl_def)
qed


text \<open>
  C38: \<open>DAA\<close> after adding two packed decimal bytes makes the packed sum modulo 100, with
  the carry when the sum reaches 100, for all operands except those whose binary sum is 0xFA
  to 0xFF (such as 0x99 + 0x61): there the second test looks at AL after its first
  adjustment has wrapped around, and neither digit nor carry is right.
\<close>
theorem daa_decimal_iff:
  assumes "a < 100" "b < 100" "uval SzB (EAX env) = int (bcd a)"
  shows "let env' = helper_daa (add_al (of_nat (bcd b)) env) in
    uval SzB (EAX env') = int (bcd ((a + b) mod 100)) \<and> (bit (cc_src env') 0 \<longleftrightarrow> 100 \<le> a + b)
    \<longleftrightarrow> \<not> (0xfa \<le> bcd a + bcd b \<and> bcd a + bcd b \<le> 0xff)"
proof -
  define s1 s0 where "s1 = a div 10 + b div 10" and "s0 = a mod 10 + b mod 10"
  have digits: "a div 10 \<le> 9" "b div 10 \<le> 9" "a mod 10 \<le> 9" "b mod 10 \<le> 9"
    using assms by (auto simp: less_Suc_eq_le [symmetric])
  then have le: "s1 \<le> 18" "s0 \<le> 18" by (simp_all add: s1_def s0_def)
  have sums: "a + b = 10 * s1 + s0" "bcd a + bcd b = 16 * s1 + s0"
    by (simp_all add: s1_def s0_def bcd_def)
  note check = daa_check [OF le]
  have small: "uint (fst (daa_digits s1 s0)) < 256"
    using daa_digits_small [of s1 s0] by (simp add: word_less_def)
  have "bcd ((a + b) mod 100) < 256" by (rule bcd_parts) simp
  then have "fst (daa_digits s1 s0) = of_nat (bcd ((10 * s1 + s0) mod 100)) \<longleftrightarrow>
      uint (fst (daa_digits s1 s0)) = int (bcd ((a + b) mod 100))"
    by (simp add: word_uint_eq_iff unsigned_of_nat take_bit_eq_mod sums)
  then show ?thesis
    using check helper_daa_after_add [OF assms] small
    by (simp add: Let_def daa_decimal_at_def sums s1_def [symmetric] s0_def [symmetric])
qed

theorem daa_decimal_iff_witness:
  "let env' = helper_daa (add_al (of_nat (bcd 38)) (cpu_zero\<lparr>regs := (\<lambda>_. 0x25)\<rparr>)) in
     uval SzB (EAX env') = int (bcd 63) \<and> \<not> bit (cc_src env') 0"
  using daa_decimal_iff [of 25 38 "cpu_zero\<lparr>regs := (\<lambda>_. 0x25)\<rparr>"]
  by (simp add: Let_def bcd_def uval_def take_bit_eq_mod)

section \<open>Bit scans find the lowest and the highest bit\<close>

lemma scast_of_nat:
  assumes "n < 2 ^ 31"
  shows "scast (of_nat n :: u32) = (of_nat n :: u64)"
proof -
  have "sint (of_nat n :: u32) = int n"
    using assms by (simp add: signed_of_nat signed_take_bit_int_eq_self)
  then show ?thesis by (metis of_int_of_nat_eq of_int_sint)
qed

lemma bsf_loop_finds:
  "bit res n \<Longrightarrow> (\<And>m. m < n \<Longrightarrow> \<not> bit res m) \<Longrightarrow> bsf_loop res c = Some (c + of_nat n)"
proof (induction n arbitrary: res c)
  case 0
  then show ?case by (simp add: bsf_loop.simps and_1_bit)
next
  case (Suc n)
  then have "\<not> bit res 0" by blast
  moreover have "bsf_loop (drop_bit 1 res) (c + 1) = Some (c + 1 + of_nat n)"
    using Suc.prems by (intro Suc.IH) (simp_all add: bit_drop_bit_eq)
  ultimately show ?case by (subst bsf_loop.simps) (simp add: and_1_bit add.commute add.left_commute)
qed

lemma bsf_loop_ends: "bsf_loop res c = Some y \<Longrightarrow> res \<noteq> 0"
proof -
  assume "bsf_loop res c = Some y"
  then show ?thesis
    by (rule bsf_loop.raw_induct [where P = "\<lambda>res c y. res \<noteq> 0", rotated])
      (auto split: if_splits, metis)
qed

lemma bsr_loop_finds:
  "bit res (63 - k) \<Longrightarrow> (\<And>m. 63 - k < m \<Longrightarrow> \<not> bit res m) \<Longrightarrow> k \<le> 63 \<Longrightarrow>
   bsr_loop res c = Some (c - of_nat k)"
proof (induction k arbitrary: res c)
  case 0
  then show ?case using and_mask_bit [of res 63] by (simp add: bsr_loop.simps)
next
  case (Suc k)
  then have "\<not> bit res 63" by simp
  then have "res AND push_bit 63 1 = 0" using and_mask_bit [of res 63] by simp
  moreover have "bsr_loop (push_bit 1 res) (c - 1) = Some (c - 1 - of_nat k)"
  proof (rule Suc.IH)
    show "bit (push_bit 1 res) (63 - k)" "k \<le> 63"
      unfolding bit_push_bit_iff using Suc.prems by (auto simp: diff_diff_left)
    show "\<not> bit (push_bit 1 res) m" if "63 - k < m" for m
      unfolding bit_push_bit_iff using that Suc.prems(2) [of "m - 1"] Suc.prems(3) by auto
  qed
  ultimately show ?case by (subst bsr_loop.simps) (simp add: algebra_simps)
qed

lemma bsr_loop_ends: "bsr_loop res c = Some y \<Longrightarrow> res \<noteq> 0"
proof -
  assume "bsr_loop res c = Some y"
  then show ?thesis
    by (rule bsr_loop.raw_induct [where P = "\<lambda>res c y. res \<noteq> 0", rotated])
      (auto split: if_splits, metis)
qed

lemma word_bits_finite: "{n. bit (w :: 'a::len word) n} \<subseteq> {..<LENGTH('a)}"
  by (auto dest: bit_imp_le_length)

text \<open>
  C37: the bit scans end on every operand but zero, and then return the number of the lowest
  (\<open>BSF\<close>) and of the highest (\<open>BSR\<close>) set bit; on zero their loops never end.
\<close>
theorem bit_scan_correct:
  "helper_bsf t0 = (if t0 = 0 then None else Some (of_nat (Min {n. bit t0 n}))) \<and>
   helper_bsr t0 = (if t0 = 0 then None else Some (of_nat (Max {n. bit t0 n})))"
proof (cases "t0 = 0")
  case True
  then have "bsf_loop t0 0 = None" "bsr_loop t0 63 = None"
    using bsf_loop_ends [of t0 0] bsr_loop_ends [of t0 63] by (metis option.exhaust)+
  with True show ?thesis by (simp add: helper_bsf_def helper_bsr_def)
next
  case False
  let ?S = "{n. bit t0 n}"
  have fin: "finite ?S" "?S \<noteq> {}"
    using finite_subset [OF word_bits_finite] False by (auto simp: bit_eq_iff)
  have lt: "Min ?S < 64" "Max ?S < 64"
    using Min_in [OF fin] Max_in [OF fin] by (auto dest: bit_imp_le_length)
  have "bsf_loop t0 0 = Some (0 + of_nat (Min ?S))"
    using Min_in [OF fin] fin by (intro bsf_loop_finds) (auto dest: Min_le [OF fin(1)] simp: not_le [symmetric])
  moreover have "bsr_loop t0 63 = Some (63 - of_nat (63 - Max ?S))"
    using Max_in [OF fin] fin lt
    by (intro bsr_loop_finds) (auto dest: Max_ge [OF fin(1)] simp: not_le [symmetric])
  moreover have "63 - of_nat (63 - Max ?S) = (of_nat (Max ?S) :: u32)"
    using lt by (simp add: of_nat_diff)
  ultimately show ?thesis
    using False lt by (simp add: helper_bsf_def helper_bsr_def scast_of_nat)
qed

section \<open>Signed multiplication\<close>

text \<open>What the helpers rely on in \<open>muls64\<close>: the two halves are the full product.\<close>

definition muls64_spec :: "mul128 \<Rightarrow> bool" where
  "muls64_spec mul \<longleftrightarrow> (\<forall>a b. sval128 (mul a b) = sint a * sint b)"

lemma sint_sign_word: "sint (signed_drop_bit 63 (lo :: u64)) = (if sint lo < 0 then - 1 else 0)"
proof -
  have "sint (signed_drop_bit 63 lo) = sint lo div 2 ^ 63"
    by (simp add: sint_signed_drop_bit_eq drop_bit_eq_div)
  also have "\<dots> = (if sint lo < 0 then - 1 else 0)"
    using sint_range [of lo] by (auto intro: int_div_pos_eq [where r = "sint lo + 2 ^ 63"])
  finally show ?thesis .
qed

lemma sval128_fits:
  "hi = signed_drop_bit 63 lo \<longleftrightarrow> fits_signed SzQ (sval128 (lo, hi))"
proof -
  have "hi = signed_drop_bit 63 lo \<longleftrightarrow> sint hi = (if sint lo < 0 then - 1 else 0)"
    by (simp add: word_eq_iff_signed [where ?'a = int] sint_sign_word)
  moreover have "sint hi = h \<Longrightarrow> fits_signed SzQ (sval128 (lo, hi)) \<longleftrightarrow>
      - (2 ^ 63) \<le> h * 2 ^ 64 + uint lo \<and> h * 2 ^ 64 + uint lo < 2 ^ 63" for h
    by (simp add: fits_signed_def sval128_def)
  moreover have "- 9223372036854775808 \<le> h * 18446744073709551616 + l \<and>
      h * 18446744073709551616 + l < 9223372036854775808 \<longleftrightarrow>
      h = (if l < 9223372036854775808 then 0 else - 1)"
    if "0 \<le> l" "l < 18446744073709551616" for h l :: int
    using that by (cases "h = 0"; cases "h = - 1"; cases "0 < h") auto
  ultimately show ?thesis
    using u64_bounds [of lo] by (simp add: sint64)
qed

text \<open>
  After a 64-bit signed multiplication the low half is in the destination and the
  overflow source is set exactly when the product does not fit 64 signed bits.
\<close>
lemma imulq_overflow:
  assumes "muls64_spec muls64"
  shows "let (r, env') = helper_imulq_T0_T1 muls64 t0 t1 env in
    (cc_src env' \<noteq> 0 \<longleftrightarrow> \<not> fits_signed SzQ (sint t0 * sint t1)) \<and>
    (fits_signed SzQ (sint t0 * sint t1) \<longrightarrow> sint r = sint t0 * sint t1) \<and> cc_dst env' = r"
proof -
  obtain r h where m: "muls64 t0 t1 = (r, h)" by (cases "muls64 t0 t1")
  then have p: "sval128 (r, h) = sint t0 * sint t1" using assms by (metis muls64_spec_def)
  have "sint r = sval128 (r, h)" if "h = signed_drop_bit 63 r"
  proof -
    have "sint h = (if sint r < 0 then - 1 else 0)" by (simp add: that sint_sign_word)
    then show ?thesis using u64_bounds [of r] by (auto simp: sval128_def sint64)
  qed
  then show ?thesis
    unfolding helper_imulq_T0_T1_def m Let_def prod.case
    by (simp add: sval128_fits [of h r] p)
qed

definition muls64_ref :: mul128 where
  "muls64_ref a b = (word_of_int (sint a * sint b), word_of_int (sint a * sint b div 2 ^ 64))"

lemma muls64_ref_spec: "muls64_spec muls64_ref"
  unfolding muls64_spec_def
proof (intro allI)
  fix a b :: u64
  define p where "p = sint a * sint b"
  have "\<bar>p\<bar> \<le> 2 ^ 63 * 2 ^ 63"
    unfolding p_def abs_mult using sint_range [of a] sint_range [of b]
    by (intro mult_mono) auto
  then have "- (2 ^ 63) \<le> p div 2 ^ 64" "p div 2 ^ 64 < 2 ^ 63" by auto
  then have "sint (word_of_int (p div 2 ^ 64) :: u64) = p div 2 ^ 64"
    by (simp add: signed_of_int signed_take_bit_int_eq_self)
  then show "sval128 (muls64_ref a b) = sint a * sint b"
    unfolding muls64_ref_def p_def [symmetric]
    by (simp add: sval128_def unsigned_of_int take_bit_eq_mod)
qed

end
