(* ===== verification/ShiftHelper.thy ===== *)
theory ShiftHelper
  imports CondCodes
begin

text \<open>
  Rotation through the carry flag, after \<open>shift_helper_template.h\<close> and the count tables of
  \<open>int_helper.c\<close>.  The template is instantiated at the four operand sizes; the model takes
  the size as an argument.
\<close>

section \<open>The helpers\<close>

definition rclw_table :: "nat list" where
  "rclw_table = [
     0, 1, 2, 3, 4, 5, 6, 7,
     8, 9, 10, 11, 12, 13, 14, 15,
     16, 0, 1, 2, 3, 4, 5, 6,
     7, 8, 9, 10, 11, 12, 13, 14]"

definition rclb_table :: "nat list" where
  "rclb_table = [
     0, 1, 2, 3, 4, 5, 6, 7,
     8, 0, 1, 2, 3, 4, 5, 6,
     7, 8, 0, 1, 2, 3, 4, 5,
     6, 7, 8, 0, 1, 2, 3, 4]"

fun rot_count :: "osize \<Rightarrow> u64 \<Rightarrow> nat" where
  "rot_count SzB t1 = rclb_table ! unat (t1 AND 0x1f)"
| "rot_count SzW t1 = rclw_table ! unat (t1 AND 0x1f)"
| "rot_count SzL t1 = unat (t1 AND 0x1f)"
| "rot_count SzQ t1 = unat (t1 AND 0x3f)"

definition helper_rcl ::
  "osize \<Rightarrow> 'm CPUX86State_scheme \<Rightarrow> u64 \<Rightarrow> u64 \<Rightarrow> u64 \<times> 'm CPUX86State_scheme" where
  "helper_rcl sz env t0 t1 =
    (let count = rot_count sz t1
     in if count \<noteq> 0 then
          (let efl = ucast (cc_src env) :: u32;
               t0 = t0 AND DATA_MASK sz;
               src = t0;
               res = push_bit count t0 OR push_bit (count - 1) (scast (efl AND CC_C));
               res = (if count > 1 then res OR drop_bit (DATA_BITS sz + 1 - count) t0 else res);
               t0 = res
           in (t0, env\<lparr>cc_src := scast (efl AND NOT (CC_C OR CC_O)) OR
                     (lshift (src XOR t0) (11 - (int (DATA_BITS sz) - 1)) AND CC_O) OR
                     (drop_bit (DATA_BITS sz - count) src AND CC_C)\<rparr>))
        else (t0, env))"

definition helper_rcr ::
  "osize \<Rightarrow> 'm CPUX86State_scheme \<Rightarrow> u64 \<Rightarrow> u64 \<Rightarrow> u64 \<times> 'm CPUX86State_scheme" where
  "helper_rcr sz env t0 t1 =
    (let count = rot_count sz t1
     in if count \<noteq> 0 then
          (let efl = ucast (cc_src env) :: u32;
               t0 = t0 AND DATA_MASK sz;
               src = t0;
               res = drop_bit count t0 OR push_bit (DATA_BITS sz - count) (scast (efl AND CC_C));
               res = (if count > 1 then res OR push_bit (DATA_BITS sz + 1 - count) t0 else res);
               t0 = res
           in (t0, env\<lparr>cc_src := scast (efl AND NOT (CC_C OR CC_O)) OR
                     (lshift (src XOR t0) (11 - (int (DATA_BITS sz) - 1)) AND CC_O) OR
                     (drop_bit (count - 1) src AND CC_C)\<rparr>))
        else (t0, env))"

section \<open>Rotation of the operand and the carry\<close>

text \<open>The operand's bits, lowest first, and then the carry flag.\<close>

definition carry_bits :: "osize \<Rightarrow> u64 \<times> 'm CPUX86State_scheme \<Rightarrow> bool list" where
  "carry_bits sz = (\<lambda>(x, env). map (bit x) [0..<DATA_BITS sz] @ [bit (cc_src env) 0])"

lemma length_carry_bits [simp]: "length (carry_bits sz p) = DATA_BITS sz + 1"
  by (simp add: carry_bits_def split_beta)

lemma nth_carry_bits:
  "i \<le> DATA_BITS sz \<Longrightarrow> carry_bits sz (x, env) ! i =
     (if i = DATA_BITS sz then bit (cc_src env) 0 else bit x i)"
  by (simp add: carry_bits_def nth_append)

lemma count_tables:
  "i < 32 \<Longrightarrow> rclb_table ! i = i mod 9" "i < 32 \<Longrightarrow> rclw_table ! i = i mod 17"
proof -
  have "rclb_table = map (\<lambda>i. i mod 9) [0..<32]" "rclw_table = map (\<lambda>i. i mod 17) [0..<32]"
    by code_simp+
  note tables = this
  show "i < 32 \<Longrightarrow> rclb_table ! i = i mod 9"
    unfolding tables by (subst nth_map) simp_all
  show "i < 32 \<Longrightarrow> rclw_table ! i = i mod 17"
    unfolding tables by (subst nth_map) simp_all
qed

text \<open>The count that the instruction asks for, and the one the code rotates by.\<close>

definition asked_count :: "osize \<Rightarrow> u64 \<Rightarrow> nat" where
  "asked_count sz t1 = unat t1 mod (if sz = SzQ then 64 else 32)"

lemma rot_count_eq: "rot_count sz t1 = asked_count sz t1 mod (DATA_BITS sz + 1)"
proof -
  have "t1 AND 0x1f = take_bit 5 t1" "t1 AND 0x3f = take_bit 6 t1"
    by (simp_all add: take_bit_eq_mask mask_eq_exp_minus_1)
  then have "unat (t1 AND 0x1f) = take_bit 5 (unat t1)" "unat (t1 AND 0x3f) = take_bit 6 (unat t1)"
    by (simp_all only: unsigned_take_bit_eq)
  then have "unat (t1 AND 0x1f) = unat t1 mod 32" "unat (t1 AND 0x3f) = unat t1 mod 64"
    by (simp_all add: take_bit_eq_mod)
  moreover have "unat t1 mod 32 < 32" "unat t1 mod 64 < 64" by simp_all
  ultimately show ?thesis
    by (cases sz) (simp_all add: asked_count_def count_tables)
qed


lemma rot_count_le: "rot_count sz t1 \<le> DATA_BITS sz" "rot_count sz t1 < 64"
proof -
  have "asked_count sz t1 < (if sz = SzQ then 64 else 32)" by (simp add: asked_count_def)
  then have "asked_count sz t1 mod (DATA_BITS sz + 1) < 64"
    by (intro le_less_trans [OF mod_less_eq_dividend]) (auto split: if_splits)
  then show "rot_count sz t1 \<le> DATA_BITS sz" "rot_count sz t1 < 64"
    by (simp_all add: rot_count_eq less_Suc_eq_le [symmetric])
qed

lemma bit_masked: "bit (x AND DATA_MASK sz) n \<longleftrightarrow> bit x n \<and> n < DATA_BITS sz"
  using DATA_BITS_bounds [of sz]
  by (auto simp: DATA_MASK_eq bit_take_bit_iff bit_ucast_iff)

lemma bit_carry_in: "bit (scast ((ucast (c :: u64) :: u32) AND CC_C) :: u64) n \<longleftrightarrow> n = 0 \<and> bit c 0"
proof -
  have "((ucast c :: u32) AND 1) = of_bool (bit c 0)"
    using and_exp_of_bool [of "ucast c :: u32" 0] by (simp add: bit_simps)
  then show ?thesis by (cases "bit c 0") (auto simp: bit_1_iff)
qed

lemma carry_out_bit:
  "bit (scast (efl AND NOT (CC_C OR CC_O)) OR (v AND CC_O) OR (w AND CC_C) :: u64) 0 \<longleftrightarrow> bit w 0"
  by (simp add: bit_simps)

text \<open>Each bit of the result and the carry after it, for a nonzero count.\<close>

lemma rcl_bits:
  fixes env :: "'m CPUX86State_scheme" and t0 :: u64
  assumes "0 < rot_count sz t1"
  defines "k \<equiv> rot_count sz t1" and "w \<equiv> DATA_BITS sz" and "r \<equiv> helper_rcl sz env t0 t1"
  shows "i < w \<Longrightarrow> bit (fst r) i \<longleftrightarrow>
      (if k \<le> i then bit t0 (i - k) else if i = k - 1 then bit (cc_src env) 0 else bit t0 (i + (w + 1 - k)))"
    and "bit (cc_src (snd r)) 0 \<longleftrightarrow> bit t0 (w - k)"
proof -
  have w: "8 \<le> w" "w \<le> 64" and k: "0 < k" "k \<le> w" "k < 64"
    using assms(1) DATA_BITS_bounds [of sz] rot_count_le [of sz t1] by (simp_all add: w_def k_def)
  define m where "m = t0 AND DATA_MASK sz"
  define c :: u64 where "c = scast (ucast (cc_src env) AND (CC_C :: u32))"
  have m: "bit m n \<longleftrightarrow> bit t0 n \<and> n < w" and c: "bit c n \<longleftrightarrow> n = 0 \<and> bit (cc_src env) 0" for n
    unfolding m_def c_def w_def by (rule bit_masked, rule bit_carry_in)
  have fst: "fst r = (if k > 1 then push_bit k m OR push_bit (k - 1) c OR drop_bit (w + 1 - k) m
      else push_bit k m OR push_bit (k - 1) c)"
    using k(1) unfolding r_def helper_rcl_def Let_def k_def [symmetric] w_def [symmetric]
      m_def [symmetric] c_def [symmetric] by (simp add: or.assoc)
  show "bit (fst r) i \<longleftrightarrow>
      (if k \<le> i then bit t0 (i - k) else if i = k - 1 then bit (cc_src env) 0 else bit t0 (i + (w + 1 - k)))"
    if "i < w"
    using that k w
    by (cases "k \<le> i"; cases "k > 1")
      (auto simp: fst bit_or_iff bit_push_bit_iff bit_drop_bit_eq m c add.commute)
  have "bit (cc_src (snd r)) 0 \<longleftrightarrow> bit (drop_bit (w - k) m) 0"
    using k(1) unfolding r_def helper_rcl_def Let_def k_def [symmetric] w_def [symmetric]
      m_def [symmetric] by (simp add: carry_out_bit [simplified])
  then show "bit (cc_src (snd r)) 0 \<longleftrightarrow> bit t0 (w - k)"
    using k by (simp add: bit_drop_bit_eq m)
qed

lemma rcr_bits:
  fixes env :: "'m CPUX86State_scheme" and t0 :: u64
  assumes "0 < rot_count sz t1"
  defines "k \<equiv> rot_count sz t1" and "w \<equiv> DATA_BITS sz" and "r \<equiv> helper_rcr sz env t0 t1"
  shows "i < w \<Longrightarrow> bit (fst r) i \<longleftrightarrow>
      (if i + k < w then bit t0 (i + k) else if i + k = w then bit (cc_src env) 0 else bit t0 (i + k - (w + 1)))"
    and "bit (cc_src (snd r)) 0 \<longleftrightarrow> bit t0 (k - 1)"
proof -
  have w: "8 \<le> w" "w \<le> 64" and k: "0 < k" "k \<le> w" "k < 64"
    using assms(1) DATA_BITS_bounds [of sz] rot_count_le [of sz t1] by (simp_all add: w_def k_def)
  define m where "m = t0 AND DATA_MASK sz"
  define c :: u64 where "c = scast (ucast (cc_src env) AND (CC_C :: u32))"
  have m: "bit m n \<longleftrightarrow> bit t0 n \<and> n < w" and c: "bit c n \<longleftrightarrow> n = 0 \<and> bit (cc_src env) 0" for n
    unfolding m_def c_def w_def by (rule bit_masked, rule bit_carry_in)
  have fst: "fst r = (if k > 1 then drop_bit k m OR push_bit (w - k) c OR push_bit (w + 1 - k) m
      else drop_bit k m OR push_bit (w - k) c)"
    using k(1) unfolding r_def helper_rcr_def Let_def k_def [symmetric] w_def [symmetric]
      m_def [symmetric] c_def [symmetric] by (simp add: or.assoc)
  show "bit (fst r) i \<longleftrightarrow>
      (if i + k < w then bit t0 (i + k) else if i + k = w then bit (cc_src env) 0 else bit t0 (i + k - (w + 1)))"
    if "i < w"
    using that k w
    by (cases "i + k < w"; cases "k > 1")
      (auto simp: fst bit_or_iff bit_push_bit_iff bit_drop_bit_eq m c add.commute)
  have "bit (cc_src (snd r)) 0 \<longleftrightarrow> bit (drop_bit (k - 1) m) 0"
    using k(1) unfolding r_def helper_rcr_def Let_def k_def [symmetric] w_def [symmetric]
      m_def [symmetric] by (simp add: carry_out_bit [simplified])
  then show "bit (cc_src (snd r)) 0 \<longleftrightarrow> bit t0 (k - 1)"
    using k by (auto simp: bit_drop_bit_eq m)
qed

lemma rot_zero:
  "rot_count sz t1 = 0 \<Longrightarrow> helper_rcl sz env t0 t1 = (t0, env)"
  "rot_count sz t1 = 0 \<Longrightarrow> helper_rcr sz env t0 t1 = (t0, env)"
  by (simp_all add: helper_rcl_def helper_rcr_def)

lemma rotate_length: "rotate (length xs) xs = xs"
  by (simp add: rotate_drop_take)

text \<open>
  C34: \<open>RCL\<close> and \<open>RCR\<close> rotate the operand and the carry flag as one ring of one bit more
  than the operand, by the masked count of the instruction, at every operand size.
\<close>
theorem rcl_rcr_rotate:
  "carry_bits sz (helper_rcl sz env t0 t1) =
     rotate (DATA_BITS sz + 1 - asked_count sz t1 mod (DATA_BITS sz + 1)) (carry_bits sz (t0, env)) \<and>
   carry_bits sz (helper_rcr sz env t0 t1) =
     rotate (asked_count sz t1 mod (DATA_BITS sz + 1)) (carry_bits sz (t0, env))"
proof -
  define w k where "w = DATA_BITS sz" and "k = rot_count sz t1"
  have k: "k \<le> w" using rot_count_le [of sz t1] by (simp add: w_def k_def)
  have split: "carry_bits sz p ! i = (if i = w then bit (cc_src (snd p)) 0 else bit (fst p) i)"
    if "i \<le> w" for p and i
    using nth_carry_bits [of i sz "fst p" "snd p"] that by (simp add: w_def)
  have "carry_bits sz (helper_rcl sz env t0 t1) = rotate (w + 1 - k) (carry_bits sz (t0, env))"
  proof (cases "k = 0")
    case True
    with rotate_length [of "carry_bits sz (t0, env)"] show ?thesis by (simp add: k_def w_def rot_zero)
  next
    case False
    show ?thesis
    proof (rule nth_equalityI)
      fix i assume "i < length (carry_bits sz (helper_rcl sz env t0 t1))"
      then have i: "i \<le> w" by (simp add: w_def)
      have "(i + (w + 1 - k)) mod (w + 1) = (if i < k then i + (w + 1 - k) else i - k)"
        using i k by (auto simp: mod_if)
      then show "carry_bits sz (helper_rcl sz env t0 t1) ! i =
          rotate (w + 1 - k) (carry_bits sz (t0, env)) ! i"
        using i k False rcl_bits(1) [where sz = sz and ?t1.0 = t1 and i = i and env = env and ?t0.0 = t0, folded k_def w_def]
          rcl_bits(2) [where sz = sz and ?t1.0 = t1 and env = env and ?t0.0 = t0, folded k_def w_def]
        by (auto simp: nth_rotate split w_def [symmetric] add.commute)
    qed simp
  qed
  moreover have "carry_bits sz (helper_rcr sz env t0 t1) = rotate k (carry_bits sz (t0, env))"
  proof (cases "k = 0")
    case False
    show ?thesis
    proof (rule nth_equalityI)
      fix i assume "i < length (carry_bits sz (helper_rcr sz env t0 t1))"
      then have i: "i \<le> w" by (simp add: w_def)
      have "(i + k) mod (w + 1) = (if i + k \<le> w then i + k else i + k - (w + 1))"
        using i k by (auto simp: mod_if)
      then show "carry_bits sz (helper_rcr sz env t0 t1) ! i = rotate k (carry_bits sz (t0, env)) ! i"
        using i k False rcr_bits(1) [where sz = sz and ?t1.0 = t1 and i = i and env = env and ?t0.0 = t0, folded k_def w_def]
          rcr_bits(2) [where sz = sz and ?t1.0 = t1 and env = env and ?t0.0 = t0, folded k_def w_def]
        by (auto simp: nth_rotate split w_def [symmetric] add.commute)
    qed simp
  qed (simp add: k_def rot_zero)
  ultimately show ?thesis by (simp add: w_def k_def rot_count_eq)
qed

end
