(* ===== verification/Mmu.thy ===== *)
theory Mmu
  imports ExcpHelper
begin

text \<open>
  Address translation, after \<open>helper.c\<close>: \<open>cpu_x86_handle_mmu_fault\<close>, which walks the page
  tables in guest-physical memory, sets their accessed and dirty bits and fills the TLB or
  reports a page fault; the side-effect free walk \<open>cpu_get_phys_page_debug\<close>; and
  \<open>tlb_fill\<close> of \<open>mem_helper.c\<close>.

  The C function is one body with three walks (long mode, PAE, two-level) and the labels
  \<open>do_mapping\<close>, \<open>do_fault_protect\<close> and \<open>do_fault\<close>.  Each walk is a definition here that
  returns what reaches its label: a fault with its error code, or a mapping.
\<close>

section \<open>Walking the page tables\<close>

abbreviation (input) MMU_USER_IDX :: u32 where "MMU_USER_IDX \<equiv> 1"
abbreviation (input) PHYS_ADDR_MASK :: u64 where "PHYS_ADDR_MASK \<equiv> 0xfffffff000"
abbreviation (input) TARGET_PAGE_MASK :: u64 where "TARGET_PAGE_MASK \<equiv> NOT 0xfff"

text \<open>\<open>GpFault\<close> is the early return for a non-canonical address; \<open>PageFault\<close> carries the
  value of \<open>error_code\<close> at \<open>do_fault\<close>; \<open>Mapped pte ptep virt_addr page_size\<close>.\<close>

datatype walk = GpFault | PageFault u32 | Mapped u64 u64 u64 u32

definition do_fault_protect :: walk where
  "do_fault_protect = PageFault PG_ERROR_P_MASK"

text \<open>The test of user and write permission, the same in every walk.\<close>

definition protection_fault :: "u64 \<Rightarrow> u64 \<Rightarrow> bool \<Rightarrow> bool \<Rightarrow> bool" where
  "protection_fault cr0 ptep is_write is_user =
    (if is_user then
       (if ptep AND PG_USER_MASK = 0 then True else is_write \<and> ptep AND PG_RW_MASK = 0)
     else cr0 AND CR0_WP_MASK \<noteq> 0 \<and> is_write \<and> ptep AND PG_RW_MASK = 0)"

text \<open>Setting the accessed bit of an upper level, and accessed and dirty of the last level.\<close>

definition mark_accessed ::
  "'m cpu_bus \<Rightarrow> u64 \<Rightarrow> u64 \<Rightarrow> 'm CPUX86State_scheme \<Rightarrow> u64 \<times> 'm CPUX86State_scheme" where
  "mark_accessed B entry_addr entry env =
    (if entry AND PG_ACCESSED_MASK = 0 then
       (let entry = entry OR PG_ACCESSED_MASK
        in (entry, stl_phys_notdirty B entry_addr (ucast entry) env))
     else (entry, env))"

definition mark_used ::
  "'m cpu_bus \<Rightarrow> u64 \<Rightarrow> u64 \<Rightarrow> bool \<Rightarrow> 'm CPUX86State_scheme \<Rightarrow> u64 \<times> 'm CPUX86State_scheme" where
  "mark_used B entry_addr entry is_write env =
    (let is_dirty = (is_write \<and> entry AND PG_DIRTY_MASK = 0)
     in if entry AND PG_ACCESSED_MASK = 0 \<or> is_dirty then
          (let entry = entry OR PG_ACCESSED_MASK;
               entry = (if is_dirty then entry OR PG_DIRTY_MASK else entry)
           in (entry, stl_phys_notdirty B entry_addr (ucast entry) env))
        else (entry, env))"

text \<open>An entry with the NX bit set while EFER.NXE is off.\<close>

definition reserved_nx :: "'m CPUX86State_scheme \<Rightarrow> u64 \<Rightarrow> bool" where
  "reserved_nx env entry \<longleftrightarrow> efer env AND MSR_EFER_NXE = 0 \<and> entry AND PG_NX_MASK \<noteq> 0"

text \<open>From the page directory on, for long mode and PAE.\<close>

text \<open>
  The last level.  The C code has this block in each of its walks; \<open>keep\<close> is what the walk keeps
  of the entry.  A two-level walk does not test NX.
\<close>

definition walk_leaf ::
  "'m cpu_bus \<Rightarrow> u64 \<Rightarrow> u64 \<Rightarrow> u64 \<Rightarrow> u32 \<Rightarrow> bool \<Rightarrow> u64 \<Rightarrow> u64 \<Rightarrow> u32 \<Rightarrow>
   'm CPUX86State_scheme \<Rightarrow> walk \<times> 'm CPUX86State_scheme" where
  "walk_leaf B entry_addr entry ptep is_write1 is_user keep virt_addr page_size env =
    (let is_write = (is_write1 AND 1 \<noteq> 0)
     in if protection_fault (cr env 0) ptep is_write is_user then (do_fault_protect, env)
        else (let (entry, env) = mark_used B entry_addr entry is_write env
              in (Mapped (entry AND keep) ptep virt_addr page_size, env)))"

definition walk_leaf_nx ::
  "'m cpu_bus \<Rightarrow> u64 \<Rightarrow> u64 \<Rightarrow> u64 \<Rightarrow> u32 \<Rightarrow> bool \<Rightarrow> u64 \<Rightarrow> u64 \<Rightarrow> u32 \<Rightarrow>
   'm CPUX86State_scheme \<Rightarrow> walk \<times> 'm CPUX86State_scheme" where
  "walk_leaf_nx B entry_addr entry ptep is_write1 is_user keep virt_addr page_size env =
    (let ptep = ptep XOR PG_NX_MASK
     in if ptep AND PG_NX_MASK \<noteq> 0 \<and> is_write1 = 2 then (do_fault_protect, env)
        else walk_leaf B entry_addr entry ptep is_write1 is_user keep virt_addr page_size env)"

definition walk_pte ::
  "'m cpu_bus \<Rightarrow> u64 \<Rightarrow> u32 \<Rightarrow> bool \<Rightarrow> u64 \<Rightarrow> u64 \<Rightarrow> 'm CPUX86State_scheme \<Rightarrow>
   walk \<times> 'm CPUX86State_scheme" where
  "walk_pte B addr is_write1 is_user pde ptep env =
    (let pte_addr = ((pde AND PHYS_ADDR_MASK) + push_bit 3 (drop_bit 12 addr AND 0x1ff)) AND a20_mask env;
         pte = ldq_phys B pte_addr env
     in if pte AND PG_PRESENT_MASK = 0 then (PageFault 0, env)
        else if reserved_nx env pte then (PageFault PG_ERROR_RSVD_MASK, env)
        else walk_leaf_nx B pte_addr pte (ptep AND (pte XOR PG_NX_MASK)) is_write1 is_user
               (PHYS_ADDR_MASK OR 0xfff) (addr AND NOT 0xfff) 4096 env)"

definition walk_pde ::
  "'m cpu_bus \<Rightarrow> u64 \<Rightarrow> u32 \<Rightarrow> bool \<Rightarrow> u64 \<Rightarrow> u64 \<Rightarrow> 'm CPUX86State_scheme \<Rightarrow>
   walk \<times> 'm CPUX86State_scheme" where
  "walk_pde B addr is_write1 is_user pdpe ptep env =
    (let pde_addr = ((pdpe AND PHYS_ADDR_MASK) + push_bit 3 (drop_bit 21 addr AND 0x1ff)) AND a20_mask env;
         pde = ldq_phys B pde_addr env
     in if pde AND PG_PRESENT_MASK = 0 then (PageFault 0, env)
        else if reserved_nx env pde then (PageFault PG_ERROR_RSVD_MASK, env)
        else
          (let ptep = ptep AND (pde XOR PG_NX_MASK)
           in if pde AND PG_PSE_MASK \<noteq> 0 then
                walk_leaf_nx B pde_addr pde ptep is_write1 is_user
                  ((PHYS_ADDR_MASK AND NOT 0x1fffff) OR 0xfff) (addr AND NOT 0x1fffff) 0x200000 env
              else
                (let (pde, env) = mark_accessed B pde_addr pde env
                 in walk_pte B addr is_write1 is_user pde ptep env)))"

definition walk_pae ::
  "'m cpu_bus \<Rightarrow> u64 \<Rightarrow> u32 \<Rightarrow> bool \<Rightarrow> 'm CPUX86State_scheme \<Rightarrow> walk \<times> 'm CPUX86State_scheme" where
  "walk_pae B addr is_write1 is_user env =
    (let pdpe_addr = ((cr env 3 AND NOT 0x1f) + (drop_bit 27 addr AND 0x18)) AND a20_mask env;
         pdpe = ldq_phys B pdpe_addr env
     in if pdpe AND PG_PRESENT_MASK = 0 then (PageFault 0, env)
        else walk_pde B addr is_write1 is_user pdpe (PG_NX_MASK OR PG_USER_MASK OR PG_RW_MASK) env)"

definition walk_long ::
  "'m cpu_bus \<Rightarrow> u64 \<Rightarrow> u32 \<Rightarrow> bool \<Rightarrow> 'm CPUX86State_scheme \<Rightarrow> walk \<times> 'm CPUX86State_scheme" where
  "walk_long B addr is_write1 is_user env =
    (let sext = ucast (signed_drop_bit 47 addr) :: u32
     in if sext \<noteq> 0 \<and> sext \<noteq> - 1 then (GpFault, env)
        else
          (let pml4e_addr = ((cr env 3 AND NOT 0xfff) + push_bit 3 (drop_bit 39 addr AND 0x1ff)) AND a20_mask env;
               pml4e = ldq_phys B pml4e_addr env
           in if pml4e AND PG_PRESENT_MASK = 0 then (PageFault 0, env)
              else if reserved_nx env pml4e then (PageFault PG_ERROR_RSVD_MASK, env)
              else
                (let (pml4e, env) = mark_accessed B pml4e_addr pml4e env;
                     ptep = pml4e XOR PG_NX_MASK;
                     pdpe_addr = ((pml4e AND PHYS_ADDR_MASK) + push_bit 3 (drop_bit 30 addr AND 0x1ff))
                                   AND a20_mask env;
                     pdpe = ldq_phys B pdpe_addr env
                 in if pdpe AND PG_PRESENT_MASK = 0 then (PageFault 0, env)
                    else if reserved_nx env pdpe then (PageFault PG_ERROR_RSVD_MASK, env)
                    else
                      (let ptep = ptep AND (pdpe XOR PG_NX_MASK);
                           (pdpe, env) = mark_accessed B pdpe_addr pdpe env
                       in walk_pde B addr is_write1 is_user pdpe ptep env))))"

text \<open>The two-level walk has 32-bit entries; the rights of a 4 MB page are its \<open>pte\<close>.\<close>

definition own_rights :: "walk \<Rightarrow> walk" where
  "own_rights w = (case w of Mapped pte ptep va sz \<Rightarrow> Mapped pte pte va sz | _ \<Rightarrow> w)"

definition walk_legacy ::
  "'m cpu_bus \<Rightarrow> u64 \<Rightarrow> u32 \<Rightarrow> bool \<Rightarrow> 'm CPUX86State_scheme \<Rightarrow> walk \<times> 'm CPUX86State_scheme" where
  "walk_legacy B addr is_write1 is_user env =
    (let pde_addr = ((cr env 3 AND NOT 0xfff) + (drop_bit 20 addr AND 0xffc)) AND a20_mask env;
         pde = ucast (ldl_phys B pde_addr env) :: u64
     in if pde AND PG_PRESENT_MASK = 0 then (PageFault 0, env)
        else if pde AND PG_PSE_MASK \<noteq> 0 \<and> cr env 4 AND CR4_PSE_MASK \<noteq> 0 then
          apfst own_rights
            (walk_leaf B pde_addr pde pde is_write1 is_user (NOT 0x3ff000) (addr AND NOT 0x3fffff) 0x400000 env)
        else
          (let (pde, env) = mark_accessed B pde_addr pde env;
               pte_addr = ((pde AND NOT 0xfff) + (drop_bit 10 addr AND 0xffc)) AND a20_mask env;
               pte = ucast (ldl_phys B pte_addr env) :: u64
           in if pte AND PG_PRESENT_MASK = 0 then (PageFault 0, env)
              else walk_leaf B pte_addr pte (pte AND pde) is_write1 is_user (NOT 0)
                     (addr AND NOT 0xfff) 4096 env))"

section \<open>cpu_x86_handle_mmu_fault\<close>

definition mapping_prot :: "'m CPUX86State_scheme \<Rightarrow> u64 \<Rightarrow> u64 \<Rightarrow> bool \<Rightarrow> page_prot set" where
  "mapping_prot env pte ptep is_user =
    (let prot = {PAGE_READ};
         prot = (if ptep AND PG_NX_MASK = 0 then insert PAGE_EXEC prot else prot)
     in if pte AND PG_DIRTY_MASK \<noteq> 0 then
          (if is_user then
             (if ptep AND PG_RW_MASK \<noteq> 0 then insert PAGE_WRITE prot else prot)
           else
             (if cr env 0 AND CR0_WP_MASK = 0 \<or> ptep AND PG_RW_MASK \<noteq> 0
              then insert PAGE_WRITE prot else prot))
        else prot)"

definition do_mapping ::
  "u64 \<Rightarrow> u32 \<Rightarrow> u64 \<Rightarrow> u64 \<Rightarrow> u32 \<Rightarrow> page_prot set \<Rightarrow> 'm CPUX86State_scheme \<Rightarrow> 'm CPUX86State_scheme" where
  "do_mapping addr mmu_idx pte virt_addr page_size prot env =
    (let pte = pte AND a20_mask env;
         page_offset = ucast ((addr AND TARGET_PAGE_MASK) AND ucast (page_size - 1)) :: u32;
         paddr = (pte AND TARGET_PAGE_MASK) + ucast page_offset;
         vaddr = virt_addr + ucast page_offset
     in ext_call (TlbSetPage vaddr paddr prot mmu_idx page_size) env)"

definition do_fault ::
  "'m cpu_bus \<Rightarrow> u64 \<Rightarrow> u32 \<Rightarrow> bool \<Rightarrow> u32 \<Rightarrow> 'm CPUX86State_scheme \<Rightarrow> 'm CPUX86State_scheme" where
  "do_fault B addr is_write1 is_user err env =
    (let err = err OR push_bit PG_ERROR_W_BIT (is_write1 AND 1);
         err = (if is_user then err OR PG_ERROR_U_MASK else err);
         err = (if is_write1 = 2 \<and> efer env AND MSR_EFER_NXE \<noteq> 0 \<and> cr env 4 AND CR4_PAE_MASK \<noteq> 0
                then err OR PG_ERROR_I_D_MASK else err);
         env = (if intercept_exceptions env AND push_bit 14 1 \<noteq> 0
                then stq_phys B (vm_vmcb env + vmcb_exit_info_2) addr env
                else set_cr 2 addr env)
     in env\<lparr>error_code := err, exception_index := EXCP0E_PAGE\<rparr>)"

text \<open>Returns 0 when the TLB has been filled and 1 when an exception is to be raised.\<close>

definition cpu_x86_handle_mmu_fault ::
  "'m cpu_bus \<Rightarrow> u64 \<Rightarrow> u32 \<Rightarrow> u32 \<Rightarrow> 'm CPUX86State_scheme \<Rightarrow> u32 \<times> 'm CPUX86State_scheme" where
  "cpu_x86_handle_mmu_fault B addr is_write1 mmu_idx env =
    (let is_user = (mmu_idx = MMU_USER_IDX)
     in if cr env 0 AND CR0_PG_MASK = 0 then
          (0, do_mapping addr mmu_idx addr (addr AND TARGET_PAGE_MASK) 4096
                {PAGE_READ, PAGE_WRITE, PAGE_EXEC} env)
        else
          (case (if cr env 4 AND CR4_PAE_MASK \<noteq> 0 then
                   (if hflags env AND HF_LMA_MASK \<noteq> 0 then walk_long B addr is_write1 is_user env
                    else walk_pae B addr is_write1 is_user env)
                 else walk_legacy B addr is_write1 is_user env) of
             (GpFault, env) \<Rightarrow> (1, env\<lparr>error_code := 0, exception_index := EXCP0D_GPF\<rparr>)
           | (PageFault err, env) \<Rightarrow> (1, do_fault B addr is_write1 is_user err env)
           | (Mapped pte ptep virt_addr page_size, env) \<Rightarrow>
               (0, do_mapping addr mmu_idx pte virt_addr page_size
                     (mapping_prot env pte ptep is_user) env)))"

text \<open>\<open>tlb_fill\<close>; restoring the guest state from the host return address is outside the repository.\<close>

definition tlb_fill ::
  "'m cpu_bus \<Rightarrow> (u64 \<Rightarrow> 'm CPUX86State_scheme \<Rightarrow> 'm CPUX86State_scheme) \<Rightarrow>
   u64 \<Rightarrow> u32 \<Rightarrow> u32 \<Rightarrow> u64 \<Rightarrow> (unit, 'm) helper" where
  "tlb_fill B cpu_restore_state addr is_write mmu_idx retaddr env =
    (let (ret, env) = cpu_x86_handle_mmu_fault B addr is_write mmu_idx env
     in if ret \<noteq> 0 then
          (let env = (if retaddr \<noteq> 0 then cpu_restore_state retaddr env else env)
           in raise_exception_err B (exception_index env) (error_code env) env)
        else Done () env)"

section \<open>cpu_get_phys_page_debug\<close>

text \<open>The walk of the debugger, without side effects; \<open>-1\<close> where nothing is mapped.\<close>

definition debug_walk_pae :: "'m cpu_bus \<Rightarrow> u64 \<Rightarrow> 'm CPUX86State_scheme \<Rightarrow> (u64 \<times> u32) option" where
  "debug_walk_pae B addr env =
    (let sext = ucast (signed_drop_bit 47 addr) :: u32;
         pdpe =
           (if hflags env AND HF_LMA_MASK \<noteq> 0 then
              (if sext \<noteq> 0 \<and> sext \<noteq> - 1 then None
               else (let pml4e_addr = ((cr env 3 AND NOT 0xfff) + push_bit 3 (drop_bit 39 addr AND 0x1ff)) AND a20_mask env;
                         pml4e = ldq_phys B pml4e_addr env
                     in if pml4e AND PG_PRESENT_MASK = 0 then None
                        else (let pdpe_addr = ((pml4e AND NOT 0xfff) + push_bit 3 (drop_bit 30 addr AND 0x1ff)) AND a20_mask env;
                                  pdpe = ldq_phys B pdpe_addr env
                              in if pdpe AND PG_PRESENT_MASK = 0 then None else Some pdpe)))
            else (let pdpe_addr = ((cr env 3 AND NOT 0x1f) + (drop_bit 27 addr AND 0x18)) AND a20_mask env;
                      pdpe = ldq_phys B pdpe_addr env
                  in if pdpe AND PG_PRESENT_MASK = 0 then None else Some pdpe))
     in case pdpe of None \<Rightarrow> None
        | Some pdpe \<Rightarrow>
            (let pde_addr = ((pdpe AND NOT 0xfff) + push_bit 3 (drop_bit 21 addr AND 0x1ff)) AND a20_mask env;
                 pde = ldq_phys B pde_addr env
             in if pde AND PG_PRESENT_MASK = 0 then None
                else (let (pte, page_size) =
                            (if pde AND PG_PSE_MASK \<noteq> 0 then (pde AND NOT 0x1ff000, 0x200000)
                             else (let pte_addr = ((pde AND NOT 0xfff) + push_bit 3 (drop_bit 12 addr AND 0x1ff)) AND a20_mask env
                                   in (ldq_phys B pte_addr env, 4096)))
                      in if pte AND PG_PRESENT_MASK = 0 then None else Some (pte, page_size))))"

definition debug_walk_legacy :: "'m cpu_bus \<Rightarrow> u64 \<Rightarrow> 'm CPUX86State_scheme \<Rightarrow> (u64 \<times> u32) option" where
  "debug_walk_legacy B addr env =
    (if cr env 0 AND CR0_PG_MASK = 0 then Some (addr, 4096)
     else
       (let pde_addr = ((cr env 3 AND NOT 0xfff) + (drop_bit 20 addr AND 0xffc)) AND a20_mask env;
            pde = ucast (ldl_phys B pde_addr env) :: u64
        in if pde AND PG_PRESENT_MASK = 0 then None
           else if pde AND PG_PSE_MASK \<noteq> 0 \<and> cr env 4 AND CR4_PSE_MASK \<noteq> 0
           then Some (pde AND NOT 0x3ff000, 0x400000)
           else (let pte_addr = ((pde AND NOT 0xfff) + (drop_bit 10 addr AND 0xffc)) AND a20_mask env;
                     pte = ucast (ldl_phys B pte_addr env) :: u64
                 in if pte AND PG_PRESENT_MASK = 0 then None else Some (pte, 4096))))"

definition cpu_get_phys_page_debug :: "'m cpu_bus \<Rightarrow> u64 \<Rightarrow> 'm CPUX86State_scheme \<Rightarrow> u64" where
  "cpu_get_phys_page_debug B addr env =
    (case (if cr env 4 AND CR4_PAE_MASK \<noteq> 0 then debug_walk_pae B addr env
           else map_option (\<lambda>(pte, page_size). (pte AND a20_mask env, page_size))
                  (debug_walk_legacy B addr env)) of
       None \<Rightarrow> - 1
     | Some (pte, page_size) \<Rightarrow>
         (let page_offset = ucast ((addr AND TARGET_PAGE_MASK) AND ucast (page_size - 1)) :: u32
          in (pte AND TARGET_PAGE_MASK) + ucast page_offset))"


section \<open>A filled TLB entry grants the access\<close>

lemma mark_frame:
  assumes "regs_frame B"
  shows "CPUX86State.truncate (snd (mark_accessed B a e env)) = CPUX86State.truncate env"
    and "CPUX86State.truncate (snd (mark_used B a e w env)) = CPUX86State.truncate env"
  using regs_frameD [OF assms] by (simp_all add: mark_accessed_def mark_used_def Let_def)

lemma pg_bits:
  fixes x :: u64
  shows "x AND PG_RW_MASK = 0 \<longleftrightarrow> \<not> bit x 1" "x AND PG_USER_MASK = 0 \<longleftrightarrow> \<not> bit x 2"
    "x AND PG_ACCESSED_MASK = 0 \<longleftrightarrow> \<not> bit x 5" "x AND PG_DIRTY_MASK = 0 \<longleftrightarrow> \<not> bit x 6"
    "x AND PG_PSE_MASK = 0 \<longleftrightarrow> \<not> bit x 7" "x AND PG_NX_MASK = 0 \<longleftrightarrow> \<not> bit x 63"
  using and_mask_bit [of x 1] and_mask_bit [of x 2] and_mask_bit [of x 5]
    and_mask_bit [of x 6] and_mask_bit [of x 7] and_mask_bit [of x 63]
  by (simp_all add: iff_conv_conj_imp) blast+

lemma or_bit_id: "bit x k \<Longrightarrow> m = 2 ^ k \<Longrightarrow> (x :: 'a::len word) OR m = x"
  by (rule bit_word_eqI) (auto simp: bit_simps)

lemma mark_bits:
  "fst (mark_accessed B a e env) = e OR PG_ACCESSED_MASK"
  "fst (mark_used B a e w env) = e OR PG_ACCESSED_MASK OR (if w then PG_DIRTY_MASK else 0)"
proof -
  have *: "bit e 5 \<Longrightarrow> e OR PG_ACCESSED_MASK = e" "bit e 6 \<Longrightarrow> e OR PG_DIRTY_MASK = e"
    by (rule or_bit_id, assumption, simp)+
  then have "bit e 5 \<Longrightarrow> bit e 6 \<Longrightarrow> e OR (PG_ACCESSED_MASK OR PG_DIRTY_MASK) = e"
    by (simp only: or.assoc [symmetric])
  moreover have "bit e 6 \<Longrightarrow> e OR (PG_ACCESSED_MASK OR PG_DIRTY_MASK) = e OR PG_ACCESSED_MASK"
    using * by (simp only: or.commute [of PG_ACCESSED_MASK] or.assoc [symmetric])
  moreover have "bit e 5 \<Longrightarrow> e OR (PG_ACCESSED_MASK OR PG_DIRTY_MASK) = e OR PG_DIRTY_MASK"
    using * by (simp only: or.assoc [symmetric])
  ultimately show "fst (mark_accessed B a e env) = e OR PG_ACCESSED_MASK"
    "fst (mark_used B a e w env) = e OR PG_ACCESSED_MASK OR (if w then PG_DIRTY_MASK else 0)"
    using * by (auto simp: mark_accessed_def mark_used_def Let_def pg_bits or.assoc)
qed

text \<open>What a walk that ends in a mapping has checked, and the error codes of one that does not.\<close>

definition walk_checked :: "u64 \<Rightarrow> u64 \<Rightarrow> u32 \<Rightarrow> bool \<Rightarrow> walk \<Rightarrow> bool" where
  "walk_checked cr0 addr is_write1 is_user w \<longleftrightarrow>
    (case w of Mapped pte ptep va sz \<Rightarrow>
       \<not> protection_fault cr0 ptep (is_write1 AND 1 \<noteq> 0) is_user \<and>
       (is_write1 AND 1 \<noteq> 0 \<longrightarrow> pte AND PG_DIRTY_MASK \<noteq> 0) \<and>
       (is_write1 = 2 \<longrightarrow> ptep AND PG_NX_MASK = 0) \<and>
       (va, sz) \<in> {(addr AND NOT 0xfff, 4096), (addr AND NOT 0x1fffff, 0x200000),
                    (addr AND NOT 0x3fffff, 0x400000)}
     | PageFault err \<Rightarrow> err \<in> {0, PG_ERROR_P_MASK, PG_ERROR_RSVD_MASK}
     | GpFault \<Rightarrow> True)"

lemma walk_checked_fault [simp]:
  "walk_checked cr0 addr w1 user GpFault" "walk_checked cr0 addr w1 user (PageFault 0)"
  "walk_checked cr0 addr w1 user (PageFault PG_ERROR_RSVD_MASK)"
  "walk_checked cr0 addr w1 user do_fault_protect"
  by (simp_all add: walk_checked_def do_fault_protect_def)

lemma walk_leaf_checked:
  assumes "bit keep 6" "w1 = 2 \<Longrightarrow> \<not> bit ptep 63"
    and "(va, sz) \<in> {(addr AND NOT 0xfff, 4096), (addr AND NOT 0x1fffff, 0x200000),
                    (addr AND NOT 0x3fffff, 0x400000)}"
  shows "walk_checked (cr env 0) addr w1 user (fst (walk_leaf B a e ptep w1 user keep va sz env))"
  using assms
  by (auto simp: walk_leaf_def walk_checked_def do_fault_protect_def case_prod_unfold Let_def
      mark_bits pg_bits bit_simps)

lemma walk_leaf_nx_checked:
  assumes "bit keep 6"
    and "(va, sz) \<in> {(addr AND NOT 0xfff, 4096), (addr AND NOT 0x1fffff, 0x200000),
                    (addr AND NOT 0x3fffff, 0x400000)}"
  shows "walk_checked (cr env 0) addr w1 user (fst (walk_leaf_nx B a e ptep w1 user keep va sz env))"
proof (cases "bit (ptep XOR PG_NX_MASK) 63 \<and> w1 = 2")
  case False
  then show ?thesis
    by (auto simp: walk_leaf_nx_def Let_def pg_bits simp del: insert_iff intro!: walk_leaf_checked assms)
qed (simp add: walk_leaf_nx_def pg_bits)

lemma cr_mark: "regs_frame B \<Longrightarrow> cr (snd (mark_accessed B a e env)) = cr env"
  using same_regs(15) [OF mark_frame(1)] by blast

lemma walk_pte_checked:
  "cr0 = cr env 0 \<Longrightarrow> walk_checked cr0 addr w1 user (fst (walk_pte B addr w1 user pde ptep env))"
  by (simp add: walk_pte_def Let_def walk_leaf_nx_checked)

lemma walk_pde_checked:
  assumes "regs_frame B" "cr0 = cr env 0"
  shows "walk_checked cr0 addr w1 user (fst (walk_pde B addr w1 user pdpe ptep env))"
  using assms
  by (auto simp: walk_pde_def Let_def case_prod_unfold walk_leaf_nx_checked cr_mark
      intro!: walk_pte_checked)

lemma walk_pae_checked:
  assumes "regs_frame B"
  shows "walk_checked (cr env 0) addr w1 user (fst (walk_pae B addr w1 user env))"
  using assms by (simp add: walk_pae_def Let_def walk_pde_checked)

lemma walk_long_checked:
  assumes "regs_frame B"
  shows "walk_checked (cr env 0) addr w1 user (fst (walk_long B addr w1 user env))"
  unfolding walk_long_def Let_def case_prod_unfold
  using assms by (auto simp: cr_mark intro!: walk_pde_checked)

lemma own_rights_checked:
  assumes "w = fst (walk_leaf B a e e w1 user (NOT 0x3ff000) va sz env)"
    and "walk_checked cr0 addr w1 user w" "\<not> bit e 63"
  shows "walk_checked cr0 addr w1 user (own_rights w)"
  using assms
  by (auto simp: walk_leaf_def Let_def case_prod_unfold do_fault_protect_def own_rights_def
      walk_checked_def protection_fault_def pg_bits mark_bits bit_simps split: if_splits)

lemma walk_legacy_checked:
  assumes "regs_frame B"
  shows "walk_checked (cr env 0) addr w1 user (fst (walk_legacy B addr w1 user env))"
proof -
  have 63: "\<not> bit (ucast (v :: u32) :: u64) 63" for v
    using bit_imp_le_length [of v 63] by (auto simp: bit_simps)
  have big: "walk_checked (cr env 0) addr w1 user
      (own_rights (fst (walk_leaf B a (ucast v) (ucast v) w1 user (NOT 0x3ff000) (addr AND NOT 0x3fffff) 0x400000 env)))"
    for a and v :: u32
    by (rule own_rights_checked [OF refl walk_leaf_checked 63]) (use 63 in \<open>auto simp: bit_simps\<close>)
  have small: "walk_checked (cr env 0) addr w1 user
      (fst (walk_leaf B a e (ucast v AND p) w1 user (NOT 0) (addr AND NOT 0xfff) 4096 t))"
    if "cr t = cr env" for a e p t and v :: u32
    using walk_leaf_checked [where env = t and keep = "NOT 0" and ptep = "ucast v AND p"] that 63
    by (simp add: bit_simps)
  show ?thesis
    unfolding walk_legacy_def Let_def case_prod_unfold
    using assms big small by (auto simp: cr_mark)
qed

text \<open>A walk changes nothing but memory: each of its steps keeps the registers.\<close>

definition regs_kept :: "'m CPUX86State_scheme \<Rightarrow> 'a \<times> 'm CPUX86State_scheme \<Rightarrow> bool" where
  "regs_kept env r \<longleftrightarrow> CPUX86State.truncate (snd r) = CPUX86State.truncate env"

lemma regs_kept_intros:
  "CPUX86State.truncate s = CPUX86State.truncate env \<Longrightarrow> regs_kept env (w, s)"
  "regs_kept env p \<Longrightarrow> regs_kept env q \<Longrightarrow> regs_kept env (if c then p else q)"
  "(\<And>x. regs_kept env (f x)) \<Longrightarrow> regs_kept env (let x = v in f x)"
  "regs_kept env p \<Longrightarrow> (\<And>e s. CPUX86State.truncate s = CPUX86State.truncate env \<Longrightarrow> regs_kept env (g e s)) \<Longrightarrow>
     regs_kept env (let (e, s) = p in g e s)"
  "regs_kept env p \<Longrightarrow> regs_kept env (apfst h p)"
  by (simp_all add: regs_kept_def case_prod_unfold)

lemma regs_kept_mark:
  assumes "regs_frame B" "CPUX86State.truncate s = CPUX86State.truncate env"
  shows "regs_kept env (mark_accessed B a e s)" "regs_kept env (mark_used B a e w s)"
  using mark_frame [OF assms(1)] assms(2) by (simp_all add: regs_kept_def)

lemma regs_kept_leaf:
  assumes "regs_frame B" "CPUX86State.truncate s = CPUX86State.truncate env"
  shows "regs_kept env (walk_leaf B a e ptep w1 user keep va sz s)"
  unfolding walk_leaf_def
  by (intro regs_kept_intros regs_kept_mark assms | assumption)+

lemma regs_kept_leaf_nx:
  assumes "regs_frame B" "CPUX86State.truncate s = CPUX86State.truncate env"
  shows "regs_kept env (walk_leaf_nx B a e ptep w1 user keep va sz s)"
  unfolding walk_leaf_nx_def
  by (intro regs_kept_intros regs_kept_leaf assms | assumption)+

lemma regs_kept_pte:
  assumes "regs_frame B" "CPUX86State.truncate s = CPUX86State.truncate env"
  shows "regs_kept env (walk_pte B addr w1 user p ptep s)"
  unfolding walk_pte_def
  by (intro regs_kept_intros regs_kept_leaf_nx assms | assumption)+

lemma regs_kept_pde:
  assumes "regs_frame B" "CPUX86State.truncate s = CPUX86State.truncate env"
  shows "regs_kept env (walk_pde B addr w1 user p ptep s)"
  unfolding walk_pde_def
  by (intro regs_kept_intros regs_kept_mark regs_kept_leaf_nx regs_kept_pte assms | assumption)+

lemma walk_frame:
  assumes "regs_frame B"
  shows "regs_kept env (walk_pae B addr w1 user env)" "regs_kept env (walk_long B addr w1 user env)"
    and "regs_kept env (walk_legacy B addr w1 user env)"
  unfolding walk_pae_def walk_long_def walk_legacy_def
  by (intro regs_kept_intros regs_kept_mark regs_kept_leaf regs_kept_pde assms refl | assumption)+

text \<open>The walk of the paging mode in force.\<close>

definition walk_for ::
  "'m cpu_bus \<Rightarrow> u64 \<Rightarrow> u32 \<Rightarrow> bool \<Rightarrow> 'm CPUX86State_scheme \<Rightarrow> walk \<times> 'm CPUX86State_scheme" where
  "walk_for B addr w1 user env =
    (if cr env 4 AND CR4_PAE_MASK \<noteq> 0 then
       (if hflags env AND HF_LMA_MASK \<noteq> 0 then walk_long B addr w1 user env
        else walk_pae B addr w1 user env)
     else walk_legacy B addr w1 user env)"

lemma walk_for_ok:
  assumes "regs_frame B"
  shows "walk_checked (cr env 0) addr w1 user (fst (walk_for B addr w1 user env))"
    and "CPUX86State.truncate (snd (walk_for B addr w1 user env)) = CPUX86State.truncate env"
  using assms
  by (simp_all add: walk_for_def walk_frame [unfolded regs_kept_def] walk_pae_checked
      walk_long_checked walk_legacy_checked)

lemma page_sum:
  fixes addr :: u64
  assumes "(va, sz) \<in> {(addr AND NOT 0xfff, 4096), (addr AND NOT 0x1fffff, 0x200000),
                    (addr AND NOT 0x3fffff, 0x400000)}"
  shows "va + ucast (ucast ((addr AND TARGET_PAGE_MASK) AND ucast (sz - 1 :: u32)) :: u32) =
    addr AND TARGET_PAGE_MASK"
proof -
  have sum: "(addr AND NOT (mask n)) + ((addr AND NOT (mask 12)) AND mask n) = addr AND NOT (mask 12)"
    if "12 \<le> n" for n
  proof -
    have disj: "(addr AND NOT (mask n)) AND ((addr AND NOT (mask 12)) AND mask n) = 0"
      by (rule bit_word_eqI) (auto simp: bit_simps)
    have "(addr AND NOT (mask n)) OR ((addr AND NOT (mask 12)) AND mask n) = addr AND NOT (mask 12)"
      using that by (intro bit_word_eqI) (auto simp: bit_simps)
    then show ?thesis by (simp only: disjunctive_add_eq_or [OF disj])
  qed
  have cast: "ucast (ucast (x AND mask n) :: u32) = x AND mask n" if "n \<le> 32" for x :: u64 and n
    using that by (intro bit_word_eqI) (auto simp: bit_simps)
  have m: "(0xfff :: u64) = mask 12" "(0x1fffff :: u64) = mask 21" "(0x3fffff :: u64) = mask 22"
    by (simp_all add: mask_eq_exp_minus_1)
  from assms consider "va = addr AND NOT (mask 12)" "ucast (sz - 1) = (mask 12 :: u64)"
    | "va = addr AND NOT (mask 21)" "ucast (sz - 1) = (mask 21 :: u64)"
    | "va = addr AND NOT (mask 22)" "ucast (sz - 1) = (mask 22 :: u64)"
    by (auto simp: mask_eq_exp_minus_1)
  then show ?thesis
    by cases (simp_all only: m(1) cast sum le_refl numeral_le_iff semiring_norm)
qed

lemma handle_mmu_fault_eq:
  "cpu_x86_handle_mmu_fault B addr w1 idx env =
    (let user = (idx = MMU_USER_IDX) in
     if cr env 0 AND CR0_PG_MASK = 0 then
       (0, do_mapping addr idx addr (addr AND TARGET_PAGE_MASK) 4096 {PAGE_READ, PAGE_WRITE, PAGE_EXEC} env)
     else (case walk_for B addr w1 user env of
         (GpFault, s) \<Rightarrow> (1, s\<lparr>error_code := 0, exception_index := EXCP0D_GPF\<rparr>)
       | (PageFault err, s) \<Rightarrow> (1, do_fault B addr w1 user err s)
       | (Mapped pte ptep va sz, s) \<Rightarrow> (0, do_mapping addr idx pte va sz (mapping_prot s pte ptep user) s)))"
  by (simp add: cpu_x86_handle_mmu_fault_def walk_for_def Let_def)

lemma do_mapping_call:
  assumes "(va, sz) \<in> {(addr AND NOT 0xfff, 4096), (addr AND NOT 0x1fffff, 0x200000),
                    (addr AND NOT 0x3fffff, 0x400000)}"
  shows "\<exists>paddr. do_mapping addr idx pte va sz prot env =
    ext_call (TlbSetPage (addr AND TARGET_PAGE_MASK) paddr prot idx sz) env"
  unfolding do_mapping_def Let_def page_sum [OF assms] by blast

lemma mapping_prot_grants:
  assumes "walk_checked (cr env 0) addr w1 user (Mapped pte ptep va sz)"
  shows "PAGE_READ \<in> mapping_prot env pte ptep user"
    and "w1 AND 1 \<noteq> 0 \<Longrightarrow> PAGE_WRITE \<in> mapping_prot env pte ptep user"
    and "w1 = 2 \<Longrightarrow> PAGE_EXEC \<in> mapping_prot env pte ptep user"
  using assms
  by (auto simp: walk_checked_def mapping_prot_def Let_def protection_fault_def split: if_splits)

lemma flag_bits64:
  "(efer env AND MSR_EFER_NXE \<noteq> 0) = bit (efer env) 11" "(cr env 4 AND CR4_PAE_MASK \<noteq> 0) = bit (cr env 4) 5"
  "(intercept_exceptions env AND push_bit 14 1 \<noteq> 0) = bit (intercept_exceptions env) 14"
  using and_mask_bit [of "efer env" 11] and_mask_bit [of "cr env 4" 5]
    and_mask_bit [of "intercept_exceptions env" 14]
  by (simp_all add: push_bit_eq_mult)

lemma do_fault_state:
  assumes "regs_frame B"
  shows "CPUX86State.truncate ((do_fault B addr w1 user err s)\<lparr>cr := cr s, error_code := error_code s,
      exception_index := exception_index s\<rparr>) = CPUX86State.truncate s"
    and "exception_index (do_fault B addr w1 user err s) = EXCP0E_PAGE"
    and "cr (do_fault B addr w1 user err s) =
      (if bit (intercept_exceptions s) 14 then cr s else (cr s)(2 := addr))"
    and "error_code (do_fault B addr w1 user err s) =
      (err OR push_bit 1 (w1 AND 1) OR (if user then 4 else 0) OR
        (if w1 = 2 \<and> bit (efer s) 11 \<and> bit (cr s 4) 5 then 0x10 else 0))"
proof -
  let ?t = "stq_phys B (vm_vmcb s + vmcb_exit_info_2) addr s"
  note s = regs_frameD(5) [OF assms, of "vm_vmcb s + vmcb_exit_info_2" addr s]
  have fld: "cr ?t = cr s" by (rule same_regs [OF s])
  note defs = do_fault_def Let_def flag_bits64
  show "CPUX86State.truncate ((do_fault B addr w1 user err s)\<lparr>cr := cr s, error_code := error_code s,
      exception_index := exception_index s\<rparr>) = CPUX86State.truncate s"
    using s unfolding defs by (simp add: CPUX86State.truncate_def)
  show "exception_index (do_fault B addr w1 user err s) = EXCP0E_PAGE"
    unfolding defs by simp
  show "cr (do_fault B addr w1 user err s) =
      (if bit (intercept_exceptions s) 14 then cr s else (cr s)(2 := addr))"
    unfolding defs by (simp add: fld)
  show "error_code (do_fault B addr w1 user err s) =
      (err OR push_bit 1 (w1 AND 1) OR (if user then 4 else 0) OR
        (if w1 = 2 \<and> bit (efer s) 11 \<and> bit (cr s 4) 5 then 0x10 else 0))"
    unfolding defs by (simp add: or.assoc)
qed

text \<open>
  C19: when the fault handler fills the TLB, the entry it makes is for the page of the faulting
  address and allows the access that missed: reading always, writing if it was a write, and
  execution if it was an instruction fetch; nothing else of the processor state changes.
\<close>
theorem tlb_entry_grants_access:
  assumes "regs_frame B" "cpu_x86_handle_mmu_fault B addr is_write1 mmu_idx env = (0, t)"
  shows "\<exists>paddr prot page_size.
    ext_calls t = ext_calls env @
      [TlbSetPage (addr AND TARGET_PAGE_MASK) paddr prot mmu_idx page_size] \<and>
    PAGE_READ \<in> prot \<and> (is_write1 AND 1 \<noteq> 0 \<longrightarrow> PAGE_WRITE \<in> prot) \<and>
    (is_write1 = 2 \<longrightarrow> PAGE_EXEC \<in> prot) \<and>
    CPUX86State.truncate (t\<lparr>ext_calls := ext_calls env\<rparr>) = CPUX86State.truncate env"
proof (cases "cr env 0 AND CR0_PG_MASK = 0")
  case True
  obtain paddr where "t = ext_call (TlbSetPage (addr AND TARGET_PAGE_MASK) paddr
      {PAGE_READ, PAGE_WRITE, PAGE_EXEC} mmu_idx 4096) env"
    using assms(2) True do_mapping_call [of "addr AND NOT 0xfff" 4096 addr mmu_idx addr
      "{PAGE_READ, PAGE_WRITE, PAGE_EXEC}" env]
    by (auto simp: handle_mmu_fault_eq Let_def)
  then show ?thesis by (auto simp: ext_call_def CPUX86State.truncate_def)
next
  case False
  let ?user = "mmu_idx = MMU_USER_IDX"
  obtain w s where w: "walk_for B addr is_write1 ?user env = (w, s)" by fastforce
  have ok: "walk_checked (cr env 0) addr is_write1 ?user w"
    and s: "CPUX86State.truncate s = CPUX86State.truncate env"
    using walk_for_ok(1) [OF assms(1), of env addr is_write1 ?user]
      walk_for_ok(2) [OF assms(1), of addr is_write1 ?user env] w by simp_all
  from assms(2) False w obtain pte ptep va sz where m: "w = Mapped pte ptep va sz"
    and t: "t = do_mapping addr mmu_idx pte va sz (mapping_prot s pte ptep ?user) s"
    by (auto simp: handle_mmu_fault_eq Let_def split: walk.splits)
  from ok m have "(va, sz) \<in> {(addr AND NOT 0xfff, 4096), (addr AND NOT 0x1fffff, 0x200000),
                    (addr AND NOT 0x3fffff, 0x400000)}" by (simp add: walk_checked_def)
  from do_mapping_call [OF this] t obtain paddr where
    "t = ext_call (TlbSetPage (addr AND TARGET_PAGE_MASK) paddr (mapping_prot s pte ptep ?user) mmu_idx sz) s"
    by blast
  moreover have "walk_checked (cr s 0) addr is_write1 ?user (Mapped pte ptep va sz)"
    using ok m same_regs(15) [OF s] by simp
  note mapping_prot_grants [OF this]
  moreover have "CPUX86State.truncate (s\<lparr>ext_calls := ext_calls env\<rparr>) = CPUX86State.truncate env"
    using s by (simp add: CPUX86State.truncate_def)
  moreover have "ext_calls s = ext_calls env" by (rule same_regs [OF s])
  ultimately show ?thesis
    by (auto simp: ext_call_def)
qed

theorem tlb_entry_grants_access_witness:
  "\<exists>paddr prot page_size.
    ext_calls (snd (cpu_x86_handle_mmu_fault flat_bus 0x7c05 1 0 ram_zero)) =
      [TlbSetPage 0x7000 paddr prot 0 page_size] \<and> PAGE_WRITE \<in> prot"
proof -
  have "cpu_x86_handle_mmu_fault flat_bus 0x7c05 1 0 ram_zero =
      (0, snd (cpu_x86_handle_mmu_fault flat_bus 0x7c05 1 0 ram_zero))"
    by (simp add: cpu_x86_handle_mmu_fault_def)
  from tlb_entry_grants_access [OF flat_regs_frame this] show ?thesis by auto
qed

text \<open>
  C39: when the fault handler reports a page fault, the error code tells a write from a read, a
  user access from a supervisor access and (with NX enabled) a fetch from a data access, and
  at most one of \<open>protection\<close> and \<open>reserved bit\<close> as its cause; CR2 holds the address unless
  the page fault is intercepted.  A non-canonical address in long mode is a general protection
  fault with CR2 unchanged.  Nothing else of the processor state changes.
\<close>
theorem page_fault_report:
  assumes "regs_frame B" "cpu_x86_handle_mmu_fault B addr is_write1 mmu_idx env = (1, t)"
  shows "CPUX86State.truncate (t\<lparr>cr := cr env, error_code := error_code env,
      exception_index := exception_index env\<rparr>) = CPUX86State.truncate env \<and>
    (if exception_index t = EXCP0D_GPF then error_code t = 0 \<and> cr t = cr env
     else exception_index t = EXCP0E_PAGE \<and>
       (bit (error_code t) 1 \<longleftrightarrow> bit is_write1 0) \<and>
       (bit (error_code t) 2 \<longleftrightarrow> mmu_idx = MMU_USER_IDX) \<and>
       (bit (error_code t) 4 \<longleftrightarrow> is_write1 = 2 \<and> bit (efer env) 11 \<and> bit (cr env 4) 5) \<and>
       \<not> (bit (error_code t) 0 \<and> bit (error_code t) 3) \<and>
       cr t = (if bit (intercept_exceptions env) 14 then cr env else (cr env)(2 := addr)))"
proof -
  let ?user = "mmu_idx = MMU_USER_IDX"
  obtain w s where w: "walk_for B addr is_write1 ?user env = (w, s)" by fastforce
  have ok: "walk_checked (cr env 0) addr is_write1 ?user w"
    and s: "CPUX86State.truncate s = CPUX86State.truncate env"
    using walk_for_ok(1) [OF assms(1), of env addr is_write1 ?user]
      walk_for_ok(2) [OF assms(1), of addr is_write1 ?user env] w by simp_all
  from assms(2) w consider "t = s\<lparr>error_code := 0, exception_index := EXCP0D_GPF\<rparr>"
    | err where "w = PageFault err" "t = do_fault B addr is_write1 ?user err s"
    by (auto simp: handle_mmu_fault_eq Let_def split: walk.splits if_splits)
  then show ?thesis
  proof cases
    case 1
    then show ?thesis using s same_regs(15) [OF s] by (simp add: CPUX86State.truncate_def)
  next
    case 2
    from 2(1) ok have "err \<in> {0, 1, 8}" by (simp add: walk_checked_def)
    then have err: "\<not> bit err 1" "\<not> bit err 2" "\<not> bit err 4" "\<not> (bit err 0 \<and> bit err 3)"
      by auto
    note t = do_fault_state [OF assms(1), where addr = addr and ?w1.0 = is_write1 and user = ?user and err = err and s = s, folded 2(2)]
    have fld: "cr s = cr env" "efer s = efer env" "intercept_exceptions s = intercept_exceptions env"
      "error_code s = error_code env" "exception_index s = exception_index env"
      by (rule same_regs [OF s])+
    have "CPUX86State.truncate (t\<lparr>cr := cr env, error_code := error_code env,
      exception_index := exception_index env\<rparr>) = CPUX86State.truncate env"
      using t(1) s fld by simp
    moreover define m where "m = push_bit 1 (is_write1 AND 1)"
    have "bit m n \<longleftrightarrow> n = 1 \<and> bit is_write1 0" for n
      unfolding m_def bit_push_bit_iff bit_and_iff by (cases n) (auto simp: bit_1_iff)
    with t(4) have "bit (error_code t) 1 \<longleftrightarrow> bit is_write1 0" "bit (error_code t) 2 \<longleftrightarrow> ?user"
      "bit (error_code t) 4 \<longleftrightarrow> is_write1 = 2 \<and> bit (efer env) 11 \<and> bit (cr env 4) 5"
      "\<not> (bit (error_code t) 0 \<and> bit (error_code t) 3)"
      using err fld unfolding m_def [symmetric] by (auto simp: bit_simps)
    ultimately show ?thesis using t(2,3) fld by simp
  qed
qed

theorem page_fault_report_witness:
  "let t = snd (cpu_x86_handle_mmu_fault flat_bus 0x7c05 1 1 (set_cr 0 0x80000000 ram_zero))
   in cr t 2 = 0x7c05 \<and> exception_index t = EXCP0E_PAGE \<and> bit (error_code t) 1 \<and> bit (error_code t) 2"
proof -
  let ?env = "set_cr 0 0x80000000 ram_zero"
  let ?t = "snd (cpu_x86_handle_mmu_fault flat_bus 0x7c05 1 1 ?env)"
  have "exception_index ?t = EXCP0E_PAGE"
    and *: "cpu_x86_handle_mmu_fault flat_bus 0x7c05 1 1 ?env = (1, ?t)"
    by (simp_all add: cpu_x86_handle_mmu_fault_def walk_legacy_def Let_def phys_ramD [OF flat_phys_ram]
        load_zero do_fault_def)
  with page_fault_report [OF flat_regs_frame *] show ?thesis by (simp add: Let_def)
qed
end
