(* ===== verification/MmuWalk.thy ===== *)
theory MmuWalk
  imports Mmu
begin

text \<open>
  What the page walk computes.  The reference is \<open>table_walk\<close>, one recursion over the levels
  of the page tables in the memory as it is before the access: it has no side effects.  The
  walk of the C code sets accessed and dirty bits on its way, in tables that may contain
  themselves; the theorems show that it nevertheless reaches the entry that the reference
  finds, with the same rights.
\<close>

section \<open>Aligned table entries\<close>

abbreviation aligned :: "nat \<Rightarrow> u64 \<Rightarrow> bool" where
  "aligned n a \<equiv> take_bit n a = 0"

lemma aligned_iff: "aligned n a \<longleftrightarrow> (\<exists>x. a = push_bit n x)"
proof
  assume "aligned n a"
  then have "a = push_bit n (drop_bit n a)" using bits_ident [of n a] by simp
  then show "\<exists>x. a = push_bit n x" ..
qed (auto simp: take_bit_push_bit)

lemma aligned_diff: "aligned n a \<Longrightarrow> aligned n b \<Longrightarrow> aligned n (a - b)"
  unfolding aligned_iff push_bit_eq_mult by (metis left_diff_distrib)

lemma aligned_add: "aligned n a \<Longrightarrow> aligned n b \<Longrightarrow> aligned n (a + b)"
  unfolding aligned_iff push_bit_eq_mult by (metis distrib_right)

lemma aligned_and: "aligned n a \<or> aligned n b \<Longrightarrow> aligned n (a AND b)"
  by auto

lemma aligned_bounds:
  assumes "aligned n a" "a \<noteq> 0" "n \<le> 64"
  shows "2 ^ n \<le> unat a" "unat a + 2 ^ n \<le> 2 ^ 64"
proof -
  have "unat (take_bit n a) = unat a mod 2 ^ n"
    unfolding unsigned_take_bit_eq by (simp only: take_bit_eq_mod)
  then obtain k where k: "unat a = 2 ^ n * k" using assms(1) by auto
  moreover have "unat a \<noteq> 0" using assms(2) by (simp add: unat_eq_0)
  ultimately show "2 ^ n \<le> unat a" by simp
  have p: "(2 :: nat) ^ 64 = 2 ^ n * 2 ^ (64 - n)" using assms(3) by (simp flip: power_add)
  have "unat a < 2 ^ 64" using unsigned_less [of a] by simp
  then have "k < 2 ^ (64 - n)" unfolding k p by simp
  then have "2 ^ n * (k + 1) \<le> (2 :: nat) ^ n * 2 ^ (64 - n)" by (intro mult_le_mono2) simp
  then show "unat a + 2 ^ n \<le> 2 ^ 64" unfolding k p by simp
qed

lemma aligned_apart:
  assumes "aligned n a" "aligned n b" "a \<noteq> b" "n \<le> 64"
  shows "apart b (2 ^ n) a (2 ^ n)"
  using aligned_bounds [OF aligned_diff [OF assms(2,1)] _ assms(4)] assms(3)
  by (simp add: apart_def)

section \<open>Tables that differ in accessed and dirty bits only\<close>

definition AD_MASK :: "'a::len word" where "AD_MASK = 2 ^ 5 OR 2 ^ 6"

lemma bit_AD [simp]: "bit (AD_MASK :: 'a::len word) n \<longleftrightarrow> (n = 5 \<or> n = 6) \<and> n < LENGTH('a)"
  unfolding AD_MASK_def bit_or_iff bit_exp_iff by auto

text \<open>The mask has the accessed and the dirty bit.\<close>

lemma AD_MASK_eq: "AD_MASK = (PG_ACCESSED_MASK OR PG_DIRTY_MASK :: 'a::len word)"
  by (simp add: AD_MASK_def)

definition same_tables :: "(u64 \<Rightarrow> u8) \<Rightarrow> (u64 \<Rightarrow> u8) \<Rightarrow> bool" where
  "same_tables M M' \<longleftrightarrow>
    (\<forall>a. aligned 3 a \<longrightarrow> load64 M' a AND NOT AD_MASK = load64 M a AND NOT AD_MASK)"

lemma load64_store4:
  "load64 (store_bytes M a 4 (v :: u32)) a = (load64 M a AND NOT (mask 32)) OR ucast v"
proof -
  have "apart (a + 4) 4 a 4" by (simp add: apart_def)
  then show ?thesis
    by (simp add: load64_def) (rule bit_word_eqI, auto simp: bit_simps dest: bit_imp_le_length)
qed

lemma store_ad:
  assumes "same_tables M M'" "aligned 3 a"
    and "v AND NOT AD_MASK = ucast (load64 M' a) AND NOT AD_MASK"
  shows "same_tables M (store_bytes M' a 4 (v :: u32))"
  unfolding same_tables_def
proof (intro allI impI)
  fix b assume b: "aligned 3 b"
  show "load64 (store_bytes M' a 4 v) b AND NOT AD_MASK = load64 M b AND NOT AD_MASK"
  proof (cases "b = a")
    case True
    have "load64 (store_bytes M' a 4 v) a AND NOT AD_MASK = load64 M' a AND NOT AD_MASK"
    proof (rule bit_word_eqI)
      fix n
      have v: "n < 32 \<Longrightarrow> n \<noteq> 5 \<Longrightarrow> n \<noteq> 6 \<Longrightarrow> bit v n = bit (load64 M' a) n"
        using arg_cong [OF assms(3), of "\<lambda>w. bit w n"] by (simp add: bit_simps)
      show "bit (load64 (store_bytes M' a 4 v) a AND NOT AD_MASK) n =
          bit (load64 M' a AND NOT AD_MASK) n"
      proof (cases "n < 32")
        case True
        then show ?thesis using v unfolding load64_store4 by (simp add: bit_simps) blast
      next
        case False
        then have "\<not> bit v n" using bit_imp_le_length [of v n] by auto
        with False show ?thesis unfolding load64_store4 by (simp add: bit_simps)
      qed
    qed
    then show ?thesis using assms True by (simp add: same_tables_def)
  next
    case False
    then have "apart b (2 ^ 3) a (2 ^ 3)"
      by (intro aligned_apart [OF assms(2) b]) simp_all
    then have "apart b 8 a 4" by (simp add: apart_def)
    then show ?thesis using assms(1) b by (simp add: same_tables_def)
  qed
qed

text \<open>An entry up to its accessed and dirty bits.\<close>

abbreviation same_entry :: "u64 \<Rightarrow> u64 \<Rightarrow> bool" where
  "same_entry e e' \<equiv> e' AND NOT AD_MASK = e AND NOT AD_MASK"

lemma same_entry_bit:
  "same_entry e e' \<longleftrightarrow> (\<forall>n. n \<noteq> 5 \<longrightarrow> n \<noteq> 6 \<longrightarrow> bit e' n = bit e n)"
proof
  assume eq: "same_entry e e'"
  have "bit (e' AND NOT AD_MASK) n = bit (e AND NOT AD_MASK) n" for n using eq by simp
  then show "\<forall>n. n \<noteq> 5 \<longrightarrow> n \<noteq> 6 \<longrightarrow> bit e' n = bit e n"
    using bit_imp_le_length [of e] bit_imp_le_length [of e'] by (auto simp: bit_simps)
next
  assume *: "\<forall>n. n \<noteq> 5 \<longrightarrow> n \<noteq> 6 \<longrightarrow> bit e' n = bit e n"
  show "same_entry e e'" using * by (intro bit_word_eqI) (auto simp: bit_simps)
qed

lemma AD_sub:
  assumes "x \<in> {0x20, 0x40, 0x60}"
  shows "((e :: u64) OR x) AND NOT AD_MASK = e AND NOT AD_MASK"
    and "ucast (e OR x) AND NOT AD_MASK = (ucast e AND NOT AD_MASK :: u32)"
proof -
  have "x AND NOT AD_MASK = 0" "ucast x AND NOT AD_MASK = (0 :: u32)"
    using assms by (auto simp: AD_MASK_eq)
  then show "(e OR x) AND NOT AD_MASK = e AND NOT AD_MASK"
    "ucast (e OR x) AND NOT AD_MASK = (ucast e AND NOT AD_MASK :: u32)"
    by (simp_all add: unsigned_or_eq bit.conj_disj_distrib2)
qed

lemma same_entry_marked:
  "same_entry e (fst (mark_accessed B a e s))" "same_entry e (fst (mark_used B a e w s))"
  unfolding mark_bits by (simp_all add: AD_sub or.assoc)

lemma same_tables_mark:
  assumes "phys_ram B mem" "same_tables M (mem (CPUX86State.more s))" "aligned 3 a"
    and "e = load64 (mem (CPUX86State.more s)) a"
  shows "same_tables M (mem (CPUX86State.more (snd (mark_accessed B a e s))))"
    and "same_tables M (mem (CPUX86State.more (snd (mark_used B a e w s))))"
proof -
  have st: "same_tables M (store_bytes (mem (CPUX86State.more s)) a 4 (ucast (e OR x) :: u32))"
    if "x \<in> {0x20, 0x40, 0x60}" for x
    by (intro store_ad assms(2,3)) (simp only: AD_sub(2) [OF that] assms(4))
  have upd: "mem (CPUX86State.more (stl_phys_notdirty B a v s)) =
      store_bytes (mem (CPUX86State.more s)) a 4 v" for v
    by (rule phys_ramD [OF assms(1)])
  show "same_tables M (mem (CPUX86State.more (snd (mark_accessed B a e s))))"
    unfolding mark_accessed_def Let_def
    using assms(2) st [of "0x20"] by (simp only: upd snd_conv if_distrib [of snd] split: if_split) simp
  show "same_tables M (mem (CPUX86State.more (snd (mark_used B a e w s))))"
    unfolding mark_used_def Let_def
    using assms(2) st [of "0x20"] st [of "0x60"]
    by (simp only: upd snd_conv or.assoc if_distrib [of snd] split: if_split) simp
qed

text \<open>On the way down only accessed bits are set: the dirty bits stay.\<close>

definition same_dirty :: "(u64 \<Rightarrow> u8) \<Rightarrow> (u64 \<Rightarrow> u8) \<Rightarrow> bool" where
  "same_dirty M M' \<longleftrightarrow> (\<forall>a. aligned 3 a \<longrightarrow> bit (load64 M' a) 6 = bit (load64 M a) 6)"

lemma same_dirty_mark:
  assumes "phys_ram B mem" "same_dirty M (mem (CPUX86State.more s))" "aligned 3 a"
    and "e = load64 (mem (CPUX86State.more s)) a"
  shows "same_dirty M (mem (CPUX86State.more (snd (mark_accessed B a e s))))"
proof -
  let ?M = "mem (CPUX86State.more s)"
  have upd: "mem (CPUX86State.more (stl_phys_notdirty B a v s)) = store_bytes ?M a 4 v" for v
    by (rule phys_ramD [OF assms(1)])
  have "bit (load64 (store_bytes ?M a 4 (ucast (e OR 0x20) :: u32)) b) 6 = bit (load64 ?M b) 6" if "aligned 3 b" for b
  proof (cases "b = a")
    case True
    then show ?thesis unfolding True load64_store4 assms(4) by (simp add: bit_simps)
  next
    case False
    then have "apart b (2 ^ 3) a (2 ^ 3)" by (intro aligned_apart [OF assms(3) that]) simp_all
    then have "apart b 8 a 4" by (simp add: apart_def)
    then show ?thesis by simp
  qed
  then show ?thesis using assms(2) by (simp add: same_dirty_def mark_accessed_def Let_def upd)
qed

lemma mark_used_dirty: "bit (fst (mark_used B a e w s)) 6 \<longleftrightarrow> bit e 6 \<or> w"
  by (auto simp: mark_used_def Let_def pg_bits bit_simps)

section \<open>The reference walk\<close>

text \<open>
  \<open>table_walk E a20 nxe addr tab rights shifts\<close>: look the address up from the table at \<open>tab\<close>
  through the levels whose index starts at the bits \<open>shifts\<close>; \<open>E\<close> reads an entry.  The result
  is the error code of a fault, or the last entry, the rights collected on the way (with NX
  meaning that execution is forbidden) and the size of the page as a power of two.
\<close>

fun table_walk ::
  "(u64 \<Rightarrow> u64) \<Rightarrow> u64 \<Rightarrow> bool \<Rightarrow> u64 \<Rightarrow> u64 \<Rightarrow> u64 \<Rightarrow> nat list \<Rightarrow> u32 + (u64 \<times> u64 \<times> nat)" where
  "table_walk E a20 nxe addr tab rights [] = Inl 0"
| "table_walk E a20 nxe addr tab rights (sh # shs) =
    (let e = E ((tab + push_bit 3 (drop_bit sh addr AND 0x1ff)) AND a20);
         rights = rights AND (e XOR PG_NX_MASK)
     in if e AND PG_PRESENT_MASK = 0 then Inl 0
        else if \<not> nxe \<and> e AND PG_NX_MASK \<noteq> 0 then Inl PG_ERROR_RSVD_MASK
        else if shs = [] \<or> sh = 21 \<and> e AND PG_PSE_MASK \<noteq> 0 then Inr (e, rights XOR PG_NX_MASK, sh)
        else table_walk E a20 nxe addr (e AND PHYS_ADDR_MASK) rights shs)"

declare table_walk.simps [simp del]

definition access_denied :: "u64 \<Rightarrow> u64 \<Rightarrow> u32 \<Rightarrow> bool \<Rightarrow> bool" where
  "access_denied cr0 rights is_write1 is_user \<longleftrightarrow>
    rights AND PG_NX_MASK \<noteq> 0 \<and> is_write1 = 2 \<or>
    protection_fault cr0 rights (is_write1 AND 1 \<noteq> 0) is_user"

text \<open>
  The rights of the TLB entry: reading; writing when the page is dirty and a write is allowed,
  so that the first write to a clean page comes back to the walk; execution when it is allowed.
\<close>

definition tlb_rights :: "u64 \<Rightarrow> bool \<Rightarrow> u64 \<Rightarrow> bool \<Rightarrow> page_prot set" where
  "tlb_rights cr0 dirty rights is_user = {PAGE_READ} \<union>
    (if dirty \<and> \<not> access_denied cr0 rights 1 is_user then {PAGE_WRITE} else {}) \<union>
    (if access_denied cr0 rights 2 is_user then {} else {PAGE_EXEC})"

definition page_entry :: "u64 \<Rightarrow> nat \<Rightarrow> u64" where
  "page_entry e sh = e AND ((PHYS_ADDR_MASK AND NOT (mask sh)) OR 0xfff)"

definition walk_agrees ::
  "u64 \<Rightarrow> u64 \<Rightarrow> u32 \<Rightarrow> bool \<Rightarrow> u32 + (u64 \<times> u64 \<times> nat) \<Rightarrow> walk \<Rightarrow> bool" where
  "walk_agrees cr0 addr is_write1 is_user r w \<longleftrightarrow>
    (case r of Inl code \<Rightarrow> w = PageFault code
     | Inr (e, rights, sh) \<Rightarrow>
         if access_denied cr0 rights is_write1 is_user then w = PageFault PG_ERROR_P_MASK
         else \<exists>pte ptep. w = Mapped pte ptep (addr AND NOT (mask sh)) (2 ^ sh) \<and>
                same_entry (page_entry e sh) pte \<and> same_entry rights ptep \<and>
                (bit pte 6 \<longleftrightarrow> bit e 6 \<or> is_write1 AND 1 \<noteq> 0))"

lemma access_denied_same:
  "same_entry r r' \<Longrightarrow> access_denied cr0 r' w1 user = access_denied cr0 r w1 user"
  by (simp add: access_denied_def protection_fault_def pg_bits same_entry_bit)

lemma same_entry_ops:
  "same_entry e e' \<Longrightarrow> same_entry (e AND k) (e' AND k)"
  "same_entry e e' \<Longrightarrow> same_entry r r' \<Longrightarrow> same_entry (r AND (e XOR PG_NX_MASK)) (r' AND (e' XOR PG_NX_MASK))"
  "same_entry e e' \<Longrightarrow> same_entry (e XOR PG_NX_MASK) (e' XOR PG_NX_MASK)"
  by (auto simp: same_entry_bit bit_simps)

lemma same_entry_trans: "same_entry e e' \<Longrightarrow> same_entry e' e'' \<Longrightarrow> same_entry e e''"
  by simp

lemma same_entry_tests:
  assumes "same_entry e e'"
  shows "(e' AND PG_PRESENT_MASK = 0) = (e AND PG_PRESENT_MASK = 0)"
    "(e' AND PG_PSE_MASK = 0) = (e AND PG_PSE_MASK = 0)" "reserved_nx s e' = reserved_nx s e"
    "e' AND PHYS_ADDR_MASK = e AND PHYS_ADDR_MASK"
proof -
  have P: "(x AND PG_PRESENT_MASK = 0) = (\<not> bit x 0)" for x :: u64
    using and_mask_bit [of x 0] by auto
  show "(e' AND PG_PRESENT_MASK = 0) = (e AND PG_PRESENT_MASK = 0)"
    "(e' AND PG_PSE_MASK = 0) = (e AND PG_PSE_MASK = 0)" "reserved_nx s e' = reserved_nx s e"
    using assms by (simp_all add: P pg_bits reserved_nx_def same_entry_bit)
  have "NOT AD_MASK AND PHYS_ADDR_MASK = (PHYS_ADDR_MASK :: u64)" by (simp add: AD_MASK_eq)
  then have *: "x AND PHYS_ADDR_MASK = (x AND NOT AD_MASK) AND PHYS_ADDR_MASK" for x :: u64
    by (simp only: and.assoc)
  show "e' AND PHYS_ADDR_MASK = e AND PHYS_ADDR_MASK" unfolding * [of e'] * [of e] assms ..
qed

lemma walk_leaf_agrees:
  assumes "same_entry e e'" "same_entry r r'" "cr s 0 = cr0"
    and "va = addr AND NOT (mask sh)" "sz = 2 ^ sh" "keep = (PHYS_ADDR_MASK AND NOT (mask sh)) OR 0xfff"
    and dirty: "bit e' 6 = bit e 6"
  shows "walk_agrees cr0 addr w1 user (Inr (e, r XOR PG_NX_MASK, sh))
    (fst (walk_leaf_nx B a e' r' w1 user keep va sz s))"
proof -
  let ?r = "r XOR PG_NX_MASK" and ?r' = "r' XOR PG_NX_MASK"
  have r: "same_entry ?r ?r'" using same_entry_ops(3) [OF assms(2)] .
  show ?thesis
  proof (cases "access_denied cr0 ?r w1 user")
    case True
    then have "access_denied cr0 ?r' w1 user" using access_denied_same [OF r] by simp
    then have "fst (walk_leaf_nx B a e' r' w1 user keep va sz s) = PageFault PG_ERROR_P_MASK"
      using assms(3) by (auto simp: walk_leaf_nx_def walk_leaf_def Let_def access_denied_def do_fault_protect_def)
    with True show ?thesis by (simp add: walk_agrees_def)
  next
    case False
    then have "\<not> access_denied cr0 ?r' w1 user" using access_denied_same [OF r] by simp
    then have "fst (walk_leaf_nx B a e' r' w1 user keep va sz s) =
        Mapped (fst (mark_used B a e' (w1 AND 1 \<noteq> 0) s) AND keep) ?r' va sz"
      using assms(3)
      by (auto simp: walk_leaf_nx_def walk_leaf_def Let_def access_denied_def case_prod_unfold)
    moreover have "same_entry (page_entry e sh) (fst (mark_used B a e' (w1 AND 1 \<noteq> 0) s) AND keep)"
      unfolding page_entry_def assms(6)
      by (rule same_entry_ops(1) [OF same_entry_trans [OF assms(1) same_entry_marked(2)]])
    moreover have "bit (fst (mark_used B a e' (w1 AND 1 \<noteq> 0) s) AND keep) 6 \<longleftrightarrow> bit e 6 \<or> w1 AND 1 \<noteq> 0"
      unfolding assms(6) bit_and_iff mark_used_dirty dirty by (simp add: bit_or_iff)
    ultimately show ?thesis using False r assms(4,5) by (simp add: walk_agrees_def)
  qed
qed

section \<open>The walk finds the entry of the reference\<close>

lemma aligned_entry:
  "aligned 3 ((tab AND PHYS_ADDR_MASK) + push_bit 3 i AND a20)"
  "aligned 3 ((tab AND NOT 0xfff) + push_bit 3 i AND a20)"
proof -
  have *: "aligned 3 (PHYS_ADDR_MASK :: u64)" "aligned 3 (NOT 0xfff :: u64)" by simp_all
  show "aligned 3 ((tab AND PHYS_ADDR_MASK) + push_bit 3 i AND a20)"
    "aligned 3 ((tab AND NOT 0xfff) + push_bit 3 i AND a20)"
    by (rule aligned_and, rule disjI1, rule aligned_add, rule aligned_and, rule disjI2, rule *,
        simp only: take_bit_push_bit, simp)+
qed

text \<open>The state of a walk: the registers are those of \<open>env\<close>, and memory differs from \<open>M\<close> in
  accessed and dirty bits only.\<close>

definition walking :: "('m \<Rightarrow> u64 \<Rightarrow> u8) \<Rightarrow> (u64 \<Rightarrow> u8) \<Rightarrow> 'm CPUX86State_scheme \<Rightarrow> 'm CPUX86State_scheme \<Rightarrow> bool" where
  "walking mem M env s \<longleftrightarrow> CPUX86State.truncate s = CPUX86State.truncate env \<and>
    same_tables M (mem (CPUX86State.more s)) \<and> same_dirty M (mem (CPUX86State.more s))"

lemma walkingD:
  assumes "walking mem M env s"
  shows "cr s = cr env" "a20_mask s = a20_mask env" "reserved_nx s e = reserved_nx env e"
    "same_tables M (mem (CPUX86State.more s))" "same_dirty M (mem (CPUX86State.more s))"
proof -
  have s: "CPUX86State.truncate s = CPUX86State.truncate env" using assms by (simp add: walking_def)
  show "cr s = cr env" "a20_mask s = a20_mask env" by (rule same_regs [OF s])+
  have "efer s = efer env" by (rule same_regs [OF s])
  then show "reserved_nx s e = reserved_nx env e" by (simp add: reserved_nx_def)
  show "same_tables M (mem (CPUX86State.more s))" "same_dirty M (mem (CPUX86State.more s))"
    using assms by (simp_all add: walking_def)
qed

lemma walking_mark:
  assumes "phys_ram B mem" "walking mem M env s" "aligned 3 a" "e = ldq_phys B a s"
  shows "walking mem M env (snd (mark_accessed B a e s))"
  using assms mark_frame(1) [OF phys_ramD(1) [OF assms(1)]]
    same_tables_mark(1) [OF assms(1) walkingD(4) [OF assms(2)] assms(3)]
    same_dirty_mark [OF assms(1) walkingD(5) [OF assms(2)] assms(3)]
  by (simp add: walking_def phys_ramD [OF assms(1)])

lemma same_entry_read:
  assumes "phys_ram B mem" "walking mem M env s" "aligned 3 a"
  shows "same_entry (load64 M a) (ldq_phys B a s)"
  using walkingD(4) [OF assms(2)] assms(3) by (simp add: phys_ramD [OF assms(1)] same_tables_def)

lemma same_dirty_read:
  assumes "phys_ram B mem" "walking mem M env s" "aligned 3 a"
  shows "bit (ldq_phys B a s) 6 = bit (load64 M a) 6"
  using walkingD(5) [OF assms(2)] assms(3) by (simp add: phys_ramD [OF assms(1)] same_dirty_def)

abbreviation entries :: "('m \<Rightarrow> u64 \<Rightarrow> u8) \<Rightarrow> 'm CPUX86State_scheme \<Rightarrow> u64 \<Rightarrow> u64" where
  "entries mem env \<equiv> load64 (mem (CPUX86State.more env))"

abbreviation nx_enabled :: "'m CPUX86State_scheme \<Rightarrow> bool" where
  "nx_enabled env \<equiv> efer env AND MSR_EFER_NXE \<noteq> 0"

lemma reserved_nx_iff: "reserved_nx env e \<longleftrightarrow> \<not> nx_enabled env \<and> e AND PG_NX_MASK \<noteq> 0"
  by (simp add: reserved_nx_def)

lemma walk_agrees_fault:
  "walk_agrees c addr w1 user (Inl code) (PageFault code)"
  by (simp add: walk_agrees_def)

lemma walk_pte_agrees:
  assumes "phys_ram B mem" "walking mem M env s" "same_entry p p'" "same_entry r r'"
  shows "walk_agrees (cr env 0) addr w1 user
    (table_walk (load64 M) (a20_mask env) (nx_enabled env) addr (p AND PHYS_ADDR_MASK) r [12])
    (fst (walk_pte B addr w1 user p' r' s))"
proof -
  define a where "a = (p AND PHYS_ADDR_MASK) + push_bit 3 (drop_bit 12 addr AND 0x1ff) AND a20_mask env"
  have al: "aligned 3 a" unfolding a_def by (rule aligned_entry)
  define e e' where "e = load64 M a" and "e' = ldq_phys B a s"
  have ee: "same_entry e e'" unfolding e_def e'_def by (rule same_entry_read [OF assms(1,2) al])
  have leaf: "walk_agrees (cr env 0) addr w1 user (Inr (e, r AND (e XOR PG_NX_MASK) XOR PG_NX_MASK, 12))
      (fst (walk_leaf_nx B a e' (r' AND (e' XOR PG_NX_MASK)) w1 user (PHYS_ADDR_MASK OR 0xfff)
         (addr AND NOT 0xfff) 4096 s))"
    by (rule walk_leaf_agrees [OF ee same_entry_ops(2) [OF ee assms(4)]])
      (simp_all add: walkingD [OF assms(2)] mask_eq_exp_minus_1 e_def e'_def same_dirty_read [OF assms(1,2) al])
  show ?thesis
    unfolding walk_pte_def table_walk.simps same_entry_tests(4) [OF assms(3)] walkingD(2) [OF assms(2)]
      a_def [symmetric] Let_def e_def [symmetric] e'_def [symmetric] same_entry_tests(1,3) [OF ee]
      walkingD(3) [OF assms(2)]
    unfolding reserved_nx_iff
    using leaf walk_agrees_fault by simp
qed

lemma walk_pde_agrees:
  assumes "phys_ram B mem" "walking mem M env s" "same_entry p p'" "same_entry r r'"
  shows "walk_agrees (cr env 0) addr w1 user
    (table_walk (load64 M) (a20_mask env) (nx_enabled env) addr (p AND PHYS_ADDR_MASK) r [21, 12])
    (fst (walk_pde B addr w1 user p' r' s))"
proof -
  define a where "a = (p AND PHYS_ADDR_MASK) + push_bit 3 (drop_bit 21 addr AND 0x1ff) AND a20_mask env"
  have al: "aligned 3 a" unfolding a_def by (rule aligned_entry)
  define e e' where "e = load64 M a" and "e' = ldq_phys B a s"
  have ee: "same_entry e e'" unfolding e_def e'_def by (rule same_entry_read [OF assms(1,2) al])
  note rr = same_entry_ops(2) [OF ee assms(4)]
  have leaf: "walk_agrees (cr env 0) addr w1 user (Inr (e, r AND (e XOR PG_NX_MASK) XOR PG_NX_MASK, 21))
      (fst (walk_leaf_nx B a e' (r' AND (e' XOR PG_NX_MASK)) w1 user
         ((PHYS_ADDR_MASK AND NOT 0x1fffff) OR 0xfff) (addr AND NOT 0x1fffff) 0x200000 s))"
    by (rule walk_leaf_agrees [OF ee rr])
      (simp_all add: walkingD [OF assms(2)] mask_eq_exp_minus_1 e_def e'_def same_dirty_read [OF assms(1,2) al])
  have below: "walk_agrees (cr env 0) addr w1 user
      (table_walk (load64 M) (a20_mask env) (nx_enabled env) addr (e AND PHYS_ADDR_MASK)
         (r AND (e XOR PG_NX_MASK)) [12])
      (fst (walk_pte B addr w1 user (fst (mark_accessed B a e' s)) (r' AND (e' XOR PG_NX_MASK))
         (snd (mark_accessed B a e' s))))"
    by (rule walk_pte_agrees [OF assms(1) walking_mark [OF assms(1,2) al e'_def]
          same_entry_trans [OF ee same_entry_marked(1)] rr])
  show ?thesis
    unfolding walk_pde_def table_walk.simps(2) [of _ _ _ _ _ _ 21] same_entry_tests(4) [OF assms(3)]
      walkingD(2) [OF assms(2)] a_def [symmetric] Let_def e_def [symmetric] e'_def [symmetric]
      same_entry_tests(1,2,3) [OF ee] walkingD(3) [OF assms(2)] case_prod_unfold
    unfolding reserved_nx_iff
    using leaf below walk_agrees_fault by simp
qed

text \<open>The two upper levels of long mode, whose entries are never pages.\<close>

lemma walk_long_agrees:
  assumes "phys_ram B mem" and canon: "ucast (signed_drop_bit 47 addr) \<in> {0, - 1 :: u32}"
  shows "walk_agrees (cr env 0) addr w1 user
    (table_walk (entries mem env) (a20_mask env) (nx_enabled env) addr (cr env 3 AND NOT 0xfff) (- 1)
       [39, 30, 21, 12])
    (fst (walk_long B addr w1 user env))"
proof -
  let ?M = "mem (CPUX86State.more env)"
  have w0: "walking mem ?M env env" by (simp add: walking_def same_tables_def same_dirty_def)
  define a where "a = (cr env 3 AND NOT 0xfff) + push_bit 3 (drop_bit 39 addr AND 0x1ff) AND a20_mask env"
  have al: "aligned 3 a" unfolding a_def by (rule aligned_entry)
  define e e' where "e = load64 ?M a" and "e' = ldq_phys B a env"
  have ee: "same_entry e e'" unfolding e_def e'_def by (rule same_entry_read [OF assms(1) w0 al])
  define m s where "m = fst (mark_accessed B a e' env)" and "s = snd (mark_accessed B a e' env)"
  have em: "same_entry e m" unfolding m_def by (rule same_entry_trans [OF ee same_entry_marked(1)])
  have w1: "walking mem ?M env s" unfolding s_def by (rule walking_mark [OF assms(1) w0 al e'_def])
  define b where "b = (e AND PHYS_ADDR_MASK) + push_bit 3 (drop_bit 30 addr AND 0x1ff) AND a20_mask env"
  have bl: "aligned 3 b" unfolding b_def by (rule aligned_entry)
  define f f' where "f = load64 ?M b" and "f' = ldq_phys B b s"
  have ff: "same_entry f f'" unfolding f_def f'_def by (rule same_entry_read [OF assms(1) w1 bl])
  have below: "walk_agrees (cr env 0) addr w1 user
      (table_walk (load64 ?M) (a20_mask env) (nx_enabled env) addr (f AND PHYS_ADDR_MASK)
         ((e XOR PG_NX_MASK) AND (f XOR PG_NX_MASK)) [21, 12])
      (fst (walk_pde B addr w1 user (fst (mark_accessed B b f' s)) ((m XOR PG_NX_MASK) AND (f' XOR PG_NX_MASK))
         (snd (mark_accessed B b f' s))))"
    by (rule walk_pde_agrees [OF assms(1) walking_mark [OF assms(1) w1 bl f'_def]
          same_entry_trans [OF ff same_entry_marked(1)] same_entry_ops(2) [OF ff same_entry_ops(3) [OF em]]])
  have ones: "(- 1 :: u64) AND x = x" for x by simp
  have not_noncanon: "\<not> (ucast (signed_drop_bit 47 addr) \<noteq> (0 :: u32) \<and> ucast (signed_drop_bit 47 addr) \<noteq> (- 1 :: u32))"
    using canon by auto
  show ?thesis
    unfolding walk_long_def Let_def if_not_P [OF not_noncanon]
      table_walk.simps(2) [of _ _ _ _ _ _ 39] table_walk.simps(2) [of _ _ _ _ _ _ 30] ones
      a_def [symmetric] e_def [symmetric] e'_def [symmetric] case_prod_unfold
      m_def [symmetric] s_def [symmetric] same_entry_tests(4) [OF em]
      walkingD(2) [OF w1] b_def [symmetric] f_def [symmetric] f'_def [symmetric]
      same_entry_tests(1,3) [OF ee] same_entry_tests(1,3) [OF ff] walkingD(3) [OF w1]
    unfolding reserved_nx_iff
    using below walk_agrees_fault by simp
qed

section \<open>Translation\<close>

lemma table_walk_size:
  "table_walk E a20 nxe addr tab rights shs = Inr (e, r, sh) \<Longrightarrow> sh = 21 \<or> sh = last shs"
  by (induction E a20 nxe addr tab rights shs rule: table_walk.induct)
    (auto simp: table_walk.simps Let_def split: if_splits)

text \<open>The physical address of the 4 KB piece of a page that holds the address.\<close>

definition piece_of :: "u64 \<Rightarrow> u64 \<Rightarrow> nat \<Rightarrow> u64 \<Rightarrow> u64" where
  "piece_of a20 e sh addr =
    ((page_entry e sh AND a20) AND TARGET_PAGE_MASK) + ((addr AND TARGET_PAGE_MASK) AND mask sh)"

lemma page_of_entry:
  assumes "same_entry e e'"
  shows "(e' AND a) AND TARGET_PAGE_MASK = (e AND a) AND TARGET_PAGE_MASK"
proof -
  have "NOT AD_MASK AND TARGET_PAGE_MASK = TARGET_PAGE_MASK" by (simp add: AD_MASK_eq)
  then have *: "(x AND a) AND TARGET_PAGE_MASK = ((x AND NOT AD_MASK) AND a) AND TARGET_PAGE_MASK" for x
    by (metis (no_types) and.assoc and.commute)
  show ?thesis unfolding * [of e] * [of e'] assms ..
qed

lemma do_mapping_piece:
  assumes "same_entry (page_entry e sh) pte" "sh = 12 \<or> sh = 21"
  shows "do_mapping addr idx pte (addr AND NOT (mask sh)) (2 ^ sh) prot s =
    ext_call (TlbSetPage (addr AND TARGET_PAGE_MASK) (piece_of (a20_mask s) e sh addr) prot idx (2 ^ sh)) s"
proof -
  note pte = page_of_entry [OF assms(1)]
  have sz: "ucast ((2 :: u32) ^ sh - 1) = (mask sh :: u64)"
    using assms(2) by (auto simp: mask_eq_exp_minus_1)
  have off: "ucast (ucast (x AND mask sh) :: u32) = x AND mask sh" for x :: u64
    using assms(2) by (intro bit_word_eqI) (auto simp: bit_simps)
  have "(addr AND NOT (mask sh), 2 ^ sh) \<in> {(addr AND NOT 0xfff, 4096), (addr AND NOT 0x1fffff, 0x200000),
                    (addr AND NOT 0x3fffff, 0x400000 :: u32)}"
    using assms(2) by (auto simp: mask_eq_exp_minus_1)
  from page_sum [OF this] show ?thesis
    unfolding do_mapping_def Let_def piece_of_def sz off pte by simp
qed

lemma error_cause:
  assumes "c \<in> {0, 1, 8}"
  shows "(c OR push_bit 1 (w AND 1) OR (if u then 4 else 0) OR (if x then 0x10 else 0)) AND 9 = (c :: u32)"
proof -
  have "w AND 1 = 0 \<or> w AND 1 = 1" using parity_cases [of w] by (auto simp: and_one_eq)
  then have "push_bit 1 (w AND 1) \<in> {0, 2}" by (elim disjE) (simp_all only:, simp_all)
  moreover have "(c OR m OR (if u then 4 else 0) OR (if x then 0x10 else 0)) AND 9 = c"
    if "m \<in> {0, 2}" for m using that assms by auto
  ultimately show ?thesis by blast
qed

definition long_mode :: "'m CPUX86State_scheme \<Rightarrow> bool" where
  "long_mode env \<longleftrightarrow> cr env 0 AND CR0_PG_MASK \<noteq> 0 \<and> cr env 4 AND CR4_PAE_MASK \<noteq> 0 \<and>
    hflags env AND HF_LMA_MASK \<noteq> 0"

definition canonical :: "u64 \<Rightarrow> bool" where
  "canonical addr \<longleftrightarrow> ucast (signed_drop_bit 47 addr) \<in> {0, - 1 :: u32}"

definition translation ::
  "('m \<Rightarrow> u64 \<Rightarrow> u8) \<Rightarrow> 'm CPUX86State_scheme \<Rightarrow> u64 \<Rightarrow> u32 + (u64 \<times> u64 \<times> nat)" where
  "translation mem env addr =
    table_walk (entries mem env) (a20_mask env) (nx_enabled env) addr (cr env 3 AND NOT 0xfff) (- 1)
      [39, 30, 21, 12]"

text \<open>The page fault that a cause leads to: its error code, and CR2 unless it is intercepted.\<close>

definition page_fault_code :: "'m CPUX86State_scheme \<Rightarrow> u32 \<Rightarrow> u32 \<Rightarrow> bool \<Rightarrow> u32" where
  "page_fault_code env cause is_write1 is_user =
    cause OR (if is_write1 AND 1 \<noteq> 0 then push_bit PG_ERROR_W_BIT 1 else 0) OR (if is_user then PG_ERROR_U_MASK else 0) OR
    (if is_write1 = 2 \<and> nx_enabled env \<and> cr env 4 AND CR4_PAE_MASK \<noteq> 0 then PG_ERROR_I_D_MASK else 0)"

definition page_faults ::
  "'m cpu_bus \<Rightarrow> u64 \<Rightarrow> u32 \<Rightarrow> u32 \<Rightarrow> 'm CPUX86State_scheme \<Rightarrow> u32 \<Rightarrow> bool" where
  "page_faults B addr is_write1 mmu_idx env cause \<longleftrightarrow>
    (\<exists>t. cpu_x86_handle_mmu_fault B addr is_write1 mmu_idx env = (1, t) \<and> exception_index t = EXCP0E_PAGE \<and>
      error_code t = page_fault_code env cause is_write1 (mmu_idx = MMU_USER_IDX) \<and>
      cr t = (if bit (intercept_exceptions env) 14 then cr env else (cr env)(2 := addr)))"

lemma write_bit: "push_bit 1 (w AND 1 :: u32) = (if w AND 1 \<noteq> 0 then 2 else 0)"
  using parity_cases [of w] by (auto simp: and_one_eq)

lemma fault_of_walk:
  assumes "regs_frame B" "cr env 0 AND CR0_PG_MASK \<noteq> 0"
    and "fst (walk_for B addr w1 (idx = MMU_USER_IDX) env) = PageFault c"
  shows "page_faults B addr w1 idx env c"
proof -
  obtain s where w: "walk_for B addr w1 (idx = MMU_USER_IDX) env = (PageFault c, s)"
    using assms(3) by (metis prod.collapse)
  have s: "CPUX86State.truncate s = CPUX86State.truncate env"
    using walk_for_ok(2) [OF assms(1), of addr w1 "idx = MMU_USER_IDX" env] w by simp
  have regs: "cr s = cr env" "efer s = efer env" "intercept_exceptions s = intercept_exceptions env"
    by (rule same_regs [OF s])+
  show ?thesis
    using assms(2) w
    by (simp add: page_faults_def page_fault_code_def handle_mmu_fault_eq regs flag_bits64
        do_fault_state(2-4) [OF assms(1), unfolded write_bit] or.assoc)
qed

lemma mapping_prot_rights:
  assumes "same_entry rights ptep" "\<not> access_denied (cr env 0) rights w1 user" "cr s = cr env"
  shows "mapping_prot s pte ptep user = tlb_rights (cr env 0) (bit pte 6) rights user"
proof -
  have b: "bit ptep 1 = bit rights 1" "bit ptep 2 = bit rights 2" "bit ptep 63 = bit rights 63"
    using assms(1) by (simp_all add: same_entry_bit)
  have u: "user \<Longrightarrow> bit rights 2"
    using assms(2) by (simp add: access_denied_def protection_fault_def pg_bits split: if_splits)
  have w: "access_denied (cr env 0) rights 1 user \<longleftrightarrow>
      (if user then \<not> bit rights 1 else cr env 0 AND CR0_WP_MASK \<noteq> 0 \<and> \<not> bit rights 1)"
    and x: "access_denied (cr env 0) rights 2 user \<longleftrightarrow> bit rights 63"
    using u by (simp_all add: access_denied_def protection_fault_def pg_bits)
  show ?thesis
    unfolding mapping_prot_def tlb_rights_def w x pg_bits Let_def b assms(3)
    by (cases user; cases "bit rights 1"; cases "bit rights 63"; cases "bit pte 6") (simp_all add: insert_commute)
qed

text \<open>
  C1: in long mode the fault handler does what the four-level tables define, for every address,
  access and state.  A non-canonical address is a general protection fault with error code 0.
  For any other, the reference walk over the tables as they are before the access decides: where
  it finds no entry, or one whose accumulated rights do not allow the access, there is a page
  fault whose error code has the cause (not present, reserved bit, protection), the kind of access
  and the mode, and whose address is in CR2 (unless the page fault is intercepted); otherwise the
  page is mapped to the physical address of the entry with exactly its rights: to read, to execute
  unless NX or the mode forbids it, and to write only if that is allowed and the page is dirty.
  This holds whatever accessed and dirty bits the walk sets on its way, in tables that may contain
  themselves.
\<close>
theorem long_mode_translation:
  assumes "phys_ram B mem" "long_mode env"
  shows "if \<not> canonical addr
    then \<exists>t. cpu_x86_handle_mmu_fault B addr is_write1 mmu_idx env = (1, t) \<and>
      exception_index t = EXCP0D_GPF \<and> error_code t = 0 \<and> cr t = cr env
    else case translation mem env addr of
      Inl cause \<Rightarrow> page_faults B addr is_write1 mmu_idx env cause
    | Inr (e, rights, sh) \<Rightarrow>
        if access_denied (cr env 0) rights is_write1 (mmu_idx = MMU_USER_IDX)
        then page_faults B addr is_write1 mmu_idx env PG_ERROR_P_MASK
        else \<exists>t. cpu_x86_handle_mmu_fault B addr is_write1 mmu_idx env = (0, t) \<and>
          ext_calls t = ext_calls env @ [TlbSetPage (addr AND TARGET_PAGE_MASK)
            (piece_of (a20_mask env) e sh addr)
            (tlb_rights (cr env 0) (bit e 6 \<or> is_write1 AND 1 \<noteq> 0) rights (mmu_idx = MMU_USER_IDX))
            mmu_idx (2 ^ sh)]"
proof (cases "canonical addr")
  case False
  have wf: "walk_for B addr is_write1 (mmu_idx = MMU_USER_IDX) env = (GpFault, env)"
    using assms(2) False by (simp add: long_mode_def walk_for_def walk_long_def canonical_def)
  show ?thesis using False assms(2) by (simp add: handle_mmu_fault_eq wf long_mode_def)
next
  case True
  let ?user = "mmu_idx = MMU_USER_IDX"
  note frame = phys_ramD(1) [OF assms(1)]
  from assms(2) have pg: "cr env 0 AND CR0_PG_MASK \<noteq> 0" "cr env 4 AND CR4_PAE_MASK \<noteq> 0"
    and wf: "walk_for B addr is_write1 ?user env = walk_long B addr is_write1 ?user env"
    by (simp_all add: long_mode_def walk_for_def)
  obtain w s where w: "walk_for B addr is_write1 ?user env = (w, s)" by fastforce
  have s: "CPUX86State.truncate s = CPUX86State.truncate env"
    using walk_for_ok(2) [OF frame, of addr is_write1 ?user env] w by simp
  have agree: "walk_agrees (cr env 0) addr is_write1 ?user (translation mem env addr) w"
    using walk_long_agrees [OF assms(1) True [unfolded canonical_def], of env is_write1 ?user]
    unfolding translation_def wf [symmetric] w fst_conv .
  note fault = fault_of_walk [OF frame pg(1), of addr is_write1 mmu_idx, unfolded w fst_conv]
  show ?thesis
  proof (cases "translation mem env addr")
    case (Inl code)
    with agree fault True show ?thesis by (simp add: walk_agrees_def)
  next
    case (Inr r)
    obtain e rights sh where r: "r = (e, rights, sh)" by (cases r)
    show ?thesis
    proof (cases "access_denied (cr env 0) rights is_write1 ?user")
      case denied: True
      with agree fault Inr r True show ?thesis by (simp add: walk_agrees_def)
    next
      case False
      with agree Inr r obtain pte ptep where m: "w = Mapped pte ptep (addr AND NOT (mask sh)) (2 ^ sh)"
        and pte: "same_entry (page_entry e sh) pte" and ptep: "same_entry rights ptep"
        and dirty: "bit pte 6 \<longleftrightarrow> bit e 6 \<or> is_write1 AND 1 \<noteq> 0" by (auto simp: walk_agrees_def)
      have regs: "cr s = cr env" "a20_mask s = a20_mask env" "ext_calls s = ext_calls env"
        by (rule same_regs [OF s])+
      have "sh = 12 \<or> sh = 21" using table_walk_size [OF Inr [unfolded r translation_def]] by auto
      from do_mapping_piece [OF pte this] w m pg
      have "cpu_x86_handle_mmu_fault B addr is_write1 mmu_idx env =
          (0, ext_call (TlbSetPage (addr AND TARGET_PAGE_MASK) (piece_of (a20_mask s) e sh addr)
                (mapping_prot s pte ptep ?user) mmu_idx (2 ^ sh)) s)"
        by (simp add: handle_mmu_fault_eq)
      then show ?thesis
        using False Inr r True mapping_prot_rights [OF ptep False regs(1), of pte]
        by (simp add: ext_call_def regs dirty)
    qed
  qed
qed

text \<open>Three tables that map the lowest 2 MB to themselves.\<close>

definition long_demo :: cpu_ram where
  "long_demo = set_ram
     (store_bytes (store_bytes (store_bytes (\<lambda>_. 0) 0x1000 8 (0x2003 :: u64)) 0x2000 8 (0x3003 :: u64))
        0x3000 8 (0x83 :: u64))
     (ram_zero\<lparr>cr := (\<lambda>_. 0)(0 := 0x80000001, 3 := 0x1000, 4 := 0x20), hflags := 0x4000, a20_mask := - 1\<rparr>)"

theorem long_mode_translation_witness:
  "(\<exists>t. cpu_x86_handle_mmu_fault flat_bus 0x5432 0 0 long_demo = (0, t) \<and>
     ext_calls t = [TlbSetPage 0x5000 0x5000 {PAGE_READ, PAGE_EXEC} 0 0x200000]) \<and>
   page_faults flat_bus 0x5432 0 MMU_USER_IDX long_demo PG_ERROR_P_MASK"
proof -
  have long: "long_mode long_demo" and canon: "canonical 0x5432"
    by (simp_all add: long_mode_def long_demo_def canonical_def)
  note * = long_mode_translation [OF flat_phys_ram long, of "0x5432" 0]
  have t: "translation (\<lambda>m. m) long_demo 0x5432 = Inr (0x83, 3, 21)"
    by (simp add: translation_def long_demo_def table_walk.simps apart_def Let_def)
  have regs: "cr long_demo 0 = 0x80000001" "a20_mask long_demo = - 1" "ext_calls long_demo = []"
    by (simp_all add: long_demo_def)
  show ?thesis using * [of 0] * [of MMU_USER_IDX] canon
    by (simp add: t regs access_denied_def protection_fault_def piece_of_def page_entry_def tlb_rights_def
        mask_eq_exp_minus_1 pg_bits insert_commute)
qed

section \<open>The debugger's walk\<close>

lemma load32_after_mark:
  assumes "phys_ram B mem" "aligned 2 a" "aligned 2 b" "e = ucast (ldl_phys B a s)"
  shows "ldl_phys B b (snd (mark_accessed B a e s)) AND NOT AD_MASK = ldl_phys B b s AND NOT AD_MASK"
proof (cases "b = a")
  case True
  have "ucast (e OR 0x20) AND NOT AD_MASK = (ucast e AND NOT AD_MASK :: u32)" by (rule AD_sub(2)) simp
  moreover have "ucast e = ldl_phys B a s" using assms(4) by (simp add: ucast_down_up)
  ultimately show ?thesis using True
    by (simp add: mark_accessed_def Let_def phys_ramD [OF assms(1)])
next
  case False
  then have "apart b (2 ^ 2) a (2 ^ 2)" by (intro aligned_apart assms(2,3)) simp_all
  then have "apart b 4 a 4" by simp
  then show ?thesis by (simp add: mark_accessed_def Let_def phys_ramD [OF assms(1)])
qed

lemma aligned_entry32:
  "aligned 2 ((tab AND NOT 0xfff) + (i AND 0xffc) AND a20)"
proof -
  have *: "aligned 2 (0xffc :: u64)" "aligned 2 (NOT 0xfff :: u64)" by simp_all
  show ?thesis
    by (rule aligned_and, rule disjI1, rule aligned_add, rule aligned_and, rule disjI2, rule *,
        rule aligned_and, rule disjI2, rule *)
qed

lemma same_entry_ucast:
  "v' AND NOT AD_MASK = v AND NOT AD_MASK \<Longrightarrow> same_entry (ucast (v :: u32)) (ucast v')"
proof -
  assume eq: "v' AND NOT AD_MASK = v AND NOT AD_MASK"
  have "ucast v AND NOT AD_MASK = (ucast (v AND NOT AD_MASK) :: u64)" for v :: u32
    by (rule bit_word_eqI) (auto simp: bit_simps dest: bit_imp_le_length)
  then show ?thesis using eq by simp
qed

lemma walk_leaf_mapped:
  "fst (walk_leaf B a e r w1 user keep va sz s) = Mapped pte ptep va' sz' \<Longrightarrow>
    pte = fst (mark_used B a e (w1 AND 1 \<noteq> 0) s) AND keep \<and> va' = va \<and> sz' = sz"
  by (auto simp: walk_leaf_def do_fault_protect_def Let_def case_prod_unfold split: if_splits)

lemma walk_legacy_mapped:
  assumes "phys_ram B mem" "cr env 0 AND CR0_PG_MASK \<noteq> 0"
    and "fst (walk_legacy B addr w1 user env) = Mapped pte ptep va sz"
  shows "\<exists>p. debug_walk_legacy B addr env = Some (p, sz) \<and> same_entry p pte"
proof -
  define a where "a = (cr env 3 AND NOT 0xfff) + (drop_bit 20 addr AND 0xffc) AND a20_mask env"
  have al: "aligned 2 a" unfolding a_def by (rule aligned_entry32)
  define e where "e = (ucast (ldl_phys B a env) :: u64)"
  define m s where "m = fst (mark_accessed B a e env)" and "s = snd (mark_accessed B a e env)"
  have em: "same_entry e m" unfolding m_def by (rule same_entry_marked)
  have s: "CPUX86State.truncate s = CPUX86State.truncate env"
    unfolding s_def by (rule mark_frame [OF phys_ramD(1) [OF assms(1)]])
  have a20: "a20_mask s = a20_mask env" by (rule same_regs [OF s])
  have tab: "m AND NOT 0xfff = e AND NOT 0xfff" using page_of_entry [OF em, of "- 1"] by simp
  define b where "b = (e AND NOT 0xfff) + (drop_bit 10 addr AND 0xffc) AND a20_mask env"
  have bl: "aligned 2 b" unfolding b_def by (rule aligned_entry32)
  define f f' where "f = (ucast (ldl_phys B b env) :: u64)" and "f' = (ucast (ldl_phys B b s) :: u64)"
  have ff: "same_entry f f'"
    unfolding f_def f'_def s_def
    by (rule same_entry_ucast [OF load32_after_mark [OF assms(1) al bl e_def]])
  have present: "(f' AND PG_PRESENT_MASK = 0) = (f AND PG_PRESENT_MASK = 0)"
    by (rule same_entry_tests(1) [OF ff])
  let ?big = "e AND PG_PSE_MASK \<noteq> 0 \<and> cr env 4 AND CR4_PSE_MASK \<noteq> 0"
  note walk = assms(3) [unfolded walk_legacy_def Let_def a_def [symmetric] e_def [symmetric]
      case_prod_unfold m_def [symmetric] s_def [symmetric] tab a20 b_def [symmetric] f'_def [symmetric] present]
  have debug: "debug_walk_legacy B addr env =
      (if e AND PG_PRESENT_MASK = 0 then None else if ?big then Some (e AND NOT 0x3ff000, 0x400000)
       else if f AND PG_PRESENT_MASK = 0 then None else Some (f, 4096))"
    using assms(2) unfolding debug_walk_legacy_def Let_def a_def [symmetric] e_def [symmetric]
      b_def [symmetric] f_def [symmetric] by simp
  show ?thesis
  proof (cases ?big)
    case True
    with walk obtain r where "fst (walk_leaf B a e e w1 user (NOT 0x3ff000) (addr AND NOT 0x3fffff) 0x400000 env) =
        Mapped pte r va sz" "e AND PG_PRESENT_MASK \<noteq> 0"
      by (auto simp: own_rights_def split: if_splits walk.splits)
    with walk_leaf_mapped [OF this(1)] True debug same_entry_ops(1) [OF same_entry_marked(2)]
    show ?thesis by auto
  next
    case False
    with walk have "fst (walk_leaf B b f' (f' AND m) w1 user (NOT 0) (addr AND NOT 0xfff) 4096 s) =
        Mapped pte ptep va sz" "e AND PG_PRESENT_MASK \<noteq> 0" "f AND PG_PRESENT_MASK \<noteq> 0"
      by (auto split: if_splits)
    with walk_leaf_mapped [OF this(1)] False debug same_entry_trans [OF ff same_entry_marked(2)]
    show ?thesis by auto
  qed
qed

text \<open>
  C40: without PAE the debugger's walk, which has no side effects, finds the physical page that
  the fault handler maps: whenever the handler fills the TLB for an address, with paging off
  or through the two-level tables, the entry's physical address is the one the debugger gets.
\<close>
theorem debug_walk_agrees:
  assumes "phys_ram B mem" "cr env 4 AND CR4_PAE_MASK = 0"
    and "cpu_x86_handle_mmu_fault B addr is_write1 mmu_idx env = (0, t)"
  shows "\<exists>prot page_size. ext_calls t = ext_calls env @
    [TlbSetPage (addr AND TARGET_PAGE_MASK) (cpu_get_phys_page_debug B addr env) prot mmu_idx page_size]"
proof (cases "cr env 0 AND CR0_PG_MASK = 0")
  case True
  have "(addr AND NOT 0xfff, 4096) \<in> {(addr AND NOT 0xfff, 4096), (addr AND NOT 0x1fffff, 0x200000),
      (addr AND NOT 0x3fffff, 0x400000 :: u32)}" by simp
  note page = page_sum [OF this]
  have "cpu_get_phys_page_debug B addr env =
      ((addr AND a20_mask env) AND TARGET_PAGE_MASK) +
        ucast (ucast ((addr AND TARGET_PAGE_MASK) AND ucast (4096 - 1 :: u32)) :: u32)"
    using True assms(2) by (simp add: cpu_get_phys_page_debug_def Let_def debug_walk_legacy_def)
  then have "t = ext_call (TlbSetPage (addr AND TARGET_PAGE_MASK) (cpu_get_phys_page_debug B addr env)
      {PAGE_READ, PAGE_WRITE, PAGE_EXEC} mmu_idx 4096) env"
    using assms(3) True unfolding handle_mmu_fault_eq Let_def do_mapping_def page by simp
  then show ?thesis by (simp add: ext_call_def)
next
  case False
  let ?user = "mmu_idx = MMU_USER_IDX"
  note frame = phys_ramD(1) [OF assms(1)]
  obtain w s where w: "walk_legacy B addr is_write1 ?user env = (w, s)" by fastforce
  have wf: "walk_for B addr is_write1 ?user env = (w, s)" using assms(2) w by (simp add: walk_for_def)
  from assms(3) False obtain pte ptep va sz where m: "w = Mapped pte ptep va sz"
    and t: "t = do_mapping addr mmu_idx pte va sz (mapping_prot s pte ptep ?user) s"
    by (auto simp: handle_mmu_fault_eq Let_def wf split: walk.splits)
  have s: "CPUX86State.truncate s = CPUX86State.truncate env"
    using walk_for_ok(2) [OF frame, of addr is_write1 ?user env] wf by simp
  have env: "a20_mask s = a20_mask env" "ext_calls s = ext_calls env" by (rule same_regs [OF s])+
  have "(va, sz) \<in> {(addr AND NOT 0xfff, 4096), (addr AND NOT 0x1fffff, 0x200000),
      (addr AND NOT 0x3fffff, 0x400000)}"
    using walk_for_ok(1) [OF frame, of env addr is_write1 ?user] wf m by (simp add: walk_checked_def)
  note page = page_sum [OF this]
  obtain p where p: "debug_walk_legacy B addr env = Some (p, sz)" "same_entry p pte"
    using walk_legacy_mapped [OF assms(1) False, of addr is_write1 ?user pte ptep va sz] w m by auto
  have "cpu_get_phys_page_debug B addr env =
      ((p AND a20_mask env) AND TARGET_PAGE_MASK) +
        ucast (ucast ((addr AND TARGET_PAGE_MASK) AND ucast (sz - 1)) :: u32)"
    using assms(2) p(1) by (simp add: cpu_get_phys_page_debug_def Let_def)
  then have "t = ext_call (TlbSetPage (addr AND TARGET_PAGE_MASK) (cpu_get_phys_page_debug B addr env)
      (mapping_prot s pte ptep ?user) mmu_idx sz) s"
    unfolding t do_mapping_def Let_def page env(1) page_of_entry [OF p(2)] by simp
  then show ?thesis using env by (simp add: ext_call_def)
qed

theorem debug_walk_agrees_witness:
  "\<exists>prot page_size. ext_calls (snd (cpu_x86_handle_mmu_fault flat_bus 0x7c05 0 0 ram_zero)) =
    [TlbSetPage 0x7000 (cpu_get_phys_page_debug flat_bus 0x7c05 ram_zero) prot 0 page_size]"
proof -
  have "cpu_x86_handle_mmu_fault flat_bus 0x7c05 0 0 ram_zero =
      (0, snd (cpu_x86_handle_mmu_fault flat_bus 0x7c05 0 0 ram_zero))"
    by (simp add: cpu_x86_handle_mmu_fault_def)
  from debug_walk_agrees [OF flat_phys_ram _ this] show ?thesis by simp
qed

text \<open>
  With NX it does not agree: it masks entries with \<open>~0xfff\<close> where the handler uses
  \<open>PHYS_ADDR_MASK\<close>, so the NX bit of a page ends up in the physical address.
\<close>

lemma debug_walk_keeps_nx:
  "cpu_get_phys_page_debug flat_bus 0x5432
     (set_ram (store_bytes (ram long_demo) 0x3000 8 (0x8000000000000083 :: u64)) long_demo) =
   0x8000000000005000"
  "piece_of (- 1) 0x8000000000000083 21 0x5432 = 0x5000"
  by (simp_all add: cpu_get_phys_page_debug_def debug_walk_pae_def long_demo_def Let_def apart_def
      phys_ramD [OF flat_phys_ram] piece_of_def page_entry_def mask_eq_exp_minus_1)
end
