(* ===== verification/Lanes.thy ===== *)
theory Lanes
  imports CpuState
begin

text \<open>
  The lanes of a media register.  \<open>cpu.h\<close> declares \<open>MMXReg\<close> and \<open>XMMReg\<close> as unions of arrays of
  8, 16, 32 and 64-bit integers; on a little-endian host element \<open>i\<close> of the array of \<open>w\<close>-bit
  integers is the slice of \<open>w\<close> bits at \<open>w * i\<close>.  Code that reads and writes elements of the
  destination in place is a list of assignments, and the source may be the same register.
\<close>

section \<open>Elements\<close>

definition lane :: "nat \<Rightarrow> 'r::len word \<Rightarrow> 'a::len word" where
  "lane i r = ucast (drop_bit (i * LENGTH('a)) r)"

definition set_lane :: "nat \<Rightarrow> 'a::len word \<Rightarrow> 'r::len word \<Rightarrow> 'r word" where
  "set_lane i x r =
    (r AND NOT (push_bit (i * LENGTH('a)) (mask LENGTH('a)))) OR push_bit (i * LENGTH('a)) (ucast x)"

text \<open>The number of elements of a width in a register.\<close>

abbreviation (input) lanes :: "'a::len itself \<Rightarrow> 'r::len itself \<Rightarrow> nat" where
  "lanes a r \<equiv> LENGTH('r) div LENGTH('a)"

lemma bit_lane: "bit (lane i r :: 'a::len word) k \<longleftrightarrow> k < LENGTH('a) \<and> bit r (i * LENGTH('a) + k)"
  by (auto simp: lane_def bit_simps dest: bit_imp_le_length)

lemma bit_set_lane:
  "bit (set_lane i (x :: 'a::len word) (r :: 'r::len word)) n \<longleftrightarrow>
    n < LENGTH('r) \<and> (if i * LENGTH('a) \<le> n \<and> n < i * LENGTH('a) + LENGTH('a) then bit x (n - i * LENGTH('a)) else bit r n)"
  by (auto simp: set_lane_def bit_simps dest: bit_imp_le_length)

lemma lane_set_same [simp]:
  "i * LENGTH('a) + LENGTH('a) \<le> LENGTH('r) \<Longrightarrow> lane i (set_lane i (x :: 'a::len word) (r :: 'r::len word)) = x"
  by (rule bit_word_eqI) (auto simp: bit_lane bit_set_lane dest: bit_imp_le_length)

lemma lane_set_other [simp]:
  assumes "i \<noteq> j"
  shows "(lane i (set_lane j (x :: 'a::len word) (r :: 'r::len word)) :: 'a word) = lane i r"
proof (rule bit_word_eqI)
  fix n assume n: "n < LENGTH('a)"
  have "\<not> (j * LENGTH('a) \<le> i * LENGTH('a) + n \<and> i * LENGTH('a) + n < j * LENGTH('a) + LENGTH('a))"
  proof (cases "i < j")
    case True
    then have "(i + 1) * LENGTH('a) \<le> j * LENGTH('a)" by (intro mult_le_mono1) simp
    then show ?thesis using n by simp
  next
    case False
    then have "(j + 1) * LENGTH('a) \<le> i * LENGTH('a)" using assms by (intro mult_le_mono1) simp
    then show ?thesis using n by simp
  qed
  then show "bit (lane i (set_lane j x r) :: 'a word) n = bit (lane i r :: 'a word) n"
    by (auto simp: bit_lane bit_set_lane dest: bit_imp_le_length)
qed

text \<open>A register is the tuple of its elements.\<close>

lemma lane_fits: "i < LENGTH('r::len) div LENGTH('a::len) \<Longrightarrow> i * LENGTH('a) + LENGTH('a) \<le> LENGTH('r)"
proof -
  assume "i < LENGTH('r) div LENGTH('a)"
  then have "(i + 1) * LENGTH('a) \<le> LENGTH('r) div LENGTH('a) * LENGTH('a)" by (intro mult_le_mono1) simp
  also have "\<dots> \<le> LENGTH('r)" by (rule div_times_less_eq_dividend)
  finally show ?thesis by simp
qed

lemma lanes_eqI:
  fixes r t :: "'r::len word"
  assumes "LENGTH('a::len) dvd LENGTH('r)"
    and "\<And>i. i < LENGTH('r) div LENGTH('a) \<Longrightarrow> (lane i r :: 'a word) = lane i t"
  shows "r = t"
proof (rule bit_word_eqI)
  fix n assume n: "n < LENGTH('r)"
  let ?i = "n div LENGTH('a)"
  have "?i < LENGTH('r) div LENGTH('a)" using n assms(1) by (simp add: div_less_iff_less_mult)
  from assms(2) [OF this] have "bit (lane ?i r :: 'a word) (n mod LENGTH('a)) = bit (lane ?i t :: 'a word) (n mod LENGTH('a))"
    by simp
  then show "bit r n = bit t n" by (simp add: bit_lane)
qed

text \<open>The list of the elements.\<close>

definition elems :: "'r::len word \<Rightarrow> 'a::len word list" where
  "elems r = map (\<lambda>i. lane i r) [0..<lanes TYPE('a) TYPE('r)]"

lemma length_elems [simp]: "length (elems r :: 'a::len word list) = LENGTH('r) div LENGTH('a)" for r :: "'r::len word"
  by (simp add: elems_def)

lemma nth_elems [simp]: "i < LENGTH('r) div LENGTH('a) \<Longrightarrow> elems r ! i = (lane i r :: 'a::len word)" for r :: "'r::len word"
  by (simp add: elems_def)

section \<open>Assignments in place\<close>

datatype 'w src = Other 'w | Same

fun src_of :: "'w src \<Rightarrow> 'w \<Rightarrow> 'w" where
  "src_of (Other s) d = s"
| "src_of Same d = d"

text \<open>One assignment to the destination reads what both registers hold at the time.\<close>

definition in_place :: "('w \<Rightarrow> 'w \<Rightarrow> 'w) list \<Rightarrow> 'w src \<Rightarrow> 'w \<Rightarrow> 'w" where
  "in_place stmts s d = fold (\<lambda>f d. f d (src_of s d)) stmts d"

lemma in_place_simps [simp]:
  "in_place [] s d = d" "in_place (f # fs) s d = in_place fs s (f d (src_of s d))"
  "in_place (fs @ gs) s d = in_place gs s (in_place fs s d)"
  by (simp_all add: in_place_def)

text \<open>
  When every assignment goes to an element of its own, and reads no element that an earlier one
  wrote, the order does not matter: the result can be stated element by element.
\<close>

lemma in_place_elementwise:
  fixes F :: "nat \<Rightarrow> 'a::len word \<Rightarrow> 'a word \<Rightarrow> 'a word" and d :: "'r::len word"
  assumes "n \<le> LENGTH('r) div LENGTH('a)"
  shows "(lane i (in_place (map (\<lambda>i d s. set_lane i (F i (lane i d) (lane i s)) d) [0..<n]) s d) :: 'a word) =
    (if i < n then F i (lane i d) (lane i (src_of s d)) else lane i d)"
  using assms
proof (induction n arbitrary: i)
  case (Suc n)
  let ?t = "in_place (map (\<lambda>i d s. set_lane i (F i (lane i d) (lane i s)) d) [0..<n]) s d"
  have IH: "lane i ?t = (if i < n then F i (lane i d) (lane i (src_of s d)) else lane i d)" for i
    using Suc by simp
  have fits: "n * LENGTH('a) + LENGTH('a) \<le> LENGTH('r)"
    by (rule lane_fits) (use Suc.prems in simp)
  have "lane n (src_of s ?t) = (lane n (src_of s d) :: 'a word)" using IH [of n] by (cases s) simp_all
  then show ?case using IH [of i] IH [of n] fits by (cases "i = n") auto
qed simp

text \<open>A register built from a list of elements.\<close>

fun of_lanes :: "'a::len word list \<Rightarrow> 'r::len word" where
  "of_lanes [] = 0"
| "of_lanes (x # xs) = set_lane 0 x (push_bit LENGTH('a) (of_lanes xs))"

lemma lane_push: "(lane (Suc i) (push_bit LENGTH('a) r) :: 'a::len word) = lane i (r :: 'r::len word)"
  if "Suc i * LENGTH('a) + LENGTH('a) \<le> LENGTH('r)"
  using that by (intro bit_word_eqI) (auto simp: bit_lane bit_simps add.assoc dest: bit_imp_le_length)

lemma lane_of_lanes:
  "i < length xs \<Longrightarrow> i * LENGTH('a) + LENGTH('a) \<le> LENGTH('r) \<Longrightarrow> lane i (of_lanes xs :: 'r::len word) = (xs ! i :: 'a::len word)"
proof (induction xs arbitrary: i)
  case (Cons x xs)
  show ?case
  proof (cases i)
    case (Suc j)
    then have "lane i (of_lanes (x # xs) :: 'r word) = (lane (Suc j) (push_bit LENGTH('a) (of_lanes xs :: 'r word)) :: 'a word)"
      by simp
    also have "\<dots> = lane j (of_lanes xs :: 'r word)" using Suc Cons.prems by (intro lane_push) simp
    finally show ?thesis using Cons Suc by simp
  qed (use Cons.prems in simp)
qed simp

text \<open>
  A run of assignments to the elements from \<open>k\<close> on.  It may be read as one simultaneous assignment
  when step \<open>i\<close> reads only elements that the steps before it have not written.
\<close>

lemma fold_set_lane:
  fixes G :: "nat \<Rightarrow> 'r::len word \<Rightarrow> 'a::len word"
  assumes "k + n \<le> lanes TYPE('a) TYPE('r)"
    and "\<And>i t. i < n \<Longrightarrow> (\<And>j. j < k \<or> k + i \<le> j \<Longrightarrow> lane j t = (lane j d :: 'a word)) \<Longrightarrow> G i t = G i d"
  shows "lane j (fold (\<lambda>i t. set_lane (k + i) (G i t) t) [0..<n] d) =
    (if k \<le> j \<and> j < k + n then G (j - k) d else lane j d)"
  using assms
proof (induction n arbitrary: j)
  case (Suc n)
  let ?t = "fold (\<lambda>i t. set_lane (k + i) (G i t) t) [0..<n] d"
  have IH: "lane j ?t = (if k \<le> j \<and> j < k + n then G (j - k) d else lane j d)" for j
  proof (rule Suc.IH)
    show "k + n \<le> LENGTH('r) div LENGTH('a)" using Suc.prems(1) by simp
    show "G i t = G i d" if "i < n" "\<And>j. j < k \<or> k + i \<le> j \<Longrightarrow> lane j t = (lane j d :: 'a word)" for i t
      by (rule Suc.prems(2)) (use that in simp_all)
  qed
  have "G n ?t = G n d" by (rule Suc.prems(2)) (auto simp: IH)
  moreover have "(k + n) * LENGTH('a) + LENGTH('a) \<le> LENGTH('r)" by (rule lane_fits) (use Suc.prems(1) in simp)
  ultimately show ?case using IH [of j] by (cases "j = k + n") auto
qed auto

lemma in_place_map: "in_place (map (\<lambda>i d s. g i d s) is) s d = fold (\<lambda>i t. g i t (src_of s t)) is d"
  by (induction "is" arbitrary: d) (simp_all add: in_place_def)

text \<open>A wide element consists of narrow ones.\<close>

lemma lane_lane:
  fixes r :: "'r::len word"
  assumes "LENGTH('b::len) = m * LENGTH('a::len)" "j < m"
  shows "lane j (lane i r :: 'b word) = (lane (m * i + j) r :: 'a word)"
proof (rule bit_word_eqI)
  fix n assume n: "n < LENGTH('a)"
  have "(j + 1) * LENGTH('a) \<le> m * LENGTH('a)" using assms(2) by (intro mult_le_mono1) simp
  then have "j * LENGTH('a) + n < LENGTH('b)" using n assms(1) by simp
  then show "bit (lane j (lane i r :: 'b word) :: 'a word) n = bit (lane (m * i + j) r :: 'a word) n"
    using n by (simp add: bit_lane assms(1) algebra_simps)
qed

end
