(* ===== verification/SseOps.thy ===== *)
theory SseOps
  imports Lanes
begin

text \<open>
  The integer operations of \<open>ops_sse.h\<close> on packed elements.  The file is included twice, with
  \<open>SHIFT\<close> 0 for the 64-bit MMX registers and 1 for the 128-bit XMM registers; the definitions
  are polymorphic in the width of the register.  An operand \<open>s\<close> may be the destination itself
  (\<open>Same\<close>): the code then reads elements that it has already overwritten.  C integers are wide
  enough for the intermediate results, which are mathematical integers here unless noted.
\<close>

section \<open>The element operations\<close>

definition satub :: "int \<Rightarrow> int" where "satub x = (if x < 0 then 0 else if x > 255 then 255 else x)"
definition satuw :: "int \<Rightarrow> int" where "satuw x = (if x < 0 then 0 else if x > 65535 then 65535 else x)"
definition satsb :: "int \<Rightarrow> int" where "satsb x = (if x < -128 then -128 else if x > 127 then 127 else x)"
definition satsw :: "int \<Rightarrow> int" where "satsw x = (if x < -32768 then -32768 else if x > 32767 then 32767 else x)"

definition FADD :: "'a::len word \<Rightarrow> 'a word \<Rightarrow> 'a word" where "FADD a b = a + b"
definition FADDUB :: "u8 \<Rightarrow> u8 \<Rightarrow> u8" where "FADDUB a b = word_of_int (satub (uint a + uint b))"
definition FADDUW :: "u16 \<Rightarrow> u16 \<Rightarrow> u16" where "FADDUW a b = word_of_int (satuw (uint a + uint b))"
definition FADDSB :: "u8 \<Rightarrow> u8 \<Rightarrow> u8" where "FADDSB a b = word_of_int (satsb (sint a + sint b))"
definition FADDSW :: "u16 \<Rightarrow> u16 \<Rightarrow> u16" where "FADDSW a b = word_of_int (satsw (sint a + sint b))"
definition FSUB :: "'a::len word \<Rightarrow> 'a word \<Rightarrow> 'a word" where "FSUB a b = a - b"
definition FSUBUB :: "u8 \<Rightarrow> u8 \<Rightarrow> u8" where "FSUBUB a b = word_of_int (satub (uint a - uint b))"
definition FSUBUW :: "u16 \<Rightarrow> u16 \<Rightarrow> u16" where "FSUBUW a b = word_of_int (satuw (uint a - uint b))"
definition FSUBSB :: "u8 \<Rightarrow> u8 \<Rightarrow> u8" where "FSUBSB a b = word_of_int (satsb (sint a - sint b))"
definition FSUBSW :: "u16 \<Rightarrow> u16 \<Rightarrow> u16" where "FSUBSW a b = word_of_int (satsw (sint a - sint b))"
definition FMINU :: "'a::len word \<Rightarrow> 'a word \<Rightarrow> 'a word" where "FMINU a b = (if a < b then a else b)"
definition FMINS :: "'a::len word \<Rightarrow> 'a word \<Rightarrow> 'a word" where "FMINS a b = (if sint a < sint b then a else b)"
definition FMAXU :: "'a::len word \<Rightarrow> 'a word \<Rightarrow> 'a word" where "FMAXU a b = (if a > b then a else b)"
definition FMAXS :: "'a::len word \<Rightarrow> 'a word \<Rightarrow> 'a word" where "FMAXS a b = (if sint a > sint b then a else b)"
definition FANDN :: "'a::len word \<Rightarrow> 'a word \<Rightarrow> 'a word" where "FANDN a b = NOT a AND b"
definition FCMPGT :: "'a::len word \<Rightarrow> 'a word \<Rightarrow> 'a word" where "FCMPGT a b = (if sint a > sint b then - 1 else 0)"
definition FCMPEQ :: "'a::len word \<Rightarrow> 'a word \<Rightarrow> 'a word" where "FCMPEQ a b = (if a = b then - 1 else 0)"
definition FMULL :: "'a::len word \<Rightarrow> 'a word \<Rightarrow> 'a word" where "FMULL a b = a * b"
definition FMULHRW :: "u16 \<Rightarrow> u16 \<Rightarrow> u16" where
  "FMULHRW a b = word_of_int (drop_bit 16 (sint a * sint b + 0x8000))"

text \<open>The operands are promoted to \<open>int\<close>, 32 bits, in which the product of two large elements wraps.\<close>

definition FMULHUW :: "u16 \<Rightarrow> u16 \<Rightarrow> u16" where
  "FMULHUW a b = word_of_int (drop_bit 16 (sint (word_of_int (uint a * uint b) :: u32)))"
definition FMULHW :: "u16 \<Rightarrow> u16 \<Rightarrow> u16" where "FMULHW a b = word_of_int (drop_bit 16 (sint a * sint b))"
definition FAVG :: "'a::len word \<Rightarrow> 'a word \<Rightarrow> 'a word" where
  "FAVG a b = word_of_int (drop_bit 1 (uint a + uint b + 1))"
definition FABS :: "'a::len word \<Rightarrow> 'a word \<Rightarrow> 'a word" where
  "FABS _ x = (if uint x > 2 ^ (LENGTH('a) - 1) - 1 then word_of_int (- sint x) else x)"
definition FMULHRSW :: "u16 \<Rightarrow> u16 \<Rightarrow> u16" where
  "FMULHRSW d s = word_of_int (drop_bit 15 (sint d * sint s + 0x4000))"
definition FSIGN :: "'a::len word \<Rightarrow> 'a word \<Rightarrow> 'a word" where
  "FSIGN d s = (if uint s \<le> 2 ^ (LENGTH('a) - 1) - 1 then (if s \<noteq> 0 then d else 0) else word_of_int (- sint d))"

section \<open>Element by element\<close>

definition SSE_HELPER :: "('a::len word \<Rightarrow> 'a word \<Rightarrow> 'a word) \<Rightarrow> 'r::len word src \<Rightarrow> 'r word \<Rightarrow> 'r word" where
  "SSE_HELPER F =
    in_place (map (\<lambda>i d s. set_lane i (F (lane i d) (lane i s)) d) [0..<lanes TYPE('a) TYPE('r)])"

type_synonym 'r sse_op = "'r word src \<Rightarrow> 'r word \<Rightarrow> 'r word"

definition helper_paddb :: "'r::len sse_op" where "helper_paddb = SSE_HELPER (FADD :: u8 \<Rightarrow> _)"
definition helper_paddw :: "'r::len sse_op" where "helper_paddw = SSE_HELPER (FADD :: u16 \<Rightarrow> _)"
definition helper_paddl :: "'r::len sse_op" where "helper_paddl = SSE_HELPER (FADD :: u32 \<Rightarrow> _)"
definition helper_paddq :: "'r::len sse_op" where "helper_paddq = SSE_HELPER (FADD :: u64 \<Rightarrow> _)"
definition helper_psubb :: "'r::len sse_op" where "helper_psubb = SSE_HELPER (FSUB :: u8 \<Rightarrow> _)"
definition helper_psubw :: "'r::len sse_op" where "helper_psubw = SSE_HELPER (FSUB :: u16 \<Rightarrow> _)"
definition helper_psubl :: "'r::len sse_op" where "helper_psubl = SSE_HELPER (FSUB :: u32 \<Rightarrow> _)"
definition helper_psubq :: "'r::len sse_op" where "helper_psubq = SSE_HELPER (FSUB :: u64 \<Rightarrow> _)"
definition helper_paddusb :: "'r::len sse_op" where "helper_paddusb = SSE_HELPER FADDUB"
definition helper_paddsb :: "'r::len sse_op" where "helper_paddsb = SSE_HELPER FADDSB"
definition helper_psubusb :: "'r::len sse_op" where "helper_psubusb = SSE_HELPER FSUBUB"
definition helper_psubsb :: "'r::len sse_op" where "helper_psubsb = SSE_HELPER FSUBSB"
definition helper_paddusw :: "'r::len sse_op" where "helper_paddusw = SSE_HELPER FADDUW"
definition helper_paddsw :: "'r::len sse_op" where "helper_paddsw = SSE_HELPER FADDSW"
definition helper_psubusw :: "'r::len sse_op" where "helper_psubusw = SSE_HELPER FSUBUW"
definition helper_psubsw :: "'r::len sse_op" where "helper_psubsw = SSE_HELPER FSUBSW"
definition helper_pminub :: "'r::len sse_op" where "helper_pminub = SSE_HELPER (FMINU :: u8 \<Rightarrow> _)"
definition helper_pmaxub :: "'r::len sse_op" where "helper_pmaxub = SSE_HELPER (FMAXU :: u8 \<Rightarrow> _)"
definition helper_pminsw :: "'r::len sse_op" where "helper_pminsw = SSE_HELPER (FMINS :: u16 \<Rightarrow> _)"
definition helper_pmaxsw :: "'r::len sse_op" where "helper_pmaxsw = SSE_HELPER (FMAXS :: u16 \<Rightarrow> _)"
definition helper_pand :: "'r::len sse_op" where "helper_pand = SSE_HELPER ((AND) :: u64 \<Rightarrow> _)"
definition helper_pandn :: "'r::len sse_op" where "helper_pandn = SSE_HELPER (FANDN :: u64 \<Rightarrow> _)"
definition helper_por :: "'r::len sse_op" where "helper_por = SSE_HELPER ((OR) :: u64 \<Rightarrow> _)"
definition helper_pxor :: "'r::len sse_op" where "helper_pxor = SSE_HELPER ((XOR) :: u64 \<Rightarrow> _)"
definition helper_pcmpgtb :: "'r::len sse_op" where "helper_pcmpgtb = SSE_HELPER (FCMPGT :: u8 \<Rightarrow> _)"
definition helper_pcmpgtw :: "'r::len sse_op" where "helper_pcmpgtw = SSE_HELPER (FCMPGT :: u16 \<Rightarrow> _)"
definition helper_pcmpgtl :: "'r::len sse_op" where "helper_pcmpgtl = SSE_HELPER (FCMPGT :: u32 \<Rightarrow> _)"
definition helper_pcmpgtq :: "'r::len sse_op" where "helper_pcmpgtq = SSE_HELPER (FCMPGT :: u64 \<Rightarrow> _)"
definition helper_pcmpeqb :: "'r::len sse_op" where "helper_pcmpeqb = SSE_HELPER (FCMPEQ :: u8 \<Rightarrow> _)"
definition helper_pcmpeqw :: "'r::len sse_op" where "helper_pcmpeqw = SSE_HELPER (FCMPEQ :: u16 \<Rightarrow> _)"
definition helper_pcmpeql :: "'r::len sse_op" where "helper_pcmpeql = SSE_HELPER (FCMPEQ :: u32 \<Rightarrow> _)"
definition helper_pcmpeqq :: "'r::len sse_op" where "helper_pcmpeqq = SSE_HELPER (FCMPEQ :: u64 \<Rightarrow> _)"
definition helper_pmullw :: "'r::len sse_op" where "helper_pmullw = SSE_HELPER (FMULL :: u16 \<Rightarrow> _)"
definition helper_pmulld :: "'r::len sse_op" where "helper_pmulld = SSE_HELPER (FMULL :: u32 \<Rightarrow> _)"
definition helper_pmulhrw :: "64 sse_op" where "helper_pmulhrw = SSE_HELPER FMULHRW"
definition helper_pmulhuw :: "'r::len sse_op" where "helper_pmulhuw = SSE_HELPER FMULHUW"
definition helper_pmulhw :: "'r::len sse_op" where "helper_pmulhw = SSE_HELPER FMULHW"
definition helper_pmulhrsw :: "'r::len sse_op" where "helper_pmulhrsw = SSE_HELPER FMULHRSW"
definition helper_pavgb :: "'r::len sse_op" where "helper_pavgb = SSE_HELPER (FAVG :: u8 \<Rightarrow> _)"
definition helper_pavgw :: "'r::len sse_op" where "helper_pavgw = SSE_HELPER (FAVG :: u16 \<Rightarrow> _)"
definition helper_pabsb :: "'r::len sse_op" where "helper_pabsb = SSE_HELPER (FABS :: u8 \<Rightarrow> _)"
definition helper_pabsw :: "'r::len sse_op" where "helper_pabsw = SSE_HELPER (FABS :: u16 \<Rightarrow> _)"
definition helper_pabsd :: "'r::len sse_op" where "helper_pabsd = SSE_HELPER (FABS :: u32 \<Rightarrow> _)"
definition helper_psignb :: "'r::len sse_op" where "helper_psignb = SSE_HELPER (FSIGN :: u8 \<Rightarrow> _)"
definition helper_psignw :: "'r::len sse_op" where "helper_psignw = SSE_HELPER (FSIGN :: u16 \<Rightarrow> _)"
definition helper_psignd :: "'r::len sse_op" where "helper_psignd = SSE_HELPER (FSIGN :: u32 \<Rightarrow> _)"
definition helper_pminsb :: "'r::len sse_op" where "helper_pminsb = SSE_HELPER (FMINS :: u8 \<Rightarrow> _)"
definition helper_pminsd :: "'r::len sse_op" where "helper_pminsd = SSE_HELPER (FMINS :: u32 \<Rightarrow> _)"
definition helper_pminuw :: "'r::len sse_op" where "helper_pminuw = SSE_HELPER (FMINU :: u16 \<Rightarrow> _)"
definition helper_pminud :: "'r::len sse_op" where "helper_pminud = SSE_HELPER (FMINU :: u32 \<Rightarrow> _)"
definition helper_pmaxsb :: "'r::len sse_op" where "helper_pmaxsb = SSE_HELPER (FMAXS :: u8 \<Rightarrow> _)"
definition helper_pmaxsd :: "'r::len sse_op" where "helper_pmaxsd = SSE_HELPER (FMAXS :: u32 \<Rightarrow> _)"
definition helper_pmaxuw :: "'r::len sse_op" where "helper_pmaxuw = SSE_HELPER (FMAXU :: u16 \<Rightarrow> _)"
definition helper_pmaxud :: "'r::len sse_op" where "helper_pmaxud = SSE_HELPER (FMAXU :: u32 \<Rightarrow> _)"

lemmas sse_arith_defs = helper_paddusb_def helper_paddsb_def helper_psubusb_def helper_psubsb_def
  helper_paddusw_def helper_paddsw_def helper_psubusw_def helper_psubsw_def

section \<open>Shifts\<close>

definition shift_lanes ::
  "u64 \<Rightarrow> (nat \<Rightarrow> 'a::len word \<Rightarrow> 'a word) \<Rightarrow> 'r::len word src \<Rightarrow> 'r word \<Rightarrow> 'r word" where
  "shift_lanes most f s d =
    (if lane 0 (src_of s d) > most then 0
     else (let shift = unat (lane 0 (src_of s d) :: u8)
           in in_place (map (\<lambda>i d _. set_lane i (f shift (lane i d)) d) [0..<lanes TYPE('a) TYPE('r)]) s d))"

definition shift_right_lanes :: "'a::len itself \<Rightarrow> u64 \<Rightarrow> 'r::len word src \<Rightarrow> 'r word \<Rightarrow> 'r word" where
  "shift_right_lanes _ most s d =
    (let shift = (if lane 0 (src_of s d) > most then unat most else unat (lane 0 (src_of s d) :: u8))
     in in_place (map (\<lambda>i d _. set_lane i (signed_drop_bit shift (lane i d) :: 'a word) d)
          [0..<lanes TYPE('a) TYPE('r)]) s d)"

definition helper_psrlw :: "'r::len sse_op" where "helper_psrlw = shift_lanes 15 (drop_bit :: _ \<Rightarrow> u16 \<Rightarrow> _)"
definition helper_psraw :: "'r::len sse_op" where "helper_psraw = shift_right_lanes TYPE(16) 15"
definition helper_psllw :: "'r::len sse_op" where "helper_psllw = shift_lanes 15 (push_bit :: _ \<Rightarrow> u16 \<Rightarrow> _)"
definition helper_psrld :: "'r::len sse_op" where "helper_psrld = shift_lanes 31 (drop_bit :: _ \<Rightarrow> u32 \<Rightarrow> _)"
definition helper_psrad :: "'r::len sse_op" where "helper_psrad = shift_right_lanes TYPE(32) 31"
definition helper_pslld :: "'r::len sse_op" where "helper_pslld = shift_lanes 31 (push_bit :: _ \<Rightarrow> u32 \<Rightarrow> _)"
definition helper_psrlq :: "'r::len sse_op" where "helper_psrlq = shift_lanes 63 (drop_bit :: _ \<Rightarrow> u64 \<Rightarrow> _)"
definition helper_psllq :: "'r::len sse_op" where "helper_psllq = shift_lanes 63 (push_bit :: _ \<Rightarrow> u64 \<Rightarrow> _)"

text \<open>
  The shifts of a whole register by bytes.  The count is an \<open>int\<close>: a negative one makes the loops
  read outside the register (\<open>None\<close>).
\<close>

definition byte_shift :: "XMMReg src \<Rightarrow> XMMReg \<Rightarrow> nat option" where
  "byte_shift s d =
    (let shift = sint (lane 0 (src_of s d) :: u32)
     in if shift > 16 then Some 16 else if shift < 0 then None else Some (nat shift))"

definition helper_psrldq :: "XMMReg src \<Rightarrow> XMMReg \<Rightarrow> XMMReg option" where
  "helper_psrldq s d = map_option (\<lambda>shift.
     in_place (map (\<lambda>i d _. set_lane i (lane (i + shift) d :: u8) d) [0..<16 - shift] @
       map (\<lambda>i d _. set_lane i (0 :: u8) d) [16 - shift..<16]) s d) (byte_shift s d)"

definition helper_pslldq :: "XMMReg src \<Rightarrow> XMMReg \<Rightarrow> XMMReg option" where
  "helper_pslldq s d = map_option (\<lambda>shift.
     in_place (map (\<lambda>i d _. set_lane i (lane (i - shift) d :: u8) d) (rev [shift..<16]) @
       map (\<lambda>i d _. set_lane i (0 :: u8) d) [0..<shift]) s d) (byte_shift s d)"

section \<open>Sums of products and differences\<close>

definition helper_pmuludq :: "'r::len sse_op" where
  "helper_pmuludq = in_place (map (\<lambda>i d s.
     set_lane i (ucast (lane (2 * i) s :: u32) * ucast (lane (2 * i) d :: u32) :: u64) d) [0..<lanes TYPE(64) TYPE('r)])"

definition helper_pmuldq :: "128 sse_op" where
  "helper_pmuldq = in_place (map (\<lambda>i d s.
     set_lane i (scast (lane (2 * i) d :: u32) * scast (lane (2 * i) s :: u32) :: u64) d) [0..<2])"

definition helper_pmaddwd :: "'r::len sse_op" where
  "helper_pmaddwd = in_place (map (\<lambda>i d s. set_lane i (word_of_int (
     sint (lane (2 * i) s :: u16) * sint (lane (2 * i) d :: u16) +
     sint (lane (2 * i + 1) s :: u16) * sint (lane (2 * i + 1) d :: u16)) :: u32) d) [0..<lanes TYPE(32) TYPE('r)])"

definition helper_pmaddubsw :: "'r::len sse_op" where
  "helper_pmaddubsw = in_place (map (\<lambda>i d s. set_lane i (word_of_int (satsw (
     sint (lane (2 * i) s :: u8) * uint (lane (2 * i) d :: u8) +
     sint (lane (2 * i + 1) s :: u8) * uint (lane (2 * i + 1) d :: u8))) :: u16) d) [0..<lanes TYPE(16) TYPE('r)])"

definition abs1 :: "int \<Rightarrow> int" where "abs1 a = (if a < 0 then - a else a)"

definition helper_psadbw :: "'r::len sse_op" where
  "helper_psadbw = in_place (map (\<lambda>i d s. set_lane i (ucast (
     fold (\<lambda>j val. val + word_of_int (abs1 (uint (lane (8 * i + j) d :: u8) - uint (lane (8 * i + j) s :: u8)))) [0..<8]
       (0 :: u32)) :: u64) d) [0..<lanes TYPE(64) TYPE('r)])"

text \<open>The horizontal operations write the elements of the lower half, then those of the upper half.\<close>

definition horizontal :: "('a::len word \<Rightarrow> 'a word \<Rightarrow> 'a word) \<Rightarrow> 'r::len word src \<Rightarrow> 'r word \<Rightarrow> 'r word" where
  "horizontal F =
    (let h = lanes TYPE('a) TYPE('r) div 2
     in in_place (map (\<lambda>i d s. set_lane i (F (lane (2 * i) d) (lane (2 * i + 1) d)) d) [0..<h] @
          map (\<lambda>i d s. set_lane (h + i) (F (lane (2 * i) s) (lane (2 * i + 1) s)) d) [0..<h]))"

definition helper_phaddw :: "'r::len sse_op" where "helper_phaddw = horizontal (FADD :: u16 \<Rightarrow> _)"
definition helper_phaddd :: "'r::len sse_op" where "helper_phaddd = horizontal (FADD :: u32 \<Rightarrow> _)"
definition helper_phaddsw :: "'r::len sse_op" where "helper_phaddsw = horizontal FADDSW"
definition helper_phsubw :: "'r::len sse_op" where "helper_phsubw = horizontal (FSUB :: u16 \<Rightarrow> _)"
definition helper_phsubd :: "'r::len sse_op" where "helper_phsubd = horizontal (FSUB :: u32 \<Rightarrow> _)"
definition helper_phsubsw :: "'r::len sse_op" where "helper_phsubsw = horizontal FSUBSW"

section \<open>Moves and permutations\<close>

definition helper_movl_mm_T0 :: "'r::len word \<Rightarrow> u32 \<Rightarrow> 'r word" where
  "helper_movl_mm_T0 d val =
    in_place ([\<lambda>d _. set_lane 0 val d, \<lambda>d _. set_lane 1 (0 :: u32) d] @
      (if LENGTH('r) = 128 then [\<lambda>d _. set_lane 1 (0 :: u64) d] else [])) Same d"

definition helper_movq_mm_T0 :: "'r::len word \<Rightarrow> u64 \<Rightarrow> 'r word" where
  "helper_movq_mm_T0 d val =
    in_place ([\<lambda>d _. set_lane 0 val d] @ (if LENGTH('r) = 128 then [\<lambda>d _. set_lane 1 (0 :: u64) d] else [])) Same d"

text \<open>Field \<open>k\<close> of two bits of the immediate operand.\<close>

definition sel2 :: "int \<Rightarrow> nat \<Rightarrow> nat" where "sel2 order k = nat (drop_bit (2 * k) order AND 3)"

definition helper_pshufw :: "MMXReg src \<Rightarrow> int \<Rightarrow> MMXReg \<Rightarrow> MMXReg" where
  "helper_pshufw s order d = of_lanes (map (\<lambda>k. lane (sel2 order k) (src_of s d) :: u16) [0, 1, 2, 3])"

definition helper_shufps :: "XMMReg src \<Rightarrow> int \<Rightarrow> XMMReg \<Rightarrow> XMMReg" where
  "helper_shufps s order d = of_lanes
    [lane (sel2 order 0) d :: u32, lane (sel2 order 1) d, lane (sel2 order 2) (src_of s d), lane (sel2 order 3) (src_of s d)]"

definition helper_shufpd :: "XMMReg src \<Rightarrow> int \<Rightarrow> XMMReg \<Rightarrow> XMMReg" where
  "helper_shufpd s order d = of_lanes
    [lane (nat (order AND 1)) d :: u64, lane (nat (drop_bit 1 order AND 1)) (src_of s d)]"

definition helper_pshufd :: "XMMReg src \<Rightarrow> int \<Rightarrow> XMMReg \<Rightarrow> XMMReg" where
  "helper_pshufd s order d = of_lanes (map (\<lambda>k. lane (sel2 order k) (src_of s d) :: u32) [0, 1, 2, 3])"

definition helper_pshuflw :: "XMMReg src \<Rightarrow> int \<Rightarrow> XMMReg \<Rightarrow> XMMReg" where
  "helper_pshuflw s order d =
    set_lane 1 (lane 1 (src_of s d) :: u64) (of_lanes (map (\<lambda>k. lane (sel2 order k) (src_of s d) :: u16) [0, 1, 2, 3]))"

definition helper_pshufhw :: "XMMReg src \<Rightarrow> int \<Rightarrow> XMMReg \<Rightarrow> XMMReg" where
  "helper_pshufhw s order d = of_lanes
    (map (\<lambda>k. lane k (src_of s d) :: u16) [0, 1, 2, 3] @
     map (\<lambda>k. lane (4 + sel2 order k) (src_of s d)) [0, 1, 2, 3])"

definition helper_pshufb :: "'r::len sse_op" where
  "helper_pshufb s d = of_lanes (map (\<lambda>i.
     (let c = lane i (src_of s d) :: u8
      in if c AND 0x80 \<noteq> 0 then 0 else lane (unat (c AND of_nat (lanes TYPE(8) TYPE('r) - 1))) d :: u8))
     [0..<lanes TYPE(8) TYPE('r)])"

definition helper_pswapd :: "MMXReg src \<Rightarrow> MMXReg \<Rightarrow> MMXReg" where
  "helper_pswapd s d = of_lanes [lane 1 (src_of s d) :: u32, lane 0 (src_of s d)]"

text \<open>\<open>SHR\<close> of the source is a macro over 64-bit values and signed counts.\<close>

definition SHR :: "u64 \<Rightarrow> int \<Rightarrow> u64" where
  "SHR v i = (if i < 64 \<and> i > -64 then if i > 0 then drop_bit (nat i) v else push_bit (nat (- i)) v else 0)"

definition helper_palignr_mmx :: "MMXReg src \<Rightarrow> int \<Rightarrow> MMXReg \<Rightarrow> MMXReg" where
  "helper_palignr_mmx s shift d =
    (if shift \<ge> 16 then 0 else SHR (src_of s d) (shift * 8) OR SHR d (shift * 8 - 64))"

definition helper_palignr_xmm :: "XMMReg src \<Rightarrow> int \<Rightarrow> XMMReg \<Rightarrow> XMMReg" where
  "helper_palignr_xmm s shift d =
    (if shift \<ge> 32 then 0
     else (let n = shift * 8; s0 = lane 0 (src_of s d); s1 = lane 1 (src_of s d); d0 = lane 0 d; d1 = lane 1 d
           in of_lanes [SHR s0 n OR SHR s1 (n - 64) OR SHR d0 (n - 128) OR SHR d1 (n - 192),
                SHR s0 (n + 64) OR SHR s1 n OR SHR d0 (n - 64) OR SHR d1 (n - 128)]))"

section \<open>Packing and unpacking\<close>

definition pack_lanes :: "('a::len word \<Rightarrow> 'b::len word) \<Rightarrow> 'r::len word src \<Rightarrow> 'r word \<Rightarrow> 'r word" where
  "pack_lanes f s d =
    (let n = lanes TYPE('a) TYPE('r)
     in of_lanes (map (\<lambda>i. f (lane i d)) [0..<n] @ map (\<lambda>i. f (lane i (src_of s d))) [0..<n]))"

definition helper_packsswb :: "'r::len sse_op" where
  "helper_packsswb = pack_lanes (\<lambda>w :: u16. word_of_int (satsb (sint w)) :: u8)"
definition helper_packuswb :: "'r::len sse_op" where
  "helper_packuswb = pack_lanes (\<lambda>w :: u16. word_of_int (satub (sint w)) :: u8)"
definition helper_packssdw :: "'r::len sse_op" where
  "helper_packssdw = pack_lanes (\<lambda>w :: u32. word_of_int (satsw (sint w)) :: u16)"

text \<open>\<open>PACKUSDW\<close> alone assigns in place.\<close>

definition helper_packusdw :: "128 sse_op" where
  "helper_packusdw = in_place
    (map (\<lambda>i d s. set_lane i (word_of_int (satuw (sint (lane i d :: u32))) :: u16) d) [0..<4] @
     map (\<lambda>i d s. set_lane (4 + i) (word_of_int (satuw (sint (lane i s :: u32))) :: u16) d) [0..<4])"

definition unpck :: "'a::len itself \<Rightarrow> nat \<Rightarrow> 'r::len word src \<Rightarrow> 'r word \<Rightarrow> 'r word" where
  "unpck _ bas s d =
    (let h = lanes TYPE('a) TYPE('r) div 2
     in of_lanes (concat (map (\<lambda>i. [lane (bas * h + i) d :: 'a word, lane (bas * h + i) (src_of s d)]) [0..<h])))"

definition helper_punpcklbw :: "'r::len sse_op" where "helper_punpcklbw = unpck TYPE(8) 0"
definition helper_punpckhbw :: "'r::len sse_op" where "helper_punpckhbw = unpck TYPE(8) 1"
definition helper_punpcklwd :: "'r::len sse_op" where "helper_punpcklwd = unpck TYPE(16) 0"
definition helper_punpckhwd :: "'r::len sse_op" where "helper_punpckhwd = unpck TYPE(16) 1"
definition helper_punpckldq :: "'r::len sse_op" where "helper_punpckldq = unpck TYPE(32) 0"
definition helper_punpckhdq :: "'r::len sse_op" where "helper_punpckhdq = unpck TYPE(32) 1"
definition helper_punpcklqdq :: "128 sse_op" where "helper_punpcklqdq = unpck TYPE(64) 0"
definition helper_punpckhqdq :: "128 sse_op" where "helper_punpckhqdq = unpck TYPE(64) 1"

text \<open>The widening moves assign in place.\<close>

definition SSE_HELPER_F :: "('a::len word \<Rightarrow> 'b::len word) \<Rightarrow> 128 sse_op" where
  "SSE_HELPER_F f = in_place (map (\<lambda>i d s. set_lane i (f (lane i s)) d) [0..<lanes TYPE('b) TYPE(128)])"

definition helper_pmovsxbw :: "128 sse_op" where "helper_pmovsxbw = SSE_HELPER_F (scast :: u8 \<Rightarrow> u16)"
definition helper_pmovsxbd :: "128 sse_op" where "helper_pmovsxbd = SSE_HELPER_F (scast :: u8 \<Rightarrow> u32)"
definition helper_pmovsxbq :: "128 sse_op" where "helper_pmovsxbq = SSE_HELPER_F (scast :: u8 \<Rightarrow> u64)"
definition helper_pmovsxwd :: "128 sse_op" where "helper_pmovsxwd = SSE_HELPER_F (scast :: u16 \<Rightarrow> u32)"
definition helper_pmovsxwq :: "128 sse_op" where "helper_pmovsxwq = SSE_HELPER_F (scast :: u16 \<Rightarrow> u64)"
definition helper_pmovsxdq :: "128 sse_op" where "helper_pmovsxdq = SSE_HELPER_F (scast :: u32 \<Rightarrow> u64)"
definition helper_pmovzxbw :: "128 sse_op" where "helper_pmovzxbw = SSE_HELPER_F (ucast :: u8 \<Rightarrow> u16)"
definition helper_pmovzxbd :: "128 sse_op" where "helper_pmovzxbd = SSE_HELPER_F (ucast :: u8 \<Rightarrow> u32)"
definition helper_pmovzxbq :: "128 sse_op" where "helper_pmovzxbq = SSE_HELPER_F (ucast :: u8 \<Rightarrow> u64)"
definition helper_pmovzxwd :: "128 sse_op" where "helper_pmovzxwd = SSE_HELPER_F (ucast :: u16 \<Rightarrow> u32)"
definition helper_pmovzxwq :: "128 sse_op" where "helper_pmovzxwq = SSE_HELPER_F (ucast :: u16 \<Rightarrow> u64)"
definition helper_pmovzxdq :: "128 sse_op" where "helper_pmovzxdq = SSE_HELPER_F (ucast :: u32 \<Rightarrow> u64)"

section \<open>Blends, masks and extraction\<close>

definition SSE_HELPER_V :: "'a::len itself \<Rightarrow> XMMReg \<Rightarrow> 128 sse_op" where
  "SSE_HELPER_V _ XMM0 = in_place (map (\<lambda>i d s.
     set_lane i (if bit (lane i XMM0 :: 'a word) (LENGTH('a) - 1) then lane i s :: 'a word else lane i d) d)
     [0..<lanes TYPE('a) TYPE(128)])"

definition helper_pblendvb :: "XMMReg \<Rightarrow> 128 sse_op" where "helper_pblendvb = SSE_HELPER_V TYPE(8)"
definition helper_blendvps :: "XMMReg \<Rightarrow> 128 sse_op" where "helper_blendvps = SSE_HELPER_V TYPE(32)"
definition helper_blendvpd :: "XMMReg \<Rightarrow> 128 sse_op" where "helper_blendvpd = SSE_HELPER_V TYPE(64)"

definition SSE_HELPER_I :: "'a::len itself \<Rightarrow> u32 \<Rightarrow> 128 sse_op" where
  "SSE_HELPER_I _ imm = in_place (map (\<lambda>i d s.
     set_lane i (if bit imm i then lane i s :: 'a word else lane i d) d) [0..<lanes TYPE('a) TYPE(128)])"

definition helper_blendps :: "u32 \<Rightarrow> 128 sse_op" where "helper_blendps = SSE_HELPER_I TYPE(32)"
definition helper_blendpd :: "u32 \<Rightarrow> 128 sse_op" where "helper_blendpd = SSE_HELPER_I TYPE(64)"
definition helper_pblendw :: "u32 \<Rightarrow> 128 sse_op" where "helper_pblendw = SSE_HELPER_I TYPE(16)"

definition helper_ptest :: "XMMReg src \<Rightarrow> XMMReg \<Rightarrow> 'm CPUX86State_scheme \<Rightarrow> 'm CPUX86State_scheme" where
  "helper_ptest s d env =
    (let q = (\<lambda>i. lane i (src_of s d) :: u64);
         zf = (q 0 AND lane 0 d) OR (q 1 AND lane 1 d);
         cf = (q 0 AND NOT (lane 0 d)) OR (q 1 AND NOT (lane 1 d))
     in env\<lparr>cc_src := (if zf \<noteq> 0 then 0 else CC_Z) OR (if cf \<noteq> 0 then 0 else CC_C)\<rparr>)"

definition min_index :: "XMMReg \<Rightarrow> nat" where
  "min_index s = fold (\<lambda>k idx. if (lane k s :: u16) < lane idx s then k else idx) [1..<8] 0"

text \<open>The minimum is read again from the source after the destination has been cleared.\<close>

definition helper_phminposuw :: "128 sse_op" where
  "helper_phminposuw s d =
    (let idx = min_index (src_of s d)
     in in_place [\<lambda>d s. set_lane 1 (0 :: u64) d, \<lambda>d s. set_lane 1 (0 :: u32) d,
          \<lambda>d s. set_lane 1 (of_nat idx :: u16) d, \<lambda>d s. set_lane 0 (lane idx s :: u16) d] s d)"

definition helper_mpsadbw :: "u32 \<Rightarrow> 128 sse_op" where
  "helper_mpsadbw offset s d =
    (let s0 = unat (push_bit 2 (offset AND 3)); d0 = unat (offset AND 4)
     in of_lanes (map (\<lambda>i. fold (\<lambda>k r. r + word_of_int (abs1
          (uint (lane (d0 + i + k) d :: u8) - uint (lane (s0 + k) (src_of s d) :: u8)))) [0..<4] (0 :: u16)) [0..<8]))"

definition helper_movmskps :: "XMMReg \<Rightarrow> u32" where
  "helper_movmskps s = (let b = (\<lambda>i. drop_bit 31 (lane i s :: u32))
    in b 0 OR push_bit 1 (b 1) OR push_bit 2 (b 2) OR push_bit 3 (b 3))"

definition helper_movmskpd :: "XMMReg \<Rightarrow> u32" where
  "helper_movmskpd s = drop_bit 31 (lane 1 s :: u32) OR push_bit 1 (drop_bit 31 (lane 3 s :: u32))"

definition helper_pmovmskb :: "'r::len word \<Rightarrow> u32" where
  "helper_pmovmskb s = fold (\<lambda>i val. val OR
     (let b = ucast (lane i s :: u8) in if i < 7 then drop_bit (7 - i) b AND push_bit i 1 else push_bit (i - 7) b AND push_bit i 1))
     [0..<lanes TYPE(8) TYPE('r)] 0"

text \<open>
  The bit field instructions of SSE4a.  A shift by 64 or more, undefined in C, shifts everything
  out here.
\<close>

definition field_mask :: "nat \<Rightarrow> u64" where "field_mask len = (if len = 0 then - 1 else push_bit len 1 - 1)"

definition helper_extrq :: "u64 \<Rightarrow> nat \<Rightarrow> nat \<Rightarrow> u64" where
  "helper_extrq src shift len = drop_bit shift src AND field_mask len"

definition helper_insertq :: "u64 \<Rightarrow> nat \<Rightarrow> nat \<Rightarrow> u64" where
  "helper_insertq src shift len =
    (src AND NOT (push_bit shift (field_mask len))) OR push_bit shift (src AND field_mask len)"

definition helper_extrq_r :: "128 sse_op" where
  "helper_extrq_r s d = (let s = src_of s d
    in set_lane 0 (helper_extrq (lane 0 d) (unat (lane 1 s :: u8)) (unat (lane 0 s :: u8))) d)"

definition helper_extrq_i :: "XMMReg \<Rightarrow> nat \<Rightarrow> nat \<Rightarrow> XMMReg" where
  "helper_extrq_i d index len = set_lane 0 (helper_extrq (lane 0 d) index len) d"

definition helper_insertq_r :: "128 sse_op" where
  "helper_insertq_r s d = (let s = src_of s d
    in set_lane 0 (helper_insertq (lane 0 s) (unat (lane 9 s :: u8)) (unat (lane 8 s :: u8))) d)"

definition helper_insertq_i :: "XMMReg \<Rightarrow> nat \<Rightarrow> nat \<Rightarrow> XMMReg" where
  "helper_insertq_i d index len = set_lane 0 (helper_insertq (lane 0 d) index len) d"

text \<open>The masked store writes the marked bytes one after the other; a fault ends it.\<close>

fun maskmov_loop :: "'m cpu_bus \<Rightarrow> 'r::len word \<Rightarrow> 'r word \<Rightarrow> u64 \<Rightarrow> nat list \<Rightarrow> (unit, 'm) helper" where
  "maskmov_loop B d s a0 [] env = Done () env"
| "maskmov_loop B d s a0 (i # is) env =
    (if (lane i s :: u8) AND 0x80 \<noteq> 0
     then bindx (cpu_stb_data B (a0 + of_nat i) (lane i d) env) (\<lambda>_. maskmov_loop B d s a0 is)
     else maskmov_loop B d s a0 is env)"

definition helper_maskmov :: "'m cpu_bus \<Rightarrow> 'r::len word src \<Rightarrow> 'r word \<Rightarrow> u64 \<Rightarrow> (unit, 'm) helper" where
  "helper_maskmov B s d a0 = maskmov_loop B d (src_of s d) a0 [0..<lanes TYPE(8) TYPE('r)]"

section \<open>Exactness of the element operations\<close>

lemma SSE_HELPER_lane:
  fixes F :: "'a::len word \<Rightarrow> 'a word \<Rightarrow> 'a word" and d :: "'r::len word"
  assumes "i < lanes TYPE('a) TYPE('r)"
  shows "lane i (SSE_HELPER F s d) = F (lane i d) (lane i (src_of s d))"
  unfolding SSE_HELPER_def using in_place_elementwise [where F = "\<lambda>_. F" and i = i and s = s and d = d] assms by simp

lemma sat_range:
  "satub x = min 255 (max 0 x)" "satuw x = min 65535 (max 0 x)" "satsb x = min 127 (max (-128) x)" "satsw x = min 32767 (max (-32768) x)"
  by (simp_all add: satub_def satuw_def satsb_def satsw_def)

lemma uint_of_small: "0 \<le> x \<Longrightarrow> x < 2 ^ LENGTH('a) \<Longrightarrow> uint (word_of_int x :: 'a::len word) = x"
  by (simp add: uint_word_of_int take_bit_int_eq_self)

lemma sint_of_small:
  assumes "- (2 ^ (LENGTH('a) - 1)) \<le> x" "x < 2 ^ (LENGTH('a) - 1)"
  shows "sint (word_of_int x :: 'a::len word) = x"
  unfolding sint_sbintrunc' using assms by (intro signed_take_bit_int_eq_self) auto

lemma word8_bounds: "0 \<le> uint (w :: u8)" "uint (w :: u8) < 256" "-128 \<le> sint (w :: u8)" "sint (w :: u8) < 128"
  using sint_ge [of w] sint_lt [of w] uint_lt2p [of w] by simp_all

lemma uint_diff_bound: "uint (a :: 'a::len word) - uint (b :: 'a word) < 2 ^ LENGTH('a)"
  using uint_lt2p [of a] uint_ge_0 [of b] by linarith

lemma word16_bounds: "0 \<le> uint (w :: u16)" "uint (w :: u16) < 65536" "-32768 \<le> sint (w :: u16)" "sint (w :: u16) < 32768"
  using sint_ge [of w] sint_lt [of w] uint_lt2p [of w] by simp_all

lemma SSE_HELPER_elems:
  fixes F :: "'a::len word \<Rightarrow> 'a word \<Rightarrow> 'a word" and d :: "'r::len word"
  shows "elems (SSE_HELPER F s d) = map2 F (elems d) (elems (src_of s d))"
  by (rule nth_equalityI) (simp_all add: SSE_HELPER_lane)

lemma SSE_HELPER_map:
  fixes F :: "'a::len word \<Rightarrow> 'a word \<Rightarrow> 'a word" and d :: "'r::len word"
  assumes "\<And>a b. g (F a b) = h a b"
  shows "map g (elems (SSE_HELPER F s d)) = map2 h (elems d) (elems (src_of s d))"
  unfolding SSE_HELPER_elems by (simp add: assms split_def comp_def)

text \<open>
  C16: the saturating operations are exact up to the bounds of the element: each element of the
  result is the mathematical sum or difference of the operands' elements, replaced by the nearest
  bound when it is out of range, whether or not the source is the destination itself.
\<close>
theorem saturating_exact:
  fixes d :: "'r::len word"
  shows "map uint (elems (helper_paddusb s d) :: u8 list) =
      map2 (\<lambda>a b. min 255 (uint (a :: u8) + uint (b :: u8))) (elems d) (elems (src_of s d)) \<and>
    map uint (elems (helper_psubusb s d) :: u8 list) =
      map2 (\<lambda>a b. max 0 (uint (a :: u8) - uint (b :: u8))) (elems d) (elems (src_of s d)) \<and>
    map sint (elems (helper_paddsb s d) :: u8 list) =
      map2 (\<lambda>a b. min 127 (max (-128) (sint (a :: u8) + sint (b :: u8)))) (elems d) (elems (src_of s d)) \<and>
    map sint (elems (helper_psubsb s d) :: u8 list) =
      map2 (\<lambda>a b. min 127 (max (-128) (sint (a :: u8) - sint (b :: u8)))) (elems d) (elems (src_of s d)) \<and>
    map uint (elems (helper_paddusw s d) :: u16 list) =
      map2 (\<lambda>a b. min 65535 (uint (a :: u16) + uint (b :: u16))) (elems d) (elems (src_of s d)) \<and>
    map uint (elems (helper_psubusw s d) :: u16 list) =
      map2 (\<lambda>a b. max 0 (uint (a :: u16) - uint (b :: u16))) (elems d) (elems (src_of s d)) \<and>
    map sint (elems (helper_paddsw s d) :: u16 list) =
      map2 (\<lambda>a b. min 32767 (max (-32768) (sint (a :: u16) + sint (b :: u16)))) (elems d) (elems (src_of s d)) \<and>
    map sint (elems (helper_psubsw s d) :: u16 list) =
      map2 (\<lambda>a b. min 32767 (max (-32768) (sint (a :: u16) - sint (b :: u16)))) (elems d) (elems (src_of s d))"
proof -
  have "uint (FADDUB a b) = min 255 (uint a + uint b)" "uint (FSUBUB a b) = max 0 (uint a - uint b)"
    "sint (FADDSB a b) = min 127 (max (-128) (sint a + sint b))"
    "sint (FSUBSB a b) = min 127 (max (-128) (sint a - sint b))" for a b :: u8
    using word8_bounds [of a] word8_bounds [of b] uint_diff_bound [of a b]
    by (simp_all add: FADDUB_def FSUBUB_def FADDSB_def FSUBSB_def sat_range uint_of_small sint_of_small min_def max_def)
  moreover have "uint (FADDUW a b) = min 65535 (uint a + uint b)" "uint (FSUBUW a b) = max 0 (uint a - uint b)"
    "sint (FADDSW a b) = min 32767 (max (-32768) (sint a + sint b))"
    "sint (FSUBSW a b) = min 32767 (max (-32768) (sint a - sint b))" for a b :: u16
    using word16_bounds [of a] word16_bounds [of b] uint_diff_bound [of a b]
    by (simp_all add: FADDUW_def FSUBUW_def FADDSW_def FSUBSW_def sat_range uint_of_small sint_of_small min_def max_def)
  ultimately show ?thesis unfolding sse_arith_defs by (intro conjI SSE_HELPER_map)
qed

lemma uint_FMULHUW: "uint (FMULHUW a b) = uint a * uint b div 65536"
proof -
  define p where "p = uint a * uint b"
  have "uint a * uint b \<le> 65535 * 65535"
    by (rule mult_mono) (use word16_bounds [of a] word16_bounds [of b] in simp_all)
  then have p: "0 \<le> p" "p < 2 ^ 32" by (simp_all add: p_def)
  have "(p - 2 ^ 32) div 65536 mod 65536 = p div 65536"
  proof -
    have "p - 2 ^ 32 = p + (- 65536) * 65536" by simp
    then have "(p - 2 ^ 32) div 65536 = - 65536 + p div 65536" by (simp only: div_mult_self2)
    moreover have "(- 65536 + x) mod 65536 = x mod 65536" for x :: int
      using mod_mult_self1 [of x "-1" 65536] by (simp add: algebra_simps)
    ultimately show ?thesis using p by simp
  qed
  moreover have "(p + 2 ^ 31) mod 2 ^ 32 = (if p < 2 ^ 31 then p + 2 ^ 31 else p - 2 ^ 31)"
    using p mod_add_self2 [of "p - 2 ^ 31" "2 ^ 32"] by (auto simp: add.commute mod_pos_pos_trivial)
  ultimately show ?thesis
    using p by (simp add: FMULHUW_def int_word_sint uint_word_of_int drop_bit_eq_div flip: p_def)
qed

lemma sint_product_bound: "\<bar>sint (a :: u16) * sint (b :: u16)\<bar> \<le> 2 ^ 30"
proof -
  have "\<bar>sint a\<bar> * \<bar>sint b\<bar> \<le> 2 ^ 15 * 2 ^ 15"
    by (rule mult_mono) (use word16_bounds [of a] word16_bounds [of b] in simp_all)
  then show ?thesis by (simp add: abs_mult)
qed

lemma sint_FMULHW: "sint (FMULHW a b) = sint a * sint b div 65536"
  using sint_product_bound [of a b] by (simp add: FMULHW_def sint_of_small drop_bit_eq_div)

lemma uint_FMULL: "uint (FMULL a b) = uint a * uint b mod 65536" "uint (FMULL a b) = sint a * sint b mod 65536"
  for a b :: u16
proof -
  show "uint (FMULL a b) = uint a * uint b mod 65536" by (simp add: FMULL_def uint_word_ariths)
  have "uint (word_of_int (sint a * sint b) :: u16) = sint a * sint b mod 65536"
    unfolding uint_word_of_int by simp
  then show "uint (FMULL a b) = sint a * sint b mod 65536" by (simp add: FMULL_def)
qed

text \<open>
  the two halves of a product.  The high halves that \<open>PMULHUW\<close> and \<open>PMULHW\<close> compute and the low
  half of \<open>PMULLW\<close> together are the exact unsigned and signed product of each pair of elements,
  although the unsigned product is computed in a signed C integer that it overflows.
\<close>
lemma product_halves:
  fixes d :: "'r::len word"
  shows "map2 (\<lambda>hi lo. uint (hi :: u16) * 65536 + uint (lo :: u16)) (elems (helper_pmulhuw s d)) (elems (helper_pmullw s d)) =
      map2 (\<lambda>a b. uint (a :: u16) * uint (b :: u16)) (elems d) (elems (src_of s d)) \<and>
    map2 (\<lambda>hi lo. sint (hi :: u16) * 65536 + uint (lo :: u16)) (elems (helper_pmulhw s d)) (elems (helper_pmullw s d)) =
      map2 (\<lambda>a b. sint (a :: u16) * sint (b :: u16)) (elems d) (elems (src_of s d))"
proof
  show "map2 (\<lambda>hi lo. uint (hi :: u16) * 65536 + uint (lo :: u16)) (elems (helper_pmulhuw s d)) (elems (helper_pmullw s d)) =
      map2 (\<lambda>a b. uint (a :: u16) * uint (b :: u16)) (elems d) (elems (src_of s d))"
    by (rule nth_equalityI) (simp_all add: helper_pmulhuw_def helper_pmullw_def SSE_HELPER_lane uint_FMULHUW uint_FMULL(1))
  show "map2 (\<lambda>hi lo. sint (hi :: u16) * 65536 + uint (lo :: u16)) (elems (helper_pmulhw s d)) (elems (helper_pmullw s d)) =
      map2 (\<lambda>a b. sint (a :: u16) * sint (b :: u16)) (elems d) (elems (src_of s d))"
    by (rule nth_equalityI) (simp_all add: helper_pmulhw_def helper_pmullw_def SSE_HELPER_lane sint_FMULHW uint_FMULL(2))
qed

text \<open>Neighbouring elements.\<close>

fun pairs :: "('a \<Rightarrow> 'a \<Rightarrow> 'b) \<Rightarrow> 'a list \<Rightarrow> 'b list" where
  "pairs f (x # y # zs) = f x y # pairs f zs"
| "pairs f zs = []"

lemma length_pairs [simp]: "length (pairs f xs) = length xs div 2"
  by (induction f xs rule: pairs.induct) auto

lemma nth_pairs: "i < length xs div 2 \<Longrightarrow> pairs f xs ! i = f (xs ! (2 * i)) (xs ! (2 * i + 1))"
proof (induction f xs arbitrary: i rule: pairs.induct)
  case (1 f x y zs)
  then show ?case by (cases i) auto
qed auto

lemma horizontal_elems:
  fixes F :: "'a::len word \<Rightarrow> 'a word \<Rightarrow> 'a word" and d s :: "'r::len word"
  assumes "even (lanes TYPE('a) TYPE('r))"
  shows "elems (horizontal F (Other s) d) = pairs F (elems d) @ pairs F (elems s)"
proof (rule nth_equalityI)
  define h where "h = lanes TYPE('a) TYPE('r) div 2"
  have n: "lanes TYPE('a) TYPE('r) = h + h" using assms unfolding h_def by (metis even_two_times_div_two mult_2)
  let ?low = "fold (\<lambda>i t. set_lane i (F (lane (2 * i) t) (lane (2 * i + 1) t)) t) [0..<h] d"
  have low: "lane j ?low = (if j < h then F (lane (2 * j) d) (lane (2 * j + 1) d) else lane j d)" for j
    using fold_set_lane [where k = 0 and n = h and j = j and d = d and G = "\<lambda>i t. F (lane (2 * i) t) (lane (2 * i + 1) t)"] n
    by simp
  have high: "lane j (fold (\<lambda>i t. set_lane (h + i) (F (lane (2 * i) s) (lane (2 * i + 1) s)) t) [0..<h] ?low) =
      (if h \<le> j \<and> j < h + h then F (lane (2 * (j - h)) s) (lane (2 * (j - h) + 1) s) else lane j ?low)" for j
    by (rule fold_set_lane) (use n in simp_all)
  have eq: "horizontal F (Other s) d = fold (\<lambda>i t. set_lane (h + i) (F (lane (2 * i) s) (lane (2 * i + 1) s)) t) [0..<h] ?low"
    by (simp add: horizontal_def Let_def in_place_map flip: h_def)
  show "length (elems (horizontal F (Other s) d) :: 'a word list) = length (pairs F (elems d) @ pairs F (elems s))"
    using n by simp
  fix i assume "i < length (elems (horizontal F (Other s) d) :: 'a word list)"
  then have i: "i < h + h" using n by simp
  have "lane i (horizontal F (Other s) d) =
      (if i < h then F (lane (2 * i) d) (lane (2 * i + 1) d) else F (lane (2 * (i - h)) s) (lane (2 * (i - h) + 1) s))"
    unfolding eq high low using i by simp
  then show "elems (horizontal F (Other s) d) ! i = (pairs F (elems d) @ pairs F (elems s)) ! i"
    using i n by (simp add: nth_append nth_pairs)
qed

lemma FADD_fun: "FADD = (+)" and FSUB_fun: "FSUB = (-)"
  by (simp_all add: fun_eq_iff FADD_def FSUB_def)

text \<open>
  the horizontal operations combine neighbouring elements: with two different registers the
  lower half of the result comes from the pairs of the destination, the upper half from those of
  the source.
\<close>
lemma horizontal_pairs:
  fixes d s :: XMMReg and m q :: MMXReg
  shows "elems (helper_phaddw (Other s) d) = pairs (+) (elems d :: u16 list) @ pairs (+) (elems s) \<and>
    elems (helper_phaddd (Other s) d) = pairs (+) (elems d :: u32 list) @ pairs (+) (elems s) \<and>
    elems (helper_phsubw (Other s) d) = pairs (-) (elems d :: u16 list) @ pairs (-) (elems s) \<and>
    elems (helper_phsubd (Other s) d) = pairs (-) (elems d :: u32 list) @ pairs (-) (elems s) \<and>
    elems (helper_phaddsw (Other s) d) = pairs FADDSW (elems d) @ pairs FADDSW (elems s) \<and>
    elems (helper_phsubsw (Other s) d) = pairs FSUBSW (elems d) @ pairs FSUBSW (elems s) \<and>
    elems (helper_phaddw (Other q) m) = pairs (+) (elems m :: u16 list) @ pairs (+) (elems q) \<and>
    elems (helper_phaddd (Other q) m) = pairs (+) (elems m :: u32 list) @ pairs (+) (elems q)"
  by (simp add: helper_phaddw_def helper_phaddd_def helper_phsubw_def helper_phsubd_def helper_phaddsw_def
      helper_phsubsw_def horizontal_elems FADD_fun FSUB_fun)

text \<open>With one register they go wrong: the upper half is made of sums already overwritten.\<close>

lemma horizontal_same_register:
  "helper_phaddw Same (0x0001000100010001 :: MMXReg) = 0x0005000400020002"
  by code_simp

section \<open>Packing undoes unpacking\<close>

lemma elems_of_lanes:
  fixes xs :: "'a::len word list"
  assumes "length xs = lanes TYPE('a) TYPE('r)"
  shows "elems (of_lanes xs :: 'r::len word) = xs"
  by (rule nth_equalityI) (use assms in \<open>auto intro!: lane_of_lanes lane_fits\<close>)

lemma length_concat_pairs: "length (concat (map (\<lambda>i. [f i, g i]) [0..<n])) = 2 * n"
  by (induction n) auto

lemma nth_concat_pairs:
  "i < n \<Longrightarrow> concat (map (\<lambda>i. [f i, g i]) [0..<n]) ! (2 * i) = f i \<and> concat (map (\<lambda>i. [f i, g i]) [0..<n]) ! (2 * i + 1) = g i"
proof (induction n)
  case (Suc n)
  let ?xs = "concat (map (\<lambda>i. [f i, g i]) [0..<n])"
  have "length ?xs = 2 * n" by (rule length_concat_pairs)
  then show ?case using Suc by (cases "i = n") (auto simp: nth_append)
qed simp

lemma unpck_lanes:
  fixes d s :: "'r::len word"
  assumes "lanes TYPE('a::len) TYPE('r) = 2 * h" "i < h"
  shows "lane (2 * i) (unpck TYPE('a) bas (Other s) d) = (lane (bas * h + i) d :: 'a word)"
    "lane (2 * i + 1) (unpck TYPE('a) bas (Other s) d) = (lane (bas * h + i) s :: 'a word)"
proof -
  let ?xs = "concat (map (\<lambda>i. [lane (bas * h + i) d :: 'a word, lane (bas * h + i) s]) [0..<h])"
  have h: "unpck TYPE('a) bas (Other s) d = of_lanes ?xs" using assms(1) by (simp add: unpck_def)
  have "elems (of_lanes ?xs :: 'r word) = ?xs"
    by (rule elems_of_lanes) (simp only: length_concat_pairs assms(1))
  then have "lane k (of_lanes ?xs :: 'r word) = ?xs ! k" if "k < 2 * h" for k
    using that assms(1) nth_elems [of k, where r = "of_lanes ?xs :: 'r word" and 'a = 'a] by metis
  then show "lane (2 * i) (unpck TYPE('a) bas (Other s) d) = (lane (bas * h + i) d :: 'a word)"
    "lane (2 * i + 1) (unpck TYPE('a) bas (Other s) d) = (lane (bas * h + i) s :: 'a word)"
    unfolding h using assms(2) nth_concat_pairs [OF assms(2), of "\<lambda>i. lane (bas * h + i) d :: 'a word" "\<lambda>i. lane (bas * h + i) s"]
    by simp_all
qed

lemma zero_extended:
  fixes w :: u16
  assumes "lane 0 w = x" "lane 1 w = (0 :: u8)"
  shows "w = ucast (x :: u8)"
proof (rule bit_word_eqI)
  fix n assume n: "n < LENGTH(16)"
  have "bit x k = (k < 8 \<and> bit w k)" for k using bit_lane [of 0 w k, where 'a = 8] assms(1) by simp
  moreover have "\<not> bit w (8 + k)" if "k < 8" for k
    using bit_lane [of 1 w k, where 'a = 8] assms(2) that by simp
  from this [of "n - 8"] have "8 \<le> n \<Longrightarrow> \<not> bit w n" using n by simp
  ultimately show "bit w n = bit (ucast x :: u16) n" using n by (cases "n < 8") (auto simp: bit_simps)
qed

lemma unpck_zero:
  fixes d :: "'r::len word"
  assumes "LENGTH('r) = 16 * h" "i < h"
  shows "lane i (unpck TYPE(8) bas (Other 0) d) = (ucast (lane (bas * h + i) d :: u8) :: u16)"
proof (rule zero_extended)
  note u = unpck_lanes [where 'a = 8 and h = h and i = i and d = d and s = 0 and bas = bas]
  have l: "lane j (lane i r :: u16) = (lane (2 * i + j) r :: u8)" if "j < 2" for j and r :: "'r word"
    by (rule lane_lane) (use that in simp_all)
  show "lane 0 (lane i (unpck TYPE(8) bas (Other 0) d) :: u16) = (lane (bas * h + i) d :: u8)"
    using l [of 0] u(1) assms by simp
  have "(lane k (0 :: 'r word) :: u8) = 0" for k by (simp add: lane_def)
  then show "lane 1 (lane i (unpck TYPE(8) bas (Other 0) d) :: u16) = (0 :: u8)"
    using l [of 1] u(2) assms by simp
qed

lemma pack_unpck:
  fixes d :: "'r::len word"
  assumes "LENGTH('r) = 16 * h"
  shows "helper_packuswb (Other (helper_punpckhbw (Other 0) d)) (helper_punpcklbw (Other 0) d) = d"
proof (rule lanes_eqI [where 'a = 8])
  show "LENGTH(8) dvd LENGTH('r)" using assms by simp
  fix i assume i: "i < LENGTH('r) div LENGTH(8)"
  let ?f = "\<lambda>w :: u16. word_of_int (satub (sint w)) :: u8"
  let ?lo = "unpck TYPE(8) 0 (Other 0) d" and ?hi = "unpck TYPE(8) 1 (Other 0) d"
  let ?xs = "map (\<lambda>i. ?f (lane i ?lo)) [0..<h] @ map (\<lambda>i. ?f (lane i ?hi)) [0..<h]"
  have zext: "word_of_int (uint x) = (ucast x :: u16)" for x :: u8 by transfer simp
  have f: "?f (ucast x) = x" for x :: u8
  proof -
    have "sint (ucast x :: u16) = uint x"
      using sint_of_small [of "uint x", where 'a = 16] word8_bounds [of x] uint_ge_0 [of x]
      by (simp add: zext)
    then show ?thesis using word8_bounds [of x] by (simp add: satub_def)
  qed
  have "elems (of_lanes ?xs :: 'r word) = ?xs" by (rule elems_of_lanes) (simp add: assms)
  then have "lane i (of_lanes ?xs :: 'r word) = ?xs ! i"
    using i nth_elems [of i, where r = "of_lanes ?xs :: 'r word" and 'a = 8] by metis
  also have "\<dots> = lane i d"
    using i assms by (auto simp: nth_append unpck_zero f simp del: satub_def)
  finally show "lane i (helper_packuswb (Other (helper_punpckhbw (Other 0) d)) (helper_punpcklbw (Other 0) d)) = (lane i d :: u8)"
    by (simp add: helper_packuswb_def helper_punpckhbw_def helper_punpcklbw_def pack_lanes_def assms)
qed

text \<open>
  packing undoes unpacking: when the bytes of a register are interleaved with zeros into two
  registers of words, \<open>PACKUSWB\<close> gives the register back, in MMX and XMM registers alike.
\<close>
lemma unpack_pack_roundtrip:
  fixes m :: MMXReg and x :: XMMReg
  shows "helper_packuswb (Other (helper_punpckhbw (Other 0) m)) (helper_punpcklbw (Other 0) m) = m \<and>
    helper_packuswb (Other (helper_punpckhbw (Other 0) x)) (helper_punpcklbw (Other 0) x) = x"
  by (intro conjI pack_unpck [where h = 4] pack_unpck [where h = 8]) simp_all

section \<open>A shift across two registers\<close>

lemma bit_SHR:
  assumes "k < 64"
  shows "bit (SHR v (int a - int b)) k \<longleftrightarrow> b \<le> a + k \<and> a + k < b + 64 \<and> bit v (a + k - b)"
proof -
  have "bit v (a + k - b) \<Longrightarrow> b \<le> a + k \<Longrightarrow> a + k < b + 64" using bit_imp_le_length [of v "a + k - b"] by simp
  then show ?thesis using assms
    by (auto simp: SHR_def bit_simps nat_diff_distrib' add.commute)
qed

lemma palignr_bits:
  fixes d s :: XMMReg
  assumes "k < 64" "j < 2"
  shows "bit (lane j (helper_palignr_xmm (Other s) (int n) d) :: u64) k =
    (if 8 * n + 64 * j + k < 128 then bit s (8 * n + 64 * j + k) else bit d (8 * n + 64 * j + k - 128))"
proof (cases "n \<ge> 32")
  case True
  then show ?thesis by (simp add: helper_palignr_xmm_def bit_lane) (auto dest!: bit_imp_le_length)
next
  case False
  let ?s = "\<lambda>i. lane i s :: u64" and ?d = "\<lambda>i. lane i d :: u64" and ?p = "8 * n + 64 * j"
  have "lane j (helper_palignr_xmm (Other s) (int n) d) =
      SHR (?s 0) (int ?p - int 0) OR SHR (?s 1) (int ?p - int 64) OR SHR (?d 0) (int ?p - int 128) OR
      SHR (?d 1) (int ?p - int 192)"
  proof -
    have "lane j (of_lanes [q0, q1 :: u64] :: XMMReg) = [q0, q1] ! j" for q0 q1
      using assms(2) by (intro lane_of_lanes) simp_all
    then show ?thesis using False assms(2) by (auto simp: helper_palignr_xmm_def Let_def less_2_cases_iff or.assoc mult.commute)
  qed
  moreover define p where "p = 8 * n + 64 * j"
  ultimately have "bit (lane j (helper_palignr_xmm (Other s) (int n) d) :: u64) k \<longleftrightarrow>
      (p + k < 64 \<and> bit (?s 0) (p + k) \<or> 64 \<le> p + k \<and> p + k < 128 \<and> bit (?s 1) (p + k - 64)) \<or>
      (128 \<le> p + k \<and> p + k < 192 \<and> bit (?d 0) (p + k - 128) \<or> 192 \<le> p + k \<and> p + k < 256 \<and> bit (?d 1) (p + k - 192))"
    by (simp only: bit_or_iff bit_SHR [OF assms(1)]) auto
  also have "\<dots> = (if p + k < 128 then bit s (p + k) else bit d (p + k - 128))"
    by (auto simp: bit_lane dest: bit_imp_le_length)
  finally show ?thesis by (simp only: p_def)
qed

text \<open>
  C18: \<open>PALIGNR\<close> shifts the concatenation of destination and source, 256 bits, right by bytes and
  keeps the low half; every count from 0 on is covered.
\<close>
theorem palignr_shift:
  "helper_palignr_xmm (Other s) (int n) d = ucast (drop_bit (8 * n) (word_cat d s :: 256 word))"
proof (rule lanes_eqI [where 'a = 64])
  show "LENGTH(64) dvd LENGTH(128)" by simp
  fix j assume "j < LENGTH(128) div LENGTH(64)"
  then have j: "j < 2" by simp
  show "lane j (helper_palignr_xmm (Other s) (int n) d) = (lane j (ucast (drop_bit (8 * n) (word_cat d s :: 256 word)) :: XMMReg) :: u64)"
  proof (rule bit_word_eqI)
    fix k assume "k < LENGTH(64)"
    then have k: "k < 64" by simp
    have cat: "bit (word_cat d s :: 256 word) i = (if i < 128 then bit s i else bit d (i - 128))" for i
      by (auto simp: bit_word_cat_iff dest: bit_imp_le_length)
    have "64 * j + k < 128" using j k by linarith
    then have "bit (lane j (ucast (drop_bit (8 * n) w) :: XMMReg) :: u64) k = bit w (8 * n + 64 * j + k)"
      for w :: "256 word"
      using k by (simp add: bit_lane bit_ucast_iff bit_drop_bit_eq mult.commute add.assoc)
    then show "bit (lane j (helper_palignr_xmm (Other s) (int n) d) :: u64) k =
        bit (lane j (ucast (drop_bit (8 * n) (word_cat d s :: 256 word)) :: XMMReg) :: u64) k"
      by (simp only: palignr_bits [OF k j] cat)
  qed
qed

section \<open>Assignments that overtake their source\<close>

text \<open>
  Operations that assign in place element by element into wider, or narrower, elements are wrong
  when source and destination are one register: \<open>PMOVSXBW\<close> and its relatives, \<open>PACKUSDW\<close>,
  \<open>PHMINPOSUW\<close>.
\<close>

lemma pmovsxbw_same_register:
  "lane 1 (helper_pmovsxbw (Other 0x0201) 0x0201) = (2 :: u16)" "lane 1 (helper_pmovsxbw Same 0x0201) = (0 :: u16)"
  by (simp_all add: helper_pmovsxbw_def SSE_HELPER_F_def in_place_def upt_conv_Cons lane_def set_lane_def
      mask_eq_exp_minus_1 push_bit_eq_mult)

lemma packusdw_same_register:
  "lane 4 (helper_packusdw Same 0x00000001000000020000000300000004) = (0xffff :: u16)"
  by (simp add: helper_packusdw_def in_place_def upt_conv_Cons lane_def set_lane_def satuw_def mask_eq_exp_minus_1
      push_bit_eq_mult)

lemma phminposuw_same_register:
  "lane 0 (helper_phminposuw (Other 0x00090009000900090009000200090009) 0) = (2 :: u16)"
  "lane 0 (helper_phminposuw Same 0x00090009000900090009000200090009) = (0 :: u16)"
  by (simp_all add: helper_phminposuw_def min_index_def in_place_def upt_conv_Cons lane_def set_lane_def
      mask_eq_exp_minus_1 push_bit_eq_mult)

text \<open>\<open>INSERTQ\<close> takes all bits from its source; those of the destination outside the field are lost.\<close>

lemma insertq_ignores_destination: "lane 0 (helper_insertq_r (Other s) d) = (lane 0 (helper_insertq_r (Other s) d') :: u64)"
  by (simp add: helper_insertq_r_def Let_def)

end
