(* ===== verification/SseStrings.thy ===== *)
theory SseStrings
  imports Lanes
begin

text \<open>
  The operations of \<open>ops_sse.h\<close> with loops of their own: the string comparisons, CRC32, the
  population count, the carry-less product and the AES rounds.  \<open>clz32\<close>, \<open>ctz32\<close>, \<open>bswap32\<close> and the
  tables of AES are outside the repository and are arguments.
\<close>

section \<open>String comparison\<close>

text \<open>\<open>abs1\<close> takes an \<open>int\<close>: the 64-bit length register is cut to 32 bits on the way in.\<close>

definition abs1_int :: "u32 \<Rightarrow> int" where
  "abs1_int a = (if sint a < 0 then sint (- a) else sint a)"

definition pcmp_elen :: "nat \<Rightarrow> u32 \<Rightarrow> 'm CPUX86State_scheme \<Rightarrow> int" where
  "pcmp_elen reg ctrl env =
    (let val = (if drop_bit 8 ctrl \<noteq> 0 then abs1_int (ucast (regs env reg)) else abs1_int (ucast (regs env reg)))
     in if ctrl AND 1 \<noteq> 0 then (if val > 8 then 8 else val) else (if val > 16 then 16 else val))"

definition pcmp_ilen :: "XMMReg \<Rightarrow> u8 \<Rightarrow> int" where
  "pcmp_ilen r ctrl =
    int (if ctrl AND 1 \<noteq> 0 then length (takeWhile (\<lambda>i. lane i r \<noteq> (0 :: u16)) [0..<8])
         else length (takeWhile (\<lambda>i. lane i r \<noteq> (0 :: u8)) [0..<16]))"

definition pcmp_val :: "XMMReg \<Rightarrow> u8 \<Rightarrow> int \<Rightarrow> int" where
  "pcmp_val r ctrl i =
    (if ctrl AND 3 = 0 then uint (lane (nat i) r :: u8)
     else if ctrl AND 3 = 1 then uint (lane (nat i) r :: u16)
     else if ctrl AND 3 = 2 then sint (lane (nat i) r :: u8)
     else sint (lane (nat i) r :: u16))"

text \<open>The indices from \<open>n\<close> down to 0.\<close>

definition downto0 :: "int \<Rightarrow> int list" where
  "downto0 n = map int (rev [0..<nat (n + 1)])"

definition equal_any :: "XMMReg \<Rightarrow> XMMReg \<Rightarrow> u8 \<Rightarrow> int \<Rightarrow> int \<Rightarrow> u32" where
  "equal_any d s ctrl valids validd =
    fold (\<lambda>j res. let v = pcmp_val s ctrl j
                  in fold (\<lambda>i res. res OR of_bool (v = pcmp_val d ctrl i)) (downto0 validd) (push_bit 1 res))
      (downto0 valids) 0"

text \<open>The pairs of bounds are at \<open>i - 1\<close> and \<open>i\<close>, for \<open>i\<close> from \<open>(validd - 1) | 1\<close> down by two.\<close>

definition odd_indices :: "int \<Rightarrow> int list" where
  "odd_indices i = map (\<lambda>k. i - 2 * int k) [0..<nat ((i + 2) div 2)]"

definition in_ranges :: "XMMReg \<Rightarrow> XMMReg \<Rightarrow> u8 \<Rightarrow> int \<Rightarrow> int \<Rightarrow> u32" where
  "in_ranges d s ctrl valids validd =
    fold (\<lambda>j res. let v = pcmp_val s ctrl j
                  in fold (\<lambda>i res. res OR of_bool (pcmp_val d ctrl i \<ge> v \<and> pcmp_val d ctrl (i - 1) \<le> v))
                       (odd_indices ((validd - 1) OR 1)) (push_bit 1 res))
      (downto0 valids) 0"

definition equal_each :: "XMMReg \<Rightarrow> XMMReg \<Rightarrow> u8 \<Rightarrow> int \<Rightarrow> int \<Rightarrow> int \<Rightarrow> u32" where
  "equal_each d s ctrl upper valids validd =
    (let res = push_bit (nat (upper - max valids validd)) 1 - 1;
         res = push_bit (nat (max valids validd - min valids validd)) res
     in fold (\<lambda>i res. push_bit 1 res OR of_bool (pcmp_val s ctrl i = pcmp_val d ctrl i)) (downto0 (min valids validd)) res)"

definition equal_ordered :: "XMMReg \<Rightarrow> XMMReg \<Rightarrow> u8 \<Rightarrow> int \<Rightarrow> int \<Rightarrow> int \<Rightarrow> u32" where
  "equal_ordered d s ctrl upper valids validd =
    fold (\<lambda>j res. push_bit 1 res OR
        fold (\<lambda>i v. v AND of_bool (pcmp_val s ctrl (i + j) = pcmp_val d ctrl i)) (downto0 (min (upper - j) validd)) 1)
      (downto0 (valids - validd)) 0"

definition pcmpxstrx ::
  "XMMReg \<Rightarrow> XMMReg \<Rightarrow> u8 \<Rightarrow> int \<Rightarrow> int \<Rightarrow> 'm CPUX86State_scheme \<Rightarrow> u32 \<times> 'm CPUX86State_scheme" where
  "pcmpxstrx d s ctrl valids validd env =
    (let upper = (if ctrl AND 1 \<noteq> 0 then 7 else 15);
         valids = valids - 1; validd = validd - 1;
         cc = (if valids < upper then CC_Z else 0) OR (if validd < upper then CC_S else 0);
         mode = drop_bit 2 ctrl AND 3;
         res = (if mode = 0 then equal_any d s ctrl valids validd
                else if mode = 1 then in_ranges d s ctrl valids validd
                else if mode = 2 then equal_each d s ctrl upper valids validd
                else equal_ordered d s ctrl upper valids validd);
         polarity = drop_bit 4 ctrl AND 3;
         res = (if polarity = 1 then res XOR (push_bit (nat upper) 2 - 1)
                else if polarity = 3 then res XOR (push_bit (nat (valids + 1)) 1 - 1) else res);
         cc = (if res \<noteq> 0 then cc OR CC_C else cc);
         cc = (if res AND 1 \<noteq> 0 then cc OR CC_O else cc)
     in (res, env\<lparr>cc_src := cc\<rparr>))"

text \<open>The index forms and the mask forms.\<close>

definition pcmp_index :: "(u32 \<Rightarrow> nat) \<Rightarrow> (u32 \<Rightarrow> nat) \<Rightarrow> u32 \<Rightarrow> u32 \<times> 'm CPUX86State_scheme \<Rightarrow> 'm CPUX86State_scheme" where
  "pcmp_index clz32 ctz32 ctrl = (\<lambda>(res, env).
    set_reg R_ECX (if res \<noteq> 0 then (if ctrl AND 0x40 \<noteq> 0 then 31 - of_nat (clz32 res) else of_nat (ctz32 res))
                   else drop_bit (unat (ctrl AND 1)) 16) env)"

definition pcmp_mask :: "u32 \<Rightarrow> u32 \<times> 'm CPUX86State_scheme \<Rightarrow> 'm CPUX86State_scheme" where
  "pcmp_mask ctrl = (\<lambda>(res, env).
    env\<lparr>xmm_regs := (xmm_regs env)(0 :=
      (if bit ctrl 6 then
         (if ctrl AND 1 \<noteq> 0 then fold (\<lambda>i d. set_lane i (if bit res i then - 1 else 0 :: u16) d) [0..<8] (xmm_regs env 0)
          else fold (\<lambda>i d. set_lane i (if bit res i then - 1 else 0 :: u8) d) [0..<16] (xmm_regs env 0))
       else set_lane 0 (ucast res :: u64) (set_lane 1 (0 :: u64) (xmm_regs env 0))))\<rparr>)"

definition helper_pcmpestri where
  "helper_pcmpestri clz32 ctz32 d s ctrl env =
    pcmp_index clz32 ctz32 ctrl (pcmpxstrx d s (ucast ctrl) (pcmp_elen R_EDX ctrl env) (pcmp_elen R_EAX ctrl env) env)"

definition helper_pcmpestrm where
  "helper_pcmpestrm d s ctrl env =
    pcmp_mask ctrl (pcmpxstrx d s (ucast ctrl) (pcmp_elen R_EDX ctrl env) (pcmp_elen R_EAX ctrl env) env)"

definition helper_pcmpistri where
  "helper_pcmpistri clz32 ctz32 d s ctrl env =
    pcmp_index clz32 ctz32 ctrl (pcmpxstrx d s (ucast ctrl) (pcmp_ilen s (ucast ctrl)) (pcmp_ilen d (ucast ctrl)) env)"

definition helper_pcmpistrm where
  "helper_pcmpistrm d s ctrl env =
    pcmp_mask ctrl (pcmpxstrx d s (ucast ctrl) (pcmp_ilen s (ucast ctrl)) (pcmp_ilen d (ucast ctrl)) env)"

section \<open>CRC32, population count and carry-less product\<close>

abbreviation (input) CRCPOLY_BITREV :: u64 where "CRCPOLY_BITREV \<equiv> 0x82f63b78"

definition crc_step :: "u64 \<Rightarrow> u64" where
  "crc_step crc = drop_bit 1 crc XOR (if crc AND 1 \<noteq> 0 then CRCPOLY_BITREV else 0)"

definition helper_crc32 :: "u32 \<Rightarrow> u64 \<Rightarrow> nat \<Rightarrow> u64" where
  "helper_crc32 crc1 msg len = (crc_step ^^ len) ((msg AND drop_bit (64 - len) (- 1)) XOR ucast crc1)"

definition POPMASK :: "nat \<Rightarrow> u64" where
  "POPMASK i = (- 1) div (push_bit (2 ^ i) 1 + 1)"

definition POPCOUNT :: "u64 \<Rightarrow> nat \<Rightarrow> u64" where
  "POPCOUNT n i = (n AND POPMASK i) + (drop_bit (2 ^ i) n AND POPMASK i)"

definition helper_popcnt :: "u64 \<Rightarrow> u32 \<Rightarrow> 'm CPUX86State_scheme \<Rightarrow> u64 \<times> 'm CPUX86State_scheme" where
  "helper_popcnt n ty env =
    (let env = env\<lparr>cc_src := if n \<noteq> 0 then 0 else CC_Z\<rparr>;
         n = POPCOUNT (POPCOUNT (POPCOUNT (POPCOUNT n 0) 1) 2) 3
     in if ty = 1 then (n AND 0xff, env)
        else (let n = POPCOUNT n 4
              in if ty = 2 then (n AND 0xff, env) else (POPCOUNT n 5, env)))"

function clmul_loop :: "u64 \<Rightarrow> u64 \<Rightarrow> u64 \<Rightarrow> u64 \<Rightarrow> u64 \<Rightarrow> u64 \<times> u64" where
  "clmul_loop b al ah resl resh =
    (if b = 0 then (resl, resh)
     else (let (resl, resh) = (if b AND 1 \<noteq> 0 then (resl XOR al, resh XOR ah) else (resl, resh))
           in clmul_loop (drop_bit 1 b) (push_bit 1 al) (push_bit 1 ah OR drop_bit 63 al) resl resh))"
  by pat_completeness auto
termination
proof (relation "measure (\<lambda>(b, _). unat b)")
  fix b :: u64
  assume "b \<noteq> 0"
  then have "unat b \<noteq> 0" by (simp add: unat_eq_0)
  then have "unat (drop_bit 1 b) < unat b" by (simp only: unat_drop_bit_eq drop_bit_eq_div [where 'a = nat]) simp
  then show "((drop_bit 1 b, x), b, y) \<in> measure (\<lambda>(b, _). unat b)" for x y :: "u64 \<times> u64 \<times> u64 \<times> u64" by simp
qed simp

declare clmul_loop.simps [simp del]

definition helper_pclmulqdq :: "XMMReg src \<Rightarrow> u32 \<Rightarrow> XMMReg \<Rightarrow> XMMReg" where
  "helper_pclmulqdq s ctrl d =
    (let (resl, resh) = clmul_loop (lane (if ctrl AND 16 \<noteq> 0 then 1 else 0) (src_of s d))
                          (lane (if ctrl AND 1 \<noteq> 0 then 1 else 0) d) 0 0 0
     in set_lane 1 resh (set_lane 0 resl d))"

section \<open>AES\<close>

record aes_tables =
  Te0 :: "u8 \<Rightarrow> u32"
  Te1 :: "u8 \<Rightarrow> u32"
  Te2 :: "u8 \<Rightarrow> u32"
  Te3 :: "u8 \<Rightarrow> u32"
  Te4 :: "u8 \<Rightarrow> u32"
  Td0 :: "u8 \<Rightarrow> u32"
  Td1 :: "u8 \<Rightarrow> u32"
  Td2 :: "u8 \<Rightarrow> u32"
  Td3 :: "u8 \<Rightarrow> u32"
  Td4 :: "u8 \<Rightarrow> u32"
  bswap32 :: "u32 \<Rightarrow> u32"

definition aes_shifts :: "nat list" where "aes_shifts = [0, 5, 10, 15, 4, 9, 14, 3, 8, 13, 2, 7, 12, 1, 6, 11]"
definition aes_ishifts :: "nat list" where "aes_ishifts = [0, 13, 10, 7, 4, 1, 14, 11, 8, 5, 2, 15, 12, 9, 6, 3]"

text \<open>The registers are copied first, so an aliased source is the state itself.\<close>

definition helper_aesdec :: "aes_tables \<Rightarrow> XMMReg src \<Rightarrow> XMMReg \<Rightarrow> XMMReg" where
  "helper_aesdec A s d =
    (let st = (\<lambda>i. lane (aes_ishifts ! i) d :: u8); rk = src_of s d
     in fold (\<lambda>i. set_lane i (lane i rk XOR bswap32 A (Td0 A (st (4 * i)) XOR Td1 A (st (4 * i + 1)) XOR
                Td2 A (st (4 * i + 2)) XOR Td3 A (st (4 * i + 3))))) [0..<4] d)"

definition helper_aesdeclast :: "aes_tables \<Rightarrow> XMMReg src \<Rightarrow> XMMReg \<Rightarrow> XMMReg" where
  "helper_aesdeclast A s d =
    (let rk = src_of s d
     in fold (\<lambda>i. set_lane i (lane i rk XOR ucast (Td4 A (lane (aes_ishifts ! i) d) AND 0xff) :: u8)) [0..<16] d)"

definition helper_aesenc :: "aes_tables \<Rightarrow> XMMReg src \<Rightarrow> XMMReg \<Rightarrow> XMMReg" where
  "helper_aesenc A s d =
    (let st = (\<lambda>i. lane (aes_shifts ! i) d :: u8); rk = src_of s d
     in fold (\<lambda>i. set_lane i (lane i rk XOR bswap32 A (Te0 A (st (4 * i)) XOR Te1 A (st (4 * i + 1)) XOR
                Te2 A (st (4 * i + 2)) XOR Te3 A (st (4 * i + 3))))) [0..<4] d)"

definition helper_aesenclast :: "aes_tables \<Rightarrow> XMMReg src \<Rightarrow> XMMReg \<Rightarrow> XMMReg" where
  "helper_aesenclast A s d =
    (let rk = src_of s d
     in fold (\<lambda>i. set_lane i (lane i rk XOR ucast (Te4 A (lane (aes_shifts ! i) d) AND 0xff) :: u8)) [0..<16] d)"

definition helper_aesimc :: "aes_tables \<Rightarrow> XMMReg src \<Rightarrow> XMMReg \<Rightarrow> XMMReg" where
  "helper_aesimc A s d =
    (let sb = (\<lambda>i. ucast (Te4 A (lane i (src_of s d)) AND 0xff) :: u8)
     in fold (\<lambda>i. set_lane i (bswap32 A (Td0 A (sb (4 * i)) XOR Td1 A (sb (4 * i + 1)) XOR
                Td2 A (sb (4 * i + 2)) XOR Td3 A (sb (4 * i + 3))))) [0..<4] d)"

definition helper_aeskeygenassist :: "aes_tables \<Rightarrow> XMMReg src \<Rightarrow> u32 \<Rightarrow> XMMReg \<Rightarrow> XMMReg" where
  "helper_aeskeygenassist A s ctrl d =
    (let tmp = src_of s d;
         sb = (\<lambda>i. ucast (Te4 A (lane i tmp) AND 0xff) :: u8);
         d = fold (\<lambda>i d. set_lane (i + 8) (sb (i + 12)) (set_lane i (sb (i + 4)) d)) [0..<4] d;
         rot = (\<lambda>w :: u32. push_bit 24 w OR drop_bit 8 w);
         d = set_lane 1 (rot (lane 0 d) XOR ctrl) d
     in set_lane 3 (rot (lane 2 d) XOR ctrl) d)"

section \<open>The carry-less product\<close>

text \<open>The product of polynomials over GF(2): the sum of the shifts of \<open>a\<close> that the bits of \<open>b\<close> select.\<close>

fun clmul :: "nat \<Rightarrow> u64 \<Rightarrow> 128 word \<Rightarrow> 128 word" where
  "clmul 0 b a = 0"
| "clmul (Suc n) b a = (if bit b n then push_bit n a else 0) XOR clmul n b a"

lemma clmul_zero: "clmul n 0 a = 0"
  by (induction n) simp_all

lemma clmul_shift: "clmul (Suc n) b a = (if odd b then a else 0) XOR clmul n (drop_bit 1 b) (push_bit 1 a)"
proof (induction n)
  case (Suc n)
  have "clmul (Suc (Suc n)) b a = (if bit b (Suc n) then push_bit (Suc n) a else 0) XOR clmul (Suc n) b a" by (rule clmul.simps)
  also have "\<dots> = (if odd b then a else 0) XOR clmul (Suc n) (drop_bit 1 b) (push_bit 1 a)"
    unfolding Suc.IH by (simp add: bit_drop_bit_eq xor.left_commute)
  finally show ?case .
qed (simp add: bit_0)

lemma word_cat_xor: "word_cat a b XOR word_cat c d = (word_cat (a XOR c) (b XOR d) :: 128 word)" for a b c d :: u64
  by (rule bit_word_eqI) (auto simp: bit_word_cat_iff bit_xor_iff)

lemma word_cat_shift:
  "push_bit 1 (word_cat a b :: 128 word) = word_cat (push_bit 1 a OR drop_bit 63 b) (push_bit 1 b)" for a b :: u64
  by (rule bit_word_eqI) (auto simp: bit_word_cat_iff bit_simps simp del: push_bit_Suc dest: bit_imp_le_length)

lemma clmul_loop:
  "take_bit n b = b \<Longrightarrow>
   (case clmul_loop b al ah resl resh of (l, h) \<Rightarrow> word_cat h l) = (word_cat resh resl XOR clmul n b (word_cat ah al) :: 128 word)"
proof (induction n arbitrary: b al ah resl resh)
  case 0
  then show ?case by (simp add: clmul_loop.simps)
next
  case (Suc n)
  have b: "take_bit n (drop_bit 1 b) = drop_bit 1 b" using Suc.prems by (metis One_nat_def Suc_eq_plus1 take_bit_drop_bit)
  have odd: "b AND 1 \<noteq> 0 \<longleftrightarrow> odd b" by (simp add: and_one_eq odd_iff_mod_2_eq_one)
  show ?case
  proof (cases "b = 0")
    case True
    then show ?thesis by (simp add: clmul_loop.simps clmul_zero)
  next
    case False
    then show ?thesis
      unfolding clmul_loop.simps [of b] clmul_shift word_cat_shift
      by (simp add: Suc.IH [OF b, unfolded One_nat_def] odd word_cat_xor [symmetric] xor.assoc del: push_bit_Suc)
  qed
qed

text \<open>
  C14: \<open>PCLMULQDQ\<close> computes the full 128-bit carry-less product of the quadwords that its immediate
  selects, also when source and destination are one register.
\<close>
theorem pclmulqdq_product:
  "helper_pclmulqdq s ctrl d =
    clmul 64 (lane (if ctrl AND 16 \<noteq> 0 then 1 else 0) (src_of s d)) (ucast (lane (if ctrl AND 1 \<noteq> 0 then 1 else 0) d :: u64))"
proof -
  let ?b = "lane (if ctrl AND 16 \<noteq> 0 then 1 else 0) (src_of s d) :: u64" and ?a = "lane (if ctrl AND 1 \<noteq> 0 then 1 else 0) d :: u64"
  obtain l h where lh: "clmul_loop ?b ?a 0 0 0 = (l, h)" by force
  have ext: "word_cat 0 w = (ucast w :: 128 word)" for w :: u64
    by (rule bit_word_eqI) (auto simp: bit_word_cat_iff bit_simps dest: bit_imp_le_length)
  have "take_bit 64 ?b = ?b" by (rule bit_word_eqI) (simp add: bit_take_bit_iff)
  from clmul_loop [OF this, of ?a 0 0 0] have "word_cat h l = clmul 64 ?b (ucast ?a)" by (simp add: lh ext)
  moreover have "set_lane 1 h (set_lane 0 l d) = word_cat h l"
    by (rule bit_word_eqI) (auto simp: bit_set_lane bit_word_cat_iff dest: bit_imp_le_length)
  ultimately show ?thesis by (simp add: helper_pclmulqdq_def lh)
qed

section \<open>The population count\<close>

text \<open>
  One round of the count on natural numbers: \<open>count_fields w k\<close> has the low \<open>w\<close> bits of each of \<open>k\<close> fields
  of \<open>2 * w\<close> bits, and \<open>round\<close> adds in each field its upper half to its lower half.
\<close>

fun count_fields :: "nat \<Rightarrow> nat \<Rightarrow> nat" where
  "count_fields w 0 = 0"
| "count_fields w (Suc k) = push_bit (2 * w) (count_fields w k) OR mask w"

definition half_sum :: "nat \<Rightarrow> nat \<Rightarrow> nat \<Rightarrow> nat" where
  "half_sum w k n = (n AND count_fields w k) + (drop_bit w n AND count_fields w k)"

fun digit_sum :: "nat \<Rightarrow> nat \<Rightarrow> nat \<Rightarrow> nat" where
  "digit_sum w 0 n = 0"
| "digit_sum w (Suc k) n = take_bit w n + digit_sum w k (drop_bit w n)"

lemma and_count_fields: "n AND count_fields w (Suc k) = push_bit (2 * w) (drop_bit (2 * w) n AND count_fields w k) + take_bit w n"
proof -
  have "n AND count_fields w (Suc k) = push_bit (2 * w) (drop_bit (2 * w) n AND count_fields w k) OR take_bit w n"
    by (rule bit_eqI) (auto simp: bit_simps)
  also have "\<dots> = push_bit (2 * w) (drop_bit (2 * w) n AND count_fields w k) + take_bit w n"
    by (rule disjunctive_add [symmetric]) (auto simp: bit_simps)
  finally show ?thesis .
qed

lemma half_sum_Suc:
  "half_sum w (Suc k) n = push_bit (2 * w) (half_sum w k (drop_bit (2 * w) n)) + (take_bit w n + take_bit w (drop_bit w n))"
proof -
  have eq: "drop_bit (2 * w) (drop_bit w n) = drop_bit w (drop_bit (2 * w) n)" by (simp add: add.commute)
  show ?thesis unfolding half_sum_def and_count_fields push_bit_add eq by (simp only: ac_simps)
qed

lemma low_digit: "0 < w \<Longrightarrow> take_bit w n + take_bit w (m :: nat) < 2 ^ (2 * w)"
proof -
  assume "0 < w"
  have "take_bit w n + take_bit w m < 2 ^ w + 2 ^ w" by (intro add_strict_mono take_bit_nat_less_exp)
  also have "\<dots> = 2 ^ Suc w" by simp
  also have "\<dots> \<le> 2 ^ (2 * w)" using \<open>0 < w\<close> by (intro power_increasing) simp_all
  finally show ?thesis .
qed

lemma half_sum_bound: "0 < w \<Longrightarrow> half_sum w k n < 2 ^ (2 * w * k)"
proof (induction k arbitrary: n)
  case (Suc k)
  have "half_sum w k (drop_bit (2 * w) n) + 1 \<le> 2 ^ (2 * w * k)" using Suc by (simp add: Suc_leI)
  then have "(half_sum w k (drop_bit (2 * w) n) + 1) * 2 ^ (2 * w) \<le> 2 ^ (2 * w * k) * 2 ^ (2 * w)" by (rule mult_le_mono1)
  then show ?case using low_digit [OF Suc.prems, of n "drop_bit w n"]
    by (simp add: half_sum_Suc push_bit_eq_mult power_add algebra_simps)
qed (simp add: half_sum_def)

lemma digit_sum_half_sum:
  "0 < w \<Longrightarrow> j \<le> k \<Longrightarrow> digit_sum (2 * w) j (half_sum w k n) = digit_sum w (2 * j) n"
proof (induction j arbitrary: k n)
  case (Suc j)
  then obtain k' where k: "k = Suc k'" "j \<le> k'" by (cases k) auto
  let ?c = "take_bit w n + take_bit w (drop_bit w n)"
  have c: "take_bit (2 * w) ?c = ?c" "drop_bit (2 * w) ?c = 0"
    using low_digit [OF Suc.prems(1), of n "drop_bit w n"] by (simp_all add: take_bit_nat_eq_self drop_bit_eq_div)
  have "take_bit (2 * w) (push_bit (2 * w) m + ?c) = ?c" "drop_bit (2 * w) (push_bit (2 * w) m + ?c) = m" for m
    using c by (simp_all add: take_bit_eq_mod drop_bit_eq_div push_bit_eq_mult)
  moreover have "digit_sum (2 * w) j (half_sum w k' (drop_bit (2 * w) n)) = digit_sum w (2 * j) (drop_bit (2 * w) n)"
    by (rule Suc.IH) (use Suc.prems k in simp_all)
  ultimately show ?case by (simp add: k(1) half_sum_Suc mult_2)
qed simp

lemma digit_sum_bits: "digit_sum (Suc 0) k n = card {i. i < k \<and> bit n i}"
proof -
  have "digit_sum (Suc 0) k n = (\<Sum>i<k. of_bool (bit n i))"
  proof (induction k arbitrary: n)
    case (Suc k)
    have "take_bit (Suc 0) n = of_bool (bit n 0)" by (simp add: take_bit_Suc bit_0 mod_2_eq_odd)
    then show ?case by (simp only: digit_sum.simps Suc.IH sum.lessThan_Suc_shift bit_drop_bit_eq) (simp add: comp_def)
  qed simp
  also have "\<dots> = card {i. i < k \<and> bit n i}" by (simp add: sum_of_bool_eq) (rule arg_cong [where f = card], auto)
  finally show ?thesis .
qed

lemma count_fields_numeral:
  "count_fields w (numeral k) = push_bit (2 * w) (count_fields w (pred_numeral k)) OR mask w"
  by (simp add: numeral_eq_Suc)

lemma POPMASK_fields:
  "unat (POPMASK 0) = count_fields 1 32" "unat (POPMASK 1) = count_fields 2 16" "unat (POPMASK 2) = count_fields 4 8"
  "unat (POPMASK 3) = count_fields 8 4" "unat (POPMASK 4) = count_fields 16 2" "unat (POPMASK 5) = count_fields 32 1"
proof -
  have "unat (- 1 :: u64) = 0xffffffffffffffff" by (simp add: unsigned_minus_1_eq_mask mask_eq_exp_minus_1)
  then show "unat (POPMASK 0) = count_fields 1 32" "unat (POPMASK 1) = count_fields 2 16" "unat (POPMASK 2) = count_fields 4 8"
    "unat (POPMASK 3) = count_fields 8 4" "unat (POPMASK 4) = count_fields 16 2" "unat (POPMASK 5) = count_fields 32 1"
    by (simp_all add: POPMASK_def count_fields_numeral mask_eq_exp_minus_1 push_bit_eq_mult unat_div_distrib)
qed

lemma unat_POPCOUNT:
  assumes "unat (POPMASK i) = count_fields w k" "w = 2 ^ i" "2 * w * k = 64"
  shows "unat (POPCOUNT n i) = half_sum w k (unat n)"
proof -
  have "half_sum w k (unat n) < 2 ^ 64"
    using half_sum_bound [of w k "unat n", unfolded assms(3)] by (simp add: assms(2))
  moreover have "unat (n AND POPMASK i) + unat (drop_bit w n AND POPMASK i) = half_sum w k (unat n)"
    by (simp add: half_sum_def unsigned_and_eq unat_drop_bit_eq assms(1))
  ultimately show ?thesis by (simp add: POPCOUNT_def unat_word_ariths assms(2))
qed

lemma POPCOUNT_digits:
  assumes "unat (POPMASK i) = count_fields w k" "w = 2 ^ i" "2 * w * k = 64" "j \<le> k" "w' = 2 * w" "j' = 2 * j"
  shows "digit_sum w' j (unat (POPCOUNT n i)) = digit_sum w j' (unat n)"
  using digit_sum_half_sum [of w j k "unat n"] unat_POPCOUNT [OF assms(1-3)] assms by simp

lemma first_digit: "digit_sum w 1 n = take_bit w n"
  by simp

text \<open>
  C15: \<open>POPCNT\<close> returns the number of bits that are set in its operand of 16, 32 or 64 bits, although
  it is computed by adding neighbouring fields of 1, 2, 4 and so on bits in parallel.
\<close>
theorem popcnt_counts:
  "fst (helper_popcnt n ty env) = of_nat (card {i. i < (if ty = 1 then 16 else if ty = 2 then 32 else 64) \<and> bit n i})"
proof -
  define c where "c k = card {i. i < k \<and> bit n i}" for k
  let ?n4 = "POPCOUNT (POPCOUNT (POPCOUNT (POPCOUNT n 0) 1) 2) 3"
  have le: "c k \<le> k" for k
  proof -
    have "c k \<le> card {..<k}" unfolding c_def by (intro card_mono) auto
    then show ?thesis by simp
  qed
  have bits: "digit_sum 1 k (unat n) = c k" for k by (simp add: digit_sum_bits c_def bit_unsigned_iff)
  note d = POPCOUNT_digits [OF POPMASK_fields(1)] POPCOUNT_digits [OF POPMASK_fields(2)] POPCOUNT_digits [OF POPMASK_fields(3)]
    POPCOUNT_digits [OF POPMASK_fields(4)] POPCOUNT_digits [OF POPMASK_fields(5)] POPCOUNT_digits [OF POPMASK_fields(6)]
  have four: "digit_sum 16 j (unat ?n4) = c (16 * j)" if "j \<le> 4" for j
  proof -
    have "digit_sum 16 j (unat ?n4) = digit_sum 8 (2 * j) (unat (POPCOUNT (POPCOUNT (POPCOUNT n 0) 1) 2))"
      by (rule d(4)) (use that in simp_all)
    also have "\<dots> = digit_sum 4 (4 * j) (unat (POPCOUNT (POPCOUNT n 0) 1))" by (rule d(3)) (use that in simp_all)
    also have "\<dots> = digit_sum 2 (8 * j) (unat (POPCOUNT n 0))" by (rule d(2)) (use that in simp_all)
    also have "\<dots> = digit_sum 1 (16 * j) (unat n)" by (rule d(1)) (use that in simp_all)
    finally show ?thesis by (simp only: bits)
  qed
  have five: "digit_sum 32 j (unat (POPCOUNT ?n4 4)) = c (32 * j)" if "j \<le> 2" for j
  proof -
    have "digit_sum 32 j (unat (POPCOUNT ?n4 4)) = digit_sum 16 (2 * j) (unat ?n4)" by (rule d(5)) (use that in simp_all)
    then show ?thesis using four [of "2 * j"] that by simp
  qed
  have "digit_sum 64 1 (unat (POPCOUNT (POPCOUNT ?n4 4) 5)) = digit_sum 32 2 (unat (POPCOUNT ?n4 4))"
    by (rule d(6)) simp_all
  then have "take_bit 64 (unat (POPCOUNT (POPCOUNT ?n4 4) 5)) = c 64" using five [of 2] by (simp only: first_digit) simp
  then have six: "unat (POPCOUNT (POPCOUNT ?n4 4) 5) = c 64"
    using unsigned_less [of "POPCOUNT (POPCOUNT ?n4 4) 5", where ?'a = nat] by (simp add: take_bit_nat_eq_self)
  have byte: "m AND 0xff = of_nat x" if "take_bit w (unat m) = x" "8 \<le> w" "x < 256" for m :: u64 and w x
  proof -
    have "unat (m AND 0xff) = take_bit 8 (unat m)" 
      by (simp add: unsigned_and_eq take_bit_eq_mask mask_eq_exp_minus_1)
    also have "\<dots> = take_bit 8 (take_bit w (unat m))" using that(2) by (simp add: min_absorb1)
    also have "\<dots> = x" using that by (simp add: take_bit_nat_eq_self)
    finally have "of_nat (unat (m AND 0xff)) = (of_nat x :: u64)" by (simp only:)
    then show ?thesis by simp
  qed
  have "take_bit 16 (unat ?n4) = c 16" "take_bit 32 (unat (POPCOUNT ?n4 4)) = c 32"
    using four [of 1] five [of 1] by (simp_all only: first_digit) simp_all
  then have "?n4 AND 0xff = of_nat (c 16)" "POPCOUNT ?n4 4 AND 0xff = of_nat (c 32)" "POPCOUNT (POPCOUNT ?n4 4) 5 = of_nat (c 64)"
    using le [of 16] le [of 32] byte [of 16 ?n4 "c 16"] byte [of 32 "POPCOUNT ?n4 4" "c 32"] six by (simp_all flip: six)
  then show ?thesis by (simp add: helper_popcnt_def Let_def c_def)
qed

section \<open>CRC32\<close>

lemma crc_step_xor: "crc_step (a XOR b) = crc_step a XOR crc_step b"
proof -
  have "(w :: u64) AND 1 \<noteq> 0 \<longleftrightarrow> bit w 0" for w by (simp add: and_one_eq bit_0 odd_iff_mod_2_eq_one)
  moreover have "drop_bit 1 (a XOR b) = drop_bit 1 a XOR drop_bit 1 b" by (rule bit_word_eqI) (simp add: bit_simps)
  ultimately show ?thesis by (simp add: crc_step_def bit_xor_iff xor.assoc xor.left_commute del: One_nat_def)
qed

lemma crc_steps_xor: "(crc_step ^^ n) (a XOR b) = (crc_step ^^ n) a XOR (crc_step ^^ n) b"
  by (induction n arbitrary: a b) (simp_all add: crc_step_xor)

text \<open>Bits that have not reached the end are only shifted.\<close>

lemma crc_steps_high: "take_bit n a = 0 \<Longrightarrow> (crc_step ^^ n) a = drop_bit n a"
proof (induction n arbitrary: a)
  case (Suc n)
  have low: "\<not> bit a i" if "i < Suc n" for i using Suc.prems that by (metis bit_0_eq bit_take_bit_iff bot_apply bot_bool_def)
  have "crc_step a = drop_bit 1 a" using low [of 0] by (simp add: crc_step_def and_one_eq bit_0 odd_iff_mod_2_eq_one)
  moreover have "take_bit n (drop_bit 1 a) = 0" by (rule bit_word_eqI) (use low in \<open>auto simp: bit_simps\<close>)
  moreover have "(crc_step ^^ Suc n) a = (crc_step ^^ n) (crc_step a)" by (simp add: funpow_swap1)
  ultimately show ?case using Suc.IH [of "drop_bit 1 a"] by simp
qed simp

lemma crc_step_small: "take_bit 32 a = a \<Longrightarrow> take_bit 32 (crc_step a) = crc_step a"
proof -
  assume a: "take_bit 32 a = a"
  have "i < 32" if "bit a i" for i using that a by (metis bit_take_bit_iff)
  then have "take_bit 32 (drop_bit 1 a) = drop_bit 1 a" by (intro bit_word_eqI) (force simp: bit_simps)
  then show ?thesis by (simp add: crc_step_def take_bit_xor)
qed

lemma crc_steps_small: "take_bit 32 a = a \<Longrightarrow> take_bit 32 ((crc_step ^^ n) a) = (crc_step ^^ n) a"
  by (induction n) (simp_all add: crc_step_small)

lemma crc32_take: "len \<le> 64 \<Longrightarrow> helper_crc32 c msg len = (crc_step ^^ len) (take_bit len msg XOR ucast c)"
proof -
  assume "len \<le> 64"
  then have "msg AND drop_bit (64 - len) (- 1) = take_bit len msg"
    by (intro bit_word_eqI) (auto simp: bit_simps dest: bit_imp_le_length)
  then show ?thesis by (simp add: helper_crc32_def)
qed

lemma crc32_small: "ucast (ucast (helper_crc32 c msg 8) :: u32) = helper_crc32 c msg 8"
proof -
  let ?x = "(crc_step ^^ 8) (take_bit 8 msg XOR ucast c)"
  have "take_bit 32 (take_bit 8 msg XOR ucast c) = take_bit 8 msg XOR ucast c"
    by (rule bit_word_eqI) (auto simp: bit_simps dest: bit_imp_le_length)
  then have "take_bit 32 ?x = ?x" by (rule crc_steps_small)
  moreover have "ucast (ucast x :: u32) = take_bit 32 x" for x :: u64
    by (rule bit_word_eqI) (auto simp: bit_simps dest: bit_imp_le_length)
  ultimately show ?thesis by (simp only: crc32_take)
qed

lemma crc32_append:
  assumes "m + 8 \<le> 64"
  shows "helper_crc32 c msg (8 + m) = helper_crc32 (ucast (helper_crc32 c msg 8)) (drop_bit 8 msg) m"
proof -
  let ?y = "push_bit 8 (take_bit m (drop_bit 8 msg))" and ?x = "(crc_step ^^ 8) (take_bit 8 msg XOR ucast c)"
  have c8: "helper_crc32 c msg 8 = ?x" by (rule crc32_take) simp
  have x: "ucast (ucast ?x :: u32) = ?x" using crc32_small [of c msg] by (simp only: c8)
  have "take_bit (8 + m) msg XOR ucast c = (take_bit 8 msg XOR ucast c) XOR ?y"
    by (rule bit_word_eqI) (auto simp: bit_simps)
  moreover have "(crc_step ^^ 8) ?y = take_bit m (drop_bit 8 msg)"
    using assms by (subst crc_steps_high; intro bit_word_eqI) (auto simp: bit_simps dest: bit_imp_le_length)
  ultimately have "(crc_step ^^ 8) (take_bit (8 + m) msg XOR ucast c) = ?x XOR take_bit m (drop_bit 8 msg)"
    by (simp only: crc_steps_xor)
  moreover have "(crc_step ^^ (8 + m)) z = (crc_step ^^ m) ((crc_step ^^ 8) z)" for z
    by (simp only: add.commute [of 8] funpow_add comp_apply)
  moreover have "helper_crc32 c msg (8 + m) = (crc_step ^^ (8 + m)) (take_bit (8 + m) msg XOR ucast c)"
    by (rule crc32_take) (use assms in simp)
  moreover have "helper_crc32 (ucast ?x) (drop_bit 8 msg) m = (crc_step ^^ m) (take_bit m (drop_bit 8 msg) XOR ucast (ucast ?x :: u32))"
    by (rule crc32_take) (use assms in simp)
  ultimately show ?thesis by (simp only: c8 x xor.commute [of ?x])
qed

lemma ucast_up_down: "ucast (ucast c :: u64) = (c :: u32)"
  by (rule bit_word_eqI) (auto simp: bit_simps)

lemma crc32_fold:
  "8 * k \<le> 64 \<Longrightarrow> helper_crc32 c msg (8 * k) =
    fold (\<lambda>i crc. helper_crc32 (ucast crc) (drop_bit (8 * i) msg) 8) [0..<k] (ucast c)"
proof (induction k arbitrary: c msg)
  case (Suc k)
  have "helper_crc32 c msg (8 * Suc k) = helper_crc32 (ucast (helper_crc32 c msg 8)) (drop_bit 8 msg) (8 * k)"
    using crc32_append [of "8 * k" c msg] Suc.prems by simp
  also have "\<dots> = fold (\<lambda>i crc. helper_crc32 (ucast crc) (drop_bit (8 * i) (drop_bit 8 msg)) 8) [0..<k]
      (ucast (ucast (helper_crc32 c msg 8) :: u32))"
    by (rule Suc.IH) (use Suc.prems in simp)
  also have "\<dots> = fold (\<lambda>i crc. helper_crc32 (ucast crc) (drop_bit (8 * i) msg) 8) [0..<Suc k] (ucast c)"
    using ucast_up_down [of c]
    by (simp add: upt_conv_Cons map_Suc_upt [symmetric] fold_map comp_def add.commute crc32_small del: upt_Suc)
  finally show ?case .
qed (simp add: crc32_take)

text \<open>
  C17: CRC32 of a word, double word or quadword is the byte operation repeated over its bytes, from
  the lowest on.
\<close>
theorem crc32_bytes:
  "helper_crc32 c msg 16 = fold (\<lambda>i crc. helper_crc32 (ucast crc) (drop_bit (8 * i) msg) 8) [0..<2] (ucast c) \<and>
   helper_crc32 c msg 32 = fold (\<lambda>i crc. helper_crc32 (ucast crc) (drop_bit (8 * i) msg) 8) [0..<4] (ucast c) \<and>
   helper_crc32 c msg 64 = fold (\<lambda>i crc. helper_crc32 (ucast crc) (drop_bit (8 * i) msg) 8) [0..<8] (ucast c)"
  using crc32_fold [of 2 c msg] crc32_fold [of 4 c msg] crc32_fold [of 8 c msg] by simp

section \<open>String search\<close>

lemma fold_or_bool:
  "fold (\<lambda>i res. res OR of_bool (Q i)) xs r = (r OR of_bool (\<exists>i\<in>set xs. Q i) :: u32)"
  by (induction xs arbitrary: r) (auto simp: or.assoc)

lemma bit_fold_shift:
  fixes r :: u32
  shows "n \<le> 32 \<Longrightarrow> bit (fold (\<lambda>j res. push_bit 1 res OR of_bool (P j)) (rev [0..<n]) r) k \<longleftrightarrow>
    k < 32 \<and> (if k < n then P k else bit r (k - n))"
proof (induction n arbitrary: r)
  case (Suc n)
  let ?r = "push_bit 1 r OR of_bool (P n)"
  have "bit (fold (\<lambda>j res. push_bit 1 res OR of_bool (P j)) (rev [0..<n]) ?r) k \<longleftrightarrow>
      k < 32 \<and> (if k < n then P k else bit ?r (k - n))"
    by (rule Suc.IH) (use Suc.prems in simp)
  moreover have "bit ?r (k - n) \<longleftrightarrow> (if k < Suc n then P n else bit r (k - Suc n))" if "n \<le> k" "k < 32"
    using that by (cases "k = n") (auto simp: bit_or_iff bit_push_bit_iff bit_of_bool_iff simp del: push_bit_Suc)
  ultimately show ?case by (auto simp: less_Suc_eq)
qed (auto dest: bit_imp_le_length)

lemma bit_equal_any:
  assumes "ls \<le> 32"
  shows "bit (equal_any d s ctrl (int ls - 1) (int ld - 1)) k \<longleftrightarrow>
    k < 32 \<and> k < ls \<and> (\<exists>i<ld. pcmp_val s ctrl (int k) = pcmp_val d ctrl (int i))"
proof -
  have down: "downto0 (int n - 1) = map int (rev [0..<n])" for n by (simp add: downto0_def)
  have ex: "(\<exists>i\<in>set (map int (rev [0..<ld])). X i) \<longleftrightarrow> (\<exists>i<ld. X (int i))" for X by auto
  show ?thesis
    unfolding equal_any_def down fold_map comp_def Let_def fold_or_bool bit_fold_shift [OF assms] ex by auto
qed

text \<open>The string in a register: its bytes up to the first zero.\<close>

definition string_of :: "XMMReg \<Rightarrow> u8 list" where
  "string_of r = takeWhile (\<lambda>b. b \<noteq> 0) (elems r)"

lemma length_string_of: "length (string_of r) \<le> 16"
  using length_takeWhile_le [of "\<lambda>b. b \<noteq> 0" "elems r :: u8 list"] by (simp add: string_of_def)

lemma nth_string_of: "k < length (string_of r) \<Longrightarrow> string_of r ! k = lane k r"
  using length_string_of [of r] by (simp add: string_of_def takeWhile_nth)

lemma pcmp_ilen_bytes: "pcmp_ilen r 0 = int (length (string_of r))"
  by (simp add: pcmp_ilen_def string_of_def elems_def takeWhile_map comp_def)

lemma equal_any_strings:
  "bit (equal_any d s 0 (int (length (string_of s)) - 1) (int (length (string_of d)) - 1)) k \<longleftrightarrow>
    k < length (string_of s) \<and> string_of s ! k \<in> set (string_of d)"
  using length_string_of [of s]
  by (subst bit_equal_any) (auto simp: pcmp_val_def nth_string_of in_set_conv_nth word_uint_eq_iff [symmetric] cong: conj_cong)

text \<open>
  C12: \<open>PCMPISTRI\<close> with immediate 0 searches a string for the first character of a set: ECX is the
  index of the first byte of the source string that occurs in the destination string, 16 when
  there is none, and the carry flag says which.  The host's \<open>ctz32\<close> is relied on to find the lowest
  bit that is set.
\<close>
theorem pcmpistri_find:
  fixes d s :: XMMReg and clz32 ctz32 :: "u32 \<Rightarrow> nat" and env :: "'m CPUX86State_scheme"
  defines "t \<equiv> helper_pcmpistri clz32 ctz32 d s 0 env"
  assumes ctz: "\<And>w k. bit w k \<Longrightarrow> (\<And>i. i < k \<Longrightarrow> \<not> bit w i) \<Longrightarrow> ctz32 w = k"
  shows "regs (t) R_ECX =
      (case find (\<lambda>k. string_of s ! k \<in> set (string_of d)) [0..<length (string_of s)] of Some k \<Rightarrow> of_nat k | None \<Rightarrow> 16) \<and>
    (cc_src (t) AND CC_C \<noteq> 0 \<longleftrightarrow> (\<exists>c\<in>set (string_of s). c \<in> set (string_of d)))"
proof -
  let ?res = "equal_any d s 0 (int (length (string_of s)) - 1) (int (length (string_of d)) - 1)"
  note b = equal_any_strings [of d s]
  have t: "t = pcmp_index clz32 ctz32 0 (?res, env\<lparr>cc_src := cc_src (snd (pcmpxstrx d s 0 (pcmp_ilen s 0) (pcmp_ilen d 0) env))\<rparr>)"
    by (simp add: t_def helper_pcmpistri_def pcmpxstrx_def pcmp_ilen_bytes Let_def)
  have "cc_src (t) AND CC_C \<noteq> 0 \<longleftrightarrow> ?res \<noteq> 0"
    by (simp add: t pcmp_index_def pcmpxstrx_def pcmp_ilen_bytes Let_def)
  moreover have nz: "?res \<noteq> 0 \<longleftrightarrow> (\<exists>k < length (string_of s). string_of s ! k \<in> set (string_of d))"
    using b by (metis bit_0_eq bit_eq_iff bot_apply bot_bool_def)
  ultimately have cf: "cc_src (t) AND CC_C \<noteq> 0 \<longleftrightarrow> (\<exists>c\<in>set (string_of s). c \<in> set (string_of d))"
    by (metis in_set_conv_nth)
  have "regs (t) R_ECX = (if ?res \<noteq> 0 then of_nat (ctz32 ?res) else 16)" by (simp add: t pcmp_index_def)
  also have "\<dots> = (case find (\<lambda>k. string_of s ! k \<in> set (string_of d)) [0..<length (string_of s)] of Some k \<Rightarrow> of_nat k | None \<Rightarrow> 16)"
  proof (cases "find (\<lambda>k. string_of s ! k \<in> set (string_of d)) [0..<length (string_of s)]")
    case None
    then have "?res = 0" using nz by (auto simp: find_None_iff)
    then show ?thesis using None by simp
  next
    case (Some k)
    then have k: "k < length (string_of s)" "string_of s ! k \<in> set (string_of d)"
      "\<And>i. i < k \<Longrightarrow> string_of s ! i \<notin> set (string_of d)" by (auto simp: find_Some_iff)
    have "ctz32 ?res = k" by (rule ctz) (use b k in auto)
    then show ?thesis using Some nz k by auto
  qed
  finally show ?thesis using cf by simp
qed

text \<open>\<open>ctz32\<close> and \<open>clz32\<close> as documented.\<close>

definition clz_ref :: "u32 \<Rightarrow> nat" where
  "clz_ref w = length (takeWhile (\<lambda>i. \<not> bit w (31 - i)) [0..<32])"

definition ctz_ref :: "u32 \<Rightarrow> nat" where
  "ctz_ref w = length (takeWhile (\<lambda>i. \<not> bit w i) [0..<32])"

lemma ctz_ref: "bit w k \<Longrightarrow> (\<And>i. i < k \<Longrightarrow> \<not> bit w i) \<Longrightarrow> ctz_ref w = k"
proof -
  assume b: "bit w k" "\<And>i. i < k \<Longrightarrow> \<not> bit w i"
  have "k < 32" using bit_imp_le_length [OF b(1)] by simp
  have split: "[0..<n] = [0..<k] @ k # [Suc k..<n]" if "k < n" for n
    using upt_add_eq_append [of 0 k "n - k"] upt_conv_Cons [OF that] that by simp
  have "takeWhile (\<lambda>i. \<not> bit w i) ([0..<k] @ k # zs) = [0..<k]" for zs using b by (simp add: takeWhile_append)
  then have "takeWhile (\<lambda>i. \<not> bit w i) [0..<32] = [0..<k]" using split [OF \<open>k < 32\<close>] by (simp only:)
  then show "ctz_ref w = k" by (simp add: ctz_ref_def)
qed

theorem pcmpistri_find_witness:
  "regs (helper_pcmpistri clz_ref ctz_ref 0x62 0x626161 0 cpu_zero) R_ECX = 2"
proof -
  have "string_of 0x62 = [0x62]" "string_of 0x626161 = [0x61, 0x61, 0x62]"
    by (simp_all add: string_of_def elems_def upt_conv_Cons lane_def)
  then have "find (\<lambda>k. string_of 0x626161 ! k \<in> set (string_of 0x62)) [0..<length (string_of 0x626161)] = Some 2"
    by (simp add: upt_conv_Cons)
  moreover have "regs (helper_pcmpistri clz_ref ctz_ref 0x62 0x626161 0 cpu_zero) R_ECX =
      (case find (\<lambda>k. string_of 0x626161 ! k \<in> set (string_of 0x62)) [0..<length (string_of 0x626161)]
       of Some k \<Rightarrow> of_nat k | None \<Rightarrow> 16)"
    by (rule conjunct1 [OF pcmpistri_find]) (rule ctz_ref)
  ultimately show ?thesis by simp
qed

text \<open>In equal-ordered mode an empty needle yields seventeen result bits.\<close>

lemma ordered_empty_needle: "equal_ordered 0 s 0x0C 15 15 (- 1) = 0x1ffff"
  by (simp add: equal_ordered_def downto0_def upt_conv_Cons)

section \<open>The last AES rounds\<close>

lemma bytes_fold:
  "i < 16 \<Longrightarrow> lane i (fold (\<lambda>i. set_lane i (f i :: u8)) [0..<16] d) = f i" for d :: XMMReg
  using fold_set_lane [where k = 0 and n = 16 and j = i and d = d and G = "\<lambda>i _. f i"] by simp

lemma aes_shifts_inverse: "i < 16 \<Longrightarrow> aes_shifts ! (aes_ishifts ! i) = i \<and> aes_ishifts ! i < 16"
proof -
  have "\<forall>i\<in>set [0..<16]. aes_shifts ! (aes_ishifts ! i) = i \<and> aes_ishifts ! i < 16"
    by (simp add: aes_shifts_def aes_ishifts_def upt_conv_Cons)
  then show "i < 16 \<Longrightarrow> ?thesis" by simp
qed

text \<open>
  the last rounds of AES undo each other: with tables whose S-boxes are inverse, \<open>AESDECLAST\<close>
  applied to the result of \<open>AESENCLAST\<close>, its round key removed, gives back the state under the
  other round key.
\<close>
lemma aes_last_rounds_inverse:
  assumes "\<And>x. ucast (Td4 A (ucast (Te4 A x AND 0xff)) AND 0xff) = x"
  shows "helper_aesdeclast A (Other k2) (helper_aesenclast A (Other k1) d XOR k1) = d XOR k2"
proof (rule lanes_eqI [where 'a = 8])
  show "LENGTH(8) dvd LENGTH(128)" by simp
  have x: "lane i (a XOR b) = (lane i a XOR lane i b :: u8)" for i and a b :: XMMReg
    by (rule bit_word_eqI) (auto simp: bit_lane bit_xor_iff)
  have cancel: "(a XOR b) XOR a = b" for a b :: u8 by (rule bit_word_eqI) (auto simp: bit_xor_iff)
  fix i assume "i < LENGTH(128) div LENGTH(8)"
  then have i: "i < 16" by simp
  let ?j = "aes_ishifts ! i"
  have j: "aes_shifts ! ?j = i" "?j < 16" using aes_shifts_inverse [OF i] by auto
  have "lane ?j (helper_aesenclast A (Other k1) d XOR k1) = (ucast (Te4 A (lane i d) AND 0xff) :: u8)"
    using bytes_fold [OF j(2)] by (simp add: helper_aesenclast_def x j(1) cancel)
  then show "lane i (helper_aesdeclast A (Other k2) (helper_aesenclast A (Other k1) d XOR k1)) = (lane i (d XOR k2) :: u8)"
    using bytes_fold [OF i] assms [of "lane i d"] by (simp add: helper_aesdeclast_def x xor.commute)
qed

lemma and_255: "(w :: u32) AND 0xff = take_bit 8 w"
  by (simp add: take_bit_eq_mask mask_eq_exp_minus_1)

end
