(* ===== verification/MemHelper.thy ===== *)
theory MemHelper
  imports ExcpHelper
begin

text \<open>
  \<open>mem_helper.c\<close>: the global lock, compare-and-exchange of 8 and 16 bytes, and the bound
  checks.  (\<open>tlb_fill\<close>, the last function of the file, is in \<open>Mmu\<close>.)
\<close>

section \<open>The helpers\<close>

definition helper_lock :: "'m CPUX86State_scheme \<Rightarrow> 'm CPUX86State_scheme" where
  "helper_lock = ext_call SpinLock"

definition helper_unlock :: "'m CPUX86State_scheme \<Rightarrow> 'm CPUX86State_scheme" where
  "helper_unlock = ext_call SpinUnlock"

definition helper_cmpxchg8b :: "'m cpu_bus \<Rightarrow> u64 \<Rightarrow> (unit, 'm) helper" where
  "helper_cmpxchg8b B a0 env =
    (let eflg = helper_cc_compute_all env (cc_op env)
     in bindx (cpu_ldq_data B a0 env) (\<lambda>d env.
          if d = push_bit 32 (EDX env) OR ucast (ucast (EAX env) :: u32) then
            bindx (cpu_stq_data B a0 (push_bit 32 (ECX env) OR ucast (ucast (EBX env) :: u32)) env) (\<lambda>_ env.
              Done () (env\<lparr>cc_src := scast (eflg OR CC_Z)\<rparr>))
          else
            bindx (cpu_stq_data B a0 d env) (\<lambda>_ env.
              let env = set_reg R_EDX (ucast (ucast (drop_bit 32 d) :: u32)) env;
                  env = set_reg R_EAX (ucast (ucast d :: u32)) env
              in Done () (env\<lparr>cc_src := scast (eflg AND NOT CC_Z)\<rparr>))))"

definition helper_cmpxchg16b :: "'m cpu_bus \<Rightarrow> u64 \<Rightarrow> (unit, 'm) helper" where
  "helper_cmpxchg16b B a0 env =
    (if a0 AND 0xf \<noteq> 0 then raise_exception B EXCP0D_GPF env
     else
       (let eflg = helper_cc_compute_all env (cc_op env)
        in bindx (cpu_ldq_data B a0 env) (\<lambda>d0 env.
           bindx (cpu_ldq_data B (a0 + 8) env) (\<lambda>d1 env.
             if d0 = EAX env \<and> d1 = EDX env then
               bindx (cpu_stq_data B a0 (EBX env) env) (\<lambda>_ env.
               bindx (cpu_stq_data B (a0 + 8) (ECX env) env) (\<lambda>_ env.
                 Done () (env\<lparr>cc_src := scast (eflg OR CC_Z)\<rparr>)))
             else
               bindx (cpu_stq_data B a0 d0 env) (\<lambda>_ env.
               bindx (cpu_stq_data B (a0 + 8) d1 env) (\<lambda>_ env.
                 let env = set_reg R_EDX d1 env;
                     env = set_reg R_EAX d0 env
                 in Done () (env\<lparr>cc_src := scast (eflg AND NOT CC_Z)\<rparr>)))))))"

text \<open>\<open>cpu_ldsw_data\<close> is the signed reading of \<open>cpu_lduw_data\<close>.\<close>

definition cpu_ldsw_data :: "'m cpu_bus \<Rightarrow> u64 \<Rightarrow> (u32, 'm) helper" where
  "cpu_ldsw_data B a env = bindx (cpu_lduw_data B a env) (\<lambda>v env. Done (scast v) env)"

definition helper_boundw :: "'m cpu_bus \<Rightarrow> u64 \<Rightarrow> u32 \<Rightarrow> (unit, 'm) helper" where
  "helper_boundw B a0 v env =
    bindx (cpu_ldsw_data B a0 env) (\<lambda>low env.
    bindx (cpu_ldsw_data B (a0 + 2) env) (\<lambda>high env.
      let v = scast (ucast v :: u16) :: u32
      in if sint v < sint low \<or> sint v > sint high then raise_exception B EXCP05_BOUND env
         else Done () env))"

definition helper_boundl :: "'m cpu_bus \<Rightarrow> u64 \<Rightarrow> u32 \<Rightarrow> (unit, 'm) helper" where
  "helper_boundl B a0 v env =
    bindx (cpu_ldl_data B a0 env) (\<lambda>low env.
    bindx (cpu_ldl_data B (a0 + 4) env) (\<lambda>high env.
      if sint v < sint low \<or> sint v > sint high then raise_exception B EXCP05_BOUND env
      else Done () env))"

section \<open>Compare and exchange\<close>

lemma store_back: "store_bytes M a 8 (load64 M a) = M"
proof
  fix x
  define i where "i = unat (x - a)"
  have x: "x = a + of_nat i" by (simp add: i_def)
  have "i < 8 \<Longrightarrow> word_bytes (load64 M a) i = M (a + of_nat i)"
  proof -
    assume "i < 8"
    then have "i \<in> {0, 1, 2, 3, 4, 5, 6, 7}" by auto
    then show ?thesis
      by (elim insertE emptyE) (simp_all add: word_bytes_def load64_def load32_def load16_def add.assoc,
        (rule bit_word_eqI, auto simp: bit_simps dest: bit_imp_le_length)+)
  qed
  then show "store_bytes M a 8 (load64 M a) x = M x"
    unfolding store_bytes_def i_def [symmetric] using x by simp
qed

text \<open>
  compare-and-exchange of 16 bytes on an aligned address stores ECX:EBX exactly when
  memory holds EDX:EAX, and otherwise loads memory into EDX:EAX and leaves memory as it was;
  ZF tells which, and no other flag and no other register changes.
\<close>
lemma cmpxchg16b_swaps:
  assumes "virt_ram B mem" "a0 AND 0xf = 0"
  shows "\<exists>t. helper_cmpxchg16b B a0 env = Done () t \<and>
    (let M = mem (CPUX86State.more env); M' = mem (CPUX86State.more t);
         lo = load64 M a0; hi = load64 M (a0 + 8); fl = helper_cc_compute_all env (cc_op env)
     in if lo = EAX env \<and> hi = EDX env
        then M' = store_bytes (store_bytes M a0 8 (EBX env)) (a0 + 8) 8 (ECX env) \<and>
             regs t = regs env \<and> cc_src t = scast (fl OR CC_Z)
        else M' = M \<and> regs t = (regs env)(R_EAX := lo, R_EDX := hi) \<and> cc_src t = scast (fl AND NOT CC_Z))"
proof -
  let ?M = "mem (CPUX86State.more env)"
  let ?lo = "load64 ?M a0" and ?hi = "load64 ?M (a0 + 8)"
  define hit where "hit \<longleftrightarrow> ?lo = EAX env \<and> ?hi = EDX env"
  define v0 v1 where "v0 = (if hit then EBX env else ?lo)" and "v1 = (if hit then ECX env else ?hi)"
  obtain s where s: "cpu_stq_data B a0 v0 env = Done () s" "CPUX86State.truncate s = CPUX86State.truncate env"
    "mem (CPUX86State.more s) = store_bytes ?M a0 8 v0" by (rule stores_toE [OF virt_ram_store(4) [OF assms(1)]])
  obtain t where t: "cpu_stq_data B (a0 + 8) v1 s = Done () t" "CPUX86State.truncate t = CPUX86State.truncate s"
    "mem (CPUX86State.more t) = store_bytes (mem (CPUX86State.more s)) (a0 + 8) 8 v1"
    by (rule stores_toE [OF virt_ram_store(4) [OF assms(1)]])
  have regs: "regs s = regs env" "regs t = regs s" by (rule same_regs [OF s(2)], rule same_regs [OF t(2)])
  show ?thesis
  proof (cases hit)
    case True
    then have v: "v0 = EBX env" "v1 = ECX env" "?lo = EAX env" "?hi = EDX env"
      by (simp_all add: v0_def v1_def hit_def)
    show ?thesis using assms(2) s t True v regs
      by (simp add: helper_cmpxchg16b_def virt_ram_load [OF assms(1)] Let_def)
  next
    case False
    then have v: "v0 = ?lo" "v1 = ?hi" by (simp_all add: v0_def v1_def)
    have miss: "\<not> (?lo = EAX env \<and> ?hi = EDX env)" using False by (simp only: hit_def not_False_eq_True)
    have "mem (CPUX86State.more t) = ?M" using s t v by (simp add: store_back)
    then show ?thesis
      unfolding helper_cmpxchg16b_def virt_ram_load [OF assms(1)] Let_def bindx.simps if_not_P [OF miss]
      using assms(2) s t v regs by (simp add: fun_upd_twist)
  qed
qed

text \<open>
  BOUND raises the bound range exception exactly when the signed index lies outside the
  signed limits in memory, at both operand sizes, and otherwise changes nothing.
\<close>
lemma bound_checks:
  assumes "virt_ram B mem"
  shows "let M = mem (CPUX86State.more env) in
    helper_boundl B a0 v env =
      (if sint v \<in> {sint (load32 M a0) .. sint (load32 M (a0 + 4))} then Done () env
       else raise_exception B EXCP05_BOUND env) \<and>
    helper_boundw B a0 v env =
      (if sint (ucast v :: u16) \<in> {sint (load16 M a0) .. sint (load16 M (a0 + 2))} then Done () env
       else raise_exception B EXCP05_BOUND env)"
proof -
  have sext: "sint (scast (w :: u16) :: u32) = sint w" for w
    using sint_ge [of w] sint_lt [of w]
    by (simp add: signed_scast_eq signed_take_bit_int_eq_self)
  show ?thesis
    by (auto simp: helper_boundl_def helper_boundw_def cpu_ldsw_data_def virt_ram_load [OF assms] Let_def sext)
qed

end
