(* ===== verification/MiscHelper.thy ===== *)
theory MiscHelper
  imports MemHelper DebugRegs
begin

text \<open>
  \<open>misc_helper.c\<close>: the I/O permission check and port accesses, moves to and from control
  registers, the model specific registers, the time stamp counter and the instructions that
  stop the processor; and \<open>cpu_x86_cpuid\<close> of \<open>helper.c\<close>, which CPUID reads.
\<close>

section \<open>Port I/O\<close>

definition check_io :: "'m cpu_bus \<Rightarrow> u32 \<Rightarrow> nat \<Rightarrow> (unit, 'm) helper" where
  "check_io B addr sz env =
    (if flags (tr env) AND DESC_P_MASK = 0 \<or>
        drop_bit DESC_TYPE_SHIFT (flags (tr env)) AND 0xf \<noteq> 9 \<or> limit (tr env) < 103
     then raise_exception_err B EXCP0D_GPF 0 env
     else
       bindx (cpu_lduw_kernel B (base (tr env) + 0x66) env) (\<lambda>w env.
         let io_offset = ucast w + signed_drop_bit 3 addr :: u32
         in if io_offset + 1 > limit (tr env) then raise_exception_err B EXCP0D_GPF 0 env
            else
              bindx (cpu_lduw_kernel B (base (tr env) + scast io_offset) env) (\<lambda>w env.
                let val = signed_drop_bit (unat (addr AND 7)) (ucast w :: u32);
                    mask = push_bit sz 1 - 1
                in if val AND mask \<noteq> 0 then raise_exception_err B EXCP0D_GPF 0 env
                   else Done () env)))"

definition helper_check_iob :: "'m cpu_bus \<Rightarrow> u32 \<Rightarrow> (unit, 'm) helper" where
  "helper_check_iob B t0 = check_io B t0 1"

definition helper_check_iow :: "'m cpu_bus \<Rightarrow> u32 \<Rightarrow> (unit, 'm) helper" where
  "helper_check_iow B t0 = check_io B t0 2"

definition helper_check_iol :: "'m cpu_bus \<Rightarrow> u32 \<Rightarrow> (unit, 'm) helper" where
  "helper_check_iol B t0 = check_io B t0 4"

definition helper_outb :: "'m cpu_bus \<Rightarrow> u32 \<Rightarrow> u32 \<Rightarrow> 'm CPUX86State_scheme \<Rightarrow> 'm CPUX86State_scheme" where
  "helper_outb B port data = cpu_outb B port (ucast (data AND 0xff))"

definition helper_inb :: "'m cpu_bus \<Rightarrow> u32 \<Rightarrow> 'm CPUX86State_scheme \<Rightarrow> u64 \<times> 'm CPUX86State_scheme" where
  "helper_inb B port env = apfst ucast (cpu_inb B port env)"

definition helper_outw :: "'m cpu_bus \<Rightarrow> u32 \<Rightarrow> u32 \<Rightarrow> 'm CPUX86State_scheme \<Rightarrow> 'm CPUX86State_scheme" where
  "helper_outw B port data = cpu_outw B port (ucast (data AND 0xffff))"

definition helper_inw :: "'m cpu_bus \<Rightarrow> u32 \<Rightarrow> 'm CPUX86State_scheme \<Rightarrow> u64 \<times> 'm CPUX86State_scheme" where
  "helper_inw B port env = apfst ucast (cpu_inw B port env)"

definition helper_outl :: "'m cpu_bus \<Rightarrow> u32 \<Rightarrow> u32 \<Rightarrow> 'm CPUX86State_scheme \<Rightarrow> 'm CPUX86State_scheme" where
  "helper_outl B port data = cpu_outl B port data"

definition helper_inl :: "'m cpu_bus \<Rightarrow> u32 \<Rightarrow> 'm CPUX86State_scheme \<Rightarrow> u64 \<times> 'm CPUX86State_scheme" where
  "helper_inl B port env = apfst ucast (cpu_inl B port env)"

section \<open>INTO, single step and CPUID\<close>

definition helper_into :: "'m cpu_bus \<Rightarrow> u32 \<Rightarrow> (unit, 'm) helper" where
  "helper_into B next_eip_addend env =
    (if helper_cc_compute_all env (cc_op env) AND CC_O \<noteq> 0
     then raise_interrupt B EXCP04_INTO 1 0 next_eip_addend env
     else Done () env)"

abbreviation (input) DR6_BS :: u64 where "DR6_BS \<equiv> 0x4000"

definition helper_single_step :: "'m cpu_bus \<Rightarrow> (unit, 'm) helper" where
  "helper_single_step B env =
    (let (_, env) = check_hw_breakpoints B 1 env;
         env = set_dr 6 (dr env 6 OR DR6_BS) env
     in raise_exception B EXCP01_DB env)"

text \<open>
  \<open>cpu_x86_cpuid\<close>, the values of EAX, EBX, ECX and EDX.  \<open>config.h\<close> does not define
  \<open>CONFIG_KVM\<close>, so \<open>kvm_enabled()\<close> is false here.
\<close>

abbreviation (input) CPUID_PSE36 :: u32 where "CPUID_PSE36 \<equiv> 0x20000"
abbreviation (input) CPUID_MWAIT_EMX :: u32 where "CPUID_MWAIT_EMX \<equiv> 1"
abbreviation (input) CPUID_MWAIT_IBE :: u32 where "CPUID_MWAIT_IBE \<equiv> 2"

definition cpuid_leaf :: "'m CPUX86State_scheme \<Rightarrow> u32 \<Rightarrow> u32" where
  "cpuid_leaf env index =
    (if index AND 0x80000000 \<noteq> 0 then (if index > cpuid_xlevel env then cpuid_level env else index)
     else if index > cpuid_level env then cpuid_level env else index)"

definition cpu_x86_cpuid :: "'m CPUX86State_scheme \<Rightarrow> u32 \<Rightarrow> u32 \<Rightarrow> u32 \<times> u32 \<times> u32 \<times> u32" where
  "cpu_x86_cpuid env index count =
    (let index = cpuid_leaf env index
     in if index = 0 then (cpuid_level env, cpuid_vendor1 env, cpuid_vendor3 env, cpuid_vendor2 env)
        else if index = 1 then
          (cpuid_version env, push_bit 24 (cpuid_apic_id env) OR push_bit 8 8,
           - 1 AND cpuid_ext_features env, cpuid_features env)
        else if index = 2 then (1, 0, 0, 0x2c307d)
        else if index = 4 then
          (if count = 0 then (0x0000121, 0x1c0003f, 0x000003f, 0x0000001)
           else if count = 1 then (0x0000122, 0x1c0003f, 0x000003f, 0x0000001)
           else if count = 2 then (0x0000143, 0x3c0003f, 0x0000fff, 0x0000001)
           else (0, 0, 0, 0))
        else if index = 5 then (0, 0, CPUID_MWAIT_EMX OR CPUID_MWAIT_IBE, 0)
        else if index \<in> {6, 9, 0xA} then (0, 0, 0, 0)
        else if index = 0x80000000 then
          (cpuid_xlevel env, cpuid_vendor1 env, cpuid_vendor3 env, cpuid_vendor2 env)
        else if index = 0x80000001 then
          (cpuid_features env, 0, cpuid_ext3_features env, cpuid_ext2_features env)
        else if index \<in> {0x80000002, 0x80000003, 0x80000004} then
          (let i = unat ((index - 0x80000002) * 4)
           in (cpuid_model env (i + 0), cpuid_model env (i + 1), cpuid_model env (i + 2), cpuid_model env (i + 3)))
        else if index = 0x80000005 then (0x01ff01ff, 0x01ff01ff, 0x40020140, 0x40020140)
        else if index = 0x80000006 then (0, 0x42004200, 0x02008140, 0)
        else if index = 0x80000008 then
          (if cpuid_ext2_features env AND CPUID_EXT2_LM \<noteq> 0 then 0x00003028
           else if cpuid_features env AND CPUID_PSE36 \<noteq> 0 then 0x00000024
           else 0x00000020, 0, 0, 0)
        else if index = 0x8000000A then (1, 0x10, 0, 0)
        else (0, 0, 0, 0))"

definition helper_cpuid :: "'m cpu_bus \<Rightarrow> (unit, 'm) helper" where
  "helper_cpuid B env =
    bindx (helper_svm_check_intercept_param B SVM_EXIT_CPUID 0 env) (\<lambda>_ env.
      let (eax, ebx, ecx, edx) = cpu_x86_cpuid env (ucast (EAX env)) (ucast (ECX env));
          env = set_reg R_EAX (ucast eax) env;
          env = set_reg R_EBX (ucast ebx) env;
          env = set_reg R_ECX (ucast ecx) env;
          env = set_reg R_EDX (ucast edx) env
      in Done () env)"

section \<open>Control registers\<close>

definition helper_read_crN :: "'m cpu_bus \<Rightarrow> nat \<Rightarrow> (u64, 'm) helper" where
  "helper_read_crN B reg env =
    bindx (helper_svm_check_intercept_param B (SVM_EXIT_READ_CR0 + of_nat reg) 0 env) (\<lambda>_ env.
      if reg = 8 then
        (if hflags2 env AND HF2_VINTR_MASK = 0 then Done (ucast (cpu_get_apic_tpr B env)) env
         else Done (ucast (v_tpr env)) env)
      else Done (cr env reg) env)"

definition write_crN :: "'m cpu_bus \<Rightarrow> nat \<Rightarrow> u64 \<Rightarrow> 'm CPUX86State_scheme \<Rightarrow> 'm CPUX86State_scheme" where
  "write_crN B reg t0 env =
    (if reg = 0 then cpu_x86_update_cr0 env (ucast t0)
     else if reg = 3 then cpu_x86_update_cr3 env t0
     else if reg = 4 then cpu_x86_update_cr4 env (ucast t0)
     else if reg = 8 then
       (let env = (if hflags2 env AND HF2_VINTR_MASK = 0 then cpu_set_apic_tpr B (ucast t0) env else env)
        in env\<lparr>v_tpr := ucast (t0 AND 0x0f)\<rparr>)
     else set_cr reg t0 env)"

definition helper_write_crN :: "'m cpu_bus \<Rightarrow> nat \<Rightarrow> u64 \<Rightarrow> (unit, 'm) helper" where
  "helper_write_crN B reg t0 env =
    bindx (helper_svm_check_intercept_param B (SVM_EXIT_WRITE_CR0 + of_nat reg) 0 env) (\<lambda>_ env.
      Done () (write_crN B reg t0 env))"

definition helper_lmsw :: "'m cpu_bus \<Rightarrow> u64 \<Rightarrow> (unit, 'm) helper" where
  "helper_lmsw B t0 env =
    (let t0 = (cr env 0 AND NOT 0xe) OR (t0 AND 0xf)
     in helper_write_crN B 0 t0 env)"

definition helper_invlpg :: "'m cpu_bus \<Rightarrow> u64 \<Rightarrow> (unit, 'm) helper" where
  "helper_invlpg B addr env =
    bindx (helper_svm_check_intercept_param B SVM_EXIT_INVLPG 0 env) (\<lambda>_ env.
      Done () (ext_call (TlbFlushPage addr) env))"

definition helper_rdtsc :: "'m cpu_bus \<Rightarrow> (unit, 'm) helper" where
  "helper_rdtsc B env =
    (if cr env 4 AND CR4_TSD_MASK \<noteq> 0 \<and> hflags env AND HF_CPL_MASK \<noteq> 0
     then raise_exception B EXCP0D_GPF env
     else bindx (helper_svm_check_intercept_param B SVM_EXIT_RDTSC 0 env) (\<lambda>_ env.
       let val = cpu_get_tsc B env + tsc_offset env;
           env = set_reg R_EAX (ucast (ucast val :: u32)) env;
           env = set_reg R_EDX (ucast (ucast (drop_bit 32 val) :: u32)) env
       in Done () env))"

definition helper_rdpmc :: "'m cpu_bus \<Rightarrow> (unit, 'm) helper" where
  "helper_rdpmc B env =
    (if cr env 4 AND CR4_PCE_MASK \<noteq> 0 \<and> hflags env AND HF_CPL_MASK \<noteq> 0
     then raise_exception B EXCP0D_GPF env
     else bindx (helper_svm_check_intercept_param B SVM_EXIT_RDPMC 0 env) (\<lambda>_ env.
       raise_exception_err B EXCP06_ILLOP 0 env))"

section \<open>Model specific registers\<close>

abbreviation (input) MSR_IA32_APICBASE :: u32 where "MSR_IA32_APICBASE \<equiv> 0x1b"
abbreviation (input) MSR_MTRRcap :: u32 where "MSR_MTRRcap \<equiv> 0xfe"
abbreviation (input) MSR_IA32_SYSENTER_CS :: u32 where "MSR_IA32_SYSENTER_CS \<equiv> 0x174"
abbreviation (input) MSR_IA32_SYSENTER_ESP :: u32 where "MSR_IA32_SYSENTER_ESP \<equiv> 0x175"
abbreviation (input) MSR_IA32_SYSENTER_EIP :: u32 where "MSR_IA32_SYSENTER_EIP \<equiv> 0x176"
abbreviation (input) MSR_MCG_CAP :: u32 where "MSR_MCG_CAP \<equiv> 0x179"
abbreviation (input) MSR_MCG_STATUS :: u32 where "MSR_MCG_STATUS \<equiv> 0x17a"
abbreviation (input) MSR_MCG_CTL :: u32 where "MSR_MCG_CTL \<equiv> 0x17b"
abbreviation (input) MSR_IA32_PERF_STATUS :: u32 where "MSR_IA32_PERF_STATUS \<equiv> 0x198"
abbreviation (input) MSR_MTRRfix64K_00000 :: u32 where "MSR_MTRRfix64K_00000 \<equiv> 0x250"
abbreviation (input) MSR_MTRRfix16K_80000 :: u32 where "MSR_MTRRfix16K_80000 \<equiv> 0x258"
abbreviation (input) MSR_MTRRfix4K_C0000 :: u32 where "MSR_MTRRfix4K_C0000 \<equiv> 0x268"
abbreviation (input) MSR_PAT :: u32 where "MSR_PAT \<equiv> 0x277"
abbreviation (input) MSR_MTRRdefType :: u32 where "MSR_MTRRdefType \<equiv> 0x2ff"
abbreviation (input) MSR_MC0_CTL :: u32 where "MSR_MC0_CTL \<equiv> 0x400"
abbreviation (input) MSR_EFER :: u32 where "MSR_EFER \<equiv> 0xc0000080"
abbreviation (input) MSR_STAR :: u32 where "MSR_STAR \<equiv> 0xc0000081"
abbreviation (input) MSR_LSTAR :: u32 where "MSR_LSTAR \<equiv> 0xc0000082"
abbreviation (input) MSR_CSTAR :: u32 where "MSR_CSTAR \<equiv> 0xc0000083"
abbreviation (input) MSR_FMASK :: u32 where "MSR_FMASK \<equiv> 0xc0000084"
abbreviation (input) MSR_FSBASE :: u32 where "MSR_FSBASE \<equiv> 0xc0000100"
abbreviation (input) MSR_GSBASE :: u32 where "MSR_GSBASE \<equiv> 0xc0000101"
abbreviation (input) MSR_KERNELGSBASE :: u32 where "MSR_KERNELGSBASE \<equiv> 0xc0000102"
abbreviation (input) MSR_VM_HSAVE_PA :: u32 where "MSR_VM_HSAVE_PA \<equiv> 0xc0010117"

text \<open>\<open>MSR_MTRRphysBase(0..7)\<close>, \<open>MSR_MTRRphysMask(0..7)\<close> and the fixed ranges.\<close>

definition MSR_MTRRphysBase :: "u32 set" where
  "MSR_MTRRphysBase = {0x200, 0x202, 0x204, 0x206, 0x208, 0x20a, 0x20c, 0x20e}"

definition MSR_MTRRphysMask :: "u32 set" where
  "MSR_MTRRphysMask = {0x201, 0x203, 0x205, 0x207, 0x209, 0x20b, 0x20d, 0x20f}"

definition MSR_MTRRfix16K :: "u32 set" where
  "MSR_MTRRfix16K = {0x258, 0x259}"

definition MSR_MTRRfix4K :: "u32 set" where
  "MSR_MTRRfix4K = {0x268, 0x269, 0x26a, 0x26b, 0x26c, 0x26d, 0x26e, 0x26f}"

text \<open>The bits of EFER that a guest may write, by the features of the processor.\<close>

definition efer_update_mask :: "'m CPUX86State_scheme \<Rightarrow> u64" where
  "efer_update_mask env =
    (let m = 0;
         m = (if cpuid_ext2_features env AND CPUID_EXT2_SYSCALL \<noteq> 0 then m OR MSR_EFER_SCE else m);
         m = (if cpuid_ext2_features env AND CPUID_EXT2_LM \<noteq> 0 then m OR MSR_EFER_LME else m);
         m = (if cpuid_ext2_features env AND CPUID_EXT2_FFXSR \<noteq> 0 then m OR MSR_EFER_FFXSR else m);
         m = (if cpuid_ext2_features env AND CPUID_EXT2_NX \<noteq> 0 then m OR MSR_EFER_NXE else m);
         m = (if cpuid_ext3_features env AND CPUID_EXT3_SVM \<noteq> 0 then m OR MSR_EFER_SVME else m);
         m = (if cpuid_ext2_features env AND CPUID_EXT2_FFXSR \<noteq> 0 then m OR MSR_EFER_FFXSR else m)
     in m)"

text \<open>
  The machine check banks: \<open>MSR_MC0_CTL + (4 * env->mcg_cap & 0xff)\<close> is where they end; \<open>*\<close>
  binds stronger than \<open>&\<close>.
\<close>

definition is_mce_bank_msr :: "'m CPUX86State_scheme \<Rightarrow> u32 \<Rightarrow> bool" where
  "is_mce_bank_msr env ecx \<longleftrightarrow>
    ecx \<ge> MSR_MC0_CTL \<and> (ucast ecx :: u64) < ucast MSR_MC0_CTL + ((4 * mcg_cap env) AND 0xff)"

definition set_seg_base :: "nat \<Rightarrow> u64 \<Rightarrow> 'm CPUX86State_scheme \<Rightarrow> 'm CPUX86State_scheme" where
  "set_seg_base r v env = env\<lparr>segs := (segs env)(r := (segs env r)\<lparr>base := v\<rparr>)\<rparr>"

text \<open>The switch of \<open>helper_wrmsr\<close>.\<close>

definition wrmsr :: "'m cpu_bus \<Rightarrow> u32 \<Rightarrow> u64 \<Rightarrow> 'm CPUX86State_scheme \<Rightarrow> 'm CPUX86State_scheme" where
  "wrmsr B ecx val env =
    (if ecx = MSR_IA32_SYSENTER_CS then env\<lparr>sysenter_cs := ucast (val AND 0xffff)\<rparr>
     else if ecx = MSR_IA32_SYSENTER_ESP then env\<lparr>sysenter_esp := val\<rparr>
     else if ecx = MSR_IA32_SYSENTER_EIP then env\<lparr>sysenter_eip := val\<rparr>
     else if ecx = MSR_IA32_APICBASE then cpu_set_apic_base B val env
     else if ecx = MSR_EFER then
       (let update_mask = efer_update_mask env
        in cpu_load_efer env ((efer env AND NOT update_mask) OR (val AND update_mask)))
     else if ecx = MSR_STAR then env\<lparr>star := val\<rparr>
     else if ecx = MSR_PAT then env\<lparr>pat := val\<rparr>
     else if ecx = MSR_VM_HSAVE_PA then env\<lparr>vm_hsave := val\<rparr>
     else if ecx = MSR_LSTAR then env\<lparr>lstar := val\<rparr>
     else if ecx = MSR_CSTAR then env\<lparr>cstar := val\<rparr>
     else if ecx = MSR_FMASK then env\<lparr>fmask := val\<rparr>
     else if ecx = MSR_FSBASE then set_seg_base R_FS val env
     else if ecx = MSR_GSBASE then set_seg_base R_GS val env
     else if ecx = MSR_KERNELGSBASE then env\<lparr>kernelgsbase := val\<rparr>
     else if ecx \<in> MSR_MTRRphysBase then
       (let i = unat ((ecx - 0x200) div 2)
        in env\<lparr>mtrr_var := (mtrr_var env)(i := (mtrr_var env i)\<lparr>mtrr_base := val\<rparr>)\<rparr>)
     else if ecx \<in> MSR_MTRRphysMask then
       (let i = unat ((ecx - 0x201) div 2)
        in env\<lparr>mtrr_var := (mtrr_var env)(i := (mtrr_var env i)\<lparr>mtrr_mask := val\<rparr>)\<rparr>)
     else if ecx = MSR_MTRRfix64K_00000 then
       env\<lparr>mtrr_fixed := (mtrr_fixed env)(unat (ecx - MSR_MTRRfix64K_00000) := val)\<rparr>
     else if ecx \<in> MSR_MTRRfix16K then
       env\<lparr>mtrr_fixed := (mtrr_fixed env)(unat (ecx - MSR_MTRRfix16K_80000 + 1) := val)\<rparr>
     else if ecx \<in> MSR_MTRRfix4K then
       env\<lparr>mtrr_fixed := (mtrr_fixed env)(unat (ecx - MSR_MTRRfix4K_C0000 + 3) := val)\<rparr>
     else if ecx = MSR_MTRRdefType then env\<lparr>mtrr_deftype := val\<rparr>
     else if ecx = MSR_MCG_STATUS then env\<lparr>mcg_status := val\<rparr>
     else if ecx = MSR_MCG_CTL then
       (if mcg_cap env AND MCG_CTL_P \<noteq> 0 \<and> (val = 0 \<or> val = NOT 0) then env\<lparr>mcg_ctl := val\<rparr> else env)
     else if is_mce_bank_msr env ecx then
       (let offset = ecx - MSR_MC0_CTL
        in if offset AND 0x3 \<noteq> 0 \<or> val = 0 \<or> val = NOT 0
           then env\<lparr>mce_banks := (mce_banks env)(unat offset := val)\<rparr> else env)
     else env)"

definition helper_wrmsr :: "'m cpu_bus \<Rightarrow> (unit, 'm) helper" where
  "helper_wrmsr B env =
    bindx (helper_svm_check_intercept_param B SVM_EXIT_MSR 1 env) (\<lambda>_ env.
      let val = ucast (ucast (EAX env) :: u32) OR push_bit 32 (ucast (ucast (EDX env) :: u32))
      in Done () (wrmsr B (ucast (ECX env)) val env))"

text \<open>The switch of \<open>helper_rdmsr\<close>.\<close>

definition rdmsr :: "'m cpu_bus \<Rightarrow> u32 \<Rightarrow> 'm CPUX86State_scheme \<Rightarrow> u64" where
  "rdmsr B ecx env =
    (if ecx = MSR_IA32_SYSENTER_CS then ucast (sysenter_cs env)
     else if ecx = MSR_IA32_SYSENTER_ESP then sysenter_esp env
     else if ecx = MSR_IA32_SYSENTER_EIP then sysenter_eip env
     else if ecx = MSR_IA32_APICBASE then cpu_get_apic_base B env
     else if ecx = MSR_EFER then efer env
     else if ecx = MSR_STAR then star env
     else if ecx = MSR_PAT then pat env
     else if ecx = MSR_VM_HSAVE_PA then vm_hsave env
     else if ecx = MSR_IA32_PERF_STATUS then 1000 OR push_bit 40 4
     else if ecx = MSR_LSTAR then lstar env
     else if ecx = MSR_CSTAR then cstar env
     else if ecx = MSR_FMASK then fmask env
     else if ecx = MSR_FSBASE then base (segs env R_FS)
     else if ecx = MSR_GSBASE then base (segs env R_GS)
     else if ecx = MSR_KERNELGSBASE then kernelgsbase env
     else if ecx \<in> MSR_MTRRphysBase then mtrr_base (mtrr_var env (unat ((ecx - 0x200) div 2)))
     else if ecx \<in> MSR_MTRRphysMask then mtrr_mask (mtrr_var env (unat ((ecx - 0x201) div 2)))
     else if ecx = MSR_MTRRfix64K_00000 then mtrr_fixed env 0
     else if ecx \<in> MSR_MTRRfix16K then mtrr_fixed env (unat (ecx - MSR_MTRRfix16K_80000 + 1))
     else if ecx \<in> MSR_MTRRfix4K then mtrr_fixed env (unat (ecx - MSR_MTRRfix4K_C0000 + 3))
     else if ecx = MSR_MTRRdefType then mtrr_deftype env
     else if ecx = MSR_MTRRcap then
       (if cpuid_features env AND CPUID_MTRR \<noteq> 0 then 8 OR 0x100 OR 0x400 else 0)
     else if ecx = MSR_MCG_CAP then mcg_cap env
     else if ecx = MSR_MCG_CTL then (if mcg_cap env AND MCG_CTL_P \<noteq> 0 then mcg_ctl env else 0)
     else if ecx = MSR_MCG_STATUS then mcg_status env
     else if is_mce_bank_msr env ecx then mce_banks env (unat (ecx - MSR_MC0_CTL))
     else 0)"

definition helper_rdmsr :: "'m cpu_bus \<Rightarrow> (unit, 'm) helper" where
  "helper_rdmsr B env =
    bindx (helper_svm_check_intercept_param B SVM_EXIT_MSR 0 env) (\<lambda>_ env.
      let val = rdmsr B (ucast (ECX env)) env;
          env = set_reg R_EAX (ucast (ucast val :: u32)) env;
          env = set_reg R_EDX (ucast (ucast (drop_bit 32 val) :: u32)) env
      in Done () env)"

section \<open>Stopping the processor\<close>

definition do_hlt :: "(unit, 'm) helper" where
  "do_hlt env =
    Stop CpuLoopExit (env\<lparr>hflags := hflags env AND NOT HF_INHIBIT_IRQ_MASK, halted := 1,
      exception_index := EXCP_HLT\<rparr>)"

definition helper_hlt :: "'m cpu_bus \<Rightarrow> u32 \<Rightarrow> (unit, 'm) helper" where
  "helper_hlt B next_eip_addend env =
    bindx (helper_svm_check_intercept_param B SVM_EXIT_HLT 0 env) (\<lambda>_ env.
      do_hlt (env\<lparr>eip := eip env + scast next_eip_addend\<rparr>))"

definition helper_monitor :: "'m cpu_bus \<Rightarrow> u64 \<Rightarrow> (unit, 'm) helper" where
  "helper_monitor B ptr env =
    (if (ucast (ECX env) :: u32) \<noteq> 0 then raise_exception B EXCP0D_GPF env
     else helper_svm_check_intercept_param B SVM_EXIT_MONITOR 0 env)"

definition helper_mwait :: "'m cpu_bus \<Rightarrow> u32 \<Rightarrow> (unit, 'm) helper" where
  "helper_mwait B next_eip_addend env =
    (if (ucast (ECX env) :: u32) \<noteq> 0 then raise_exception B EXCP0D_GPF env
     else bindx (helper_svm_check_intercept_param B SVM_EXIT_MWAIT 0 env) (\<lambda>_ env.
       let env = env\<lparr>eip := eip env + scast next_eip_addend\<rparr>
       in if other_cpus B env then Done () env else do_hlt env))"

definition helper_debug :: "(unit, 'm) helper" where
  "helper_debug env = Stop CpuLoopExit (env\<lparr>exception_index := EXCP_DEBUG\<rparr>)"


section \<open>The I/O permission bitmap\<close>

text \<open>The bit of a port in the map that the task state segment points to.\<close>

definition io_bit :: "(u64 \<Rightarrow> u8) \<Rightarrow> u64 \<Rightarrow> nat \<Rightarrow> bool" where
  "io_bit M map_base port \<longleftrightarrow> bit (M (map_base + of_nat (port div 8))) (port mod 8)"

lemma bit_load16: "bit (load16 M a) n \<longleftrightarrow> n < 16 \<and> bit (M (a + of_nat (n div 8))) (n mod 8)"
proof (cases "n < 8")
  case True
  then show ?thesis by (simp add: load16_def bit_simps)
next
  case False
  show ?thesis
  proof (cases "n < 16")
    case True
    with False have "n div 8 = 1" "n mod 8 = n - 8" by (auto simp: div_if mod_if)
    with True False bit_imp_le_length [of "M a" n] show ?thesis by (auto simp: load16_def bit_simps)
  next
    case F: False
    then show ?thesis using bit_imp_le_length [of "load16 M a" n] by auto
  qed
qed

text \<open>Small numbers in 32 bits.\<close>

lemma small_unat: "n < 2 ^ 31 \<Longrightarrow> unat (of_nat n :: u32) = n"
  by (simp add: unat_of_nat)

lemma small_sign: "n < 2 ^ 31 \<Longrightarrow> \<not> bit (of_nat n :: u32) 31"
  unfolding bit_of_nat_iff by (simp add: bit_iff_odd)

lemma small_scast: "n < 2 ^ 31 \<Longrightarrow> scast (of_nat n :: u32) = (of_nat n :: u64)"
proof -
  assume n: "n < 2 ^ 31"
  have top: "31 \<le> i \<Longrightarrow> i < 32 \<Longrightarrow> i = 31" for i :: nat by simp
  have "scast (of_nat n :: u32) = (ucast (of_nat n :: u32) :: u64)"
    using small_sign [OF n] by (intro bit_word_eqI) (auto simp: bit_simps min_def dest!: top split: if_splits)
  then show ?thesis using n by (metis of_nat_unat small_unat)
qed

lemma signed_drop_bit_pos: "\<not> bit w 31 \<Longrightarrow> signed_drop_bit k w = drop_bit k (w :: u32)"
proof (rule bit_word_eqI)
  fix m assume "\<not> bit w 31" "m < LENGTH(32)"
  then show "bit (signed_drop_bit k w) m \<longleftrightarrow> bit (drop_bit k w) m"
    using bit_imp_le_length [of w "k + m"] by (auto simp: bit_signed_drop_bit_iff bit_drop_bit_eq)
qed

lemma small_shift:
  assumes "n < 0x10000"
  shows "signed_drop_bit 3 (of_nat n :: u32) = of_nat (n div 8)"
proof -
  let ?w = "of_nat n :: u32"
  have n: "n < 2 ^ 31" using assms by simp
  then have "unat (signed_drop_bit 3 ?w) = unat (of_nat (n div 8) :: u32)"
    by (simp add: signed_drop_bit_pos [OF small_sign] drop_bit_eq_div unat_div_distrib small_unat)
  then show ?thesis by (simp add: word_unat_eq_iff)
qed

lemma small_low: "n < 2 ^ 31 \<Longrightarrow> unat (of_nat n AND 7 :: u32) = n mod 8"
proof -
  assume n: "n < 2 ^ 31"
  have "(of_nat n AND 7 :: u32) = take_bit 3 (of_nat n)" by (simp add: take_bit_eq_mask mask_eq_exp_minus_1)
  then show ?thesis using n by (simp only: unsigned_take_bit_eq small_unat) (simp add: take_bit_eq_mod)
qed

lemma io_window:
  assumes "sz \<le> 8" "port < 0x10000"
  shows "signed_drop_bit (port mod 8) (ucast (load16 M (a + of_nat (port div 8))) :: u32) AND (push_bit sz 1 - 1) = 0
    \<longleftrightarrow> (\<forall>i. i < sz \<longrightarrow> \<not> io_bit M a (port + i))"
proof -
  let ?w = "ucast (load16 M (a + of_nat (port div 8))) :: u32"
  have m: "push_bit sz 1 - 1 = (mask sz :: u32)" by (simp add: mask_eq_exp_minus_1)
  have sgn: "\<not> bit ?w 31" using bit_imp_le_length [of "load16 M (a + of_nat (port div 8))" 31] by (auto simp: bit_simps)
  have bits: "bit (drop_bit (port mod 8) ?w) i \<longleftrightarrow> io_bit M a (port + i)" if "i < sz" for i
  proof -
    let ?n = "port mod 8 + i"
    have "port mod 8 < 8" by simp
    with that assms(1) have n: "?n < 16" by linarith
    have split: "(8 * q + r) div 8 = q + r div 8" "(8 * q + r) mod 8 = r mod 8" for q r :: nat by simp_all
    have "port + i = 8 * (port div 8) + ?n" by simp
    then have "(port + i) div 8 = port div 8 + ?n div 8" "(port + i) mod 8 = ?n mod 8"
      using split [of "port div 8" ?n] by simp_all
    with n show ?thesis
      by (simp add: bit_drop_bit_eq bit_simps bit_load16 io_bit_def algebra_simps)
  qed
  have "drop_bit (port mod 8) ?w AND mask sz = 0 \<longleftrightarrow> (\<forall>i. i < sz \<longrightarrow> \<not> bit (drop_bit (port mod 8) ?w) i)"
    using assms(1) bit_imp_le_length [of "drop_bit (port mod 8) ?w"]
    by (simp only: bit_eq_iff bit_and_iff bit_mask_iff bit_0_eq) auto
  with bits show ?thesis unfolding m signed_drop_bit_pos [OF sgn] by simp
qed

text \<open>
  C30: the I/O permission check lets an access to a port through, unchanged, exactly when the
  task register holds a present, available 32-bit TSS of at least 104 bytes, the bitmap word
  of the port ends within its limit, and the bitmap bit of each port accessed is clear; all
  else is a general protection fault.
\<close>
theorem io_permission:
  assumes "virt_ram B mem" "sz \<in> {1, 2, 4}" "port < 0x10000"
  shows "check_io B (of_nat port) sz env =
    (let M = mem (CPUX86State.more env); tss = tr env; offs = load16 M (base tss + 0x66)
     in if flags tss AND DESC_P_MASK \<noteq> 0 \<and> drop_bit DESC_TYPE_SHIFT (flags tss) AND 0xf = 9 \<and>
           103 \<le> unat (limit tss) \<and> unat offs + port div 8 + 1 \<le> unat (limit tss) \<and>
           (\<forall>i < sz. \<not> io_bit M (base tss + ucast offs) (port + i))
        then Done () env else raise_exception_err B EXCP0D_GPF 0 env)"
proof -
  let ?M = "mem (CPUX86State.more env)" and ?tss = "tr env"
  let ?offs = "load16 ?M (base ?tss + 0x66)"
  define k where "k = unat ?offs + port div 8"
  have "unat ?offs < 2 ^ 16" using unsigned_less [of ?offs, where 'a = nat] by simp
  with assms(3) have k: "k < 0x20000" by (simp add: k_def)
  have sum: "ucast ?offs + signed_drop_bit 3 (of_nat port) = (of_nat k :: u32)"
    using assms(3) by (simp add: small_shift k_def)
  have over: "of_nat k + 1 > (limit ?tss) \<longleftrightarrow> \<not> unat ?offs + port div 8 + 1 \<le> unat (limit ?tss)"
    using k small_unat [of "Suc k"] by (simp add: word_less_nat_alt not_le k_def add.commute)
  have at: "base ?tss + scast (of_nat k :: u32) = base ?tss + ucast ?offs + of_nat (port div 8)"
  proof -
    have "scast (of_nat k :: u32) = (of_nat k :: u64)" using k by (simp add: small_scast)
    then show ?thesis by (simp only:) (simp add: k_def)
  qed
  have bitno: "unat (of_nat port AND 7 :: u32) = port mod 8"
    using assms(3) small_unat [of port] by (simp add: small_low)
  have small: "103 \<le> unat (limit ?tss) \<longleftrightarrow> \<not> limit ?tss < 103" by (simp add: word_less_nat_alt not_less)
  have sz: "sz \<le> 8" using assms(2) by auto
  show ?thesis
    unfolding check_io_def virt_ram_load [OF assms(1)] bindx.simps Let_def sum over at bitno small
      io_window [OF sz assms(3)]
    by auto
qed

theorem io_permission_witness:
  "check_io flat_bus 0x60 1 (ram_zero\<lparr>tr := \<lparr>selector = 0, base = 0, limit = 0x2000, flags = 0x8900\<rparr>\<rparr>) =
    Done () (ram_zero\<lparr>tr := \<lparr>selector = 0, base = 0, limit = 0x2000, flags = 0x8900\<rparr>\<rparr>)"
  using io_permission [OF flat_virt_ram, of 1 "0x60"
      "ram_zero\<lparr>tr := \<lparr>selector = 0, base = 0, limit = 0x2000, flags = 0x8900\<rparr>\<rparr>"]
  by (simp add: Let_def io_bit_def)

section \<open>Model specific registers\<close>

text \<open>The registers that a write sets as a whole.\<close>

definition plain_msrs :: "u32 set" where
  "plain_msrs = {MSR_IA32_SYSENTER_ESP, MSR_IA32_SYSENTER_EIP, MSR_STAR, MSR_PAT, MSR_VM_HSAVE_PA, MSR_LSTAR,
     MSR_CSTAR, MSR_FMASK, MSR_FSBASE, MSR_GSBASE, MSR_KERNELGSBASE, MSR_MTRRfix64K_00000, MSR_MTRRdefType,
     MSR_MCG_STATUS} \<union> MSR_MTRRphysBase \<union> MSR_MTRRphysMask \<union> MSR_MTRRfix16K \<union> MSR_MTRRfix4K"

lemmas msr_ranges = MSR_MTRRphysBase_def MSR_MTRRphysMask_def MSR_MTRRfix16K_def MSR_MTRRfix4K_def

lemma if_keeps:
  "(c \<Longrightarrow> f x = y) \<Longrightarrow> (\<not> c \<Longrightarrow> f z = y) \<Longrightarrow> f (if c then x else z) = y"
  by simp

lemma rdmsr_wrmsr_same:
  assumes "c \<in> plain_msrs"
  shows "rdmsr B c (wrmsr B c v env) = v"
proof -
  have perf: "c \<noteq> MSR_IA32_PERF_STATUS" using assms unfolding plain_msrs_def msr_ranges by auto
  show ?thesis
    using assms perf unfolding wrmsr_def Let_def plain_msrs_def
    by (intro if_keeps [where f = "rdmsr B c"]) (simp_all add: rdmsr_def set_seg_base_def msr_ranges)
qed

text \<open>No two registers share a place in the state.\<close>

lemma mtrr_places:
  "c \<in> MSR_MTRRphysBase \<Longrightarrow> d \<in> MSR_MTRRphysBase \<Longrightarrow> unat ((c - 0x200) div 2) = unat ((d - 0x200) div 2) \<longleftrightarrow> c = d"
  "c \<in> MSR_MTRRphysMask \<Longrightarrow> d \<in> MSR_MTRRphysMask \<Longrightarrow> unat ((c - 0x201) div 2) = unat ((d - 0x201) div 2) \<longleftrightarrow> c = d"
  unfolding msr_ranges by (elim insertE emptyE; simp)+

definition mtrr_fixed_place :: "u32 \<Rightarrow> nat" where
  "mtrr_fixed_place c = (if c = MSR_MTRRfix64K_00000 then 0
     else if c \<in> MSR_MTRRfix16K then unat (c - MSR_MTRRfix16K_80000 + 1)
     else unat (c - MSR_MTRRfix4K_C0000 + 3))"

lemma mtrr_fixed_places:
  assumes "c \<in> insert MSR_MTRRfix64K_00000 (MSR_MTRRfix16K \<union> MSR_MTRRfix4K)"
    and "d \<in> insert MSR_MTRRfix64K_00000 (MSR_MTRRfix16K \<union> MSR_MTRRfix4K)"
  shows "mtrr_fixed_place c = mtrr_fixed_place d \<longleftrightarrow> c = d"
proof -
  define reg_of :: "nat \<Rightarrow> u32" where
    "reg_of = (\<lambda>n. if n = 0 then 0x250 else if n < 3 then 0x257 + of_nat n else 0x265 + of_nat n)"
  have "reg_of (mtrr_fixed_place c) = c"
    if "c \<in> insert MSR_MTRRfix64K_00000 (MSR_MTRRfix16K \<union> MSR_MTRRfix4K)" for c
    using that unfolding msr_ranges mtrr_fixed_place_def reg_of_def by (elim UnE insertE emptyE) simp_all
  with assms show ?thesis by metis
qed

text \<open>
  What a register reads depends on its own place only.  (The APIC base is kept by the APIC,
  outside the repository.)
\<close>

lemma cpu_load_efer_fields: "cpu_load_efer env v = env\<lparr>efer := v, hflags := hflags (cpu_load_efer env v)\<rparr>"
  by (simp add: cpu_load_efer_def Let_def)

lemma rdmsr_frame:
  assumes "c' \<noteq> MSR_IA32_APICBASE"
  shows
    "c' \<noteq> MSR_IA32_SYSENTER_CS \<Longrightarrow> rdmsr B c' (env\<lparr>sysenter_cs := w\<rparr>) = rdmsr B c' env"
    "c' \<noteq> MSR_IA32_SYSENTER_ESP \<Longrightarrow> rdmsr B c' (env\<lparr>sysenter_esp := v\<rparr>) = rdmsr B c' env"
    "c' \<noteq> MSR_IA32_SYSENTER_EIP \<Longrightarrow> rdmsr B c' (env\<lparr>sysenter_eip := v\<rparr>) = rdmsr B c' env"
    "c' \<noteq> MSR_STAR \<Longrightarrow> rdmsr B c' (env\<lparr>star := v\<rparr>) = rdmsr B c' env"
    "c' \<noteq> MSR_PAT \<Longrightarrow> rdmsr B c' (env\<lparr>pat := v\<rparr>) = rdmsr B c' env"
    "c' \<noteq> MSR_VM_HSAVE_PA \<Longrightarrow> rdmsr B c' (env\<lparr>vm_hsave := v\<rparr>) = rdmsr B c' env"
    "c' \<noteq> MSR_LSTAR \<Longrightarrow> rdmsr B c' (env\<lparr>lstar := v\<rparr>) = rdmsr B c' env"
    "c' \<noteq> MSR_CSTAR \<Longrightarrow> rdmsr B c' (env\<lparr>cstar := v\<rparr>) = rdmsr B c' env"
    "c' \<noteq> MSR_FMASK \<Longrightarrow> rdmsr B c' (env\<lparr>fmask := v\<rparr>) = rdmsr B c' env"
    "c' \<noteq> MSR_KERNELGSBASE \<Longrightarrow> rdmsr B c' (env\<lparr>kernelgsbase := v\<rparr>) = rdmsr B c' env"
    "c' \<noteq> MSR_MTRRdefType \<Longrightarrow> rdmsr B c' (env\<lparr>mtrr_deftype := v\<rparr>) = rdmsr B c' env"
    "c' \<noteq> MSR_MCG_STATUS \<Longrightarrow> rdmsr B c' (env\<lparr>mcg_status := v\<rparr>) = rdmsr B c' env"
    "c' \<noteq> MSR_MCG_CTL \<Longrightarrow> rdmsr B c' (env\<lparr>mcg_ctl := v\<rparr>) = rdmsr B c' env"
    "c' \<noteq> MSR_EFER \<Longrightarrow> rdmsr B c' (env\<lparr>efer := v, hflags := h\<rparr>) = rdmsr B c' env"
    "c' \<noteq> MSR_FSBASE \<Longrightarrow> rdmsr B c' (set_seg_base R_FS v env) = rdmsr B c' env"
    "c' \<noteq> MSR_GSBASE \<Longrightarrow> rdmsr B c' (set_seg_base R_GS v env) = rdmsr B c' env"
  using assms
  by (simp_all add: rdmsr_def is_mce_bank_msr_def set_seg_base_def Let_def split del: if_split cong: if_cong)

lemma mtrr_var_keeps:
  "mtrr_mask ((f(i := (f i)\<lparr>mtrr_base := v\<rparr>)) j) = mtrr_mask (f j)"
  "mtrr_base ((f(i := (f i)\<lparr>mtrr_mask := v\<rparr>)) j) = mtrr_base (f j)"
  by simp_all

lemma rdmsr_frame_tables:
  assumes "c' \<noteq> MSR_IA32_APICBASE"
  shows
    "(c' \<in> MSR_MTRRphysBase \<Longrightarrow> unat ((c' - 0x200) div 2) \<noteq> i) \<Longrightarrow>
       rdmsr B c' (env\<lparr>mtrr_var := (mtrr_var env)(i := (mtrr_var env i)\<lparr>mtrr_base := v\<rparr>)\<rparr>) = rdmsr B c' env"
    "(c' \<in> MSR_MTRRphysMask \<Longrightarrow> unat ((c' - 0x201) div 2) \<noteq> i) \<Longrightarrow>
       rdmsr B c' (env\<lparr>mtrr_var := (mtrr_var env)(i := (mtrr_var env i)\<lparr>mtrr_mask := v\<rparr>)\<rparr>) = rdmsr B c' env"
    "(c' \<ge> MSR_MC0_CTL \<Longrightarrow> unat (c' - MSR_MC0_CTL) \<noteq> i) \<Longrightarrow>
       rdmsr B c' (env\<lparr>mce_banks := (mce_banks env)(i := v)\<rparr>) = rdmsr B c' env"
  using assms
  by (simp_all add: rdmsr_def is_mce_bank_msr_def mtrr_var_keeps fun_upd_other del: fun_upd_apply
      split del: if_split cong: if_cong conj_cong)

lemma rdmsr_frame_fixed:
  assumes "c' \<noteq> MSR_IA32_APICBASE"
    and "c' \<in> insert MSR_MTRRfix64K_00000 (MSR_MTRRfix16K \<union> MSR_MTRRfix4K) \<Longrightarrow> mtrr_fixed_place c' \<noteq> i"
  shows "rdmsr B c' (env\<lparr>mtrr_fixed := (mtrr_fixed env)(i := v)\<rparr>) = rdmsr B c' env"
proof -
  have "c' = MSR_MTRRfix64K_00000 \<Longrightarrow> ((mtrr_fixed env)(i := v)) 0 = mtrr_fixed env 0"
    and "c' \<in> MSR_MTRRfix16K \<Longrightarrow> c' \<noteq> MSR_MTRRfix64K_00000 \<Longrightarrow> unat (c' - MSR_MTRRfix16K_80000 + 1) \<noteq> i"
    and "c' \<in> MSR_MTRRfix4K \<Longrightarrow> c' \<notin> MSR_MTRRfix16K \<Longrightarrow> c' \<noteq> MSR_MTRRfix64K_00000 \<Longrightarrow> unat (c' - MSR_MTRRfix4K_C0000 + 3) \<noteq> i"
    using assms(2) by (auto simp: mtrr_fixed_place_def)
  then show ?thesis using assms(1)
    by (simp add: rdmsr_def is_mce_bank_msr_def fun_upd_other del: fun_upd_apply split del: if_split cong: if_cong conj_cong)
qed

lemma rdmsr_wrmsr_other:
  assumes "c' \<noteq> c" "c' \<noteq> MSR_IA32_APICBASE" "c \<noteq> MSR_IA32_APICBASE"
  shows "rdmsr B c' (wrmsr B c v env) = rdmsr B c' env"
proof -
  have fixed: "c \<in> insert MSR_MTRRfix64K_00000 (MSR_MTRRfix16K \<union> MSR_MTRRfix4K) \<Longrightarrow>
      rdmsr B c' (env\<lparr>mtrr_fixed := (mtrr_fixed env)(mtrr_fixed_place c := v)\<rparr>) = rdmsr B c' env"
    by (rule rdmsr_frame_fixed [OF assms(2)]) (use assms(1) mtrr_fixed_places in blast)
  have zero: "c = MSR_MTRRfix64K_00000 \<Longrightarrow>
      rdmsr B c' (env\<lparr>mtrr_fixed := (mtrr_fixed env)(0 := v)\<rparr>) = rdmsr B c' env"
    using fixed by (simp add: mtrr_fixed_place_def)
  have bank: "c \<ge> MSR_MC0_CTL \<Longrightarrow>
      rdmsr B c' (env\<lparr>mce_banks := (mce_banks env)(unat (c - MSR_MC0_CTL) := v)\<rparr>) = rdmsr B c' env"
    by (rule rdmsr_frame_tables(3) [OF assms(2)]) (use assms(1) in \<open>simp flip: word_unat_eq_iff\<close>)
  have efer: "c' \<noteq> MSR_EFER \<Longrightarrow> rdmsr B c' (cpu_load_efer env x) = rdmsr B c' env" for x
    by (subst cpu_load_efer_fields) (rule rdmsr_frame [OF assms(2)])
  have base: "c \<in> MSR_MTRRphysBase \<Longrightarrow> c' \<in> MSR_MTRRphysBase \<Longrightarrow> unat ((c' - 0x200) div 2) \<noteq> unat ((c - 0x200) div 2)"
    and mask: "c \<in> MSR_MTRRphysMask \<Longrightarrow> c' \<in> MSR_MTRRphysMask \<Longrightarrow> unat ((c' - 0x201) div 2) \<noteq> unat ((c - 0x201) div 2)"
    using mtrr_places assms(1) by metis+
  have place: "c = MSR_MTRRfix64K_00000 \<Longrightarrow> unat (c - MSR_MTRRfix64K_00000) = mtrr_fixed_place c"
    "c \<in> MSR_MTRRfix16K \<Longrightarrow> unat (c - MSR_MTRRfix16K_80000 + 1) = mtrr_fixed_place c"
    "c \<in> MSR_MTRRfix4K \<Longrightarrow> unat (c - MSR_MTRRfix4K_C0000 + 3) = mtrr_fixed_place c"
    unfolding msr_ranges by (auto simp: mtrr_fixed_place_def msr_ranges)
  show ?thesis
    using assms(1) unfolding wrmsr_def Let_def
    by (intro if_keeps [where f = "rdmsr B c'"]; (simp only: place)?;
        simp add: rdmsr_frame [OF assms(2)] rdmsr_frame_tables(1,2) [OF assms(2)] assms(3) base mask fixed zero bank efer is_mce_bank_msr_def del: fun_upd_apply)
qed


text \<open>What a register reads after a write, where it is not EFER; \<open>old\<close> is what it read before.\<close>

definition msr_written :: "'m CPUX86State_scheme \<Rightarrow> u32 \<Rightarrow> u64 \<Rightarrow> u64 \<Rightarrow> u64" where
  "msr_written env c v old =
    (if c \<in> plain_msrs then v
     else if c = MSR_IA32_SYSENTER_CS then take_bit 16 v
     else if c = MSR_MCG_CTL then (if bit (mcg_cap env) 8 \<and> (v = 0 \<or> v = - 1) then v else old)
     else if is_mce_bank_msr env c then (if (c - MSR_MC0_CTL) mod 4 \<noteq> 0 \<or> v = 0 \<or> v = - 1 then v else old)
     else old)"

text \<open>The bits of EFER that exist, by the features of the processor.\<close>

definition efer_writable :: "'m CPUX86State_scheme \<Rightarrow> nat \<Rightarrow> bool" where
  "efer_writable env n \<longleftrightarrow>
     n = 0 \<and> bit (cpuid_ext2_features env) 11 \<or> n = 8 \<and> bit (cpuid_ext2_features env) 29 \<or>
     n = 11 \<and> bit (cpuid_ext2_features env) 20 \<or> n = 12 \<and> bit (cpuid_ext3_features env) 2 \<or>
     n = 14 \<and> bit (cpuid_ext2_features env) 25"

lemma efer_update_mask_bit: "bit (efer_update_mask env) n \<longleftrightarrow> efer_writable env n"
proof -
  have masks: "w AND CPUID_EXT2_SYSCALL = 0 \<longleftrightarrow> \<not> bit w 11" "w AND CPUID_EXT2_LM = 0 \<longleftrightarrow> \<not> bit w 29"
    "w AND CPUID_EXT2_FFXSR = 0 \<longleftrightarrow> \<not> bit w 25" "w AND CPUID_EXT2_NX = 0 \<longleftrightarrow> \<not> bit w 20"
    "w AND CPUID_EXT3_SVM = 0 \<longleftrightarrow> \<not> bit w 2" for w :: u32
    using and_mask_bit [of w 11] and_mask_bit [of w 29] and_mask_bit [of w 25] and_mask_bit [of w 20]
      and_mask_bit [of w 2] by auto
  have const: "bit (1 :: u64) n \<longleftrightarrow> n = 0" "bit (0x100 :: u64) n \<longleftrightarrow> n = 8" "bit (0x800 :: u64) n \<longleftrightarrow> n = 11"
    "bit (0x1000 :: u64) n \<longleftrightarrow> n = 12" "bit (0x4000 :: u64) n \<longleftrightarrow> n = 14"
    using bit_exp_iff [of 8 n, where ?'a = u64] bit_exp_iff [of 11 n, where ?'a = u64] bit_exp_iff [of 12 n, where ?'a = u64]
      bit_exp_iff [of 14 n, where ?'a = u64] by (auto simp: bit_1_iff)
  have add_bits: "bit (if P then m OR k else m) n \<longleftrightarrow> bit m n \<or> P \<and> bit k n" for P and m k :: u64
    by (simp add: bit_or_iff)
  show ?thesis
    unfolding efer_update_mask_def Let_def masks by (simp only: add_bits bit_0_eq const efer_writable_def) auto
qed

lemma rdmsr_wrmsr_efer:
  "bit (rdmsr B MSR_EFER (wrmsr B MSR_EFER v env)) n = (if efer_writable env n then bit v n else bit (efer env) n)"
proof -
  have "rdmsr B MSR_EFER (wrmsr B MSR_EFER v env) = (efer env AND NOT (efer_update_mask env)) OR (v AND efer_update_mask env)"
    by (simp add: rdmsr_def wrmsr_def Let_def)
  then show ?thesis
    by (auto simp: bit_or_iff bit_and_iff bit_not_iff efer_update_mask_bit dest: bit_imp_le_length)
qed

lemma mce_bank_range:
  assumes "is_mce_bank_msr env c"
  shows "0x400 \<le> c" "c < 0x500"
proof -
  have "(x AND 0xff :: u64) = take_bit 8 x" for x by (simp add: take_bit_eq_mask mask_eq_exp_minus_1)
  then have bound: "unat (x AND 0xff :: u64) < 2 ^ 8" for x by (simp only: unsigned_take_bit_eq take_bit_nat_less_exp)
  have wide: "unat (ucast c :: u64) = unat c"
    using unsigned_less [of c, where ?'a = nat] by (simp add: unsigned_ucast_eq take_bit_nat_eq_self)
  have "unat ((4 * mcg_cap env) AND 0xff) < 2 ^ 8" by (rule bound)
  then have "unat (0x400 + ((4 * mcg_cap env) AND 0xff)) < 0x500" by (simp add: unat_word_ariths)
  with assms wide show "0x400 \<le> c" "c < 0x500"
    by (simp_all add: is_mce_bank_msr_def word_less_nat_alt)
qed

lemma rdmsr_bank:
  assumes "is_mce_bank_msr env c" "mcg_cap e = mcg_cap env"
  shows "rdmsr B c e = mce_banks e (unat (c - MSR_MC0_CTL))"
proof -
  have "is_mce_bank_msr e c" using assms by (simp add: is_mce_bank_msr_def)
  moreover have "c \<noteq> MSR_EFER" "c \<noteq> MSR_STAR" "c \<noteq> MSR_LSTAR" "c \<noteq> MSR_CSTAR" "c \<noteq> MSR_FMASK" "c \<noteq> MSR_FSBASE"
    "c \<noteq> MSR_GSBASE" "c \<noteq> MSR_KERNELGSBASE" "c \<noteq> MSR_VM_HSAVE_PA" using mce_bank_range(2) [OF assms(1)] by auto
  moreover have "c \<noteq> x" if "x < 0x400" for x using mce_bank_range(1) [OF assms(1)] that by auto
  ultimately show ?thesis unfolding rdmsr_def msr_ranges by simp
qed

lemma rdmsr_wrmsr_written:
  assumes "c \<noteq> MSR_IA32_APICBASE" "c \<noteq> MSR_EFER"
  shows "rdmsr B c (wrmsr B c v env) = msr_written env c v (rdmsr B c env)"
proof (cases "c \<in> plain_msrs")
  case True
  then show ?thesis by (simp add: rdmsr_wrmsr_same msr_written_def)
next
  case False
  have mcg: "x AND MCG_CTL_P = 0 \<longleftrightarrow> \<not> bit x 8" for x :: u64 using and_mask_bit [of x 8] by auto
  have low: "x AND 0x3 = x mod 4" for x :: u32
  proof -
    have "x AND 0x3 = take_bit 2 x" by (simp add: take_bit_eq_mask mask_eq_exp_minus_1)
    then show ?thesis by (simp add: take_bit_eq_mod)
  qed
  have w: "wrmsr B c v env =
      (if c = MSR_IA32_SYSENTER_CS then env\<lparr>sysenter_cs := ucast (v AND 0xffff)\<rparr>
       else if c = MSR_MCG_CTL then
         (if mcg_cap env AND MCG_CTL_P \<noteq> 0 \<and> (v = 0 \<or> v = NOT 0) then env\<lparr>mcg_ctl := v\<rparr> else env)
       else if is_mce_bank_msr env c then
         (let offset = c - MSR_MC0_CTL
          in if offset AND 0x3 \<noteq> 0 \<or> v = 0 \<or> v = NOT 0
             then env\<lparr>mce_banks := (mce_banks env)(unat offset := v)\<rparr> else env)
       else env)"
    using False assms unfolding plain_msrs_def wrmsr_def by simp
  have cs: "ucast ((ucast v :: u32) AND 0xffff) = take_bit 16 v"
  proof -
    have "ucast ((ucast v :: u32) AND mask 16) = take_bit 16 v" by (rule bit_word_eqI) (auto simp: bit_simps)
    then show ?thesis by (simp add: mask_eq_exp_minus_1)
  qed
  show ?thesis
  proof (cases "is_mce_bank_msr env c")
    case True
    then have "c \<noteq> MSR_IA32_SYSENTER_CS" "c \<noteq> MSR_MCG_CTL" using mce_bank_range(1) [OF True] by auto
    then show ?thesis using True False
      by (simp add: w msr_written_def Let_def rdmsr_bank [OF True] low)
  next
    case bank: False
    consider "c = MSR_IA32_SYSENTER_CS" | "c = MSR_MCG_CTL" | "c \<noteq> MSR_IA32_SYSENTER_CS" "c \<noteq> MSR_MCG_CTL" by blast
    then show ?thesis
    proof cases
      case 1
      then have "wrmsr B c v env = env\<lparr>sysenter_cs := ucast (v AND 0xffff)\<rparr>" by (simp add: wrmsr_def)
      with 1 False show ?thesis by (simp add: msr_written_def rdmsr_def cs)
    next
      case 2
      then have "rdmsr B c e = (if bit (mcg_cap e) 8 then mcg_ctl e else 0)" for e :: "'a CPUX86State_scheme"
        by (simp add: rdmsr_def mcg msr_ranges)
      with 2 False show ?thesis unfolding w by (simp add: msr_written_def mcg)
    next
      case 3
      with bank False show ?thesis by (simp add: w msr_written_def)
    qed
  qed
qed

text \<open>
  C31: writing a model specific register leaves every other register (but the APIC base, which
  the APIC keeps) as it reads before: no two of them, among the memory type ranges in
  particular, share a place.  The register itself then reads as follows: of EFER, the bits that the
  processor's features allow are those written and the others are kept; SYSENTER_CS holds 16 bits;
  MCG_CTL and the control registers of the machine check banks accept only all zeros and all ones
  (MCG_CTL only where it exists); the registers that cannot be written keep their value; and every
  other register reads as the value written.
\<close>
theorem msr_read_write:
  assumes "c \<noteq> MSR_IA32_APICBASE" "c' \<noteq> MSR_IA32_APICBASE"
  shows "(c' \<noteq> c \<longrightarrow> rdmsr B c' (wrmsr B c v env) = rdmsr B c' env) \<and>
    (c \<noteq> MSR_EFER \<longrightarrow> rdmsr B c (wrmsr B c v env) = msr_written env c v (rdmsr B c env)) \<and>
    (\<forall>n. bit (rdmsr B MSR_EFER (wrmsr B MSR_EFER v env)) n =
      (if efer_writable env n then bit v n else bit (rdmsr B MSR_EFER env) n))"
proof -
  have "rdmsr B MSR_EFER env = efer env" by (simp add: rdmsr_def)
  then show ?thesis using assms by (simp add: rdmsr_wrmsr_other rdmsr_wrmsr_written rdmsr_wrmsr_efer)
qed

theorem msr_read_write_witness:
  "rdmsr flat_bus 0x268 (wrmsr flat_bus 0x259 5 ram_zero) = rdmsr flat_bus 0x268 ram_zero \<and>
   rdmsr flat_bus 0x268 (wrmsr flat_bus 0x268 5 ram_zero) = 5 \<and>
   rdmsr flat_bus 0x174 (wrmsr flat_bus 0x174 0x12345 ram_zero) = 0x2345"
  using msr_read_write [of "0x259" "0x268" flat_bus 5 ram_zero] msr_read_write [of "0x268" "0x268" flat_bus 5 ram_zero]
    msr_read_write [of "0x174" "0x174" flat_bus "0x12345" ram_zero]
  by (simp add: plain_msrs_def msr_ranges msr_written_def)

end
