(* ===== verification/FarCalls.thy ===== *)
theory FarCalls
  imports Interrupts
begin

text \<open>
  Transfers of control that change the code segment, after \<open>seg_helper.c\<close>: SYSCALL and SYSRET,
  SYSENTER and SYSEXIT, far jumps, calls and returns in real and protected mode, and ENTER.
\<close>

section \<open>SYSCALL, SYSRET, SYSENTER, SYSEXIT\<close>

text \<open>The descriptors they load without reading any table, and the bits for level 3.\<close>

abbreviation (input) CODE32 :: u32 where
  "CODE32 \<equiv> DESC_G_MASK OR DESC_B_MASK OR DESC_P_MASK OR DESC_S_MASK OR DESC_CS_MASK OR DESC_R_MASK OR DESC_A_MASK"
abbreviation (input) CODE64 :: u32 where
  "CODE64 \<equiv> DESC_G_MASK OR DESC_P_MASK OR DESC_S_MASK OR DESC_CS_MASK OR DESC_R_MASK OR DESC_A_MASK OR DESC_L_MASK"
abbreviation (input) DATA32 :: u32 where
  "DATA32 \<equiv> DESC_G_MASK OR DESC_B_MASK OR DESC_P_MASK OR DESC_S_MASK OR DESC_W_MASK OR DESC_A_MASK"
abbreviation (input) DPL3 :: u32 where "DPL3 \<equiv> push_bit DESC_DPL_SHIFT 3"

definition load_flat :: "nat \<Rightarrow> u32 \<Rightarrow> u32 \<Rightarrow> 'm CPUX86State_scheme \<Rightarrow> 'm CPUX86State_scheme" where
  "load_flat seg_reg sel fl env = cpu_x86_load_seg_cache env seg_reg sel 0 0xffffffff fl"

definition helper_syscall :: "'m cpu_bus \<Rightarrow> u32 \<Rightarrow> (unit, 'm) helper" where
  "helper_syscall B next_eip_addend env =
    (if efer env AND MSR_EFER_SCE = 0 then raise_exception_err B EXCP06_ILLOP 0 env
     else
       (let sel = ucast (drop_bit 32 (star env) AND 0xffff) :: u32
        in if hflags env AND HF_LMA_MASK \<noteq> 0 then
             (let env = set_reg R_ECX (eip env + scast next_eip_addend) env;
                  env = set_reg 11 (ucast (cpu_compute_eflags env)) env;
                  code64 = hflags env AND HF_CS64_MASK;
                  env = cpu_x86_set_cpl env 0;
                  env = load_flat R_CS (sel AND 0xfffc) CODE64 env;
                  env = load_flat R_SS ((sel + 8) AND 0xfffc) DATA32 env;
                  env = env\<lparr>eflags := eflags env AND NOT (fmask env)\<rparr>;
                  env = cpu_load_eflags env (ucast (eflags env)) 0
              in Done () (env\<lparr>eip := (if code64 \<noteq> 0 then lstar env else cstar env)\<rparr>))
           else
             (let env = set_reg R_ECX (ucast (ucast (eip env + scast next_eip_addend) :: u32)) env;
                  env = cpu_x86_set_cpl env 0;
                  env = load_flat R_CS (sel AND 0xfffc) CODE32 env;
                  env = load_flat R_SS ((sel + 8) AND 0xfffc) DATA32 env;
                  env = env\<lparr>eflags := eflags env AND NOT (IF_MASK OR RF_MASK OR VM_MASK)\<rparr>
              in Done () (env\<lparr>eip := ucast (ucast (star env) :: u32)\<rparr>))))"

definition helper_sysret :: "'m cpu_bus \<Rightarrow> u32 \<Rightarrow> (unit, 'm) helper" where
  "helper_sysret B dflag env =
    (if efer env AND MSR_EFER_SCE = 0 then raise_exception_err B EXCP06_ILLOP 0 env
     else if cr env 0 AND CR0_PE_MASK = 0 \<or> CPL env \<noteq> 0 then raise_exception_err B EXCP0D_GPF 0 env
     else
       (let sel = ucast (drop_bit 48 (star env) AND 0xffff) :: u32
        in if hflags env AND HF_LMA_MASK \<noteq> 0 then
             (let env = (if dflag = 2
                    then (load_flat R_CS ((sel + 16) OR 3) (CODE64 OR DPL3) env)\<lparr>eip := ECX env\<rparr>
                    else (load_flat R_CS (sel OR 3) (CODE32 OR DPL3) env)\<lparr>eip := ucast (ucast (ECX env) :: u32)\<rparr>);
                  env = load_flat R_SS (sel + 8) (DATA32 OR DPL3) env;
                  env = cpu_load_eflags env (ucast (regs env 11))
                    (TF_MASK OR AC_MASK OR ID_MASK OR IF_MASK OR IOPL_MASK OR VM_MASK OR RF_MASK OR NT_MASK)
              in Done () (cpu_x86_set_cpl env 3))
           else
             (let env = (load_flat R_CS (sel OR 3) (CODE32 OR DPL3) env)\<lparr>eip := ucast (ucast (ECX env) :: u32)\<rparr>;
                  env = load_flat R_SS (sel + 8) (DATA32 OR DPL3) env;
                  env = env\<lparr>eflags := eflags env OR IF_MASK\<rparr>
              in Done () (cpu_x86_set_cpl env 3))))"

definition helper_sysenter :: "'m cpu_bus \<Rightarrow> (unit, 'm) helper" where
  "helper_sysenter B env =
    (if sysenter_cs env = 0 then raise_exception_err B EXCP0D_GPF 0 env
     else
       (let env = env\<lparr>eflags := eflags env AND NOT (VM_MASK OR IF_MASK OR RF_MASK)\<rparr>;
            env = cpu_x86_set_cpl env 0;
            env = load_flat R_CS (sysenter_cs env AND 0xfffc)
                    (if hflags env AND HF_LMA_MASK \<noteq> 0 then CODE32 OR DESC_L_MASK else CODE32) env;
            env = load_flat R_SS ((sysenter_cs env + 8) AND 0xfffc) DATA32 env;
            env = set_reg R_ESP (sysenter_esp env) env
        in Done () (env\<lparr>eip := sysenter_eip env\<rparr>)))"

definition helper_sysexit :: "'m cpu_bus \<Rightarrow> u32 \<Rightarrow> (unit, 'm) helper" where
  "helper_sysexit B dflag env =
    (if sysenter_cs env = 0 \<or> CPL env \<noteq> 0 then raise_exception_err B EXCP0D_GPF 0 env
     else
       (let env = cpu_x86_set_cpl env 3;
            env = (if dflag = 2 then
                (let env = load_flat R_CS (((sysenter_cs env + 32) AND 0xfffc) OR 3) (CODE32 OR DPL3 OR DESC_L_MASK) env
                 in load_flat R_SS (((sysenter_cs env + 40) AND 0xfffc) OR 3) (DATA32 OR DPL3) env)
              else
                (let env = load_flat R_CS (((sysenter_cs env + 16) AND 0xfffc) OR 3) (CODE32 OR DPL3) env
                 in load_flat R_SS (((sysenter_cs env + 24) AND 0xfffc) OR 3) (DATA32 OR DPL3) env));
            env = set_reg R_ESP (ECX env) env
        in Done () (env\<lparr>eip := EDX env\<rparr>)))"

section \<open>Far jumps\<close>

text \<open>
  What a direct jump or call tests of a code segment.  (\<open>helper_ljmp_protected\<close> and
  \<open>helper_lcall_protected\<close> have the same code.)
\<close>

definition direct_cs_check :: "u32 \<Rightarrow> u32 \<Rightarrow> u32 \<Rightarrow> u32 option" where
  "direct_cs_check cpl rpl e2 =
    (let dpl = DPL e2
     in if e2 AND DESC_CS_MASK = 0 then Some EXCP0D_GPF
        else if e2 AND DESC_C_MASK \<noteq> 0 \<and> dpl > cpl then Some EXCP0D_GPF
        else if e2 AND DESC_C_MASK = 0 \<and> rpl > cpl then Some EXCP0D_GPF
        else if e2 AND DESC_C_MASK = 0 \<and> dpl \<noteq> cpl then Some EXCP0D_GPF
        else if e2 AND DESC_P_MASK = 0 then Some EXCP0B_NOSEG
        else None)"

text \<open>A jump through a call gate.\<close>

definition ljmp_gate :: "'m cpu_bus \<Rightarrow> u32 \<Rightarrow> u32 \<Rightarrow> u32 \<Rightarrow> u32 \<Rightarrow> (unit, 'm) helper" where
  "ljmp_gate B new_cs type e1 e2 env =
    (let cpl = CPL env; rpl = new_cs AND 3
     in if DPL e2 < cpl \<or> DPL e2 < rpl then sel_fault B EXCP0D_GPF new_cs env
        else if e2 AND DESC_P_MASK = 0 then sel_fault B EXCP0B_NOSEG new_cs env
        else
          (let gate_cs = drop_bit 16 e1;
               new_eip = e1 AND 0xffff;
               new_eip = (if type = 12 then new_eip OR (e2 AND 0xffff0000) else new_eip)
           in bindx (load_segment B gate_cs env) (\<lambda>d env.
                case d of
                  None \<Rightarrow> sel_fault B EXCP0D_GPF gate_cs env
                | Some (e1, e2) \<Rightarrow>
                    (if e2 AND (DESC_S_MASK OR DESC_CS_MASK) \<noteq> DESC_S_MASK OR DESC_CS_MASK
                     then sel_fault B EXCP0D_GPF gate_cs env
                     else if e2 AND DESC_C_MASK \<noteq> 0 \<and> DPL e2 > cpl \<or> e2 AND DESC_C_MASK = 0 \<and> DPL e2 \<noteq> cpl
                     then sel_fault B EXCP0D_GPF gate_cs env
                     else if e2 AND DESC_P_MASK = 0 then sel_fault B EXCP0D_GPF gate_cs env
                     else if new_eip > get_seg_limit e1 e2 then raise_exception_err B EXCP0D_GPF 0 env
                     else
                       (let env = load_desc_cache R_CS ((gate_cs AND 0xfffc) OR cpl) e1 e2 env
                        in Done () (env\<lparr>eip := ucast new_eip\<rparr>))))))"

definition helper_ljmp_protected :: "'m cpu_bus \<Rightarrow> u32 \<Rightarrow> u64 \<Rightarrow> u32 \<Rightarrow> (unit, 'm) helper" where
  "helper_ljmp_protected B new_cs new_eip next_eip_addend env =
    (if new_cs AND 0xfffc = 0 then raise_exception_err B EXCP0D_GPF 0 env
     else
       bindx (load_segment B new_cs env) (\<lambda>d env.
         case d of
           None \<Rightarrow> sel_fault B EXCP0D_GPF new_cs env
         | Some (e1, e2) \<Rightarrow>
             (let cpl = CPL env; rpl = new_cs AND 3; type = sys_type e2
              in if e2 AND DESC_S_MASK \<noteq> 0 then
                   (case direct_cs_check cpl rpl e2 of
                      Some exc \<Rightarrow> sel_fault B exc new_cs env
                    | None \<Rightarrow>
                        (if new_eip > ucast (get_seg_limit e1 e2) \<and> hflags env AND HF_LMA_MASK = 0 \<and> e2 AND DESC_L_MASK = 0
                         then sel_fault B EXCP0D_GPF new_cs env
                         else
                           (let env = load_desc_cache R_CS ((new_cs AND 0xfffc) OR cpl) e1 e2 env
                            in Done () (env\<lparr>eip := new_eip\<rparr>))))
                 else if type \<in> {1, 9, 5} then
                   (if DPL e2 < cpl \<or> DPL e2 < rpl then sel_fault B EXCP0D_GPF new_cs env
                    else
                      (let next_eip = eip env + scast next_eip_addend
                       in bindx (switch_tss B new_cs e1 e2 SWITCH_TSS_JMP (ucast next_eip) env) (\<lambda>_ env.
                            Done () (env\<lparr>cc_op := CC_OP_EFLAGS\<rparr>))))
                 else if type \<in> {4, 12} then ljmp_gate B new_cs type e1 e2 env
                 else sel_fault B EXCP0D_GPF new_cs env)))"

section \<open>Far calls\<close>

definition helper_lcall_real :: "'m cpu_bus \<Rightarrow> u32 \<Rightarrow> u64 \<Rightarrow> u32 \<Rightarrow> u32 \<Rightarrow> (unit, 'm) helper" where
  "helper_lcall_real B new_cs new_eip1 shift next_eip env =
    (let new_eip = ucast new_eip1 :: u32;
         esp = ucast (ESP env) :: u32;
         esp_mask = get_sp_mask (flags (segs env R_SS));
         ssp = base (segs env R_SS)
     in bindx (push_all (if shift \<noteq> 0 then PUSHL B ssp esp_mask else PUSHW B ssp esp_mask)
                [\<lambda>env. selector (segs env R_CS), \<lambda>_. next_eip] esp env) (\<lambda>esp env.
          let env = SET_ESP (ucast esp) (ucast esp_mask) env;
              env = env\<lparr>eip := scast new_eip\<rparr>
          in Done () (env\<lparr>segs := (segs env)(R_CS := (segs env R_CS)\<lparr>selector := new_cs, base := scast (push_bit 4 new_cs)\<rparr>)\<rparr>)))"

text \<open>The parameters of a call gate are copied from the old stack, the last one first.\<close>

fun copy_params ::
  "'m cpu_bus \<Rightarrow> bool \<Rightarrow> u64 \<Rightarrow> u32 \<Rightarrow> u64 \<Rightarrow> u32 \<Rightarrow> nat \<Rightarrow> u32 \<Rightarrow> (u32, 'm) helper" where
  "copy_params B wide old_ssp old_sp_mask ssp sp_mask 0 sp env = Done sp env"
| "copy_params B wide old_ssp old_sp_mask ssp sp_mask (Suc i) sp env =
    (if wide then
       bindx (cpu_ldl_kernel B (old_ssp + ((ESP env + of_nat i * 4) AND ucast old_sp_mask)) env) (\<lambda>val env.
       bindx (PUSHL B ssp sp_mask val sp env) (copy_params B wide old_ssp old_sp_mask ssp sp_mask i))
     else
       bindx (cpu_lduw_kernel B (old_ssp + ((ESP env + of_nat i * 2) AND ucast old_sp_mask)) env) (\<lambda>val env.
       bindx (PUSHW B ssp sp_mask (ucast val) sp env) (copy_params B wide old_ssp old_sp_mask ssp sp_mask i)))"

text \<open>A direct call.\<close>

definition lcall_direct ::
  "'m cpu_bus \<Rightarrow> u32 \<Rightarrow> u64 \<Rightarrow> u32 \<Rightarrow> u64 \<Rightarrow> u32 \<Rightarrow> u32 \<Rightarrow> (unit, 'm) helper" where
  "lcall_direct B new_cs new_eip shift next_eip e1 e2 env =
    (let cpl = CPL env
     in case direct_cs_check cpl (new_cs AND 3) e2 of
          Some exc \<Rightarrow> sel_fault B exc new_cs env
        | None \<Rightarrow>
            (if shift = 2 then
               bindx (push_all (PUSHQ B) [\<lambda>env. ucast (selector (segs env R_CS)), \<lambda>_. next_eip] (ESP env) env) (\<lambda>rsp env.
                 let env = set_reg R_ESP rsp env;
                     env = load_desc_cache R_CS ((new_cs AND 0xfffc) OR cpl) e1 e2 env
                 in Done () (env\<lparr>eip := new_eip\<rparr>))
             else
               (let sp = ucast (ESP env) :: u32;
                    sp_mask = get_sp_mask (flags (segs env R_SS));
                    ssp = base (segs env R_SS)
                in bindx (push_all (if shift \<noteq> 0 then PUSHL B ssp sp_mask else PUSHW B ssp sp_mask)
                            [\<lambda>env. selector (segs env R_CS), \<lambda>_. ucast next_eip] sp env) (\<lambda>sp env.
                     if new_eip > ucast (get_seg_limit e1 e2) then sel_fault B EXCP0D_GPF new_cs env
                     else
                       (let env = SET_ESP (ucast sp) (ucast sp_mask) env;
                            env = load_desc_cache R_CS ((new_cs AND 0xfffc) OR cpl) e1 e2 env
                        in Done () (env\<lparr>eip := new_eip\<rparr>))))))"

text \<open>The stack of a call through a gate to a segment \<open>e2\<close>: as \<open>interrupt_stack\<close>, less the level.\<close>

definition lcall_stack ::
  "'m cpu_bus \<Rightarrow> bool \<Rightarrow> nat \<Rightarrow> u32 \<Rightarrow> (bool \<times> u32 \<times> u32 \<times> u32 \<times> u32 \<times> u64 \<times> u32, 'm) helper" where
  "lcall_stack B wide param_count e2 env =
    (if e2 AND DESC_C_MASK = 0 \<and> DPL e2 < CPL env then
       bindx (inner_stack B (DPL e2) env) (\<lambda>(ss, sp, ss_e1, ss_e2) env.
         let old_sp_mask = get_sp_mask (flags (segs env R_SS));
             old_ssp = base (segs env R_SS);
             sp_mask = get_sp_mask ss_e2;
             ssp = ucast (get_seg_base ss_e1 ss_e2)
         in bindx (push_all (if wide then PUSHL B ssp sp_mask else PUSHW B ssp sp_mask)
                    [\<lambda>env. selector (segs env R_SS), \<lambda>env. ucast (ESP env)] sp env) (\<lambda>sp env.
            bindx (copy_params B wide old_ssp old_sp_mask ssp sp_mask param_count sp env) (\<lambda>sp env.
              Done (True, ss, ss_e1, ss_e2, sp, ssp, sp_mask) env)))
     else Done (False, 0, 0, 0, ucast (ESP env), base (segs env R_SS), get_sp_mask (flags (segs env R_SS))) env)"

definition lcall_gate :: "'m cpu_bus \<Rightarrow> u32 \<Rightarrow> u64 \<Rightarrow> u32 \<Rightarrow> u32 \<Rightarrow> u32 \<Rightarrow> (unit, 'm) helper" where
  "lcall_gate B new_cs next_eip type e1 e2 env =
    (let cpl = CPL env; rpl = new_cs AND 3; wide = drop_bit 3 type \<noteq> 0
     in if DPL e2 < cpl \<or> DPL e2 < rpl then sel_fault B EXCP0D_GPF new_cs env
        else if e2 AND DESC_P_MASK = 0 then sel_fault B EXCP0B_NOSEG new_cs env
        else
          (let sel = drop_bit 16 e1;
               offset = (e2 AND 0xffff0000) OR (e1 AND 0x0000ffff);
               param_count = unat (e2 AND 0x1f)
           in if sel AND 0xfffc = 0 then raise_exception_err B EXCP0D_GPF 0 env
              else
                bindx (load_segment B sel env) (\<lambda>d env.
                  case d of
                    None \<Rightarrow> sel_fault B EXCP0D_GPF sel env
                  | Some (e1, e2) \<Rightarrow>
                      (case gate_cs_check cpl e2 of
                         Some exc \<Rightarrow> sel_fault B exc sel env
                       | None \<Rightarrow>
                           (let dpl = DPL e2
                            in bindx (lcall_stack B wide param_count e2 env) (\<lambda>(new_stack, ss, ss_e1, ss_e2, sp, ssp, sp_mask) env.
                               bindx (push_all (if wide then PUSHL B ssp sp_mask else PUSHW B ssp sp_mask)
                                        [\<lambda>env. selector (segs env R_CS), \<lambda>_. ucast next_eip] sp env) (\<lambda>sp env.
                               let env = (if new_stack
                                      then cpu_x86_load_seg_cache env R_SS ((ss AND NOT 3) OR dpl) ssp (get_seg_limit ss_e1 ss_e2) ss_e2
                                      else env);
                                   env = load_desc_cache R_CS ((sel AND NOT 3) OR dpl) e1 e2 env;
                                   env = cpu_x86_set_cpl env dpl;
                                   env = SET_ESP (ucast sp) (ucast sp_mask) env
                               in Done () (env\<lparr>eip := ucast offset\<rparr>))))))))"

definition helper_lcall_protected :: "'m cpu_bus \<Rightarrow> u32 \<Rightarrow> u64 \<Rightarrow> u32 \<Rightarrow> u32 \<Rightarrow> (unit, 'm) helper" where
  "helper_lcall_protected B new_cs new_eip shift next_eip_addend env =
    (let next_eip = eip env + scast next_eip_addend
     in if new_cs AND 0xfffc = 0 then raise_exception_err B EXCP0D_GPF 0 env
        else
          bindx (load_segment B new_cs env) (\<lambda>d env.
            case d of
              None \<Rightarrow> sel_fault B EXCP0D_GPF new_cs env
            | Some (e1, e2) \<Rightarrow>
                (let cpl = CPL env; rpl = new_cs AND 3;
                     type = drop_bit DESC_TYPE_SHIFT e2 AND 0x1f
                 in if e2 AND DESC_S_MASK \<noteq> 0 then lcall_direct B new_cs new_eip shift next_eip e1 e2 env
                    else if type \<in> {1, 9, 5} then
                      (if DPL e2 < cpl \<or> DPL e2 < rpl then sel_fault B EXCP0D_GPF new_cs env
                       else
                         bindx (switch_tss B new_cs e1 e2 SWITCH_TSS_CALL (ucast next_eip) env) (\<lambda>_ env.
                           Done () (env\<lparr>cc_op := CC_OP_EFLAGS\<rparr>)))
                    else if type \<in> {4, 12} then lcall_gate B new_cs next_eip type e1 e2 env
                    else sel_fault B EXCP0D_GPF new_cs env)))"

section \<open>Returns\<close>

definition helper_iret_real :: "'m cpu_bus \<Rightarrow> u32 \<Rightarrow> (unit, 'm) helper" where
  "helper_iret_real B shift env =
    (let sp_mask = 0xffff :: u32;
         sp = ucast (ESP env) :: u32;
         ssp = base (segs env R_SS);
         pop = (if shift = 1 then POPL B ssp sp_mask else POPW B ssp sp_mask)
     in bindx (pop sp env) (\<lambda>(new_eip, sp) env.
        bindx (pop sp env) (\<lambda>(new_cs, sp) env.
        bindx (pop sp env) (\<lambda>(new_eflags, sp) env.
        let new_cs = (if shift = 1 then new_cs AND 0xffff else new_cs);
            env = set_reg R_ESP ((ESP env AND ucast (NOT sp_mask)) OR ucast (sp AND sp_mask)) env;
            env = env\<lparr>segs := (segs env)(R_CS := (segs env R_CS)\<lparr>selector := new_cs, base := ucast (push_bit 4 new_cs)\<rparr>)\<rparr>;
            env = env\<lparr>eip := ucast new_eip\<rparr>;
            eflags_mask = (if eflags env AND VM_MASK \<noteq> 0
              then TF_MASK OR AC_MASK OR ID_MASK OR IF_MASK OR RF_MASK OR NT_MASK
              else TF_MASK OR AC_MASK OR ID_MASK OR IF_MASK OR IOPL_MASK OR RF_MASK OR NT_MASK);
            eflags_mask = (if shift = 0 then eflags_mask AND 0xffff else eflags_mask);
            env = cpu_load_eflags env new_eflags eflags_mask
        in Done () (env\<lparr>hflags2 := hflags2 env AND NOT HF2_NMI_MASK\<rparr>)))))"

definition validate_seg :: "nat \<Rightarrow> u32 \<Rightarrow> 'm CPUX86State_scheme \<Rightarrow> 'm CPUX86State_scheme" where
  "validate_seg seg_reg cpl env =
    (if (seg_reg = R_FS \<or> seg_reg = R_GS) \<and> selector (segs env seg_reg) AND 0xfffc = 0 then env
     else
       (let e2 = flags (segs env seg_reg)
        in if (e2 AND DESC_CS_MASK = 0 \<or> e2 AND DESC_C_MASK = 0) \<and> DPL e2 < cpl
           then cpu_x86_load_seg_cache env seg_reg 0 0 0 0 else env))"

text \<open>A value off the stack, of the operand size of the return.\<close>

definition ret_pop :: "'m cpu_bus \<Rightarrow> u32 \<Rightarrow> u64 \<Rightarrow> u64 \<Rightarrow> u64 \<Rightarrow> (u64 \<times> u64, 'm) helper" where
  "ret_pop B shift ssp sp_mask sp env =
    (if shift = 2 then POPQ B sp env
     else bindx (if shift = 1 then POPL B ssp sp_mask sp env else POPW B ssp sp_mask sp env) (\<lambda>(v, sp) env.
       Done (ucast v, sp) env))"

text \<open>Selectors: 16-bit pops need no mask, the others have one.\<close>

definition ret_pop_sel :: "'m cpu_bus \<Rightarrow> u32 \<Rightarrow> u64 \<Rightarrow> u64 \<Rightarrow> u64 \<Rightarrow> (u32 \<times> u64, 'm) helper" where
  "ret_pop_sel B shift ssp sp_mask sp env =
    bindx (ret_pop B shift ssp sp_mask sp env) (\<lambda>(v, sp) env.
      Done (if shift = 2 \<or> shift = 1 then ucast v AND 0xffff else ucast v, sp) env)"

text \<open>What a return tests of the code segment it returns to.\<close>

definition ret_cs_check :: "u32 \<Rightarrow> u32 \<Rightarrow> u32 \<Rightarrow> u32 option" where
  "ret_cs_check cpl rpl e2 =
    (let dpl = DPL e2
     in if e2 AND DESC_S_MASK = 0 \<or> e2 AND DESC_CS_MASK = 0 then Some EXCP0D_GPF
        else if rpl < cpl then Some EXCP0D_GPF
        else if e2 AND DESC_C_MASK \<noteq> 0 \<and> dpl > rpl then Some EXCP0D_GPF
        else if e2 AND DESC_C_MASK = 0 \<and> dpl \<noteq> rpl then Some EXCP0D_GPF
        else if e2 AND DESC_P_MASK = 0 then Some EXCP0B_NOSEG
        else None)"

definition ret_ss_check :: "u32 \<Rightarrow> u32 \<Rightarrow> u32 option" where
  "ret_ss_check rpl ss_e2 =
    (if ss_e2 AND DESC_S_MASK = 0 \<or> ss_e2 AND DESC_CS_MASK \<noteq> 0 \<or> ss_e2 AND DESC_W_MASK = 0 then Some EXCP0D_GPF
     else if DPL ss_e2 \<noteq> rpl then Some EXCP0D_GPF
     else if ss_e2 AND DESC_P_MASK = 0 then Some EXCP0B_NOSEG
     else None)"

text \<open>The new SS of a return to an outer level; the result is its descriptor's second word.\<close>

definition ret_load_ss :: "'m cpu_bus \<Rightarrow> u32 \<Rightarrow> u32 \<Rightarrow> (u32, 'm) helper" where
  "ret_load_ss B rpl new_ss env =
    (if new_ss AND 0xfffc = 0 then
       (if hflags env AND HF_LMA_MASK \<noteq> 0 \<and> rpl \<noteq> 3
        then Done DESC_B_MASK (load_flat R_SS new_ss (DATA32 OR push_bit DESC_DPL_SHIFT rpl) env)
        else raise_exception_err B EXCP0D_GPF 0 env)
     else if new_ss AND 3 \<noteq> rpl then sel_fault B EXCP0D_GPF new_ss env
     else
       bindx (load_segment B new_ss env) (\<lambda>d env.
         case d of
           None \<Rightarrow> sel_fault B EXCP0D_GPF new_ss env
         | Some (ss_e1, ss_e2) \<Rightarrow>
             (case ret_ss_check rpl ss_e2 of
                Some exc \<Rightarrow> sel_fault B exc new_ss env
              | None \<Rightarrow> Done ss_e2 (load_desc_cache R_SS new_ss ss_e1 ss_e2 env))))"

text \<open>The label \<open>return_to_vm86\<close>.\<close>

definition ret_to_vm86 ::
  "'m cpu_bus \<Rightarrow> u64 \<Rightarrow> u32 \<Rightarrow> u32 \<Rightarrow> u64 \<Rightarrow> u64 \<Rightarrow> u64 \<Rightarrow> (unit, 'm) helper" where
  "ret_to_vm86 B new_eip new_cs new_eflags ssp sp_mask sp env =
    bindx (POPL B ssp sp_mask sp env) (\<lambda>(new_esp, sp) env.
    bindx (POPL B ssp sp_mask sp env) (\<lambda>(new_ss, sp) env.
    bindx (POPL B ssp sp_mask sp env) (\<lambda>(new_es, sp) env.
    bindx (POPL B ssp sp_mask sp env) (\<lambda>(new_ds, sp) env.
    bindx (POPL B ssp sp_mask sp env) (\<lambda>(new_fs, sp) env.
    bindx (POPL B ssp sp_mask sp env) (\<lambda>(new_gs, sp) env.
    let env = cpu_load_eflags env new_eflags (TF_MASK OR AC_MASK OR ID_MASK OR IF_MASK OR IOPL_MASK OR VM_MASK
                OR NT_MASK OR VIF_MASK OR VIP_MASK);
        env = load_seg_vm R_CS (new_cs AND 0xffff) env;
        env = cpu_x86_set_cpl env 3;
        env = load_seg_vm R_SS (new_ss AND 0xffff) env;
        env = load_seg_vm R_ES (new_es AND 0xffff) env;
        env = load_seg_vm R_DS (new_ds AND 0xffff) env;
        env = load_seg_vm R_FS (new_fs AND 0xffff) env;
        env = load_seg_vm R_GS (new_gs AND 0xffff) env;
        env = env\<lparr>eip := new_eip AND 0xffff\<rparr>
    in Done () (set_reg R_ESP (ucast new_esp) env)))))))"

text \<open>The flags that an IRET from level \<open>cpl\<close> loads.\<close>

definition iret_eflags_mask :: "u32 \<Rightarrow> u32 \<Rightarrow> u32 \<Rightarrow> u32" where
  "iret_eflags_mask shift cpl iopl =
    (let m = TF_MASK OR AC_MASK OR ID_MASK OR RF_MASK OR NT_MASK;
         m = (if cpl = 0 then m OR IOPL_MASK else m);
         m = (if cpl \<le> iopl then m OR IF_MASK else m)
     in if shift = 0 then m AND 0xffff else m)"

definition ret_finish ::
  "u32 \<Rightarrow> bool \<Rightarrow> u32 \<Rightarrow> u64 \<Rightarrow> u32 \<Rightarrow> u64 \<Rightarrow> u64 \<Rightarrow> 'm CPUX86State_scheme \<Rightarrow> 'm CPUX86State_scheme" where
  "ret_finish shift is_iret cpl new_eip new_eflags sp sp_mask env =
    (let env = SET_ESP sp sp_mask env;
         env = env\<lparr>eip := new_eip\<rparr>
     in if is_iret then
          (let iopl = ucast (drop_bit IOPL_SHIFT (eflags env) AND 3)
           in cpu_load_eflags env new_eflags (iret_eflags_mask shift cpl iopl))
        else env)"

text \<open>The part of a return to another level, after the code segment is checked.\<close>

definition ret_outer ::
  "'m cpu_bus \<Rightarrow> u32 \<Rightarrow> u32 \<Rightarrow> u32 \<Rightarrow> u32 \<Rightarrow> u32 \<Rightarrow> u64 \<Rightarrow> u64 \<Rightarrow> u64 \<Rightarrow> (u64 \<times> u64, 'm) helper" where
  "ret_outer B shift new_cs e1 e2 addend ssp sp_mask sp env =
    (let rpl = new_cs AND 3
     in bindx (ret_pop B shift ssp sp_mask sp env) (\<lambda>(new_esp, sp) env.
        bindx (ret_pop_sel B shift ssp sp_mask sp env) (\<lambda>(new_ss, sp) env.
        bindx (ret_load_ss B rpl new_ss env) (\<lambda>ss_e2 env.
        let env = load_desc_cache R_CS new_cs e1 e2 env;
            env = cpu_x86_set_cpl env rpl;
            sp = new_esp;
            sp_mask = (if hflags env AND HF_CS64_MASK \<noteq> 0 then - 1 else ucast (get_sp_mask ss_e2));
            env = fold (\<lambda>r. validate_seg r rpl) [R_ES, R_DS, R_FS, R_GS] env
        in Done (sp + scast addend, sp_mask) env))))"

definition helper_ret_protected :: "'m cpu_bus \<Rightarrow> u32 \<Rightarrow> bool \<Rightarrow> u32 \<Rightarrow> (unit, 'm) helper" where
  "helper_ret_protected B shift is_iret addend env =
    (let sp_mask = (if shift = 2 then - 1 else ucast (get_sp_mask (flags (segs env R_SS))));
         sp = ESP env;
         ssp = base (segs env R_SS)
     in bindx (ret_pop B shift ssp sp_mask sp env) (\<lambda>(new_eip, sp) env.
        bindx (ret_pop_sel B shift ssp sp_mask sp env) (\<lambda>(new_cs, sp) env.
        bindx (if is_iret then ret_pop B shift ssp sp_mask sp env else Done (0, sp) env) (\<lambda>(efl, sp) env.
        let new_eflags = ucast efl :: u32
        in if shift = 1 \<and> is_iret \<and> new_eflags AND VM_MASK \<noteq> 0
           then ret_to_vm86 B new_eip new_cs new_eflags ssp sp_mask sp env
           else if new_cs AND 0xfffc = 0 then sel_fault B EXCP0D_GPF new_cs env
           else
             bindx (load_segment B new_cs env) (\<lambda>d env.
               case d of
                 None \<Rightarrow> sel_fault B EXCP0D_GPF new_cs env
               | Some (e1, e2) \<Rightarrow>
                   (let cpl = CPL env; rpl = new_cs AND 3
                    in case ret_cs_check cpl rpl e2 of
                         Some exc \<Rightarrow> sel_fault B exc new_cs env
                       | None \<Rightarrow>
                           (let sp = sp + scast addend
                            in bindx (if rpl = cpl \<and> (hflags env AND HF_CS64_MASK = 0 \<or> hflags env AND HF_CS64_MASK \<noteq> 0 \<and> \<not> is_iret)
                                      then Done (sp, sp_mask) (load_desc_cache R_CS new_cs e1 e2 env)
                                      else ret_outer B shift new_cs e1 e2 addend ssp sp_mask sp env)
                                 (\<lambda>(sp, sp_mask) env. Done () (ret_finish shift is_iret cpl new_eip new_eflags sp sp_mask env)))))))))"

definition helper_iret_protected :: "'m cpu_bus \<Rightarrow> u32 \<Rightarrow> u32 \<Rightarrow> (unit, 'm) helper" where
  "helper_iret_protected B shift next_eip env =
    bindx
      (if eflags env AND NT_MASK \<noteq> 0 then
         (if hflags env AND HF_LMA_MASK \<noteq> 0 then raise_exception_err B EXCP0D_GPF 0 env
          else
            bindx (cpu_lduw_kernel B (base (tr env) + 0) env) (\<lambda>w env.
              let tss_selector = ucast w :: u32
              in if tss_selector AND 4 \<noteq> 0 then sel_fault B EXCP0A_TSS tss_selector env
                 else
                   bindx (load_segment B tss_selector env) (\<lambda>d env.
                     case d of
                       None \<Rightarrow> sel_fault B EXCP0A_TSS tss_selector env
                     | Some (e1, e2) \<Rightarrow>
                         (if drop_bit DESC_TYPE_SHIFT e2 AND 0x17 \<noteq> 3 then sel_fault B EXCP0A_TSS tss_selector env
                          else switch_tss B tss_selector e1 e2 SWITCH_TSS_IRET next_eip env))))
       else helper_ret_protected B shift True 0 env)
      (\<lambda>_ env. Done () (env\<lparr>hflags2 := hflags2 env AND NOT HF2_NMI_MASK\<rparr>))"

definition helper_lret_protected :: "'m cpu_bus \<Rightarrow> u32 \<Rightarrow> u32 \<Rightarrow> (unit, 'm) helper" where
  "helper_lret_protected B shift addend = helper_ret_protected B shift False addend"

section \<open>ENTER\<close>

text \<open>
  The loop \<open>while (--level)\<close> runs \<open>level - 1\<close> times, counted around \<open>2 ^ 32\<close>; a round copies one
  frame pointer.
\<close>

fun enter_copy ::
  "(u64 \<Rightarrow> ('v, 'm) helper) \<Rightarrow> (u64 \<Rightarrow> 'v \<Rightarrow> (unit, 'm) helper) \<Rightarrow> ('a::len word \<Rightarrow> u64) \<Rightarrow> 'a word \<Rightarrow>
   nat \<Rightarrow> 'a word \<Rightarrow> 'a word \<Rightarrow> ('a word, 'm) helper" where
  "enter_copy ld st addr sz 0 esp ebp env = Done esp env"
| "enter_copy ld st addr sz (Suc n) esp ebp env =
    (let esp = esp - sz; ebp = ebp - sz
     in bindx (ld (addr ebp) env) (\<lambda>v env.
        bindx (st (addr esp) v env) (\<lambda>_. enter_copy ld st addr sz n esp ebp)))"

definition helper_enter_level :: "'m cpu_bus \<Rightarrow> u32 \<Rightarrow> u32 \<Rightarrow> u64 \<Rightarrow> (unit, 'm) helper" where
  "helper_enter_level B level data32 t1 env =
    (let esp_mask = get_sp_mask (flags (segs env R_SS));
         ssp = base (segs env R_SS);
         addr = (\<lambda>sp. ssp + ucast (sp AND esp_mask));
         ebp = ucast (regs env R_EBP) :: u32;
         esp = ucast (ESP env) :: u32;
         n = unat (level - 1)
     in if data32 \<noteq> 0 then
          bindx (enter_copy (cpu_ldl_data B) (cpu_stl_data B) addr 4 n (esp - 4) ebp env) (\<lambda>esp env.
            cpu_stl_data B (addr (esp - 4)) (ucast t1) env)
        else
          bindx (enter_copy (cpu_lduw_data B) (cpu_stw_data B) addr 2 n (esp - 2) ebp env) (\<lambda>esp env.
            cpu_stw_data B (addr (esp - 2)) (ucast t1) env))"

definition helper_enter64_level :: "'m cpu_bus \<Rightarrow> u32 \<Rightarrow> u32 \<Rightarrow> u64 \<Rightarrow> (unit, 'm) helper" where
  "helper_enter64_level B level data64 t1 env =
    (let ebp = regs env R_EBP;
         esp = ESP env;
         n = unat (level - 1)
     in if data64 \<noteq> 0 then
          bindx (enter_copy (cpu_ldq_data B) (cpu_stq_data B) (\<lambda>sp. sp) 8 n (esp - 8) ebp env) (\<lambda>esp env.
            cpu_stq_data B (esp - 8) t1 env)
        else
          bindx (enter_copy (cpu_lduw_data B) (cpu_stw_data B) (\<lambda>sp. sp) 2 n (esp - 2) ebp env) (\<lambda>esp env.
            cpu_stw_data B (esp - 2) (ucast t1) env))"

end
