(* ===== verification/RingTransfers.thy ===== *)
theory RingTransfers
  imports FarCalls
begin

text \<open>
  Privilege levels under the transfers of control of \<open>FarCalls\<close> and the deliveries of
  \<open>Interrupts\<close>.  What holds whenever a helper returns is shown with rules for \<open>returns\<close>, one
  for each way the helpers are put together.
\<close>

section \<open>What holds when a helper returns\<close>

named_theorems returns_rules

definition returns :: "('a, 's) outcome \<Rightarrow> ('a \<Rightarrow> 's \<Rightarrow> bool) \<Rightarrow> bool" where
  "returns m Q \<longleftrightarrow> (\<forall>a t. m = Done a t \<longrightarrow> Q a t)"

lemma returns_Done [returns_rules]: "Q a t \<Longrightarrow> returns (Done a t) Q"
  and returns_Stop [returns_rules]: "returns (Stop e t) Q"
  by (simp_all add: returns_def)

lemma returnsD: "returns m Q \<Longrightarrow> m = Done a t \<Longrightarrow> Q a t"
  by (simp add: returns_def)

lemma returns_mono: "returns m P \<Longrightarrow> (\<And>a t. P a t \<Longrightarrow> Q a t) \<Longrightarrow> returns m Q"
  by (simp add: returns_def)

lemma returns_bindx: "returns m P \<Longrightarrow> (\<And>a t. P a t \<Longrightarrow> returns (f a t) Q) \<Longrightarrow> returns (bindx m f) Q"
  by (cases m) (simp_all add: returns_def)

lemma returns_if [returns_rules]:
  "(c \<Longrightarrow> returns m Q) \<Longrightarrow> (\<not> c \<Longrightarrow> returns n Q) \<Longrightarrow> returns (if c then m else n) Q"
  by simp

lemma returns_let [returns_rules]: "(\<And>x. x = v \<Longrightarrow> returns (f x) Q) \<Longrightarrow> returns (let x = v in f x) Q"
  by simp

lemma returns_option [returns_rules]:
  "(x = None \<Longrightarrow> returns m Q) \<Longrightarrow> (\<And>v. x = Some v \<Longrightarrow> returns (f v) Q) \<Longrightarrow>
     returns (case x of None \<Rightarrow> m | Some v \<Rightarrow> f v) Q"
  by (cases x) simp_all

lemma returns_pair [returns_rules]: "(\<And>a b. x = (a, b) \<Longrightarrow> returns (f a b) Q) \<Longrightarrow> returns (case x of (a, b) \<Rightarrow> f a b) Q"
  by (cases x) simp

lemma returns_pair_app [returns_rules]:
  "(\<And>a b. x = (a, b) \<Longrightarrow> returns (f a b t) Q) \<Longrightarrow> returns ((case x of (a, b) \<Rightarrow> f a b) t) Q"
  by (cases x) simp

lemma raise_never_Done: "raise_exception_err B n err env \<noteq> Done a t"
proof -
  have "bindx m (\<lambda>(i, e) s. Stop CpuLoopExit (f i e s)) \<noteq> Done a t"
    for m :: "(u32 \<times> u32, 'b CPUX86State_scheme) outcome" and f
    by (cases m) (simp_all add: split_beta)
  then show ?thesis by (simp only: raise_exception_err_def raise_interrupt_def not_False_eq_True)
qed

lemma returns_raise [returns_rules]: "returns (raise_exception_err B n err env) Q"
  by (simp add: returns_def raise_never_Done)

section \<open>Accesses at kernel level keep the registers\<close>

text \<open>
  An access that does not fault may fill the TLB, but leaves every register as it is.  (Of
  the page walk behind it, \<open>Mmu\<close> shows that.)
\<close>

definition keeps_regs :: "('s \<Rightarrow> 'r) \<Rightarrow> ('s \<Rightarrow> ('a, 's) outcome) \<Rightarrow> bool" where
  "keeps_regs r m \<longleftrightarrow> (\<forall>s. returns (m s) (\<lambda>_ t. r t = r s))"

definition kernel_frame :: "'m cpu_bus \<Rightarrow> bool" where
  "kernel_frame B \<longleftrightarrow>
    (\<forall>a. keeps_regs CPUX86State.truncate (cpu_lduw_kernel B a)) \<and>
    (\<forall>a. keeps_regs CPUX86State.truncate (cpu_ldl_kernel B a)) \<and>
    (\<forall>a. keeps_regs CPUX86State.truncate (cpu_ldq_kernel B a)) \<and>
    (\<forall>a v. keeps_regs CPUX86State.truncate (cpu_stw_kernel B a v)) \<and>
    (\<forall>a v. keeps_regs CPUX86State.truncate (cpu_stl_kernel B a v)) \<and>
    (\<forall>a v. keeps_regs CPUX86State.truncate (cpu_stq_kernel B a v))"

lemma keeps_store: "stores_to mem n st \<Longrightarrow> keeps_regs CPUX86State.truncate (st a v)"
  unfolding keeps_regs_def
proof
  fix s assume "stores_to mem n st"
  then obtain t where "st a v s = Done () t" "CPUX86State.truncate t = CPUX86State.truncate s"
    by (rule stores_toE)
  then show "returns (st a v s) (\<lambda>_ t. CPUX86State.truncate t = CPUX86State.truncate s)" by (simp add: returns_def)
qed

lemma virt_ram_kernel_frame: "virt_ram B mem \<Longrightarrow> kernel_frame B"
  unfolding kernel_frame_def
  by (intro conjI allI keeps_store [OF virt_ram_store(6)] keeps_store [OF virt_ram_store(7)] keeps_store [OF virt_ram_store(8)])
    (simp_all add: keeps_regs_def returns_def virt_ram_load)

text \<open>The registers as the helper found them.\<close>

abbreviation (input) same :: "'m CPUX86State_scheme \<Rightarrow> 'a \<Rightarrow> 'm CPUX86State_scheme \<Rightarrow> bool" where
  "same env \<equiv> \<lambda>_ t. CPUX86State.truncate t = CPUX86State.truncate env"

lemma same_access:
  assumes "kernel_frame B" "CPUX86State.truncate s = CPUX86State.truncate env"
  shows "returns (cpu_lduw_kernel B a s) (same env)" "returns (cpu_ldl_kernel B a s) (same env)"
    "returns (cpu_ldq_kernel B a s) (same env)" "returns (cpu_stw_kernel B a v2 s) (same env)"
    "returns (cpu_stl_kernel B a v4 s) (same env)" "returns (cpu_stq_kernel B a v8 s) (same env)"
  using assms(1) unfolding assms(2) [symmetric] by (simp_all add: kernel_frame_def keeps_regs_def)

lemma same_load_segment:
  assumes "kernel_frame B" "CPUX86State.truncate s = CPUX86State.truncate env"
  shows "returns (load_segment B sel s) (same env)"
  unfolding load_segment_def
  by (intro returns_rules assms(2) returns_bindx [where P = "same env"] same_access [OF assms(1)] | assumption)+

lemma same_stack:
  assumes "kernel_frame B" "CPUX86State.truncate s = CPUX86State.truncate env"
  shows "returns (PUSHW B ssp m v sp s) (same env)" "returns (PUSHL B ssp m v sp s) (same env)"
    "returns (PUSHQ B v8 sp8 s) (same env)" "returns (POPW B ssp m sp s) (same env)"
    "returns (POPL B ssp m sp s) (same env)" "returns (POPQ B sp8 s) (same env)"
  unfolding PUSHW_def PUSHL_def PUSHQ_def POPW_def POPL_def POPQ_def
  by (intro returns_rules assms(2) returns_bindx [where P = "same env"] same_access [OF assms(1)] | assumption)+

lemma same_push_all:
  assumes "\<And>v sp s. CPUX86State.truncate s = CPUX86State.truncate env \<Longrightarrow> returns (push v sp s) (same env)"
    and "CPUX86State.truncate s = CPUX86State.truncate env"
  shows "returns (push_all push vs sp s) (same env)"
  using assms(2)
proof (induction vs arbitrary: sp s)
  case (Cons v vs)
  then show ?case by (auto intro!: returns_bindx [where P = "same env"] assms(1))
qed (simp add: returns_Done)


section \<open>The current privilege level\<close>

lemma level_eqI: "bit x 0 = bit y 0 \<Longrightarrow> bit x 1 = bit y 1 \<Longrightarrow> (x :: u32) AND 3 = y AND 3"
proof -
  assume "bit x 0 = bit y 0" "bit x 1 = bit y 1"
  then have "bit x n = bit y n" if "n < 2" for n using that by (cases n) simp_all
  then have "take_bit 2 x = take_bit 2 y" by (intro bit_word_eqI) (auto simp: bit_take_bit_iff)
  then show ?thesis by (simp add: take_bit_eq_mask mask_eq_exp_minus_1)
qed

lemma level_load_seg [simp]: "CPL (cpu_x86_load_seg_cache env r sel b l f) = CPL env"
  by (rule level_eqI)
    (simp_all add: cpu_x86_load_seg_cache_def load_seg_cs_hflags_def load_seg_new_hflags_def Let_def bit_simps)

lemma level_desc_cache [simp]: "CPL (load_desc_cache r sel e1 e2 env) = CPL env"
  by (simp add: load_desc_cache_def)

lemma level_set_cpl [simp]: "CPL (cpu_x86_set_cpl env (c AND 3)) = c AND 3"
  by (rule level_eqI) (simp_all add: cpu_x86_set_cpl_def bit_simps)

lemma level_set_cpl_small [simp]: "c AND 3 = c \<Longrightarrow> CPL (cpu_x86_set_cpl env c) = c"
  using level_set_cpl [of env c] by simp

lemma level_set_cpl_3 [simp]: "CPL (cpu_x86_set_cpl env 3) = 3"
  using level_set_cpl [of env 3] by simp

lemma hflags_set_esp [simp]: "hflags (SET_ESP v m env) = hflags env"
  by (simp add: SET_ESP_def)

lemma level_validate [simp]: "CPL (validate_seg r c env) = CPL env"
  by (simp add: validate_seg_def Let_def)

lemma hflags_interrupt_eflags [simp]: "hflags (interrupt_eflags type env) = hflags env"
  by (simp add: interrupt_eflags_def Let_def)

lemma level_clear_data [simp]: "CPL (clear_data_segs env) = CPL env"
  by (simp add: clear_data_segs_def)

lemma level_finish [simp]: "CPL (ret_finish shift is_iret c ip efl sp m env) = CPL env"
  by (simp add: ret_finish_def Let_def cpu_load_eflags_def)

lemma level_vm [simp]: "CPL (load_seg_vm r sel env) = CPL env"
  by (simp add: load_seg_vm_def Let_def)

text \<open>A level is at most 3.\<close>

lemma level_le_3: "(x :: u32) AND 3 \<le> 3"
  by (simp add: word_and_le1)

section \<open>Far jumps, calls and returns\<close>

lemma returns_self: "returns m P \<Longrightarrow> returns m (\<lambda>a t. P a t \<and> m = Done a t)"
  by (simp add: returns_def)

definition is_task :: "u32 \<Rightarrow> bool" where
  "is_task e2 \<longleftrightarrow> e2 AND DESC_S_MASK = 0 \<and> sys_type e2 \<in> {1, 5, 9}"

text \<open>
  The selector leads to a task state segment or a task gate, and its descriptor is open to the
  current level and to the level of the selector.
\<close>

definition task_open :: "'m cpu_bus \<Rightarrow> u32 \<Rightarrow> 'm CPUX86State_scheme \<Rightarrow> bool" where
  "task_open B sel env \<longleftrightarrow> (\<exists>e1 e2 t. load_segment B sel env = Done (Some (e1, e2)) t \<and> is_task e2 \<and>
     CPL env \<le> DPL e2 \<and> sel AND 3 \<le> DPL e2)"

text \<open>A task runs at the level of its code selector, or at level 3 in virtual 8086 mode.\<close>

definition task_level :: "'m CPUX86State_scheme \<Rightarrow> bool" where
  "task_level t \<longleftrightarrow> CPL t = 3 \<or> CPL t = selector (segs t R_CS) AND 3"

lemma task_level_same:
  assumes "CPUX86State.truncate t = CPUX86State.truncate s" "task_level s"
  shows "task_level t"
  using assms(2) by (simp only: task_level_def same_regs(8,10) [OF assms(1)])

lemma hflags_load_eflags [simp]: "hflags (cpu_load_eflags env v m) = hflags env"
  by (simp add: cpu_load_eflags_def Let_def)

lemma level_fold_load_seg:
  "CPL (fold (\<lambda>i env. cpu_x86_load_seg_cache env i (f i) 0 0 0) is env) = CPL env"
  by (induction "is" arbitrary: env) simp_all

lemma level_fold_vm: "CPL (fold (\<lambda>i. load_seg_vm i (f i)) is env) = CPL env"
  by (induction "is" arbitrary: env) simp_all

text \<open>The level of the task that \<open>t\<close> describes.\<close>

definition in_task :: "tss_image \<Rightarrow> 'm CPUX86State_scheme \<Rightarrow> bool" where
  "in_task t s \<longleftrightarrow> (if tss_eflags t AND VM_MASK \<noteq> 0 then CPL s = 3
     else CPL s = tss_segs t ! R_CS AND 3 \<and> selector (segs s R_CS) = tss_segs t ! R_CS)"

lemma in_task_level: "in_task t s \<Longrightarrow> task_level s"
  by (auto simp: in_task_def task_level_def simp del: One_nat_def split: if_splits)

lemma in_task_same: "in_task t s' \<Longrightarrow> hflags s = hflags s' \<Longrightarrow> segs s = segs s' \<Longrightarrow> in_task t s"
  by (simp add: in_task_def del: One_nat_def)

lemma enter_in_task: "in_task t (tss_enter sel e2 b l type t env)"
proof -
  have six: "[0..<6] = [0, 1, 2, 3, 4, 5 :: nat]" by (simp add: upt_rec)
  show ?thesis
    unfolding tss_enter_def Let_def in_task_def
    by (simp add: level_fold_load_seg level_fold_vm) (simp add: six)
qed

lemma in_task_load_ldt:
  fixes B :: "'m cpu_bus" and s :: "'m CPUX86State_scheme"
  assumes "kernel_frame B" "in_task t s"
  shows "returns (tss_load_ldt B sel s) (\<lambda>_. in_task t)"
  unfolding tss_load_ldt_def
  by (rule returns_rules same_access [OF assms(1)] refl returns_bindx [where P = "same s"] assms(2)
    | assumption | fastforce dest: same_regs(8,10) intro: in_task_same [OF assms(2)])+

lemma in_task_load_seg:
  fixes B :: "'m cpu_bus" and s :: "'m CPUX86State_scheme"
  assumes "kernel_frame B" "in_task t s"
  shows "returns (tss_load_seg B r (tss_segs t ! r) s) (\<lambda>_. in_task t)"
  unfolding tss_load_seg_def
  by (rule returns_rules same_load_segment [OF assms(1)] refl returns_bindx [where P = "same s"] assms(2)
    | assumption | (use assms(2) in \<open>fastforce dest: same_regs(8,10) simp: in_task_def load_desc_cache_def\<close>))+

lemma in_task_load_segs:
  fixes B :: "'m cpu_bus" and s :: "'m CPUX86State_scheme"
  assumes "kernel_frame B" "in_task t s"
  shows "returns (run_all (map (\<lambda>r. tss_load_seg B r (tss_segs t ! r)) rs) s) (\<lambda>_. in_task t)"
  using assms(2)
proof (induction rs arbitrary: s)
  case (Cons r rs)
  then show ?case by (auto intro!: returns_bindx [OF in_task_load_seg [OF assms(1)]])
qed (simp add: returns_Done)

text \<open>Taking a breakpoint or watchpoint off the lists of the emulator keeps the registers.\<close>

definition breakpoint_frame :: "'m cpu_bus \<Rightarrow> bool" where
  "breakpoint_frame B \<longleftrightarrow>
    (\<forall>p s. CPUX86State.truncate (cpu_breakpoint_remove_by_ref B p s) = CPUX86State.truncate s) \<and>
    (\<forall>p s. CPUX86State.truncate (cpu_watchpoint_remove_by_ref B p s) = CPUX86State.truncate s)"

lemma flat_breakpoint_frame: "breakpoint_frame flat_bus"
  by (simp add: breakpoint_frame_def flat_bus_def)

lemma remove_frame:
  "breakpoint_frame B \<Longrightarrow> CPUX86State.truncate (hw_breakpoint_remove B i s) = CPUX86State.truncate s"
  by (simp add: hw_breakpoint_remove_def breakpoint_frame_def Let_def split: option.split)

lemma in_task_reset_breakpoints:
  fixes B :: "'m cpu_bus" and s :: "'m CPUX86State_scheme"
  assumes "breakpoint_frame B" "in_task t s"
  shows "in_task t (tss_reset_breakpoints B s)"
proof -
  have keep: "hflags (fold (\<lambda>i env. if c i env then hw_breakpoint_remove B i env else env) is s) = hflags s \<and>
      segs (fold (\<lambda>i env. if c i env then hw_breakpoint_remove B i env else env) is s) = segs s" for c "is"
    using same_regs(8) [OF remove_frame [OF assms(1)]] same_regs(10) [OF remove_frame [OF assms(1)]]
    by (induction "is" arbitrary: s) simp_all
  show ?thesis using assms(2) keep unfolding tss_reset_breakpoints_def Let_def
    by (intro in_task_same [OF assms(2)]) simp_all
qed

lemma switch_task_level:
  fixes B :: "'m cpu_bus" and env :: "'m CPUX86State_scheme"
  assumes "kernel_frame B" "breakpoint_frame B"
  shows "returns (switch_tss B sel e1 e2 source ip env) (\<lambda>_. task_level)"
proof -
  have tail: "returns (bindx (tss_load_ldt B (tss_ldt t) s) (\<lambda>_ s.
      bindx (if tss_eflags t AND VM_MASK = 0
             then run_all (map (\<lambda>r. tss_load_seg B r (tss_segs t ! r)) [R_CS, R_SS, R_ES, R_DS, R_FS, R_GS]) s
             else Done () s) (\<lambda>_ s.
      if tss_eip t > limit (segs s R_CS) then raise_exception_err B EXCP0D_GPF 0 s
      else Done () (tss_reset_breakpoints B s)))) (\<lambda>_. task_level)"
    if "in_task t s" for t and s :: "'m CPUX86State_scheme"
    by (rule returns_rules returns_bindx [OF in_task_load_ldt [OF assms(1) that]] in_task_load_segs [OF assms(1)]
        returns_bindx [where P = "\<lambda>_. in_task t"] in_task_level [OF in_task_reset_breakpoints [OF assms(2)]] | assumption)+
  show ?thesis
    unfolding switch_tss_def
    by (rule returns_rules tail enter_in_task returns_bindx [where P = "\<lambda>_ _. True"] | simp add: returns_def enter_in_task)+
qed


lemma ljmp_gate_level:
  fixes B :: "'m cpu_bus" and env :: "'m CPUX86State_scheme"
  assumes "kernel_frame B"
  shows "returns (ljmp_gate B new_cs type e1 e2 env) (\<lambda>_ t. CPL t = CPL env)"
  unfolding ljmp_gate_def
  by (intro returns_rules returns_bindx [where P = "same env"] same_load_segment [OF assms refl])
    (auto dest!: same_regs(8))

lemma returns_or: "returns m P \<Longrightarrow> returns m (\<lambda>a t. P a t \<or> Q a t)"
  by (simp add: returns_def)

text \<open>The task branch of a far jump or call.\<close>

lemma task_branch:
  fixes B :: "'m cpu_bus" and env :: "'m CPUX86State_scheme"
  assumes "kernel_frame B" "breakpoint_frame B"
    and s: "CPUX86State.truncate s = CPUX86State.truncate env \<and> load_segment B sel env = Done d s"
    and d: "d = Some v" "v = (e1, e2)" and e2: "is_task e2" "\<not> (DPL e2 < CPL s \<or> DPL e2 < sel AND 3)"
  shows "returns (bindx (switch_tss B sel e1 e2 source ip s) (\<lambda>_ s. Done () (s\<lparr>cc_op := CC_OP_EFLAGS\<rparr>)))
    (\<lambda>_ t. P t \<or> task_open B sel env \<and> task_level t)"
proof -
  have "hflags s = hflags env" using s by (blast intro: same_regs(8))
  then have "task_open B sel env" using s d e2 unfolding task_open_def by (metis not_less)
  moreover have "returns (bindx (switch_tss B sel e1 e2 source ip s) (\<lambda>_ s. Done () (s\<lparr>cc_op := CC_OP_EFLAGS\<rparr>))) (\<lambda>_. task_level)"
    by (rule returns_bindx [OF switch_task_level [OF assms(1,2)]]) (simp add: returns_def task_level_def)
  ultimately show ?thesis by (simp add: returns_def)
qed

lemma ljmp_level:
  fixes B :: "'m cpu_bus" and env :: "'m CPUX86State_scheme"
  assumes "kernel_frame B" "breakpoint_frame B"
  shows "returns (helper_ljmp_protected B new_cs new_eip addend env)
    (\<lambda>_ t. CPL t = CPL env \<or> task_open B new_cs env \<and> task_level t)"
proof -
  note load = returns_self [OF same_load_segment [OF assms(1) refl, of new_cs env]]
  show ?thesis
    unfolding helper_ljmp_protected_def Let_def
    by (intro returns_rules returns_bindx [OF load] task_branch [OF assms] | assumption)+
      (auto dest!: same_regs(8) simp: is_task_def intro!: returns_or returns_mono [OF ljmp_gate_level [OF assms(1)]])
qed

lemma same_inner_stack:
  fixes B :: "'m cpu_bus" and env :: "'m CPUX86State_scheme"
  assumes "kernel_frame B" "CPUX86State.truncate s = CPUX86State.truncate env"
  shows "returns (inner_stack B dpl s) (same env)"
  unfolding inner_stack_def get_ss_esp_from_tss_def
  by (intro returns_rules assms(2) returns_bindx [where P = "same env"] same_load_segment [OF assms(1)] same_access [OF assms(1)]
    | assumption)+

lemma same_copy_params:
  fixes B :: "'m cpu_bus" and env :: "'m CPUX86State_scheme"
  assumes "kernel_frame B" "CPUX86State.truncate s = CPUX86State.truncate env"
  shows "returns (copy_params B wide old_ssp old_m ssp m n sp s) (same env)"
  using assms(2)
proof (induction n arbitrary: sp s)
  case (Suc n)
  then show ?case unfolding copy_params.simps
    by (intro returns_rules returns_bindx [where P = "same env"] same_access [OF assms(1)] same_stack [OF assms(1)] Suc.IH | assumption)+
qed (simp add: returns_Done)

lemma same_pushes:
  fixes B :: "'m cpu_bus" and env :: "'m CPUX86State_scheme"
  assumes "kernel_frame B" "CPUX86State.truncate s = CPUX86State.truncate env"
  shows "returns (push_all (if wide then PUSHL B ssp m else PUSHW B ssp m) vs sp s) (same env)"
    "returns (push_all (PUSHQ B) vs8 sp8 s) (same env)"
  by (rule same_push_all [OF _ assms(2)]; simp add: same_stack [OF assms(1)])+

lemma same_lcall_stack:
  fixes B :: "'m cpu_bus" and env :: "'m CPUX86State_scheme"
  assumes "kernel_frame B" "CPUX86State.truncate s = CPUX86State.truncate env"
  shows "returns (lcall_stack B wide n e2 s) (same env)"
  unfolding lcall_stack_def
  by (intro returns_rules assms(2) returns_bindx [where P = "same env"] same_inner_stack [OF assms(1)]
        same_pushes [OF assms(1)] same_copy_params [OF assms(1)] | assumption)+

lemma gate_cs_check_level: "gate_cs_check c e2 = None \<Longrightarrow> DPL e2 \<le> c"
  by (auto simp: gate_cs_check_def not_less split: if_splits)

lemma lcall_gate_level:
  fixes B :: "'m cpu_bus" and env :: "'m CPUX86State_scheme"
  assumes "kernel_frame B"
  shows "returns (lcall_gate B new_cs next_eip type e1 e2 env) (\<lambda>_ t. CPL t \<le> CPL env)"
  unfolding lcall_gate_def
  by (intro returns_rules returns_bindx [where P = "same env"] same_load_segment [OF assms] same_lcall_stack [OF assms]
        same_pushes [OF assms] refl | assumption)+
    (auto dest!: same_regs(8) gate_cs_check_level)

lemma lcall_direct_level:
  fixes B :: "'m cpu_bus" and env :: "'m CPUX86State_scheme"
  assumes "kernel_frame B"
  shows "returns (lcall_direct B new_cs new_eip shift next_eip e1 e2 env) (\<lambda>_ t. CPL t = CPL env)"
  unfolding lcall_direct_def
  by (intro returns_rules returns_bindx [where P = "same env"] same_pushes [OF assms] refl | assumption)+
    (auto dest!: same_regs(8))

lemma type_bits:
  fixes x :: u32
  shows "x AND 31 = 1 \<Longrightarrow> x AND 15 = 1" "x AND 31 = 5 \<Longrightarrow> x AND 15 = 5" "x AND 31 = 9 \<Longrightarrow> x AND 15 = 9"
proof -
  have "x AND 15 = (x AND 31) AND 15" by (simp add: and.assoc)
  then show "x AND 31 = 1 \<Longrightarrow> x AND 15 = 1" "x AND 31 = 5 \<Longrightarrow> x AND 15 = 5" "x AND 31 = 9 \<Longrightarrow> x AND 15 = 9"
    by simp_all
qed

lemma lcall_level:
  fixes B :: "'m cpu_bus" and env :: "'m CPUX86State_scheme"
  assumes "kernel_frame B" "breakpoint_frame B"
  shows "returns (helper_lcall_protected B new_cs new_eip shift addend env)
    (\<lambda>_ t. CPL t \<le> CPL env \<or> task_open B new_cs env \<and> task_level t)"
proof -
  note load = returns_self [OF same_load_segment [OF assms(1) refl, of new_cs env]]
  show ?thesis
    unfolding helper_lcall_protected_def Let_def
    by (intro returns_rules returns_bindx [OF load] task_branch [OF assms] | assumption)+
      (auto dest!: same_regs(8) dest: type_bits simp: is_task_def intro!: returns_or
        returns_mono [OF lcall_gate_level [OF assms(1)]] returns_mono [OF lcall_direct_level [OF assms(1)]])
qed

lemma same_ret_pop:
  fixes B :: "'m cpu_bus" and env :: "'m CPUX86State_scheme"
  assumes "kernel_frame B" "CPUX86State.truncate s = CPUX86State.truncate env"
  shows "returns (ret_pop B shift ssp m sp s) (same env)" "returns (ret_pop_sel B shift ssp m sp s) (same env)"
  unfolding ret_pop_sel_def ret_pop_def
  by (intro returns_rules assms(2) returns_bindx [where P = "same env"] same_stack [OF assms(1)] | assumption)+

lemma ret_vm86_level:
  fixes B :: "'m cpu_bus"
  shows "returns (ret_to_vm86 B ip cs efl ssp m sp env) (\<lambda>_ t. CPL t = 3)"
  unfolding ret_to_vm86_def
  by (intro returns_rules returns_bindx [where P = "\<lambda>_ _. True"]) (simp_all add: returns_def)

lemma ret_outer_level:
  fixes B :: "'m cpu_bus"
  shows "returns (ret_outer B shift new_cs e1 e2 addend ssp m sp env) (\<lambda>_ t. CPL t = new_cs AND 3)"
  unfolding ret_outer_def
  by (intro returns_rules returns_bindx [where P = "\<lambda>_ _. True"]) (simp_all add: returns_def)

lemma ret_cs_check_level: "ret_cs_check c rpl e2 = None \<Longrightarrow> c \<le> rpl"
  by (auto simp: ret_cs_check_def Let_def not_less split: if_splits)

lemma ret_last_level:
  fixes B :: "'m cpu_bus" and env :: "'m CPUX86State_scheme"
  assumes "c \<Longrightarrow> CPL env \<le> CPL s" "CPL env \<le> new_cs AND 3"
  shows "returns (bindx (if c then Done x (load_desc_cache R_CS new_cs e1 e2 s)
      else ret_outer B shift new_cs e1 e2 addend ssp m sp s)
    (\<lambda>(sp, m) t. Done () (ret_finish sh is_iret cc ip efl sp m t))) (\<lambda>_ t. CPL env \<le> CPL t)"
  by (rule returns_bindx [where P = "\<lambda>_ t. CPL env \<le> CPL t"])
    (use assms in \<open>auto simp: returns_def split_beta dest: returnsD [OF ret_outer_level]\<close>)

lemma ret_level:
  fixes B :: "'m cpu_bus" and env :: "'m CPUX86State_scheme"
  assumes "kernel_frame B"
  shows "returns (helper_ret_protected B shift is_iret addend env) (\<lambda>_ t. CPL env \<le> CPL t)"
  unfolding helper_ret_protected_def
  by (rule ret_last_level returns_rules returns_mono [OF ret_vm86_level] same_ret_pop [OF assms]
      same_load_segment [OF assms] refl returns_bindx [where P = "same env"]
    | assumption | fastforce dest: same_regs(8) ret_cs_check_level simp: level_le_3)+

text \<open>IRET returns to an outer level, or, with NT set, to the task that called this one.\<close>

lemma iret_level:
  fixes B :: "'m cpu_bus" and env :: "'m CPUX86State_scheme"
  assumes "kernel_frame B" "breakpoint_frame B"
  shows "returns (helper_iret_protected B shift ip env)
    (\<lambda>_ t. if eflags env AND NT_MASK \<noteq> 0 then task_level t else CPL env \<le> CPL t)"
proof (cases "eflags env AND NT_MASK = 0")
  case True
  then show ?thesis unfolding helper_iret_protected_def
    by (auto intro!: returns_bindx [OF ret_level [OF assms(1)]] returns_Done)
next
  case False
  have "returns (if hflags env AND HF_LMA_MASK \<noteq> 0 then raise_exception_err B EXCP0D_GPF 0 env
      else bindx (cpu_lduw_kernel B (base (tr env) + 0) env) (\<lambda>w env.
        let tss_selector = ucast w :: u32
        in if tss_selector AND 4 \<noteq> 0 then sel_fault B EXCP0A_TSS tss_selector env
           else bindx (load_segment B tss_selector env) (\<lambda>d env. case d of
               None \<Rightarrow> sel_fault B EXCP0A_TSS tss_selector env
             | Some (e1, e2) \<Rightarrow>
                 (if drop_bit DESC_TYPE_SHIFT e2 AND 0x17 \<noteq> 3 then sel_fault B EXCP0A_TSS tss_selector env
                  else switch_tss B tss_selector e1 e2 SWITCH_TSS_IRET ip env)))) (\<lambda>_. task_level)"
    by (intro returns_rules returns_bindx [where P = "\<lambda>_ _. True"] switch_task_level [OF assms])
      (simp_all add: returns_def)
  from returns_bindx [OF this, of "\<lambda>_ env. Done () (env\<lparr>hflags2 := hflags2 env AND NOT HF2_NMI_MASK\<rparr>)" "\<lambda>_. task_level"] False
  show ?thesis unfolding helper_iret_protected_def by (simp add: returns_def task_level_def)
qed

section \<open>Interrupts\<close>

lemma same_rsp:
  fixes B :: "'m cpu_bus" and env :: "'m CPUX86State_scheme"
  assumes "kernel_frame B" "CPUX86State.truncate s = CPUX86State.truncate env"
  shows "returns (get_rsp_from_tss B l s) (same env)"
  unfolding get_rsp_from_tss_def
  by (intro returns_rules assms(2) same_access [OF assms(1)] | assumption)+

lemma interrupt_stack_level:
  fixes B :: "'m cpu_bus" and env :: "'m CPUX86State_scheme"
  assumes "kernel_frame B" "CPUX86State.truncate s = CPUX86State.truncate env"
  shows "returns (interrupt_stack B sel e2 s)
    (\<lambda>(_, _, _, _, _, _, _, dpl) t. CPUX86State.truncate t = CPUX86State.truncate env \<and> dpl AND 3 = dpl \<and> dpl \<le> CPL env)"
  unfolding interrupt_stack_def
  by (intro returns_rules returns_bindx [where P = "same env"] same_inner_stack [OF assms(1)])
    (use assms(2) in \<open>auto dest: same_regs(8) simp: and.assoc\<close>)

lemma interrupt64_stack_level:
  fixes B :: "'m cpu_bus" and env :: "'m CPUX86State_scheme"
  assumes "kernel_frame B" "CPUX86State.truncate s = CPUX86State.truncate env" "gate_cs_check (CPL env) e2 = None"
  shows "returns (interrupt64_stack B sel ist e2 s)
    (\<lambda>(_, _, dpl) t. CPUX86State.truncate t = CPUX86State.truncate env \<and> dpl AND 3 = dpl \<and> dpl \<le> CPL env)"
  unfolding interrupt64_stack_def
  by (intro returns_rules returns_bindx [where P = "same env"] same_rsp [OF assms(1)] assms(2))
    (use assms(2) gate_cs_check_level [OF assms(3)] in \<open>auto dest: same_regs(8) simp: and.assoc\<close>)

lemma interrupt64_level:
  fixes B :: "'m cpu_bus" and env :: "'m CPUX86State_scheme"
  assumes "kernel_frame B"
  shows "returns (do_interrupt64 B n is_int err next_eip is_hw env) (\<lambda>_ t. CPL t \<le> CPL env)"
  unfolding do_interrupt64_def
  by (rule returns_rules same_access [OF assms] same_load_segment [OF assms] refl
      returns_bindx [OF interrupt64_stack_level [OF assms]] same_pushes [OF assms] returns_bindx [where P = "same env"]
    | assumption | fastforce dest: same_regs(8))+

text \<open>The second word of the gate at an entry of the interrupt table.\<close>

definition idt_gate :: "'m cpu_bus \<Rightarrow> u64 \<Rightarrow> 'm CPUX86State_scheme \<Rightarrow> u32 \<Rightarrow> bool" where
  "idt_gate B ptr env e2 \<longleftrightarrow>
    (\<exists>e1 s t. cpu_ldl_kernel B ptr env = Done e1 s \<and> cpu_ldl_kernel B (ptr + 4) s = Done e2 t)"

lemma interrupt64_gate_level:
  fixes B :: "'m cpu_bus" and env :: "'m CPUX86State_scheme"
  assumes "kernel_frame B" "do_interrupt64 B n is_int err next_eip is_hw env = Done () t" "is_int \<noteq> 0"
  shows "\<exists>e2. idt_gate B (base (idt env) + scast (n * 16)) env e2 \<and> CPL env \<le> DPL e2"
proof -
  let ?ptr = "base (idt env) + scast (n * 16)"
  have lim: "\<not> n * 16 + 15 > limit (idt env)"
    using assms(2) by (auto simp: do_interrupt64_def Let_def raise_never_Done)
  obtain e1 s where 1: "cpu_ldl_kernel B ?ptr env = Done e1 s"
    using assms(2) lim by (cases "cpu_ldl_kernel B ?ptr env") (auto simp: do_interrupt64_def)
  obtain e2 s2 where 2: "cpu_ldl_kernel B (?ptr + 4) s = Done e2 s2"
    using assms(2) lim 1 by (cases "cpu_ldl_kernel B (?ptr + 4) s") (auto simp: do_interrupt64_def)
  obtain e3 s3 where 3: "cpu_ldl_kernel B (?ptr + 8) s2 = Done e3 s3"
    using assms(2) lim 1 2 by (cases "cpu_ldl_kernel B (?ptr + 8) s2") (auto simp: do_interrupt64_def)
  have "CPUX86State.truncate s3 = CPUX86State.truncate env"
    using returnsD [OF same_access(2) [OF assms(1) refl] 1] returnsD [OF same_access(2) [OF assms(1) refl] 2]
      returnsD [OF same_access(2) [OF assms(1) refl] 3] by simp
  then have "hflags s3 = hflags env" by (rule same_regs)
  then have "\<not> DPL e2 < CPL env"
    using assms(2,3) lim 1 2 3 by (auto simp: do_interrupt64_def Let_def raise_never_Done split: if_splits)
  then show ?thesis using 1 2 unfolding idt_gate_def by (metis not_less)
qed

text \<open>A task gate leads to the level of the task.\<close>

lemma task_gate_level:
  fixes B :: "'m cpu_bus" and env :: "'m CPUX86State_scheme"
  assumes "kernel_frame B" "breakpoint_frame B"
  shows "returns (interrupt_task_gate B n e1 e2 old_eip has_err err env) (\<lambda>_. task_level)"
proof -
  have set_esp: "task_level (SET_ESP esp mask s) = task_level s" for esp mask and s :: "'m CPUX86State_scheme"
    by (simp add: task_level_def SET_ESP_def)
  have push: "returns (bindx m (\<lambda>_ env. Done () (SET_ESP esp mask env))) (\<lambda>_. task_level)"
    if "returns m (same s)" "task_level s" for m and s :: "'m CPUX86State_scheme" and esp mask
    by (rule returns_bindx [OF that(1)])
      (use that(2) in \<open>auto simp: returns_def set_esp intro: task_level_same\<close>)
  show ?thesis
    unfolding interrupt_task_gate_def Let_def
    by (rule returns_rules returns_bindx [OF switch_task_level [OF assms]] push same_access [OF assms(1)] refl | assumption)+
qed

text \<open>
  What the delivery looks at before it runs through the gate: nothing of the privilege level
  when the gate is a task gate.
\<close>

lemma task_gate_open_to_all:
  assumes "\<not> n * 8 + 7 > limit (idt env)" "cpu_ldl_kernel B (base (idt env) + scast (n * 8)) env = Done e1 s"
    and "cpu_ldl_kernel B (base (idt env) + scast (n * 8) + 4) s = Done e2 t" "drop_bit DESC_TYPE_SHIFT e2 AND 0x1f = 5"
  shows "do_interrupt_protected B n is_int err next_eip is_hw env =
    interrupt_task_gate B n e1 e2 (if is_int \<noteq> 0 then next_eip else ucast (eip env))
      (is_int = 0 \<and> is_hw = 0 \<and> exeption_has_error_code n) err t"
  using assms by (simp add: do_interrupt_protected_def Let_def)

lemma interrupt_protected_level:
  fixes B :: "'m cpu_bus" and env :: "'m CPUX86State_scheme"
  assumes "kernel_frame B" "breakpoint_frame B" "do_interrupt_protected B n is_int err next_eip is_hw env = Done () t"
  shows "\<exists>e2. idt_gate B (base (idt env) + scast (n * 8)) env e2 \<and>
    (if drop_bit DESC_TYPE_SHIFT e2 AND 0x1f = 5 then task_level t
     else CPL t \<le> CPL env \<and> (is_int \<noteq> 0 \<longrightarrow> CPL env \<le> DPL e2))"
proof -
  let ?ptr = "base (idt env) + scast (n * 8)"
  have lim: "\<not> n * 8 + 7 > limit (idt env)"
    using assms(3) by (auto simp: do_interrupt_protected_def Let_def raise_never_Done)
  obtain e1 s where 1: "cpu_ldl_kernel B ?ptr env = Done e1 s"
    using assms(3) lim by (cases "cpu_ldl_kernel B ?ptr env") (auto simp: do_interrupt_protected_def)
  obtain e2 s2 where 2: "cpu_ldl_kernel B (?ptr + 4) s = Done e2 s2"
    using assms(3) lim 1 by (cases "cpu_ldl_kernel B (?ptr + 4) s") (auto simp: do_interrupt_protected_def)
  have s2: "CPUX86State.truncate s2 = CPUX86State.truncate env"
    using returnsD [OF same_access(2) [OF assms(1) refl] 1] returnsD [OF same_access(2) [OF assms(1) refl] 2] by simp
  then have h: "hflags s2 = hflags env" by (rule same_regs)
  have gate: "idt_gate B ?ptr env e2" using 1 2 by (auto simp: idt_gate_def)
  show ?thesis
  proof (cases "drop_bit DESC_TYPE_SHIFT e2 AND 0x1f = (5 :: u32)")
    case True
    have "task_level t"
      by (rule returnsD [OF task_gate_level [OF assms(1,2)] assms(3) [unfolded task_gate_open_to_all [OF lim 1 2 True]]])
    then show ?thesis using gate True by auto
  next
    case False
    have "\<not> (is_int \<noteq> 0 \<and> DPL e2 < CPL s2)"
      using assms(3) lim 1 2 False by (auto simp: do_interrupt_protected_def Let_def raise_never_Done split: if_splits)
    moreover have "returns (do_interrupt_protected B n is_int err next_eip is_hw env) (\<lambda>_ t. CPL t \<le> CPL env)"
      unfolding do_interrupt_protected_def Let_def if_not_P [OF lim] 1 2 bindx.simps if_not_P [OF False]
      by (rule returns_rules same_load_segment [OF assms(1)] refl s2
          returns_bindx [OF interrupt_stack_level [OF assms(1)]] same_pushes [OF assms(1)] returns_bindx [where P = "same env"]
        | assumption | fastforce dest: same_regs(8))+
    then have "CPL t \<le> CPL env" using assms(3) by (rule returnsD)
    ultimately show ?thesis using gate False h by (auto simp: not_less)
  qed
qed

section \<open>Properties\<close>


definition code_at_8 :: cpu_ram where
  "code_at_8 = set_ram ((\<lambda>_. 0)(13 := 0x98)) (ram_zero\<lparr>gdt := \<lparr>selector = 0, base = 0, limit = 15, flags = 0\<rparr>\<rparr>)"



definition idt_at_0 :: cpu_ram where
  "idt_at_0 = set_ram ((\<lambda>_. 0)(50 := 8, 53 := 0x8e, 0x10d := 0x98, 0x10e := 0x20))
    (ram_zero\<lparr>gdt := \<lparr>selector = 0, base = 0x100, limit = 15, flags = 0\<rparr>,
              idt := \<lparr>selector = 0, base = 0, limit = 0xff, flags = 0\<rparr>\<rparr>)"


text \<open>
  A call gate to a conforming code segment makes the level that of the segment, without a new
  stack: a program of level 3 goes on at level 0 on its own stack.
\<close>

definition conforming_gate :: cpu_ram where
  "conforming_gate = set_ram ((\<lambda>_. 0)(10 := 0x10, 13 := 0xec, 0x15 := 0x9c))
    (ram_zero\<lparr>gdt := \<lparr>selector = 0, base = 0, limit = 0x1f, flags = 0\<rparr>, hflags := 3\<rparr>)"

lemma conforming_call_escalates:
  "\<exists>t. helper_lcall_protected flat_bus 8 0 1 0 conforming_gate = Done () t \<and> CPL conforming_gate = 3 \<and> CPL t = 0 \<and>
     segs t R_SS = segs conforming_gate R_SS"
  by (simp add: helper_lcall_protected_def lcall_gate_def lcall_stack_def load_segment_def conforming_gate_def flat_bus_def
      load32_def load16_def gate_cs_check_def PUSHL_def get_sp_mask_def SET_ESP_def load_desc_cache_def seg_zero_def)

text \<open>IRET to virtual 8086 mode does not ask for level 0: from level 3 it sets the I/O privilege level.\<close>

definition vm86_frame :: cpu_ram where
  "vm86_frame = set_ram ((\<lambda>_. 0)(0x1009 := 0x30, 0x100a := 2))
    (ram_zero\<lparr>hflags := 3, regs := (\<lambda>_. 0)(R_ESP := 0x1000),
      segs := (\<lambda>_. \<lparr>selector = 0, base = 0, limit = 0, flags = DESC_B_MASK\<rparr>)\<rparr>)"

lemma iret_vm86_sets_iopl:
  "\<exists>t. helper_ret_protected flat_bus 1 True 0 vm86_frame = Done () t \<and> CPL vm86_frame = 3 \<and>
     eflags vm86_frame AND IOPL_MASK = 0 \<and> eflags t AND IOPL_MASK = IOPL_MASK"
  by (simp add: helper_ret_protected_def ret_pop_def ret_pop_sel_def POPL_def SEG_ADDL_def vm86_frame_def flat_bus_def
      load32_def load16_def get_sp_mask_def ret_to_vm86_def cpu_load_eflags_def load_seg_vm_def Let_def)

end
