(* ===== verification/TcgOps.thy ===== *)
theory TcgOps
  imports Bus ShiftHelper
begin

text \<open>
  The intermediate operations that \<open>translate.c\<close> emits.  The compiler behind them (TCG) is not
  in the repository: what an operation does to the machine is a parameter \<open>T\<close> of the model, and
  \<open>tcg_semantics B T\<close> states its documented behaviour, operation by operation.  A value that
  the documentation leaves open (a discarded variable, a shift by the width or more, a temporary
  after the end of a basic block) is left open here too.  \<open>tcg_eval\<close> is one such \<open>T\<close>.

  Code is a list of operations; labels are only jumped to forward within it, so running it is a
  fold, in which a jump skips the operations up to its label.
\<close>

section \<open>Operands and operations\<close>

text \<open>The global registers and temporaries of the translator, and the local temporaries.\<close>

datatype tcgv =
    cpu_T0 | cpu_T1 | cpu_T3 | cpu_A0 | cpu_tmp0 | cpu_tmp4 | cpu_tmp5 | cpu_tmp6
  | cpu_cc_src | cpu_cc_dst | local_temp nat

datatype tcg_cond =
    TCG_COND_EQ | TCG_COND_NE | TCG_COND_LT | TCG_COND_GE | TCG_COND_LE | TCG_COND_GT
  | TCG_COND_LTU | TCG_COND_GEU | TCG_COND_LEU | TCG_COND_GTU

text \<open>The fields of \<open>CPUX86State\<close> that generated code loads and stores through \<open>cpu_env\<close>.\<close>

datatype env_field = Env_regs nat | Env_seg_base nat | Env_seg_selector nat | Env_eip | Env_df

datatype tcg_op =
    Movi tcgv u64 | Mov tcgv tcgv | Neg tcgv tcgv
  | Add tcgv tcgv tcgv | Addi tcgv tcgv u64 | Sub tcgv tcgv tcgv | Sub_const tcgv u64 tcgv
  | And tcgv tcgv tcgv | Andi tcgv tcgv u64 | Or tcgv tcgv tcgv | Xor tcgv tcgv tcgv | Xori tcgv tcgv u64
  | Shl tcgv tcgv tcgv | Shr tcgv tcgv tcgv | Sar tcgv tcgv tcgv
  | Shli tcgv tcgv nat | Shri tcgv tcgv nat | Sari tcgv tcgv nat
  | Ext osize bool tcgv tcgv
  | Setcond tcg_cond tcgv tcgv tcgv | Setcondi tcg_cond tcgv tcgv u64
  | Discard tcgv
  | Movi_cc_op CCOp | Addi_cc_op CCOp
  | Trunc_tmp2 tcgv | Shli_tmp2 nat | Extu_tmp2 tcgv
  | Call_cc_compute_all | Call_cc_compute_c | Call_rotc bool osize
  | Ld osize bool tcgv env_field nat | St osize tcgv env_field nat
  | Qemu_ld osize bool tcgv tcgv int | Qemu_st osize tcgv tcgv int
  | Brcond tcg_cond tcgv tcgv nat | Brcondi tcg_cond tcgv u64 nat | Br nat | Set_label nat

fun cond_holds :: "tcg_cond \<Rightarrow> u64 \<Rightarrow> u64 \<Rightarrow> bool" where
  "cond_holds TCG_COND_EQ a b \<longleftrightarrow> a = b"
| "cond_holds TCG_COND_NE a b \<longleftrightarrow> a \<noteq> b"
| "cond_holds TCG_COND_LT a b \<longleftrightarrow> sint a < sint b"
| "cond_holds TCG_COND_GE a b \<longleftrightarrow> sint a \<ge> sint b"
| "cond_holds TCG_COND_LE a b \<longleftrightarrow> sint a \<le> sint b"
| "cond_holds TCG_COND_GT a b \<longleftrightarrow> sint a > sint b"
| "cond_holds TCG_COND_LTU a b \<longleftrightarrow> a < b"
| "cond_holds TCG_COND_GEU a b \<longleftrightarrow> a \<ge> b"
| "cond_holds TCG_COND_LEU a b \<longleftrightarrow> a \<le> b"
| "cond_holds TCG_COND_GTU a b \<longleftrightarrow> a > b"

section \<open>The enumeration of the lazy flag operations\<close>

definition ccops :: "CCOp list" where
  "ccops = [CC_OP_DYNAMIC, CC_OP_EFLAGS,
     CC_OP_MULB, CC_OP_MULW, CC_OP_MULL, CC_OP_MULQ, CC_OP_ADDB, CC_OP_ADDW, CC_OP_ADDL, CC_OP_ADDQ,
     CC_OP_ADCB, CC_OP_ADCW, CC_OP_ADCL, CC_OP_ADCQ, CC_OP_SUBB, CC_OP_SUBW, CC_OP_SUBL, CC_OP_SUBQ,
     CC_OP_SBBB, CC_OP_SBBW, CC_OP_SBBL, CC_OP_SBBQ,
     CC_OP_LOGICB, CC_OP_LOGICW, CC_OP_LOGICL, CC_OP_LOGICQ,
     CC_OP_INCB, CC_OP_INCW, CC_OP_INCL, CC_OP_INCQ, CC_OP_DECB, CC_OP_DECW, CC_OP_DECL, CC_OP_DECQ,
     CC_OP_SHLB, CC_OP_SHLW, CC_OP_SHLL, CC_OP_SHLQ, CC_OP_SARB, CC_OP_SARW, CC_OP_SARL, CC_OP_SARQ,
     CC_OP_NB]"

definition cc_op_num :: "CCOp \<Rightarrow> nat" where
  "cc_op_num op = length (takeWhile (\<lambda>x. x \<noteq> op) ccops)"

definition cc_op_of :: "nat \<Rightarrow> CCOp" where
  "cc_op_of n = ccops ! n"

text \<open>The groups of four that the code names by ranges, as in \<open>case CC_OP_ADDB ... CC_OP_ADDQ\<close>.\<close>

datatype cc_group = G_MUL | G_ADD | G_ADC | G_SUB | G_SBB | G_LOGIC | G_INC | G_DEC | G_SHL | G_SAR

fun cc_op_in :: "cc_group \<Rightarrow> osize \<Rightarrow> CCOp" where
  "cc_op_in g sz = cc_op_of (2 +
     4 * (case g of G_MUL \<Rightarrow> 0 | G_ADD \<Rightarrow> 1 | G_ADC \<Rightarrow> 2 | G_SUB \<Rightarrow> 3 | G_SBB \<Rightarrow> 4 | G_LOGIC \<Rightarrow> 5
          | G_INC \<Rightarrow> 6 | G_DEC \<Rightarrow> 7 | G_SHL \<Rightarrow> 8 | G_SAR \<Rightarrow> 9) +
     (case sz of SzB \<Rightarrow> 0 | SzW \<Rightarrow> 1 | SzL \<Rightarrow> 2 | SzQ \<Rightarrow> 3))"

fun cc_group_of :: "CCOp \<Rightarrow> (cc_group \<times> osize) option" where
  "cc_group_of CC_OP_MULB = Some (G_MUL, SzB)" | "cc_group_of CC_OP_MULW = Some (G_MUL, SzW)"
| "cc_group_of CC_OP_MULL = Some (G_MUL, SzL)" | "cc_group_of CC_OP_MULQ = Some (G_MUL, SzQ)"
| "cc_group_of CC_OP_ADDB = Some (G_ADD, SzB)" | "cc_group_of CC_OP_ADDW = Some (G_ADD, SzW)"
| "cc_group_of CC_OP_ADDL = Some (G_ADD, SzL)" | "cc_group_of CC_OP_ADDQ = Some (G_ADD, SzQ)"
| "cc_group_of CC_OP_ADCB = Some (G_ADC, SzB)" | "cc_group_of CC_OP_ADCW = Some (G_ADC, SzW)"
| "cc_group_of CC_OP_ADCL = Some (G_ADC, SzL)" | "cc_group_of CC_OP_ADCQ = Some (G_ADC, SzQ)"
| "cc_group_of CC_OP_SUBB = Some (G_SUB, SzB)" | "cc_group_of CC_OP_SUBW = Some (G_SUB, SzW)"
| "cc_group_of CC_OP_SUBL = Some (G_SUB, SzL)" | "cc_group_of CC_OP_SUBQ = Some (G_SUB, SzQ)"
| "cc_group_of CC_OP_SBBB = Some (G_SBB, SzB)" | "cc_group_of CC_OP_SBBW = Some (G_SBB, SzW)"
| "cc_group_of CC_OP_SBBL = Some (G_SBB, SzL)" | "cc_group_of CC_OP_SBBQ = Some (G_SBB, SzQ)"
| "cc_group_of CC_OP_LOGICB = Some (G_LOGIC, SzB)" | "cc_group_of CC_OP_LOGICW = Some (G_LOGIC, SzW)"
| "cc_group_of CC_OP_LOGICL = Some (G_LOGIC, SzL)" | "cc_group_of CC_OP_LOGICQ = Some (G_LOGIC, SzQ)"
| "cc_group_of CC_OP_INCB = Some (G_INC, SzB)" | "cc_group_of CC_OP_INCW = Some (G_INC, SzW)"
| "cc_group_of CC_OP_INCL = Some (G_INC, SzL)" | "cc_group_of CC_OP_INCQ = Some (G_INC, SzQ)"
| "cc_group_of CC_OP_DECB = Some (G_DEC, SzB)" | "cc_group_of CC_OP_DECW = Some (G_DEC, SzW)"
| "cc_group_of CC_OP_DECL = Some (G_DEC, SzL)" | "cc_group_of CC_OP_DECQ = Some (G_DEC, SzQ)"
| "cc_group_of CC_OP_SHLB = Some (G_SHL, SzB)" | "cc_group_of CC_OP_SHLW = Some (G_SHL, SzW)"
| "cc_group_of CC_OP_SHLL = Some (G_SHL, SzL)" | "cc_group_of CC_OP_SHLQ = Some (G_SHL, SzQ)"
| "cc_group_of CC_OP_SARB = Some (G_SAR, SzB)" | "cc_group_of CC_OP_SARW = Some (G_SAR, SzW)"
| "cc_group_of CC_OP_SARL = Some (G_SAR, SzL)" | "cc_group_of CC_OP_SARQ = Some (G_SAR, SzQ)"
| "cc_group_of CC_OP_DYNAMIC = None" | "cc_group_of CC_OP_EFLAGS = None" | "cc_group_of CC_OP_NB = None"

lemma cc_group_of_in [simp]: "cc_group_of (cc_op_in g sz) = Some (g, sz)"
  by (cases g; cases sz) (simp_all add: cc_op_of_def ccops_def)

lemma cc_op_inE: "cc_group_of op = Some (g, sz) \<Longrightarrow> op = cc_op_in g sz"
  by (cases op) (auto simp: cc_op_of_def ccops_def)

lemma cc_op_in_special [simp]:
  "cc_op_in g sz \<noteq> CC_OP_DYNAMIC" "cc_op_in g sz \<noteq> CC_OP_EFLAGS" "cc_op_in g sz \<noteq> CC_OP_NB"
  "CC_OP_DYNAMIC \<noteq> cc_op_in g sz" "CC_OP_EFLAGS \<noteq> cc_op_in g sz" "CC_OP_NB \<noteq> cc_op_in g sz"
  by (metis cc_group_of_in cc_group_of.simps(41-43) option.distinct(1))+

lemma cc_op_in_inject [simp]: "cc_op_in g sz = cc_op_in g' sz' \<longleftrightarrow> g = g' \<and> sz = sz'"
  by (metis cc_group_of_in option.inject prod.inject)

lemma cc_op_cases:
  obtains "op = CC_OP_DYNAMIC" | "op = CC_OP_EFLAGS" | "op = CC_OP_NB" | g sz where "op = cc_op_in g sz"
proof (cases "cc_group_of op")
  case None
  then show ?thesis using that by (cases op) simp_all
next
  case (Some gs)
  then show ?thesis using that(4) cc_op_inE by (cases gs) blast
qed

declare cc_op_in.simps [simp del]

section \<open>The machine state\<close>

record 'm tcg_state =
  tenv :: "'m CPUX86State_scheme"
  temps :: "tcgv \<Rightarrow> u64"
  tmp2_i32 :: u32

text \<open>\<open>cpu_cc_src\<close> and \<open>cpu_cc_dst\<close> are the fields of the CPU state.\<close>

definition val :: "'m tcg_state \<Rightarrow> tcgv \<Rightarrow> u64" where
  "val st r = (case r of cpu_cc_src \<Rightarrow> cc_src (tenv st) | cpu_cc_dst \<Rightarrow> cc_dst (tenv st) | _ \<Rightarrow> temps st r)"

definition set_val :: "tcgv \<Rightarrow> u64 \<Rightarrow> 'm tcg_state \<Rightarrow> 'm tcg_state" where
  "set_val r v st = (case r of
     cpu_cc_src \<Rightarrow> st\<lparr>tenv := (tenv st)\<lparr>cc_src := v\<rparr>\<rparr>
   | cpu_cc_dst \<Rightarrow> st\<lparr>tenv := (tenv st)\<lparr>cc_dst := v\<rparr>\<rparr>
   | _ \<Rightarrow> st\<lparr>temps := (temps st)(r := v)\<rparr>)"

definition set_env_op :: "CCOp \<Rightarrow> 'm tcg_state \<Rightarrow> 'm tcg_state" where
  "set_env_op op st = st\<lparr>tenv := (tenv st)\<lparr>cc_op := op\<rparr>\<rparr>"

definition set_tmp2 :: "u32 \<Rightarrow> 'm tcg_state \<Rightarrow> 'm tcg_state" where
  "set_tmp2 w st = st\<lparr>tmp2_i32 := w\<rparr>"

fun field :: "env_field \<Rightarrow> 'm CPUX86State_scheme \<Rightarrow> u64" where
  "field (Env_regs r) env = regs env r"
| "field (Env_seg_base i) env = base (segs env i)"
| "field (Env_seg_selector i) env = ucast (selector (segs env i))"
| "field Env_eip env = eip env"
| "field Env_df env = ucast (df env)"

fun put_field :: "env_field \<Rightarrow> u64 \<Rightarrow> 'm CPUX86State_scheme \<Rightarrow> 'm CPUX86State_scheme" where
  "put_field (Env_regs r) v env = set_reg r v env"
| "put_field (Env_seg_base i) v env = env\<lparr>segs := (segs env)(i := segs env i\<lparr>base := v\<rparr>)\<rparr>"
| "put_field (Env_seg_selector i) v env = env\<lparr>segs := (segs env)(i := segs env i\<lparr>selector := ucast v\<rparr>)\<rparr>"
| "put_field Env_eip v env = env\<lparr>eip := v\<rparr>"
| "put_field Env_df v env = env\<lparr>df := ucast v\<rparr>"

text \<open>Part of a 64-bit field: the \<open>sz\<close> bits at a byte offset, on a little-endian host.\<close>

definition ext_tl :: "osize \<Rightarrow> bool \<Rightarrow> u64 \<Rightarrow> u64" where
  "ext_tl sz sx x = (if sx then signed_take_bit (DATA_BITS sz - 1) x else take_bit (DATA_BITS sz) x)"

definition insert_part :: "osize \<Rightarrow> nat \<Rightarrow> u64 \<Rightarrow> u64 \<Rightarrow> u64" where
  "insert_part sz off v w =
    (w AND NOT (push_bit (8 * off) (DATA_MASK sz))) OR push_bit (8 * off) (take_bit (DATA_BITS sz) v)"

text \<open>The temporaries that do not survive the end of a basic block; local ones do.\<close>

definition lose_temps :: "(tcgv \<Rightarrow> u64) \<Rightarrow> u32 \<Rightarrow> 'm tcg_state \<Rightarrow> 'm tcg_state" where
  "lose_temps f w st = st\<lparr>temps := (\<lambda>r. case r of local_temp n \<Rightarrow> temps st r | _ \<Rightarrow> f r), tmp2_i32 := w\<rparr>"

section \<open>Documented effects\<close>

fun op_effect :: "tcg_op \<Rightarrow> 'm tcg_state \<Rightarrow> 'm tcg_state option" where
  "op_effect (Movi d k) st = Some (set_val d k st)"
| "op_effect (Mov d a) st = Some (set_val d (val st a) st)"
| "op_effect (Neg d a) st = Some (set_val d (- val st a) st)"
| "op_effect (Add d a b) st = Some (set_val d (val st a + val st b) st)"
| "op_effect (Addi d a k) st = Some (set_val d (val st a + k) st)"
| "op_effect (Sub d a b) st = Some (set_val d (val st a - val st b) st)"
| "op_effect (Sub_const d k b) st = Some (set_val d (k - val st b) st)"
| "op_effect (And d a b) st = Some (set_val d (val st a AND val st b) st)"
| "op_effect (Andi d a k) st = Some (set_val d (val st a AND k) st)"
| "op_effect (Or d a b) st = Some (set_val d (val st a OR val st b) st)"
| "op_effect (Xor d a b) st = Some (set_val d (val st a XOR val st b) st)"
| "op_effect (Xori d a k) st = Some (set_val d (val st a XOR k) st)"
| "op_effect (Shl d a b) st =
    (if val st b < 64 then Some (set_val d (push_bit (unat (val st b)) (val st a)) st) else None)"
| "op_effect (Shr d a b) st =
    (if val st b < 64 then Some (set_val d (drop_bit (unat (val st b)) (val st a)) st) else None)"
| "op_effect (Sar d a b) st =
    (if val st b < 64 then Some (set_val d (signed_drop_bit (unat (val st b)) (val st a)) st) else None)"
| "op_effect (Shli d a k) st = (if k < 64 then Some (set_val d (push_bit k (val st a)) st) else None)"
| "op_effect (Shri d a k) st = (if k < 64 then Some (set_val d (drop_bit k (val st a)) st) else None)"
| "op_effect (Sari d a k) st = (if k < 64 then Some (set_val d (signed_drop_bit k (val st a)) st) else None)"
| "op_effect (Ext sz sx d a) st = Some (set_val d (ext_tl sz sx (val st a)) st)"
| "op_effect (Setcond c d a b) st = Some (set_val d (of_bool (cond_holds c (val st a) (val st b))) st)"
| "op_effect (Setcondi c d a k) st = Some (set_val d (of_bool (cond_holds c (val st a) k)) st)"
| "op_effect (Movi_cc_op op) st = Some (set_env_op op st)"
| "op_effect (Addi_cc_op op) st =
    (let n = unat (tmp2_i32 st) + cc_op_num op in if n < length ccops then Some (set_env_op (cc_op_of n) st) else None)"
| "op_effect (Trunc_tmp2 a) st = Some (set_tmp2 (ucast (val st a)) st)"
| "op_effect (Shli_tmp2 k) st = (if k < 32 then Some (set_tmp2 (push_bit k (tmp2_i32 st)) st) else None)"
| "op_effect (Extu_tmp2 d) st = Some (set_val d (ucast (tmp2_i32 st)) st)"
| "op_effect Call_cc_compute_all st =
    Some (set_tmp2 (helper_cc_compute_all (tenv st) (cc_op (tenv st))) st)"
| "op_effect Call_cc_compute_c st =
    Some (set_tmp2 (helper_cc_compute_c (tenv st) (cc_op (tenv st))) st)"
| "op_effect (Call_rotc is_right sz) st =
    (let (t, env) = (if is_right then helper_rcr else helper_rcl) sz (tenv st) (val st cpu_T0) (val st cpu_T1)
     in Some (set_val cpu_T0 t (st\<lparr>tenv := env\<rparr>)))"
| "op_effect (Ld sz sx d f off) st = Some (set_val d (ext_tl sz sx (drop_bit (8 * off) (field f (tenv st)))) st)"
| "op_effect (St sz a f off) st =
    Some (st\<lparr>tenv := put_field f (insert_part sz off (val st a) (field f (tenv st))) (tenv st)\<rparr>)"
| "op_effect _ st = None"

text \<open>The variable that an operation writes although its value is left open.\<close>

fun open_result :: "tcg_op \<Rightarrow> tcgv option" where
  "open_result (Discard d) = Some d"
| "open_result (Shl d a b) = Some d"
| "open_result (Shr d a b) = Some d"
| "open_result (Sar d a b) = Some d"
| "open_result op = None"

fun ends_block :: "tcg_op \<Rightarrow> bool" where
  "ends_block (Brcond c a b l) = True"
| "ends_block (Brcondi c a k l) = True"
| "ends_block (Br l) = True"
| "ends_block (Set_label l) = True"
| "ends_block op = False"

text \<open>The guest memory accesses are those of the soft MMU.\<close>

fun qemu_ld :: "'m cpu_bus \<Rightarrow> osize \<Rightarrow> bool \<Rightarrow> u64 \<Rightarrow> (u64, 'm) helper" where
  "qemu_ld B SzB sx a env = bindx (cpu_ldub_data B a env) (\<lambda>v env. Done (ext_tl SzB sx (ucast v)) env)"
| "qemu_ld B SzW sx a env = bindx (cpu_lduw_data B a env) (\<lambda>v env. Done (ext_tl SzW sx (ucast v)) env)"
| "qemu_ld B SzL sx a env = bindx (cpu_ldl_data B a env) (\<lambda>v env. Done (ext_tl SzL sx (ucast v)) env)"
| "qemu_ld B SzQ sx a env = cpu_ldq_data B a env"

fun qemu_st :: "'m cpu_bus \<Rightarrow> osize \<Rightarrow> u64 \<Rightarrow> u64 \<Rightarrow> (unit, 'm) helper" where
  "qemu_st B SzB a v env = cpu_stb_data B a (ucast v) env"
| "qemu_st B SzW a v env = cpu_stw_data B a (ucast v) env"
| "qemu_st B SzL a v env = cpu_stl_data B a (ucast v) env"
| "qemu_st B SzQ a v env = cpu_stq_data B a v env"

type_synonym 'm tcg = "tcg_op \<Rightarrow> 'm tcg_state \<Rightarrow> (unit, 'm tcg_state) outcome"

fun after_ld :: "tcgv \<Rightarrow> 'm tcg_state \<Rightarrow> (u64, 'm CPUX86State_scheme) outcome \<Rightarrow> (unit, 'm tcg_state) outcome" where
  "after_ld d st (Done v env) = Done () (set_val d v (st\<lparr>tenv := env\<rparr>))"
| "after_ld d st (Stop e env) = Stop e (st\<lparr>tenv := env\<rparr>)"

fun after_st :: "'m tcg_state \<Rightarrow> (unit, 'm CPUX86State_scheme) outcome \<Rightarrow> (unit, 'm tcg_state) outcome" where
  "after_st st (Done v env) = Done () (st\<lparr>tenv := env\<rparr>)"
| "after_st st (Stop e env) = Stop e (st\<lparr>tenv := env\<rparr>)"

definition tcg_semantics :: "'m cpu_bus \<Rightarrow> 'm tcg \<Rightarrow> bool" where
  "tcg_semantics B T \<longleftrightarrow>
    (\<forall>op st st'. op_effect op st = Some st' \<longrightarrow> T op st = Done () st') \<and>
    (\<forall>op st d. op_effect op st = None \<longrightarrow> open_result op = Some d \<longrightarrow> (\<exists>v. T op st = Done () (set_val d v st))) \<and>
    (\<forall>op st. ends_block op \<longrightarrow> (\<exists>f w. T op st = Done () (lose_temps f w st))) \<and>
    (\<forall>sz sx d a i st. T (Qemu_ld sz sx d a i) st = after_ld d st (qemu_ld B sz sx (val st a) (tenv st))) \<and>
    (\<forall>sz v a i st. T (Qemu_st sz v a i) st = after_st st (qemu_st B sz (val st a) (val st v) (tenv st)))"

text \<open>An evaluator with that behaviour: open values are 0, temporaries survive.\<close>

fun tcg_eval :: "'m cpu_bus \<Rightarrow> 'm tcg" where
  "tcg_eval B (Qemu_ld sz sx d a i) st = after_ld d st (qemu_ld B sz sx (val st a) (tenv st))"
| "tcg_eval B (Qemu_st sz v a i) st = after_st st (qemu_st B sz (val st a) (val st v) (tenv st))"
| "tcg_eval B op st = (case op_effect op st of
     Some st' \<Rightarrow> Done () st'
   | None \<Rightarrow> Done () (case open_result op of Some d \<Rightarrow> set_val d 0 st | None \<Rightarrow> st))"

lemma lose_no_temps: "lose_temps (temps st) (tmp2_i32 st) st = st"
proof -
  have "(\<lambda>r. case r of local_temp n \<Rightarrow> temps st r | _ \<Rightarrow> temps st r) = temps st"
    by (simp add: fun_eq_iff split: tcgv.split)
  then show ?thesis by (simp add: lose_temps_def)
qed

lemma tcg_eval_effect:
  "op_effect op st = Some st' \<Longrightarrow> tcg_eval B op st = Done () st'"
  "op_effect op st = None \<Longrightarrow> open_result op = Some d \<Longrightarrow> tcg_eval B op st = Done () (set_val d 0 st)"
  "ends_block op \<Longrightarrow> tcg_eval B op st = Done () st"
  by (cases op; auto split: if_splits)+

lemma tcg_eval_semantics: "tcg_semantics B (tcg_eval B)"
  unfolding tcg_semantics_def
proof (intro conjI allI impI)
  fix op :: tcg_op and st :: "'a tcg_state"
  assume "ends_block op"
  then have "tcg_eval B op st = Done () (lose_temps (temps st) (tmp2_i32 st) st)"
    by (simp add: lose_no_temps tcg_eval_effect(3))
  then show "\<exists>f w. tcg_eval B op st = Done () (lose_temps f w st)" by blast
qed (auto intro: tcg_eval_effect)

lemma tcg_semanticsD:
  assumes "tcg_semantics B T"
  shows "op_effect op st = Some st' \<Longrightarrow> T op st = Done () st'"
    and "op_effect op st = None \<Longrightarrow> open_result op = Some d \<Longrightarrow> \<exists>v. T op st = Done () (set_val d v st)"
    and "ends_block op \<Longrightarrow> \<exists>f w. T op st = Done () (lose_temps f w st)"
    and "T (Qemu_ld sz sx d a i) st = after_ld d st (qemu_ld B sz sx (val st a) (tenv st))"
    and "T (Qemu_st sz v a i) st = after_st st (qemu_st B sz (val st a) (val st v) (tenv st))"
  using assms unfolding tcg_semantics_def by simp_all

section \<open>Running code\<close>

datatype 'm mode = Running "'m tcg_state" | Jumping nat "'m tcg_state" | Halted stop "'m tcg_state"

fun taken :: "tcg_op \<Rightarrow> 'm tcg_state \<Rightarrow> nat option" where
  "taken (Brcond c a b l) st = (if cond_holds c (val st a) (val st b) then Some l else None)"
| "taken (Brcondi c a k l) st = (if cond_holds c (val st a) k then Some l else None)"
| "taken (Br l) st = Some l"
| "taken op st = None"

fun tstep :: "'m tcg \<Rightarrow> tcg_op \<Rightarrow> 'm mode \<Rightarrow> 'm mode" where
  "tstep T op (Running st) = (case T op st of
     Done _ st' \<Rightarrow> (case taken op st of Some l \<Rightarrow> Jumping l st' | None \<Rightarrow> Running st')
   | Stop e st' \<Rightarrow> Halted e st')"
| "tstep T op (Jumping l st) =
    (if op = Set_label l then (case T op st of Done _ st' \<Rightarrow> Running st' | Stop e st' \<Rightarrow> Halted e st')
     else Jumping l st)"
| "tstep T op (Halted e st) = Halted e st"

definition run_ops :: "'m tcg \<Rightarrow> 'm mode \<Rightarrow> tcg_op list \<Rightarrow> 'm mode" where
  "run_ops T m ops = fold (tstep T) ops m"

section \<open>Reasoning about states\<close>

lemma val_set_val [simp]: "val (set_val r v st) q = (if q = r then v else val st q)"
  by (simp add: val_def set_val_def split: tcgv.split)

lemma val_updates [simp]:
  "val (set_env_op op st) q = val st q" "val (set_tmp2 w st) q = val st q"
  "val (lose_temps f w st) cpu_cc_src = val st cpu_cc_src"
  "val (lose_temps f w st) cpu_cc_dst = val st cpu_cc_dst"
  "val (lose_temps f w st) (local_temp n) = val st (local_temp n)"
  by (simp_all add: val_def set_env_op_def set_tmp2_def lose_temps_def split: tcgv.split)

lemma tmp2_updates [simp]:
  "tmp2_i32 (set_val r v st) = tmp2_i32 st" "tmp2_i32 (set_env_op op st) = tmp2_i32 st"
  "tmp2_i32 (set_tmp2 w st) = w"
  by (simp_all add: set_val_def set_env_op_def set_tmp2_def split: tcgv.split)

lemma cc_op_updates [simp]:
  "cc_op (tenv (set_val r v st)) = cc_op (tenv st)" "cc_op (tenv (set_env_op op st)) = op"
  "cc_op (tenv (set_tmp2 w st)) = cc_op (tenv st)" "cc_op (tenv (lose_temps f w st)) = cc_op (tenv st)"
  by (simp_all add: set_val_def set_env_op_def set_tmp2_def lose_temps_def split: tcgv.split)

lemma cc_src_val [simp]: "cc_src (tenv st) = val st cpu_cc_src"
  and cc_dst_val [simp]: "cc_dst (tenv st) = val st cpu_cc_dst"
  by (simp_all add: val_def)

text \<open>The CPU state apart from the lazy flags.\<close>

definition rest :: "'m CPUX86State_scheme \<Rightarrow> 'm CPUX86State_scheme" where
  "rest env = env\<lparr>cc_src := 0, cc_dst := 0, cc_op := CC_OP_DYNAMIC\<rparr>"

lemma rest_updates [simp]:
  "rest (tenv (set_val r v st)) = rest (tenv st)" "rest (tenv (set_env_op op st)) = rest (tenv st)"
  "rest (tenv (set_tmp2 w st)) = rest (tenv st)" "rest (tenv (lose_temps f w st)) = rest (tenv st)"
  by (simp_all add: rest_def set_val_def set_env_op_def set_tmp2_def lose_temps_def split: tcgv.split)

lemma rest_sel:
  assumes "rest e = rest e'"
  shows "regs e = regs e'" "eip e = eip e'" "segs e = segs e'" "df e = df e'" "CPUX86State.more e = CPUX86State.more e'"
proof -
  have *: "regs e = regs (rest e)" "eip e = eip (rest e)" "segs e = segs (rest e)" "df e = df (rest e)"
    "CPUX86State.more e = CPUX86State.more (rest e)" for e :: "'m CPUX86State_scheme"
    by (simp_all add: rest_def)
  show "regs e = regs e'" "eip e = eip e'" "segs e = segs e'" "df e = df e'" "CPUX86State.more e = CPUX86State.more e'"
    by (metis * assms)+
qed

text \<open>The flags are a function of the operation, the saved operand and the result.\<close>

definition cc_flags :: "CCOp \<Rightarrow> u64 \<Rightarrow> u64 \<Rightarrow> u32" where
  "cc_flags op src dst = helper_cc_compute_all (cpu_zero\<lparr>cc_src := src, cc_dst := dst\<rparr>) op"

lemma compute_all_cc_flags: "helper_cc_compute_all env op = cc_flags op (cc_src env) (cc_dst env)"
  unfolding cc_flags_def
  by (cases op) (simp_all add: compute_all_eflags_def compute_all_mul_def compute_all_add_def compute_all_adc_def
      compute_all_sub_def compute_all_sbb_def compute_all_logic_def compute_all_inc_def compute_all_dec_def
      compute_all_shl_def compute_all_sar_def)

text \<open>Running the operations whose effect is determined.\<close>

lemma tstep_effect:
  assumes "tcg_semantics B T" "op_effect op st = Some st'"
  shows "tstep T op (Running st) = Running st'"
proof -
  have "T op st = Done () st'" by (rule tcg_semanticsD(1) [OF assms])
  moreover have "taken op st = None" using assms(2) by (cases op) simp_all
  ultimately show ?thesis by simp
qed

lemma tstep_run:
  assumes "tcg_semantics B T" "op_effect op st \<noteq> None"
  shows "tstep T op (Running st) = Running (the (op_effect op st))"
  using tstep_effect [OF assms(1)] assms(2) by auto

lemma tstep_open:
  assumes "tcg_semantics B T" "open_result op = Some d"
    and "\<And>v. op_effect op st = Some (set_val d v st) \<or> op_effect op st = None"
  obtains v where "tstep T op (Running st) = Running (set_val d v st)"
proof -
  have t: "taken op st = None" using assms(2) by (cases op) simp_all
  show ?thesis
  proof (cases "op_effect op st")
    case None
    then obtain v where "T op st = Done () (set_val d v st)" using tcg_semanticsD(2) [OF assms(1) None assms(2)] by blast
    then show ?thesis using that t by simp
  next
    case (Some st')
    then have "st' = set_val d 0 st" using assms(3) [of 0] by simp
    then show ?thesis using that tstep_effect [OF assms(1) Some] by blast
  qed
qed

lemma tstep_block:
  assumes "tcg_semantics B T" "ends_block op"
  obtains f w where "tstep T op (Running st) =
    (case taken op st of Some l \<Rightarrow> Jumping l (lose_temps f w st) | None \<Rightarrow> Running (lose_temps f w st))"
proof -
  obtain f w where "T op st = Done () (lose_temps f w st)"
    using tcg_semanticsD(3) [OF assms] by blast
  then show ?thesis using that [of f w] by simp
qed

lemma tstep_label:
  assumes "tcg_semantics B T"
  obtains f w where "tstep T (Set_label l) (Jumping l st) = Running (lose_temps f w st)"
proof -
  obtain f w where "T (Set_label l) st = Done () (lose_temps f w st)"
    using tcg_semanticsD(3) [OF assms, of "Set_label l" st] by auto
  then show ?thesis using that [of f w] by simp
qed

declare tstep.simps(1) [simp del]

end
