(* ===== verification/GenCond.thy ===== *)
theory GenCond
  imports TcgOps
begin

text \<open>
  The translator's context and the generation of condition tests, after \<open>translate.c\<close>:
  \<open>set_cc_op\<close> and \<open>gen_update_cc_op\<close>, which keep the flag operation of the current point of
  the translation, \<open>gen_compute_eflags\<close> and its single-flag variants, conditional jumps
  (\<open>gen_jcc1\<close>) and \<open>SETcc\<close>.  A generating function takes the context and returns it with the
  emitted operations appended to the buffer.
\<close>

section \<open>The context\<close>

text \<open>
  \<open>struct DisasContext\<close>, with the global \<open>x86_64_hregs\<close>; the operation buffer and the counters
  of labels and local temporaries are TCG's.  An override of \<open>-1\<close> is \<open>None\<close>.
\<close>

record DisasContext =
  s_override :: "nat option"
  s_prefix :: nat
  s_aflag :: nat
  s_dflag :: nat
  s_pc :: u64
  s_is_jmp :: nat
  s_cs_base :: u64
  s_pe :: bool
  s_code32 :: bool
  s_lma :: bool
  s_code64 :: bool
  s_rex_x :: nat
  s_rex_b :: nat
  s_ss32 :: bool
  s_cc_op :: CCOp
  s_cc_op_dirty :: bool
  s_addseg :: bool
  s_vm86 :: bool
  s_cpl :: nat
  s_iopl :: nat
  s_tf :: bool
  s_singlestep_enabled :: bool
  s_jmp_opt :: bool
  s_mem_index :: int
  s_flags :: u64
  s_popl_esp_hack :: nat
  s_rip_offset :: nat
  x86_64_hregs :: bool
  op_buf :: "tcg_op list"
  nb_labels :: nat
  nb_temps :: nat

type_synonym gen = "DisasContext \<Rightarrow> DisasContext"

definition emit :: "tcg_op \<Rightarrow> gen" where
  "emit op s = s\<lparr>op_buf := op_buf s @ [op]\<rparr>"

definition gen_new_label :: "DisasContext \<Rightarrow> nat \<times> DisasContext" where
  "gen_new_label s = (nb_labels s, s\<lparr>nb_labels := nb_labels s + 1\<rparr>)"

definition tcg_temp_local_new :: "DisasContext \<Rightarrow> tcgv \<times> DisasContext" where
  "tcg_temp_local_new s = (local_temp (nb_temps s), s\<lparr>nb_temps := nb_temps s + 1\<rparr>)"

text \<open>
  The context at the start of a block, from the flags of the block; the fields that belong to
  one instruction are set before each of them.  (\<open>CONFIG_SOFTMMU\<close> is not defined by \<open>config.h\<close>.)
\<close>

definition block_start :: "u64 \<Rightarrow> u64 \<Rightarrow> bool \<Rightarrow> gen" where
  "block_start cs_base fl singlestep_enabled dc =
    (let cpl = unat (drop_bit 0 fl AND 3)
     in dc\<lparr>s_pe := bit fl HF_PE_SHIFT,
            s_code32 := bit fl HF_CS32_SHIFT,
            s_ss32 := bit fl HF_SS32_SHIFT,
            s_addseg := bit fl HF_ADDSEG_SHIFT,
            s_vm86 := bit fl 17,
            s_cpl := cpl,
            s_iopl := unat (drop_bit IOPL_SHIFT fl AND 3),
            s_tf := bit fl 8,
            s_singlestep_enabled := singlestep_enabled,
            s_cc_op := CC_OP_DYNAMIC,
            s_cc_op_dirty := False,
            s_cs_base := cs_base,
            s_popl_esp_hack := 0,
            s_mem_index := (if fl AND HF_SOFTMMU_MASK \<noteq> 0 then (if cpl = 3 then 2 * 4 else 1 * 4) else 0),
            s_lma := bit fl 14,
            s_code64 := bit fl 15,
            s_flags := fl,
            s_jmp_opt := \<not> (bit fl 8 \<or> singlestep_enabled \<or> fl AND HF_INHIBIT_IRQ_MASK \<noteq> 0 \<or> fl AND HF_SOFTMMU_MASK \<noteq> 0),
            s_is_jmp := 0\<rparr>)"

section \<open>The current flag operation\<close>

abbreviation (input) USES_CC_DST :: "2 word" where "USES_CC_DST \<equiv> 1"
abbreviation (input) USES_CC_SRC :: "2 word" where "USES_CC_SRC \<equiv> 2"

definition cc_op_live :: "CCOp \<Rightarrow> 2 word" where
  "cc_op_live op = (case cc_group_of op of
     Some (G_LOGIC, _) \<Rightarrow> USES_CC_DST
   | Some _ \<Rightarrow> USES_CC_DST OR USES_CC_SRC
   | None \<Rightarrow> (if op = CC_OP_DYNAMIC then USES_CC_DST OR USES_CC_SRC
              else if op = CC_OP_EFLAGS then USES_CC_SRC else 0))"

definition set_cc_op :: "CCOp \<Rightarrow> gen" where
  "set_cc_op op s =
    (if s_cc_op s = op then s
     else
       (let dead = cc_op_live (s_cc_op s) AND NOT (cc_op_live op);
            s = (if dead AND USES_CC_DST \<noteq> 0 then emit (Discard cpu_cc_dst) s else s);
            s = (if dead AND USES_CC_SRC \<noteq> 0 then emit (Discard cpu_cc_src) s else s)
        in s\<lparr>s_cc_op := op, s_cc_op_dirty := op \<noteq> CC_OP_DYNAMIC\<rparr>))"

definition gen_update_cc_op :: gen where
  "gen_update_cc_op s =
    (if s_cc_op_dirty s then (emit (Movi_cc_op (s_cc_op s)) s)\<lparr>s_cc_op_dirty := False\<rparr> else s)"

text \<open>\<open>gen_ext_tl\<close> returns the variable that holds the extended value: \<open>src\<close> itself at full width.\<close>

definition gen_ext_tl :: "tcgv \<Rightarrow> tcgv \<Rightarrow> osize \<Rightarrow> bool \<Rightarrow> DisasContext \<Rightarrow> tcgv \<times> DisasContext" where
  "gen_ext_tl dst src sz sx s = (if sz = SzQ then (src, s) else (dst, emit (Ext sz sx dst src) s))"

definition gen_extu :: "osize \<Rightarrow> tcgv \<Rightarrow> gen" where
  "gen_extu ot reg s = snd (gen_ext_tl reg reg ot False s)"

definition gen_exts :: "osize \<Rightarrow> tcgv \<Rightarrow> gen" where
  "gen_exts ot reg s = snd (gen_ext_tl reg reg ot True s)"

section \<open>Single flags\<close>

definition gen_compute_eflags :: gen where
  "gen_compute_eflags s =
    (if s_cc_op s = CC_OP_EFLAGS then s
     else block [
       gen_update_cc_op,
       emit Call_cc_compute_all,
       set_cc_op CC_OP_EFLAGS,
       emit (Extu_tmp2 cpu_cc_src)] s)"

definition inv_bit :: "bool \<Rightarrow> tcgv \<Rightarrow> gen" where
  "inv_bit neg reg s = (if neg then emit (Xori reg reg 1) s else s)"

definition gen_compute_eflags_c :: "tcgv \<Rightarrow> bool \<Rightarrow> gen" where
  "gen_compute_eflags_c reg neg s = (case cc_group_of (s_cc_op s) of
     Some (G_SUB, sz) \<Rightarrow>
       (let (t1, s) = gen_ext_tl cpu_tmp0 cpu_cc_src sz False s;
            t0 = (if t1 = cpu_cc_src then cpu_tmp0 else reg);
            s = emit (Add t0 cpu_cc_dst cpu_cc_src) s;
            s = gen_extu sz t0 s
        in emit (Setcond (if neg then TCG_COND_GEU else TCG_COND_LTU) reg t0 t1) s)
   | Some (G_ADD, sz) \<Rightarrow>
       (let (t1, s) = gen_ext_tl cpu_tmp0 cpu_cc_src sz False s;
            (t0, s) = gen_ext_tl reg cpu_cc_dst sz False s
        in emit (Setcond (if neg then TCG_COND_GEU else TCG_COND_LTU) reg t0 t1) s)
   | Some (G_SBB, sz) \<Rightarrow>
       (let (t1, s) = gen_ext_tl cpu_tmp0 cpu_cc_src sz False s;
            (t1, s) = (if t1 = reg \<and> reg = cpu_cc_src then (cpu_tmp0, emit (Mov cpu_tmp0 cpu_cc_src) s) else (t1, s));
            s = emit (Add reg cpu_cc_dst cpu_cc_src) s;
            s = emit (Addi reg reg 1) s;
            s = gen_extu sz reg s
        in emit (Setcond (if neg then TCG_COND_GTU else TCG_COND_LEU) reg reg t1) s)
   | Some (G_ADC, sz) \<Rightarrow>
       (let (t1, s) = gen_ext_tl cpu_tmp0 cpu_cc_src sz False s;
            (t0, s) = gen_ext_tl reg cpu_cc_dst sz False s
        in emit (Setcond (if neg then TCG_COND_GTU else TCG_COND_LEU) reg t0 t1) s)
   | Some (G_LOGIC, sz) \<Rightarrow> inv_bit neg reg (emit (Movi reg 0) s)
   | Some (G_INC, sz) \<Rightarrow> emit (if neg then Xori reg cpu_cc_src 1 else Mov reg cpu_cc_src) s
   | Some (G_DEC, sz) \<Rightarrow> emit (if neg then Xori reg cpu_cc_src 1 else Mov reg cpu_cc_src) s
   | Some (G_SHL, sz) \<Rightarrow>
       inv_bit neg reg (emit (Andi reg reg 1) (emit (Shri reg cpu_cc_src (DATA_BITS sz - 1)) s))
   | Some (G_MUL, sz) \<Rightarrow> emit (Setcondi (if neg then TCG_COND_EQ else TCG_COND_NE) reg cpu_cc_src 0) s
   | Some (G_SAR, sz) \<Rightarrow> inv_bit neg reg (emit (Andi reg cpu_cc_src 1) s)
   | None \<Rightarrow>
       (if s_cc_op s = CC_OP_EFLAGS then inv_bit neg reg (emit (Andi reg cpu_cc_src 1) s)
        else block [gen_update_cc_op, emit Call_cc_compute_c, emit (Extu_tmp2 reg), inv_bit neg reg] s))"

text \<open>A bit of \<open>cc_src\<close>, once it holds the flags.\<close>

definition eflags_bit :: "nat \<Rightarrow> tcgv \<Rightarrow> gen" where
  "eflags_bit k reg s = emit (Andi reg reg 1) (emit (Shri reg cpu_cc_src k) s)"

definition gen_compute_eflags_p :: "tcgv \<Rightarrow> gen" where
  "gen_compute_eflags_p reg s = eflags_bit 2 reg (gen_compute_eflags s)"

definition gen_compute_eflags_s :: "tcgv \<Rightarrow> bool \<Rightarrow> gen" where
  "gen_compute_eflags_s reg neg s =
    (let s = (if s_cc_op s = CC_OP_DYNAMIC then gen_compute_eflags s else s)
     in case cc_group_of (s_cc_op s) of
          None \<Rightarrow> inv_bit neg reg (eflags_bit 7 reg s)
        | Some (_, sz) \<Rightarrow>
            (let (t0, s) = gen_ext_tl reg cpu_cc_dst sz True s
             in emit (Setcondi (if neg then TCG_COND_GE else TCG_COND_LT) reg t0 0) s))"

definition gen_compute_eflags_o :: "tcgv \<Rightarrow> gen" where
  "gen_compute_eflags_o reg s = eflags_bit 11 reg (gen_compute_eflags s)"

definition gen_compute_eflags_z :: "tcgv \<Rightarrow> bool \<Rightarrow> gen" where
  "gen_compute_eflags_z reg neg s =
    (let s = (if s_cc_op s = CC_OP_DYNAMIC then gen_compute_eflags s else s)
     in case cc_group_of (s_cc_op s) of
          None \<Rightarrow> inv_bit neg reg (eflags_bit 6 reg s)
        | Some (_, sz) \<Rightarrow>
            (let (t0, s) = gen_ext_tl reg cpu_cc_dst sz False s
             in emit (Setcondi (if neg then TCG_COND_NE else TCG_COND_EQ) reg t0 0) s))"

section \<open>Conditions\<close>

datatype jcc_op = JCC_O | JCC_B | JCC_Z | JCC_BE | JCC_S | JCC_P | JCC_L | JCC_LE

text \<open>The condition field of an opcode: \<open>(b >> 1) & 7\<close>, and bit 0 inverts.\<close>

definition jcc_op_of :: "nat \<Rightarrow> jcc_op" where
  "jcc_op_of b = [JCC_O, JCC_B, JCC_Z, JCC_BE, JCC_S, JCC_P, JCC_L, JCC_LE] ! (b div 2 mod 8)"

fun gen_setcc_slow :: "jcc_op \<Rightarrow> tcgv \<Rightarrow> bool \<Rightarrow> gen" where
  "gen_setcc_slow JCC_O reg neg s = inv_bit neg reg (gen_compute_eflags_o reg s)"
| "gen_setcc_slow JCC_B reg neg s = gen_compute_eflags_c reg neg s"
| "gen_setcc_slow JCC_Z reg neg s = gen_compute_eflags_z reg neg s"
| "gen_setcc_slow JCC_BE reg neg s = block [
     gen_compute_eflags,
     emit (Andi reg cpu_cc_src (CC_Z OR CC_C)),
     emit (Setcondi (if neg then TCG_COND_EQ else TCG_COND_NE) reg reg 0)] s"
| "gen_setcc_slow JCC_S reg neg s = gen_compute_eflags_s reg neg s"
| "gen_setcc_slow JCC_P reg neg s = inv_bit neg reg (gen_compute_eflags_p reg s)"
| "gen_setcc_slow JCC_L reg neg s = block [
     gen_compute_eflags,
     emit (Shri reg cpu_cc_src 11),
     emit (Shri cpu_tmp0 cpu_cc_src 7),
     emit (Xor reg reg cpu_tmp0),
     emit (Andi reg reg 1),
     inv_bit neg reg] s"
| "gen_setcc_slow JCC_LE reg neg s = block [
     gen_compute_eflags,
     emit (Shri reg cpu_cc_src 11),
     emit (Shri cpu_tmp4 cpu_cc_src 7),
     emit (Shri cpu_tmp0 cpu_cc_src 6),
     emit (Xor reg reg cpu_tmp4),
     emit (Or reg reg cpu_tmp0),
     emit (Andi reg reg 1),
     inv_bit neg reg] s"

definition is_fast_jcc_case :: "DisasContext \<Rightarrow> nat \<Rightarrow> bool" where
  "is_fast_jcc_case s b = (case cc_group_of (s_cc_op s) of
     Some (G_SUB, _) \<Rightarrow> jcc_op_of b \<noteq> JCC_O \<and> jcc_op_of b \<noteq> JCC_P
   | Some (G_ADD, _) \<Rightarrow> jcc_op_of b = JCC_Z \<or> jcc_op_of b = JCC_S
   | Some (G_LOGIC, _) \<Rightarrow> jcc_op_of b = JCC_Z \<or> jcc_op_of b = JCC_S
   | Some (G_INC, _) \<Rightarrow> jcc_op_of b = JCC_Z \<or> jcc_op_of b = JCC_S
   | Some (G_DEC, _) \<Rightarrow> jcc_op_of b = JCC_Z \<or> jcc_op_of b = JCC_S
   | Some (G_SHL, _) \<Rightarrow> jcc_op_of b = JCC_Z \<or> jcc_op_of b = JCC_S
   | _ \<Rightarrow> False)"

definition fast_jcc_z :: "osize \<Rightarrow> bool \<Rightarrow> nat \<Rightarrow> gen" where
  "fast_jcc_z sz neg l1 s =
    (let (t0, s) = gen_ext_tl cpu_tmp0 cpu_cc_dst sz False s
     in emit (Brcondi (if neg then TCG_COND_NE else TCG_COND_EQ) t0 0 l1) s)"

definition fast_jcc_s :: "osize \<Rightarrow> bool \<Rightarrow> nat \<Rightarrow> gen" where
  "fast_jcc_s sz neg l1 s =
    (let (t0, s) = gen_ext_tl cpu_tmp0 cpu_cc_dst sz True s
     in emit (Brcondi (if neg then TCG_COND_GE else TCG_COND_LT) t0 0 l1) s)"

definition fast_jcc_b :: "osize \<Rightarrow> tcg_cond \<Rightarrow> nat \<Rightarrow> gen" where
  "fast_jcc_b sz cond l1 s =
    (let s = emit (Add cpu_tmp4 cpu_cc_dst cpu_cc_src) s;
         s = gen_extu sz cpu_tmp4 s;
         (t0, s) = gen_ext_tl cpu_tmp0 cpu_cc_src sz False s
     in emit (Brcond cond cpu_tmp4 t0 l1) s)"

definition fast_jcc_l :: "osize \<Rightarrow> tcg_cond \<Rightarrow> nat \<Rightarrow> gen" where
  "fast_jcc_l sz cond l1 s =
    (let s = emit (Add cpu_tmp4 cpu_cc_dst cpu_cc_src) s;
         s = gen_exts sz cpu_tmp4 s;
         (t0, s) = gen_ext_tl cpu_tmp0 cpu_cc_src sz True s
     in emit (Brcond cond cpu_tmp4 t0 l1) s)"

definition slow_jcc :: "jcc_op \<Rightarrow> bool \<Rightarrow> nat \<Rightarrow> gen" where
  "slow_jcc op neg l1 = block [
     gen_setcc_slow op cpu_T0 False,
     emit (Brcondi (if neg then TCG_COND_EQ else TCG_COND_NE) cpu_T0 0 l1)]"

definition gen_jcc1 :: "nat \<Rightarrow> nat \<Rightarrow> gen" where
  "gen_jcc1 b l1 s =
    (let neg = odd b; op = jcc_op_of b
     in case cc_group_of (s_cc_op s) of
          Some (G_SUB, sz) \<Rightarrow> (case op of
            JCC_Z \<Rightarrow> fast_jcc_z sz neg l1 s
          | JCC_S \<Rightarrow> fast_jcc_s sz neg l1 s
          | JCC_B \<Rightarrow> fast_jcc_b sz (if neg then TCG_COND_GEU else TCG_COND_LTU) l1 s
          | JCC_BE \<Rightarrow> fast_jcc_b sz (if neg then TCG_COND_GTU else TCG_COND_LEU) l1 s
          | JCC_L \<Rightarrow> fast_jcc_l sz (if neg then TCG_COND_GE else TCG_COND_LT) l1 s
          | JCC_LE \<Rightarrow> fast_jcc_l sz (if neg then TCG_COND_GT else TCG_COND_LE) l1 s
          | _ \<Rightarrow> slow_jcc op neg l1 s)
        | Some (G_MUL, sz) \<Rightarrow> slow_jcc op neg l1 s
        | Some (_, sz) \<Rightarrow> (case op of
            JCC_Z \<Rightarrow> fast_jcc_z sz neg l1 s
          | JCC_S \<Rightarrow> fast_jcc_s sz neg l1 s
          | _ \<Rightarrow> slow_jcc op neg l1 s)
        | None \<Rightarrow> slow_jcc op neg l1 s)"

definition gen_setcc :: "nat \<Rightarrow> gen" where
  "gen_setcc b s =
    (if is_fast_jcc_case s b then
       (let (t0, s) = tcg_temp_local_new s;
            s = emit (Movi t0 0) s;
            (l1, s) = gen_new_label s;
            s = gen_jcc1 (if even b then b + 1 else b - 1) l1 s;
            s = emit (Movi t0 1) s;
            s = emit (Set_label l1) s
        in emit (Mov cpu_T0 t0) s)
     else gen_setcc_slow (jcc_op_of b) cpu_T0 (odd b) s)"


section \<open>The machine and the context in step\<close>

definition code_run :: "'m tcg \<Rightarrow> 'm mode \<Rightarrow> DisasContext \<Rightarrow> 'm mode" where
  "code_run T m s = run_ops T m (op_buf s)"

lemma code_run_emit [simp]: "code_run T m (emit op s) = tstep T op (code_run T m s)"
  by (simp add: code_run_def run_ops_def emit_def)

lemma code_run_update [simp]:
  "code_run T m (s\<lparr>s_cc_op := op\<rparr>) = code_run T m s" "code_run T m (s\<lparr>s_cc_op_dirty := d\<rparr>) = code_run T m s"
  "code_run T m (s\<lparr>nb_labels := n\<rparr>) = code_run T m s" "code_run T m (s\<lparr>nb_temps := n\<rparr>) = code_run T m s"
  "code_run T m (s\<lparr>s_pc := pc\<rparr>) = code_run T m s" "code_run T m (s\<lparr>s_is_jmp := j\<rparr>) = code_run T m s"
  by (simp_all add: code_run_def)

lemma emit_sel [simp]:
  "s_cc_op (emit op s) = s_cc_op s" "s_cc_op_dirty (emit op s) = s_cc_op_dirty s"
  "s_mem_index (emit op s) = s_mem_index s" "x86_64_hregs (emit op s) = x86_64_hregs s"
  "nb_labels (emit op s) = nb_labels s" "nb_temps (emit op s) = nb_temps s"
  by (simp_all add: emit_def)

text \<open>
  The flag operation in force: the context's, or, where it is dynamic, the one in the CPU state.
  The two agree when the context is clean; \<open>INC\<close> and \<open>DEC\<close> keep a single bit in \<open>cc_src\<close>.
\<close>

definition true_op :: "DisasContext \<Rightarrow> 'm tcg_state \<Rightarrow> CCOp" where
  "true_op s st = (if s_cc_op s = CC_OP_DYNAMIC then cc_op (tenv st) else s_cc_op s)"

definition flags_at :: "DisasContext \<Rightarrow> 'm tcg_state \<Rightarrow> u32" where
  "flags_at s st = cc_flags (true_op s st) (val st cpu_cc_src) (val st cpu_cc_dst)"

fun keeps_carry :: "CCOp \<Rightarrow> bool" where
  "keeps_carry op \<longleftrightarrow> (case cc_group_of op of Some (G_INC, _) \<Rightarrow> True | Some (G_DEC, _) \<Rightarrow> True | _ \<Rightarrow> False)"

definition in_sync :: "DisasContext \<Rightarrow> 'm tcg_state \<Rightarrow> bool" where
  "in_sync s st \<longleftrightarrow>
    (if s_cc_op_dirty s then s_cc_op s \<noteq> CC_OP_DYNAMIC
     else s_cc_op s = CC_OP_DYNAMIC \<or> cc_op (tenv st) = s_cc_op s) \<and>
    true_op s st \<noteq> CC_OP_DYNAMIC \<and> true_op s st \<noteq> CC_OP_NB \<and>
    (keeps_carry (true_op s st) \<longrightarrow> val st cpu_cc_src \<le> 1)"

text \<open>A block starts in step with any state whose own operation is a proper one.\<close>

lemma block_start_in_sync:
  "cc_op (tenv st) \<noteq> CC_OP_DYNAMIC \<Longrightarrow> cc_op (tenv st) \<noteq> CC_OP_NB \<Longrightarrow>
   (keeps_carry (cc_op (tenv st)) \<longrightarrow> val st cpu_cc_src \<le> 1) \<Longrightarrow>
   in_sync (block_start cs_base fl ss dc) st \<and> flags_at (block_start cs_base fl ss dc) st = helper_cc_compute_all (tenv st) (cc_op (tenv st))"
  by (simp add: in_sync_def true_op_def flags_at_def compute_all_cc_flags block_start_def Let_def)

text \<open>An empty context and a machine to evaluate code on.\<close>

definition empty_context :: DisasContext where
  "empty_context = \<lparr>
     s_override = None, s_prefix = 0, s_aflag = 1, s_dflag = 1, s_pc = 0, s_is_jmp = 0, s_cs_base = 0, s_pe = False,
     s_code32 = False, s_lma = False, s_code64 = False, s_rex_x = 0, s_rex_b = 0, s_ss32 = False,
     s_cc_op = CC_OP_DYNAMIC, s_cc_op_dirty = False, s_addseg = False, s_vm86 = False, s_cpl = 0, s_iopl = 0,
     s_tf = False, s_singlestep_enabled = False, s_jmp_opt = True, s_mem_index = 0, s_flags = 0,
     s_popl_esp_hack = 0, s_rip_offset = 0, x86_64_hregs = False, op_buf = [], nb_labels = 0, nb_temps = 0\<rparr>"

definition start_state :: "CCOp \<Rightarrow> u64 \<Rightarrow> u64 \<Rightarrow> (nat \<Rightarrow> u64) \<Rightarrow> (u64 \<Rightarrow> u8) tcg_state" where
  "start_state op src dst rs =
     \<lparr>tenv = ram_zero\<lparr>cc_op := op, cc_src := src, cc_dst := dst, regs := rs\<rparr>, temps = (\<lambda>_. 0), tmp2_i32 = 0\<rparr>"

definition only_changes :: "tcgv set \<Rightarrow> 'm tcg_state \<Rightarrow> 'm tcg_state \<Rightarrow> bool" where
  "only_changes R st st' \<longleftrightarrow> rest (tenv st') = rest (tenv st) \<and> (\<forall>r. r \<notin> R \<longrightarrow> val st' r = val st r)"

lemma only_changes_refl: "only_changes R st st"
  by (simp add: only_changes_def)

lemma only_changes_trans:
  "only_changes R st st' \<Longrightarrow> only_changes R st' st'' \<Longrightarrow> only_changes R st st''"
  by (simp add: only_changes_def)

lemma only_changes_mono: "only_changes R st st' \<Longrightarrow> R \<subseteq> R' \<Longrightarrow> only_changes R' st st'"
  by (auto simp: only_changes_def)

lemma only_changesD: "only_changes R st st' \<Longrightarrow> r \<notin> R \<Longrightarrow> val st' r = val st r"
  by (simp add: only_changes_def)

section \<open>Bits of the flags\<close>

fun cond_of :: "jcc_op \<Rightarrow> u32 \<Rightarrow> bool" where
  "cond_of JCC_O fl = bit fl 11"
| "cond_of JCC_B fl = bit fl 0"
| "cond_of JCC_Z fl = bit fl 6"
| "cond_of JCC_BE fl = (bit fl 0 \<or> bit fl 6)"
| "cond_of JCC_S fl = bit fl 7"
| "cond_of JCC_P fl = bit fl 2"
| "cond_of JCC_L fl = (bit fl 7 \<noteq> bit fl 11)"
| "cond_of JCC_LE fl = (bit fl 6 \<or> (bit fl 7 \<noteq> bit fl 11))"

definition jcc_holds :: "nat \<Rightarrow> u32 \<Rightarrow> bool" where
  "jcc_holds b fl \<longleftrightarrow> (cond_of (jcc_op_of b) fl \<noteq> odd b)"

lemma bit_flag: "bit (of_bool b * (numeral k :: u32)) n \<longleftrightarrow> b \<and> bit (numeral k :: u32) n"
  by (cases b) simp_all

lemma bit_of_bool_word: "bit (of_bool b :: 'a::len word) n \<longleftrightarrow> b \<and> n = 0"
  by (cases b) (simp_all add: bit_1_iff)

lemma cc_flags_group:
  "cc_flags (cc_op_in g sz) src dst =
    (let env = cpu_zero\<lparr>cc_src := src, cc_dst := dst\<rparr>
     in case g of G_MUL \<Rightarrow> compute_all_mul sz env | G_ADD \<Rightarrow> compute_all_add sz env
        | G_ADC \<Rightarrow> compute_all_adc sz env | G_SUB \<Rightarrow> compute_all_sub sz env | G_SBB \<Rightarrow> compute_all_sbb sz env
        | G_LOGIC \<Rightarrow> compute_all_logic sz env | G_INC \<Rightarrow> compute_all_inc sz env | G_DEC \<Rightarrow> compute_all_dec sz env
        | G_SHL \<Rightarrow> compute_all_shl sz env | G_SAR \<Rightarrow> compute_all_sar sz env)"
  by (cases g; cases sz) (simp_all add: cc_flags_def Let_def cc_op_in.simps cc_op_of_def ccops_def)

lemma bit_ucast_low: "src \<le> 1 \<Longrightarrow> bit (ucast (src :: u64) :: u32) n \<longleftrightarrow> src = 1 \<and> n = 0"
proof -
  assume "src \<le> 1"
  then have "src = 0 \<or> src = 1" by unat_arith
  then show ?thesis by (auto simp: bit_1_iff)
qed

lemmas compute_all_defs = compute_all_mul_def compute_all_add_def compute_all_adc_def compute_all_sub_def
  compute_all_sbb_def compute_all_logic_def compute_all_inc_def compute_all_dec_def compute_all_shl_def
  compute_all_sar_def

text \<open>ZF and SF are those of the result, at every operation.\<close>

lemma cc_flags_zs:
  assumes "keeps_carry (cc_op_in g sz) \<longrightarrow> src \<le> 1"
  shows "bit (cc_flags (cc_op_in g sz) src dst) 6 \<longleftrightarrow> take_bit (DATA_BITS sz) dst = 0"
    and "bit (cc_flags (cc_op_in g sz) src dst) 7 \<longleftrightarrow> sint (ext_tl sz True dst) < 0"
proof -
  have z: "uval sz dst = 0 \<longleftrightarrow> take_bit (DATA_BITS sz) dst = 0"
    by (metis uint_0_iff uint_data_type)
  have s: "sval sz dst < 0 \<longleftrightarrow> sint (ext_tl sz True dst) < 0"
    using DATA_BITS_bounds [of sz]
    by (cases sz) (simp_all add: sval_sign ext_tl_def bit_last_iff [symmetric] bit_signed_take_bit_iff)
  show "bit (cc_flags (cc_op_in g sz) src dst) 6 \<longleftrightarrow> take_bit (DATA_BITS sz) dst = 0"
    using assms unfolding z [symmetric] cc_flags_group Let_def compute_all_defs carry_only and_1_bit
    by (cases g) (simp_all add: ucast_of_bool bit_or_iff bit_flag bit_of_bool_word bit_ucast_low)
  show "bit (cc_flags (cc_op_in g sz) src dst) 7 \<longleftrightarrow> sint (ext_tl sz True dst) < 0"
    using assms unfolding s [symmetric] cc_flags_group Let_def compute_all_defs carry_only and_1_bit
    by (cases g) (simp_all add: ucast_of_bool bit_or_iff bit_flag bit_of_bool_word bit_ucast_low)
qed


lemma sint_ext_tl: "sint (ext_tl sz True x) = sval sz x"
  by (rule bit_eqI) (cases sz; auto simp: ext_tl_def sval_def bit_simps min_def)

lemma ext_tl_unsigned: "ext_tl sz False x = take_bit (DATA_BITS sz) x"
  by (simp add: ext_tl_def)

lemma ext_tl_full [simp]: "ext_tl SzQ sx x = x"
proof -
  have "signed_take_bit 63 x = x"
  proof (rule bit_word_eqI)
    fix n assume "n < LENGTH(64)"
    then show "bit (signed_take_bit 63 x) n = bit x n" by (cases "n = 63") (auto simp: bit_signed_take_bit_iff)
  qed
  then show ?thesis by (simp add: ext_tl_def take_bit_word_eq_self)
qed

text \<open>A comparison leaves the subtrahend in \<open>cc_src\<close> and the difference in \<open>cc_dst\<close>.\<close>

lemma cc_flags_sub: "cc_flags (cc_op_in G_SUB sz) src dst = sub_flags sz (dst + src) src False"
  using compute_all_sub_flags [where sz = sz and a = "dst + src" and b = src] by (simp add: cc_flags_group)

lemma bit_flags_word:
  "bit (flags_word c p a z s v) 0 \<longleftrightarrow> c" "bit (flags_word c p a z s v) 2 \<longleftrightarrow> p"
  "bit (flags_word c p a z s v) 6 \<longleftrightarrow> z" "bit (flags_word c p a z s v) 7 \<longleftrightarrow> s"
  "bit (flags_word c p a z s v) 11 \<longleftrightarrow> v"
  by (simp_all add: flags_word_def bit_or_iff bit_flag bit_of_bool_word)

lemma take_bit_sval: "take_bit (DATA_BITS sz) (sval sz x) = take_bit (DATA_BITS sz) (uint x)"
  using DATA_BITS_bounds(3) [of sz] by (simp add: sval_def take_bit_signed_take_bit)

lemma sval_diff: "sval sz (a - b) = signed_take_bit (DATA_BITS sz - 1) (sval sz a - sval sz b)"
proof -
  have n: "Suc (DATA_BITS sz - 1) = DATA_BITS sz" using DATA_BITS_bounds(3) [of sz] by simp
  have "take_bit (DATA_BITS sz) (uint (a - b)) = take_bit (DATA_BITS sz) (uint a - uint b)"
    using DATA_BITS_bounds(2) [of sz] by (simp add: uint_sub_lem uint_word_arith_bintrs take_bit_take_bit min_def)
  also have "\<dots> = take_bit (DATA_BITS sz) (sval sz a - sval sz b)"
    by (subst (1 2) take_bit_diff [symmetric]) (simp add: take_bit_sval)
  finally show ?thesis unfolding sval_def [of sz "a - b"] signed_take_bit_eq_iff_take_bit_eq n .
qed

lemma sval_range: "- (2 ^ (DATA_BITS sz - 1)) \<le> sval sz x" "sval sz x < 2 ^ (DATA_BITS sz - 1)"
  by (simp_all add: sval_def signed_take_bit_int_greater_eq_minus_exp signed_take_bit_int_less_exp)

lemma less_from_flags: "(sval sz (a - b) < 0) \<noteq> (\<not> fits_signed sz (sval sz a - sval sz b)) \<longleftrightarrow> sval sz a < sval sz b"
proof -
  define P where "P = (2 :: int) ^ (DATA_BITS sz - 1)"
  have P: "2 ^ Suc (DATA_BITS sz - 1) = 2 * P" "0 < P" by (simp_all add: P_def)
  define d where "d = sval sz a - sval sz b"
  have d: "- 2 * P < d" "d < 2 * P"
    using sval_range [of sz a] sval_range [of sz b] by (simp_all add: d_def P_def)
  have "sval sz (a - b) = (if d < - P then d + 2 * P else if d < P then d else d - 2 * P)"
  proof -
    have "signed_take_bit (DATA_BITS sz - 1) d = (d + P) mod (2 * P) - P"
      unfolding signed_take_bit_eq_take_bit_shift take_bit_eq_mod P_def by simp
    also have "\<dots> = (if d < - P then d + 2 * P else if d < P then d else d - 2 * P)"
    proof -
      have "(d + P) mod (2 * P) = d + 3 * P" if "d < - P"
        using that d P by (intro int_mod_pos_eq [where q = "-1"]) simp_all
      moreover have "(d + P) mod (2 * P) = d + P" if "- P \<le> d" "d < P" using that by simp
      moreover have "(d + P) mod (2 * P) = d - P" if "P \<le> d"
        using that d P by (intro int_mod_pos_eq [where q = 1]) simp_all
      ultimately show ?thesis by auto
    qed
    finally show ?thesis unfolding sval_diff d_def .
  qed
  then show ?thesis using d P unfolding fits_signed_def P_def [symmetric] d_def [symmetric]
    by (auto simp: d_def)
qed

lemma uval_diff_zero: "uval sz (a - b) = 0 \<longleftrightarrow> uval sz a = uval sz b"
proof -
  have "uval sz (a - b) = (uint a - uint b) mod 2 ^ DATA_BITS sz"
    using DATA_BITS_bounds(2) [of sz]
    by (simp add: uval_def uint_sub_lem uint_word_arith_bintrs take_bit_take_bit min_def) (simp add: take_bit_eq_mod)
  moreover have "uval sz a = uval sz b \<longleftrightarrow> (uint a - uint b) mod 2 ^ DATA_BITS sz = 0"
    by (simp add: uval_def take_bit_eq_mod mod_eq_dvd_iff mod_eq_0_iff_dvd)
  ultimately show ?thesis by simp
qed

text \<open>The conditions of a comparison.\<close>

lemma cmp_conditions:
  fixes src dst :: u64 and sz :: osize
  defines "fl \<equiv> cc_flags (cc_op_in G_SUB sz) src dst"
  shows "cond_of JCC_B fl \<longleftrightarrow> take_bit (DATA_BITS sz) (dst + src) < take_bit (DATA_BITS sz) src"
    and "cond_of JCC_BE fl \<longleftrightarrow> take_bit (DATA_BITS sz) (dst + src) \<le> take_bit (DATA_BITS sz) src"
    and "cond_of JCC_L fl \<longleftrightarrow> sval sz (dst + src) < sval sz src"
    and "cond_of JCC_LE fl \<longleftrightarrow> sval sz (dst + src) \<le> sval sz src"
proof -
  have fl: "fl = sub_flags sz (dst + src) src False" by (simp add: fl_def cc_flags_sub)
  have z: "uval sz dst = 0 \<longleftrightarrow> uval sz (dst + src) = uval sz src"
    using uval_diff_zero [of sz "dst + src" src] by simp
  have sz: "sval sz x = sval sz y \<longleftrightarrow> uval sz x = uval sz y" for x y
    using sval_uval [of sz x] sval_uval [of sz y] uval_bounds [of sz x] uval_bounds [of sz y] by auto
  show "cond_of JCC_B fl \<longleftrightarrow> take_bit (DATA_BITS sz) (dst + src) < take_bit (DATA_BITS sz) src"
    unfolding fl sub_flags_def data_type_less_iff by (simp add: bit_flags_word)
  show "cond_of JCC_BE fl \<longleftrightarrow> take_bit (DATA_BITS sz) (dst + src) \<le> take_bit (DATA_BITS sz) src"
    unfolding fl sub_flags_def data_type_le_iff using z by (auto simp: bit_flags_word)
  show L: "cond_of JCC_L fl \<longleftrightarrow> sval sz (dst + src) < sval sz src"
    unfolding fl sub_flags_def using less_from_flags [of sz "dst + src" src] by (auto simp: bit_flags_word)
  have "cond_of JCC_LE fl \<longleftrightarrow> uval sz dst = 0 \<or> cond_of JCC_L fl"
    unfolding fl sub_flags_def by (simp add: bit_flags_word)
  then show "cond_of JCC_LE fl \<longleftrightarrow> sval sz (dst + src) \<le> sval sz src"
    using z sz [of "dst + src" src] L by auto
qed

text \<open>The carry flag.\<close>

lemma cc_flags_carry:
  assumes "keeps_carry op \<longrightarrow> src \<le> 1"
  shows "bit (cc_flags op src dst) 0 \<longleftrightarrow> bit (helper_cc_compute_c (cpu_zero\<lparr>cc_src := src, cc_dst := dst\<rparr>) op) 0"
proof -
  let ?env = "cpu_zero\<lparr>cc_src := src, cc_dst := dst\<rparr>"
  have "helper_cc_compute_c ?env op = helper_cc_compute_all ?env op AND CC_C"
    using assms by (cases op) (simp_all add: carry_of_compute_all carry_of_eflags)
  then show ?thesis by (simp add: cc_flags_def bit_and_iff)
qed

lemma compute_c_group:
  "helper_cc_compute_c (cpu_zero\<lparr>cc_src := src, cc_dst := dst\<rparr>) (cc_op_in g sz) =
    (case g of G_MUL \<Rightarrow> of_bool (src \<noteq> 0) | G_ADD \<Rightarrow> of_bool (take_bit (DATA_BITS sz) dst < take_bit (DATA_BITS sz) src)
     | G_ADC \<Rightarrow> of_bool (take_bit (DATA_BITS sz) dst \<le> take_bit (DATA_BITS sz) src)
     | G_SUB \<Rightarrow> of_bool (take_bit (DATA_BITS sz) (dst + src) < take_bit (DATA_BITS sz) src)
     | G_SBB \<Rightarrow> of_bool (take_bit (DATA_BITS sz) (dst + src + 1) \<le> take_bit (DATA_BITS sz) src)
     | G_LOGIC \<Rightarrow> 0 | G_INC \<Rightarrow> ucast src | G_DEC \<Rightarrow> ucast src
     | G_SHL \<Rightarrow> ucast (drop_bit (DATA_BITS sz - 1) src AND 1) | G_SAR \<Rightarrow> ucast (src AND 1))"
  by (cases g; cases sz) (simp_all add: Let_def cc_op_in.simps cc_op_of_def ccops_def compute_c_mul_def
    compute_c_add_def compute_c_adc_def compute_c_sub_def compute_c_sbb_def compute_c_logic_def
    compute_c_inc_def compute_c_shl_def compute_c_sar_def)

end
