(* ===== verification/CondJumps.thy ===== *)
theory CondJumps
  imports GenCond
begin

text \<open>
  The code of \<open>GenCond\<close> is correct: run on a machine in step with the context, a conditional jump
  is taken, and \<open>SETcc\<close> stores one, exactly when the condition holds of the flags that
  \<open>helper_cc_compute_all\<close> computes for the operation in force.
\<close>

section \<open>The flag operation\<close>

lemma dead_in_group:
  "cc_op_live (cc_op_in g sz) = (if g = G_LOGIC then 1 else 3)"
  "cc_op_live CC_OP_DYNAMIC = 3" "cc_op_live CC_OP_EFLAGS = 2" "cc_op_live CC_OP_NB = 0"
  by (cases g; simp add: cc_op_live_def)+

text \<open>The variables that the flags of an operation do not depend on.\<close>

definition unused :: "CCOp \<Rightarrow> tcgv set" where
  "unused op = (if cc_op_live op AND 1 = 0 then {cpu_cc_dst} else {}) \<union> (if cc_op_live op AND 2 = 0 then {cpu_cc_src} else {})"

lemma unused_simps [simp]:
  "unused (cc_op_in g sz) = (if g = G_LOGIC then {cpu_cc_src} else {})"
  "unused CC_OP_EFLAGS = {cpu_cc_dst}" "unused CC_OP_DYNAMIC = {}"
  by (simp_all add: unused_def dead_in_group)

lemma run_discard:
  assumes "tcg_semantics B T"
  obtains v where "tstep T (Discard d) (Running st) = Running (set_val d v st)"
  using tstep_open [OF assms, of "Discard d" d st] by auto

lemma run_set_cc_op:
  assumes sem: "tcg_semantics B T" and run: "code_run T m s = Running st"
  obtains st' where "code_run T m (set_cc_op op s) = Running st'" "only_changes (unused op) st st'"
    "cc_op (tenv st') = cc_op (tenv st)" "tmp2_i32 st' = tmp2_i32 st"
proof (cases "s_cc_op s = op")
  case True
  then show ?thesis using that [of st] run by (simp add: set_cc_op_def only_changes_def)
next
  case False
  let ?dead = "cc_op_live (s_cc_op s) AND NOT (cc_op_live op)"
  have live: "?dead AND 1 \<noteq> 0 \<Longrightarrow> cpu_cc_dst \<in> unused op" "?dead AND 2 \<noteq> 0 \<Longrightarrow> cpu_cc_src \<in> unused op"
  proof -
    have b: "w AND 1 \<noteq> 0 \<longleftrightarrow> bit w 0" "w AND 2 \<noteq> 0 \<longleftrightarrow> bit w 1" for w :: "2 word"
      using and_mask_bit [of w 0] and_mask_bit [of w 1] by simp_all
    then have b': "w AND 1 = 0 \<longleftrightarrow> \<not> bit w 0" "w AND 2 = 0 \<longleftrightarrow> \<not> bit w 1" for w :: "2 word"
      by metis+
    show "?dead AND 1 \<noteq> 0 \<Longrightarrow> cpu_cc_dst \<in> unused op" "?dead AND 2 \<noteq> 0 \<Longrightarrow> cpu_cc_src \<in> unused op"
      by (simp_all add: unused_def b b' bit_simps)
  qed
  let ?s1 = "if ?dead AND 1 \<noteq> 0 then emit (Discard cpu_cc_dst) s else s"
  let ?s2 = "if ?dead AND 2 \<noteq> 0 then emit (Discard cpu_cc_src) ?s1 else ?s1"
  have discard: "\<exists>st''. code_run T m (emit (Discard d) s') = Running st'' \<and> only_changes (unused op) st' st'' \<and>
      cc_op (tenv st'') = cc_op (tenv st') \<and> tmp2_i32 st'' = tmp2_i32 st'"
    if "code_run T m s' = Running st'" "d \<in> unused op" for s' st' d
  proof -
    obtain v where "tstep T (Discard d) (Running st') = Running (set_val d v st')" by (rule run_discard [OF sem])
    then show ?thesis using that by (auto simp: only_changes_def)
  qed
  obtain st1 where 1: "code_run T m ?s1 = Running st1" "only_changes (unused op) st st1"
      "cc_op (tenv st1) = cc_op (tenv st)" "tmp2_i32 st1 = tmp2_i32 st"
    using discard [OF run live(1)] run only_changes_refl by (cases "?dead AND 1 \<noteq> 0") auto
  obtain st2 where 2: "code_run T m ?s2 = Running st2" "only_changes (unused op) st1 st2"
      "cc_op (tenv st2) = cc_op (tenv st1)" "tmp2_i32 st2 = tmp2_i32 st1"
    using discard [OF 1(1) live(2)] 1(1) only_changes_refl by (cases "?dead AND 2 \<noteq> 0") auto
  have "code_run T m (set_cc_op op s) = code_run T m ?s2"
    using False by (simp add: set_cc_op_def Let_def)
  then show ?thesis using that [of st2] 1 2 only_changes_trans [OF 1(2) 2(2)] by simp
qed

lemma set_cc_op_sel [simp]:
  "s_cc_op (set_cc_op op s) = op" "nb_labels (set_cc_op op s) = nb_labels s" "nb_temps (set_cc_op op s) = nb_temps s"
  "s_mem_index (set_cc_op op s) = s_mem_index s" "x86_64_hregs (set_cc_op op s) = x86_64_hregs s"
  by (simp_all add: set_cc_op_def Let_def)

lemma set_cc_op_dirty:
  "s_cc_op_dirty (set_cc_op op s) = (if s_cc_op s = op then s_cc_op_dirty s else op \<noteq> CC_OP_DYNAMIC)"
  by (simp add: set_cc_op_def Let_def)

lemma run_update_cc_op:
  assumes sem: "tcg_semantics B T" and run: "code_run T m s = Running st"
  shows "code_run T m (gen_update_cc_op s) =
    Running (if s_cc_op_dirty s then set_env_op (s_cc_op s) st else st)"
  using run by (simp add: gen_update_cc_op_def tstep_run [OF sem])

lemma update_cc_op_sel [simp]:
  "s_cc_op (gen_update_cc_op s) = s_cc_op s" "s_cc_op_dirty (gen_update_cc_op s) = False"
  "nb_labels (gen_update_cc_op s) = nb_labels s" "nb_temps (gen_update_cc_op s) = nb_temps s"
  "s_mem_index (gen_update_cc_op s) = s_mem_index s" "x86_64_hregs (gen_update_cc_op s) = x86_64_hregs s"
  by (simp_all add: gen_update_cc_op_def)

lemma in_sync_updated:
  assumes "in_sync s st"
  shows "cc_op (tenv (if s_cc_op_dirty s then set_env_op (s_cc_op s) st else st)) = true_op s st"
  using assms by (auto simp: in_sync_def true_op_def split: if_splits)

section \<open>All flags\<close>

lemma run_compute_eflags:
  assumes sem: "tcg_semantics B T" and run: "code_run T m s = Running st" and sync: "in_sync s st"
  obtains st' where "code_run T m (gen_compute_eflags s) = Running st'"
    "only_changes {cpu_cc_src, cpu_cc_dst} st st'"
    "s_cc_op (gen_compute_eflags s) = CC_OP_EFLAGS"
    "ucast (val st' cpu_cc_src) = flags_at s st" "in_sync (gen_compute_eflags s) st'"
proof (cases "s_cc_op s = CC_OP_EFLAGS")
  case True
  have "flags_at s st = ucast (val st cpu_cc_src)"
    using True by (simp add: flags_at_def true_op_def cc_flags_def compute_all_eflags_def)
  then show ?thesis using that [of st] True run sync by (simp add: gen_compute_eflags_def only_changes_refl)
next
  case False
  let ?st1 = "if s_cc_op_dirty s then set_env_op (s_cc_op s) st else st"
  let ?s1 = "emit Call_cc_compute_all (gen_update_cc_op s)"
  let ?st2 = "set_tmp2 (flags_at s st) ?st1"
  have "code_run T m ?s1 = Running ?st2"
    using in_sync_updated [OF sync] run_update_cc_op [OF sem run]
    by (simp add: tstep_run [OF sem] compute_all_cc_flags flags_at_def)
  then obtain st3 where 3: "code_run T m (set_cc_op CC_OP_EFLAGS ?s1) = Running st3"
      "only_changes {cpu_cc_dst} ?st2 st3" "cc_op (tenv st3) = cc_op (tenv ?st2)" "tmp2_i32 st3 = tmp2_i32 ?st2"
    using run_set_cc_op [OF sem, of m ?s1 ?st2 CC_OP_EFLAGS thesis] by simp
  let ?st4 = "set_val cpu_cc_src (ucast (flags_at s st)) st3"
  have run4: "code_run T m (gen_compute_eflags s) = Running ?st4"
    using False 3 by (simp add: gen_compute_eflags_def tstep_run [OF sem])
  have sel: "s_cc_op (gen_compute_eflags s) = CC_OP_EFLAGS" "s_cc_op_dirty (gen_compute_eflags s)"
    using False by (simp_all add: gen_compute_eflags_def set_cc_op_dirty)
  have "only_changes {cpu_cc_src, cpu_cc_dst} st ?st4"
    using 3(2) by (auto simp: only_changes_def)
  moreover have "in_sync (gen_compute_eflags s) ?st4"
    using sel by (simp add: in_sync_def true_op_def)
  moreover have "ucast (val ?st4 cpu_cc_src) = flags_at s st" by (simp add: ucast_down_up)
  ultimately show ?thesis using that run4 sel by blast
qed

text \<open>After \<open>gen_compute_eflags\<close> the flags are what they were.\<close>

lemma flags_at_eflags:
  "s_cc_op s = CC_OP_EFLAGS \<Longrightarrow> flags_at s st = ucast (val st cpu_cc_src)"
  by (simp add: flags_at_def true_op_def cc_flags_def compute_all_eflags_def)


section \<open>Single flags\<close>

lemma and_1_word: "(x :: u64) AND 1 = of_bool (bit x 0)"
  by (rule and_1_bit)

lemma take_bit_64 [simp]: "take_bit 64 (x :: u64) = x"
  by (simp add: take_bit_word_eq_self)

lemma of_bool_xor_1: "(of_bool b :: u64) XOR 1 = of_bool (\<not> b)"
  by (cases b) simp_all

lemma small_of_bool: "(x :: u64) \<le> 1 \<Longrightarrow> x = of_bool (x = 1)"
proof -
  assume "x \<le> 1"
  then have "x = 0 \<or> x = 1" by unat_arith
  then show ?thesis by auto
qed

lemma carry_agrees:
  assumes "keeps_carry op \<longrightarrow> cc_src env \<le> 1"
  shows "helper_cc_compute_c env op = helper_cc_compute_all env op AND CC_C"
  using assms by (cases op) (simp_all add: carry_of_compute_all carry_of_eflags)

lemma run_inv_bit:
  assumes "tcg_semantics B T" "code_run T m s = Running st" "val st reg = of_bool b"
  obtains st' where "code_run T m (inv_bit neg reg s) = Running st'" "only_changes {reg} st st'"
    "val st' reg = of_bool (b \<noteq> neg)" "cc_op (tenv st') = cc_op (tenv st)"
proof (cases neg)
  case True
  then show ?thesis using that [of "set_val reg (of_bool (\<not> b)) st"] assms
    by (simp add: inv_bit_def tstep_run [OF assms(1)] of_bool_xor_1 only_changes_def)
next
  case False
  then show ?thesis using that [of st] assms by (simp add: inv_bit_def only_changes_refl)
qed

lemma inv_bit_sel [simp]:
  "s_cc_op (inv_bit neg reg s) = s_cc_op s" "s_cc_op_dirty (inv_bit neg reg s) = s_cc_op_dirty s"
  "nb_labels (inv_bit neg reg s) = nb_labels s" "nb_temps (inv_bit neg reg s) = nb_temps s"
  "s_mem_index (inv_bit neg reg s) = s_mem_index s" "x86_64_hregs (inv_bit neg reg s) = x86_64_hregs s"
  by (simp_all add: inv_bit_def)

definition same_ctx :: "DisasContext \<Rightarrow> DisasContext \<Rightarrow> bool" where
  "same_ctx s s' \<longleftrightarrow> (\<exists>ops. s' = s\<lparr>op_buf := ops\<rparr>)"

lemma same_ctx_refl: "same_ctx s s"
  unfolding same_ctx_def by (rule exI [of _ "op_buf s"]) simp

lemma same_ctx_emit: "same_ctx s s' \<Longrightarrow> same_ctx s (emit op s')"
  by (auto simp: same_ctx_def emit_def)

lemma same_ctx_ext: "same_ctx s s' \<Longrightarrow> same_ctx s (snd (gen_ext_tl d a sz sx s'))"
  by (simp add: gen_ext_tl_def same_ctx_emit)

lemma same_ctx_extu: "same_ctx s s' \<Longrightarrow> same_ctx s (gen_extu sz r s')"
  "same_ctx s s' \<Longrightarrow> same_ctx s (gen_exts sz r s')"
  by (simp_all add: gen_extu_def gen_exts_def same_ctx_ext)

lemma same_ctx_inv_bit: "same_ctx s s' \<Longrightarrow> same_ctx s (inv_bit neg r s')"
  by (simp add: inv_bit_def same_ctx_emit)

lemma same_ctxD:
  assumes "same_ctx s s'"
  shows "s_cc_op s' = s_cc_op s" "s_cc_op_dirty s' = s_cc_op_dirty s" "nb_labels s' = nb_labels s" "nb_temps s' = nb_temps s"
    "s_mem_index s' = s_mem_index s" "x86_64_hregs s' = x86_64_hregs s"
  using assms by (auto simp: same_ctx_def)

lemmas same_ctx_intros = same_ctx_refl same_ctx_emit same_ctx_ext same_ctx_extu same_ctx_inv_bit

lemma compute_c_ctx:
  assumes "s_cc_op s = CC_OP_DYNAMIC \<longrightarrow> \<not> s_cc_op_dirty s" "s_cc_op s \<noteq> CC_OP_NB"
  shows "same_ctx s (gen_compute_eflags_c reg neg s)"
proof (rule cc_op_cases [of "s_cc_op s"])
  fix g sz assume "s_cc_op s = cc_op_in g sz"
  then show ?thesis
    unfolding gen_compute_eflags_c_def
    by (cases g) (auto simp: Let_def split_beta intro!: same_ctx_intros)
qed (use assms in \<open>auto simp: gen_compute_eflags_c_def gen_update_cc_op_def intro!: same_ctx_intros\<close>)

text \<open>The value that the code leaves in \<open>reg\<close>, and what else it may change.\<close>

definition leaves :: "'m tcg \<Rightarrow> 'm mode \<Rightarrow> DisasContext \<Rightarrow> tcgv \<Rightarrow> tcgv set \<Rightarrow> bool \<Rightarrow> 'm tcg_state \<Rightarrow> bool" where
  "leaves T m s reg R b st \<longleftrightarrow> (case code_run T m s of
     Running st' \<Rightarrow> only_changes (insert reg R) st st' \<and> val st' reg = of_bool b \<and> cc_op (tenv st') = cc_op (tenv st)
   | _ \<Rightarrow> False)"

lemma leavesI:
  "code_run T m s = Running st' \<Longrightarrow> only_changes (insert reg R) st st' \<Longrightarrow> val st' reg = of_bool b \<Longrightarrow>
   cc_op (tenv st') = cc_op (tenv st) \<Longrightarrow> leaves T m s reg R b st"
  by (auto simp: leaves_def)

lemma leavesE:
  assumes "leaves T m s reg R b st"
  obtains st' where "code_run T m s = Running st'" "only_changes (insert reg R) st st'" "val st' reg = of_bool b"
    "cc_op (tenv st') = cc_op (tenv st)"
  using assms by (auto simp: leaves_def split: mode.splits)

lemma leaves_mono: "leaves T m s reg R b st \<Longrightarrow> R \<subseteq> R' \<Longrightarrow> leaves T m s reg R' b st"
  by (auto simp: leaves_def only_changes_def split: mode.splits)

lemma leaves_inv_bit:
  assumes sem: "tcg_semantics B T" and "leaves T m s reg R b st"
  shows "leaves T m (inv_bit neg reg s) reg R (b \<noteq> neg) st"
proof -
  obtain st1 where 1: "code_run T m s = Running st1" "only_changes (insert reg R) st st1" "val st1 reg = of_bool b"
      "cc_op (tenv st1) = cc_op (tenv st)" by (rule leavesE [OF assms(2)])
  obtain st2 where 2: "code_run T m (inv_bit neg reg s) = Running st2" "only_changes {reg} st1 st2"
      "val st2 reg = of_bool (b \<noteq> neg)" "cc_op (tenv st2) = cc_op (tenv st1)"
    by (rule run_inv_bit [OF sem 1(1,3)])
  show ?thesis
    by (rule leavesI [OF 2(1)]) (use 1 2 in \<open>auto simp: only_changes_def\<close>)
qed

lemma run_ext:
  assumes "tcg_semantics B T" "code_run T m s = Running st"
  shows "code_run T m (snd (gen_ext_tl d a sz sx s)) =
    Running (if sz = SzQ then st else set_val d (ext_tl sz sx (val st a)) st)"
  using assms(2) by (simp add: gen_ext_tl_def tstep_run [OF assms(1)])

lemma fst_ext: "fst (gen_ext_tl d a sz sx s) = (if sz = SzQ then a else d)"
  by (simp add: gen_ext_tl_def)

lemma run_extu:
  assumes "tcg_semantics B T" "code_run T m s = Running st"
  shows "code_run T m (gen_extu sz r s) = Running (if sz = SzQ then st else set_val r (ext_tl sz False (val st r)) st)"
    and "code_run T m (gen_exts sz r s) = Running (if sz = SzQ then st else set_val r (ext_tl sz True (val st r)) st)"
  unfolding gen_extu_def gen_exts_def by (rule run_ext [OF assms])+

lemma cond_if:
  "cond_holds (if neg then TCG_COND_GEU else TCG_COND_LTU) a b \<longleftrightarrow> ((a < b) \<noteq> neg)"
  "cond_holds (if neg then TCG_COND_GTU else TCG_COND_LEU) a b \<longleftrightarrow> ((a \<le> b) \<noteq> neg)"
  "cond_holds (if neg then TCG_COND_GE else TCG_COND_LT) a b \<longleftrightarrow> ((sint a < sint b) \<noteq> neg)"
  "cond_holds (if neg then TCG_COND_GT else TCG_COND_LE) a b \<longleftrightarrow> ((sint a \<le> sint b) \<noteq> neg)"
  "cond_holds (if neg then TCG_COND_NE else TCG_COND_EQ) a b \<longleftrightarrow> ((a = b) \<noteq> neg)"
  "cond_holds (if neg then TCG_COND_EQ else TCG_COND_NE) a b \<longleftrightarrow> ((a \<noteq> b) \<noteq> neg)"
  by auto

lemma compute_c_add_run:
  assumes sem: "tcg_semantics B T" and run: "code_run T m s = Running st"
    and g: "g \<in> {G_ADD, G_ADC}" and op: "s_cc_op s = cc_op_in g sz"
    and reg: "reg \<noteq> cpu_tmp0" "reg \<noteq> cpu_cc_dst"
  shows "leaves T m (gen_compute_eflags_c reg neg s) reg {cpu_tmp0}
    ((if g = G_ADD then take_bit (DATA_BITS sz) (val st cpu_cc_dst) < take_bit (DATA_BITS sz) (val st cpu_cc_src)
      else take_bit (DATA_BITS sz) (val st cpu_cc_dst) \<le> take_bit (DATA_BITS sz) (val st cpu_cc_src)) \<noteq> neg) st"
  using g op run reg unfolding gen_compute_eflags_c_def leaves_def
  by (cases "sz = SzQ") (auto simp only: insert_iff empty_iff; simp add: Let_def split_beta fst_ext run_ext [OF sem]
    tstep_run [OF sem] cond_if only_changes_def ext_tl_unsigned)+


lemma compute_c_sub_run:
  assumes sem: "tcg_semantics B T" and run: "code_run T m s = Running st"
    and g: "g \<in> {G_SUB, G_SBB}" and op: "s_cc_op s = cc_op_in g sz"
    and reg: "reg \<noteq> cpu_tmp0" "reg \<noteq> cpu_cc_dst"
  shows "leaves T m (gen_compute_eflags_c reg neg s) reg {cpu_tmp0}
    ((if g = G_SUB then take_bit (DATA_BITS sz) (val st cpu_cc_dst + val st cpu_cc_src) < take_bit (DATA_BITS sz) (val st cpu_cc_src)
      else take_bit (DATA_BITS sz) (val st cpu_cc_dst + val st cpu_cc_src + 1) \<le> take_bit (DATA_BITS sz) (val st cpu_cc_src)) \<noteq> neg) st"
  using g op run reg unfolding gen_compute_eflags_c_def leaves_def
  by (cases "sz = SzQ"; cases "reg = cpu_cc_src") (auto simp only: insert_iff empty_iff;
    simp add: Let_def split_beta fst_ext run_ext [OF sem] run_extu [OF sem] tstep_run [OF sem] cond_if only_changes_def ext_tl_unsigned)+

lemma compute_c_bit_run:
  assumes sem: "tcg_semantics B T" and run: "code_run T m s = Running st"
    and g: "g \<in> {G_LOGIC, G_SHL, G_SAR, G_MUL}" and op: "s_cc_op s = cc_op_in g sz"
    and reg: "reg \<noteq> cpu_tmp0" "reg \<noteq> cpu_cc_dst"
  shows "leaves T m (gen_compute_eflags_c reg neg s) reg {cpu_tmp0}
    ((case g of G_LOGIC \<Rightarrow> False | G_SHL \<Rightarrow> bit (val st cpu_cc_src) (DATA_BITS sz - 1) | G_SAR \<Rightarrow> bit (val st cpu_cc_src) 0
      | _ \<Rightarrow> val st cpu_cc_src \<noteq> 0) \<noteq> neg) st"
proof -
  have c: "DATA_BITS sz - 1 < 64" using DATA_BITS_bounds [of sz] by simp
  have shr: "leaves T m (emit (Andi reg reg 1) (emit (Shri reg cpu_cc_src (DATA_BITS sz - 1)) s)) reg {cpu_tmp0}
      (bit (val st cpu_cc_src) (DATA_BITS sz - 1)) st"
    using c run by (simp add: leaves_def tstep_run [OF sem] only_changes_def and_1_word bit_drop_bit_eq)
  have zero: "leaves T m (emit (Movi reg 0) s) reg {cpu_tmp0} False st"
    "leaves T m (emit (Andi reg cpu_cc_src 1) s) reg {cpu_tmp0} (bit (val st cpu_cc_src) 0) st"
    using run by (simp_all add: leaves_def tstep_run [OF sem] only_changes_def and_1_word)
  note steps = leaves_inv_bit [OF sem shr] leaves_inv_bit [OF sem zero(1)] leaves_inv_bit [OF sem zero(2)]
  have mul: "leaves T m (emit (Setcondi (if neg then TCG_COND_EQ else TCG_COND_NE) reg cpu_cc_src 0) s) reg {cpu_tmp0}
      ((val st cpu_cc_src \<noteq> 0) \<noteq> neg) st"
    using run by (simp add: leaves_def tstep_run [OF sem] cond_if only_changes_def)
  show ?thesis
    using g op steps mul unfolding gen_compute_eflags_c_def by (auto simp only: insert_iff empty_iff; simp)
qed

lemma compute_c_keep_run:
  assumes sem: "tcg_semantics B T" and run: "code_run T m s = Running st"
    and g: "g \<in> {G_INC, G_DEC}" and op: "s_cc_op s = cc_op_in g sz" and c: "val st cpu_cc_src \<le> 1"
  shows "leaves T m (gen_compute_eflags_c reg neg s) reg {cpu_tmp0} ((val st cpu_cc_src = 1) \<noteq> neg) st"
proof -
  have mov: "leaves T m (emit (Mov reg cpu_cc_src) s) reg {cpu_tmp0} (val st cpu_cc_src = 1) st"
    using run small_of_bool [OF c] by (simp add: leaves_def tstep_run [OF sem] only_changes_def)
  have xor: "leaves T m (emit (Xori reg cpu_cc_src 1) s) reg {cpu_tmp0} (val st cpu_cc_src \<noteq> 1) st"
    using run small_of_bool [OF c] of_bool_xor_1 [of "val st cpu_cc_src = 1"]
    by (simp add: leaves_def tstep_run [OF sem] only_changes_def)
  show ?thesis
    using g op mov xor unfolding gen_compute_eflags_c_def by (cases neg) (auto simp only: insert_iff empty_iff; simp)+
qed

text \<open>The carry flag, whatever the operation in force.\<close>

lemma run_compute_c:
  assumes sem: "tcg_semantics B T" and run: "code_run T m s = Running st" and sync: "in_sync s st"
    and reg: "reg \<noteq> cpu_tmp0" "reg \<noteq> cpu_cc_dst"
  shows "leaves T m (gen_compute_eflags_c reg neg s) reg {cpu_tmp0} (bit (flags_at s st) 0 \<noteq> neg) st"
proof (cases "s_cc_op s" rule: cc_op_cases)
  case 1
  have d: "\<not> s_cc_op_dirty s" and op: "true_op s st = cc_op (tenv st)"
    using sync 1 by (auto simp: in_sync_def true_op_def split: if_splits)
  let ?w = "helper_cc_compute_c (tenv st) (cc_op (tenv st))"
  let ?st = "set_tmp2 ?w st"
  have c: "?w = flags_at s st AND CC_C"
    using carry_agrees [of "cc_op (tenv st)" "tenv st"] sync op
    by (simp add: in_sync_def flags_at_def compute_all_cc_flags)
  have "leaves T m (emit (Extu_tmp2 reg) (emit Call_cc_compute_c (gen_update_cc_op s))) reg {cpu_tmp0} (bit (flags_at s st) 0) st"
    using run d c and_exp_of_bool [of "flags_at s st" 0]
    by (simp add: leaves_def tstep_run [OF sem] only_changes_def gen_update_cc_op_def)
  from leaves_inv_bit [OF sem this] show ?thesis
    using 1 by (simp add: gen_compute_eflags_c_def)
next
  case 2
  have "leaves T m (emit (Andi reg cpu_cc_src 1) s) reg {cpu_tmp0} (bit (flags_at s st) 0) st"
    using run by (simp add: leaves_def tstep_run [OF sem] only_changes_def and_1_word flags_at_eflags [OF 2] bit_ucast_iff)
  from leaves_inv_bit [OF sem this] show ?thesis
    using 2 by (simp add: gen_compute_eflags_c_def)
next
  case 3
  then show ?thesis using sync by (simp add: in_sync_def true_op_def)
next
  case (4 g sz)
  have k: "keeps_carry (cc_op_in g sz) \<longrightarrow> val st cpu_cc_src \<le> 1"
    using sync 4 by (simp add: in_sync_def true_op_def)
  have fl: "bit (flags_at s st) 0 \<longleftrightarrow> bit (helper_cc_compute_c (cpu_zero\<lparr>cc_src := val st cpu_cc_src, cc_dst := val st cpu_cc_dst\<rparr>) (cc_op_in g sz)) 0"
    using cc_flags_carry [OF k] 4 by (simp add: flags_at_def true_op_def)
  note parts = compute_c_add_run [OF sem run _ 4 reg] compute_c_sub_run [OF sem run _ 4 reg]
    compute_c_bit_run [OF sem run _ 4 reg] compute_c_keep_run [OF sem run _ 4]
  show ?thesis
    unfolding fl compute_c_group using k parts [where neg = neg]
    by (cases g) (simp_all add: bit_of_bool_word bit_ucast_low and_1_word ucast_of_bool bit_drop_bit_eq)
qed


section \<open>Conditions\<close>

text \<open>
  A test leaves the condition in \<open>reg\<close>; it may compute the flags into \<open>cc_src\<close>, but they stay
  what they were and the context stays in step with the machine.
\<close>

definition tests :: "'m tcg \<Rightarrow> 'm mode \<Rightarrow> DisasContext \<Rightarrow> DisasContext \<Rightarrow> tcgv \<Rightarrow> bool \<Rightarrow> 'm tcg_state \<Rightarrow> bool" where
  "tests T m s s' reg b st \<longleftrightarrow> (case code_run T m s' of
     Running st' \<Rightarrow> only_changes {reg, cpu_tmp0, cpu_tmp4, cpu_cc_src, cpu_cc_dst} st st' \<and> val st' reg = of_bool b \<and>
       in_sync s' st' \<and> flags_at s' st' = flags_at s st
   | _ \<Rightarrow> False)"

lemma testsE:
  assumes "tests T m s s' reg b st"
  obtains st' where "code_run T m s' = Running st'"
    "only_changes {reg, cpu_tmp0, cpu_tmp4, cpu_cc_src, cpu_cc_dst} st st'" "val st' reg = of_bool b"
    "in_sync s' st'" "flags_at s' st' = flags_at s st"
  using assms by (auto simp: tests_def split: mode.splits)

lemma in_sync_cong:
  assumes "s_cc_op s' = s_cc_op s" "s_cc_op_dirty s' = s_cc_op_dirty s"
    and "val st' cpu_cc_src = val st cpu_cc_src" "val st' cpu_cc_dst = val st cpu_cc_dst"
    and "cc_op (tenv st') = cc_op (tenv st)"
  shows "in_sync s' st' \<longleftrightarrow> in_sync s st" "flags_at s' st' = flags_at s st"
  using assms by (simp_all add: in_sync_def flags_at_def true_op_def)

lemma tests_of_leaves:
  assumes "leaves T m s' reg {cpu_tmp0, cpu_tmp4} b st" "same_ctx s s'" "in_sync s st"
    and "reg \<noteq> cpu_cc_src" "reg \<noteq> cpu_cc_dst"
  shows "tests T m s s' reg b st"
proof -
  obtain st' where 1: "code_run T m s' = Running st'" "only_changes {reg, cpu_tmp0, cpu_tmp4} st st'"
      "val st' reg = of_bool b" "cc_op (tenv st') = cc_op (tenv st)" by (rule leavesE [OF assms(1)])
  have "in_sync s' st' \<longleftrightarrow> in_sync s st" "flags_at s' st' = flags_at s st"
    using assms(4,5) only_changesD [OF 1(2)]
    by (auto intro!: in_sync_cong [OF same_ctxD(1,2) [OF assms(2)] _ _ 1(4)])
  then show ?thesis using 1 assms(3) only_changes_mono [OF 1(2)] by (simp add: tests_def)
qed

lemma tests_after_eflags:
  assumes sem: "tcg_semantics B T" and run: "code_run T m s = Running st" and sync: "in_sync s st"
    and ctx: "same_ctx (gen_compute_eflags s) s'" and reg: "reg \<noteq> cpu_cc_src" "reg \<noteq> cpu_cc_dst"
    and body: "\<And>st1. code_run T m (gen_compute_eflags s) = Running st1 \<Longrightarrow> ucast (val st1 cpu_cc_src) = flags_at s st \<Longrightarrow>
      leaves T m s' reg {cpu_tmp0, cpu_tmp4} b st1"
  shows "tests T m s s' reg b st"
proof -
  obtain st1 where 1: "code_run T m (gen_compute_eflags s) = Running st1" "only_changes {cpu_cc_src, cpu_cc_dst} st st1"
      "s_cc_op (gen_compute_eflags s) = CC_OP_EFLAGS" "ucast (val st1 cpu_cc_src) = flags_at s st"
      "in_sync (gen_compute_eflags s) st1"
    by (rule run_compute_eflags [OF sem run sync])
  have "tests T m (gen_compute_eflags s) s' reg b st1"
    by (rule tests_of_leaves [OF body [OF 1(1,4)] ctx 1(5) reg])
  moreover have "flags_at (gen_compute_eflags s) st1 = flags_at s st" 
    by (simp only: flags_at_eflags [OF 1(3)] 1(4))
  ultimately show ?thesis using 1(2) by (auto simp: tests_def only_changes_def split: mode.splits)
qed

text \<open>The bits of \<open>cc_src\<close> that hold the flags.\<close>

lemma eflags_word_bit:
  "ucast (w :: u64) = (fl :: u32) \<Longrightarrow> k < 32 \<Longrightarrow> bit w k \<longleftrightarrow> bit fl k"
  by (auto simp: bit_ucast_iff)

lemma leaves_eflags_bit:
  assumes sem: "tcg_semantics B T" and run: "code_run T m s = Running st" and k: "k < 32"
    and fl: "ucast (val st cpu_cc_src) = (fl :: u32)"
  shows "leaves T m (eflags_bit k reg s) reg {cpu_tmp0, cpu_tmp4} (bit fl k) st"
  using run k eflags_word_bit [OF fl k]
  by (simp add: eflags_bit_def leaves_def tstep_run [OF sem] only_changes_def and_1_word bit_drop_bit_eq)

lemma same_ctx_bit: "same_ctx s s' \<Longrightarrow> same_ctx s (eflags_bit k r s')"
  by (simp add: eflags_bit_def same_ctx_emit)

lemmas ctx_intros = same_ctx_intros same_ctx_bit

lemma run_flag_bit:
  assumes sem: "tcg_semantics B T" and run: "code_run T m s = Running st" and sync: "in_sync s st" and k: "k < 32"
    and reg: "reg \<noteq> cpu_cc_src" "reg \<noteq> cpu_cc_dst"
  shows "tests T m s (inv_bit neg reg (eflags_bit k reg (gen_compute_eflags s))) reg (bit (flags_at s st) k \<noteq> neg) st"
proof (rule tests_after_eflags [OF sem run sync _ reg])
  show "same_ctx (gen_compute_eflags s) (inv_bit neg reg (eflags_bit k reg (gen_compute_eflags s)))"
    by (intro ctx_intros)
  fix st1 assume 1: "code_run T m (gen_compute_eflags s) = Running st1" "ucast (val st1 cpu_cc_src) = flags_at s st"
  show "leaves T m (inv_bit neg reg (eflags_bit k reg (gen_compute_eflags s))) reg {cpu_tmp0, cpu_tmp4}
      (bit (flags_at s st) k \<noteq> neg) st1"
    by (rule leaves_inv_bit [OF sem leaves_eflags_bit [OF sem 1(1) k 1(2)]])
qed

text \<open>The zero and sign flags are tests of the result, unless the flags are computed already.\<close>

lemma run_compute_zs:
  assumes sem: "tcg_semantics B T" and run: "code_run T m s = Running st" and sync: "in_sync s st"
    and reg: "reg \<noteq> cpu_cc_src" "reg \<noteq> cpu_cc_dst"
  shows "tests T m s (gen_compute_eflags_z reg neg s) reg (bit (flags_at s st) 6 \<noteq> neg) st"
    and "tests T m s (gen_compute_eflags_s reg neg s) reg (bit (flags_at s st) 7 \<noteq> neg) st"
proof -
  have "tests T m s (gen_compute_eflags_z reg neg s) reg (bit (flags_at s st) 6 \<noteq> neg) st \<and>
    tests T m s (gen_compute_eflags_s reg neg s) reg (bit (flags_at s st) 7 \<noteq> neg) st"
  proof (cases "s_cc_op s" rule: cc_op_cases)
    case 1
    obtain st1 where e: "s_cc_op (gen_compute_eflags s) = CC_OP_EFLAGS" by (rule run_compute_eflags [OF sem run sync])
    show ?thesis using 1 e run_flag_bit [OF sem run sync _ reg, where k = 6 and neg = neg] run_flag_bit [OF sem run sync _ reg, where k = 7 and neg = neg]
      by (simp add: gen_compute_eflags_z_def gen_compute_eflags_s_def)
  next
    case 2
    then have e: "gen_compute_eflags s = s" by (simp add: gen_compute_eflags_def)
    show ?thesis using 2 e run_flag_bit [OF sem run sync _ reg, where k = 6 and neg = neg] run_flag_bit [OF sem run sync _ reg, where k = 7 and neg = neg]
      by (simp add: gen_compute_eflags_z_def gen_compute_eflags_s_def)
  next
    case 3
    then show ?thesis using sync by (simp add: in_sync_def true_op_def)
  next
    case (4 g sz)
    have k: "keeps_carry (cc_op_in g sz) \<longrightarrow> val st cpu_cc_src \<le> 1"
      using sync 4 by (simp add: in_sync_def true_op_def)
    have fl: "bit (flags_at s st) 6 \<longleftrightarrow> take_bit (DATA_BITS sz) (val st cpu_cc_dst) = 0"
      "bit (flags_at s st) 7 \<longleftrightarrow> sint (ext_tl sz True (val st cpu_cc_dst)) < 0"
      using cc_flags_zs [OF k] 4 by (simp_all add: flags_at_def true_op_def)
    have "leaves T m (gen_compute_eflags_z reg neg s) reg {cpu_tmp0, cpu_tmp4} (bit (flags_at s st) 6 \<noteq> neg) st"
      "leaves T m (gen_compute_eflags_s reg neg s) reg {cpu_tmp0, cpu_tmp4} (bit (flags_at s st) 7 \<noteq> neg) st"
      using run 4 reg unfolding fl leaves_def gen_compute_eflags_z_def gen_compute_eflags_s_def
      by (cases "sz = SzQ"; simp add: split_beta fst_ext run_ext [OF sem] tstep_run [OF sem] cond_if only_changes_def
        ext_tl_unsigned)+
    moreover have "same_ctx s (gen_compute_eflags_z reg neg s)" "same_ctx s (gen_compute_eflags_s reg neg s)"
      using 4 by (auto simp: gen_compute_eflags_z_def gen_compute_eflags_s_def split_beta intro!: ctx_intros)
    ultimately show ?thesis using tests_of_leaves sync reg by blast
  qed
  then show "tests T m s (gen_compute_eflags_z reg neg s) reg (bit (flags_at s st) 6 \<noteq> neg) st"
    "tests T m s (gen_compute_eflags_s reg neg s) reg (bit (flags_at s st) 7 \<noteq> neg) st" by blast+
qed


lemma and_zc: "(w :: u64) AND 0x41 \<noteq> 0 \<longleftrightarrow> bit w 0 \<or> bit w 6"
proof -
  have "w AND 0x41 = (w AND 2 ^ 6) OR (w AND 2 ^ 0)" by (simp flip: bit.conj_disj_distrib)
  then have "w AND 0x41 \<noteq> 0 \<longleftrightarrow> w AND 2 ^ 6 \<noteq> 0 \<or> w AND 2 ^ 0 \<noteq> 0" by (metis or_eq_0_iff)
  then show ?thesis using and_mask_bit [of w 6] and_mask_bit [of w 0] by auto
qed

lemma run_setcc_slow:
  assumes sem: "tcg_semantics B T" and run: "code_run T m s = Running st" and sync: "in_sync s st"
    and reg: "reg \<noteq> cpu_cc_src" "reg \<noteq> cpu_cc_dst" "reg \<noteq> cpu_tmp0" "reg \<noteq> cpu_tmp4"
  shows "tests T m s (gen_setcc_slow op reg neg s) reg (cond_of op (flags_at s st) \<noteq> neg) st"
proof -
  let ?s1 = "gen_compute_eflags s"
  note after = tests_after_eflags [OF sem run sync _ reg(1,2)]
  note flag = run_flag_bit [OF sem run sync _ reg(1,2), where neg = neg]
  show ?thesis
  proof (cases op)
    case JCC_O
    then show ?thesis using flag [of 11] by (simp add: gen_compute_eflags_o_def)
  next
    case JCC_P
    then show ?thesis using flag [of 2] by (simp add: gen_compute_eflags_p_def)
  next
    case JCC_B
    have "leaves T m (gen_compute_eflags_c reg neg s) reg {cpu_tmp0} (bit (flags_at s st) 0 \<noteq> neg) st"
      by (rule run_compute_c [OF sem run sync reg(3,2)])
    then have "leaves T m (gen_compute_eflags_c reg neg s) reg {cpu_tmp0, cpu_tmp4} (bit (flags_at s st) 0 \<noteq> neg) st"
      by (rule leaves_mono) auto
    moreover have "same_ctx s (gen_compute_eflags_c reg neg s)"
      using sync by (intro compute_c_ctx) (auto simp: in_sync_def true_op_def split: if_splits)
    ultimately show ?thesis using JCC_B tests_of_leaves sync reg by simp
  next
    case JCC_Z
    then show ?thesis using run_compute_zs(1) [OF sem run sync reg(1,2)] by simp
  next
    case JCC_S
    then show ?thesis using run_compute_zs(2) [OF sem run sync reg(1,2)] by simp
  next
    case JCC_BE
    show ?thesis unfolding JCC_BE
    proof (rule after)
      fix st1 assume 1: "code_run T m ?s1 = Running st1" "ucast (val st1 cpu_cc_src) = flags_at s st"
      then show "leaves T m (gen_setcc_slow JCC_BE reg neg s) reg {cpu_tmp0, cpu_tmp4} (cond_of JCC_BE (flags_at s st) \<noteq> neg) st1"
        using and_zc [of "val st1 cpu_cc_src"] eflags_word_bit [OF 1(2)]
        by (simp add: leaves_def tstep_run [OF sem] cond_if only_changes_def)
    qed (auto intro!: ctx_intros)
  next
    case JCC_L
    have "leaves T m (emit (Andi reg reg 1) (emit (Xor reg reg cpu_tmp0) (emit (Shri cpu_tmp0 cpu_cc_src 7)
        (emit (Shri reg cpu_cc_src 11) ?s1)))) reg {cpu_tmp0, cpu_tmp4} (cond_of JCC_L (flags_at s st)) st1"
      if 1: "code_run T m ?s1 = Running st1" "ucast (val st1 cpu_cc_src) = flags_at s st" for st1
      using 1(1) reg eflags_word_bit [OF 1(2)]
      by (auto simp: leaves_def tstep_run [OF sem] only_changes_def and_1_word bit_xor_iff bit_drop_bit_eq)
    from leaves_inv_bit [OF sem this] show ?thesis unfolding JCC_L
      by (intro after) (auto intro!: ctx_intros)
  next
    case JCC_LE
    have "leaves T m (emit (Andi reg reg 1) (emit (Or reg reg cpu_tmp0) (emit (Xor reg reg cpu_tmp4)
        (emit (Shri cpu_tmp0 cpu_cc_src 6) (emit (Shri cpu_tmp4 cpu_cc_src 7) (emit (Shri reg cpu_cc_src 11) ?s1))))))
        reg {cpu_tmp0, cpu_tmp4} (cond_of JCC_LE (flags_at s st)) st1"
      if 1: "code_run T m ?s1 = Running st1" "ucast (val st1 cpu_cc_src) = flags_at s st" for st1
      using 1(1) reg eflags_word_bit [OF 1(2)]
      by (auto simp: leaves_def tstep_run [OF sem] only_changes_def and_1_word bit_xor_iff bit_or_iff bit_drop_bit_eq)
    from leaves_inv_bit [OF sem this] show ?thesis unfolding JCC_LE
      by (intro after) (auto intro!: ctx_intros)
  qed
qed

section \<open>Jumps\<close>

text \<open>A branch keeps the CPU state, the flags and the local temporaries, and is taken on \<open>c\<close>.\<close>

definition jumps :: "'m tcg \<Rightarrow> 'm mode \<Rightarrow> DisasContext \<Rightarrow> DisasContext \<Rightarrow> bool \<Rightarrow> nat \<Rightarrow> 'm tcg_state \<Rightarrow> bool" where
  "jumps T m s s' c l st \<longleftrightarrow> (\<exists>st'. code_run T m s' = (if c then Jumping l st' else Running st') \<and>
     only_changes (- range local_temp) st st' \<and> in_sync s' st' \<and> flags_at s' st' = flags_at s st)"

lemma jumps_brcond:
  assumes sem: "tcg_semantics B T" and run: "code_run T m s' = Running st'"
    and keep: "only_changes (- range local_temp) st st'" "in_sync s' st'" "flags_at s' st' = flags_at s st"
  shows "jumps T m s (emit (Brcondi cond a k l) s') (cond_holds cond (val st' a) k) l st"
    and "jumps T m s (emit (Brcond cond a a' l) s') (cond_holds cond (val st' a) (val st' a')) l st"
proof -
  have lose: "only_changes (- range local_temp) st (lose_temps f w st')" "in_sync (emit op s') (lose_temps f w st')"
    "flags_at (emit op s') (lose_temps f w st') = flags_at s st" for f w op
    using keep by (auto simp: only_changes_def in_sync_def flags_at_def true_op_def)
  obtain f w where 1: "tstep T (Brcondi cond a k l) (Running st') =
      (case taken (Brcondi cond a k l) st' of Some l \<Rightarrow> Jumping l (lose_temps f w st') | None \<Rightarrow> Running (lose_temps f w st'))"
    by (rule tstep_block [OF sem, of "Brcondi cond a k l" st']) simp_all
  show "jumps T m s (emit (Brcondi cond a k l) s') (cond_holds cond (val st' a) k) l st"
    unfolding jumps_def using run 1 lose by (intro exI [of _ "lose_temps f w st'"]) simp
  obtain f w where 2: "tstep T (Brcond cond a a' l) (Running st') =
      (case taken (Brcond cond a a' l) st' of Some l \<Rightarrow> Jumping l (lose_temps f w st') | None \<Rightarrow> Running (lose_temps f w st'))"
    by (rule tstep_block [OF sem, of "Brcond cond a a' l" st']) simp_all
  show "jumps T m s (emit (Brcond cond a a' l) s') (cond_holds cond (val st' a) (val st' a')) l st"
    unfolding jumps_def using run 2 lose by (intro exI [of _ "lose_temps f w st'"]) simp
qed

lemma run_slow_jcc:
  assumes sem: "tcg_semantics B T" and run: "code_run T m s = Running st" and sync: "in_sync s st"
  shows "jumps T m s (slow_jcc op neg l s) (cond_of op (flags_at s st) \<noteq> neg) l st"
proof -
  obtain st' where 1: "code_run T m (gen_setcc_slow op cpu_T0 False s) = Running st'"
      "only_changes {cpu_T0, cpu_tmp0, cpu_tmp4, cpu_cc_src, cpu_cc_dst} st st'"
      "val st' cpu_T0 = of_bool (cond_of op (flags_at s st))"
      "in_sync (gen_setcc_slow op cpu_T0 False s) st'" "flags_at (gen_setcc_slow op cpu_T0 False s) st' = flags_at s st"
    using run_setcc_slow [OF sem run sync, of cpu_T0 op False] by (auto elim: testsE)
  have keep: "only_changes (- range local_temp) st st'" by (rule only_changes_mono [OF 1(2)]) auto
  show ?thesis
    using jumps_brcond(1) [OF sem 1(1) keep 1(4,5), of "if neg then TCG_COND_EQ else TCG_COND_NE" cpu_T0 0 l] 1(3)
    by (cases neg) (simp_all add: slow_jcc_def)
qed

text \<open>The fast tests of a result and of a comparison.\<close>

lemma keep_tmp:
  assumes "in_sync s st" "same_ctx s s'" "d \<in> {cpu_tmp0, cpu_tmp4}"
  shows "in_sync s' (set_val d v st)" "flags_at s' (set_val d v st) = flags_at s st"
  using assms in_sync_cong [OF same_ctxD(1,2) [OF assms(2)], of "set_val d v st" st] by auto

lemma run_fast_jcc:
  assumes sem: "tcg_semantics B T" and run: "code_run T m s = Running st" and sync: "in_sync s st"
    and op: "s_cc_op s = cc_op_in g sz"
  shows "jumps T m s (fast_jcc_z sz neg l s) (bit (flags_at s st) 6 \<noteq> neg) l st"
    and "jumps T m s (fast_jcc_s sz neg l s) (bit (flags_at s st) 7 \<noteq> neg) l st"
proof -
  have k: "keeps_carry (cc_op_in g sz) \<longrightarrow> val st cpu_cc_src \<le> 1" using sync op by (simp add: in_sync_def true_op_def)
  have fl: "bit (flags_at s st) 6 \<longleftrightarrow> take_bit (DATA_BITS sz) (val st cpu_cc_dst) = 0"
    "bit (flags_at s st) 7 \<longleftrightarrow> sint (ext_tl sz True (val st cpu_cc_dst)) < 0"
    using cc_flags_zs [OF k] op by (simp_all add: flags_at_def true_op_def)
  have go: "jumps T m s (let (t0, s) = gen_ext_tl cpu_tmp0 cpu_cc_dst sz sx s in emit (Brcondi cond t0 0 l) s)
      (cond_holds cond (ext_tl sz sx (val st cpu_cc_dst)) 0) l st" for sx cond
  proof -
    let ?s' = "snd (gen_ext_tl cpu_tmp0 cpu_cc_dst sz sx s)"
    let ?st' = "if sz = SzQ then st else set_val cpu_tmp0 (ext_tl sz sx (val st cpu_cc_dst)) st"
    have c: "same_ctx s ?s'" by (intro ctx_intros)
    have "only_changes (- range local_temp) st ?st'" by (auto simp: only_changes_def)
    moreover have "in_sync ?s' ?st'" "flags_at ?s' ?st' = flags_at s st"
      using keep_tmp [OF sync c, of cpu_tmp0] sync in_sync_cong [OF same_ctxD(1,2) [OF c], of st st] by auto
    ultimately have "jumps T m s (emit (Brcondi cond (fst (gen_ext_tl cpu_tmp0 cpu_cc_dst sz sx s)) 0 l) ?s')
        (cond_holds cond (val ?st' (fst (gen_ext_tl cpu_tmp0 cpu_cc_dst sz sx s))) 0) l st"
      by (rule jumps_brcond(1) [OF sem run_ext [OF sem run]])
    moreover have "val ?st' (fst (gen_ext_tl cpu_tmp0 cpu_cc_dst sz sx s)) = ext_tl sz sx (val st cpu_cc_dst)"
      by (simp add: fst_ext)
    ultimately show ?thesis by (simp add: split_beta)
  qed
  show "jumps T m s (fast_jcc_z sz neg l s) (bit (flags_at s st) 6 \<noteq> neg) l st"
    using go [of False "if neg then TCG_COND_NE else TCG_COND_EQ"] unfolding fl cond_if ext_tl_unsigned fast_jcc_z_def .
  show "jumps T m s (fast_jcc_s sz neg l s) (bit (flags_at s st) 7 \<noteq> neg) l st"
    using go [of True "if neg then TCG_COND_GE else TCG_COND_LT"] unfolding fl cond_if fast_jcc_s_def by simp
qed


lemma run_fast_cmp:
  assumes sem: "tcg_semantics B T" and run: "code_run T m s = Running st" and sync: "in_sync s st"
    and op: "s_cc_op s = cc_op_in G_SUB sz"
  shows "jumps T m s (fast_jcc_b sz (if neg then TCG_COND_GEU else TCG_COND_LTU) l s) (cond_of JCC_B (flags_at s st) \<noteq> neg) l st"
    and "jumps T m s (fast_jcc_b sz (if neg then TCG_COND_GTU else TCG_COND_LEU) l s) (cond_of JCC_BE (flags_at s st) \<noteq> neg) l st"
    and "jumps T m s (fast_jcc_l sz (if neg then TCG_COND_GE else TCG_COND_LT) l s) (cond_of JCC_L (flags_at s st) \<noteq> neg) l st"
    and "jumps T m s (fast_jcc_l sz (if neg then TCG_COND_GT else TCG_COND_LE) l s) (cond_of JCC_LE (flags_at s st) \<noteq> neg) l st"
proof -
  let ?a = "val st cpu_cc_dst + val st cpu_cc_src" and ?b = "val st cpu_cc_src"
  have fl: "flags_at s st = cc_flags (cc_op_in G_SUB sz) (val st cpu_cc_src) (val st cpu_cc_dst)"
    using op by (simp add: flags_at_def true_op_def)
  let ?code = "\<lambda>sx. snd (gen_ext_tl cpu_tmp4 cpu_tmp4 sz sx (emit (Add cpu_tmp4 cpu_cc_dst cpu_cc_src) s))"
  have go: "jumps T m s (let (t0, s) = gen_ext_tl cpu_tmp0 cpu_cc_src sz sx (?code sx) in emit (Brcond cond cpu_tmp4 t0 l) s)
      (cond_holds cond (ext_tl sz sx ?a) (ext_tl sz sx ?b)) l st" for sx cond
  proof -
    let ?s1 = "?code sx" and ?s2 = "snd (gen_ext_tl cpu_tmp0 cpu_cc_src sz sx (?code sx))"
    let ?st1 = "set_val cpu_tmp4 ?a st"
    let ?st2 = "if sz = SzQ then ?st1 else set_val cpu_tmp4 (ext_tl sz sx (val ?st1 cpu_tmp4)) ?st1"
    let ?st3 = "if sz = SzQ then ?st2 else set_val cpu_tmp0 (ext_tl sz sx (val ?st2 cpu_cc_src)) ?st2"
    have r: "code_run T m ?s2 = Running ?st3"
      using run by (intro run_ext [OF sem]) (simp add: tstep_run [OF sem])
    have c: "same_ctx s ?s2" by (intro ctx_intros)
    have "only_changes (- range local_temp) st ?st3" by (auto simp: only_changes_def)
    moreover have "in_sync ?s2 ?st3" "flags_at ?s2 ?st3 = flags_at s st"
      using sync in_sync_cong [OF same_ctxD(1,2) [OF c], of ?st3 st] by auto
    ultimately have "jumps T m s (emit (Brcond cond cpu_tmp4 (fst (gen_ext_tl cpu_tmp0 cpu_cc_src sz sx (?code sx))) l) ?s2)
        (cond_holds cond (val ?st3 cpu_tmp4) (val ?st3 (fst (gen_ext_tl cpu_tmp0 cpu_cc_src sz sx (?code sx))))) l st"
      by (rule jumps_brcond(2) [OF sem r])
    moreover have "val ?st3 cpu_tmp4 = ext_tl sz sx ?a"
      "val ?st3 (fst (gen_ext_tl cpu_tmp0 cpu_cc_src sz sx (?code sx))) = ext_tl sz sx ?b"
      by (simp_all add: fst_ext)
    ultimately show ?thesis by (simp add: split_beta)
  qed
  note cmp = cmp_conditions [of sz "val st cpu_cc_src" "val st cpu_cc_dst", folded fl, folded ext_tl_unsigned sint_ext_tl]
  show "jumps T m s (fast_jcc_b sz (if neg then TCG_COND_GEU else TCG_COND_LTU) l s) (cond_of JCC_B (flags_at s st) \<noteq> neg) l st"
    using go [of False "if neg then TCG_COND_GEU else TCG_COND_LTU"] unfolding cmp cond_if fast_jcc_b_def gen_extu_def by (simp only: Let_def)
  show "jumps T m s (fast_jcc_b sz (if neg then TCG_COND_GTU else TCG_COND_LEU) l s) (cond_of JCC_BE (flags_at s st) \<noteq> neg) l st"
    using go [of False "if neg then TCG_COND_GTU else TCG_COND_LEU"] unfolding cmp cond_if fast_jcc_b_def gen_extu_def by (simp only: Let_def)
  show "jumps T m s (fast_jcc_l sz (if neg then TCG_COND_GE else TCG_COND_LT) l s) (cond_of JCC_L (flags_at s st) \<noteq> neg) l st"
    using go [of True "if neg then TCG_COND_GE else TCG_COND_LT"] unfolding cmp cond_if fast_jcc_l_def gen_exts_def by (simp only: Let_def)
  show "jumps T m s (fast_jcc_l sz (if neg then TCG_COND_GT else TCG_COND_LE) l s) (cond_of JCC_LE (flags_at s st) \<noteq> neg) l st"
    using go [of True "if neg then TCG_COND_GT else TCG_COND_LE"] unfolding cmp cond_if fast_jcc_l_def gen_exts_def by (simp only: Let_def)
qed

lemma run_jcc1:
  assumes sem: "tcg_semantics B T" and run: "code_run T m s = Running st" and sync: "in_sync s st"
  shows "jumps T m s (gen_jcc1 b l s) (jcc_holds b (flags_at s st)) l st"
proof -
  note slow = run_slow_jcc [OF sem run sync, where op = "jcc_op_of b" and neg = "odd b" and l = l]
  show ?thesis
  proof (cases "s_cc_op s" rule: cc_op_cases)
    case (4 g sz)
    note fast = run_fast_jcc [OF sem run sync 4, where neg = "odd b" and l = l]
    show ?thesis
    proof (cases "g = G_SUB")
      case True
      with 4 have sub: "s_cc_op s = cc_op_in G_SUB sz" by simp
      show ?thesis
        using sub slow fast run_fast_cmp [OF sem run sync sub, where neg = "odd b" and l = l]
        unfolding jcc_holds_def gen_jcc1_def by (cases "jcc_op_of b") (simp_all only: Let_def cc_group_of_in option.case prod.case cc_group.case jcc_op.case cond_of.simps)
    next
      case False
      then show ?thesis
        using 4 slow fast unfolding jcc_holds_def gen_jcc1_def
        by (cases g; cases "jcc_op_of b") (simp_all only: Let_def cc_group_of_in option.case prod.case cc_group.case jcc_op.case cond_of.simps)
    qed
  qed (use slow sync in \<open>simp_all add: gen_jcc1_def jcc_holds_def in_sync_def true_op_def\<close>)
qed

text \<open>
  C33: the code of a conditional jump, run on a machine in step with the translator's context,
  jumps exactly when the condition of the opcode holds of the flags that
  \<open>helper_cc_compute_all\<close> computes for the operation in force; it changes nothing of the CPU state
  but the lazy form of the flags, whose value stays the same.
\<close>
theorem jcc_correct:
  assumes "tcg_semantics B T" "code_run T m s = Running st" "in_sync s st"
  shows "\<exists>st'. code_run T m (gen_jcc1 b l s) =
      (if jcc_holds b (helper_cc_compute_all (tenv st) (true_op s st)) then Jumping l st' else Running st') \<and>
    rest (tenv st') = rest (tenv st) \<and> in_sync (gen_jcc1 b l s) st' \<and>
    helper_cc_compute_all (tenv st') (true_op (gen_jcc1 b l s) st') = helper_cc_compute_all (tenv st) (true_op s st)"
  using run_jcc1 [OF assms, of b l] by (auto simp: jumps_def only_changes_def flags_at_def compute_all_cc_flags)

text \<open>After a comparison of 3 with 5, \<open>JL\<close> (opcode 0x7c) is taken.\<close>

definition compared_ctx :: DisasContext where
  "compared_ctx = empty_context\<lparr>s_cc_op := CC_OP_SUBL, s_cc_op_dirty := True\<rparr>"

definition compared_state :: "(u64 \<Rightarrow> u8) tcg_state" where
  "compared_state = start_state CC_OP_EFLAGS 5 (- 2) (\<lambda>_. 0)"

lemma compared_3_5:
  "code_run (tcg_eval flat_bus) (Running compared_state) compared_ctx = Running compared_state"
  "in_sync compared_ctx compared_state"
  "helper_cc_compute_all (tenv compared_state) (true_op compared_ctx compared_state) = 0x91"
proof -
  show "code_run (tcg_eval flat_bus) (Running compared_state) compared_ctx = Running compared_state"
    by (simp add: compared_ctx_def empty_context_def code_run_def run_ops_def)
  show "in_sync compared_ctx compared_state" by (simp add: compared_ctx_def in_sync_def true_op_def)
  show "helper_cc_compute_all (tenv compared_state) (true_op compared_ctx compared_state) = 0x91"
    unfolding compared_ctx_def compared_state_def start_state_def true_op_def
    by (simp del: cc_src_val cc_dst_val, code_simp)
qed

lemma compared_holds: "jcc_holds 0x7c 0x91"
  by code_simp

lemma jcc_correct_witness:
  "\<exists>st'. code_run (tcg_eval flat_bus) (Running compared_state) (gen_jcc1 0x7c 0 compared_ctx) = Jumping 0 st' \<and>
     rest (tenv st') = rest (tenv compared_state)"
  using jcc_correct [OF tcg_eval_semantics compared_3_5(1,2), of "0x7c" 0] compared_holds
  unfolding compared_3_5(3) by auto

lemma jcc_holds_inverted: "jcc_holds (if even b then b + 1 else b - 1) fl \<longleftrightarrow> \<not> jcc_holds b fl"
  by (auto simp: jcc_holds_def jcc_op_of_def elim!: oddE)

text \<open>
  the code of \<open>SETcc\<close> leaves 1 in T0 when the condition of the opcode holds of the flags
  in force and 0 when it does not, on both ways it is generated: with a jump around a store into
  a local temporary, or with the flag bits.
\<close>
lemma setcc_correct:
  assumes sem: "tcg_semantics B T" and run: "code_run T m s = Running st" and sync: "in_sync s st"
  shows "\<exists>st'. code_run T m (gen_setcc b s) = Running st' \<and>
    val st' cpu_T0 = of_bool (jcc_holds b (helper_cc_compute_all (tenv st) (true_op s st))) \<and>
    rest (tenv st') = rest (tenv st) \<and> in_sync (gen_setcc b s) st'"
proof (cases "is_fast_jcc_case s b")
  case True
  define t0 where "t0 = local_temp (nb_temps s)"
  define l1 where "l1 = nb_labels s"
  define s1 where "s1 = (emit (Movi t0 0) (s\<lparr>nb_temps := nb_temps s + 1\<rparr>))\<lparr>nb_labels := nb_labels s + 1\<rparr>"
  let ?st1 = "set_val t0 0 st" and ?b = "if even b then b + 1 else b - 1"
  have run1: "code_run T m s1 = Running ?st1" using run by (simp add: s1_def tstep_run [OF sem])
  have "s_cc_op s1 = s_cc_op s" "s_cc_op_dirty s1 = s_cc_op_dirty s" by (simp_all add: s1_def)
  note same = in_sync_cong [OF this, of ?st1 st]
  have sync1: "in_sync s1 ?st1" "flags_at s1 ?st1 = flags_at s st" using same sync by (simp_all add: t0_def)
  define s2 where "s2 = gen_jcc1 ?b l1 s1"
  let ?c = "\<not> jcc_holds b (flags_at s st)"
  obtain st2 where 2: "code_run T m s2 = (if ?c then Jumping l1 st2 else Running st2)"
      "only_changes (- range local_temp) ?st1 st2" "in_sync s2 st2" "flags_at s2 st2 = flags_at s st"
    using run_jcc1 [OF sem run1 sync1(1), of ?b l1] sync1(2) unfolding jumps_def s2_def jcc_holds_inverted by auto
  let ?st3 = "if ?c then st2 else set_val t0 1 st2"
  obtain f w where 3: "code_run T m (emit (Set_label l1) (emit (Movi t0 1) s2)) = Running (lose_temps f w ?st3)"
  proof (cases ?c)
    case True
    obtain f w where "tstep T (Set_label l1) (Jumping l1 st2) = Running (lose_temps f w st2)" by (rule tstep_label [OF sem])
    then show ?thesis using that [of f w] 2(1) True by simp
  next
    case False
    obtain f w where "tstep T (Set_label l1) (Running (set_val t0 1 st2)) = Running (lose_temps f w (set_val t0 1 st2))"
      by (rule tstep_block [OF sem, of "Set_label l1" "set_val t0 1 st2"]) auto
    then show ?thesis using that [of f w] 2(1) False by (simp add: tstep_run [OF sem])
  qed
  have code: "gen_setcc b s = emit (Mov cpu_T0 t0) (emit (Set_label l1) (emit (Movi t0 1) s2))"
    using True by (simp add: gen_setcc_def tcg_temp_local_new_def gen_new_label_def Let_def s1_def s2_def t0_def l1_def emit_def)
  let ?st4 = "set_val cpu_T0 (val (lose_temps f w ?st3) t0) (lose_temps f w ?st3)"
  have "code_run T m (gen_setcc b s) = Running ?st4" using 3 by (simp add: code tstep_run [OF sem])
  moreover have "val ?st4 cpu_T0 = of_bool (jcc_holds b (flags_at s st))"
    using only_changesD [OF 2(2), of t0] by (simp add: t0_def)
  moreover have "rest (tenv ?st4) = rest (tenv st)" using 2(2) by (simp add: only_changes_def)
  moreover have "in_sync (gen_setcc b s) ?st4"
    using 2(3) in_sync_cong(1) [of "gen_setcc b s" s2 ?st4 st2] by (simp add: code t0_def)
  ultimately show ?thesis by (auto simp: flags_at_def compute_all_cc_flags)
next
  case False
  have "tests T m s (gen_setcc b s) cpu_T0 (jcc_holds b (flags_at s st)) st"
    using run_setcc_slow [OF sem run sync, of cpu_T0 "jcc_op_of b" "odd b"] False by (simp add: gen_setcc_def jcc_holds_def)
  then show ?thesis by (rule testsE) (auto simp: only_changes_def flags_at_def compute_all_cc_flags)
qed

lemma setcc_correct_witness:
  "\<exists>st'. code_run (tcg_eval flat_bus) (Running compared_state) (gen_setcc 0x7c compared_ctx) = Running st' \<and>
     val st' cpu_T0 = 1"
  using setcc_correct [OF tcg_eval_semantics compared_3_5(1,2), of "0x7c"] compared_holds
  unfolding compared_3_5(3) by auto

end
