(* ===== verification/GenOps.thy ===== *)
theory GenOps
  imports CondJumps
begin

text \<open>
  Code generation for register and memory operands, the two-operand ALU instructions, increments,
  shifts and rotates, after \<open>translate.c\<close>.  The operand sizes \<open>OT_BYTE\<close> to \<open>OT_QUAD\<close> are the type
  \<open>osize\<close>; \<open>ot_num\<close> is their number.
\<close>

section \<open>Operands\<close>

abbreviation (input) OR_TMP0 :: nat where "OR_TMP0 \<equiv> 16"
abbreviation (input) OR_TMP1 :: nat where "OR_TMP1 \<equiv> 17"

fun ot_num :: "osize \<Rightarrow> nat" where
  "ot_num SzB = 0" | "ot_num SzW = 1" | "ot_num SzL = 2" | "ot_num SzQ = 3"

definition ot_of :: "nat \<Rightarrow> osize" where
  "ot_of n = [SzB, SzW, SzL, SzQ] ! (n mod 4)"

lemma ot_of_num [simp]: "ot_of (ot_num ot) = ot"
  by (cases ot) (simp_all add: ot_of_def)

definition byte_reg_is_xH :: "nat \<Rightarrow> DisasContext \<Rightarrow> bool" where
  "byte_reg_is_xH reg s = (if reg < 4 then False else if reg \<ge> 8 \<or> x86_64_hregs s then False else True)"

definition gen_op_mov_reg_v :: "osize \<Rightarrow> nat \<Rightarrow> tcgv \<Rightarrow> gen" where
  "gen_op_mov_reg_v ot reg t0 s = (case ot of
     SzB \<Rightarrow> if \<not> byte_reg_is_xH reg s then emit (St SzB t0 (Env_regs reg) 0) s
            else emit (St SzB t0 (Env_regs (reg - 4)) 1) s
   | SzW \<Rightarrow> emit (St SzW t0 (Env_regs reg) 0) s
   | SzL \<Rightarrow> block [emit (St SzL t0 (Env_regs reg) 0), emit (Movi cpu_tmp0 0), emit (St SzL cpu_tmp0 (Env_regs reg) 4)] s
   | SzQ \<Rightarrow> emit (St SzQ t0 (Env_regs reg) 0) s)"

definition gen_op_mov_v_reg :: "osize \<Rightarrow> tcgv \<Rightarrow> nat \<Rightarrow> gen" where
  "gen_op_mov_v_reg ot t0 reg s =
    (if ot = SzB \<and> byte_reg_is_xH reg s then emit (Ld SzB False t0 (Env_regs (reg - 4)) 1) s
     else emit (Ld SzQ False t0 (Env_regs reg) 0) s)"

text \<open>A memory access takes its size and its MMU index from one number, \<open>ot + s->mem_index\<close>.\<close>

definition gen_op_ld_v :: "int \<Rightarrow> tcgv \<Rightarrow> tcgv \<Rightarrow> gen" where
  "gen_op_ld_v idx t0 a0 = emit (Qemu_ld (ot_of (nat (idx mod 4))) False t0 a0 (idx div 4 - 1))"

definition gen_op_lds_T0_A0 :: "int \<Rightarrow> gen" where
  "gen_op_lds_T0_A0 idx =
    emit (Qemu_ld (if idx mod 4 = 0 then SzB else if idx mod 4 = 1 then SzW else SzL) True cpu_T0 cpu_A0 (idx div 4 - 1))"

definition gen_op_st_v :: "int \<Rightarrow> tcgv \<Rightarrow> tcgv \<Rightarrow> gen" where
  "gen_op_st_v idx t0 a0 = emit (Qemu_st (ot_of (nat (idx mod 4))) t0 a0 (idx div 4 - 1))"

definition access_index :: "osize \<Rightarrow> DisasContext \<Rightarrow> int" where
  "access_index ot s = int (ot_num ot) + s_mem_index s"

text \<open>The operand \<open>d\<close> of an instruction: a register, or the memory at A0 (\<open>OR_TMP0\<close>).\<close>

definition load_T0 :: "osize \<Rightarrow> nat \<Rightarrow> gen" where
  "load_T0 ot d s =
    (if d \<noteq> OR_TMP0 then gen_op_mov_v_reg ot cpu_T0 d s else gen_op_ld_v (access_index ot s) cpu_T0 cpu_A0 s)"

definition store_T0 :: "osize \<Rightarrow> nat \<Rightarrow> gen" where
  "store_T0 ot d s =
    (if d \<noteq> OR_TMP0 then gen_op_mov_reg_v ot d cpu_T0 s else gen_op_st_v (access_index ot s) cpu_T0 cpu_A0 s)"

section \<open>Arithmetic and logic\<close>

datatype alu_op = OP_ADDL | OP_ORL | OP_ADCL | OP_SBBL | OP_ANDL | OP_SUBL | OP_XORL | OP_CMPL

definition gen_op_update1_cc :: gen where
  "gen_op_update1_cc = emit (Mov cpu_cc_dst cpu_T0)"

definition gen_op_update2_cc :: gen where
  "gen_op_update2_cc = block [emit (Mov cpu_cc_src cpu_T1), emit (Mov cpu_cc_dst cpu_T0)]"

definition gen_op_cmpl_T0_T1_cc :: gen where
  "gen_op_cmpl_T0_T1_cc = block [emit (Mov cpu_cc_src cpu_T1), emit (Sub cpu_cc_dst cpu_T0 cpu_T1)]"

definition gen_op_update_neg_cc :: gen where
  "gen_op_update_neg_cc = block [emit (Neg cpu_cc_src cpu_T0), emit (Mov cpu_cc_dst cpu_T0)]"

text \<open>\<open>ADC\<close> and \<open>SBB\<close> leave the operation in \<open>cpu_cc_op\<close>: four more when there was a carry.\<close>

definition gen_carry_op :: "CCOp \<Rightarrow> gen" where
  "gen_carry_op op = block [
     emit (Mov cpu_cc_src cpu_T1),
     emit (Mov cpu_cc_dst cpu_T0),
     emit (Trunc_tmp2 cpu_tmp4),
     emit (Shli_tmp2 2),
     emit (Addi_cc_op op),
     set_cc_op CC_OP_DYNAMIC]"

definition gen_op :: "alu_op \<Rightarrow> osize \<Rightarrow> nat \<Rightarrow> gen" where
  "gen_op op ot d s1 = block ([load_T0 ot d] @ (case op of
     OP_ADCL \<Rightarrow> [
       gen_compute_eflags_c cpu_tmp4 False,
       emit (Add cpu_T0 cpu_T0 cpu_T1),
       emit (Add cpu_T0 cpu_T0 cpu_tmp4),
       store_T0 ot d,
       gen_carry_op (cc_op_in G_ADD ot)]
   | OP_SBBL \<Rightarrow> [
       gen_compute_eflags_c cpu_tmp4 False,
       emit (Sub cpu_T0 cpu_T0 cpu_T1),
       emit (Sub cpu_T0 cpu_T0 cpu_tmp4),
       store_T0 ot d,
       gen_carry_op (cc_op_in G_SUB ot)]
   | OP_ADDL \<Rightarrow> [emit (Add cpu_T0 cpu_T0 cpu_T1), store_T0 ot d, gen_op_update2_cc, set_cc_op (cc_op_in G_ADD ot)]
   | OP_SUBL \<Rightarrow> [emit (Sub cpu_T0 cpu_T0 cpu_T1), store_T0 ot d, gen_op_update2_cc, set_cc_op (cc_op_in G_SUB ot)]
   | OP_ANDL \<Rightarrow> [emit (And cpu_T0 cpu_T0 cpu_T1), store_T0 ot d, gen_op_update1_cc, set_cc_op (cc_op_in G_LOGIC ot)]
   | OP_ORL \<Rightarrow> [emit (Or cpu_T0 cpu_T0 cpu_T1), store_T0 ot d, gen_op_update1_cc, set_cc_op (cc_op_in G_LOGIC ot)]
   | OP_XORL \<Rightarrow> [emit (Xor cpu_T0 cpu_T0 cpu_T1), store_T0 ot d, gen_op_update1_cc, set_cc_op (cc_op_in G_LOGIC ot)]
   | OP_CMPL \<Rightarrow> [gen_op_cmpl_T0_T1_cc, set_cc_op (cc_op_in G_SUB ot)])) s1"

definition gen_inc :: "osize \<Rightarrow> nat \<Rightarrow> int \<Rightarrow> gen" where
  "gen_inc ot d c = block [
     load_T0 ot d,
     gen_compute_eflags_c cpu_cc_src False,
     if c > 0 then block [emit (Addi cpu_T0 cpu_T0 1), set_cc_op (cc_op_in G_INC ot)]
     else block [emit (Addi cpu_T0 cpu_T0 (- 1)), set_cc_op (cc_op_in G_DEC ot)],
     store_T0 ot d,
     emit (Mov cpu_cc_dst cpu_T0)]"

section \<open>Shifts\<close>

definition count_mask :: "osize \<Rightarrow> nat" where
  "count_mask ot = (if ot = SzQ then 0x3f else 0x1f)"

definition gen_shift_rm_T1 :: "osize \<Rightarrow> nat \<Rightarrow> bool \<Rightarrow> bool \<Rightarrow> gen" where
  "gen_shift_rm_T1 ot op1 is_right is_arith s =
    (let s = block ([
       load_T0 ot op1,
       emit (Andi cpu_T1 cpu_T1 (of_nat (count_mask ot))),
       emit (Addi cpu_tmp5 cpu_T1 (- 1))] @
       (if is_right then
          if is_arith then [gen_exts ot cpu_T0, emit (Sar cpu_T3 cpu_T0 cpu_tmp5), emit (Sar cpu_T0 cpu_T0 cpu_T1)]
          else [gen_extu ot cpu_T0, emit (Shr cpu_T3 cpu_T0 cpu_tmp5), emit (Shr cpu_T0 cpu_T0 cpu_T1)]
        else [emit (Shl cpu_T3 cpu_T0 cpu_tmp5), emit (Shl cpu_T0 cpu_T0 cpu_T1)]) @
       [store_T0 ot op1, gen_update_cc_op]) s;
         (t0, s) = tcg_temp_local_new s;
         (t1, s) = tcg_temp_local_new s;
         s = emit (Mov t0 cpu_T0) s;
         s = emit (Mov t1 cpu_T3) s;
         (shift_label, s) = gen_new_label s
     in block [
       emit (Brcondi TCG_COND_EQ cpu_T1 0 shift_label),
       emit (Mov cpu_cc_src t1),
       emit (Mov cpu_cc_dst t0),
       emit (Movi_cc_op (if is_right then cc_op_in G_SAR ot else cc_op_in G_SHL ot)),
       emit (Set_label shift_label),
       set_cc_op CC_OP_DYNAMIC] s)"

definition gen_shift_rm_im :: "osize \<Rightarrow> nat \<Rightarrow> nat \<Rightarrow> bool \<Rightarrow> bool \<Rightarrow> gen" where
  "gen_shift_rm_im ot op1 op2 is_right is_arith =
    (let op2 = op2 mod (count_mask ot + 1)
     in block ([load_T0 ot op1] @
       (if op2 \<noteq> 0 then
          if is_right then
            if is_arith then [gen_exts ot cpu_T0, emit (Sari cpu_tmp4 cpu_T0 (op2 - 1)), emit (Sari cpu_T0 cpu_T0 op2)]
            else [gen_extu ot cpu_T0, emit (Shri cpu_tmp4 cpu_T0 (op2 - 1)), emit (Shri cpu_T0 cpu_T0 op2)]
          else [emit (Shli cpu_tmp4 cpu_T0 (op2 - 1)), emit (Shli cpu_T0 cpu_T0 op2)]
        else []) @
       [store_T0 ot op1] @
       (if op2 \<noteq> 0 then [
          emit (Mov cpu_cc_src cpu_tmp4),
          emit (Mov cpu_cc_dst cpu_T0),
          set_cc_op (if is_right then cc_op_in G_SAR ot else cc_op_in G_SHL ot)]
        else [])))"

section \<open>Rotates\<close>

definition tcg_gen_lshift :: "tcgv \<Rightarrow> tcgv \<Rightarrow> int \<Rightarrow> gen" where
  "tcg_gen_lshift ret arg1 arg2 =
    emit (if arg2 \<ge> 0 then Shli ret arg1 (nat arg2) else Shri ret arg1 (nat (- arg2)))"

text \<open>CF and OF after a rotate, from the rotated value \<open>t0\<close> and the operand \<open>t1\<close>.\<close>

definition gen_rot_flags :: "osize \<Rightarrow> tcgv \<Rightarrow> tcgv \<Rightarrow> bool \<Rightarrow> gen" where
  "gen_rot_flags ot t1 t0 is_right = block ([
     emit (Andi cpu_cc_src cpu_cc_src (NOT (CC_O OR CC_C))),
     emit (Xor cpu_tmp0 t1 t0),
     tcg_gen_lshift cpu_tmp0 cpu_tmp0 (11 - (int (DATA_BITS ot) - 1)),
     emit (Andi cpu_tmp0 cpu_tmp0 CC_O),
     emit (Or cpu_cc_src cpu_cc_src cpu_tmp0)] @
     (if is_right then [emit (Shri t0 t0 (DATA_BITS ot - 1))] else []) @ [
     emit (Andi t0 t0 CC_C),
     emit (Or cpu_cc_src cpu_cc_src t0)])"

definition load_v :: "osize \<Rightarrow> nat \<Rightarrow> tcgv \<Rightarrow> tcgv \<Rightarrow> gen" where
  "load_v ot op1 t0 a0 s =
    (if op1 = OR_TMP0 then gen_op_ld_v (access_index ot s) t0 a0 (emit (Mov a0 cpu_A0) s)
     else gen_op_mov_v_reg ot t0 op1 s)"

definition store_v :: "osize \<Rightarrow> nat \<Rightarrow> tcgv \<Rightarrow> tcgv \<Rightarrow> gen" where
  "store_v ot op1 t0 a0 s =
    (if op1 = OR_TMP0 then gen_op_st_v (access_index ot s) t0 a0 s else gen_op_mov_reg_v ot op1 t0 s)"

definition gen_rot_rm_T1 :: "osize \<Rightarrow> nat \<Rightarrow> bool \<Rightarrow> gen" where
  "gen_rot_rm_T1 ot op1 is_right s =
    (let (t0, s) = tcg_temp_local_new s;
         (t1, s) = tcg_temp_local_new s;
         (t2, s) = tcg_temp_local_new s;
         (a0, s) = tcg_temp_local_new s;
         s = block [load_v ot op1 t0 a0, emit (Mov t1 cpu_T1), emit (Andi t1 t1 (of_nat (count_mask ot)))] s;
         (label1, s) = gen_new_label s;
         s = block ([
           emit (Brcondi TCG_COND_EQ t1 0 label1),
           emit (if ot = SzB \<or> ot = SzW then Andi cpu_tmp0 t1 (of_nat (DATA_BITS ot - 1)) else Mov cpu_tmp0 t1),
           gen_extu ot t0,
           emit (Mov t2 t0)] @
           (if is_right then
              [emit (Shr cpu_tmp4 t0 cpu_tmp0), emit (Sub_const cpu_tmp0 (of_nat (DATA_BITS ot)) cpu_tmp0),
               emit (Shl t0 t0 cpu_tmp0)]
            else
              [emit (Shl cpu_tmp4 t0 cpu_tmp0), emit (Sub_const cpu_tmp0 (of_nat (DATA_BITS ot)) cpu_tmp0),
               emit (Shr t0 t0 cpu_tmp0)]) @ [
           emit (Or t0 t0 cpu_tmp4),
           emit (Set_label label1),
           store_v ot op1 t0 a0,
           gen_compute_eflags]) s;
         (label2, s) = gen_new_label s
     in block [
       emit (Brcondi TCG_COND_EQ t1 0 label2),
       gen_rot_flags ot t2 t0 is_right,
       emit (Set_label label2)] s)"

definition gen_rot_rm_im :: "osize \<Rightarrow> nat \<Rightarrow> nat \<Rightarrow> bool \<Rightarrow> gen" where
  "gen_rot_rm_im ot op1 op2 is_right s =
    (let (t0, s) = tcg_temp_local_new s;
         (t1, s) = tcg_temp_local_new s;
         (a0, s) = tcg_temp_local_new s;
         op2 = op2 mod (count_mask ot + 1);
         shift = op2 mod DATA_BITS ot
     in block ([load_v ot op1 t0 a0, gen_extu ot t0, emit (Mov t1 t0)] @
       (if op2 \<noteq> 0 then
          (if is_right then
             [emit (Shri cpu_tmp4 t0 shift), emit (Shli t0 t0 (DATA_BITS ot - shift))]
           else
             [emit (Shli cpu_tmp4 t0 shift), emit (Shri t0 t0 (DATA_BITS ot - shift))]) @
          [emit (Or t0 t0 cpu_tmp4)]
        else []) @
       [store_v ot op1 t0 a0] @
       (if op2 \<noteq> 0 then [
          gen_compute_eflags,
          gen_rot_flags ot t1 t0 is_right,
          emit (Discard cpu_cc_dst),
          emit (Movi_cc_op CC_OP_EFLAGS)]
        else [])) s)"

definition gen_rotc_rm_T1 :: "osize \<Rightarrow> nat \<Rightarrow> bool \<Rightarrow> gen" where
  "gen_rotc_rm_T1 ot op1 is_right = block [
     gen_compute_eflags,
     emit (Discard cpu_cc_dst),
     set_cc_op CC_OP_EFLAGS,
     load_T0 ot op1,
     emit (Call_rotc is_right ot),
     store_T0 ot op1]"

datatype shift_op = OP_ROL | OP_ROR | OP_RCL | OP_RCR | OP_SHL | OP_SHR | OP_SHL1 | OP_SAR

definition gen_shift :: "shift_op \<Rightarrow> osize \<Rightarrow> nat \<Rightarrow> nat \<Rightarrow> gen" where
  "gen_shift op ot d r s1 =
    (let s1 = (if r \<noteq> OR_TMP1 then gen_op_mov_v_reg ot cpu_T1 r s1 else s1)
     in (case op of
       OP_ROL \<Rightarrow> gen_rot_rm_T1 ot d False s1
     | OP_ROR \<Rightarrow> gen_rot_rm_T1 ot d True s1
     | OP_SHL \<Rightarrow> gen_shift_rm_T1 ot d False False s1
     | OP_SHL1 \<Rightarrow> gen_shift_rm_T1 ot d False False s1
     | OP_SHR \<Rightarrow> gen_shift_rm_T1 ot d True False s1
     | OP_SAR \<Rightarrow> gen_shift_rm_T1 ot d True True s1
     | OP_RCL \<Rightarrow> gen_rotc_rm_T1 ot d False s1
     | OP_RCR \<Rightarrow> gen_rotc_rm_T1 ot d True s1))"

definition gen_shifti :: "shift_op \<Rightarrow> osize \<Rightarrow> nat \<Rightarrow> nat \<Rightarrow> gen" where
  "gen_shifti op ot d c s1 = (case op of
     OP_ROL \<Rightarrow> gen_rot_rm_im ot d c False s1
   | OP_ROR \<Rightarrow> gen_rot_rm_im ot d c True s1
   | OP_SHL \<Rightarrow> gen_shift_rm_im ot d c False False s1
   | OP_SHL1 \<Rightarrow> gen_shift_rm_im ot d c False False s1
   | OP_SHR \<Rightarrow> gen_shift_rm_im ot d c True False s1
   | OP_SAR \<Rightarrow> gen_shift_rm_im ot d c True True s1
   | _ \<Rightarrow> gen_shift op ot d OR_TMP1 (emit (Movi cpu_T1 (of_nat c)) s1))"

end
