(* ===== verification/AluCode.thy ===== *)
theory AluCode
  imports GenOps
begin

text \<open>
  The code generated for the two-operand instructions, increments and shifts computes the
  instruction: the register gets the result at the operand size, and the flags that
  \<open>helper_cc_compute_all\<close> recomputes afterwards are the arithmetic ones.
\<close>

section \<open>Register operands\<close>

text \<open>A register operand of a given size: numbers 4 to 7 are AH to BH when no REX prefix is there.\<close>

definition high_byte :: "bool \<Rightarrow> osize \<Rightarrow> nat \<Rightarrow> bool" where
  "high_byte rex ot d \<longleftrightarrow> ot = SzB \<and> 4 \<le> d \<and> d < 8 \<and> \<not> rex"

definition read_reg :: "bool \<Rightarrow> osize \<Rightarrow> nat \<Rightarrow> (nat \<Rightarrow> u64) \<Rightarrow> u64" where
  "read_reg rex ot d rs = (if high_byte rex ot d then take_bit 8 (drop_bit 8 (rs (d - 4))) else rs d)"

definition write_reg :: "bool \<Rightarrow> osize \<Rightarrow> nat \<Rightarrow> u64 \<Rightarrow> (nat \<Rightarrow> u64) \<Rightarrow> nat \<Rightarrow> u64" where
  "write_reg rex ot d v rs = (case ot of
     SzB \<Rightarrow> if high_byte rex ot d
            then rs(d - 4 := (rs (d - 4) AND NOT 0xff00) OR push_bit 8 (take_bit 8 v))
            else rs(d := (rs d AND NOT 0xff) OR take_bit 8 v)
   | SzW \<Rightarrow> rs(d := (rs d AND NOT 0xffff) OR take_bit 16 v)
   | SzL \<Rightarrow> rs(d := take_bit 32 v)
   | SzQ \<Rightarrow> rs(d := v))"

lemma high_byte_sizes [simp]:
  "\<not> high_byte rex SzW d" "\<not> high_byte rex SzL d" "\<not> high_byte rex SzQ d"
  by (simp_all add: high_byte_def)

lemma xH_high_byte: "byte_reg_is_xH d s \<longleftrightarrow> high_byte (x86_64_hregs s) SzB d"
  by (auto simp: byte_reg_is_xH_def high_byte_def)

lemma same_ctx_operand:
  "same_ctx s s' \<Longrightarrow> same_ctx s (load_T0 ot d s')" "same_ctx s s' \<Longrightarrow> same_ctx s (store_T0 ot d s')"
  by (auto simp: load_T0_def store_T0_def gen_op_mov_v_reg_def gen_op_mov_reg_v_def gen_op_ld_v_def gen_op_st_v_def
    split: osize.split intro!: same_ctx_emit)

lemma run_load_reg:
  assumes sem: "tcg_semantics B T" and run: "code_run T m s = Running st" and d: "d < 16"
  shows "code_run T m (load_T0 ot d s) =
    Running (set_val cpu_T0 (read_reg (x86_64_hregs s) ot d (regs (tenv st))) st)"
proof (cases "high_byte (x86_64_hregs s) ot d")
  case True
  then have "ot = SzB" by (cases ot) simp_all
  then show ?thesis using True run d
    by (simp add: load_T0_def gen_op_mov_v_reg_def tstep_run [OF sem] read_reg_def xH_high_byte ext_tl_def)
next
  case False
  then have "\<not> (ot = SzB \<and> byte_reg_is_xH d s)" by (auto simp: xH_high_byte)
  then have "load_T0 ot d s = emit (Ld SzQ False cpu_T0 (Env_regs d) 0) s"
    using d unfolding load_T0_def gen_op_mov_v_reg_def by (simp only: if_False) simp
  then show ?thesis using False run by (simp add: tstep_run [OF sem] read_reg_def)
qed

lemma rest_regs_update: "rest (env\<lparr>regs := r\<rparr>) = (rest env)\<lparr>regs := r\<rparr>"
  by (simp add: rest_def)

lemma val_env_regs [simp]:
  "val (st\<lparr>tenv := (tenv st)\<lparr>regs := r\<rparr>\<rparr>) q = val st q"
  by (simp add: val_def del: cc_src_val cc_dst_val split: tcgv.split)

lemma insert_parts:
  "insert_part SzB 0 v w = (w AND NOT 0xff) OR take_bit 8 v"
  "insert_part SzB (Suc 0) v w = (w AND NOT 0xff00) OR push_bit 8 (take_bit 8 v)"
  "insert_part SzW 0 v w = (w AND NOT 0xffff) OR take_bit 16 v"
  "insert_part SzQ 0 v w = v"
  "insert_part SzL 4 0 (insert_part SzL 0 v w) = take_bit 32 v"
proof -
  show "insert_part SzB 0 v w = (w AND NOT 0xff) OR take_bit 8 v"
    "insert_part SzW 0 v w = (w AND NOT 0xffff) OR take_bit 16 v" by (simp_all add: insert_part_def)
  show "insert_part SzB (Suc 0) v w = (w AND NOT 0xff00) OR push_bit 8 (take_bit 8 v)"
    by (simp add: insert_part_def push_bit_eq_mult)
  have m: "(0xffffffff :: u64) = mask 32" "(0xffffffffffffffff :: u64) = mask 64" by (simp_all add: mask_eq_exp_minus_1)
  show "insert_part SzQ 0 v w = v"
    unfolding insert_part_def DATA_MASK.simps m by (rule bit_word_eqI) (auto simp: bit_simps)
  show "insert_part SzL 4 0 (insert_part SzL 0 v w) = take_bit 32 v"
    unfolding insert_part_def DATA_MASK.simps m by (rule bit_word_eqI) (auto simp: bit_simps)
qed

lemma run_store_reg:
  assumes sem: "tcg_semantics B T" and run: "code_run T m s = Running st" and d: "d < 16"
  obtains st' where "code_run T m (store_T0 ot d s) = Running st'"
    "\<forall>r. r \<noteq> cpu_tmp0 \<longrightarrow> val st' r = val st r" "cc_op (tenv st') = cc_op (tenv st)"
    "rest (tenv st') = (rest (tenv st))\<lparr>regs := write_reg (x86_64_hregs s) ot d (val st cpu_T0) (regs (tenv st))\<rparr>"
proof -
  let ?R = "write_reg (x86_64_hregs s) ot d (val st cpu_T0) (regs (tenv st))"
  let ?st = "st\<lparr>tenv := (tenv st)\<lparr>regs := ?R\<rparr>\<rparr>"
  let ?st' = "if ot = SzL then set_val cpu_tmp0 0 ?st else ?st"
  have swap: "(set_val cpu_tmp0 v u)\<lparr>tenv := e\<rparr> = set_val cpu_tmp0 v (u\<lparr>tenv := e\<rparr>)"
    "tenv (set_val cpu_tmp0 v u) = tenv u" for v u and e :: "'a CPUX86State_scheme" by (simp_all add: set_val_def)
  have "code_run T m (store_T0 ot d s) = Running ?st'"
    using run d
    by (cases ot) (auto simp: store_T0_def gen_op_mov_reg_v_def tstep_run [OF sem] write_reg_def xH_high_byte
      insert_parts swap)
  then show ?thesis
    by (rule that) (auto simp: rest_regs_update)
qed

section \<open>The flags of the operations\<close>

lemma cc_flags_arith:
  "cc_flags (cc_op_in G_ADD sz) b (a + b) = add_flags sz a b False"
  "cc_flags (cc_op_in G_ADC sz) b (a + b + 1) = add_flags sz a b True"
  "cc_flags (cc_op_in G_SUB sz) b (a - b) = sub_flags sz a b False"
  "cc_flags (cc_op_in G_SBB sz) b (a - b - 1) = sub_flags sz a b True"
proof -
  have comm: "add_flags sz a b c = add_flags sz b a c" for c by (simp add: add_flags_def add_ac)
  show "cc_flags (cc_op_in G_ADD sz) b (a + b) = add_flags sz a b False"
    "cc_flags (cc_op_in G_ADC sz) b (a + b + 1) = add_flags sz a b True"
    unfolding comm using compute_all_add_flags [where sz = sz and a = b and b = a]
      compute_all_adc_flags [where sz = sz and a = b and b = a]
    by (simp_all add: cc_flags_group add_ac)
  show "cc_flags (cc_op_in G_SUB sz) b (a - b) = sub_flags sz a b False"
    "cc_flags (cc_op_in G_SBB sz) b (a - b - 1) = sub_flags sz a b True"
    using compute_all_sub_flags [where sz = sz and a = a and b = b] compute_all_sbb_flags [where sz = sz and a = a and b = b]
    by (simp_all add: cc_flags_group)
qed

definition result_flags :: "bool \<Rightarrow> bool \<Rightarrow> osize \<Rightarrow> u64 \<Rightarrow> u32" where
  "result_flags c v sz r = flags_word c (even_parity r) False (uval sz r = 0) (sval sz r < 0) v"

lemma cc_flags_logic: "cc_flags (cc_op_in G_LOGIC sz) src r = result_flags False False sz r"
  by (simp add: cc_flags_group result_flags_def compute_all_logic_flags)

lemma cc_flags_inc:
  "cc_flags (cc_op_in G_INC sz) (of_bool c) (a + 1) = with_carry (add_flags sz a 1 False) c"
  "cc_flags (cc_op_in G_DEC sz) (of_bool c) (a - 1) = with_carry (sub_flags sz a 1 False) c"
  by (simp_all only: cc_flags_group Let_def cc_group.case compute_all_inc_flags compute_all_dec_flags)

text \<open>The context's operation and the one in the CPU state agree where they have to.\<close>

definition op_sync :: "DisasContext \<Rightarrow> 'm tcg_state \<Rightarrow> bool" where
  "op_sync s st \<longleftrightarrow> (if s_cc_op_dirty s then s_cc_op s \<noteq> CC_OP_DYNAMIC
     else s_cc_op s = CC_OP_DYNAMIC \<or> cc_op (tenv st) = s_cc_op s)"

lemma op_sync_cong: "same_ctx s s' \<Longrightarrow> cc_op (tenv st') = cc_op (tenv st) \<Longrightarrow> op_sync s st \<Longrightarrow> op_sync s' st'"
  by (simp add: op_sync_def same_ctxD)

lemma op_sync_keep [simp]: "op_sync (emit op s) st = op_sync s st" "op_sync s (set_val r v st) = op_sync s st"
  by (simp_all add: op_sync_def)

lemma in_sync_op: "in_sync s st \<Longrightarrow> op_sync s st"
  by (simp add: in_sync_def op_sync_def)

lemma finish_cc:
  assumes sem: "tcg_semantics B T" and run: "code_run T m s = Running st" and sync: "op_sync s st"
    and c: "keeps_carry (cc_op_in g sz) \<longrightarrow> val st cpu_cc_src \<le> 1"
  obtains st' where "code_run T m (set_cc_op (cc_op_in g sz) s) = Running st'"
    "in_sync (set_cc_op (cc_op_in g sz) s) st'" "rest (tenv st') = rest (tenv st)"
    "flags_at (set_cc_op (cc_op_in g sz) s) st' = cc_flags (cc_op_in g sz) (val st cpu_cc_src) (val st cpu_cc_dst)"
    "only_changes {cpu_cc_src} st st'"
proof -
  obtain st' where 1: "code_run T m (set_cc_op (cc_op_in g sz) s) = Running st'"
      "only_changes (unused (cc_op_in g sz)) st st'" "cc_op (tenv st') = cc_op (tenv st)"
    by (rule run_set_cc_op [OF sem run])
  have dst: "val st' cpu_cc_dst = val st cpu_cc_dst" and src: "g \<noteq> G_LOGIC \<Longrightarrow> val st' cpu_cc_src = val st cpu_cc_src"
    using only_changesD [OF 1(2)] by (auto split: if_splits)
  have "flags_at (set_cc_op (cc_op_in g sz) s) st' = cc_flags (cc_op_in g sz) (val st cpu_cc_src) (val st cpu_cc_dst)"
    using dst src by (cases "g = G_LOGIC") (simp_all add: flags_at_def true_op_def cc_flags_logic)
  moreover have "in_sync (set_cc_op (cc_op_in g sz) s) st'"
    using sync c src 1(3)
    by (cases "g = G_LOGIC") (auto simp: in_sync_def op_sync_def true_op_def set_cc_op_dirty split: if_splits)
  moreover have "only_changes {cpu_cc_src} st st'" by (rule only_changes_mono [OF 1(2)]) (auto split: if_splits)
  ultimately show ?thesis using that 1 by (simp add: only_changes_def)
qed

section \<open>Two operands\<close>

fun alu_result :: "alu_op \<Rightarrow> bool \<Rightarrow> u64 \<Rightarrow> u64 \<Rightarrow> u64" where
  "alu_result OP_ADDL c a b = a + b"
| "alu_result OP_ADCL c a b = a + b + of_bool c"
| "alu_result OP_SUBL c a b = a - b"
| "alu_result OP_SBBL c a b = a - b - of_bool c"
| "alu_result OP_CMPL c a b = a - b"
| "alu_result OP_ANDL c a b = a AND b"
| "alu_result OP_ORL c a b = a OR b"
| "alu_result OP_XORL c a b = a XOR b"

fun alu_flags :: "alu_op \<Rightarrow> bool \<Rightarrow> osize \<Rightarrow> u64 \<Rightarrow> u64 \<Rightarrow> u32" where
  "alu_flags OP_ADDL c sz a b = add_flags sz a b False"
| "alu_flags OP_ADCL c sz a b = add_flags sz a b c"
| "alu_flags OP_SUBL c sz a b = sub_flags sz a b False"
| "alu_flags OP_SBBL c sz a b = sub_flags sz a b c"
| "alu_flags OP_CMPL c sz a b = sub_flags sz a b False"
| "alu_flags op c sz a b = result_flags False False sz (alu_result op c a b)"

text \<open>What every instruction of the family establishes.\<close>

definition computes ::
  "'m tcg \<Rightarrow> 'm mode \<Rightarrow> DisasContext \<Rightarrow> (nat \<Rightarrow> u64) \<Rightarrow> u32 \<Rightarrow> 'm tcg_state \<Rightarrow> bool" where
  "computes T m s' R fl st \<longleftrightarrow> (\<exists>st'. code_run T m s' = Running st' \<and> in_sync s' st' \<and>
     rest (tenv st') = (rest (tenv st))\<lparr>regs := R\<rparr> \<and> helper_cc_compute_all (tenv st') (true_op s' st') = fl)"

lemma computesI:
  "code_run T m s' = Running st' \<Longrightarrow> in_sync s' st' \<Longrightarrow> rest (tenv st') = (rest (tenv st))\<lparr>regs := R\<rparr> \<Longrightarrow>
   flags_at s' st' = fl \<Longrightarrow> computes T m s' R fl st"
  by (auto simp: computes_def flags_at_def compute_all_cc_flags)

lemma computes_cong:
  "computes T m s' R fl st1 \<Longrightarrow> rest (tenv st1) = rest (tenv st) \<Longrightarrow> R = R' \<Longrightarrow> fl = fl' \<Longrightarrow> computes T m s' R' fl' st"
  by (simp add: computes_def)

lemma cc_op_of_carry:
  "cc_op_num (cc_op_in G_ADD sz) + 4 < length ccops" "cc_op_num (cc_op_in G_SUB sz) + 4 < length ccops"
  "cc_op_of (cc_op_num (cc_op_in G_ADD sz)) = cc_op_in G_ADD sz" "cc_op_of (4 + cc_op_num (cc_op_in G_ADD sz)) = cc_op_in G_ADC sz"
  "cc_op_of (cc_op_num (cc_op_in G_SUB sz)) = cc_op_in G_SUB sz" "cc_op_of (4 + cc_op_num (cc_op_in G_SUB sz)) = cc_op_in G_SBB sz"
  by (cases sz; simp add: cc_op_in.simps cc_op_of_def cc_op_num_def ccops_def)+

text \<open>The carry into \<open>ADC\<close> and \<open>SBB\<close> selects the operation that the flags are computed from.\<close>

lemma run_carry_op:
  assumes sem: "tcg_semantics B T" and run: "code_run T m s = Running st" and sync: "op_sync s st"
    and t: "val st cpu_tmp4 = of_bool c" and g: "(g, g') = (G_ADD, G_ADC) \<or> (g, g') = (G_SUB, G_SBB)"
  shows "\<exists>st'. code_run T m (gen_carry_op (cc_op_in g sz) s) = Running st' \<and>
    in_sync (gen_carry_op (cc_op_in g sz) s) st' \<and> rest (tenv st') = rest (tenv st) \<and>
    flags_at (gen_carry_op (cc_op_in g sz) s) st' =
      cc_flags (cc_op_in (if c then g' else g) sz) (val st cpu_T1) (val st cpu_T0)"
proof -
  let ?op = "cc_op_in (if c then g' else g) sz"
  let ?n = "4 * of_bool c + cc_op_num (cc_op_in g sz)"
  have num: "?n < length ccops" "cc_op_of ?n = ?op"
    using g cc_op_of_carry [of sz] by (cases c; auto)+
  have tmp2: "unat (push_bit 2 (ucast (of_bool c :: u64) :: u32)) = 4 * of_bool c" by (cases c) simp_all
  let ?s = "block [emit (Mov cpu_cc_src cpu_T1), emit (Mov cpu_cc_dst cpu_T0), emit (Trunc_tmp2 cpu_tmp4),
    emit (Shli_tmp2 2), emit (Addi_cc_op (cc_op_in g sz))] s"
  let ?st = "set_env_op ?op (set_tmp2 (push_bit 2 (ucast (of_bool c :: u64))) (set_tmp2 (ucast (of_bool c :: u64))
    (set_val cpu_cc_dst (val st cpu_T0) (set_val cpu_cc_src (val st cpu_T1) st))))"
  have r: "code_run T m ?s = Running ?st"
    using run t num tmp2 by (simp add: tstep_run [OF sem])
  obtain st' where 1: "code_run T m (set_cc_op CC_OP_DYNAMIC ?s) = Running st'" "only_changes (unused CC_OP_DYNAMIC) ?st st'"
      "cc_op (tenv st') = cc_op (tenv ?st)" by (rule run_set_cc_op [OF sem r])
  have code: "gen_carry_op (cc_op_in g sz) s = set_cc_op CC_OP_DYNAMIC ?s" by (simp add: gen_carry_op_def)
  have keep: "\<not> keeps_carry ?op" using g by (cases c) auto
  have dirty: "\<not> s_cc_op_dirty (set_cc_op CC_OP_DYNAMIC ?s)"
    using sync by (auto simp: set_cc_op_dirty op_sync_def split: if_splits)
  have "in_sync (set_cc_op CC_OP_DYNAMIC ?s) st'"
    using dirty 1(3) keep by (simp add: in_sync_def true_op_def)
  moreover have "flags_at (set_cc_op CC_OP_DYNAMIC ?s) st' = cc_flags ?op (val st cpu_T1) (val st cpu_T0)"
    using 1(2,3) by (simp add: flags_at_def true_op_def only_changes_def)
  moreover have "rest (tenv st') = rest (tenv st)" using 1(2) by (simp add: only_changes_def)
  ultimately show ?thesis using 1(1) unfolding code by blast
qed


text \<open>An operation on T0, a store to the register and the flags of the result.\<close>

lemma run_alu_tail:
  assumes sem: "tcg_semantics B T" and run: "code_run T m s = Running st" and sync: "op_sync s st" and d: "d < 16"
  shows "computes T m (set_cc_op (cc_op_in G_LOGIC ot) (gen_op_update1_cc (store_T0 ot d s)))
      (write_reg (x86_64_hregs s) ot d (val st cpu_T0) (regs (tenv st))) (result_flags False False ot (val st cpu_T0)) st"
    and "g = G_ADD \<or> g = G_SUB \<Longrightarrow> computes T m (set_cc_op (cc_op_in g ot) (gen_op_update2_cc (store_T0 ot d s)))
      (write_reg (x86_64_hregs s) ot d (val st cpu_T0) (regs (tenv st))) (cc_flags (cc_op_in g ot) (val st cpu_T1) (val st cpu_T0)) st"
proof -
  let ?R = "write_reg (x86_64_hregs s) ot d (val st cpu_T0) (regs (tenv st))"
  obtain st1 where 1: "code_run T m (store_T0 ot d s) = Running st1" "\<forall>r. r \<noteq> cpu_tmp0 \<longrightarrow> val st1 r = val st r"
      "cc_op (tenv st1) = cc_op (tenv st)" "rest (tenv st1) = (rest (tenv st))\<lparr>regs := ?R\<rparr>"
    by (rule run_store_reg [OF sem run d, where ot = ot])
  have sync1: "op_sync (store_T0 ot d s) st1"
    by (rule op_sync_cong [OF same_ctx_operand(2) [OF same_ctx_refl] 1(3) sync])
  let ?s2 = "gen_op_update1_cc (store_T0 ot d s)" and ?st2 = "set_val cpu_cc_dst (val st cpu_T0) st1"
  have 2: "code_run T m ?s2 = Running ?st2" "op_sync ?s2 ?st2"
    using 1 sync1 by (simp_all add: gen_op_update1_cc_def tstep_run [OF sem])
  obtain st3 where "code_run T m (set_cc_op (cc_op_in G_LOGIC ot) ?s2) = Running st3"
      "in_sync (set_cc_op (cc_op_in G_LOGIC ot) ?s2) st3" "rest (tenv st3) = rest (tenv ?st2)"
      "flags_at (set_cc_op (cc_op_in G_LOGIC ot) ?s2) st3 = cc_flags (cc_op_in G_LOGIC ot) (val ?st2 cpu_cc_src) (val ?st2 cpu_cc_dst)"
    by (rule finish_cc [OF sem 2, of G_LOGIC ot]) simp_all
  then show "computes T m (set_cc_op (cc_op_in G_LOGIC ot) ?s2) ?R (result_flags False False ot (val st cpu_T0)) st"
    using 1(4) by (intro computesI) (simp_all add: cc_flags_logic)
  assume g: "g = G_ADD \<or> g = G_SUB"
  let ?s4 = "gen_op_update2_cc (store_T0 ot d s)"
    and ?st4 = "set_val cpu_cc_dst (val st cpu_T0) (set_val cpu_cc_src (val st cpu_T1) st1)"
  have 4: "code_run T m ?s4 = Running ?st4" "op_sync ?s4 ?st4"
    using 1 sync1 by (simp_all add: gen_op_update2_cc_def tstep_run [OF sem])
  have k: "keeps_carry (cc_op_in g ot) \<longrightarrow> val ?st4 cpu_cc_src \<le> 1" using g by auto
  obtain st5 where "code_run T m (set_cc_op (cc_op_in g ot) ?s4) = Running st5"
      "in_sync (set_cc_op (cc_op_in g ot) ?s4) st5" "rest (tenv st5) = rest (tenv ?st4)"
      "flags_at (set_cc_op (cc_op_in g ot) ?s4) st5 = cc_flags (cc_op_in g ot) (val ?st4 cpu_cc_src) (val ?st4 cpu_cc_dst)"
    by (rule finish_cc [OF sem 4 k])
  then show "computes T m (set_cc_op (cc_op_in g ot) ?s4) ?R (cc_flags (cc_op_in g ot) (val st cpu_T1) (val st cpu_T0)) st"
    using 1(4) by (intro computesI) simp_all
qed

lemma run_carry_tail:
  assumes sem: "tcg_semantics B T" and run: "code_run T m s = Running st" and sync: "op_sync s st" and d: "d < 16"
    and t: "val st cpu_tmp4 = of_bool c" and g: "(g, g') = (G_ADD, G_ADC) \<or> (g, g') = (G_SUB, G_SBB)"
  shows "computes T m (gen_carry_op (cc_op_in g ot) (store_T0 ot d s))
      (write_reg (x86_64_hregs s) ot d (val st cpu_T0) (regs (tenv st)))
      (cc_flags (cc_op_in (if c then g' else g) ot) (val st cpu_T1) (val st cpu_T0)) st"
proof -
  let ?R = "write_reg (x86_64_hregs s) ot d (val st cpu_T0) (regs (tenv st))"
  obtain st1 where 1: "code_run T m (store_T0 ot d s) = Running st1" "\<forall>r. r \<noteq> cpu_tmp0 \<longrightarrow> val st1 r = val st r"
      "cc_op (tenv st1) = cc_op (tenv st)" "rest (tenv st1) = (rest (tenv st))\<lparr>regs := ?R\<rparr>"
    by (rule run_store_reg [OF sem run d, where ot = ot])
  have sync1: "op_sync (store_T0 ot d s) st1"
    by (rule op_sync_cong [OF same_ctx_operand(2) [OF same_ctx_refl] 1(3) sync])
  show ?thesis
    using run_carry_op [OF sem 1(1) sync1 _ g, of c ot] t 1(2,4)
    by (auto intro: computesI)
qed

text \<open>The carry flag in force after the operand has been loaded.\<close>

lemma run_load_carry:
  assumes sem: "tcg_semantics B T" and run: "code_run T m s = Running st" and sync: "in_sync s st" and d: "d < 16"
    and reg: "reg \<in> {cpu_tmp4, cpu_cc_src}"
  obtains st' where "code_run T m (gen_compute_eflags_c reg False (load_T0 ot d s)) = Running st'"
    "op_sync (gen_compute_eflags_c reg False (load_T0 ot d s)) st'" "rest (tenv st') = rest (tenv st)"
    "val st' cpu_T0 = read_reg (x86_64_hregs s) ot d (regs (tenv st))" "val st' cpu_T1 = val st cpu_T1"
    "val st' reg = of_bool (bit (flags_at s st) 0)" "same_ctx s (gen_compute_eflags_c reg False (load_T0 ot d s))"
proof -
  let ?st1 = "set_val cpu_T0 (read_reg (x86_64_hregs s) ot d (regs (tenv st))) st"
  let ?s2 = "gen_compute_eflags_c reg False (load_T0 ot d s)"
  have regs: "reg \<noteq> cpu_tmp0" "reg \<noteq> cpu_cc_dst" "reg \<noteq> cpu_T0" "reg \<noteq> cpu_T1" using reg by auto
  note ctx = same_ctx_operand(1) [OF same_ctx_refl, of s ot d]
  have sync1: "in_sync (load_T0 ot d s) ?st1" "flags_at (load_T0 ot d s) ?st1 = flags_at s st"
    using sync in_sync_cong [OF same_ctxD(1,2) [OF ctx], of ?st1 st] by simp_all
  note leaves = run_compute_c [OF sem run_load_reg [OF sem run d] sync1(1) regs(1,2), of False]
  obtain st' where 2: "code_run T m ?s2 = Running st'"
      "only_changes {reg, cpu_tmp0} ?st1 st'" "val st' reg = of_bool (bit (flags_at s st) 0)"
      "cc_op (tenv st') = cc_op (tenv ?st1)"
    using leaves sync1(2) by (auto elim!: leavesE)
  have "s_cc_op (load_T0 ot d s) = CC_OP_DYNAMIC \<longrightarrow> \<not> s_cc_op_dirty (load_T0 ot d s)" "s_cc_op (load_T0 ot d s) \<noteq> CC_OP_NB"
    using sync1(1) by (auto simp: in_sync_def true_op_def split: if_splits)
  then have ctx2: "same_ctx (load_T0 ot d s) ?s2" by (rule compute_c_ctx)
  have "op_sync ?s2 st'" by (rule op_sync_cong [OF ctx2 2(4) in_sync_op [OF sync1(1)]])
  moreover have "same_ctx s ?s2" using ctx ctx2 by (auto simp: same_ctx_def)
  ultimately show ?thesis using that [OF 2(1)] 2(2,3) regs(3,4) by (simp add: only_changes_def)
qed


lemma rest_keep_regs: "(rest env)\<lparr>regs := regs env\<rparr> = rest env"
  by (simp add: rest_def)

lemma regs_set_val: "regs (tenv (set_val r v st)) = regs (tenv st)"
  by (rule rest_sel) simp

text \<open>One operation on T0, then the result is stored and the flags are left to be computed.\<close>

lemma run_alu_simple:
  fixes ot :: osize
  assumes sem: "tcg_semantics B T" and run: "code_run T m s = Running st" and sync: "in_sync s st" and d: "d < 16"
  defines "st1 \<equiv> set_val cpu_T0 (read_reg (x86_64_hregs s) ot d (regs (tenv st))) st"
  assumes eff: "op_effect x st1 = Some (set_val cpu_T0 r st1)"
  shows "computes T m (set_cc_op (cc_op_in G_LOGIC ot) (gen_op_update1_cc (store_T0 ot d (emit x (load_T0 ot d s)))))
      (write_reg (x86_64_hregs s) ot d r (regs (tenv st))) (result_flags False False ot r) st"
    and "g = G_ADD \<or> g = G_SUB \<Longrightarrow>
      computes T m (set_cc_op (cc_op_in g ot) (gen_op_update2_cc (store_T0 ot d (emit x (load_T0 ot d s)))))
        (write_reg (x86_64_hregs s) ot d r (regs (tenv st))) (cc_flags (cc_op_in g ot) (val st cpu_T1) r) st"
proof -
  let ?s2 = "emit x (load_T0 ot d s)" and ?st2 = "set_val cpu_T0 r st1"
  note ctx = same_ctx_operand(1) [OF same_ctx_refl, of s ot d]
  have "op_sync (load_T0 ot d s) st1" using op_sync_cong [OF ctx _ in_sync_op [OF sync], of st] by (simp add: st1_def)
  then have y: "op_sync ?s2 ?st2" by simp
  have "code_run T m ?s2 = Running ?st2"
    using run_load_reg [OF sem run d, where ot = ot] eff by (simp add: tstep_run [OF sem] st1_def)
  note tail = run_alu_tail [OF sem this y d, where ot = ot]
  show "computes T m (set_cc_op (cc_op_in G_LOGIC ot) (gen_op_update1_cc (store_T0 ot d ?s2)))
      (write_reg (x86_64_hregs s) ot d r (regs (tenv st))) (result_flags False False ot r) st"
    by (rule computes_cong [OF tail(1)]) (simp_all add: st1_def regs_set_val same_ctxD [OF ctx])
  assume g: "g = G_ADD \<or> g = G_SUB"
  show "computes T m (set_cc_op (cc_op_in g ot) (gen_op_update2_cc (store_T0 ot d ?s2)))
      (write_reg (x86_64_hregs s) ot d r (regs (tenv st))) (cc_flags (cc_op_in g ot) (val st cpu_T1) r) st"
    by (rule computes_cong [OF tail(2) [OF g]]) (simp_all add: st1_def regs_set_val same_ctxD [OF ctx])
qed

text \<open>The carry is computed, two operations on T0 follow, and the operation depends on the carry.\<close>

lemma run_alu_carry:
  assumes sem: "tcg_semantics B T" and run: "code_run T m s = Running st" and sync: "in_sync s st" and d: "d < 16"
    and g: "(g, g') = (G_ADD, G_ADC) \<or> (g, g') = (G_SUB, G_SBB)"
    and eff: "\<And>st2 :: 'm tcg_state. val st2 cpu_T0 = read_reg (x86_64_hregs s) ot d (regs (tenv st)) \<Longrightarrow>
      val st2 cpu_T1 = val st cpu_T1 \<Longrightarrow> val st2 cpu_tmp4 = of_bool (bit (flags_at s st) 0) \<Longrightarrow>
      op_effect x1 st2 = Some (set_val cpu_T0 r1 st2) \<and>
      op_effect x2 (set_val cpu_T0 r1 st2) = Some (set_val cpu_T0 r (set_val cpu_T0 r1 st2))"
  shows "computes T m (gen_carry_op (cc_op_in g ot)
        (store_T0 ot d (emit x2 (emit x1 (gen_compute_eflags_c cpu_tmp4 False (load_T0 ot d s))))))
      (write_reg (x86_64_hregs s) ot d r (regs (tenv st)))
      (cc_flags (cc_op_in (if bit (flags_at s st) 0 then g' else g) ot) (val st cpu_T1) r) (st :: 'm tcg_state)"
proof -
  let ?s2 = "gen_compute_eflags_c cpu_tmp4 False (load_T0 ot d s)" and ?c = "bit (flags_at s st) 0"
  obtain st2 where 2: "code_run T m ?s2 = Running st2" "op_sync ?s2 st2" "rest (tenv st2) = rest (tenv st)"
      "val st2 cpu_T0 = read_reg (x86_64_hregs s) ot d (regs (tenv st))" "val st2 cpu_T1 = val st cpu_T1"
      "val st2 cpu_tmp4 = of_bool ?c" "same_ctx s ?s2"
    by (rule run_load_carry [OF sem run sync d, where reg = cpu_tmp4]) simp_all
  let ?st3 = "set_val cpu_T0 r (set_val cpu_T0 r1 st2)"
  have r: "code_run T m (emit x2 (emit x1 ?s2)) = Running ?st3"
    using 2(1) eff [OF 2(4-6)] by (simp add: tstep_run [OF sem])
  have y: "op_sync (emit x2 (emit x1 ?s2)) ?st3" "val ?st3 cpu_tmp4 = of_bool ?c" using 2(2,6) by simp_all
  show ?thesis
    by (rule computes_cong [OF run_carry_tail [OF sem r y(1) d y(2) g]])
      (use 2(3,5) rest_sel(1) [OF 2(3)] in \<open>simp_all add: regs_set_val same_ctxD [OF 2(7)]\<close>)
qed

lemma run_cmp:
  assumes sem: "tcg_semantics B T" and run: "code_run T m s = Running st" and sync: "in_sync s st" and d: "d < 16"
  shows "computes T m (set_cc_op (cc_op_in G_SUB ot) (gen_op_cmpl_T0_T1_cc (load_T0 ot d s))) (regs (tenv st))
    (sub_flags ot (read_reg (x86_64_hregs s) ot d (regs (tenv st))) (val st cpu_T1) False) st"
proof -
  let ?a = "read_reg (x86_64_hregs s) ot d (regs (tenv st))"
  let ?st1 = "set_val cpu_T0 ?a st" and ?s3 = "gen_op_cmpl_T0_T1_cc (load_T0 ot d s)"
  let ?st3 = "set_val cpu_cc_dst (?a - val st cpu_T1) (set_val cpu_cc_src (val st cpu_T1) ?st1)"
  have "op_sync (load_T0 ot d s) ?st1"
    using op_sync_cong [OF same_ctx_operand(1) [OF same_ctx_refl, of s ot d] _ in_sync_op [OF sync], of st] by simp
  then have 3: "code_run T m ?s3 = Running ?st3" "op_sync ?s3 ?st3"
    using run_load_reg [OF sem run d, where ot = ot] by (simp_all add: gen_op_cmpl_T0_T1_cc_def tstep_run [OF sem])
  obtain st4 where "code_run T m (set_cc_op (cc_op_in G_SUB ot) ?s3) = Running st4"
      "in_sync (set_cc_op (cc_op_in G_SUB ot) ?s3) st4" "rest (tenv st4) = rest (tenv ?st3)"
      "flags_at (set_cc_op (cc_op_in G_SUB ot) ?s3) st4 = cc_flags (cc_op_in G_SUB ot) (val ?st3 cpu_cc_src) (val ?st3 cpu_cc_dst)"
    by (rule finish_cc [OF sem 3, of G_SUB ot]) simp_all
  then show ?thesis by (intro computesI) (simp_all add: rest_keep_regs cc_flags_arith)
qed

text \<open>
  C35: the code of a two-operand instruction on a register computes it, whatever the operand
  size, and whatever flag operation was in force before: the register is written at its size (AH
  to BH in the second byte, the upper half cleared at 32 bits), \<open>CMP\<close> writes none, and the flags
  recomputed afterwards are the arithmetic ones, with the incoming carry for \<open>ADC\<close> and \<open>SBB\<close>.
\<close>
theorem alu_correct:
  assumes sem: "tcg_semantics B T" and run: "code_run T m s = Running st" and sync: "in_sync s st" and d: "d < 16"
  shows "let a = read_reg (x86_64_hregs s) ot d (regs (tenv st)); b = val st cpu_T1;
             c = bit (helper_cc_compute_all (tenv st) (true_op s st)) 0
         in computes T m (gen_op op ot d s)
              (if op = OP_CMPL then regs (tenv st)
               else write_reg (x86_64_hregs s) ot d (alu_result op c a b) (regs (tenv st)))
              (alu_flags op c ot a b) st"
proof -
  let ?rs = "regs (tenv st)" and ?h = "x86_64_hregs s" and ?b = "val st cpu_T1" and ?c = "bit (flags_at s st) 0"
  let ?a = "read_reg ?h ot d ?rs"
  note simple = run_alu_simple [OF sem run sync d, where ot = ot] and carry = run_alu_carry [OF sem run sync d, where ot = ot]
  have "helper_cc_compute_all (tenv st) (true_op s st) = flags_at s st"
    by (simp add: flags_at_def compute_all_cc_flags)
  moreover have "computes T m (gen_op op ot d s)
      (if op = OP_CMPL then ?rs else write_reg ?h ot d (alu_result op ?c ?a ?b) ?rs) (alu_flags op ?c ot ?a ?b) st"
  proof (cases op)
    case OP_ADDL
    then show ?thesis using simple(2) [where g = G_ADD and x = "Add cpu_T0 cpu_T0 cpu_T1" and r = "?a + ?b"]
      by (simp add: gen_op_def cc_flags_arith)
  next
    case OP_SUBL
    then show ?thesis using simple(2) [where g = G_SUB and x = "Sub cpu_T0 cpu_T0 cpu_T1" and r = "?a - ?b"]
      by (simp add: gen_op_def cc_flags_arith)
  next
    case OP_ANDL
    then show ?thesis using simple(1) [where x = "And cpu_T0 cpu_T0 cpu_T1" and r = "?a AND ?b"] by (simp add: gen_op_def)
  next
    case OP_ORL
    then show ?thesis using simple(1) [where x = "Or cpu_T0 cpu_T0 cpu_T1" and r = "?a OR ?b"] by (simp add: gen_op_def)
  next
    case OP_XORL
    then show ?thesis using simple(1) [where x = "Xor cpu_T0 cpu_T0 cpu_T1" and r = "?a XOR ?b"] by (simp add: gen_op_def)
  next
    case OP_CMPL
    then show ?thesis using run_cmp [OF sem run sync d, where ot = ot] by (simp add: gen_op_def)
  next
    case OP_ADCL
    then show ?thesis
      using carry [where g = G_ADD and g' = G_ADC and ?x1.0 = "Add cpu_T0 cpu_T0 cpu_T1" and ?r1.0 = "?a + ?b"
          and ?x2.0 = "Add cpu_T0 cpu_T0 cpu_tmp4" and r = "?a + ?b + of_bool ?c"]
      by (cases ?c) (simp_all add: gen_op_def cc_flags_arith)
  next
    case OP_SBBL
    then show ?thesis
      using carry [where g = G_SUB and g' = G_SBB and ?x1.0 = "Sub cpu_T0 cpu_T0 cpu_T1" and ?r1.0 = "?a - ?b"
          and ?x2.0 = "Sub cpu_T0 cpu_T0 cpu_tmp4" and r = "?a - ?b - of_bool ?c"]
      by (cases ?c) (simp_all add: gen_op_def cc_flags_arith)
  qed
  ultimately show ?thesis unfolding Let_def by (simp only:)
qed

text \<open>
  the code of \<open>INC\<close> and \<open>DEC\<close> on a register adds or subtracts one at the operand size and
  sets the flags of that addition or subtraction, but keeps the carry flag of before: it is
  computed, from whatever operation was in force, into \<open>cc_src\<close> ahead of the result.
\<close>
lemma inc_correct:
  assumes sem: "tcg_semantics B T" and run: "code_run T m s = Running st" and sync: "in_sync s st" and d: "d < 16"
  shows "let a = read_reg (x86_64_hregs s) ot d (regs (tenv st));
             r = (if 0 < c then a + 1 else a - 1);
             cf = bit (helper_cc_compute_all (tenv st) (true_op s st)) 0
         in computes T m (gen_inc ot d c s) (write_reg (x86_64_hregs s) ot d r (regs (tenv st)))
              (with_carry (if 0 < c then add_flags ot a 1 False else sub_flags ot a 1 False) cf) st"
proof -
  let ?rs = "regs (tenv st)" and ?h = "x86_64_hregs s"
  let ?a = "read_reg ?h ot d ?rs" and ?c = "bit (flags_at s st) 0"
  let ?r = "if 0 < c then ?a + 1 else ?a - 1" and ?g = "if 0 < c then G_INC else G_DEC"
  let ?k = "if 0 < c then 1 else - 1 :: u64"
  let ?s2 = "gen_compute_eflags_c cpu_cc_src False (load_T0 ot d s)"
  obtain st2 where 2: "code_run T m ?s2 = Running st2" "op_sync ?s2 st2" "rest (tenv st2) = rest (tenv st)"
      "val st2 cpu_T0 = ?a" "val st2 cpu_cc_src = of_bool ?c" "same_ctx s ?s2"
    by (rule run_load_carry [OF sem run sync d, where reg = cpu_cc_src]) simp_all
  let ?s3 = "emit (Addi cpu_T0 cpu_T0 ?k) ?s2" and ?st3 = "set_val cpu_T0 ?r st2"
  have run3: "code_run T m ?s3 = Running ?st3" using 2(1,4) by (simp add: tstep_run [OF sem])
  let ?s4 = "set_cc_op (cc_op_in ?g ot) ?s3"
  obtain st4 where 4: "code_run T m ?s4 = Running st4" "only_changes (unused (cc_op_in ?g ot)) ?st3 st4"
      "cc_op (tenv st4) = cc_op (tenv ?st3)" by (rule run_set_cc_op [OF sem run3])
  have vals: "val st4 cpu_T0 = ?r" "val st4 cpu_cc_src = of_bool ?c" "rest (tenv st4) = rest (tenv st)"
    using 4(2) 2(3,5) by (simp_all add: only_changes_def)
  obtain st5 where 5: "code_run T m (store_T0 ot d ?s4) = Running st5" "\<forall>r. r \<noteq> cpu_tmp0 \<longrightarrow> val st5 r = val st4 r"
      "cc_op (tenv st5) = cc_op (tenv st4)"
      "rest (tenv st5) = (rest (tenv st4))\<lparr>regs := write_reg (x86_64_hregs ?s4) ot d (val st4 cpu_T0) (regs (tenv st4))\<rparr>"
    by (rule run_store_reg [OF sem 4(1) d, where ot = ot])
  let ?s6 = "emit (Mov cpu_cc_dst cpu_T0) (store_T0 ot d ?s4)" and ?st6 = "set_val cpu_cc_dst ?r st5"
  note ctx5 = same_ctxD [OF same_ctx_operand(2) [OF same_ctx_refl, of ?s4 ot d]]
  have code: "gen_inc ot d c s = ?s6" by (simp add: gen_inc_def)
  have run6: "code_run T m ?s6 = Running ?st6" using 5(1,2) vals(1) by (simp add: tstep_run [OF sem])
  have "in_sync ?s6 ?st6"
    using 2(2) 4(3) 5(2,3) vals(2)
    by (auto simp: in_sync_def op_sync_def true_op_def ctx5 set_cc_op_dirty split: if_splits)
  moreover have "flags_at ?s6 ?st6 = cc_flags (cc_op_in ?g ot) (of_bool ?c) ?r"
    using 5(2) vals(2) by (simp add: flags_at_def true_op_def ctx5)
  moreover have "cc_flags (cc_op_in ?g ot) (of_bool ?c) ?r =
      with_carry (if 0 < c then add_flags ot ?a 1 False else sub_flags ot ?a 1 False) ?c"
    by (simp add: cc_flags_inc)
  moreover have "rest (tenv ?st6) = (rest (tenv st))\<lparr>regs := write_reg ?h ot d ?r ?rs\<rparr>"
    using 5(4) vals rest_sel(1) [OF vals(3)] same_ctxD(6) [OF 2(6)] by simp
  ultimately have "computes T m (gen_inc ot d c s) (write_reg ?h ot d ?r ?rs)
      (with_carry (if 0 < c then add_flags ot ?a 1 False else sub_flags ot ?a 1 False) ?c) st"
    unfolding code using run6 by (intro computesI) simp_all
  moreover have "helper_cc_compute_all (tenv st) (true_op s st) = flags_at s st"
    by (simp add: flags_at_def compute_all_cc_flags)
  ultimately show ?thesis unfolding Let_def by (simp only:)
qed

text \<open>\<open>SBB AH, T1\<close> at the start of a block, with the carry set: 0x12 - 0x34 - 1 in AH, and a borrow.\<close>

definition carry_state :: "(u64 \<Rightarrow> u8) tcg_state" where
  "carry_state = set_val cpu_T1 0x34 (start_state CC_OP_EFLAGS 1 0 (\<lambda>_. 0x1299))"

lemma alu_correct_witness:
  "computes (tcg_eval flat_bus) (Running carry_state) (gen_op OP_SBBL SzB 4 empty_context)
     ((\<lambda>_. 0x1299)(0 := 0xdd99)) 0x95 carry_state"
proof -
  have run: "code_run (tcg_eval flat_bus) (Running carry_state) empty_context = Running carry_state"
    by (simp add: empty_context_def code_run_def run_ops_def)
  have op: "cc_op (tenv carry_state) = CC_OP_EFLAGS" "val carry_state cpu_T1 = 0x34"
    by (simp_all add: carry_state_def start_state_def)
  have sync: "in_sync empty_context carry_state" using op by (simp add: in_sync_def true_op_def empty_context_def)
  have src: "val carry_state cpu_cc_src = 1"
    by (simp add: carry_state_def start_state_def val_def set_val_def del: cc_src_val)
  have "bit (cc_flags CC_OP_EFLAGS 1 dst) 0" for dst by (simp add: cc_flags_def compute_all_eflags_def)
  then have c: "bit (helper_cc_compute_all (tenv carry_state) (true_op empty_context carry_state)) 0"
    using op src by (simp add: true_op_def empty_context_def compute_all_cc_flags)
  have b: "regs (tenv carry_state) = (\<lambda>_. 0x1299)" "\<not> x86_64_hregs empty_context"
    by (simp_all add: carry_state_def start_state_def set_val_def empty_context_def)
  have a: "read_reg (x86_64_hregs empty_context) SzB 4 (regs (tenv carry_state)) = 0x12"
    using b by (simp add: read_reg_def high_byte_def)
  have v: "((0x1299 :: u64) AND NOT 0xff00) OR push_bit 8 (take_bit 8 (0x12 - 0x34 - 1)) = 0xdd99" by code_simp
  have w: "write_reg (x86_64_hregs empty_context) SzB 4 (alu_result OP_SBBL True 0x12 0x34) (\<lambda>_. 0x1299) =
      (\<lambda>_. 0x1299)(0 := 0xdd99)" using b v by (simp add: write_reg_def high_byte_def)
  have f: "alu_flags OP_SBBL True SzB 0x12 0x34 = 0x95" by code_simp
  show ?thesis
    using alu_correct [OF tcg_eval_semantics run sync, of 4 SzB OP_SBBL] c
    by (simp only: Let_def op a [unfolded b(1)] b(1) c w f alu_op.distinct if_False simp_thms)
qed

end
