(* ===== verification/BootPaging.thy ===== *)
theory BootPaging
  imports MmuWalk
begin

text \<open>
  The boot code of the virtual machine, after \<open>Boot/main.cpp\<close> with the memory layout of
  \<open>GuestOS/os.h\<close> and the macros of \<open>GuestOS/paging.h\<close>: it marks the frames of the kernel as
  used, builds the page tables and turns paging on.  The theorem runs the processor's own
  translation (\<open>Mmu\<close>) on these tables.

  The boot code is 32-bit code without paging: a pointer is a physical address.
\<close>

section \<open>Layout\<close>

type_synonym memory = "u64 \<Rightarrow> u8"

abbreviation (input) PAGE_SIZE :: u32 where "PAGE_SIZE \<equiv> 0x1000"

abbreviation (input) PT_PRESENT :: u32 where "PT_PRESENT \<equiv> 1"
abbreviation (input) PT_WRITABLE :: u32 where "PT_WRITABLE \<equiv> 2"
abbreviation (input) PT_USER :: u32 where "PT_USER \<equiv> 4"

abbreviation (input) PAGE_FREE :: u8 where "PAGE_FREE \<equiv> 0"
abbreviation (input) PAGE_USED :: u8 where "PAGE_USED \<equiv> 1"

definition SIZE_TO_PAGES :: "u32 \<Rightarrow> u32" where
  "SIZE_TO_PAGES sz = drop_bit 12 (sz + PAGE_SIZE - 1)"

definition PDE_INDEX :: "u32 \<Rightarrow> u32" where
  "PDE_INDEX virtual_addr = drop_bit 22 virtual_addr"

definition PTE_INDEX :: "u32 \<Rightarrow> u32" where
  "PTE_INDEX virtual_addr = drop_bit 12 virtual_addr AND 0x3ff"

abbreviation (input) BOOT_CODE_SIZE :: u32 where "BOOT_CODE_SIZE \<equiv> 0x100000"
abbreviation (input) FRAME_DB_PHYSICAL_ADDR :: u32 where "FRAME_DB_PHYSICAL_ADDR \<equiv> 0x100000"
abbreviation (input) FRAME_DB_VIRTUAL_ADDR :: u32 where "FRAME_DB_VIRTUAL_ADDR \<equiv> 0xC0400000"
abbreviation (input) FRAME_DB_SIZE :: u32 where "FRAME_DB_SIZE \<equiv> 0x100000"
abbreviation (input) VIDEO_BUF_PHYSICAL_ADDR :: u32 where "VIDEO_BUF_PHYSICAL_ADDR \<equiv> 0x200000"
abbreviation (input) VIDEO_BUF_VIRTUAL_ADDR :: u32 where "VIDEO_BUF_VIRTUAL_ADDR \<equiv> 0xC0500000"
abbreviation (input) VIDEO_BUF_SIZE :: u32 where "VIDEO_BUF_SIZE \<equiv> 0x200000"
abbreviation (input) PAGE_TABLE_PHYSICAL_ADDR :: u32 where "PAGE_TABLE_PHYSICAL_ADDR \<equiv> 0x400000"
abbreviation (input) PAGE_TABLE_VIRTUAL_ADDR :: u32 where "PAGE_TABLE_VIRTUAL_ADDR \<equiv> 0xC0000000"
abbreviation (input) PAGE_TABLE_SIZE :: u32 where "PAGE_TABLE_SIZE \<equiv> 0x400000"
abbreviation (input) PAGE_DIR_PHYSICAL_ADDR :: u32 where "PAGE_DIR_PHYSICAL_ADDR \<equiv> 0x700000"
abbreviation (input) OS_CODE_PHYSICAL_ADDR :: u32 where "OS_CODE_PHYSICAL_ADDR \<equiv> 0x800000"
abbreviation (input) OS_CODE_VIRTUAL_ADDR :: u32 where "OS_CODE_VIRTUAL_ADDR \<equiv> 0x80000000"
abbreviation (input) OS_CODE_SIZE :: u32 where "OS_CODE_SIZE \<equiv> 0x800000"
abbreviation (input) KERNEL_MEM_SIZE :: u32 where "KERNEL_MEM_SIZE \<equiv> 0x1000000"
abbreviation (input) KERNEL_STACK_BOTTOM_PHYSICAL_ADDR :: u32 where "KERNEL_STACK_BOTTOM_PHYSICAL_ADDR \<equiv> 0x1000"
abbreviation (input) KERNEL_STACK_BOTTOM_VIRTUAL_ADDR :: u32 where "KERNEL_STACK_BOTTOM_VIRTUAL_ADDR \<equiv> 0xC0701000"
abbreviation (input) KERNEL_STACK_SIZE :: u32 where "KERNEL_STACK_SIZE \<equiv> 0xFE000"

section \<open>The boot code\<close>

text \<open>A store through a pointer to \<open>uint32_t\<close>.\<close>

definition store32 :: "u32 \<Rightarrow> u32 \<Rightarrow> memory \<Rightarrow> memory" where
  "store32 p v M = store_bytes M (ucast p) 4 v"

definition memset :: "u32 \<Rightarrow> u8 \<Rightarrow> u32 \<Rightarrow> memory \<Rightarrow> memory" where
  "memset mem val sz M = fold (\<lambda>i M. M(ucast (mem + of_nat i) := val)) [0..<unat sz] M"

definition init_frame_database :: "memory \<Rightarrow> memory" where
  "init_frame_database M =
    memset FRAME_DB_PHYSICAL_ADDR PAGE_USED (SIZE_TO_PAGES KERNEL_MEM_SIZE)
      (memset FRAME_DB_PHYSICAL_ADDR PAGE_FREE FRAME_DB_SIZE M)"

fun map_pages_loop :: "nat \<Rightarrow> u32 \<Rightarrow> u32 \<Rightarrow> u32 \<Rightarrow> memory \<Rightarrow> memory" where
  "map_pages_loop 0 physical_address virtual_address protect M = M"
| "map_pages_loop (Suc n) physical_address virtual_address protect M =
    (let pde_index = PDE_INDEX virtual_address;
         pte_index = PTE_INDEX virtual_address;
         page_table = PAGE_TABLE_PHYSICAL_ADDR + pde_index * PAGE_SIZE
     in map_pages_loop n (physical_address + PAGE_SIZE) (virtual_address + PAGE_SIZE) protect
          (store32 (page_table + 4 * pte_index) (physical_address OR protect) M))"

definition boot_map_pages :: "u32 \<Rightarrow> u32 \<Rightarrow> u32 \<Rightarrow> memory \<Rightarrow> memory" where
  "boot_map_pages physical_address virtual_address sz M =
    map_pages_loop (unat (SIZE_TO_PAGES sz)) physical_address virtual_address
      (PT_PRESENT OR PT_WRITABLE OR PT_USER) M"

definition init_page_table :: "memory \<Rightarrow> memory" where
  "init_page_table = block [
     memset PAGE_TABLE_PHYSICAL_ADDR 0 PAGE_TABLE_SIZE,
     fold (\<lambda>i. store32 (PAGE_DIR_PHYSICAL_ADDR + 4 * of_nat i)
                 ((PAGE_TABLE_PHYSICAL_ADDR + of_nat i * PAGE_SIZE) OR PT_PRESENT OR PT_WRITABLE)) [0..<1024],
     boot_map_pages 0 0 BOOT_CODE_SIZE,
     boot_map_pages KERNEL_STACK_BOTTOM_PHYSICAL_ADDR KERNEL_STACK_BOTTOM_VIRTUAL_ADDR KERNEL_STACK_SIZE,
     boot_map_pages FRAME_DB_PHYSICAL_ADDR FRAME_DB_VIRTUAL_ADDR FRAME_DB_SIZE,
     boot_map_pages VIDEO_BUF_PHYSICAL_ADDR VIDEO_BUF_VIRTUAL_ADDR VIDEO_BUF_SIZE,
     boot_map_pages PAGE_TABLE_PHYSICAL_ADDR PAGE_TABLE_VIRTUAL_ADDR PAGE_TABLE_SIZE,
     boot_map_pages OS_CODE_PHYSICAL_ADDR OS_CODE_VIRTUAL_ADDR OS_CODE_SIZE]"

definition startup_paging_mode :: "'m CPUX86State_scheme \<Rightarrow> 'm CPUX86State_scheme" where
  "startup_paging_mode env =
    (let env = cpu_x86_update_cr3 env (ucast PAGE_DIR_PHYSICAL_ADDR)
     in cpu_x86_update_cr0 env (ucast (cr env 0) OR 0x80000000))"

text \<open>\<open>main\<close>, up to the jump to the entry point of the guest operating system.\<close>

definition boot_main :: "cpu_ram \<Rightarrow> cpu_ram" where
  "boot_main env = startup_paging_mode (set_ram (init_page_table (init_frame_database (ram env))) env)"

section \<open>The page tables as an array\<close>

text \<open>The 1024 tables lie side by side: entry \<open>k\<close> belongs to page \<open>k\<close> of the address space.\<close>

definition pte :: "memory \<Rightarrow> nat \<Rightarrow> u32" where
  "pte M k = load32 M (0x400000 + 4 * of_nat k)"

lemma unat_ucast_up: "unat (ucast (w :: u32) :: u64) = unat w"
proof -
  have "unat w < 2 ^ 64" by (rule less_trans [OF unsigned_less]) simp
  then show ?thesis by (simp add: unsigned_ucast_eq take_bit_nat_eq_self_iff)
qed

lemma unat_page: "unat (drop_bit 12 (w :: 'a::len word)) = unat w div 4096"
  by (simp only: unat_drop_bit_eq) (simp add: drop_bit_eq_div)

lemma unat_page_less: "unat (drop_bit 12 (va :: u32)) < 2 ^ 20"
proof -
  have "unat va < 2 ^ LENGTH(32)" by (rule unsigned_less)
  then show ?thesis by (simp add: unat_page)
qed

lemma pte_address:
  "ucast (PAGE_TABLE_PHYSICAL_ADDR + PDE_INDEX va * PAGE_SIZE + 4 * PTE_INDEX va) =
    (0x400000 + 4 * of_nat (unat (drop_bit 12 va)) :: u64)"
proof -
  have m: "(x :: u32) AND 0x3ff = take_bit 10 x" for x by (simp add: take_bit_eq_mask mask_eq_exp_minus_1)
  have "PDE_INDEX va * PAGE_SIZE + 4 * PTE_INDEX va = push_bit 12 (drop_bit 22 va) + push_bit 2 (take_bit 10 (drop_bit 12 va))"
    by (simp add: PDE_INDEX_def PTE_INDEX_def m push_bit_eq_mult mult.commute)
  also have "\<dots> = push_bit 12 (drop_bit 22 va) OR push_bit 2 (take_bit 10 (drop_bit 12 va))"
    by (rule disjunctive_add) (auto simp: bit_simps)
  also have "\<dots> = push_bit 2 (drop_bit 12 va)"
  proof (rule bit_word_eqI)
    fix n :: nat
    have "22 + (n - 12) = 10 + n" if "\<not> n < 12" using that by simp
    then show "bit (push_bit 12 (drop_bit 22 va) OR push_bit 2 (take_bit 10 (drop_bit 12 va))) n =
        bit (push_bit 2 (drop_bit 12 va)) n"
      by (cases "n < 12") (auto simp: bit_simps)
  qed
  finally have *: "PAGE_TABLE_PHYSICAL_ADDR + PDE_INDEX va * PAGE_SIZE + 4 * PTE_INDEX va =
      0x400000 + push_bit 2 (drop_bit 12 va)" by (simp only: add.assoc)
  note small = unat_page_less [of va]
  show ?thesis
    unfolding * push_bit_eq_mult
    by (rule word_unat_eq_iff [THEN iffD2])
      (use small in \<open>simp add: unat_ucast_up unat_word_ariths\<close>)
qed

lemma pte_store:
  assumes "k < 2 ^ 20" "k' < 2 ^ 20"
  shows "pte (store_bytes M (0x400000 + 4 * of_nat k') 4 (v :: u32)) k = (if k = k' then v else pte M k)"
proof (cases "k = k'")
  case False
  have al: "aligned 2 (0x400000 + 4 * of_nat j :: u64)" for j
  proof -
    have "0x400000 + 4 * of_nat j = (push_bit 2 (0x100000 + of_nat j) :: u64)" by (simp add: push_bit_eq_mult algebra_simps)
    then show ?thesis unfolding aligned_iff ..
  qed
  have "unat (0x400000 + 4 * of_nat j :: u64) = 0x400000 + 4 * j" if "j < 2 ^ 20" for j
    using that by (simp add: unat_word_ariths unat_of_nat)
  with False assms have "(0x400000 + 4 * of_nat k' :: u64) \<noteq> 0x400000 + 4 * of_nat k" by (metis add_left_cancel mult_left_cancel zero_neq_numeral)
  from aligned_apart [OF al al this] have "apart (0x400000 + 4 * of_nat k) 4 (0x400000 + 4 * of_nat k') 4" by simp
  with False show ?thesis by (simp add: pte_def)
qed (simp add: pte_def)

lemma next_page:
  assumes "unat (drop_bit 12 va) + 1 < 2 ^ 20"
  shows "unat (drop_bit 12 (va + PAGE_SIZE)) = unat (drop_bit 12 va) + 1"
proof -
  have "unat (va + PAGE_SIZE) = unat va + 4096"
    using assms unfolding unat_page by (simp add: unat_word_ariths)
  then show ?thesis unfolding unat_page by simp
qed

lemma page_run_step:
  "(if j + 1 \<le> k \<and> k < j + 1 + n then (pa + PAGE_SIZE + of_nat (k - (j + 1)) * PAGE_SIZE) OR pr
    else if k = j then pa OR pr else x) =
   (if j \<le> k \<and> k < j + Suc n then (pa + of_nat (k - j) * PAGE_SIZE) OR pr else x)"
proof (cases "j + 1 \<le> k")
  case True
  then have "k - j = Suc (k - (j + 1))" by simp
  then have "(of_nat (k - j) :: u32) = 1 + of_nat (k - (j + 1))" by (simp only: of_nat_Suc)
  then have "pa + PAGE_SIZE + of_nat (k - (j + 1)) * PAGE_SIZE = pa + of_nat (k - j) * PAGE_SIZE"
    by (simp add: algebra_simps)
  with True show ?thesis by simp
qed auto

lemma pte_map_loop:
  assumes "unat (drop_bit 12 va) + n \<le> 2 ^ 20" "k < 2 ^ 20"
  shows "pte (map_pages_loop n pa va pr M) k =
    (if unat (drop_bit 12 va) \<le> k \<and> k < unat (drop_bit 12 va) + n
     then (pa + of_nat (k - unat (drop_bit 12 va)) * PAGE_SIZE) OR pr else pte M k)"
  using assms(1)
proof (induction n arbitrary: pa va M)
  case (Suc n)
  let ?j = "unat (drop_bit 12 va)"
  have j: "?j < 2 ^ 20" using Suc.prems by simp
  have first: "pte (store32 (PAGE_TABLE_PHYSICAL_ADDR + PDE_INDEX va * PAGE_SIZE + 4 * PTE_INDEX va) v M) k =
      (if k = ?j then v else pte M k)" for v
    unfolding store32_def pte_address by (rule pte_store [OF assms(2) j])
  show ?case
  proof (cases n)
    case 0
    with first show ?thesis by auto
  next
    case (Suc m)
    then have next_j: "unat (drop_bit 12 (va + PAGE_SIZE)) = ?j + 1"
      using Suc.prems by (intro next_page) simp
    let ?M = "store32 (PAGE_TABLE_PHYSICAL_ADDR + PDE_INDEX va * PAGE_SIZE + 4 * PTE_INDEX va) (pa OR pr) M"
    have "pte (map_pages_loop (Suc n) pa va pr M) k =
        (if ?j + 1 \<le> k \<and> k < ?j + 1 + n then (pa + PAGE_SIZE + of_nat (k - (?j + 1)) * PAGE_SIZE) OR pr
         else pte ?M k)"
      unfolding map_pages_loop.simps Let_def next_j [symmetric]
      by (rule Suc.IH) (use Suc.prems next_j in simp)
    also have "\<dots> = (if ?j + 1 \<le> k \<and> k < ?j + 1 + n then (pa + PAGE_SIZE + of_nat (k - (?j + 1)) * PAGE_SIZE) OR pr
         else if k = ?j then pa OR pr else pte M k)"
      unfolding first ..
    also have "\<dots> = (if ?j \<le> k \<and> k < ?j + Suc n then (pa + of_nat (k - ?j) * PAGE_SIZE) OR pr else pte M k)"
      by (rule page_run_step)
    finally show ?thesis .
  qed
qed auto

lemma memset_byte:
  assumes "unat mem + unat sz \<le> 2 ^ 32"
  shows "memset mem val sz M x = (if unat (x - ucast mem) < unat sz then val else M x)"
proof -
  have "fold (\<lambda>i M. M(ucast (mem + of_nat i) := val)) [0..<n] M x =
      (if unat (x - ucast mem) < n then val else M x)" if "unat mem + n \<le> 2 ^ 32" for n
    using that
  proof (induction n)
    case (Suc n)
    have "ucast (mem + of_nat n) = (ucast mem + of_nat n :: u64)"
      using Suc.prems by (simp add: word_unat_eq_iff unat_ucast_up unat_word_ariths unat_of_nat)
    moreover have "x = ucast mem + of_nat n \<longleftrightarrow> x - ucast mem = of_nat n" by (simp add: diff_eq_eq add.commute)
    moreover have "x - ucast mem = of_nat n \<longleftrightarrow> unat (x - ucast mem) = n"
      using Suc.prems by (simp add: word_unat_eq_iff unat_of_nat take_bit_nat_eq_self_iff)
    ultimately show ?case using Suc by auto
  qed simp
  with assms show ?thesis by (simp add: memset_def)
qed

lemma pte_memset:
  assumes "k < 2 ^ 20"
  shows "pte (memset PAGE_TABLE_PHYSICAL_ADDR 0 PAGE_TABLE_SIZE M) k = 0"
proof -
  have "memset PAGE_TABLE_PHYSICAL_ADDR 0 PAGE_TABLE_SIZE M (0x400000 + 4 * of_nat k + of_nat i) = 0" if "i < 4" for i
  proof -
    have "unat (4 * of_nat k + of_nat i :: u64) = 4 * k + i"
      using assms that by (simp add: unat_word_ariths unat_of_nat)
    moreover have "(0x400000 + 4 * of_nat k + of_nat i) - 0x400000 = (4 * of_nat k + of_nat i :: u64)" by simp
    ultimately have "unat ((0x400000 + 4 * of_nat k + of_nat i) - 0x400000 :: u64) < 0x400000"
      using assms that by simp
    then show ?thesis by (subst memset_byte) simp_all
  qed
  from this [of 0] this [of 1] this [of 2] this [of 3] show ?thesis
    by (simp add: pte_def load32_def load16_def add.assoc)
qed

lemma pte_directory:
  assumes "k < 2 ^ 20" "n \<le> 1024"
  shows "pte (fold (\<lambda>i. store32 (PAGE_DIR_PHYSICAL_ADDR + 4 * of_nat i) (v i)) [0..<n] M) k =
    (if 0xC0000 \<le> k \<and> k < 0xC0000 + n then v (k - 0xC0000) else pte M k)"
  using assms(2)
proof (induction n)
  case (Suc n)
  have "unat (PAGE_DIR_PHYSICAL_ADDR + 4 * of_nat n) = 0x700000 + 4 * n"
    using Suc.prems by (simp add: unat_word_ariths unat_of_nat)
  then have at: "ucast (PAGE_DIR_PHYSICAL_ADDR + 4 * of_nat n) = (0x400000 + 4 * of_nat (0xC0000 + n) :: u64)"
    using Suc.prems by (simp add: word_unat_eq_iff unat_ucast_up unat_word_ariths unat_of_nat)
  have "pte (store32 (PAGE_DIR_PHYSICAL_ADDR + 4 * of_nat n) w M') k = (if k = 0xC0000 + n then w else pte M' k)" for w M'
    unfolding store32_def at by (rule pte_store) (use assms(1) Suc.prems in simp_all)
  with Suc show ?case by auto
qed auto

lemma pte_boot_map:
  assumes "k < 2 ^ 20" "unat (drop_bit 12 va) + unat (SIZE_TO_PAGES sz) \<le> 2 ^ 20"
  shows "pte (boot_map_pages pa va sz M) k =
    (if unat (drop_bit 12 va) \<le> k \<and> k < unat (drop_bit 12 va) + unat (SIZE_TO_PAGES sz)
     then (pa + of_nat (k - unat (drop_bit 12 va)) * PAGE_SIZE) OR 7 else pte M k)"
  unfolding boot_map_pages_def pte_map_loop [OF assms(2,1)] by simp

text \<open>
  What the boot code promises.  The rows are the layout table at the head of \<open>os.h\<close> (physical
  address, virtual address, size up to the next row), with the kernel stack of the end of
  \<open>os.h\<close>.  The table has a last row, the shellcode at 0x88000000, that no call of the boot code
  maps (\<open>shellcode_not_mapped\<close>): the kernel later maps the shellcode elsewhere
  (\<open>Shellcode.h\<close>), so the row is out of date.
\<close>

definition os_layout :: "(u32 \<times> u32 \<times> u32) list" where
  "os_layout =
    [(0x00000000, 0x00000000, 0x100000),   \<comment> \<open>boot stack and boot code\<close>
     (0x00100000, 0xC0400000, 0x100000),   \<comment> \<open>frame database\<close>
     (0x00200000, 0xC0500000, 0x200000),   \<comment> \<open>video buffer\<close>
     (0x00400000, 0xC0000000, 0x400000),   \<comment> \<open>page tables\<close>
     (0x00800000, 0x80000000, 0x800000)]   \<comment> \<open>the kernel\<close>"

definition boot_regions :: "(u32 \<times> u32 \<times> u32) list" where
  "boot_regions = os_layout @
    [(KERNEL_STACK_BOTTOM_PHYSICAL_ADDR, KERNEL_STACK_BOTTOM_VIRTUAL_ADDR, KERNEL_STACK_SIZE)]"

definition boot_translate :: "u32 \<Rightarrow> u32 option" where
  "boot_translate a =
    map_option (\<lambda>(pa, va, sz). pa + (a - va)) (find (\<lambda>(pa, va, sz). va \<le> a \<and> a - va < sz) boot_regions)"

lemma boot_pte:
  assumes "k < 2 ^ 20"
  shows "pte (init_page_table M) k =
    (if 0x80000 \<le> k \<and> k < 0x80800 then (0x800000 + of_nat (k - 0x80000) * PAGE_SIZE) OR 7
     else if 0xC0000 \<le> k \<and> k < 0xC0400 then (0x400000 + of_nat (k - 0xC0000) * PAGE_SIZE) OR 7
     else if 0xC0500 \<le> k \<and> k < 0xC0700 then (0x200000 + of_nat (k - 0xC0500) * PAGE_SIZE) OR 7
     else if 0xC0400 \<le> k \<and> k < 0xC0500 then (0x100000 + of_nat (k - 0xC0400) * PAGE_SIZE) OR 7
     else if 0xC0701 \<le> k \<and> k < 0xC07FF then (0x1000 + of_nat (k - 0xC0701) * PAGE_SIZE) OR 7
     else if k < 0x100 then of_nat k * PAGE_SIZE OR 7
     else 0)"
proof -
  have "\<not> (0xC0000 \<le> k \<and> k < 0xC0000 + 1024) \<Longrightarrow>
      pte (fold (\<lambda>i. store32 (PAGE_DIR_PHYSICAL_ADDR + 4 * of_nat i) (v i)) [0..<1024]
        (memset PAGE_TABLE_PHYSICAL_ADDR 0 PAGE_TABLE_SIZE M)) k = 0" for v
    by (subst pte_directory [OF assms]) (auto simp: pte_memset [OF assms, simplified])
  then show ?thesis
    unfolding init_page_table_def block.simps
    by (simp add: pte_boot_map [OF assms] SIZE_TO_PAGES_def del: upt_rec_numeral)
qed

section \<open>Translation through two-level tables\<close>

text \<open>
  The walk of the fault handler in terms of the two entries as they are before it: setting the
  accessed bit of the directory entry changes neither, though tables may contain themselves.
\<close>

lemma dirty_after_mark:
  assumes "phys_ram B mem" "aligned 2 a" "aligned 2 b" "e = ucast (ldl_phys B a s)"
  shows "bit (ldl_phys B b (snd (mark_accessed B a e s))) 6 = bit (ldl_phys B b s) 6"
proof (cases "b = a")
  case True
  have "ucast e = ldl_phys B a s" using assms(4) by (simp add: ucast_down_up)
  then show ?thesis using True arg_cong [OF assms(4), of "\<lambda>x. bit x 6"]
    by (auto simp: mark_accessed_def Let_def phys_ramD [OF assms(1)] bit_simps)
next
  case False
  then have "apart b (2 ^ 2) a (2 ^ 2)" by (intro aligned_apart assms(2,3)) simp_all
  then have "apart b 4 a 4" by simp
  then show ?thesis by (simp add: mark_accessed_def Let_def phys_ramD [OF assms(1)])
qed

lemma walk_legacy_entries:
  fixes B :: "'m cpu_bus" and env :: "'m CPUX86State_scheme" and addr :: u64
  assumes "phys_ram B mem"
  defines "e \<equiv> ucast (ldl_phys B ((cr env 3 AND NOT 0xfff) + (drop_bit 20 addr AND 0xffc) AND a20_mask env) env) :: u64"
  defines "f \<equiv> ucast (ldl_phys B ((e AND NOT 0xfff) + (drop_bit 10 addr AND 0xffc) AND a20_mask env) env) :: u64"
  assumes "e AND PG_PRESENT_MASK \<noteq> 0" "e AND PG_PSE_MASK = 0"
  obtains b m f' s where "same_entry e m" "same_entry f f'" "bit f' 6 = bit f 6" "CPUX86State.truncate s = CPUX86State.truncate env"
    "fst (walk_legacy B addr w1 user env) =
       (if f AND PG_PRESENT_MASK = 0 then PageFault 0
        else fst (walk_leaf B b f' (f' AND m) w1 user (NOT 0) (addr AND NOT 0xfff) 4096 s))"
proof -
  define a where "a = (cr env 3 AND NOT 0xfff) + (drop_bit 20 addr AND 0xffc) AND a20_mask env"
  have al: "aligned 2 a" unfolding a_def by (rule aligned_entry32)
  have e: "e = ucast (ldl_phys B a env)" unfolding e_def a_def ..
  define m s where "m = fst (mark_accessed B a e env)" and "s = snd (mark_accessed B a e env)"
  have em: "same_entry e m" unfolding m_def by (rule same_entry_marked)
  have s: "CPUX86State.truncate s = CPUX86State.truncate env"
    unfolding s_def by (rule mark_frame [OF phys_ramD(1) [OF assms(1)]])
  have a20: "a20_mask s = a20_mask env" by (rule same_regs [OF s])
  have tab: "m AND NOT 0xfff = e AND NOT 0xfff" using page_of_entry [OF em, of "- 1"] by simp
  define b where "b = (e AND NOT 0xfff) + (drop_bit 10 addr AND 0xffc) AND a20_mask env"
  have bl: "aligned 2 b" unfolding b_def by (rule aligned_entry32)
  have f: "f = ucast (ldl_phys B b env)" unfolding f_def b_def ..
  define f' where "f' = (ucast (ldl_phys B b s) :: u64)"
  have ff: "same_entry f f'"
    unfolding f f'_def s_def by (rule same_entry_ucast [OF load32_after_mark [OF assms(1) al bl e]])
  have fd: "bit f' 6 = bit f 6"
    unfolding f f'_def s_def using dirty_after_mark [OF assms(1) al bl e] by (simp add: bit_simps)
  have "(f' AND PG_PRESENT_MASK = 0) = (f AND PG_PRESENT_MASK = 0)"
    by (rule same_entry_tests(1) [OF ff])
  then have "fst (walk_legacy B addr w1 user env) =
       (if f AND PG_PRESENT_MASK = 0 then PageFault 0
        else fst (walk_leaf B b f' (f' AND m) w1 user (NOT 0) (addr AND NOT 0xfff) 4096 s))"
    unfolding walk_legacy_def Let_def a_def [symmetric] e [symmetric]
      case_prod_unfold m_def [symmetric] s_def [symmetric] tab a20 b_def [symmetric] f'_def [symmetric]
    using assms(4,5) by simp
  from that [OF em ff fd s this] show thesis .
qed

text \<open>
  A page that both levels open to user writes is mapped for every access (\<open>open_rights\<close>: to be
  written only once it is dirty), a page without an entry faults as not present.
\<close>

definition open_rights :: "bool \<Rightarrow> page_prot set" where
  "open_rights dirty = {PAGE_READ, PAGE_EXEC} \<union> (if dirty then {PAGE_WRITE} else {})"

lemma two_level_translation:
  fixes B :: "'m cpu_bus" and env :: "'m CPUX86State_scheme" and addr :: u64
  assumes "phys_ram B mem" "cr env 0 AND CR0_PG_MASK \<noteq> 0" "cr env 4 AND CR4_PAE_MASK = 0" "a20_mask env = - 1"
  defines "e \<equiv> ucast (ldl_phys B ((cr env 3 AND NOT 0xfff) + (drop_bit 20 addr AND 0xffc)) env) :: u64"
  defines "f \<equiv> ucast (ldl_phys B ((e AND NOT 0xfff) + (drop_bit 10 addr AND 0xffc)) env) :: u64"
  assumes "bit e 0" "bit e 1" "bit e 2" "\<not> bit e 7"
  shows "\<not> bit f 0 \<Longrightarrow> page_faults B addr w1 idx env 0"
    and "bit f 0 \<Longrightarrow> bit f 1 \<Longrightarrow> bit f 2 \<Longrightarrow> \<exists>t. cpu_x86_handle_mmu_fault B addr w1 idx env = (0, t) \<and>
      ext_calls t = ext_calls env @ [TlbSetPage (addr AND TARGET_PAGE_MASK) (f AND TARGET_PAGE_MASK)
        (open_rights (bit f 6 \<or> w1 AND 1 \<noteq> 0)) idx 4096]"
proof -
  let ?user = "idx = MMU_USER_IDX"
  note frame = phys_ramD(1) [OF assms(1)]
  have one: "x AND PG_PRESENT_MASK = 0 \<longleftrightarrow> \<not> bit x 0" for x :: u64 using and_mask_bit [of x 0] by auto
  have ones: "x AND a20_mask env = x" for x using assms(4) by simp
  have present: "e AND PG_PRESENT_MASK \<noteq> 0" "e AND PG_PSE_MASK = 0"
    using assms(7,10) by (simp_all add: one pg_bits)
  obtain b m f' s where em: "same_entry e m" and ff: "same_entry f f'" and fd: "bit f' 6 = bit f 6"
    and s: "CPUX86State.truncate s = CPUX86State.truncate env"
    and walk: "fst (walk_for B addr w1 ?user env) =
       (if f AND PG_PRESENT_MASK = 0 then PageFault 0
        else fst (walk_leaf B b f' (f' AND m) w1 ?user (NOT 0) (addr AND NOT 0xfff) 4096 s))"
  proof -
    have "walk_for B addr w1 ?user env = walk_legacy B addr w1 ?user env"
      using assms(3) by (simp add: walk_for_def)
    then show thesis
      using walk_legacy_entries [OF assms(1), of env addr w1 ?user, unfolded ones, folded e_def, folded f_def, OF present] that
      by metis
  qed
  show "page_faults B addr w1 idx env 0" if "\<not> bit f 0"
  proof -
    have "fst (walk_for B addr w1 ?user env) = PageFault 0" using walk that one by simp
    then show ?thesis by (rule fault_of_walk [OF frame assms(2)])
  qed
  show "\<exists>t. cpu_x86_handle_mmu_fault B addr w1 idx env = (0, t) \<and>
      ext_calls t = ext_calls env @ [TlbSetPage (addr AND TARGET_PAGE_MASK) (f AND TARGET_PAGE_MASK)
        (open_rights (bit f 6 \<or> w1 AND 1 \<noteq> 0)) idx 4096]"
    if rights: "bit f 0" "bit f 1" "bit f 2"
  proof -
    have "bit (f' AND m) 1" "bit (f' AND m) 2"
      using em ff rights assms(8,9) by (simp_all add: same_entry_bit bit_simps)
    then have "\<not> protection_fault (cr s 0) (f' AND m) (w1 AND 1 \<noteq> 0) ?user"
      by (simp add: protection_fault_def pg_bits)
    define pte where "pte = fst (mark_used B b f' (w1 AND 1 \<noteq> 0) s)"
    have pte: "same_entry f pte"
      unfolding pte_def by (rule same_entry_trans [OF ff same_entry_marked(2)])
    obtain s' where w: "walk_for B addr w1 ?user env = (Mapped pte (f' AND m) (addr AND NOT 0xfff) 4096, s')"
      using walk rights(1) \<open>\<not> protection_fault _ _ _ _\<close>
      by (cases "walk_for B addr w1 ?user env") (auto simp: one walk_leaf_def pte_def Let_def case_prod_unfold)
    have s': "CPUX86State.truncate s' = CPUX86State.truncate env"
      using walk_for_ok(2) [OF frame, of addr w1 ?user env] w by simp
    have env: "a20_mask s' = - 1" "ext_calls s' = ext_calls env"
      using same_regs [OF s'] assms(4) by simp_all
    have "(addr AND NOT 0xfff, 4096) \<in> {(addr AND NOT 0xfff, 4096), (addr AND NOT 0x1fffff, 0x200000),
      (addr AND NOT 0x3fffff, 0x400000 :: u32)}" by simp
    note page = page_sum [OF this]
    have off: "(addr AND TARGET_PAGE_MASK) AND ucast (4096 - 1 :: u32) = 0" by (simp add: and.assoc)
    have "do_mapping addr idx pte (addr AND NOT 0xfff) 4096 prot s' =
        ext_call (TlbSetPage (addr AND TARGET_PAGE_MASK) (f AND TARGET_PAGE_MASK) prot idx 4096) s'" for prot
      unfolding do_mapping_def Let_def page env(1) page_of_entry [OF pte] off by simp
    moreover have "cpu_x86_handle_mmu_fault B addr w1 idx env =
        (0, do_mapping addr idx pte (addr AND NOT 0xfff) 4096 (mapping_prot s' pte (f' AND m) ?user) s')"
      unfolding handle_mmu_fault_eq Let_def w using assms(2) by simp
    moreover have "mapping_prot s' pte (f' AND m) ?user = open_rights (bit f 6 \<or> w1 AND 1 \<noteq> 0)"
    proof -
      have "\<not> bit f 63" unfolding f_def by (auto simp: bit_simps dest: bit_imp_le_length)
      then have "\<not> bit (f' AND m) 63" using ff by (simp add: same_entry_bit bit_simps)
      moreover have "bit pte 6 \<longleftrightarrow> bit f 6 \<or> w1 AND 1 \<noteq> 0" unfolding pte_def mark_used_dirty fd ..
      ultimately show ?thesis using \<open>bit (f' AND m) 1\<close>
        unfolding mapping_prot_def open_rights_def pg_bits Let_def
        by (cases "bit pte 6") (simp_all del: bit_and_iff add: insert_commute)
    qed
    ultimately show ?thesis by (auto simp: ext_call_def env(2))
  qed
qed

text \<open>Tables that lie side by side: directory entry \<open>i\<close> refers to table \<open>i\<close> and allows all accesses.\<close>

definition tables_linear :: "memory \<Rightarrow> bool" where
  "tables_linear M \<longleftrightarrow>
    (\<forall>i<1024. pte M (0xC0000 + i) AND NOT AD_MASK = (0x400000 + of_nat i * PAGE_SIZE) OR 7)"

lemma table_entry: "(0x400000 + x * PAGE_SIZE) OR 7 = push_bit 12 (0x400 + x) OR mask 3"
  by (simp add: push_bit_eq_mult mask_eq_exp_minus_1 algebra_simps)

lemma boot_tables_linear: "tables_linear (init_page_table M)"
proof -
  have "(push_bit 12 x OR mask 3) AND NOT AD_MASK = push_bit 12 x OR mask 3" for x :: u32
    by (rule bit_word_eqI) (auto simp: bit_simps)
  then show ?thesis unfolding tables_linear_def by (simp add: boot_pte table_entry)
qed

lemma directory_entry:
  fixes p :: u32
  assumes "p AND NOT AD_MASK = (0x400000 + of_nat i * PAGE_SIZE) OR 7" "i < 1024"
  shows "bit p 0" "bit p 1" "bit p 2" "\<not> bit p 7"
    "ucast p AND NOT 0xfff = (0x400000 + of_nat i * 0x1000 :: u64)"
proof -
  have p: "bit p n = (12 \<le> n \<and> n < 32 \<and> bit (0x400 + of_nat i :: u32) (n - 12) \<or> n < 3)" if "n \<noteq> 5" "n \<noteq> 6" for n
  proof (cases "n < 32")
    case True
    have "bit (p AND NOT AD_MASK) n = bit (push_bit 12 (0x400 + of_nat i) OR mask 3 :: u32) n"
      using assms(1) by (simp only: table_entry)
    then show ?thesis using that True by (auto simp: bit_simps)
  qed (auto dest: bit_imp_le_length)
  show "bit p 0" "bit p 1" "bit p 2" "\<not> bit p 7" by (simp_all add: p)
  have "unat (push_bit 12 (0x400 + of_nat i) :: u32) = 0x400000 + i * 0x1000"
    using assms(2) by (simp add: push_bit_eq_mult unat_word_ariths unat_of_nat)
  then have "ucast (push_bit 12 (0x400 + of_nat i) :: u32) = (0x400000 + of_nat i * 0x1000 :: u64)"
    using assms(2) by (simp add: word_unat_eq_iff unat_ucast_up unat_word_ariths unat_of_nat)
  moreover have "ucast p AND NOT (mask 12) = (ucast (push_bit 12 (0x400 + of_nat i) :: u32) :: u64)"
  proof (rule bit_word_eqI)
    fix n assume "n < LENGTH(64)"
    then show "bit (ucast p AND NOT (mask 12) :: u64) n = bit (ucast (push_bit 12 (0x400 + of_nat i) :: u32) :: u64) n"
      using p [of n] by (cases "n < 12") (auto simp: bit_simps)
  qed
  ultimately show "ucast p AND NOT 0xfff = (0x400000 + of_nat i * 0x1000 :: u64)"
    by (simp add: mask_eq_exp_minus_1)
qed

lemma directory_index: "drop_bit 20 (ucast (a :: u32)) AND 0xffc = (4 * of_nat (unat (drop_bit 22 a)) :: u64)"
proof -
  have "drop_bit 20 (ucast a) AND push_bit 2 (mask 10) = (push_bit 2 (ucast (drop_bit 22 a)) :: u64)"
    by (rule bit_word_eqI) (auto simp: bit_simps dest: bit_imp_le_length)
  then show ?thesis by (simp add: push_bit_eq_mult mask_eq_exp_minus_1 mult.commute)
qed

lemma table_index: "drop_bit 10 (ucast (a :: u32)) AND 0xffc = (4 * of_nat (unat (drop_bit 12 a) mod 1024) :: u64)"
proof -
  have "drop_bit 10 (ucast a) AND push_bit 2 (mask 10) = (push_bit 2 (ucast (take_bit 10 (drop_bit 12 a))) :: u64)"
    by (rule bit_word_eqI) (auto simp: bit_simps)
  moreover have "unat (take_bit 10 (drop_bit 12 a)) = unat (drop_bit 12 a) mod 1024"
    by (simp only: unsigned_take_bit_eq) (simp add: take_bit_eq_mod)
  then have "of_nat (unat (drop_bit 12 a) mod 1024) = (ucast (take_bit 10 (drop_bit 12 a)) :: u64)"
    by (metis of_nat_unat)
  moreover have "push_bit 2 (mask 10) = (0xffc :: u64)" "push_bit 2 x = 4 * x" for x :: u64
    by (simp_all add: push_bit_eq_mult mask_eq_exp_minus_1)
  ultimately show ?thesis by simp
qed

lemma unat_directory: "unat (drop_bit 22 (a :: u32)) = unat (drop_bit 12 a) div 1024"
  by (simp only: unat_drop_bit_eq) (simp add: drop_bit_eq_div flip: div_mult2_eq)

text \<open>Through such tables the page of an address is looked up as entry \<open>a >> 12\<close> of the array.\<close>

lemma linear_translation:
  fixes B :: "'m cpu_bus" and env :: "'m CPUX86State_scheme" and a :: u32
  assumes "phys_ram B mem" "cr env 0 AND CR0_PG_MASK \<noteq> 0" "cr env 4 AND CR4_PAE_MASK = 0" "a20_mask env = - 1"
    and "cr env 3 = 0x700000" "tables_linear (mem (CPUX86State.more env))"
  defines "p \<equiv> pte (mem (CPUX86State.more env)) (unat (drop_bit 12 a))"
  shows "\<not> bit p 0 \<Longrightarrow> page_faults B (ucast a) w1 idx env 0"
    and "bit p 0 \<Longrightarrow> bit p 1 \<Longrightarrow> bit p 2 \<Longrightarrow> \<exists>t. cpu_x86_handle_mmu_fault B (ucast a) w1 idx env = (0, t) \<and>
      ext_calls t = ext_calls env @ [TlbSetPage (ucast a AND TARGET_PAGE_MASK) (ucast p AND TARGET_PAGE_MASK)
        (open_rights (bit p 6 \<or> w1 AND 1 \<noteq> 0)) idx 4096]"
proof -
  let ?M = "mem (CPUX86State.more env)"
  define i j where "i = unat (drop_bit 22 a)" and "j = unat (drop_bit 12 a) mod 1024"
  have i: "i < 1024" using unat_page_less [of a] unfolding i_def unat_directory by simp
  have k: "unat (drop_bit 12 a) = i * 1024 + j" unfolding i_def j_def unat_directory by simp
  define d where "d = pte ?M (0xC0000 + i)"
  have d: "d AND NOT AD_MASK = (0x400000 + of_nat i * PAGE_SIZE) OR 7"
    using assms(6) i unfolding tables_linear_def d_def by blast
  have e: "ucast (ldl_phys B ((cr env 3 AND NOT 0xfff) + (drop_bit 20 (ucast a) AND 0xffc)) env) = (ucast d :: u64)"
    unfolding phys_ramD [OF assms(1)] directory_index assms(5) d_def pte_def i_def by (simp add: algebra_simps)
  have f: "ucast (ldl_phys B ((ucast d AND NOT 0xfff) + (drop_bit 10 (ucast a) AND 0xffc)) env) = (ucast p :: u64)"
    unfolding phys_ramD [OF assms(1)] table_index directory_entry(5) [OF d i] j_def [symmetric]
    unfolding p_def pte_def k by (simp add: algebra_simps)
  have bits: "bit (ucast x :: u64) n = bit x n" if "n < 8" for x :: u32 and n
    using that by (auto simp: bit_simps)
  have dbits: "bit (ucast d :: u64) 0" "bit (ucast d :: u64) 1" "bit (ucast d :: u64) 2" "\<not> bit (ucast d :: u64) 7"
    using directory_entry(1-4) [OF d i] by (simp_all add: bits)
  note two = two_level_translation [OF assms(1-4), of "ucast a" w1 idx, unfolded e f, OF dbits]
  show "\<not> bit p 0 \<Longrightarrow> page_faults B (ucast a) w1 idx env 0"
    using two(1) by (simp add: bits)
  show "bit p 0 \<Longrightarrow> bit p 1 \<Longrightarrow> bit p 2 \<Longrightarrow> \<exists>t. cpu_x86_handle_mmu_fault B (ucast a) w1 idx env = (0, t) \<and>
      ext_calls t = ext_calls env @ [TlbSetPage (ucast a AND TARGET_PAGE_MASK) (ucast p AND TARGET_PAGE_MASK)
        (open_rights (bit p 6 \<or> w1 AND 1 \<noteq> 0)) idx 4096]"
    using two(2) by (simp add: bits)
qed

lemma boot_main_sel:
  assumes "efer s AND MSR_EFER_LME = 0"
  shows "CPUX86State.more (boot_main s) = init_page_table (init_frame_database (ram s))"
    "cr (boot_main s) 3 = 0x700000" "cr (boot_main s) 0 AND CR0_PG_MASK \<noteq> 0"
    "cr (boot_main s) 4 = cr s 4" "a20_mask (boot_main s) = a20_mask s"
proof -
  note defs = boot_main_def startup_paging_mode_def Let_def cr_update_cr0 cr0_refused_def assms
  show "CPUX86State.more (boot_main s) = init_page_table (init_frame_database (ram s))"
    "cr (boot_main s) 3 = 0x700000" "cr (boot_main s) 4 = cr s 4"
    by (simp_all add: defs)
  show "a20_mask (boot_main s) = a20_mask s"
    by (simp add: boot_main_def startup_paging_mode_def cpu_x86_update_cr0_def cpu_x86_update_cr3_def ext_call_def Let_def)
  have "cr (boot_main s) 0 = ucast ((ucast (cr s 0) OR 2 ^ 31) OR 0x10 :: u32)"
    by (simp add: defs)
  then have "bit (cr (boot_main s) 0 AND NOT (mask 31)) 31"
    unfolding bit_and_iff bit_not_iff bit_mask_iff by (simp only: bit_unsigned_iff bit_or_iff bit_exp_iff) simp
  moreover have "NOT (mask 31) = (CR0_PG_MASK :: u64)" by (simp add: mask_eq_exp_minus_1)
  ultimately show "cr (boot_main s) 0 AND CR0_PG_MASK \<noteq> 0" by (intro notI) simp
qed

text \<open>A region in pages.\<close>

lemma region_pages:
  fixes a va sz :: u32
  assumes "take_bit 12 va = 0" "take_bit 12 sz = 0"
  shows "va \<le> a \<and> a - va < sz \<longleftrightarrow>
    unat (drop_bit 12 va) \<le> unat (drop_bit 12 a) \<and>
    unat (drop_bit 12 a) < unat (drop_bit 12 va) + unat (drop_bit 12 sz)"
proof -
  have aligned: "unat x = unat x div 4096 * 4096" if "take_bit 12 x = 0" for x :: u32
  proof -
    have "unat (take_bit 12 x) = unat x mod 4096" by (simp only: unsigned_take_bit_eq) (simp add: take_bit_eq_mod)
    then show ?thesis using that div_mult_mod_eq [of "unat x" 4096] by simp
  qed
  show ?thesis
  proof (cases "va \<le> a")
    case True
    then have "unat (a - va) = unat a - unat va" by (rule unat_sub)
    with True show ?thesis
      using aligned [OF assms(1)] aligned [OF assms(2)] unfolding unat_page word_le_nat_alt word_less_nat_alt by linarith
  next
    case False
    then show ?thesis
      using aligned [OF assms(1)] unfolding unat_page word_le_nat_alt word_less_nat_alt by linarith
  qed
qed

lemma region_page:
  fixes a va pa :: u32
  assumes "take_bit 12 va = 0" "take_bit 12 pa = 0" "unat (drop_bit 12 va) \<le> unat (drop_bit 12 a)"
  shows "(pa + (a - va)) AND NOT 0xfff = pa + of_nat (unat (drop_bit 12 a) - unat (drop_bit 12 va)) * PAGE_SIZE"
proof -
  have split: "x = 4096 * drop_bit 12 x + take_bit 12 x" for x :: u32
    using bits_ident [of 12 x] by (simp add: push_bit_eq_mult mult.commute)
  have pa: "pa = 4096 * drop_bit 12 pa" and va: "va = 4096 * drop_bit 12 va"
    using split [of pa] split [of va] assms(1,2) by simp_all
  define q where "q = drop_bit 12 pa + (drop_bit 12 a - drop_bit 12 va)"
  have "pa + (a - va) = 4096 * drop_bit 12 pa + (4096 * drop_bit 12 a + take_bit 12 a - 4096 * drop_bit 12 va)"
    using pa va split [of a] by simp
  also have "\<dots> = push_bit 12 q + take_bit 12 a"
    unfolding q_def push_bit_eq_mult by (simp add: algebra_simps)
  also have "\<dots> = push_bit 12 q OR take_bit 12 a"
    by (rule disjunctive_add) (auto simp: bit_simps)
  finally have "(pa + (a - va)) AND NOT (mask 12) = push_bit 12 q"
    by (simp only:) (rule bit_word_eqI, auto simp: bit_simps)
  moreover have "push_bit 12 q = pa + of_nat (unat (drop_bit 12 a) - unat (drop_bit 12 va)) * PAGE_SIZE"
    using pa assms(3) unfolding q_def push_bit_eq_mult by (simp add: of_nat_diff algebra_simps)
  ultimately show ?thesis by (simp add: mask_eq_exp_minus_1)
qed

lemma boot_translate_pte:
  "pte (init_page_table M) (unat (drop_bit 12 a)) =
    (case boot_translate a of None \<Rightarrow> 0 | Some p \<Rightarrow> (p AND NOT 0xfff) OR 7)"
proof -
  define k where "k = unat (drop_bit 12 a)"
  have k: "k < 2 ^ 20" unfolding k_def by (rule unat_page_less)
  have inside: "(va \<le> a \<and> a - va < sz) = (unat (drop_bit 12 va) \<le> k \<and> k < unat (drop_bit 12 va) + unat (drop_bit 12 sz))"
    if "va AND 0xfff = 0" "sz AND 0xfff = 0" for va sz
    unfolding k_def by (rule region_pages) (use that in \<open>simp_all add: take_bit_eq_mask mask_eq_exp_minus_1\<close>)
  have page: "(pa + (a - va)) AND NOT 0xfff = pa + of_nat (k - unat (drop_bit 12 va)) * PAGE_SIZE"
    if "va AND 0xfff = 0" "pa AND 0xfff = 0" "unat (drop_bit 12 va) \<le> k" for va pa
    unfolding k_def
    by (rule region_page) (use that k_def in \<open>simp_all add: take_bit_eq_mask mask_eq_exp_minus_1\<close>)
  have "boot_translate a =
     (if k < 0x100 then Some (0 + (a - 0))
      else if 0xC0701 \<le> k \<and> k < 0xC07FF then Some (0x1000 + (a - 0xC0701000))
      else if 0xC0400 \<le> k \<and> k < 0xC0500 then Some (0x100000 + (a - 0xC0400000))
      else if 0xC0500 \<le> k \<and> k < 0xC0700 then Some (0x200000 + (a - 0xC0500000))
      else if 0xC0000 \<le> k \<and> k < 0xC0400 then Some (0x400000 + (a - 0xC0000000))
      else if 0x80000 \<le> k \<and> k < 0x80800 then Some (0x800000 + (a - 0x80000000)) else None)"
    unfolding boot_translate_def boot_regions_def os_layout_def append.simps find.simps split
    using inside [of 0 "0x100000"] inside [of "0xC0701000" "0xFE000"] inside [of "0xC0400000" "0x100000"]
      inside [of "0xC0500000" "0x200000"] inside [of "0xC0000000" "0x400000"] inside [of "0x80000000" "0x800000"]
    by (simp del: word_zero_le)
  then show ?thesis
    using page [of 0 0] page [of "0xC0701000" "0x1000"] page [of "0xC0400000" "0x100000"]
      page [of "0xC0500000" "0x200000"] page [of "0xC0000000" "0x400000"] page [of "0x80000000" "0x800000"]
    unfolding k_def [symmetric] boot_pte [OF k] by simp
qed

text \<open>The last row of the layout table: nothing is mapped at the virtual address of the shellcode.\<close>

lemma shellcode_not_mapped: "boot_translate 0x88000000 = None"
  by (simp add: boot_translate_def boot_regions_def os_layout_def)


end
