(* ===== verification/GuestPaging.thy ===== *)
theory GuestPaging
  imports BootPaging
begin

text \<open>
  The pager of the guest operating system, after \<open>GuestOS/paging.cpp\<close>: \<open>PAGER::map_pages\<close> and
  \<open>PAGER::unmap_pages\<close>, which change the page tables through the window that the boot code
  (\<open>BootPaging\<close>) maps them at.  The page tables decide every translation here: the translation
  cache of the processor is not modelled, only the flushes that are asked for are recorded
  (\<open>ext_calls\<close>).  INVLPG names the page of the local variable and not of the address in it
  (\<open>paging.cpp\<close>, lines 104 and 119), so the properties hold for addresses that are not cached.
\<close>

section \<open>The pager\<close>

text \<open>
  A store of the guest through a pointer: the processor translates the address (by the walk
  without side effects of \<open>Mmu\<close>) and stores to physical memory; \<open>None\<close> is a page fault.
\<close>

definition guest_store32 :: "u32 \<Rightarrow> u32 \<Rightarrow> cpu_ram \<Rightarrow> cpu_ram option" where
  "guest_store32 p v s =
    (let page = cpu_get_phys_page_debug flat_bus (ucast p) s
     in if page = - 1 then None else Some (stl_phys flat_bus (page + (ucast p AND 0xfff)) v s))"

definition page_entry_pointer :: "u32 \<Rightarrow> u32" where
  "page_entry_pointer virtual_addr =
    (let pde_index = PDE_INDEX virtual_addr;
         pte_index = PTE_INDEX virtual_addr;
         page_table = PAGE_TABLE_VIRTUAL_ADDR + pde_index * PAGE_SIZE
     in page_table + 4 * pte_index)"

text \<open>
  The instruction \<open>invlpg virtual_addr\<close> of the source names the parameter, a variable on the stack: it
  invalidates the page that holds the parameter, not the page whose number the parameter holds. The
  address of the parameter is the argument \<open>slot\<close> below.
\<close>

fun guest_map_loop :: "nat \<Rightarrow> u32 \<Rightarrow> u32 \<Rightarrow> u32 \<Rightarrow> u32 \<Rightarrow> cpu_ram \<Rightarrow> cpu_ram option" where
  "guest_map_loop 0 slot physical_addr virtual_addr protect s = Some s"
| "guest_map_loop (Suc n) slot physical_addr virtual_addr protect s =
    (case guest_store32 (page_entry_pointer virtual_addr) (physical_addr OR protect) s of
       None \<Rightarrow> None
     | Some s \<Rightarrow> guest_map_loop n slot (physical_addr + PAGE_SIZE) (virtual_addr + PAGE_SIZE) protect
                  (ext_call (TlbFlushPage (ucast slot)) s))"

definition guest_map_pages :: "u32 \<Rightarrow> u32 \<Rightarrow> u32 \<Rightarrow> u32 \<Rightarrow> u32 \<Rightarrow> cpu_ram \<Rightarrow> cpu_ram option" where
  "guest_map_pages slot physical_addr virtual_addr sz protect s =
    guest_map_loop (unat (SIZE_TO_PAGES sz)) slot physical_addr virtual_addr (protect OR PT_USER) s"

fun guest_unmap_loop :: "nat \<Rightarrow> u32 \<Rightarrow> u32 \<Rightarrow> cpu_ram \<Rightarrow> cpu_ram option" where
  "guest_unmap_loop 0 slot virtual_addr s = Some s"
| "guest_unmap_loop (Suc n) slot virtual_addr s =
    (case guest_store32 (page_entry_pointer virtual_addr) 0 s of
       None \<Rightarrow> None
     | Some s \<Rightarrow> guest_unmap_loop n slot (virtual_addr + PAGE_SIZE) (ext_call (TlbFlushPage (ucast slot)) s))"

definition guest_unmap_pages :: "u32 \<Rightarrow> u32 \<Rightarrow> u32 \<Rightarrow> cpu_ram \<Rightarrow> cpu_ram option" where
  "guest_unmap_pages slot virtual_addr sz s = guest_unmap_loop (unat (SIZE_TO_PAGES sz)) slot virtual_addr s"

text \<open>Both loops write a list of entries.\<close>

fun write_entries :: "u32 \<Rightarrow> u32 \<Rightarrow> u32 list \<Rightarrow> cpu_ram \<Rightarrow> cpu_ram option" where
  "write_entries slot virtual_addr [] s = Some s"
| "write_entries slot virtual_addr (v # vs) s =
    (case guest_store32 (page_entry_pointer virtual_addr) v s of
       None \<Rightarrow> None
     | Some s \<Rightarrow> write_entries slot (virtual_addr + PAGE_SIZE) vs (ext_call (TlbFlushPage (ucast slot)) s))"

lemma guest_map_loop_entries:
  "guest_map_loop n slot pa va pr s = write_entries slot va (map (\<lambda>i. (pa + of_nat i * PAGE_SIZE) OR pr) [0..<n]) s"
  by (induction n arbitrary: pa va s)
    (auto simp: map_upt_Suc algebra_simps simp del: upt_Suc split: option.splits intro!: option.case_cong)

lemma guest_unmap_loop_entries:
  "guest_unmap_loop n slot va s = write_entries slot va (replicate n 0) s"
  by (induction n arbitrary: va s) (auto split: option.splits)

section \<open>The window\<close>

text \<open>A processor that runs on linear tables, as the boot code leaves it.\<close>

definition guest_paging :: "cpu_ram \<Rightarrow> bool" where
  "guest_paging s \<longleftrightarrow> cr s 0 AND CR0_PG_MASK \<noteq> 0 \<and> cr s 4 AND CR4_PAE_MASK = 0 \<and> a20_mask s = - 1 \<and>
    cr s 3 = 0x700000 \<and> tables_linear (ram s)"

lemma window_page:
  fixes a :: u32
  assumes "guest_paging s"
  shows "cpu_get_phys_page_debug flat_bus (ucast a) s =
    (if bit (pte (ram s) (unat (drop_bit 12 a))) 0
     then ucast (pte (ram s) (unat (drop_bit 12 a))) AND NOT 0xfff else - 1)"
proof -
  define i j where "i = unat (drop_bit 22 a)" and "j = unat (drop_bit 12 a) mod 1024"
  have i: "i < 1024" using unat_page_less [of a] unfolding i_def unat_directory by simp
  have k: "unat (drop_bit 12 a) = i * 1024 + j" unfolding i_def j_def unat_directory by simp
  define d where "d = pte (ram s) (0xC0000 + i)"
  define p where "p = pte (ram s) (unat (drop_bit 12 a))"
  have d: "d AND NOT AD_MASK = (0x400000 + of_nat i * PAGE_SIZE) OR 7"
    using assms i unfolding guest_paging_def tables_linear_def d_def by blast
  have e: "ldl_phys flat_bus ((cr s 3 AND NOT 0xfff) + (drop_bit 20 (ucast a) AND 0xffc)) s = d"
    using assms unfolding phys_ramD [OF flat_phys_ram] directory_index d_def pte_def i_def guest_paging_def
    by (simp add: algebra_simps)
  have f: "ldl_phys flat_bus ((ucast d AND NOT 0xfff) + (drop_bit 10 (ucast a) AND 0xffc)) s = p"
    unfolding phys_ramD [OF flat_phys_ram] table_index directory_entry(5) [OF d i] j_def [symmetric]
    unfolding p_def pte_def k by (simp add: algebra_simps)
  have one: "x AND PG_PRESENT_MASK = 0 \<longleftrightarrow> \<not> bit x 0" for x :: u64 using and_mask_bit [of x 0] by auto
  have bits: "bit (ucast x :: u64) n = bit x n" if "n < 8" for x :: u32 and n
    using that by (auto simp: bit_simps)
  have walk: "debug_walk_legacy flat_bus (ucast a) s = (if bit p 0 then Some (ucast p, 4096) else None)"
    using assms directory_entry(1,4) [OF d i] e f
    by (simp add: guest_paging_def debug_walk_legacy_def Let_def one pg_bits bits)
  have off: "(ucast a AND TARGET_PAGE_MASK) AND ucast (4096 - 1 :: u32) = (0 :: u64)" by (simp add: and.assoc)
  have "(cr s 4 AND CR4_PAE_MASK \<noteq> 0) = False" "a20_mask s = - 1"
    using assms by (simp_all add: guest_paging_def)
  then show ?thesis
    unfolding cpu_get_phys_page_debug_def Let_def p_def [symmetric]
    by (cases "bit p 0") (simp_all only: walk if_True if_False option.map option.case prod.case off, simp_all)
qed

lemma page_entry_pointer:
  fixes va :: u32
  defines "k \<equiv> unat (drop_bit 12 va)"
  shows "unat (page_entry_pointer va) = 0xC0000000 + 4 * k"
proof -
  have k: "k < 2 ^ 20" unfolding k_def by (rule unat_page_less)
  have "ucast (PAGE_TABLE_PHYSICAL_ADDR + PDE_INDEX va * PAGE_SIZE + 4 * PTE_INDEX va) = (0x400000 + 4 * of_nat k :: u64)"
    unfolding k_def by (rule pte_address)
  then have "unat (ucast (PAGE_TABLE_PHYSICAL_ADDR + PDE_INDEX va * PAGE_SIZE + 4 * PTE_INDEX va) :: u64) = 0x400000 + 4 * k"
    using k by (simp add: unat_word_ariths unat_of_nat)
  then have *: "unat (PAGE_TABLE_PHYSICAL_ADDR + PDE_INDEX va * PAGE_SIZE + 4 * PTE_INDEX va) = 0x400000 + 4 * k"
    unfolding unat_ucast_up .
  define w where "w = PAGE_TABLE_PHYSICAL_ADDR + PDE_INDEX va * PAGE_SIZE + 4 * PTE_INDEX va"
  have "page_entry_pointer va = 0xBFC00000 + w"
    by (simp add: page_entry_pointer_def w_def Let_def)
  then have "unat (page_entry_pointer va) = (0xBFC00000 + unat w) mod 2 ^ 32"
    by (simp add: unat_word_ariths)
  then show ?thesis using k * by (simp add: w_def [symmetric])
qed

lemma window_store:
  assumes "guest_paging s"
  shows "guest_store32 (page_entry_pointer va) v s =
    Some (set_ram (store_bytes (ram s) (0x400000 + 4 * of_nat (unat (drop_bit 12 va))) 4 v) s)"
proof -
  define k where "k = unat (drop_bit 12 va)"
  have k: "k < 2 ^ 20" unfolding k_def by (rule unat_page_less)
  define a where "a = page_entry_pointer va"
  have a: "unat a = 0xC0000000 + 4 * k" unfolding a_def k_def by (rule page_entry_pointer)
  have i: "unat (drop_bit 12 a) = 0xC0000 + k div 1024" "k div 1024 < 1024"
    using k unfolding unat_page a by simp_all
  have d: "pte (ram s) (0xC0000 + k div 1024) AND NOT AD_MASK = (0x400000 + of_nat (k div 1024) * PAGE_SIZE) OR 7"
    using assms i(2) unfolding guest_paging_def tables_linear_def by blast
  have page: "cpu_get_phys_page_debug flat_bus (ucast a) s = 0x400000 + of_nat (k div 1024) * 0x1000"
    using window_page [OF assms, of a] directory_entry [OF d i(2)] unfolding i(1) by simp
  then have "unat (cpu_get_phys_page_debug flat_bus (ucast a) s) = 0x400000 + k div 1024 * 0x1000"
    using i(2) by (simp add: unat_word_ariths unat_of_nat)
  moreover have "unat (- 1 :: u64) = 2 ^ 64 - 1" by (simp add: unsigned_minus_1_eq_mask mask_eq_exp_minus_1)
  ultimately have mapped: "cpu_get_phys_page_debug flat_bus (ucast a) s \<noteq> - 1" using i(2) by auto
  have "unat (ucast a AND mask 12 :: u64) = unat a mod 4096"
    by (simp only: take_bit_eq_mask [symmetric] unsigned_take_bit_eq unat_ucast_up) (simp add: take_bit_eq_mod)
  also have "unat a = 4 * (k mod 1024) + (0xC0000 + k div 1024) * 4096"
  proof -
    have "3221225472 + 4 * k = 4 * r + (786432 + q) * 4096" if "k = q * 1024 + r" for q r using that by simp
    from this [OF div_mult_mod_eq [of k 1024, symmetric]] show ?thesis unfolding a .
  qed
  also have "\<dots> mod 4096 = 4 * (k mod 1024)" by (simp only: mod_mult_self1) simp
  finally have low: "unat (ucast a AND mask 12 :: u64) = 4 * (k mod 1024)" .
  have "unat (4 * of_nat (k mod 1024) :: u64) = 4 * (k mod 1024)"
    unfolding unat_word_ariths unat_of_nat by simp
  with low have "ucast a AND mask 12 = (4 * of_nat (k mod 1024) :: u64)" by (simp only: word_unat_eq_iff)
  then have "ucast a AND 0xfff = (4 * of_nat (k mod 1024) :: u64)" by (simp only: mask_eq_exp_minus_1) simp
  moreover have "0x400000 + of_nat (k div 1024) * 0x1000 + 4 * of_nat (k mod 1024) = (0x400000 + 4 * of_nat k :: u64)"
  proof -
    have "(of_nat k :: u64) = of_nat (k div 1024 * 1024 + k mod 1024)" by simp
    then show ?thesis by (simp only: of_nat_add of_nat_mult) (simp add: algebra_simps)
  qed
  ultimately have "cpu_get_phys_page_debug flat_bus (ucast a) s + (ucast a AND 0xfff) = 0x400000 + 4 * of_nat k"
    unfolding page by simp
  with mapped show ?thesis
    unfolding guest_store32_def Let_def a_def [symmetric] k_def [symmetric] by (simp add: flat_bus_def)
qed

text \<open>Storing an entry of a page outside the window keeps the tables linear.\<close>

lemma guest_paging_store:
  assumes "guest_paging s" "k < 2 ^ 20" "k \<notin> {0xC0000..<0xC0400}"
  shows "guest_paging (ext_call c (set_ram (store_bytes (ram s) (0x400000 + 4 * of_nat k) 4 (v :: u32)) s))"
proof -
  have "pte (store_bytes M (0x400000 + 4 * of_nat k) 4 v) (0xC0000 + i) = pte M (0xC0000 + i)" if "i < 1024" for M i
    using assms(2,3) that by (subst pte_store) auto
  then show ?thesis using assms(1) by (simp add: guest_paging_def tables_linear_def ext_call_def)
qed

lemma write_entries_pages:
  assumes "guest_paging s" "unat (drop_bit 12 va) + length vs \<le> 2 ^ 20"
    and "{unat (drop_bit 12 va)..<unat (drop_bit 12 va) + length vs} \<inter> {0xC0000..<0xC0400} = {}"
  shows "\<exists>t. write_entries slot va vs s = Some t \<and> guest_paging t \<and>
    t = s\<lparr>ext_calls := ext_calls s @ replicate (length vs) (TlbFlushPage (ucast slot)), CPUX86State.more := ram t\<rparr> \<and>
    (\<forall>k<2 ^ 20. pte (ram t) k =
      (if unat (drop_bit 12 va) \<le> k \<and> k < unat (drop_bit 12 va) + length vs
       then vs ! (k - unat (drop_bit 12 va)) else pte (ram s) k))"
  using assms
proof (induction vs arbitrary: va s)
  case Nil
  then show ?case by auto
next
  case (Cons v vs)
  let ?j = "unat (drop_bit 12 va)"
  let ?s = "ext_call (TlbFlushPage (ucast slot)) (set_ram (store_bytes (ram s) (0x400000 + 4 * of_nat ?j) 4 v) s)"
  have j: "?j < 2 ^ 20" "?j \<notin> {0xC0000..<0xC0400}" using Cons.prems by auto
  have inv: "guest_paging ?s" by (rule guest_paging_store [OF Cons.prems(1) j])
  have first: "pte (ram ?s) k = (if k = ?j then v else pte (ram s) k)" if "k < 2 ^ 20" for k
    using pte_store [OF that j(1), of "ram s" v] by (simp add: ext_call_def)
  have run: "write_entries slot va (v # vs) s = write_entries slot (va + PAGE_SIZE) vs ?s"
    by (simp add: window_store [OF Cons.prems(1)])
  show ?case
  proof (cases "vs = []")
    case True
    then show ?thesis using inv first unfolding run by (auto simp: ext_call_def)
  next
    case False
    then have j': "unat (drop_bit 12 (va + PAGE_SIZE)) = ?j + 1" using Cons.prems(2)
      by (intro next_page) (cases vs; simp)
    obtain t where t: "write_entries slot (va + PAGE_SIZE) vs ?s = Some t" "guest_paging t"
      "t = ?s\<lparr>ext_calls := ext_calls ?s @ replicate (length vs) (TlbFlushPage (ucast slot)), CPUX86State.more := ram t\<rparr>"
      "\<forall>k<2 ^ 20. pte (ram t) k = (if ?j + 1 \<le> k \<and> k < ?j + 1 + length vs then vs ! (k - (?j + 1)) else pte (ram ?s) k)"
      using Cons.IH [OF inv, of "va + PAGE_SIZE"] Cons.prems(2,3) unfolding j' by fastforce
    have "t = s\<lparr>ext_calls := ext_calls s @ replicate (length (v # vs)) (TlbFlushPage (ucast slot)), CPUX86State.more := ram t\<rparr>"
      by (subst t(3)) (simp add: ext_call_def)
    moreover have "pte (ram t) k = (if ?j \<le> k \<and> k < ?j + length (v # vs) then (v # vs) ! (k - ?j) else pte (ram s) k)"
      if "k < 2 ^ 20" for k
    proof (cases "k = ?j")
      case True
      then show ?thesis using t(4) that first [OF that] by simp
    next
      case False
      then have "k - ?j = Suc (k - (?j + 1))" if "?j \<le> k" using that by simp
      then show ?thesis using t(4) that first [OF that] False by auto
    qed
    ultimately show ?thesis unfolding run using t(1,2) by blast
  qed
qed

section \<open>Mapping and unmapping\<close>

lemmas flat_translation = linear_translation [where B = flat_bus and mem = "\<lambda>m. m", OF flat_phys_ram]

lemma guest_page_step:
  fixes a p :: u32
  assumes "guest_paging s" "pte (ram s) (unat (drop_bit 12 a)) = (p AND NOT 0xfff) OR pr"
    and "pr AND NOT 0xfff = 0" "bit pr 0" "bit pr 1" "bit pr 2"
  shows "\<exists>t prot. cpu_x86_handle_mmu_fault flat_bus (ucast a) w idx s = (0, t) \<and>
    ext_calls t = ext_calls s @ [TlbSetPage (ucast a AND TARGET_PAGE_MASK) (ucast p AND TARGET_PAGE_MASK) prot idx 4096]"
proof -
  have pr: "\<not> bit pr n" if "12 \<le> n" for n
  proof -
    have "bit (pr AND NOT (mask 12)) n = False" using assms(3) by (simp add: mask_eq_exp_minus_1)
    then show ?thesis using that by (auto simp: bit_simps dest: bit_imp_le_length)
  qed
  have "ucast ((p AND NOT (mask 12)) OR pr) AND NOT (mask 12) = (ucast p AND NOT (mask 12) :: u64)"
    by (rule bit_word_eqI) (auto simp: bit_simps pr dest: bit_imp_le_length)
  then have page: "ucast ((p AND NOT 0xfff) OR pr) AND TARGET_PAGE_MASK = (ucast p AND TARGET_PAGE_MASK :: u64)"
    by (simp add: mask_eq_exp_minus_1)
  have bits: "bit ((p AND NOT 0xfff) OR pr) n" if "bit pr n" for n using that by (simp add: bit_or_iff)
  have st: "cr s 0 AND CR0_PG_MASK \<noteq> 0" "cr s 4 AND CR4_PAE_MASK = 0" "a20_mask s = - 1" "cr s 3 = 0x700000"
    "tables_linear (ram s)" using assms(1) by (simp_all add: guest_paging_def)
  show ?thesis
    using flat_translation(2) [OF st, where a = a] bits [OF assms(4)] bits [OF assms(5)] bits [OF assms(6)]
    unfolding assms(2) page by blast
qed

lemma SIZE_TO_PAGES_aligned:
  assumes "sz AND 0xfff = 0"
  shows "SIZE_TO_PAGES sz = drop_bit 12 sz"
proof -
  have t: "take_bit 12 sz = 0" using assms by (simp add: take_bit_eq_mask mask_eq_exp_minus_1)
  have "sz + PAGE_SIZE - 1 = sz + mask 12" by (simp add: mask_eq_exp_minus_1)
  also have "\<dots> = sz OR mask 12"
  proof (rule disjunctive_add)
    show "\<not> bit sz n \<or> \<not> bit (mask 12 :: u32) n" for n
      using arg_cong [OF t, of "\<lambda>x. bit x n"] by (auto simp: bit_simps)
  qed
  finally have "drop_bit 12 (sz + PAGE_SIZE - 1) = drop_bit 12 (sz OR mask 12)" by simp
  also have "\<dots> = drop_bit 12 sz" by (rule bit_word_eqI) (auto simp: bit_simps)
  finally show ?thesis unfolding SIZE_TO_PAGES_def .
qed

text \<open>A range of whole pages that does not meet the window.\<close>

definition guest_range :: "u32 \<Rightarrow> u32 \<Rightarrow> bool" where
  "guest_range va sz \<longleftrightarrow> va AND 0xfff = 0 \<and> sz AND 0xfff = 0 \<and> unat va + unat sz \<le> 2 ^ 32 \<and>
    (unat va + unat sz \<le> 0xC0000000 \<or> 0xC0400000 \<le> unat va)"

lemma guest_rangeD:
  assumes "guest_range va sz"
  shows "unat (drop_bit 12 va) + unat (SIZE_TO_PAGES sz) \<le> 2 ^ 20"
    and "{unat (drop_bit 12 va)..<unat (drop_bit 12 va) + unat (SIZE_TO_PAGES sz)} \<inter> {0xC0000..<0xC0400} = {}"
    and "(va \<le> a \<and> a - va < sz) = (unat (drop_bit 12 va) \<le> unat (drop_bit 12 a) \<and>
      unat (drop_bit 12 a) < unat (drop_bit 12 va) + unat (SIZE_TO_PAGES sz))"
proof -
  have sz: "SIZE_TO_PAGES sz = drop_bit 12 sz" using assms by (simp add: guest_range_def SIZE_TO_PAGES_aligned)
  have t: "take_bit 12 va = 0" "take_bit 12 sz = 0"
    using assms by (simp_all add: guest_range_def take_bit_eq_mask mask_eq_exp_minus_1)
  have sum: "x div 4096 + y div 4096 \<le> 2 ^ 20" if "x + y \<le> 2 ^ 32" for x y :: nat
  proof -
    have "4096 * (x div 4096 + y div 4096) \<le> 4096 * 2 ^ 20"
      using times_div_less_eq_dividend [of 4096 x] times_div_less_eq_dividend [of 4096 y] that
      by (simp add: distrib_left)
    then show ?thesis by simp
  qed
  show "unat (drop_bit 12 va) + unat (SIZE_TO_PAGES sz) \<le> 2 ^ 20"
    using assms unfolding sz unat_page guest_range_def by (intro sum) simp
  have "unat va div 4096 + unat sz div 4096 \<le> 0xC0000 \<or> 0xC0400 \<le> unat va div 4096"
    using assms unfolding guest_range_def by linarith
  then show "{unat (drop_bit 12 va)..<unat (drop_bit 12 va) + unat (SIZE_TO_PAGES sz)} \<inter> {0xC0000..<0xC0400} = {}"
    unfolding sz unat_page by auto
  show "(va \<le> a \<and> a - va < sz) = (unat (drop_bit 12 va) \<le> unat (drop_bit 12 a) \<and>
      unat (drop_bit 12 a) < unat (drop_bit 12 va) + unat (SIZE_TO_PAGES sz))"
    unfolding sz by (rule region_pages [OF t])
qed

text \<open>
  C7: \<open>PAGER::map_pages\<close> maps a range of whole pages.  It never faults, every address of the range is
  then translated to the physical address at the same offset, for every access and at every
  privilege level, the translation of every other address is the one it was, and only the page of
  the stack slot \<open>slot\<close>, never a page of the range, is flushed from the translation cache.
\<close>
theorem guest_map_pages_translates:
  assumes "guest_paging s" "guest_range va sz" "pa AND 0xfff = 0"
    and "protect AND NOT 0xfff = 0" "protect AND 3 = 3"
  shows "\<exists>t. guest_map_pages slot pa va sz protect s = Some t \<and> guest_paging t \<and>
    ext_calls t = ext_calls s @ replicate (unat (SIZE_TO_PAGES sz)) (TlbFlushPage (ucast slot)) \<and>
    (\<forall>a. if va \<le> a \<and> a - va < sz
      then \<forall>w idx. \<exists>u prot. cpu_x86_handle_mmu_fault flat_bus (ucast a) w idx t = (0, u) \<and>
        ext_calls u = ext_calls t @
          [TlbSetPage (ucast a AND TARGET_PAGE_MASK) (ucast (pa + (a - va)) AND TARGET_PAGE_MASK) prot idx 4096]
      else cpu_get_phys_page_debug flat_bus (ucast a) t = cpu_get_phys_page_debug flat_bus (ucast a) s)"
proof -
  let ?j = "unat (drop_bit 12 va)" and ?n = "unat (SIZE_TO_PAGES sz)"
  let ?vs = "map (\<lambda>i. (pa + of_nat i * PAGE_SIZE) OR (protect OR PT_USER)) [0..<?n]"
  note range = guest_rangeD [OF assms(2)]
  obtain t where t: "guest_map_pages slot pa va sz protect s = Some t" "guest_paging t"
    "t = s\<lparr>ext_calls := ext_calls s @ replicate ?n (TlbFlushPage (ucast slot)), CPUX86State.more := ram t\<rparr>"
    "\<forall>k<2 ^ 20. pte (ram t) k = (if ?j \<le> k \<and> k < ?j + ?n then ?vs ! (k - ?j) else pte (ram s) k)"
    using write_entries_pages [OF assms(1), of va ?vs slot] range(1,2)
    unfolding guest_map_pages_def guest_map_loop_entries by auto
  have calls: "ext_calls t = ext_calls s @ replicate ?n (TlbFlushPage (ucast slot))" by (subst t(3)) simp
  have bits: "bit (protect OR PT_USER) 0" "bit (protect OR PT_USER) 1" "bit (protect OR PT_USER) 2"
  proof -
    have "bit (protect AND mask 2) n" if "n < 2" for n
      using assms(5) that by (simp add: mask_eq_exp_minus_1) (auto simp: less_Suc_eq numeral_2_eq_2 bit_simps)
    from this [of 0] this [of 1] show "bit (protect OR PT_USER) 0" "bit (protect OR PT_USER) 1" "bit (protect OR PT_USER) 2"
      by (simp_all add: bit_simps)
  qed
  have low: "(protect OR PT_USER) AND NOT 0xfff = 0"
    using assms(4) by (simp add: bit.conj_disj_distrib2)
  have al: "take_bit 12 va = 0" "take_bit 12 pa = 0"
    using assms(2,3) by (simp_all add: guest_range_def take_bit_eq_mask mask_eq_exp_minus_1)
  have "if va \<le> a \<and> a - va < sz
      then \<forall>w idx. \<exists>u prot. cpu_x86_handle_mmu_fault flat_bus (ucast a) w idx t = (0, u) \<and>
        ext_calls u = ext_calls t @
          [TlbSetPage (ucast a AND TARGET_PAGE_MASK) (ucast (pa + (a - va)) AND TARGET_PAGE_MASK) prot idx 4096]
      else cpu_get_phys_page_debug flat_bus (ucast a) t = cpu_get_phys_page_debug flat_bus (ucast a) s" for a
  proof (cases "va \<le> a \<and> a - va < sz")
    case True
    then have k: "?j \<le> unat (drop_bit 12 a)" "unat (drop_bit 12 a) < ?j + ?n" unfolding range(3) by simp_all
    have "pte (ram t) (unat (drop_bit 12 a)) = ((pa + (a - va)) AND NOT 0xfff) OR (protect OR PT_USER)"
      using t(4) [rule_format, OF unat_page_less [of a]] k nth_map_upt [of "unat (drop_bit 12 a) - ?j" ?n 0]
      unfolding region_page [OF al k(1)] by simp
    from guest_page_step [OF t(2) this low bits] True show ?thesis by (simp only: simp_thms if_True)
  next
    case False
    then have "pte (ram t) (unat (drop_bit 12 a)) = pte (ram s) (unat (drop_bit 12 a))"
      using t(4) unat_page_less [of a] unfolding range(3) by auto
    with False show ?thesis by (simp only: window_page [OF assms(1)] window_page [OF t(2)] if_False)
  qed
  with t(1,2) calls show ?thesis by blast
qed

theorem guest_map_pages_translates_witness:
  "\<exists>t. guest_map_pages 0xC07FE000 0x1000000 0x88000000 0x5000 3 (boot_main (ram_zero\<lparr>a20_mask := - 1\<rparr>)) = Some t \<and>
     (\<exists>u prot. cpu_x86_handle_mmu_fault flat_bus 0x88002345 2 MMU_USER_IDX t = (0, u) \<and>
        ext_calls u = ext_calls t @ [TlbSetPage 0x88002000 0x1002000 prot 1 4096])"
proof -
  let ?s = "boot_main (ram_zero\<lparr>a20_mask := - 1\<rparr>)"
  have inv: "guest_paging ?s"
    using boot_main_sel [of "ram_zero\<lparr>a20_mask := - 1\<rparr>"] boot_tables_linear by (simp add: guest_paging_def)
  have range: "guest_range 0x88000000 0x5000" by (simp add: guest_range_def)
  obtain t where t: "guest_map_pages 0xC07FE000 0x1000000 0x88000000 0x5000 3 ?s = Some t"
    "\<forall>a :: u32. if 0x88000000 \<le> a \<and> a - 0x88000000 < 0x5000
      then \<forall>w idx. \<exists>u prot. cpu_x86_handle_mmu_fault flat_bus (ucast a) w idx t = (0, u) \<and>
        ext_calls u = ext_calls t @
          [TlbSetPage (ucast a AND TARGET_PAGE_MASK) (ucast (0x1000000 + (a - 0x88000000)) AND TARGET_PAGE_MASK) prot idx 4096]
      else cpu_get_phys_page_debug flat_bus (ucast a) t = cpu_get_phys_page_debug flat_bus (ucast a) ?s"
    using guest_map_pages_translates [OF inv range, where pa = "0x1000000" and protect = 3 and slot = "0xC07FE000"] by auto
  from spec [OF t(2), of "0x88002345"]
  have "\<forall>w idx. \<exists>u prot. cpu_x86_handle_mmu_fault flat_bus 0x88002345 w idx t = (0, u) \<and>
        ext_calls u = ext_calls t @ [TlbSetPage 0x88002000 0x1002000 prot idx 4096]" by simp
  with t(1) show ?thesis by blast
qed

text \<open>
  C24: \<open>PAGER::unmap_pages\<close> takes a range of whole pages out of the page tables: it never faults, the
  page walk for an address of the range (on a miss of the translation cache) is then a page fault for
  a page that is not present, and the translation of every other address is the one it was.  The only
  flushes it asks for are of the page of the stack slot \<open>slot\<close>, one for each page of the range: a
  translation of the range that the processor has cached is not dropped.
\<close>
theorem guest_unmap_pages_faults:
  assumes "guest_paging s" "guest_range va sz"
  shows "\<exists>t. guest_unmap_pages slot va sz s = Some t \<and> guest_paging t \<and>
    ext_calls t = ext_calls s @ replicate (unat (SIZE_TO_PAGES sz)) (TlbFlushPage (ucast slot)) \<and>
    (\<forall>a. if va \<le> a \<and> a - va < sz
      then \<forall>w idx. page_faults flat_bus (ucast a) w idx t 0
      else cpu_get_phys_page_debug flat_bus (ucast a) t = cpu_get_phys_page_debug flat_bus (ucast a) s)"
proof -
  let ?j = "unat (drop_bit 12 va)" and ?n = "unat (SIZE_TO_PAGES sz)"
  note range = guest_rangeD [OF assms(2)]
  obtain t where t: "guest_unmap_pages slot va sz s = Some t" "guest_paging t"
    "t = s\<lparr>ext_calls := ext_calls s @ replicate ?n (TlbFlushPage (ucast slot)), CPUX86State.more := ram t\<rparr>"
    "\<forall>k<2 ^ 20. pte (ram t) k = (if ?j \<le> k \<and> k < ?j + ?n then replicate ?n 0 ! (k - ?j) else pte (ram s) k)"
    using write_entries_pages [OF assms(1), of va "replicate ?n 0" slot] range(1,2)
    unfolding guest_unmap_pages_def guest_unmap_loop_entries by auto
  have st: "cr t 0 AND CR0_PG_MASK \<noteq> 0" "cr t 4 AND CR4_PAE_MASK = 0" "a20_mask t = - 1" "cr t 3 = 0x700000"
    "tables_linear (ram t)" using t(2) by (simp_all add: guest_paging_def)
  have "if va \<le> a \<and> a - va < sz
      then \<forall>w idx. page_faults flat_bus (ucast a) w idx t 0
      else cpu_get_phys_page_debug flat_bus (ucast a) t = cpu_get_phys_page_debug flat_bus (ucast a) s" for a
  proof (cases "va \<le> a \<and> a - va < sz")
    case True
    then have "pte (ram t) (unat (drop_bit 12 a)) = 0"
      using t(4) [rule_format, OF unat_page_less [of a]] unfolding range(3) by (simp add: less_diff_conv2)
    then have "\<not> bit (pte (ram t) (unat (drop_bit 12 a))) 0" by simp
    from flat_translation(1) [OF st this] True show ?thesis by (simp only: simp_thms if_True)
  next
    case False
    then have "pte (ram t) (unat (drop_bit 12 a)) = pte (ram s) (unat (drop_bit 12 a))"
      using t(4) unat_page_less [of a] unfolding range(3) by auto
    with False show ?thesis by (simp only: window_page [OF assms(1)] window_page [OF t(2)] if_False)
  qed
  moreover have "ext_calls t = ext_calls s @ replicate ?n (TlbFlushPage (ucast slot))" by (subst t(3)) simp
  ultimately show ?thesis using t(1,2) by blast
qed

theorem guest_unmap_pages_faults_witness:
  "\<exists>t. guest_unmap_pages 0xC07FE000 0x80000000 0x1000 (boot_main (ram_zero\<lparr>a20_mask := - 1\<rparr>)) = Some t \<and>
     ext_calls t = ext_calls (boot_main (ram_zero\<lparr>a20_mask := - 1\<rparr>)) @ [TlbFlushPage 0xC07FE000] \<and>
     page_faults flat_bus 0x80000123 0 0 t 0"
proof -
  let ?s = "boot_main (ram_zero\<lparr>a20_mask := - 1\<rparr>)"
  have inv: "guest_paging ?s"
    using boot_main_sel [of "ram_zero\<lparr>a20_mask := - 1\<rparr>"] boot_tables_linear by (simp add: guest_paging_def)
  have range: "guest_range 0x80000000 0x1000" by (simp add: guest_range_def)
  obtain t where t: "guest_unmap_pages 0xC07FE000 0x80000000 0x1000 ?s = Some t"
    "ext_calls t = ext_calls ?s @ replicate (unat (SIZE_TO_PAGES 0x1000)) (TlbFlushPage (ucast (0xC07FE000 :: u32)))"
    "\<forall>a :: u32. if 0x80000000 \<le> a \<and> a - 0x80000000 < 0x1000
      then \<forall>w idx. page_faults flat_bus (ucast a) w idx t 0
      else cpu_get_phys_page_debug flat_bus (ucast a) t = cpu_get_phys_page_debug flat_bus (ucast a) ?s"
    using guest_unmap_pages_faults [OF inv range, where slot = "0xC07FE000"] by blast
  from spec [OF t(3), of "0x80000123"]
  have "\<forall>w idx. page_faults flat_bus 0x80000123 w idx t 0" by simp
  moreover have "replicate (unat (SIZE_TO_PAGES 0x1000)) (TlbFlushPage (ucast (0xC07FE000 :: u32))) = [TlbFlushPage 0xC07FE000]"
    by (simp add: SIZE_TO_PAGES_def)
  ultimately show ?thesis using t(1,2) by auto
qed

end
