(* ===== verification/GuestDesc.thy ===== *)
theory GuestDesc
  imports Interrupts
begin

text \<open>
  The descriptor tables of the guest operating system, after \<open>GuestOS/gdt.cpp\<close> and
  \<open>GuestOS/idt.cpp\<close>, and what the processor of \<open>SegDesc\<close> and \<open>Interrupts\<close> reads from them.
  An access outside a table, which C++ leaves undefined, is \<open>None\<close>.
\<close>

section \<open>The global descriptor table\<close>

record SEGMENT_DESC =
  limit_low :: u16
  base_low :: u16
  base_mid :: u8
  attr1 :: u8
  limit_high_attr2 :: u8
  base_high :: u8

record GATE_DESC =
  offset_low :: u16
  gate_selector :: u16
  dcount :: u8
  attr :: u8
  offset_high :: u16

abbreviation (input) MAX_GDT_NUM :: nat where "MAX_GDT_NUM \<equiv> 32"
abbreviation (input) MAX_IDT_NUM :: nat where "MAX_IDT_NUM \<equiv> 256"
abbreviation (input) SEL_KERNEL_CODE :: "'a::len word" where "SEL_KERNEL_CODE \<equiv> 8"

text \<open>The eight bytes of an entry, as the two words the processor loads (little-endian, packed).\<close>

definition segment_words :: "SEGMENT_DESC \<Rightarrow> u32 \<times> u32" where
  "segment_words d =
    (ucast (limit_low d) OR push_bit 16 (ucast (base_low d)),
     ucast (base_mid d) OR push_bit 8 (ucast (attr1 d)) OR push_bit 16 (ucast (limit_high_attr2 d)) OR
       push_bit 24 (ucast (base_high d)))"

definition gate_words :: "GATE_DESC \<Rightarrow> u32 \<times> u32" where
  "gate_words d =
    (ucast (offset_low d) OR push_bit 16 (ucast (gate_selector d)),
     ucast (dcount d) OR push_bit 8 (ucast (attr d)) OR push_bit 16 (ucast (offset_high d)))"

text \<open>The table holds entries of eight bytes: the words of segments and of call gates.\<close>

type_synonym desc_table = "(u32 \<times> u32) list"

definition GDT :: desc_table where
  "GDT = replicate MAX_GDT_NUM (0, 0)"

definition segment_desc :: "u32 \<Rightarrow> u32 \<Rightarrow> u32 \<Rightarrow> SEGMENT_DESC" where
  "segment_desc bas lim attribute =
    \<lparr>limit_low = ucast (lim AND 0x0FFFF), base_low = ucast (bas AND 0x0FFFF),
     base_mid = ucast (drop_bit 16 bas AND 0x0FF), attr1 = ucast (attribute AND 0xFF),
     limit_high_attr2 = ucast ((drop_bit 16 lim AND 0x0F) OR (drop_bit 8 attribute AND 0xF0)),
     base_high = ucast (drop_bit 24 bas AND 0x0FF)\<rparr>"

definition set_gdt_entry :: "u32 \<Rightarrow> u32 \<Rightarrow> u32 \<Rightarrow> u32 \<Rightarrow> desc_table \<Rightarrow> bool \<times> desc_table" where
  "set_gdt_entry vector bas lim attribute m_gdt =
    (if vector \<le> 0 \<or> vector \<ge> of_nat MAX_GDT_NUM then (False, m_gdt)
     else (True, m_gdt[unat vector := segment_words (segment_desc bas lim attribute)]))"

definition find_free_gdt_entry :: "desc_table \<Rightarrow> nat" where
  "find_free_gdt_entry m_gdt =
    (case find (\<lambda>i. m_gdt ! i = (0, 0)) [1..<MAX_GDT_NUM] of Some i \<Rightarrow> i | None \<Rightarrow> 0)"

definition add_entry :: "u32 \<times> u32 \<Rightarrow> desc_table \<Rightarrow> u32 \<times> desc_table" where
  "add_entry d m_gdt =
    (let vector = find_free_gdt_entry m_gdt
     in if vector = 0 then (0, m_gdt) else (of_nat vector * 8, m_gdt[vector := d]))"

definition add_gdt_entry :: "u32 \<Rightarrow> u32 \<Rightarrow> u32 \<Rightarrow> desc_table \<Rightarrow> u32 \<times> desc_table" where
  "add_gdt_entry bas lim attribute m_gdt = add_entry (segment_words (segment_desc bas lim attribute)) m_gdt"

definition add_ldt_entry :: "u32 \<Rightarrow> u32 \<Rightarrow> u32 \<Rightarrow> desc_table \<Rightarrow> u32 \<times> desc_table" where
  "add_ldt_entry bas lim attribute m_gdt = add_entry (segment_words (segment_desc bas lim attribute)) m_gdt"

definition add_tss_entry :: "u32 \<Rightarrow> u32 \<Rightarrow> desc_table \<Rightarrow> u32 \<times> desc_table" where
  "add_tss_entry bas lim m_gdt =
    add_entry (segment_words ((segment_desc bas lim 0)
      \<lparr>attr1 := 0x89, limit_high_attr2 := ucast (drop_bit 16 lim AND 0x0F)\<rparr>)) m_gdt"

definition add_call_gate :: "u32 \<Rightarrow> u32 \<Rightarrow> desc_table \<Rightarrow> u32 \<times> desc_table" where
  "add_call_gate handler argc m_gdt =
    add_entry (gate_words \<lparr>offset_low = ucast (handler AND 0xFFFF), gate_selector = SEL_KERNEL_CODE,
      dcount = ucast argc, attr = 0x8C OR 0x60, offset_high = ucast (drop_bit 16 handler AND 0xFFFF)\<rparr>) m_gdt"

text \<open>The entries that \<open>GDT::Init\<close> makes; the registers it then loads are those of the processor.\<close>

definition GDT_Init :: "desc_table \<Rightarrow> desc_table" where
  "GDT_Init = block [
     \<lambda>m_gdt. snd (set_gdt_entry 1 0 0x000FFFFF (0x9A OR 0x4000 OR 0x8000) m_gdt),
     \<lambda>m_gdt. snd (set_gdt_entry 2 0 0x000FFFFF (0x92 OR 0x4000 OR 0x8000) m_gdt),
     \<lambda>m_gdt. snd (set_gdt_entry 3 0 0x0007FFFF (0x9A OR 0x4000 OR 0x60 OR 0x8000) m_gdt),
     \<lambda>m_gdt. snd (set_gdt_entry 4 0 0x0007FFFF (0x92 OR 0x4000 OR 0x60 OR 0x8000) m_gdt),
     \<lambda>m_gdt. snd (set_gdt_entry 5 0xFFDFF000 0x3FF (0x92 OR 0x4000 OR 0x60) m_gdt),
     \<lambda>m_gdt. snd (set_gdt_entry 6 0x7EFDD000 0x3FF (0x92 OR 0x4000 OR 0x60) m_gdt)]"

section \<open>The interrupt descriptor table\<close>

abbreviation (input) IDT_TSS_GATE :: u8 where "IDT_TSS_GATE \<equiv> 0x89"
abbreviation (input) IDT_CALL_GATE :: u8 where "IDT_CALL_GATE \<equiv> 0x8C"
abbreviation (input) IDT_INTR_GATE :: u8 where "IDT_INTR_GATE \<equiv> 0x8E"
abbreviation (input) IDT_TRAP_GATE :: u8 where "IDT_TRAP_GATE \<equiv> 0x8F"

definition set_idt_entry :: "int \<Rightarrow> u8 \<Rightarrow> u32 \<Rightarrow> desc_table \<Rightarrow> desc_table option" where
  "set_idt_entry vector desc_type handler m_idt =
    (if 0 \<le> vector \<and> vector < int (length m_idt)
     then Some (m_idt[nat vector := gate_words \<lparr>offset_low = ucast (handler AND 0xFFFF), gate_selector = SEL_KERNEL_CODE,
            dcount = 0, attr = desc_type, offset_high = ucast (drop_bit 16 handler AND 0xFFFF)\<rparr>])
     else None)"

definition set_tss_gate :: "int \<Rightarrow> u32 \<Rightarrow> desc_table \<Rightarrow> desc_table option" where
  "set_tss_gate vector handler = set_idt_entry vector IDT_TSS_GATE handler"

definition set_call_gate :: "int \<Rightarrow> u32 \<Rightarrow> desc_table \<Rightarrow> desc_table option" where
  "set_call_gate vector handler = set_idt_entry vector IDT_CALL_GATE handler"

definition set_intr_gate :: "int \<Rightarrow> u32 \<Rightarrow> desc_table \<Rightarrow> desc_table option" where
  "set_intr_gate vector handler = set_idt_entry vector IDT_INTR_GATE handler"

definition set_trap_gate :: "int \<Rightarrow> u32 \<Rightarrow> desc_table \<Rightarrow> desc_table option" where
  "set_trap_gate vector handler = set_idt_entry vector IDT_TRAP_GATE handler"

definition IDT :: desc_table where
  "IDT = replicate MAX_IDT_NUM (0, 0)"

definition IDT_Init :: "u32 \<Rightarrow> desc_table \<Rightarrow> desc_table option" where
  "IDT_Init irq_default_entry m_idt =
    fold (\<lambda>i r. Option.bind r (set_idt_entry (int i) IDT_INTR_GATE irq_default_entry)) [0..<MAX_IDT_NUM] (Some m_idt)"

section \<open>What the processor reads\<close>

lemma mask_bits:
  "(0xFFFF :: 'a::len word) = mask 16" "(0xFF :: 'a::len word) = mask 8" "(0x0F :: 'a::len word) = mask 4"
  "(0xF0 :: u32) = push_bit 4 (mask 4)" "(0x0F0000 :: u32) = push_bit 16 (mask 4)" "(0xFF000000 :: u32) = push_bit 24 (mask 8)"
  "(0xF0FF :: u32) = mask 8 OR push_bit 12 (mask 4)" "(0xF0FF00 :: u32) = push_bit 8 (mask 8) OR push_bit 20 (mask 4)"
  by (simp_all add: mask_eq_exp_minus_1 push_bit_eq_mult)

lemma segment_e1:
  "bit (fst (segment_words (segment_desc bas lim at))) n =
    (if n < 16 then bit lim n else n < 32 \<and> bit bas (n - 16))"
  unfolding segment_words_def segment_desc_def mask_bits fst_conv snd_conv SEGMENT_DESC.simps
  by (cases "n < 16"; cases "n < 32") (auto simp: bit_simps)

lemma segment_e2:
  "bit (snd (segment_words (segment_desc bas lim at))) n =
    (if n < 8 then bit bas (n + 16) else if n < 16 then bit at (n - 8) else if n < 20 then bit lim n
     else if n < 24 then bit at (n - 8) else n < 32 \<and> bit bas n)"
proof -
  consider "n < 8" | "8 \<le> n" "n < 16" | "16 \<le> n" "n < 20" | "20 \<le> n" "n < 24" | "24 \<le> n" "n < 32" | "32 \<le> n"
    by linarith
  then show ?thesis
    unfolding segment_words_def segment_desc_def mask_bits fst_conv snd_conv SEGMENT_DESC.simps
    by cases (auto simp: bit_simps add.commute)
qed

lemma segment_base:
  "get_seg_base (fst (segment_words (segment_desc bas lim at))) (snd (segment_words (segment_desc bas lim at))) = bas"
proof (rule bit_word_eqI)
  fix n assume "n < LENGTH(32)"
  then consider "n < 16" | "16 \<le> n" "n < 24" | "24 \<le> n" "n < 32" by fastforce
  then show "bit (get_seg_base (fst (segment_words (segment_desc bas lim at)))
      (snd (segment_words (segment_desc bas lim at)))) n = bit bas n"
    unfolding get_seg_base_def mask_bits
    by cases (auto simp: bit_or_iff bit_and_iff bit_push_bit_iff bit_drop_bit_eq bit_mask_iff segment_e1 segment_e2)
qed

lemma segment_limit:
  "(fst (segment_words (segment_desc bas lim at)) AND 0xffff) OR (snd (segment_words (segment_desc bas lim at)) AND 0x0F0000) =
    take_bit 20 lim"
proof (rule bit_word_eqI)
  fix n assume "n < LENGTH(32)"
  then consider "n < 16" | "16 \<le> n" "n < 20" | "20 \<le> n" "n < 32" by fastforce
  then show "bit ((fst (segment_words (segment_desc bas lim at)) AND 0xffff) OR
      (snd (segment_words (segment_desc bas lim at)) AND 0x0F0000)) n = bit (take_bit 20 lim) n"
    unfolding mask_bits
    by cases (auto simp: bit_or_iff bit_and_iff bit_push_bit_iff bit_take_bit_iff bit_mask_iff segment_e1 segment_e2)
qed

lemma segment_attr:
  "snd (segment_words (segment_desc bas lim at)) AND 0xF0FF00 = push_bit 8 (at AND 0xF0FF)"
proof (rule bit_word_eqI)
  fix n assume "n < LENGTH(32)"
  then consider "n < 8" | "8 \<le> n" "n < 16" | "16 \<le> n" "n < 20" | "20 \<le> n" "n < 24" | "24 \<le> n" "n < 32" by fastforce
  then show "bit (snd (segment_words (segment_desc bas lim at)) AND 0xF0FF00) n = bit (push_bit 8 (at AND 0xF0FF)) n"
    unfolding mask_bits
    by cases (auto simp: bit_or_iff bit_and_iff bit_push_bit_iff bit_mask_iff segment_e2)
qed

lemma segment_G: "snd (segment_words (segment_desc bas lim at)) AND DESC_G_MASK \<noteq> 0 \<longleftrightarrow> bit at 15"
  using and_mask_bit [of "snd (segment_words (segment_desc bas lim at))" 23] by (simp add: segment_e2)

lemma gate_word_bits:
  fixes h :: u32 and ty :: u8
  defines "d \<equiv> \<lparr>offset_low = ucast (h AND 0xFFFF), gate_selector = SEL_KERNEL_CODE,
      dcount = 0, attr = ty, offset_high = ucast (drop_bit 16 h AND 0xFFFF)\<rparr>"
  shows "drop_bit 16 (fst (gate_words d)) = SEL_KERNEL_CODE"
    "(snd (gate_words d) AND 0xffff0000) OR (fst (gate_words d) AND 0x0000ffff) = h"
    "snd (gate_words d) AND 0xff00 = push_bit 8 (ucast ty)"
proof -
  have m: "(0xffff0000 :: u32) = push_bit 16 (mask 16)" "(0xff00 :: u32) = push_bit 8 (mask 8)"
    by (simp_all add: mask_eq_exp_minus_1 push_bit_eq_mult)
  define sel :: u16 where "sel = SEL_KERNEL_CODE"
  have e1: "bit (fst (gate_words d)) n = (if n < 16 then bit h n else n < 32 \<and> bit sel (n - 16))" for n
    unfolding gate_words_def d_def mask_bits fst_conv GATE_DESC.simps sel_def [symmetric]
    by (cases "n < 16"; cases "n < 32") (auto simp: bit_simps)
  have e2: "bit (snd (gate_words d)) n = (if n < 8 then False else if n < 16 then bit ty (n - 8) else n < 32 \<and> bit h n)" for n
  proof -
    consider "n < 8" | "8 \<le> n" "n < 16" | "16 \<le> n" "n < 32" | "32 \<le> n" by linarith
    then show ?thesis
      unfolding gate_words_def d_def mask_bits snd_conv GATE_DESC.simps
      by cases (auto simp: bit_simps dest: bit_imp_le_length)
  qed
  have "drop_bit 16 (fst (gate_words d)) = ucast sel"
    by (rule bit_word_eqI) (auto simp: bit_drop_bit_eq bit_ucast_iff e1 dest: bit_imp_le_length)
  then show "drop_bit 16 (fst (gate_words d)) = SEL_KERNEL_CODE" by (simp add: sel_def)
  show "(snd (gate_words d) AND 0xffff0000) OR (fst (gate_words d) AND 0x0000ffff) = h"
  proof (rule bit_word_eqI)
    fix n assume "n < LENGTH(32)"
    then show "bit ((snd (gate_words d) AND 0xffff0000) OR (fst (gate_words d) AND 0x0000ffff)) n = bit h n"
      unfolding m mask_bits
      by (cases "n < 16") (auto simp: bit_or_iff bit_and_iff bit_push_bit_iff bit_mask_iff e1 e2)
  qed
  show "snd (gate_words d) AND 0xff00 = push_bit 8 (ucast ty)"
  proof (rule bit_word_eqI)
    fix n assume "n < LENGTH(32)"
    then consider "n < 8" | "8 \<le> n" "n < 16" | "16 \<le> n" "n < 32" by fastforce
    then show "bit (snd (gate_words d) AND 0xff00) n = bit (push_bit 8 (ucast ty :: u32)) n"
      unfolding m by cases (auto simp: bit_and_iff bit_push_bit_iff bit_mask_iff bit_ucast_iff e2 dest: bit_imp_le_length)
  qed
qed

section \<open>Properties\<close>

text \<open>The fields of a descriptor as the processor takes them apart.\<close>

definition desc_reads :: "u32 \<times> u32 \<Rightarrow> u32 \<Rightarrow> u32 \<Rightarrow> u32 \<Rightarrow> bool" where
  "desc_reads d bas lim attribute \<longleftrightarrow>
    get_seg_base (fst d) (snd d) = bas \<and>
    get_seg_limit (fst d) (snd d) = (if bit attribute 15 then push_bit 12 (take_bit 20 lim) OR 0xfff else take_bit 20 lim) \<and>
    snd d AND 0xF0FF00 = push_bit 8 (attribute AND 0xF0FF)"

lemma desc_reads_segment: "desc_reads (segment_words (segment_desc bas lim attribute)) bas lim attribute"
  unfolding desc_reads_def get_seg_limit_def Let_def segment_limit segment_base segment_attr segment_G by simp

text \<open>
  C25: a descriptor set by \<open>GDT::set_gdt_entry\<close> is read back by the processor: its base, its limit
  scaled by the granularity bit, and its attribute bits are the ones given, and no other entry
  changes.  The null entry and an index outside the table are refused.
\<close>
theorem gdt_entry_reads_back:
  assumes "length m_gdt = MAX_GDT_NUM"
  shows "case set_gdt_entry vector bas lim attribute m_gdt of (ok, m_gdt') \<Rightarrow>
    if 0 < vector \<and> vector < 32
    then ok \<and> desc_reads (m_gdt' ! unat vector) bas lim attribute \<and> length m_gdt' = MAX_GDT_NUM \<and>
      (\<forall>i. i \<noteq> unat vector \<longrightarrow> m_gdt' ! i = m_gdt ! i)
    else \<not> ok \<and> m_gdt' = m_gdt"
proof (cases "0 < vector \<and> vector < 32")
  case True
  then have "unat vector < length m_gdt" "\<not> vector \<ge> 32" "\<not> vector \<le> 0"
    using assms by (auto simp: word_less_nat_alt word_le_nat_alt)
  then show ?thesis using True assms by (auto simp: set_gdt_entry_def desc_reads_segment)
next
  case False
  then have "vector \<le> 0 \<or> vector \<ge> 32" by (metis not_le)
  with False show ?thesis by (auto simp: set_gdt_entry_def)
qed

theorem gdt_entry_reads_back_witness:
  "desc_reads (snd (set_gdt_entry 3 0 0x7FFFF 0xC0FA GDT) ! 3) 0 0x7FFFF 0xC0FA"
  using gdt_entry_reads_back [of GDT 3 0 "0x7FFFF" "0xC0FA"] by (auto simp: GDT_def split: prod.splits)

lemma GDT_Init_table:
  "GDT_Init GDT = [(0, 0), (0xFFFF, 0xCF9A00), (0xFFFF, 0xCF9200), (0xFFFF, 0xC7FA00), (0xFFFF, 0xC7F200),
     (0xF00003FF, 0xFF40F2DF), (0xD00003FF, 0x7E40F2FD)] @ replicate 25 (0, 0)"
proof -
  have words: "segment_words (segment_desc 0 0xFFFFF 0xC09A) = (0xFFFF, 0xCF9A00)"
    "segment_words (segment_desc 0 0xFFFFF 0xC092) = (0xFFFF, 0xCF9200)"
    "segment_words (segment_desc 0 0x7FFFF 0xC0FA) = (0xFFFF, 0xC7FA00)"
    "segment_words (segment_desc 0 0x7FFFF 0xC0F2) = (0xFFFF, 0xC7F200)"
    "segment_words (segment_desc 0xFFDFF000 0x3FF 0x40F2) = (0xF00003FF, 0xFF40F2DF)"
    "segment_words (segment_desc 0x7EFDD000 0x3FF 0x40F2) = (0xD00003FF, 0x7E40F2FD)"
    by (simp_all add: segment_words_def segment_desc_def)
  have "GDT = replicate 7 (0, 0) @ replicate 25 (0, 0)" unfolding GDT_def by (simp flip: replicate_add)
  also have "replicate 7 (0 :: u32, 0 :: u32) = [(0, 0), (0, 0), (0, 0), (0, 0), (0, 0), (0, 0), (0, 0)]"
    by (simp add: numeral_eq_Suc)
  finally have g: "GDT = [(0, 0), (0, 0), (0, 0), (0, 0), (0, 0), (0, 0), (0, 0)] @ replicate 25 (0, 0)" .
  show ?thesis unfolding g by (simp add: GDT_Init_def set_gdt_entry_def words word_le_nat_alt)
qed

text \<open>
  after \<open>GDT::Init\<close>, the kernel's code and data segments span all of the linear address space at
  privilege 0 and the user's end below \<open>KERNEL_BASE\<close> at privilege 3; all are present.
\<close>
lemma gdt_init_segments:
  "map (\<lambda>(e1, e2). (get_seg_base e1 e2, get_seg_limit e1 e2, DPL e2, e2 AND DESC_P_MASK \<noteq> 0, e2 AND DESC_CS_MASK \<noteq> 0))
     (take 7 (GDT_Init GDT)) =
   [(0, 0, 0, False, False), (0, 0xFFFFFFFF, 0, True, True), (0, 0xFFFFFFFF, 0, True, False),
    (0, 0x7FFFFFFF, 3, True, True), (0, 0x7FFFFFFF, 3, True, False),
    (0xFFDFF000, 0x3FF, 3, True, False), (0x7EFDD000, 0x3FF, 3, True, False)]"
  unfolding GDT_Init_table
  by (simp add: get_seg_base_def get_seg_limit_def)

text \<open>A table as an image in memory.\<close>

definition table_at :: "(u64 \<Rightarrow> u8) \<Rightarrow> u64 \<Rightarrow> desc_table \<Rightarrow> bool" where
  "table_at M a t \<longleftrightarrow>
    (\<forall>i<length t. load32 M (a + of_nat (8 * i)) = fst (t ! i) \<and> load32 M (a + of_nat (8 * i) + 4) = snd (t ! i))"

lemma software_gate_refused:
  assumes "virt_ram B mem" "table_at (mem (CPUX86State.more env)) (base (idt env)) t" "n < 256" "length t = MAX_IDT_NUM"
    and "limit (idt env) = 0x7FF"
    and "drop_bit DESC_TYPE_SHIFT (snd (t ! n)) AND 0x1f \<noteq> 5"
    and "drop_bit DESC_TYPE_SHIFT (snd (t ! n)) AND 0x1f \<notin> {6, 7, 14, 15} \<or> DPL (snd (t ! n)) < CPL env"
  shows "do_interrupt_protected B (of_nat n) 1 err next_eip 0 env = raise_exception_err B EXCP0D_GPF (of_nat n * 8 + 2) env"
proof -
  have n: "scast (of_nat n * 8 :: u32) = (of_nat (8 * n) :: u64)"
  proof -
    have "unat (of_nat n * 8 :: u32) = 8 * n" using assms(3) by (simp add: unat_word_ariths unat_of_nat)
    then have u: "uint (of_nat n * 8 :: u32) = int (8 * n)" by (simp only: uint_nat)
    have "sint (of_nat n * 8 :: u32) = signed_take_bit 31 (uint (of_nat n * 8 :: u32))" by (simp add: sint_uint)
    also have "\<dots> = int (8 * n)" unfolding u using assms(3) by (intro signed_take_bit_int_eq_self) simp_all
    finally have "sint (of_nat n * 8 :: u32) = int (8 * n)" .
    then show ?thesis by (simp add: signed_scast_eq [symmetric] scast_eq)
  qed
  have small: "\<not> (of_nat n * 8 + 7 :: u32) > 0x7FF"
  proof -
    have "unat (of_nat n * 8 + 7 :: u32) = n * 8 + 7" using assms(3) by (simp add: unat_word_ariths unat_of_nat)
    then show ?thesis using assms(3) by (simp add: word_less_nat_alt)
  qed
  have loads: "load32 (mem (CPUX86State.more env)) (base (idt env) + of_nat (8 * n)) = fst (t ! n)"
    "load32 (mem (CPUX86State.more env)) (base (idt env) + of_nat (8 * n) + 4) = snd (t ! n)"
    using assms(2-4) by (simp_all add: table_at_def)
  show ?thesis
    unfolding do_interrupt_protected_def Let_def assms(5) n virt_ram_load [OF assms(1)] bindx.simps loads
    using small assms(6,7) by (simp only: if_False if_True simp_thms) (simp del: insert_iff)
qed

lemma gate_attr:
  assumes "snd d AND 0xff00 = push_bit 8 (ucast (ty :: u8))"
  shows "drop_bit DESC_TYPE_SHIFT (snd d) AND 0x1f = (ucast ty AND 0x1f :: u32)" "DPL (snd d) = drop_bit 5 (ucast ty) AND 3"
proof -
  have m: "(0xff00 :: u32) = push_bit 8 (mask 8)" "(0x1f :: u32) = mask 5" "(3 :: u32) = mask 2"
    by (simp_all add: mask_eq_exp_minus_1 push_bit_eq_mult)
  have b: "bit (snd d) (8 + n) = bit ty n" if "n < 8" for n
    using arg_cong [OF assms, of "\<lambda>x. bit x (8 + n)"] that unfolding m
    by (simp add: bit_and_iff bit_push_bit_iff bit_mask_iff bit_ucast_iff)
  show "drop_bit DESC_TYPE_SHIFT (snd d) AND 0x1f = (ucast ty AND 0x1f :: u32)"
    unfolding m by (rule bit_word_eqI) (auto simp: bit_and_iff bit_drop_bit_eq bit_mask_iff bit_ucast_iff b)
  have b': "bit (snd d) (13 + n) = bit ty (5 + n)" if "n < 2" for n using b [of "5 + n"] that by simp
  show "DPL (snd d) = drop_bit 5 (ucast ty) AND 3"
    unfolding m by (rule bit_word_eqI) (auto simp: bit_and_iff bit_drop_bit_eq bit_mask_iff bit_ucast_iff b')
qed

text \<open>
  C29: a program at user level cannot enter the kernel by a software interrupt: whatever handler and
  kind of gate the guest's IDT methods set for the vector, \<open>INT n\<close> is refused with a general
  protection fault, since every gate is set with privilege level 0.  The gates of \<open>set_tss_gate\<close> and
  \<open>set_call_gate\<close>, whose types are no gates of an IDT, are refused at every level.
\<close>
theorem user_int_refused:
  assumes "virt_ram B mem" "table_at (mem (CPUX86State.more env)) (base (idt env)) t" "limit (idt env) = 0x7FF"
    and "length t0 = MAX_IDT_NUM" "set_idt_entry (int n) ty handler t0 = Some t"
    and "ty \<in> {IDT_INTR_GATE, IDT_TRAP_GATE} \<and> 0 < CPL env \<or> ty \<in> {IDT_TSS_GATE, IDT_CALL_GATE}"
  shows "do_interrupt_protected B (of_nat n) 1 err next_eip 0 env = raise_exception_err B EXCP0D_GPF (of_nat n * 8 + 2) env"
proof -
  have t: "n < 256" "length t = MAX_IDT_NUM" "snd (t ! n) AND 0xff00 = push_bit 8 (ucast ty)"
    using assms(4,5) gate_word_bits(3) by (auto simp: set_idt_entry_def split: if_splits)
  note attr = gate_attr [OF t(3)]
  show ?thesis
    by (rule software_gate_refused [OF assms(1,2) t(1,2) assms(3)]) (use assms(6) in \<open>auto simp: attr\<close>)
qed

lemma apart_entry:
  assumes "1 \<le> i" "i < 256" "d \<in> {0, 4}" "c \<in> {0, 4}"
  shows "apart (of_nat (8 * i) + of_nat d) 4 (of_nat c) 4"
proof -
  have "of_nat (8 * i) + of_nat d - of_nat c = (of_nat (8 * i + d - c) :: u64)"
    using assms by (auto simp: of_nat_diff)
  moreover have "unat (of_nat (8 * i + d - c) :: u64) = 8 * i + d - c"
    using assms by (auto simp: unat_of_nat)
  ultimately show ?thesis using assms unfolding apart_def by (simp only:) auto
qed

definition idt_entry_0 :: "u32 \<times> u32" where
  "idt_entry_0 = gate_words \<lparr>offset_low = ucast ((0x80001000 :: u32) AND 0xFFFF), gate_selector = SEL_KERNEL_CODE,
     dcount = 0, attr = IDT_TRAP_GATE, offset_high = ucast (drop_bit 16 (0x80001000 :: u32) AND 0xFFFF)\<rparr>"

definition user_int_state :: cpu_ram where
  "user_int_state = set_ram (store_bytes (store_bytes (\<lambda>_. 0) 0 4 (fst idt_entry_0)) 4 4 (snd idt_entry_0))
     (ram_zero\<lparr>hflags := 3, idt := \<lparr>selector = 0, base = 0, limit = 0x7FF, flags = 0\<rparr>\<rparr>)"

theorem user_int_refused_witness:
  "do_interrupt_protected flat_bus 0 1 0 0 0 user_int_state = raise_exception_err flat_bus EXCP0D_GPF 2 user_int_state"
proof -
  let ?M = "ram user_int_state"
  have zero: "load32 (\<lambda>_. 0) a = 0" for a by simp
  have far: "load32 ?M (of_nat (8 * i) + of_nat d) = 0" if "1 \<le> i" "i < 256" "d \<in> {0, 4}" for i d
    using apart_entry [OF that, of 0] apart_entry [OF that, of 4]
    unfolding user_int_state_def by simp
  have "table_at ?M 0 (IDT[0 := idt_entry_0])"
    unfolding table_at_def
  proof (intro allI impI)
    fix i assume i: "i < length (IDT[0 := idt_entry_0])"
    show "load32 ?M (0 + of_nat (8 * i)) = fst (IDT[0 := idt_entry_0] ! i) \<and>
        load32 ?M (0 + of_nat (8 * i) + 4) = snd (IDT[0 := idt_entry_0] ! i)"
    proof (cases "i = 0")
      case True
      then show ?thesis by (simp add: IDT_def user_int_state_def apart_def)
    next
      case False
      then show ?thesis using far [of i 0] far [of i 4] i by (simp add: IDT_def)
    qed
  qed
  then show ?thesis
    using user_int_refused [OF flat_virt_ram, of user_int_state _ IDT 0 IDT_TRAP_GATE "0x80001000" 0 0]
    by (simp add: user_int_state_def set_idt_entry_def idt_entry_0_def IDT_def)
qed

end
