(* ===== verification/HaxVm.thy ===== *)
theory HaxVm
  imports Bus
begin

text \<open>
  The memory of a virtual machine as its host process manages it, after \<open>ShellcodeVM/HAXM_VM.h\<close>: the
  table of memory blocks with the translation between guest physical and host virtual addresses,
  the allocator of guest frames, and the page tables that the host builds for the guest.
  The driver behind \<open>DeviceIoControl\<close> is not part of the sources: its answer is the
  parameter \<open>dev\<close>, a function of the requests made so far.
\<close>

section \<open>State\<close>

record VM_MEM_BLOCK =
  host_virtual_address :: u64
  guest_physical_addrress :: u64
  block_size :: u32

datatype hax_ioctl = HAX_VM_IOCTL_ALLOC_RAM u64 u32 | HAX_VM_IOCTL_SET_RAM u64 u32 u64

text \<open>
  \<open>m_mem_blocks\<close> is a \<open>std::map\<close>, which is iterated in the order of its keys: a list sorted by key.
  \<open>host_mem\<close> is the address space of the host process.
\<close>

record HAXM_VM =
  m_mem_blocks :: "(u64 \<times> VM_MEM_BLOCK) list"
  m_page_dir_physical_addr :: u64
  m_page_dir_virtual_addr :: u64
  host_mem :: "u64 \<Rightarrow> u8"
  ioctls :: "hax_ioctl list"

fun map_assign :: "'k::linorder \<Rightarrow> 'v \<Rightarrow> ('k \<times> 'v) list \<Rightarrow> ('k \<times> 'v) list" where
  "map_assign k v [] = [(k, v)]"
| "map_assign k v (kv # m) =
    (if k < fst kv then (k, v) # kv # m
     else if k = fst kv then (k, v) # m
     else kv # map_assign k v m)"

abbreviation (input) FRAME_DATABASE_GPA :: u64 where "FRAME_DATABASE_GPA \<equiv> 0"
abbreviation (input) FRAME_DATABASE_SIZE :: int where "FRAME_DATABASE_SIZE \<equiv> 0x100000"
abbreviation (input) FRAME_FREE :: u8 where "FRAME_FREE \<equiv> 0"
abbreviation (input) FRAME_USED :: u8 where "FRAME_USED \<equiv> 1"

section \<open>Memory blocks\<close>

definition hax_populate_ram :: "(hax_ioctl list \<Rightarrow> bool) \<Rightarrow> u64 \<Rightarrow> u32 \<Rightarrow> HAXM_VM \<Rightarrow> bool \<times> HAXM_VM" where
  "hax_populate_ram dev host_virtual_addr sz vm =
    (case map_of (m_mem_blocks vm) host_virtual_addr of
       Some _ \<Rightarrow> (False, vm)
     | None \<Rightarrow>
        (let vm = vm\<lparr>ioctls := ioctls vm @ [HAX_VM_IOCTL_ALLOC_RAM host_virtual_addr sz]\<rparr>
         in if \<not> dev (ioctls vm) then (False, vm)
            else (True, vm\<lparr>m_mem_blocks := map_assign host_virtual_addr
                   \<lparr>host_virtual_address = host_virtual_addr, guest_physical_addrress = 0, block_size = sz\<rparr>
                   (m_mem_blocks vm)\<rparr>)))"

definition hax_set_phys_mem ::
  "(hax_ioctl list \<Rightarrow> bool) \<Rightarrow> u64 \<Rightarrow> u32 \<Rightarrow> u64 \<Rightarrow> HAXM_VM \<Rightarrow> bool \<times> HAXM_VM" where
  "hax_set_phys_mem dev guest_physical_addr sz host_virtual_addr vm =
    (case map_of (m_mem_blocks vm) host_virtual_addr of
       None \<Rightarrow> (False, vm)
     | Some b \<Rightarrow>
        if guest_physical_addrress b \<noteq> 0 then (False, vm)
        else
         (let vm = vm\<lparr>ioctls := ioctls vm @ [HAX_VM_IOCTL_SET_RAM guest_physical_addr sz host_virtual_addr]\<rparr>
          in if \<not> dev (ioctls vm) then (False, vm)
             else (True, vm\<lparr>m_mem_blocks := map_assign host_virtual_addr
                    (b\<lparr>guest_physical_addrress := guest_physical_addr\<rparr>) (m_mem_blocks vm)\<rparr>)))"

definition in_range :: "u64 \<Rightarrow> u32 \<Rightarrow> u64 \<Rightarrow> bool" where
  "in_range start_addr sz addr \<longleftrightarrow> addr \<ge> start_addr \<and> addr < start_addr + ucast sz"

definition gpa_to_hva :: "HAXM_VM \<Rightarrow> u64 \<Rightarrow> u64" where
  "gpa_to_hva vm guest_physical_addr =
    (case find (\<lambda>it. in_range (guest_physical_addrress (snd it)) (block_size (snd it)) guest_physical_addr)
            (m_mem_blocks vm) of
       Some it \<Rightarrow> host_virtual_address (snd it) + (guest_physical_addr - guest_physical_addrress (snd it))
     | None \<Rightarrow> 0)"

definition hva_to_gpa :: "HAXM_VM \<Rightarrow> u64 \<Rightarrow> u64" where
  "hva_to_gpa vm host_virtual_addr =
    (case find (\<lambda>it. in_range (host_virtual_address (snd it)) (block_size (snd it)) host_virtual_addr)
            (m_mem_blocks vm) of
       Some it \<Rightarrow> guest_physical_addrress (snd it) + (host_virtual_addr - host_virtual_address (snd it))
     | None \<Rightarrow> 0)"

section \<open>Access to the memory of the machine\<close>

text \<open>
  A pointer that the code makes from \<open>gpa_to_hva\<close> is valid inside a populated block.  An access
  outside of all blocks, in particular through the null pointer that \<open>gpa_to_hva\<close> returns for an
  address of no block, is \<open>Crash\<close>.  The allocator's search may also never end: there the
  functions return \<open>None\<close>.
\<close>

datatype 'a host = Crash | Ret 'a

definition host_valid :: "HAXM_VM \<Rightarrow> u64 \<Rightarrow> bool" where
  "host_valid vm a \<longleftrightarrow> (\<exists>it\<in>set (m_mem_blocks vm). in_range (host_virtual_address (snd it)) (block_size (snd it)) a)"

definition host_byte :: "HAXM_VM \<Rightarrow> u64 \<Rightarrow> u8 option" where
  "host_byte vm a = (if host_valid vm a then Some (host_mem vm a) else None)"

definition host_fill :: "u64 \<Rightarrow> u8 \<Rightarrow> int \<Rightarrow> HAXM_VM \<Rightarrow> HAXM_VM option" where
  "host_fill a val n vm =
    (if 0 \<le> n \<and> (\<forall>k\<in>set [0..<nat n]. host_valid vm (a + of_nat k))
     then Some (vm\<lparr>host_mem := fold (\<lambda>k m. m(a + of_nat k := val)) [0..<nat n] (host_mem vm)\<rparr>)
     else None)"

definition host_load32 :: "HAXM_VM \<Rightarrow> u64 \<Rightarrow> u32 option" where
  "host_load32 vm a =
    (if (\<forall>k\<in>set [0..<4]. host_valid vm (a + of_nat k)) then Some (load32 (host_mem vm) a) else None)"

definition host_store32 :: "u64 \<Rightarrow> u32 \<Rightarrow> HAXM_VM \<Rightarrow> HAXM_VM option" where
  "host_store32 a v vm =
    (if (\<forall>k\<in>set [0..<4]. host_valid vm (a + of_nat k))
     then Some (vm\<lparr>host_mem := store_bytes (host_mem vm) a 4 v\<rparr>) else None)"

section \<open>The allocator of guest frames\<close>

text \<open>An index into the frame database; an \<open>int\<close>, kept as a number.\<close>

abbreviation (input) PAGE_INDEX :: "u64 \<Rightarrow> int" where "PAGE_INDEX addr \<equiv> sint (ucast (drop_bit 12 addr) :: u32)"
abbreviation (input) PAGE_ADDRESS :: "int \<Rightarrow> u64" where "PAGE_ADDRESS page_index \<equiv> ucast (push_bit 12 (word_of_int page_index) :: u32)"

text \<open>The overload that claims the frames at a given address.\<close>

fun frames_free :: "HAXM_VM \<Rightarrow> u64 \<Rightarrow> int \<Rightarrow> nat \<Rightarrow> bool option" where
  "frames_free vm frame_db_hva page_index 0 = Some True"
| "frames_free vm frame_db_hva page_index (Suc n) =
    (case host_byte vm (frame_db_hva + word_of_int page_index) of
       None \<Rightarrow> None
     | Some b \<Rightarrow> if b \<noteq> FRAME_FREE then Some False else frames_free vm frame_db_hva (page_index + 1) n)"

definition alloc_physical_pages_at :: "u64 \<Rightarrow> int \<Rightarrow> HAXM_VM \<Rightarrow> (u64 \<times> HAXM_VM) host" where
  "alloc_physical_pages_at guest_physical_addr pages vm =
    (let frame_db_hva = gpa_to_hva vm FRAME_DATABASE_GPA;
         page_index = PAGE_INDEX guest_physical_addr
     in case frames_free vm frame_db_hva page_index (nat pages) of
          None \<Rightarrow> Crash
        | Some False \<Rightarrow> Ret (0, vm)
        | Some True \<Rightarrow>
            (case host_fill (frame_db_hva + word_of_int page_index) FRAME_USED pages vm of
               None \<Rightarrow> Crash
             | Some vm \<Rightarrow> Ret (guest_physical_addr, vm)))"

definition free_physical_pages :: "u64 \<Rightarrow> int \<Rightarrow> HAXM_VM \<Rightarrow> (bool \<times> HAXM_VM) host" where
  "free_physical_pages guest_physical_addr pages vm =
    (let frame_db_hva = gpa_to_hva vm FRAME_DATABASE_GPA;
         page_index = PAGE_INDEX guest_physical_addr
     in case host_fill (frame_db_hva + word_of_int page_index) FRAME_FREE (max 0 pages) vm of
          None \<Rightarrow> Crash
        | Some vm \<Rightarrow> Ret (True, vm))"

text \<open>
  The search.  \<open>run_length\<close> is the inner loop: it counts the free frames from frame \<open>i\<close> on, up to
  the request, beginning at \<open>j\<close>.  The outer loop continues at \<open>j + 1\<close>: the assignment \<open>i = j\<close> sets
  the frame index to the length of the run.
\<close>

function run_length :: "HAXM_VM \<Rightarrow> u64 \<Rightarrow> int \<Rightarrow> int \<Rightarrow> int \<Rightarrow> int host" where
  "run_length vm frame_db_hva i j pages =
    (if j < pages then
       (case host_byte vm (frame_db_hva + word_of_int (i + j)) of
          None \<Rightarrow> Crash
        | Some b \<Rightarrow> if b \<noteq> FRAME_FREE then Ret j else run_length vm frame_db_hva i (j + 1) pages)
     else Ret j)"
  by pat_completeness auto
termination by (relation "measure (\<lambda>(vm, a, i, j, pages). nat (pages - j))") auto

declare run_length.simps [simp del]

partial_function (option) alloc_scan :: "u64 \<Rightarrow> int \<Rightarrow> int \<Rightarrow> HAXM_VM \<Rightarrow> (u64 \<times> HAXM_VM) host option" where
  "alloc_scan frame_db_hva pages i vm =
    (if i < FRAME_DATABASE_SIZE then
       (case host_byte vm (frame_db_hva + word_of_int i) of
          None \<Rightarrow> Some Crash
        | Some b \<Rightarrow>
            if b = FRAME_FREE then
              (case run_length vm frame_db_hva i 1 pages of
                 Crash \<Rightarrow> Some Crash
               | Ret j \<Rightarrow>
                   if j = pages then
                     (case host_fill (frame_db_hva + word_of_int i) FRAME_USED pages vm of
                        None \<Rightarrow> Some Crash
                      | Some vm \<Rightarrow> Some (Ret (PAGE_ADDRESS i, vm)))
                   else alloc_scan frame_db_hva pages (j + 1) vm)
            else alloc_scan frame_db_hva pages (i + 1) vm)
     else Some (Ret (0, vm)))"

definition alloc_physical_pages :: "int \<Rightarrow> HAXM_VM \<Rightarrow> (u64 \<times> HAXM_VM) host option" where
  "alloc_physical_pages pages vm = alloc_scan (gpa_to_hva vm FRAME_DATABASE_GPA) pages 0 vm"

section \<open>Page tables of the guest\<close>

definition hbind :: "'a host option \<Rightarrow> ('a \<Rightarrow> 'b host option) \<Rightarrow> 'b host option" where
  "hbind m f = (case m of None \<Rightarrow> None | Some Crash \<Rightarrow> Some Crash | Some (Ret a) \<Rightarrow> f a)"

definition access :: "'a option \<Rightarrow> 'a host option" where
  "access m = (case m of None \<Rightarrow> Some Crash | Some a \<Rightarrow> Some (Ret a))"

definition set_page_dir :: "u64 \<Rightarrow> u64 \<Rightarrow> HAXM_VM \<Rightarrow> HAXM_VM option" where
  "set_page_dir page_dir_physical_addr page_dir_virtual_addr vm =
    (let vm = vm\<lparr>m_page_dir_physical_addr := page_dir_physical_addr, m_page_dir_virtual_addr := page_dir_virtual_addr\<rparr>;
         page_dir_hva = gpa_to_hva vm page_dir_physical_addr
     in host_store32 (page_dir_hva + 4 * drop_bit 22 page_dir_virtual_addr)
          (ucast page_dir_physical_addr OR 1 OR 2) vm)"

text \<open>\<open>int pde_index\<close>: the index is cut to 32 bits, and extended again where it meets the pointer.\<close>

definition pde_index :: "u64 \<Rightarrow> u64" where
  "pde_index guest_virtual_addr = scast (ucast (drop_bit 22 guest_virtual_addr) :: u32)"

text \<open>
  The page table of a directory entry.  \<open>Inl\<close> is the early return of \<open>false\<close> when no frame is left;
  \<open>Inr\<close> holds the table's host address.
\<close>

definition page_table_hva :: "u64 \<Rightarrow> u64 \<Rightarrow> HAXM_VM \<Rightarrow> ((unit + u64) \<times> HAXM_VM) host option" where
  "page_table_hva page_dir_hva guest_virtual_addr vm =
    (let pde_index = pde_index guest_virtual_addr
     in hbind (access (host_load32 vm (page_dir_hva + 4 * pde_index))) (\<lambda>pde.
        let pt_gpa = pde AND 0xFFFFF000
        in if pt_gpa \<noteq> 0 then Some (Ret (Inr (gpa_to_hva vm (ucast pt_gpa)), vm))
           else
             hbind (alloc_physical_pages 1 vm) (\<lambda>(pt_gpa, vm).
             let pt_gpa = ucast pt_gpa :: u32
             in if pt_gpa = 0 then Some (Ret (Inl (), vm))
                else let pt_hva = gpa_to_hva vm (ucast pt_gpa)
                  in hbind (access (host_fill pt_hva 0 0x1000 vm)) (\<lambda>vm.
                     hbind (access (host_store32 (page_dir_hva + 4 * pde_index) (pt_gpa OR 1 OR 2) vm)) (\<lambda>vm.
                     Some (Ret (Inr pt_hva, vm)))))))"

text \<open>
  \<open>map_pages\<close> and \<open>unmap_pages\<close> have no \<open>return\<close> after their loops: there the result is \<open>None\<close>, a
  value that C++ leaves undefined.
\<close>

fun hax_map_loop :: "nat \<Rightarrow> u64 \<Rightarrow> u64 \<Rightarrow> u64 \<Rightarrow> HAXM_VM \<Rightarrow> (bool option \<times> HAXM_VM) host option" where
  "hax_map_loop 0 page_dir_hva guest_physical_addr guest_virtual_addr vm = Some (Ret (None, vm))"
| "hax_map_loop (Suc n) page_dir_hva guest_physical_addr guest_virtual_addr vm =
    hbind (page_table_hva page_dir_hva guest_virtual_addr vm) (\<lambda>(pt, vm).
      case pt of
        Inl _ \<Rightarrow> Some (Ret (Some False, vm))
      | Inr pt_hva \<Rightarrow>
          hbind (access (host_store32 (pt_hva + 4 * (drop_bit 12 guest_virtual_addr AND 0x3FF))
                   (ucast (guest_physical_addr OR 1 OR 2)) vm)) (\<lambda>vm.
          hax_map_loop n page_dir_hva (guest_physical_addr + 0x1000) (guest_virtual_addr + 0x1000) vm))"

definition hax_map_pages :: "u64 \<Rightarrow> u64 \<Rightarrow> int \<Rightarrow> HAXM_VM \<Rightarrow> (bool option \<times> HAXM_VM) host option" where
  "hax_map_pages guest_physical_addr guest_virtual_addr pages vm =
    hax_map_loop (nat pages) (gpa_to_hva vm (m_page_dir_physical_addr vm)) guest_physical_addr guest_virtual_addr vm"

fun hax_unmap_loop :: "nat \<Rightarrow> u64 \<Rightarrow> u64 \<Rightarrow> HAXM_VM \<Rightarrow> (bool option \<times> HAXM_VM) host option" where
  "hax_unmap_loop 0 page_dir_hva guest_virtual_addr vm = Some (Ret (None, vm))"
| "hax_unmap_loop (Suc n) page_dir_hva guest_virtual_addr vm =
    hbind (access (host_load32 vm (page_dir_hva + 4 * pde_index guest_virtual_addr))) (\<lambda>pde.
      let pt_gpa = pde AND 0xFFFFF000
      in if pt_gpa = 0 then Some (Ret (Some False, vm))
         else
           let pt_hva = gpa_to_hva vm (ucast pt_gpa);
               pte_hva = pt_hva + 4 * (drop_bit 12 guest_virtual_addr AND 0x3FF)
           in hbind (access (host_load32 vm pte_hva)) (\<lambda>pte.
              hbind (Some (free_physical_pages (ucast (pte AND 0xFFFFF000)) 1 vm)) (\<lambda>(_, vm).
              hbind (access (host_store32 pte_hva 0 vm)) (\<lambda>vm.
              hax_unmap_loop n page_dir_hva (guest_virtual_addr + 0x1000) vm))))"

definition hax_unmap_pages :: "u64 \<Rightarrow> int \<Rightarrow> HAXM_VM \<Rightarrow> (bool option \<times> HAXM_VM) host option" where
  "hax_unmap_pages guest_virtual_addr pages vm =
    hax_unmap_loop (nat pages) (gpa_to_hva vm (m_page_dir_physical_addr vm)) guest_virtual_addr vm"

section \<open>Translation between guest and host addresses\<close>

text \<open>Blocks that overlap neither in the guest nor in the host, and do not wrap around.\<close>

definition separate :: "u64 \<Rightarrow> u32 \<Rightarrow> u64 \<Rightarrow> u32 \<Rightarrow> bool" where
  "separate a n b k \<longleftrightarrow> unat a + unat n \<le> unat b \<or> unat b + unat k \<le> unat a"

definition no_wrap :: "u64 \<Rightarrow> u32 \<Rightarrow> bool" where
  "no_wrap a n \<longleftrightarrow> unat a + unat n < 2 ^ 64"

definition blocks_separate :: "VM_MEM_BLOCK \<Rightarrow> VM_MEM_BLOCK \<Rightarrow> bool" where
  "blocks_separate b c \<longleftrightarrow>
    separate (host_virtual_address b) (block_size b) (host_virtual_address c) (block_size c) \<and>
    separate (guest_physical_addrress b) (block_size b) (guest_physical_addrress c) (block_size c)"

definition blocks_ok :: "HAXM_VM \<Rightarrow> bool" where
  "blocks_ok vm \<longleftrightarrow>
    (\<forall>b\<in>snd ` set (m_mem_blocks vm). no_wrap (host_virtual_address b) (block_size b) \<and>
       no_wrap (guest_physical_addrress b) (block_size b) \<and>
       (\<forall>c\<in>snd ` set (m_mem_blocks vm). c \<noteq> b \<longrightarrow> blocks_separate b c))"

lemma in_range_unat:
  assumes "no_wrap s n"
  shows "in_range s n a \<longleftrightarrow> unat s \<le> unat a \<and> unat a < unat s + unat n"
proof -
  have "unat (ucast n :: u64) = unat n"
    by (simp add: unsigned_ucast_eq take_bit_nat_eq_self_iff less_trans [OF unsigned_less])
  then have "unat (s + ucast n) = unat s + unat n"
    using assms by (simp add: no_wrap_def unat_word_ariths)
  then show ?thesis by (simp add: in_range_def word_le_nat_alt word_less_nat_alt)
qed

lemma in_range_separate:
  assumes "no_wrap s n" "no_wrap t k" "separate s n t k" "in_range s n a"
  shows "\<not> in_range t k a"
  using assms by (auto simp: in_range_unat separate_def)

lemma in_range_offset:
  assumes "no_wrap s n" "no_wrap t n" "in_range s n a"
  shows "in_range t n (t + (a - s))"
proof -
  have *: "unat s \<le> unat a" "unat a < unat s + unat n" using assms(1,3) by (simp_all add: in_range_unat)
  then have "unat (a - s) = unat a - unat s" by (simp add: unat_sub word_le_nat_alt)
  then have "unat (t + (a - s)) = unat t + (unat a - unat s)"
    using * assms(2) by (simp add: no_wrap_def unat_word_ariths)
  then have "unat t \<le> unat (t + (a - s))" "unat (t + (a - s)) < unat t + unat n" using * by linarith+
  then show ?thesis using assms(2) by (simp add: in_range_unat)
qed

lemma find_unique:
  assumes "x \<in> set xs" "P (snd x)" "\<And>y. y \<in> set xs \<Longrightarrow> P (snd y) \<Longrightarrow> snd y = snd x"
  shows "\<exists>y. find (\<lambda>x. P (snd x)) xs = Some y \<and> snd y = snd x"
  using assms
proof (induction xs)
  case (Cons z zs)
  show ?case
  proof (cases "P (snd z)")
    case True
    then show ?thesis using Cons.prems(3) [of z] by simp
  next
    case False
    then have "x \<in> set zs" using Cons.prems(1,2) by auto
    then have "\<exists>y. find (\<lambda>x. P (snd x)) zs = Some y \<and> snd y = snd x"
      by (rule Cons.IH [OF _ Cons.prems(2)]) (rule Cons.prems(3), simp)
    with False show ?thesis by simp
  qed
qed simp

lemma gpa_to_hva_block:
  assumes "blocks_ok vm" "b \<in> snd ` set (m_mem_blocks vm)" "in_range (guest_physical_addrress b) (block_size b) gpa"
  shows "gpa_to_hva vm gpa = host_virtual_address b + (gpa - guest_physical_addrress b)"
proof -
  obtain it where it: "it \<in> set (m_mem_blocks vm)" "snd it = b" using assms(2) by auto
  have "snd y = snd it" if "y \<in> set (m_mem_blocks vm)"
    "in_range (guest_physical_addrress (snd y)) (block_size (snd y)) gpa" for y
  proof (rule ccontr)
    assume "snd y \<noteq> snd it"
    then have "blocks_separate b (snd y)" "no_wrap (guest_physical_addrress b) (block_size b)"
      "no_wrap (guest_physical_addrress (snd y)) (block_size (snd y))"
      using assms(1,2) that(1) it(2) unfolding blocks_ok_def by auto
    with that(2) assms(3) show False using in_range_separate unfolding blocks_separate_def by blast
  qed
  from find_unique [OF it(1), where P = "\<lambda>b. in_range (guest_physical_addrress b) (block_size b) gpa", OF _ this]
  show ?thesis using assms(3) it(2) unfolding gpa_to_hva_def by auto
qed

lemma hva_to_gpa_block:
  assumes "blocks_ok vm" "b \<in> snd ` set (m_mem_blocks vm)" "in_range (host_virtual_address b) (block_size b) hva"
  shows "hva_to_gpa vm hva = guest_physical_addrress b + (hva - host_virtual_address b)"
proof -
  obtain it where it: "it \<in> set (m_mem_blocks vm)" "snd it = b" using assms(2) by auto
  have "snd y = snd it" if "y \<in> set (m_mem_blocks vm)"
    "in_range (host_virtual_address (snd y)) (block_size (snd y)) hva" for y
  proof (rule ccontr)
    assume "snd y \<noteq> snd it"
    then have "blocks_separate b (snd y)" "no_wrap (host_virtual_address b) (block_size b)"
      "no_wrap (host_virtual_address (snd y)) (block_size (snd y))"
      using assms(1,2) that(1) it(2) unfolding blocks_ok_def by auto
    with that(2) assms(3) show False using in_range_separate unfolding blocks_separate_def by blast
  qed
  from find_unique [OF it(1), where P = "\<lambda>b. in_range (host_virtual_address b) (block_size b) hva", OF _ this]
  show ?thesis using assms(3) it(2) unfolding hva_to_gpa_def by auto
qed

lemma map_assign_new:
  assumes "map_of m k = None"
  shows "set (map_assign k v m) = insert (k, v) (set m)" "map_of (map_assign k v m) = (map_of m)(k \<mapsto> v)"
    "map_assign k v' (map_assign k v m) = map_assign k v' m"
  using assms by (induction m) (auto simp: fun_eq_iff split: if_splits)

text \<open>
  C20: Attaching memory to the machine.  When the driver grants both requests, \<open>hax_populate_ram\<close> and
  then \<open>hax_set_phys_mem\<close> add a block; if it overlaps no other block in the host or in the guest, the
  blocks of the machine stay separate, every address of the new block is translated to its place
  in the host and back, and the translation of all addresses of other blocks is the one it was.
\<close>
theorem attach_memory:
  assumes "blocks_ok vm" "no_wrap hva sz" "no_wrap gpa sz" "\<And>reqs. dev reqs"
    and "map_of (m_mem_blocks vm) hva = None"
    and "\<And>b. b \<in> snd ` set (m_mem_blocks vm) \<Longrightarrow>
      blocks_separate b \<lparr>host_virtual_address = hva, guest_physical_addrress = gpa, block_size = sz\<rparr>"
    and "hax_populate_ram dev hva sz vm = (ok1, vm1)" "hax_set_phys_mem dev gpa n hva vm1 = (ok2, vm2)"
  shows "ok1 \<and> ok2 \<and> blocks_ok vm2 \<and>
    (\<forall>a. in_range gpa sz a \<longrightarrow> gpa_to_hva vm2 a = hva + (a - gpa) \<and> hva_to_gpa vm2 (hva + (a - gpa)) = a) \<and>
    (\<forall>b a. b \<in> snd ` set (m_mem_blocks vm) \<longrightarrow> in_range (guest_physical_addrress b) (block_size b) a \<longrightarrow>
       gpa_to_hva vm2 a = gpa_to_hva vm a \<and> hva_to_gpa vm2 (gpa_to_hva vm2 a) = a)"
proof -
  let ?b = "\<lparr>host_virtual_address = hva, guest_physical_addrress = gpa, block_size = sz\<rparr>"
  have vm1: "ok1" "m_mem_blocks vm1 = map_assign hva
      \<lparr>host_virtual_address = hva, guest_physical_addrress = 0, block_size = sz\<rparr> (m_mem_blocks vm)"
    using assms(4,5,7) by (auto simp: hax_populate_ram_def Let_def)
  have vm2: "ok2" "m_mem_blocks vm2 = map_assign hva ?b (m_mem_blocks vm)"
    using assms(4,8) vm1(2) by (auto simp: hax_set_phys_mem_def Let_def map_assign_new [OF assms(5)])
  have blocks: "snd ` set (m_mem_blocks vm2) = insert ?b (snd ` set (m_mem_blocks vm))"
    unfolding vm2(2) map_assign_new(1) [OF assms(5)] by simp
  have sym: "blocks_separate c d = blocks_separate d c" for c d
    unfolding blocks_separate_def separate_def by blast
  have old: "no_wrap (host_virtual_address b) (block_size b) \<and> no_wrap (guest_physical_addrress b) (block_size b) \<and>
      (\<forall>c\<in>insert ?b (snd ` set (m_mem_blocks vm)). c \<noteq> b \<longrightarrow> blocks_separate b c)"
    if "b \<in> snd ` set (m_mem_blocks vm)" for b
    using assms(1) assms(6) [OF that] that unfolding blocks_ok_def by blast
  have new: "no_wrap (host_virtual_address ?b) (block_size ?b) \<and> no_wrap (guest_physical_addrress ?b) (block_size ?b) \<and>
      (\<forall>c\<in>insert ?b (snd ` set (m_mem_blocks vm)). c \<noteq> ?b \<longrightarrow> blocks_separate ?b c)"
    using assms(2,3) assms(6) unfolding sym [of ?b] by simp
  have ok: "blocks_ok vm2" unfolding blocks_ok_def blocks using old new by blast
  have both: "gpa_to_hva vm2 a = host_virtual_address b + (a - guest_physical_addrress b)"
    "hva_to_gpa vm2 (host_virtual_address b + (a - guest_physical_addrress b)) = a"
    if "b \<in> snd ` set (m_mem_blocks vm2)" "in_range (guest_physical_addrress b) (block_size b) a" for a b
  proof -
    show "gpa_to_hva vm2 a = host_virtual_address b + (a - guest_physical_addrress b)"
      by (rule gpa_to_hva_block [OF ok that])
    have "in_range (host_virtual_address b) (block_size b) (host_virtual_address b + (a - guest_physical_addrress b))"
      using ok that unfolding blocks_ok_def by (blast intro: in_range_offset)
    from hva_to_gpa_block [OF ok that(1) this]
    show "hva_to_gpa vm2 (host_virtual_address b + (a - guest_physical_addrress b)) = a" by simp
  qed
  have "gpa_to_hva vm2 a = hva + (a - gpa) \<and> hva_to_gpa vm2 (hva + (a - gpa)) = a" if "in_range gpa sz a" for a
    using both [of ?b a] that unfolding blocks by simp
  moreover have "gpa_to_hva vm2 a = gpa_to_hva vm a \<and> hva_to_gpa vm2 (gpa_to_hva vm2 a) = a"
    if "b \<in> snd ` set (m_mem_blocks vm)" "in_range (guest_physical_addrress b) (block_size b) a" for a b
    using both [of b a] gpa_to_hva_block [OF assms(1) that] that unfolding blocks by simp
  ultimately show ?thesis using vm1(1) vm2(1) ok by blast
qed

definition vm_sample :: HAXM_VM where
  "vm_sample =
    \<lparr>m_mem_blocks = [(0x20000, \<lparr>host_virtual_address = 0x20000, guest_physical_addrress = 0, block_size = 0x10000\<rparr>)],
     m_page_dir_physical_addr = 0, m_page_dir_virtual_addr = 0,
     host_mem = (\<lambda>a. if a = 0x20002 then FRAME_FREE else FRAME_USED), ioctls = []\<rparr>"

theorem attach_memory_witness:
  "let (ok1, vm1) = hax_populate_ram (\<lambda>_. True) 0x50000 0x8000 vm_sample;
       (ok2, vm2) = hax_set_phys_mem (\<lambda>_. True) 0x10000 0x8000 0x50000 vm1
   in ok1 \<and> ok2 \<and> gpa_to_hva vm2 0x10123 = 0x50123 \<and> hva_to_gpa vm2 0x50123 = 0x10123"
proof -
  obtain ok1 vm1 where 1: "hax_populate_ram (\<lambda>_. True) 0x50000 0x8000 vm_sample = (ok1, vm1)" by fastforce
  obtain ok2 vm2 where 2: "hax_set_phys_mem (\<lambda>_. True) 0x10000 0x8000 0x50000 vm1 = (ok2, vm2)" by fastforce
  have sep: "blocks_separate b \<lparr>host_virtual_address = 0x50000, guest_physical_addrress = 0x10000, block_size = 0x8000\<rparr>"
    if "b \<in> snd ` set (m_mem_blocks vm_sample)" for b
    using that by (simp add: vm_sample_def blocks_separate_def separate_def)
  have ok: "blocks_ok vm_sample" by (simp add: blocks_ok_def vm_sample_def no_wrap_def)
  have new: "no_wrap 0x50000 0x8000" "no_wrap 0x10000 0x8000" "map_of (m_mem_blocks vm_sample) 0x50000 = None"
    by (simp_all add: no_wrap_def vm_sample_def)
  have at: "in_range 0x10000 0x8000 0x10123" by (simp add: in_range_def)
  have "ok1 \<and> ok2" and "gpa_to_hva vm2 0x10123 = 0x50000 + (0x10123 - 0x10000)"
    and "hva_to_gpa vm2 (0x50000 + (0x10123 - 0x10000)) = 0x10123"
    using attach_memory [OF ok new(1,2) TrueI new(3) sep 1 2] at by blast+
  then show ?thesis by (simp add: 1 2)
qed

text \<open>
  a block that is populated but not yet given a guest address counts as a block at guest address
  0: when its host address is lower, it takes over the translation of the memory that is there.
\<close>
lemma populate_shadows:
  assumes "m_mem_blocks vm = [(h, \<lparr>host_virtual_address = h, guest_physical_addrress = 0, block_size = n\<rparr>)]"
    and "h' < h" "a < ucast n" "a < ucast n'" "\<And>reqs. dev reqs"
  shows "gpa_to_hva vm a = h + a \<and> gpa_to_hva (snd (hax_populate_ram dev h' n' vm)) a = h' + a"
proof -
  have "h \<noteq> h'" using assms(2) by auto
  then have "m_mem_blocks (snd (hax_populate_ram dev h' n' vm)) =
      (h', \<lparr>host_virtual_address = h', guest_physical_addrress = 0, block_size = n'\<rparr>) # m_mem_blocks vm"
    using assms(2,5) by (simp add: hax_populate_ram_def Let_def assms(1))
  with assms(3,4) show ?thesis by (simp add: gpa_to_hva_def assms(1) in_range_def)
qed

section \<open>The search for free frames\<close>

definition frame :: "HAXM_VM \<Rightarrow> int \<Rightarrow> u8 option" where
  "frame vm k = host_byte vm (gpa_to_hva vm FRAME_DATABASE_GPA + word_of_int k)"

definition frame_taken :: "HAXM_VM \<Rightarrow> int \<Rightarrow> bool" where
  "frame_taken vm k \<longleftrightarrow> (case frame vm k of None \<Rightarrow> False | Some b \<Rightarrow> b \<noteq> FRAME_FREE)"

abbreviation (input) run_at :: "HAXM_VM \<Rightarrow> int \<Rightarrow> int \<Rightarrow> int \<Rightarrow> int host" where
  "run_at vm \<equiv> run_length vm (gpa_to_hva vm FRAME_DATABASE_GPA)"

lemma run_length_found:
  assumes "run_at vm i j pages = Ret r"
  shows "j \<le> r" "\<And>x. j \<le> x \<Longrightarrow> x < r \<Longrightarrow> frame vm (i + x) = Some FRAME_FREE"
proof -
  have "j \<le> r \<and> (\<forall>x. j \<le> x \<longrightarrow> x < r \<longrightarrow> frame vm (i + x) = Some FRAME_FREE)"
    using assms
  proof (induction vm "gpa_to_hva vm FRAME_DATABASE_GPA" i j pages rule: run_length.induct)
    case (1 vm i j pages)
    show ?case
    proof (cases "j < pages \<and> frame vm (i + j) = Some FRAME_FREE")
      case True
      then have "run_at vm i (j + 1) pages = Ret r"
        using 1(2) by (simp add: run_length.simps [of _ _ _ j] frame_def)
      from 1(1) [OF _ _ _ this] True
      have "j + 1 \<le> r \<and> (\<forall>x. j + 1 \<le> x \<longrightarrow> x < r \<longrightarrow> frame vm (i + x) = Some FRAME_FREE)"
        by (simp add: frame_def)
      moreover have "frame vm (i + x) = Some FRAME_FREE" if "j \<le> x" "\<not> j + 1 \<le> x" for x
      proof -
        have "x = j" using that by linarith
        with True show ?thesis by simp
      qed
      ultimately show ?thesis by fastforce
    next
      case False
      then have "r = j"
        using 1(2) by (auto simp: run_length.simps [of _ _ _ j] frame_def split: if_splits option.splits)
      then show ?thesis by simp
    qed
  qed
  then show "j \<le> r" "\<And>x. j \<le> x \<Longrightarrow> x < r \<Longrightarrow> frame vm (i + x) = Some FRAME_FREE" by blast+
qed

lemma run_length_free:
  assumes "j \<le> r" "r \<le> pages" "\<And>x. j \<le> x \<Longrightarrow> x < r \<Longrightarrow> frame vm (i + x) = Some FRAME_FREE"
    and "r < pages \<Longrightarrow> frame_taken vm (i + r)"
  shows "run_at vm i j pages = Ret r"
  using assms
proof (induction "nat (r - j)" arbitrary: j)
  case 0
  then have j: "j = r" by simp
  show ?case unfolding j
    by (subst run_length.simps, cases "r < pages")
      (use 0 in \<open>auto simp: frame_taken_def frame_def split: option.splits\<close>)
next
  case (Suc n)
  then have j: "j < r" "frame vm (i + j) = Some FRAME_FREE" by simp_all
  have "run_at vm i (j + 1) pages = Ret r" using Suc.hyps(2) Suc.prems j(1) by (intro Suc.hyps(1)) simp_all
  then show ?case using j Suc.prems(2) by (simp add: run_length.simps [of _ _ _ j] frame_def)
qed

abbreviation (input) scan_at :: "int \<Rightarrow> int \<Rightarrow> HAXM_VM \<Rightarrow> (u64 \<times> HAXM_VM) host option" where
  "scan_at pages i vm \<equiv> alloc_scan (gpa_to_hva vm FRAME_DATABASE_GPA) pages i vm"

abbreviation (input) claim :: "int \<Rightarrow> int \<Rightarrow> HAXM_VM \<Rightarrow> HAXM_VM option" where
  "claim i pages vm \<equiv> host_fill (gpa_to_hva vm FRAME_DATABASE_GPA + word_of_int i) FRAME_USED pages vm"

lemma alloc_scan_skip:
  assumes "i \<le> f" "f < FRAME_DATABASE_SIZE" "\<And>k. i \<le> k \<Longrightarrow> k < f \<Longrightarrow> frame_taken vm k"
  shows "scan_at pages i vm = scan_at pages f vm"
  using assms
proof (induction "nat (f - i)" arbitrary: i)
  case (Suc n)
  then have "frame_taken vm i" "i < FRAME_DATABASE_SIZE" by simp_all
  then have "scan_at pages i vm = scan_at pages (i + 1) vm"
    by (subst alloc_scan.simps) (auto simp: frame_taken_def frame_def split: option.splits)
  also have "\<dots> = scan_at pages f vm" using Suc.hyps(2) Suc.prems by (intro Suc.hyps(1)) simp_all
  finally show ?case .
qed simp

lemma alloc_scan_hit:
  assumes "f < FRAME_DATABASE_SIZE" "1 \<le> pages" "\<And>k. f \<le> k \<Longrightarrow> k < f + pages \<Longrightarrow> frame vm k = Some FRAME_FREE"
  shows "scan_at pages f vm =
    (case claim f pages vm of None \<Rightarrow> Some Crash | Some vm' \<Rightarrow> Some (Ret (PAGE_ADDRESS f, vm')))"
proof -
  have "run_at vm f 1 pages = Ret pages" using assms by (intro run_length_free) simp_all
  moreover have "frame vm f = Some FRAME_FREE" using assms by simp
  ultimately show ?thesis using assms(1) by (subst alloc_scan.simps) (simp add: frame_def)
qed

text \<open>
  A run that is too short, and shorter than the index it lies at, sends the search back below the
  first free frame: it goes round for ever.
\<close>

lemmas alloc_scan_induct = alloc_scan.raw_induct [rotated, consumes 1, case_names step]

lemma alloc_scan_diverges:
  assumes "0 \<le> i" "i \<le> f" "f < FRAME_DATABASE_SIZE" "\<And>k. 0 \<le> k \<Longrightarrow> k < f \<Longrightarrow> frame_taken vm k"
    and "frame vm f = Some FRAME_FREE" "run_at vm f 1 pages = Ret r" "0 \<le> r" "r < f" "r \<noteq> pages"
  shows "scan_at pages i vm = None"
proof -
  have "a = gpa_to_hva vm FRAME_DATABASE_GPA \<and> p = pages \<and> v = vm \<longrightarrow> \<not> (0 \<le> i \<and> i \<le> f)"
    if "alloc_scan a p i v = Some y" for a p i v y
    using that
  proof (induction rule: alloc_scan_induct)
    case (step g a p i v y)
    show ?case
    proof (intro impI notI)
      assume at: "a = gpa_to_hva vm FRAME_DATABASE_GPA \<and> p = pages \<and> v = vm" and i: "0 \<le> i \<and> i \<le> f"
      have next_fails: "g a p i' v \<noteq> Some y" if "0 \<le> i'" "i' \<le> f" for i'
        using step(1) [of a p i' v y] at that by blast
      show False
      proof (cases "i = f")
        case True
        then show ?thesis using step(2) next_fails [of "r + 1"] assms(3,5-9) at by (simp add: frame_def)
      next
        case False
        then have "i < f" using i by simp
        moreover from this have "frame_taken vm i" using assms(4) i by simp
        ultimately show ?thesis using step(2) next_fails [of "i + 1"] assms(3) at i
          by (auto simp: frame_taken_def frame_def split: option.splits)
      qed
    qed
  qed
  then show ?thesis using assms(1,2) by (cases "scan_at pages i vm") blast+
qed

text \<open>
  C22: the search for a run of frames looks at the first free frame.  If it begins a run that is long
  enough, its frames are claimed and its address is returned.  If the run is too short, and lies at
  an index above its length, the search never returns, whatever is free above: the frame index is
  set to the length of the run, which sends it back below that first free frame.
\<close>
theorem alloc_first_run:
  assumes "0 \<le> f" "f < FRAME_DATABASE_SIZE" "\<And>k. 0 \<le> k \<Longrightarrow> k < f \<Longrightarrow> frame_taken vm k"
    and "1 \<le> run" "\<And>k. f \<le> k \<Longrightarrow> k < f + run \<Longrightarrow> frame vm k = Some FRAME_FREE" "frame_taken vm (f + run)"
    and "1 \<le> pages" "run < pages \<Longrightarrow> run < f"
  shows "alloc_physical_pages pages vm =
    (if pages \<le> run
     then case host_fill (gpa_to_hva vm FRAME_DATABASE_GPA + word_of_int f) FRAME_USED pages vm of
            None \<Rightarrow> Some Crash
          | Some vm' \<Rightarrow> Some (Ret (PAGE_ADDRESS f, vm'))
     else None)"
proof (cases "pages \<le> run")
  case True
  have "alloc_physical_pages pages vm = scan_at pages f vm"
    unfolding alloc_physical_pages_def by (rule alloc_scan_skip) (use assms(1-3) in simp_all)
  also have "\<dots> = (case claim f pages vm of None \<Rightarrow> Some Crash | Some vm' \<Rightarrow> Some (Ret (PAGE_ADDRESS f, vm')))"
    by (rule alloc_scan_hit) (use assms(2,5,7) True in simp_all)
  finally show ?thesis using True by simp
next
  case False
  have "run_at vm f 1 pages = Ret run"
    by (rule run_length_free) (use assms(4-6) False in simp_all)
  then show ?thesis
    using alloc_scan_diverges [of 0 f vm pages run] assms False by (simp add: alloc_physical_pages_def)
qed

lemma sample_frames:
  "0 \<le> k \<Longrightarrow> k < 2 \<Longrightarrow> frame_taken vm_sample k" "frame vm_sample 2 = Some FRAME_FREE" "frame_taken vm_sample 3"
  "gpa_to_hva vm_sample 0 = 0x20000"
  "host_fill (0x20000 + word_of_int 2) FRAME_USED 1 vm_sample = Some (vm_sample\<lparr>host_mem := \<lambda>_. FRAME_USED\<rparr>)"
proof -
  have frame: "frame vm_sample k = Some (if k = 2 then FRAME_FREE else FRAME_USED)" if "k \<in> {0, 1, 2, 3}" for k
    using that by (auto simp: frame_def vm_sample_def gpa_to_hva_def host_byte_def host_valid_def in_range_def)
  show "frame_taken vm_sample k" if "0 \<le> k" "k < 2"
  proof -
    have "k \<in> {0, 1, 2, 3}" "k \<noteq> 2" using that by auto
    then show ?thesis by (simp only: frame_taken_def frame) simp
  qed
  show "frame vm_sample 2 = Some FRAME_FREE" "frame_taken vm_sample 3" by (simp_all add: frame_taken_def frame)
  show "host_fill (0x20000 + word_of_int 2) FRAME_USED 1 vm_sample = Some (vm_sample\<lparr>host_mem := \<lambda>_. FRAME_USED\<rparr>)"
    by (auto simp: host_fill_def host_valid_def in_range_def vm_sample_def fun_eq_iff)
  show "gpa_to_hva vm_sample 0 = 0x20000" by (simp add: gpa_to_hva_def vm_sample_def in_range_def)
qed

lemma sample_alloc:
  "alloc_physical_pages 1 vm_sample = Some (Ret (0x2000, vm_sample\<lparr>host_mem := \<lambda>_. FRAME_USED\<rparr>))"
proof -
  have at: "frame vm_sample k = Some FRAME_FREE" if "2 \<le> k" "k < 2 + 1" for k
  proof -
    have "k = 2" using that by simp
    then show ?thesis by (simp add: sample_frames)
  qed
  have "alloc_physical_pages 1 vm_sample = scan_at 1 2 vm_sample"
    unfolding alloc_physical_pages_def by (rule alloc_scan_skip) (simp_all add: sample_frames)
  then show ?thesis using alloc_scan_hit [of 2 1 vm_sample] at sample_frames(5) unfolding sample_frames(4) by simp
qed

theorem alloc_first_run_witness: "alloc_physical_pages 2 vm_sample = None"
proof -
  have "frame vm_sample k = Some FRAME_FREE" if "2 \<le> k" "k < 2 + 1" for k
  proof -
    have "k = 2" using that by simp
    then show ?thesis by (simp add: sample_frames)
  qed
  then show ?thesis using alloc_first_run [of 2 vm_sample 1 2] sample_frames by simp
qed

text \<open>
  C21: what the allocator returns was free.  When it ends with the address of frame \<open>k\<close>, all the frames
  of the request were free and are now in use, and nothing else in the host's memory has changed;
  otherwise it leaves everything as it was.
\<close>
theorem alloc_takes_free_frames:
  assumes "alloc_physical_pages pages vm = Some (Ret (pa, vm'))"
  shows "pa = 0 \<and> vm' = vm \<or>
    (\<exists>k. 0 \<le> k \<and> k < FRAME_DATABASE_SIZE \<and> pa = PAGE_ADDRESS k \<and> 1 \<le> pages \<and>
      (\<forall>x. 0 \<le> x \<longrightarrow> x < pages \<longrightarrow> frame vm (k + x) = Some FRAME_FREE) \<and>
      host_fill (gpa_to_hva vm FRAME_DATABASE_GPA + word_of_int k) FRAME_USED pages vm = Some vm')"
proof -
  let ?result = "pa = 0 \<and> vm' = vm \<or>
    (\<exists>k. 0 \<le> k \<and> k < FRAME_DATABASE_SIZE \<and> pa = PAGE_ADDRESS k \<and> 1 \<le> pages \<and>
      (\<forall>x. 0 \<le> x \<longrightarrow> x < pages \<longrightarrow> frame vm (k + x) = Some FRAME_FREE) \<and> claim k pages vm = Some vm')"
  have "a = gpa_to_hva vm FRAME_DATABASE_GPA \<and> p = pages \<and> v = vm \<and> 0 \<le> i \<and> y = Ret (pa, vm') \<longrightarrow> ?result"
    if "alloc_scan a p i v = Some y" for a p i v y
    using that
  proof (induction rule: alloc_scan_induct)
    case (step g a p i v y)
    show ?case
    proof
      assume at: "a = gpa_to_hva vm FRAME_DATABASE_GPA \<and> p = pages \<and> v = vm \<and> 0 \<le> i \<and> y = Ret (pa, vm')"
      have again: ?result if "g a p i' v = Some y" "0 \<le> i'" for i'
        using step(1) [OF that(1)] at that(2) by blast
      note run = step(2)
      consider "\<not> i < FRAME_DATABASE_SIZE" | "i < FRAME_DATABASE_SIZE" "frame_taken vm i"
        | r where "i < FRAME_DATABASE_SIZE" "frame vm i = Some FRAME_FREE" "run_at vm i 1 pages = Ret r"
        using run at by (auto simp: frame_taken_def frame_def split: option.splits if_splits host.splits)
      then show ?result
      proof cases
        case 1
        then show ?thesis using run at by simp
      next
        case 2
        then have "g a p (i + 1) v = Some y"
          using run at by (auto simp: frame_taken_def frame_def split: option.splits)
        from again [OF this] show ?thesis using at by simp
      next
        case 3
        show ?thesis
        proof (cases "r = pages")
          case False
          then have "g a p (r + 1) v = Some y" using 3 run at by (simp add: frame_def)
          from again [OF this] show ?thesis using run_length_found(1) [OF 3(3)] by simp
        next
          case True
          then have "pa = PAGE_ADDRESS i" "claim i pages vm = Some vm'"
            using 3 run at by (auto simp: frame_def split: option.splits)
          moreover have "frame vm (i + x) = Some FRAME_FREE" if "0 \<le> x" "x < pages" for x
            using run_length_found(2) [OF 3(3), of x] 3(2) that True by (cases "x = 0") simp_all
          ultimately show ?thesis using 3(1) at run_length_found(1) [OF 3(3)] True by blast
        qed
      qed
    qed
  qed
  then show ?thesis using assms unfolding alloc_physical_pages_def by blast
qed

theorem alloc_takes_free_frames_witness:
  "\<exists>k. (0x2000 :: u64) = PAGE_ADDRESS k \<and> frame vm_sample k = Some FRAME_FREE"
  using alloc_takes_free_frames [OF sample_alloc] by fastforce

end
