(* ===== verification/Spec2Isabelle.thy ===== *)
theory Spec2Isabelle
  imports CondCodes ControlRegs Bus SvmExit SvmRun SmmHelper ExcpHelper IntHelper ShiftHelper Mmu MmuWalk
    SseOps SseStrings DebugRegs MemHelper MiscHelper SegDesc Interrupts FarCalls RingTransfers
    TcgOps GenCond CondJumps GenOps AluCode
    BootPaging GuestPaging GuestDesc HaxVm
begin

text \<open>
  ShellcodeVM runs position-independent machine code in a virtual x86-64 processor.  Its core
  is the processor model in \<open>ShellcodeVM/target-i386\<close> (the i386 target of QEMU): the state
  record of \<open>cpu.h\<close> and the helper functions that generated code calls for everything that is
  more than a host instruction.  Around it are the boot code (\<open>Boot\<close>) and a small kernel
  (\<open>GuestOS\<close>) that run in the machine, and the host side that gives the machine its memory
  (\<open>ShellcodeVM/HAXM_VM.h\<close>).  This development models the helpers, and of the rest the parts that
  decide what an address means: page tables, descriptor tables, memory blocks and frames.

  \<^bold>\<open>How the parts interact.\<close>  All helpers work on one record, \<open>CPUX86State\<close>.  A helper returns
  to the generated code or leaves for the main loop with \<open>cpu_loop_exit\<close> (a \<open>longjmp\<close>); the
  type \<open>outcome\<close> of \<open>Prelude\<close> has both.  Guest memory is reached through the soft MMU and
  through physical accesses, whose code is outside the repository: they are the functions of
  the record \<open>bus\<close>, a parameter, and memory is in the extension of the state record.  \<open>Bus\<close>
  states the laws that the accesses are relied on to satisfy (\<open>phys_ram\<close>, \<open>virt_ram\<close>) and gives
  an instance, \<open>flat_bus\<close>.  External calls without a result in the modelled state (\<open>tlb_flush\<close>,
  \<open>cpu_interrupt\<close>, ...) are recorded in order in \<open>ext_calls\<close>.  The boot code and the guest pager
  run on this processor model: their stores to page tables are translated, or not, by the walk
  that \<open>Mmu\<close> models, and the guest's descriptors are read by the descriptor access of \<open>SegDesc\<close>.

  \<^bold>\<open>Theories: the processor.\<close>
  \<^item> \<open>Prelude\<close>: outcomes, straight-line blocks, machines with an invariant, bits and carries.
  \<^item> \<open>CpuState\<close>: constants, the state record and the inline functions of \<open>cpu.h\<close>.
  \<^item> \<open>CondCodes\<close>: \<open>cc_helper.c\<close> and its template: the lazily computed flags are the
    architecture's flags of the unbounded sum or difference; writing and reading eflags.
  \<^item> \<open>ControlRegs\<close>: \<open>cpu_reset\<close> and the control register updates of \<open>helper.c\<close>: the hidden
    flags stay in agreement with the registers and segments they cache over any run; no change of the
    translation context goes without a TLB flush.
  \<^item> \<open>Bus\<close>: the laws of the physical accesses, and byte-addressed memory.  \<open>StoreBlocks\<close>: a block
    of stores to separate fields, each of which is read back.
  \<^item> \<open>SvmExit\<close>, \<open>SvmRun\<close>: \<open>svm_helper.c\<close>: the intercept tests, the permission maps, the world
    switch in both directions and the other SVM instructions.  VMRUN and the exit together give
    the host its state back, but for CR2 and, in one case, CR0.
  \<^item> \<open>SmmHelper\<close>: \<open>smm_helper.c\<close>: entry into system management mode and return from it.
  \<^item> \<open>ExcpHelper\<close>: \<open>excp_helper.c\<close>: delivery, double and triple faults.
  \<^item> \<open>IntHelper\<close>: \<open>int_helper.c\<close>: division, multiplication, decimal adjustment, bit scans.
  \<^item> \<open>ShiftHelper\<close>: \<open>shift_helper_template.h\<close>: the rotates through carry.
  \<^item> \<open>Lanes\<close>, \<open>SseOps\<close>, \<open>SseStrings\<close>: the integer part of \<open>ops_sse.h\<close>: the elements of a media
    register and assignments to them in place, packed arithmetic, permutations and packing, string
    comparison, CRC32, population count, carry-less product and AES.
  \<^item> \<open>Mmu\<close>: the fault handler and the debug walk of \<open>helper.c\<close>, \<open>tlb_fill\<close>: a filled entry grants
    the access, and what a fault reports.  \<open>MmuWalk\<close>: the walk refines a recursion over the
    levels of the tables without side effects.
  \<^item> \<open>DebugRegs\<close>: hardware breakpoints and machine checks.  \<open>MemHelper\<close>: \<open>mem_helper.c\<close>.
    \<open>MiscHelper\<close>: \<open>misc_helper.c\<close> and \<open>cpu_x86_cpuid\<close>: ports, control and model-specific registers.
  \<^item> \<open>SegDesc\<close>, \<open>Interrupts\<close>, \<open>FarCalls\<close>: \<open>seg_helper.c\<close>: descriptors and task switches, interrupt
    delivery, far transfers.  \<open>RingTransfers\<close>: what these may do to the privilege level, task
    switches included.
  \<^item> \<open>TcgOps\<close>: the operations that \<open>translate.c\<close> emits.  The library that compiles them is
    outside the repository: what an operation does is a parameter, and \<open>tcg_semantics\<close> states its
    documented behaviour (\<open>tcg_eval\<close> is an instance).  \<open>GenCond\<close>, \<open>GenOps\<close>: the translator's context,
    its handling of the lazy flag operation, the code of conditions, operands, two-operand
    instructions, increments, shifts and rotates.  \<open>CondJumps\<close>, \<open>AluCode\<close>: the code that is
    generated, run on the machine, jumps, computes and sets the flags as the architecture says,
    with the flags of \<open>CondCodes\<close> as the meaning of the lazy ones.

  \<^bold>\<open>Theories: boot code, guest and host.\<close>
  \<^item> \<open>BootPaging\<close>: \<open>Boot/main.cpp\<close> up to its jump into the kernel: the processor then translates
    exactly the layout of \<open>os.h\<close>, less its last row (the shellcode), with the kernel stack.
  \<^item> \<open>GuestPaging\<close>: \<open>map_pages\<close> and \<open>unmap_pages\<close> of \<open>GuestOS/paging.cpp\<close>, which reach the tables
    through their own mapping; an inductive argument keeps that mapping intact.  The
    translation cache is not modelled: the properties are of the page walk, with the flushes asked for.
  \<^item> \<open>GuestDesc\<close>: \<open>GuestOS/gdt.cpp\<close> and \<open>idt.cpp\<close>: what is set is what the processor reads.
  \<^item> \<open>HaxVm\<close>: \<open>HAXM_VM.h\<close>: memory blocks, the translation between guest and host addresses, the
    frame allocator and its page tables.

  \<^bold>\<open>Bounds and fuel.\<close>  The loop of \<open>div64\<close> runs 64 times and is a fold over 64 steps; the bit
  scans are \<open>partial_function (option)\<close>, and \<open>bit_scan_correct\<close> shows that they end on every
  operand but zero; so is the frame search \<open>alloc_scan\<close>, for which \<open>alloc_first_run\<close> says when it
  ends.  The loops over pages recurse on their page count.  Machine integers keep their width.

  \<^bold>\<open>Not modelled.\<close>  Logging and monitor output (pure I/O); of the code generator
  \<open>translate.c\<close> the decoder, the addressing modes, the string, stack, x87 and vector instructions;
  the floating point arithmetic, which is
  such a library; the hypervisor back ends (\<open>hax-*.c\<close>, \<open>kvm.c\<close>,
  \<open>HAXM_CPU.h\<close>), which move state through device control calls; the Windows host program; of the
  guest the inline assembly of its entry points and its console.
\<close>

end
